(* ===== verification/Prelude.thy ===== *)
theory Prelude
  imports Main "HOL-Library.List_Lexorder" "HOL-Library.Char_ord"
begin

text \<open>
  What every component shares: the Python exceptions of \<^verbatim>\<open>src/core/exceptions.py\<close> and the
  builtin ones the code raises or catches, the state-and-exception monad in which the
  asynchronous methods are written, and the operations of Python's \<^verbatim>\<open>str\<close> and \<^verbatim>\<open>int\<close>
  that the components use.  Strings are lists of code points below 256.
\<close>

named_theorems monad_simps \<open>unfolding of the combinators of the monad\<close>
named_theorems str_simps \<open>printing and parsing of strings\<close>

section \<open>Exceptions\<close>

datatype exn_class =
    PyException | PyValueError | PyTypeError | PyKeyError | PyIndexError | PyAttributeError | PyJSONDecodeError
  | PyOSError | PyTimeoutError | PyRuntimeError | PyRecursionError | PyNameError
  | RedisRedisError | RedisResponseError | RedisDataError
  | ASDLCError
  | ConfigurationError | EnvironmentError
  | RedisConnectionError | RedisOperationError | StreamError | ConsumerGroupError
  | TaskNotFoundError | TaskStateError | EventProcessingError | DuplicateEventError
  | AgentError | AgentTimeoutError | AgentExecutionError
  | GitOperationError | ArtifactNotFoundError | ArtifactValidationError
  | HITLError | GateApprovalError
  | HealthCheckError | DependencyHealthError
  | KnowledgeStoreError | DocumentNotFoundError | IndexingError | SearchError
  | EmbeddingError | BackendConnectionError
  | TenantError | TenantNotSetError | TenantNotAllowedError
  | RepoMapperError | ParseError | DependencyResolutionError
  | CoordinationError | MessageNotFoundError | PublishError | AcknowledgeError | PresenceError
  | RLMError | BudgetExceededError | RLMTimeoutError | RLMToolError | RLMCacheError
  | IngestionError
  | EvidenceValidationError | AgentNotFoundError

text \<open>The class statement's base class.\<close>

fun exn_base :: "exn_class \<Rightarrow> exn_class option" where
  "exn_base PyException = None"
| "exn_base PyJSONDecodeError = Some PyValueError"
| "exn_base PyTimeoutError = Some PyOSError"
| "exn_base PyRecursionError = Some PyRuntimeError"
| "exn_base RedisResponseError = Some RedisRedisError"
| "exn_base RedisDataError = Some RedisRedisError"
| "exn_base EnvironmentError = Some ConfigurationError"
| "exn_base ConsumerGroupError = Some StreamError"
| "exn_base DuplicateEventError = Some EventProcessingError"
| "exn_base AgentTimeoutError = Some AgentError"
| "exn_base AgentExecutionError = Some AgentError"
| "exn_base AgentNotFoundError = Some AgentError"
| "exn_base GateApprovalError = Some HITLError"
| "exn_base DependencyHealthError = Some HealthCheckError"
| "exn_base DocumentNotFoundError = Some KnowledgeStoreError"
| "exn_base IndexingError = Some KnowledgeStoreError"
| "exn_base SearchError = Some KnowledgeStoreError"
| "exn_base EmbeddingError = Some KnowledgeStoreError"
| "exn_base BackendConnectionError = Some KnowledgeStoreError"
| "exn_base TenantNotSetError = Some TenantError"
| "exn_base TenantNotAllowedError = Some TenantError"
| "exn_base ParseError = Some RepoMapperError"
| "exn_base DependencyResolutionError = Some RepoMapperError"
| "exn_base MessageNotFoundError = Some CoordinationError"
| "exn_base PublishError = Some CoordinationError"
| "exn_base AcknowledgeError = Some CoordinationError"
| "exn_base PresenceError = Some CoordinationError"
| "exn_base BudgetExceededError = Some RLMError"
| "exn_base RLMTimeoutError = Some RLMError"
| "exn_base RLMToolError = Some RLMError"
| "exn_base RLMCacheError = Some RLMError"
| "exn_base c =
     (if c \<in> {PyValueError, PyTypeError, PyKeyError, PyIndexError, PyAttributeError, PyOSError, PyRuntimeError, PyNameError, RedisRedisError, ASDLCError}
      then Some PyException else Some ASDLCError)"

text \<open>The inheritance chain; the deepest one has four classes, so five steps reach the root.\<close>

fun exn_mro :: "nat \<Rightarrow> exn_class \<Rightarrow> exn_class list" where
  "exn_mro 0 c = []"
| "exn_mro (Suc n) c =
     c # (case exn_base c of None \<Rightarrow> [] | Some b \<Rightarrow> exn_mro n b)"

definition isinstance_exn :: "exn_class \<Rightarrow> exn_class \<Rightarrow> bool" where
  "isinstance_exn c d \<longleftrightarrow> d \<in> set (exn_mro 5 c)"

lemma exn_mro_reaches_root: "PyException \<in> set (exn_mro 5 c)"
  by (cases c) (simp_all add: eval_nat_numeral)

datatype exn = Exn (class_of: exn_class) (message_of: string)

section \<open>State and exceptions\<close>

text \<open>
  A method of the program is a function from the state of the world to a result, an
  exception or a value, and the state it leaves.  An exception does not undo what was
  written before it was raised.
\<close>

type_synonym ('s, 'a) io = "'s \<Rightarrow> (exn + 'a) \<times> 's"

definition ret :: "'a \<Rightarrow> ('s, 'a) io" where
  "ret x s = (Inr x, s)"

definition raise :: "exn \<Rightarrow> ('s, 'a) io" where
  "raise e s = (Inl e, s)"

definition lift_result :: "exn + 'a \<Rightarrow> ('s, 'a) io" where
  "lift_result r s = (r, s)"

definition bindE :: "('s, 'a) io \<Rightarrow> ('a \<Rightarrow> ('s, 'b) io) \<Rightarrow> ('s, 'b) io" where
  "bindE m f s =
     (case fst (m s) of Inl e \<Rightarrow> (Inl e, snd (m s)) | Inr x \<Rightarrow> f x (snd (m s)))"

definition thenE :: "('s, 'a) io \<Rightarrow> ('s, 'b) io \<Rightarrow> ('s, 'b) io" where
  "thenE m n = bindE m (\<lambda>_. n)"

text \<open>\<open>try_except m p h\<close> is \<^verbatim>\<open>try: m except E as e: h(e)\<close>, where \<open>p\<close> says which classes are caught.\<close>

definition try_except ::
  "('s, 'a) io \<Rightarrow> (exn_class \<Rightarrow> bool) \<Rightarrow> (exn \<Rightarrow> ('s, 'a) io) \<Rightarrow> ('s, 'a) io" where
  "try_except m p h s =
     (case fst (m s) of
        Inl e \<Rightarrow> if p (class_of e) then h e (snd (m s)) else (Inl e, snd (m s))
      | Inr x \<Rightarrow> (Inr x, snd (m s)))"

definition any_exception :: "exn_class \<Rightarrow> bool" where
  "any_exception c \<longleftrightarrow> isinstance_exn c PyException"

text \<open>A \<^verbatim>\<open>for\<close> loop whose body is a method.\<close>

fun for_each :: "'a list \<Rightarrow> ('a \<Rightarrow> ('s, unit) io) \<Rightarrow> ('s, unit) io" where
  "for_each [] body = ret ()"
| "for_each (x # xs) body = thenE (body x) (for_each xs body)"

text \<open>A loop that collects one value per element, in order.\<close>

fun collect :: "'a list \<Rightarrow> ('a \<Rightarrow> ('s, 'b) io) \<Rightarrow> ('s, 'b list) io" where
  "collect [] body = ret []"
| "collect (x # xs) body =
     bindE (body x) (\<lambda>y. bindE (collect xs body) (\<lambda>ys. ret (y # ys)))"

lemma any_exception_True [simp]: "any_exception c"
  by (simp add: any_exception_def isinstance_exn_def exn_mro_reaches_root)

lemma ret_simps [simp]: "fst (ret x s) = Inr x" "snd (ret x s) = s"
  by (simp_all add: ret_def)

lemma raise_simps [simp]: "fst (raise e s) = Inl e" "snd (raise e s) = s"
  by (simp_all add: raise_def)

lemma lift_result_simps [simp]: "fst (lift_result r s) = r" "snd (lift_result r s) = s"
  by (simp_all add: lift_result_def)

lemma bindE_Inl: "fst (m s) = Inl e \<Longrightarrow> bindE m f s = (Inl e, snd (m s))"
  by (simp add: bindE_def)

lemma bindE_Inr: "fst (m s) = Inr x \<Longrightarrow> bindE m f s = f x (snd (m s))"
  by (simp add: bindE_def)

lemma bindE_ret [simp]: "bindE (ret x) f = f x"
  by (rule ext) (simp add: bindE_def)

lemma bindE_raise [simp]: "bindE (raise e) f = raise e"
  by (rule ext) (simp add: bindE_def raise_def)

lemma bindE_lift_result [simp]:
  "bindE (lift_result (Inr x)) f = f x"
  "bindE (lift_result (Inl e)) f = raise e"
  by (rule ext, simp add: bindE_def raise_def)+

lemma thenE_ret [simp]: "thenE (ret x) n = n"
  by (simp add: thenE_def)

lemma bindE_right_ret [simp]: "bindE m ret = m"
  by (rule ext) (auto simp: bindE_def ret_def prod_eq_iff split: sum.splits)

lemma bindE_assoc: "bindE (bindE m f) g = bindE m (\<lambda>x. bindE (f x) g)"
  by (rule ext) (simp add: bindE_def split: sum.splits)

lemma for_each_append:
  "for_each (xs @ ys) body = thenE (for_each xs body) (for_each ys body)"
  by (induction xs) (simp_all add: thenE_def bindE_assoc)

text \<open>
  An assertion about every final state, whatever the result: the form in which the
  invariants of the components are proved through the combinators.
\<close>

definition preserves :: "('s \<Rightarrow> 's \<Rightarrow> bool) \<Rightarrow> ('s, 'a) io \<Rightarrow> bool" where
  "preserves R m \<longleftrightarrow> (\<forall>s. R s (snd (m s)))"

lemma preservesI: "(\<And>s. R s (snd (m s))) \<Longrightarrow> preserves R m"
  by (simp add: preserves_def)

lemma preservesD: "preserves R m \<Longrightarrow> R s (snd (m s))"
  by (simp add: preserves_def)

lemma preserves_pure:
  assumes "reflp R"
  shows "preserves R (ret x)" "preserves R (raise e)" "preserves R (lift_result r)"
  using assms by (simp_all add: preserves_def reflp_def)

lemma preserves_bindE:
  assumes "reflp R" "transp R" "preserves R m" "\<And>x. preserves R (f x)"
  shows "preserves R (bindE m f)"
  unfolding preserves_def bindE_def
  using assms by (auto simp: preserves_def split: sum.splits elim: transpE)

lemma preserves_thenE:
  "reflp R \<Longrightarrow> transp R \<Longrightarrow> preserves R m \<Longrightarrow> preserves R n \<Longrightarrow> preserves R (thenE m n)"
  unfolding thenE_def by (rule preserves_bindE)

lemma preserves_try_except:
  assumes "reflp R" "transp R" "preserves R m" "\<And>e. preserves R (h e)"
  shows "preserves R (try_except m p h)"
  unfolding preserves_def try_except_def
  using assms by (auto simp: preserves_def split: sum.splits elim: transpE)

lemma preserves_for_each:
  assumes "reflp R" "transp R" "\<And>x. x \<in> set xs \<Longrightarrow> preserves R (body x)"
  shows "preserves R (for_each xs body)"
  using assms(3)
  by (induction xs) (auto intro: preserves_pure preserves_thenE assms(1,2))

section \<open>Strings\<close>

definition code_point :: "char \<Rightarrow> nat" where
  "code_point c = of_char c"

definition is_space :: "char \<Rightarrow> bool" where
  "is_space c \<longleftrightarrow>
     (let n = code_point c
      in (9 \<le> n \<and> n \<le> 13) \<or> (28 \<le> n \<and> n \<le> 32) \<or> n = 133 \<or> n = 160)"

definition is_digit :: "char \<Rightarrow> bool" where
  "is_digit c \<longleftrightarrow> 48 \<le> code_point c \<and> code_point c \<le> 57"

definition digit_value :: "char \<Rightarrow> nat" where
  "digit_value c = code_point c - 48"

definition lower_char :: "char \<Rightarrow> char" where
  "lower_char c =
     (let n = code_point c
      in if (65 \<le> n \<and> n \<le> 90) \<or> (192 \<le> n \<and> n \<le> 222 \<and> n \<noteq> 215)
         then char_of (n + 32) else c)"

definition py_lower :: "string \<Rightarrow> string" where
  "py_lower s = map lower_char s"

definition py_strip :: "string \<Rightarrow> string" where
  "py_strip s = rev (dropWhile is_space (rev (dropWhile is_space s)))"

fun split_on :: "char \<Rightarrow> string \<Rightarrow> string list" where
  "split_on c [] = [[]]"
| "split_on c (x # xs) =
     (if x = c then [] # split_on c xs
      else (case split_on c xs of [] \<Rightarrow> [[x]] | y # ys \<Rightarrow> (x # y) # ys))"

fun py_join :: "string \<Rightarrow> string list \<Rightarrow> string" where
  "py_join sep [] = []"
| "py_join sep [x] = x"
| "py_join sep (x # y # ys) = x @ sep @ py_join sep (y # ys)"

definition starts_with :: "string \<Rightarrow> string \<Rightarrow> bool" where
  "starts_with s p \<longleftrightarrow> take (length p) s = p"

definition ends_with :: "string \<Rightarrow> string \<Rightarrow> bool" where
  "ends_with s p \<longleftrightarrow> length p \<le> length s \<and> drop (length s - length p) s = p"

text \<open>\<^verbatim>\<open>sub in s\<close>\<close>

fun is_infix :: "string \<Rightarrow> string \<Rightarrow> bool" where
  "is_infix sub [] = (sub = [])"
| "is_infix sub (c # cs) = (starts_with (c # cs) sub \<or> is_infix sub cs)"

text \<open>\<^verbatim>\<open>not s or not s.strip()\<close>, the blank test of the validators.\<close>

definition is_blank :: "string \<Rightarrow> bool" where
  "is_blank s \<longleftrightarrow> s = [] \<or> py_strip s = []"

lemma is_blank_iff: "is_blank s \<longleftrightarrow> (\<forall>c \<in> set s. is_space c)"
proof -
  have "py_strip s = [] \<longleftrightarrow> (\<forall>c \<in> set s. is_space c)"
  proof -
    have "py_strip s = [] \<longleftrightarrow> (\<forall>c \<in> set (dropWhile is_space s). is_space c)"
      by (simp add: py_strip_def dropWhile_eq_Nil_conv)
    also have "\<dots> \<longleftrightarrow> (\<forall>c \<in> set s. is_space c)"
      by (metis dropWhile_eq_Nil_conv hd_dropWhile hd_in_set set_dropWhileD)
    finally show ?thesis .
  qed
  then show ?thesis by (auto simp: is_blank_def)
qed

lemma is_blank_Nil [simp]: "is_blank []"
  by (simp add: is_blank_def)

lemma split_on_not_Nil [simp]: "split_on c s \<noteq> []"
  by (induction s) (auto split: list.splits)

lemma split_on_no_sep: "c \<notin> set s \<Longrightarrow> split_on c s = [s]"
  by (induction s) auto

lemma split_on_append_sep:
  "c \<notin> set x \<Longrightarrow> split_on c (x @ c # r) = x # split_on c r"
  by (induction x) auto

lemma split_on_py_join [str_simps]:
  assumes "xs \<noteq> []" and "\<forall>x \<in> set xs. c \<notin> set x"
  shows "split_on c (py_join [c] xs) = xs"
  using assms
proof (induction "[c]" xs rule: py_join.induct)
  case (2 x)
  then show ?case by (simp add: split_on_no_sep)
next
  case (3 x y ys)
  then show ?case by (simp add: split_on_append_sep)
qed simp

lemma split_on_parts_no_sep: "x \<in> set (split_on c s) \<Longrightarrow> c \<notin> set x"
  by (induction s arbitrary: x) (auto split: list.splits if_splits)

lemma py_join_eq_Nil: "py_join sep xs = [] \<Longrightarrow> sep \<noteq> [] \<Longrightarrow> xs = [] \<or> xs = [[]]"
  by (cases "(sep, xs)" rule: py_join.cases) auto

section \<open>Decimal integers\<close>

definition digit_char :: "nat \<Rightarrow> char" where
  "digit_char d = char_of (48 + d)"

fun nat_str :: "nat \<Rightarrow> string" where
  "nat_str n = (if n < 10 then [digit_char n] else nat_str (n div 10) @ [digit_char (n mod 10)])"

declare nat_str.simps [simp del]

definition int_str :: "int \<Rightarrow> string" where
  "int_str i = (if i < 0 then CHR ''-'' # nat_str (nat (- i)) else nat_str (nat i))"

text \<open>The digits of \<^verbatim>\<open>int(s)\<close>: a single underscore may stand between two digits.\<close>

fun digits_from :: "nat \<Rightarrow> string \<Rightarrow> nat option" where
  "digits_from acc [] = Some acc"
| "digits_from acc (c # cs) =
     (if is_digit c then digits_from (10 * acc + digit_value c) cs
      else if c = CHR ''_'' then
        (case cs of [] \<Rightarrow> None | d # _ \<Rightarrow> if is_digit d then digits_from acc cs else None)
      else None)"

definition parse_nat :: "string \<Rightarrow> nat option" where
  "parse_nat s =
     (case s of [] \<Rightarrow> None | c # _ \<Rightarrow> if is_digit c then digits_from 0 s else None)"

definition int_of_str :: "string \<Rightarrow> int option" where
  "int_of_str s =
     (case py_strip s of
        [] \<Rightarrow> None
      | c # cs \<Rightarrow>
          if c = CHR ''-'' then map_option (\<lambda>n. - int n) (parse_nat cs)
          else if c = CHR ''+'' then map_option int (parse_nat cs)
          else map_option int (parse_nat (c # cs)))"

definition py_int :: "string \<Rightarrow> exn + int" where
  "py_int s =
     (case int_of_str s of
        None \<Rightarrow> Inl (Exn PyValueError (''invalid literal for int() with base 10''))
      | Some i \<Rightarrow> Inr i)"

lemma code_point_digit_char: "d < 10 \<Longrightarrow> code_point (digit_char d) = 48 + d"
  by (simp add: digit_char_def code_point_def)

lemma digit_char_props:
  assumes "d < 10"
  shows "is_digit (digit_char d)" "digit_value (digit_char d) = d" "\<not> is_space (digit_char d)"
    "digit_char d \<noteq> CHR ''-''" "digit_char d \<noteq> CHR ''+''"
proof -
  note cp = code_point_digit_char [OF assms]
  show "is_digit (digit_char d)" "digit_value (digit_char d) = d" "\<not> is_space (digit_char d)"
    using assms cp by (simp_all add: is_digit_def digit_value_def is_space_def)
  have "code_point (CHR ''-'') = 45" "code_point (CHR ''+'') = 43"
    by (simp_all add: code_point_def)
  then show "digit_char d \<noteq> CHR ''-''" "digit_char d \<noteq> CHR ''+''"
    using cp by auto
qed

lemma digits_from_append_digit:
  "is_digit c \<Longrightarrow> digits_from acc s = Some v \<Longrightarrow>
   digits_from acc (s @ [c]) = Some (10 * v + digit_value c)"
proof (induction acc s rule: digits_from.induct)
  case (1 acc)
  then show ?case by simp
next
  case (2 acc d ds)
  show ?case
  proof (cases "is_digit d")
    case True
    with 2 show ?thesis by simp
  next
    case False
    with "2.prems"(2) have "d = CHR ''_''"
      by (simp split: if_splits)
    moreover from this False "2.prems"(2) obtain e es where "ds = e # es" "is_digit e"
      by (cases ds) (simp_all split: if_splits)
    ultimately show ?thesis
      using 2 False by simp
  qed
qed

lemma nat_str_digits: "\<forall>c \<in> set (nat_str n). is_digit c \<and> \<not> is_space c"
proof (induction n rule: nat_str.induct)
  case (1 n)
  show ?case
  proof (cases "n < 10")
    case True
    then show ?thesis by (subst nat_str.simps) (simp add: digit_char_props)
  next
    case False
    with "1.IH" show ?thesis by (subst nat_str.simps) (auto simp: digit_char_props)
  qed
qed

lemma nat_str_not_Nil [simp]: "nat_str n \<noteq> []"
  by (simp add: nat_str.simps [of n])

lemma digits_from_nat_str: "digits_from 0 (nat_str n) = Some n"
proof (induction n rule: nat_str.induct)
  case (1 n)
  show ?case
  proof (cases "n < 10")
    case True
    then show ?thesis by (subst nat_str.simps) (simp add: digit_char_props)
  next
    case False
    with "1.IH" have "digits_from 0 (nat_str (n div 10)) = Some (n div 10)" by simp
    from digits_from_append_digit [OF digit_char_props(1) this, of "n mod 10"] False
    show ?thesis by (subst nat_str.simps) (simp add: digit_char_props)
  qed
qed

lemma parse_nat_nat_str [str_simps]: "parse_nat (nat_str n) = Some n"
  using nat_str_digits [of n] digits_from_nat_str [of n]
  by (auto simp: parse_nat_def split: list.splits)

lemma py_strip_id:
  assumes "s \<noteq> []" "\<not> is_space (hd s)" "\<not> is_space (last s)"
  shows "py_strip s = s"
proof -
  have "dropWhile is_space s = s"
    using assms(1,2) by (cases s) auto
  moreover have "dropWhile is_space (rev s) = rev s"
    using assms(1,3) by (cases s rule: rev_cases) auto
  ultimately show ?thesis by (simp add: py_strip_def)
qed

lemma int_str_edges:
  "int_str i \<noteq> []" "\<not> is_space (hd (int_str i))" "\<not> is_space (last (int_str i))"
proof -
  have *: "\<not> is_space (hd (nat_str n))" "\<not> is_space (last (nat_str n))" for n
    using nat_str_digits [of n] by simp_all
  have minus: "\<not> is_space (CHR ''-'')"
    by (simp add: is_space_def code_point_def)
  show "int_str i \<noteq> []" by (simp add: int_str_def)
  show "\<not> is_space (hd (int_str i))"
    by (simp add: int_str_def * minus)
  show "\<not> is_space (last (int_str i))"
    by (simp add: int_str_def *)
qed

lemma nat_str_hd: "nat_str n = c # cs \<Longrightarrow> c \<noteq> CHR ''-'' \<and> c \<noteq> CHR ''+''"
  using nat_str_digits [of n] by (auto simp: is_digit_def code_point_def)

lemma int_of_str_int_str [str_simps]: "int_of_str (int_str i) = Some i"
proof -
  have strip: "py_strip (int_str i) = int_str i"
    by (rule py_strip_id) (rule int_str_edges)+
  show ?thesis
  proof (cases "i < 0")
    case True
    then show ?thesis
      unfolding int_of_str_def strip
      by (simp add: int_str_def parse_nat_nat_str)
  next
    case False
    obtain c cs where n: "nat_str (nat i) = c # cs"
      by (cases "nat_str (nat i)") auto
    have "parse_nat (c # cs) = Some (nat i)"
      using parse_nat_nat_str [of "nat i"] n by simp
    with False n nat_str_hd [OF n] show ?thesis
      unfolding int_of_str_def strip
      by (simp add: int_str_def)
  qed
qed

lemma py_int_int_str [str_simps, simp]: "py_int (int_str i) = Inr i"
  by (simp add: py_int_def int_of_str_int_str)

section \<open>Dictionaries\<close>

text \<open>
  A Python \<^verbatim>\<open>dict\<close> with string keys, in insertion order.  \<^verbatim>\<open>d.get(k, v)\<close> is \<open>dget d k v\<close>, and
  assigning to a key updates it in place or adds it at the end.
\<close>

type_synonym 'v pydict = "(string \<times> 'v) list"

definition dget :: "'v pydict \<Rightarrow> string \<Rightarrow> 'v \<Rightarrow> 'v" where
  "dget d k v = (case map_of d k of None \<Rightarrow> v | Some x \<Rightarrow> x)"

fun dset :: "string \<Rightarrow> 'v \<Rightarrow> 'v pydict \<Rightarrow> 'v pydict" where
  "dset k v [] = [(k, v)]"
| "dset k v (p # d) = (if fst p = k then (k, v) # d else p # dset k v d)"

lemma map_of_dset [simp]: "map_of (dset k v d) = (map_of d)(k \<mapsto> v)"
  by (induction d) (auto simp: fun_eq_iff)

lemma map_of_eq_empty [simp]: "map_of d = Map.empty \<longleftrightarrow> d = []"
  by (cases d) (auto simp: fun_eq_iff split: if_splits dest: spec [where x = "fst (hd d)"])

text \<open>\<^verbatim>\<open>del d[k]\<close>, for a key that is present.\<close>

definition ddel :: "string \<Rightarrow> 'v pydict \<Rightarrow> 'v pydict" where
  "ddel k d = filter (\<lambda>p. fst p \<noteq> k) d"

lemma map_of_ddel [simp]: "map_of (ddel k d) = (map_of d)(k := None)"
  by (induction d) (auto simp: ddel_def fun_eq_iff)

lemma keys_dset [simp]: "fst ` set (dset k v d) = insert k (fst ` set d)"
  by (induction d) auto

lemma keys_ddel [simp]: "fst ` set (ddel k d) = fst ` set d - {k}"
  by (auto simp: ddel_def)

lemma distinct_dset [simp]: "distinct (map fst (dset k v d)) \<longleftrightarrow> distinct (map fst d)"
proof (induction d)
  case (Cons p d)
  have "fst p \<in> fst ` set (dset k v d) \<longleftrightarrow> fst p = k \<or> fst p \<in> fst ` set d"
    by simp
  with Cons show ?case by auto
qed simp

lemma distinct_ddel [simp]: "distinct (map fst d) \<Longrightarrow> distinct (map fst (ddel k d))"
  by (simp add: ddel_def distinct_map_filter)

lemma length_dset: "length (dset k v d) = (if k \<in> fst ` set d then length d else Suc (length d))"
  by (induction d) auto

lemma length_ddel:
  "distinct (map fst d) \<Longrightarrow> length (ddel k d) = (if k \<in> fst ` set d then length d - 1 else length d)"
proof (induction d)
  case (Cons p d)
  show ?case
  proof (cases "fst p = k")
    case True
    with Cons.prems have "ddel k d = d"
      by (auto simp: ddel_def filter_id_conv image_iff)
    with True show ?thesis by (simp add: ddel_def)
  next
    case False
    with Cons show ?thesis
      by (cases d) (auto simp: ddel_def)
  qed
qed (simp add: ddel_def)

text \<open>The truth value of an optional string: neither \<^verbatim>\<open>None\<close> nor empty.\<close>

definition truthy :: "string option \<Rightarrow> bool" where
  "truthy s \<longleftrightarrow> s \<noteq> None \<and> s \<noteq> Some []"

text \<open>The pair of an optional field, present only when the value is truthy.\<close>

definition opt_field :: "string \<Rightarrow> string option \<Rightarrow> string pydict" where
  "opt_field k s = (case s of None \<Rightarrow> [] | Some v \<Rightarrow> if v = [] then [] else [(k, v)])"

definition or_else :: "string option \<Rightarrow> string \<Rightarrow> string" where
  "or_else s d = (case s of None \<Rightarrow> d | Some v \<Rightarrow> if v = [] then d else v)"

lemma truthy_simps [simp]:
  "\<not> truthy None" "truthy (Some v) \<longleftrightarrow> v \<noteq> []"
  by (simp_all add: truthy_def)

lemma opt_field_simps [simp]:
  "opt_field k None = []" "opt_field k (Some v) = (if v = [] then [] else [(k, v)])"
  by (simp_all add: opt_field_def)

lemma map_of_opt_field [simp]:
  "map_of (opt_field k s) x = (if x = k \<and> truthy s then s else None)"
  by (cases s) auto

section \<open>Results without a state\<close>

definition bind_sum :: "exn + 'a \<Rightarrow> ('a \<Rightarrow> exn + 'b) \<Rightarrow> exn + 'b" where
  "bind_sum r f = (case r of Inl e \<Rightarrow> Inl e | Inr x \<Rightarrow> f x)"

lemma bind_sum_simps [simp]: "bind_sum (Inr x) f = f x" "bind_sum (Inl e) f = Inl e"
  by (simp_all add: bind_sum_def)

end
