(* ===== verification/Clock.thy ===== *)
theory Clock
  imports Prelude
begin

text \<open>
  The \<^verbatim>\<open>datetime\<close> values the program stores: a wall-clock reading in microseconds since
  1970-01-01T00:00 and the UTC offset in minutes, absent for a naive value.  Printing is
  \<^verbatim>\<open>isoformat()\<close>, reading is \<^verbatim>\<open>datetime.fromisoformat\<close> on the texts \<^verbatim>\<open>isoformat\<close> writes (other
  spellings Python accepts are a \<^verbatim>\<open>ValueError\<close> here).  The main result is that reading
  back a printed value gives the same value, for the years 1 to 9999.
\<close>

record datetime =
  wall :: int
  utc_offset :: "int option"

definition utc_datetime :: "int \<Rightarrow> datetime" where
  "utc_datetime us = \<lparr>wall = us, utc_offset = Some 0\<rparr>"

definition naive_datetime :: "int \<Rightarrow> datetime" where
  "naive_datetime us = \<lparr>wall = us, utc_offset = None\<rparr>"

text \<open>\<^verbatim>\<open>d.timestamp()\<close> of an aware value, in microseconds.\<close>

definition timestamp_us :: "datetime \<Rightarrow> int" where
  "timestamp_us d =
     wall d - (case utc_offset d of None \<Rightarrow> 0 | Some m \<Rightarrow> m) * 60000000"

definition add_seconds :: "datetime \<Rightarrow> int \<Rightarrow> datetime" where
  "add_seconds d s = d\<lparr>wall := wall d + s * 1000000\<rparr>"

section \<open>Calendar\<close>

text \<open>
  Days since 1970-01-01 to year, month and day.  The year is counted from March, so that
  the leap day is the last one, and the day number is split into cycles of 400, 100, 4 and
  1 years.
\<close>

definition era_parts :: "int \<Rightarrow> int \<times> int" where
  "era_parts doe =
     (let c = min 3 (doe div 36524); r = doe - 36524 * c;
          q = r div 1461; s = r - 1461 * q;
          a = min 3 (s div 365)
      in (100 * c + 4 * q + a, s - 365 * a))"

definition month_day :: "int \<Rightarrow> int \<times> int" where
  "month_day doy =
     (let mp = (5 * doy + 2) div 153
      in (if mp < 10 then mp + 3 else mp - 9, doy - (153 * mp + 2) div 5 + 1))"

definition civil_from_days :: "int \<Rightarrow> int \<times> int \<times> int" where
  "civil_from_days n =
     (let z = n + 719468; (yoe, doy) = era_parts (z mod 146097);
          (m, d) = month_day doy; y = 400 * (z div 146097) + yoe
      in (if m \<le> 2 then y + 1 else y, m, d))"

definition days_from_civil :: "int \<Rightarrow> int \<Rightarrow> int \<Rightarrow> int" where
  "days_from_civil y m d =
     (let y' = (if m \<le> 2 then y - 1 else y);
          era = y' div 400; yoe = y' mod 400;
          mp = (if m > 2 then m - 3 else m + 9);
          doy = (153 * mp + 2) div 5 + d - 1;
          doe = 365 * yoe + yoe div 4 - yoe div 100 + doy
      in 146097 * era + doe - 719468)"

lemma div_ge:
  fixes a :: int
  assumes "0 < k" "lo * k \<le> a"
  shows "lo \<le> a div k"
  using zdiv_mono1 [OF assms(2,1)] assms(1) by simp

lemma div_le:
  fixes a :: int
  assumes "0 < k" "a < (hi + 1) * k"
  shows "a div k \<le> hi"
proof -
  have "a \<le> hi * k + (k - 1)" using assms(2) by (simp add: algebra_simps)
  from zdiv_mono1 [OF this assms(1)] have "a div k \<le> (hi * k + (k - 1)) div k" .
  also have "\<dots> = hi" using assms(1) by (intro int_div_pos_eq [where r = "k - 1"]) auto
  finally show ?thesis .
qed

lemma div_rest:
  fixes a :: int
  assumes "0 < k"
  shows "0 \<le> a - k * (a div k)" "a - k * (a div k) \<le> k - 1"
  using pos_mod_sign [OF assms, of a] pos_mod_bound [OF assms, of a]
  by (simp_all add: minus_mult_div_eq_mod)

lemma year_of_era:
  fixes c q a :: int
  assumes "0 \<le> c" "c \<le> 3" "0 \<le> q" "q \<le> 24" "0 \<le> a" "a \<le> 3"
  shows "(100 * c + 4 * q + a) div 4 = 25 * c + q"
    and "(100 * c + 4 * q + a) div 100 = c"
    and "0 \<le> 100 * c + 4 * q + a" "100 * c + 4 * q + a < 400"
proof -
  show "(100 * c + 4 * q + a) div 4 = 25 * c + q"
    by (rule int_div_pos_eq [where r = a]) (use assms in auto)
  show "(100 * c + 4 * q + a) div 100 = c"
    by (rule int_div_pos_eq [where r = "4 * q + a"]) (use assms in auto)
  show "0 \<le> 100 * c + 4 * q + a" "100 * c + 4 * q + a < 400"
    using assms by linarith+
qed

lemma month_of_doy:
  fixes doy :: int
  assumes "0 \<le> doy" "doy \<le> 365"
  shows "0 \<le> (5 * doy + 2) div 153" "(5 * doy + 2) div 153 \<le> 11"
proof -
  show "0 \<le> (5 * doy + 2) div 153" by (rule div_ge) (use assms in auto)
  show "(5 * doy + 2) div 153 \<le> 11" by (rule div_le) (use assms in auto)
qed

lemma day_of_month:
  fixes doy :: int
  assumes "0 \<le> doy"
  defines "d \<equiv> doy - (153 * ((5 * doy + 2) div 153) + 2) div 5 + 1"
  shows "1 \<le> d" "d \<le> 31"
proof -
  define mp where "mp = (5 * doy + 2) div 153"
  have mp: "153 * mp \<le> 5 * doy + 2" "5 * doy + 2 \<le> 153 * mp + 152"
    using div_rest [of 153 "5 * doy + 2"] unfolding mp_def by simp_all
  have "(153 * mp + 2) div 5 \<le> doy"
    by (rule div_le) (use mp in auto)
  then show "1 \<le> d" by (simp add: d_def mp_def)
  have "doy - 30 \<le> (153 * mp + 2) div 5"
    by (rule div_ge) (use mp in auto)
  then show "d \<le> 31" by (simp add: d_def mp_def)
qed

lemma era_parts:
  assumes "0 \<le> doe" "doe < 146097" "era_parts doe = (yoe, doy)"
  shows "0 \<le> yoe" "yoe < 400" "0 \<le> doy" "doy \<le> 365"
    and "365 * yoe + yoe div 4 - yoe div 100 + doy = doe"
proof -
  define c where "c = min 3 (doe div 36524)"
  define r where "r = doe - 36524 * c"
  define q where "q = r div 1461"
  define s where "s = r - 1461 * q"
  define a where "a = min 3 (s div 365)"
  have yoe: "100 * c + 4 * q + a = yoe" and doy: "s - 365 * a = doy"
    using assms(3) by (simp_all only: era_parts_def Let_def prod.inject a_def s_def q_def r_def c_def)
  have "0 \<le> doe div 36524" by (rule div_ge) (use assms(1) in auto)
  then have c: "0 \<le> c" "c \<le> 3" by (simp_all add: c_def)
  have r: "0 \<le> r" "r \<le> 36524"
    using div_rest [of 36524 doe] assms(1,2) unfolding r_def c_def
    by (cases "3 \<le> doe div 36524"; linarith)+
  have q: "0 \<le> q" unfolding q_def by (rule div_ge) (use r in auto)
  have q': "q \<le> 24" unfolding q_def by (rule div_le) (use r in auto)
  have s: "0 \<le> s" "s \<le> 1460"
    using div_rest [of 1461 r] unfolding s_def q_def by simp_all
  have "0 \<le> s div 365" by (rule div_ge) (use s in auto)
  then have a: "0 \<le> a" "a \<le> 3" by (simp_all add: a_def)
  show "0 \<le> doy" "doy \<le> 365"
    using s div_rest [of 365 s] unfolding doy [symmetric] a_def
    by (cases "3 \<le> s div 365"; linarith)+
  note ye = year_of_era [OF c q q' a, unfolded yoe]
  show "0 \<le> yoe" "yoe < 400" by (fact ye(3,4))+
  have "365 * yoe + (25 * c + q) - c + doy = doe"
    by (simp add: yoe [symmetric] doy [symmetric] s_def r_def)
  then show "365 * yoe + yoe div 4 - yoe div 100 + doy = doe"
    by (simp add: ye(1,2))
qed

lemma month_day:
  assumes "0 \<le> doy" "doy \<le> 365" "month_day doy = (m, d)"
  shows "1 \<le> m" "m \<le> 12" "1 \<le> d" "d \<le> 31"
    and "(153 * (if m > 2 then m - 3 else m + 9) + 2) div 5 + d - 1 = doy"
proof -
  define mp where "mp = (5 * doy + 2) div 153"
  have m: "(if mp < 10 then mp + 3 else mp - 9) = m" and d: "doy - (153 * mp + 2) div 5 + 1 = d"
    using assms(3) by (simp_all only: month_day_def Let_def prod.inject mp_def)
  note mp = month_of_doy [OF assms(1,2), folded mp_def]
  show "1 \<le> m" "m \<le> 12" using mp unfolding m [symmetric] by simp_all
  show "1 \<le> d" "d \<le> 31"
    using day_of_month [OF assms(1), folded mp_def] unfolding d [symmetric] by simp_all
  have "(if m > 2 then m - 3 else m + 9) = mp"
    using mp unfolding m [symmetric] by simp
  then show "(153 * (if m > 2 then m - 3 else m + 9) + 2) div 5 + d - 1 = doy"
    by (simp add: d [symmetric])
qed

lemma civil_from_days_parts:
  assumes "civil_from_days n = (y, m, d)"
  obtains yoe doy where "era_parts ((n + 719468) mod 146097) = (yoe, doy)"
    and "month_day doy = (m, d)"
    and "(if m \<le> 2 then y - 1 else y) = 400 * ((n + 719468) div 146097) + yoe"
    and "0 \<le> yoe" "yoe < 400" "0 \<le> doy" "doy \<le> 365"
    and "365 * yoe + yoe div 4 - yoe div 100 + doy = (n + 719468) mod 146097"
proof -
  obtain yoe doy where e: "era_parts ((n + 719468) mod 146097) = (yoe, doy)"
    by (cases "era_parts ((n + 719468) mod 146097)")
  obtain m' d' where md: "month_day doy = (m', d')"
    by (cases "month_day doy")
  have "m' = m" "d' = d" and y: "(if m \<le> 2 then y - 1 else y) = 400 * ((n + 719468) div 146097) + yoe"
    using assms by (auto simp: civil_from_days_def e md Let_def split: if_splits)
  with e md era_parts [OF _ _ e] that show thesis by simp
qed

theorem days_from_civil_inverse:
  assumes "civil_from_days n = (y, m, d)"
  shows "days_from_civil y m d = n"
proof -
  from assms obtain yoe doy where
    e: "era_parts ((n + 719468) mod 146097) = (yoe, doy)" and md: "month_day doy = (m, d)"
    and y: "(if m \<le> 2 then y - 1 else y) = 400 * ((n + 719468) div 146097) + yoe"
    and b: "0 \<le> yoe" "yoe < 400" "0 \<le> doy" "doy \<le> 365"
    and doe: "365 * yoe + yoe div 4 - yoe div 100 + doy = (n + 719468) mod 146097"
    by (rule civil_from_days_parts)
  have "(400 * ((n + 719468) div 146097) + yoe) div 400 = (n + 719468) div 146097"
    and "(400 * ((n + 719468) div 146097) + yoe) mod 400 = yoe"
    using b(1,2) by simp_all
  then have "days_from_civil y m d =
      146097 * ((n + 719468) div 146097) + (n + 719468) mod 146097 - 719468"
    unfolding days_from_civil_def Let_def y month_day(5) [OF b(3,4) md] by (simp only: doe)
  then show ?thesis by simp
qed

lemma civil_from_days_ranges:
  assumes "civil_from_days n = (y, m, d)"
  shows "1 \<le> m" "m \<le> 12" "1 \<le> d" "d \<le> 31"
  using civil_from_days_parts [OF assms] month_day by metis+

section \<open>Printing\<close>

definition pad2 :: "int \<Rightarrow> string" where
  "pad2 i = (let n = nat i in [digit_char (n div 10 mod 10), digit_char (n mod 10)])"

definition pad4 :: "int \<Rightarrow> string" where
  "pad4 i = pad2 (i div 100) @ pad2 (i mod 100)"

definition pad6 :: "int \<Rightarrow> string" where
  "pad6 i = pad2 (i div 10000) @ pad4 (i mod 10000)"

definition offset_str :: "int \<Rightarrow> string" where
  "offset_str m =
     (if m < 0 then ''-'' else ''+'') @ pad2 (\<bar>m\<bar> div 60) @ '':'' @ pad2 (\<bar>m\<bar> mod 60)"

definition isoformat :: "datetime \<Rightarrow> string" where
  "isoformat t =
     (let (y, m, d) = civil_from_days (wall t div 86400000000);
          us = wall t mod 86400000000;
          sec = us div 1000000; frac = us mod 1000000
      in pad4 y @ ''-'' @ pad2 m @ ''-'' @ pad2 d @ ''T'' @
         pad2 (sec div 3600) @ '':'' @ pad2 (sec div 60 mod 60) @ '':'' @ pad2 (sec mod 60) @
         (if frac = 0 then [] else ''.'' @ pad6 frac) @
         (case utc_offset t of None \<Rightarrow> [] | Some o' \<Rightarrow> offset_str o'))"

section \<open>Reading\<close>

text \<open>A fixed number of digits, and what follows them.\<close>

fun take_digits :: "nat \<Rightarrow> int \<Rightarrow> string \<Rightarrow> (int \<times> string) option" where
  "take_digits 0 acc s = Some (acc, s)"
| "take_digits (Suc n) acc [] = None"
| "take_digits (Suc n) acc (c # cs) =
     (if is_digit c then take_digits n (10 * acc + int (digit_value c)) cs else None)"

fun expect :: "string \<Rightarrow> string \<Rightarrow> string option" where
  "expect [] s = Some s"
| "expect (p # ps) [] = None"
| "expect (p # ps) (c # cs) = (if p = c then expect ps cs else None)"

definition parse_offset :: "string \<Rightarrow> int option option" where
  "parse_offset s =
     (case s of
        [] \<Rightarrow> Some None
      | c # cs \<Rightarrow>
          if c \<noteq> CHR ''+'' \<and> c \<noteq> CHR ''-'' then None
          else
            (case take_digits 2 0 cs of
               None \<Rightarrow> None
             | Some (h, s1) \<Rightarrow>
                 (case expect '':'' s1 of
                    None \<Rightarrow> None
                  | Some s2 \<Rightarrow>
                      (case take_digits 2 0 s2 of
                         Some (m, []) \<Rightarrow>
                           if h \<le> 23 \<and> m \<le> 59
                           then Some (Some (if c = CHR ''-'' then - (60 * h + m) else 60 * h + m))
                           else None
                       | _ \<Rightarrow> None))))"

definition parse_fraction :: "string \<Rightarrow> (int \<times> string) option" where
  "parse_fraction s =
     (case expect ''.'' s of None \<Rightarrow> Some (0, s) | Some r \<Rightarrow> take_digits 6 0 r)"

text \<open>A two-digit field with the separator that precedes it.\<close>

definition parse_field :: "string \<Rightarrow> string \<Rightarrow> (int \<times> string) option" where
  "parse_field sep s = (case expect sep s of None \<Rightarrow> None | Some r \<Rightarrow> take_digits 2 0 r)"

text \<open>
  A calendar date is accepted when it is one that \<^const>\<open>civil_from_days\<close> produces: the
  day number of a day past the end of its month reads back as another date.
\<close>

definition valid_date :: "int \<Rightarrow> int \<Rightarrow> int \<Rightarrow> bool" where
  "valid_date y m d \<longleftrightarrow>
     1 \<le> y \<and> 1 \<le> m \<and> m \<le> 12 \<and> civil_from_days (days_from_civil y m d) = (y, m, d)"

definition parse_iso :: "string \<Rightarrow> datetime option" where
  "parse_iso s =
     Option.bind (take_digits 4 0 s) (\<lambda>(y, s).
     Option.bind (parse_field ''-'' s) (\<lambda>(mo, s).
     Option.bind (parse_field ''-'' s) (\<lambda>(d, s).
     Option.bind (parse_field ''T'' s) (\<lambda>(hh, s).
     Option.bind (parse_field '':'' s) (\<lambda>(mi, s).
     Option.bind (parse_field '':'' s) (\<lambda>(ss, s).
     Option.bind (parse_fraction s) (\<lambda>(us, s).
     Option.bind (parse_offset s) (\<lambda>off.
       if valid_date y mo d \<and> hh \<le> 23 \<and> mi \<le> 59 \<and> ss \<le> 59
       then Some \<lparr>wall = days_from_civil y mo d * 86400000000 +
                          ((hh * 60 + mi) * 60 + ss) * 1000000 + us,
                  utc_offset = off\<rparr>
       else None))))))))"

definition fromisoformat :: "string \<Rightarrow> exn + datetime" where
  "fromisoformat s =
     (case parse_iso s of
        None \<Rightarrow> Inl (Exn PyValueError (''Invalid isoformat string''))
      | Some t \<Rightarrow> Inr t)"

section \<open>Round trip\<close>

text \<open>The values Python can represent: years 1 to 9999 and offsets under a day.\<close>

definition valid_datetime :: "datetime \<Rightarrow> bool" where
  "valid_datetime t \<longleftrightarrow>
     (case civil_from_days (wall t div 86400000000) of (y, m, d) \<Rightarrow> 1 \<le> y \<and> y \<le> 9999) \<and>
     (case utc_offset t of None \<Rightarrow> True | Some m \<Rightarrow> \<bar>m\<bar> < 1440)"

lemma take_digits_pad2 [simp]:
  "0 \<le> i \<Longrightarrow> i \<le> 99 \<Longrightarrow>
   take_digits (Suc (Suc n)) acc (pad2 i @ s) = take_digits n (100 * acc + i) s"
proof -
  assume i: "0 \<le> i" "i \<le> 99"
  have "nat i div 10 mod 10 < 10" "nat i mod 10 < 10" by simp_all
  note props = this [THEN digit_char_props(1)] this [THEN digit_char_props(2)]
  have "nat i div 10 < 10" using i by (simp add: div_less_iff_less_mult)
  then have "10 * (nat i div 10 mod 10) + nat i mod 10 = nat i" by simp
  then have "int (10 * (nat i div 10 mod 10) + nat i mod 10) = int (nat i)" by (rule arg_cong)
  then have "10 * int (nat i div 10 mod 10) + int (nat i mod 10) = int (nat i)" by simp
  then have "10 * int (nat i div 10 mod 10) + int (nat i mod 10) = i"
    using i by simp
  with props show ?thesis
    by (simp add: pad2_def Let_def add.assoc)
qed

lemma take_digits_pad2' [simp]:
  "0 \<le> i \<Longrightarrow> i \<le> 99 \<Longrightarrow> take_digits 2 0 (pad2 i @ s) = Some (i, s)"
  using take_digits_pad2 [of i 0 0 s] by (simp add: numeral_2_eq_2)

lemma take_digits_pad2_end [simp]:
  "0 \<le> i \<Longrightarrow> i \<le> 99 \<Longrightarrow> take_digits 2 0 (pad2 i) = Some (i, [])"
  using take_digits_pad2' [of i "[]"] by simp

lemma take_digits_pad4:
  assumes "0 \<le> i" "i \<le> 9999"
  shows "take_digits (Suc (Suc (Suc (Suc n)))) acc (pad4 i @ s) = take_digits n (10000 * acc + i) s"
proof -
  have "0 \<le> i div 100" "i div 100 \<le> 99" "0 \<le> i mod 100" "i mod 100 \<le> 99"
    using assms pos_mod_bound [of 100 i] div_ge [of 100 0 i] div_le [of 100 i 99] by simp_all
  then show ?thesis
    by (simp add: pad4_def algebra_simps)
qed

lemma take_digits_pad4' [simp]:
  "0 \<le> i \<Longrightarrow> i \<le> 9999 \<Longrightarrow> take_digits 4 0 (pad4 i @ s) = Some (i, s)"
  using take_digits_pad4 [of i 0 0 s] by (simp add: eval_nat_numeral)

lemma take_digits_pad6 [simp]:
  assumes "0 \<le> i" "i \<le> 999999"
  shows "take_digits 6 0 (pad6 i @ s) = Some (i, s)"
proof -
  have "0 \<le> i div 10000" "i div 10000 \<le> 99" "0 \<le> i mod 10000" "i mod 10000 \<le> 9999"
    using assms pos_mod_bound [of 10000 i] div_ge [of 10000 0 i] div_le [of 10000 i 99] by simp_all
  then show ?thesis
    by (simp add: pad6_def eval_nat_numeral take_digits_pad4 del: take_digits.simps(3))
qed

lemma parse_offset_offset_str:
  assumes "\<bar>m\<bar> < 1440"
  shows "parse_offset (offset_str m) = Some (Some m)"
proof -
  define h mi where "h = \<bar>m\<bar> div 60" and "mi = \<bar>m\<bar> mod 60"
  have b: "0 \<le> h" "h \<le> 23" "0 \<le> mi" "mi \<le> 59"
    using assms pos_mod_bound [of 60 "\<bar>m\<bar>"] div_ge [of 60 0 "\<bar>m\<bar>"] div_le [of 60 "\<bar>m\<bar>" 23]
    unfolding h_def mi_def by simp_all
  have m: "60 * h + mi = \<bar>m\<bar>" by (simp add: h_def mi_def)
  have "offset_str m = (if m < 0 then CHR ''-'' else CHR ''+'') # pad2 h @ CHR '':'' # pad2 mi"
    by (simp add: offset_str_def h_def mi_def)
  with b m show ?thesis
    by (auto simp: parse_offset_def)
qed

lemma expect_dot_offset: "expect ''.'' (offset_str m) = None"
  by (simp add: offset_str_def)

lemma seconds_split: "((s::int) div 3600 * 60 + s div 60 mod 60) * 60 + s mod 60 = s"
proof -
  have "s div 3600 = s div 60 div 60" by (simp add: zdiv_zmult2_eq [symmetric])
  then have "s div 3600 * 60 + s div 60 mod 60 = s div 60" by simp
  then show ?thesis by simp
qed

theorem fromisoformat_isoformat [simp]:
  assumes "valid_datetime t"
  shows "fromisoformat (isoformat t) = Inr t"
proof -
  obtain y m d where ymd: "civil_from_days (wall t div 86400000000) = (y, m, d)"
    by (cases "civil_from_days (wall t div 86400000000)") auto
  define us where "us = wall t mod 86400000000"
  define sec where "sec = us div 1000000"
  define frac where "frac = us mod 1000000"
  have us: "0 \<le> us" "us < 86400000000" by (simp_all add: us_def)
  have sec: "0 \<le> sec" "sec < 86400"
    using us div_ge [of 1000000 0 us] div_le [of 1000000 us 86399] unfolding sec_def by simp_all
  have frac: "0 \<le> frac" "frac \<le> 999999" by (simp_all add: frac_def)
  define hh mi ss where "hh = sec div 3600" and "mi = sec div 60 mod 60" and "ss = sec mod 60"
  have hms: "0 \<le> hh" "hh \<le> 23" "0 \<le> mi" "mi \<le> 59" "0 \<le> ss" "ss \<le> 59"
    using sec div_ge [of 3600 0 sec] div_le [of 3600 sec 23] pos_mod_bound [of 60 sec]
      pos_mod_bound [of 60 "sec div 60"] by (simp_all add: hh_def mi_def ss_def)
  have hms_sec: "(hh * 60 + mi) * 60 + ss = sec"
    unfolding hh_def mi_def ss_def by (rule seconds_split)
  have yr: "1 \<le> y" "y \<le> 9999"
    using assms ymd by (simp_all add: valid_datetime_def)
  note md = civil_from_days_ranges [OF ymd]
  have days: "days_from_civil y m d = wall t div 86400000000"
    by (rule days_from_civil_inverse [OF ymd])
  have valid: "valid_date y m d"
    using yr md by (simp add: valid_date_def days ymd)
  have wall: "wall t div 86400000000 * 86400000000 + sec * 1000000 + frac = wall t"
    by (simp add: sec_def frac_def us_def)
  define rest where "rest = (if frac = 0 then [] else ''.'' @ pad6 frac)"
  define tail where "tail = (case utc_offset t of None \<Rightarrow> [] | Some o' \<Rightarrow> offset_str o')"
  have off: "parse_offset tail = Some (utc_offset t)"
    using assms
    by (auto simp: tail_def valid_datetime_def parse_offset_offset_str parse_offset_def [of "[]"]
        split: option.splits)
  have nodot: "expect ''.'' tail = None"
    by (auto simp: tail_def expect_dot_offset split: option.splits)
  have fr: "parse_fraction (rest @ tail) = Some (frac, tail)"
    using frac by (simp add: parse_fraction_def nodot rest_def)
  have iso: "isoformat t = pad4 y @ ''-'' @ pad2 m @ ''-'' @ pad2 d @ ''T'' @
         pad2 hh @ '':'' @ pad2 mi @ '':'' @ pad2 ss @ rest @ tail"
    by (simp only: isoformat_def ymd Let_def prod.case us_def sec_def frac_def tail_def
        hh_def mi_def ss_def rest_def)
  have field: "parse_field [c] (c # pad2 i @ s) = Some (i, s)" if "0 \<le> i" "i \<le> 99" for c i s
    using that by (simp add: parse_field_def)
  have "parse_iso (isoformat t) =
      Some \<lparr>wall = days_from_civil y m d * 86400000000 + ((hh * 60 + mi) * 60 + ss) * 1000000 + frac,
            utc_offset = utc_offset t\<rparr>"
    unfolding parse_iso_def iso
    using yr md hms by (simp add: field fr off valid del: distrib_right_numeral)
  also have "\<dots> = Some t"
    unfolding days hms_sec wall by simp
  finally have "parse_iso (isoformat t) = Some t" .
  then show ?thesis by (simp add: fromisoformat_def)
qed

text \<open>Whatever is read is a value Python can represent.\<close>

lemma take_digits_bound:
  "take_digits n acc s = Some (v, r) \<Longrightarrow> 0 \<le> acc \<Longrightarrow> acc < b \<Longrightarrow> 0 \<le> v \<and> v < b * 10 ^ n"
proof (induction n acc s arbitrary: b rule: take_digits.induct)
  case (3 n acc c cs)
  then have c: "is_digit c" "take_digits n (10 * acc + int (digit_value c)) cs = Some (v, r)"
    by (simp_all split: if_splits)
  then have "digit_value c < 10" unfolding is_digit_def digit_value_def by linarith
  with "3.prems"(2,3) have "0 \<le> 10 * acc + int (digit_value c)" "10 * acc + int (digit_value c) < b * 10" by linarith+
  from "3.IH" [OF c this] show ?case by (simp add: mult.assoc)
qed auto

lemma parse_field_bound: "parse_field sep s = Some (v, r) \<Longrightarrow> 0 \<le> v"
  using take_digits_bound [of 2 0 _ v r 1] by (auto simp: parse_field_def split: option.splits)

lemma parse_fraction_bound:
  assumes "parse_fraction s = Some (v, r)"
  shows "0 \<le> v \<and> v \<le> 999999"
proof (cases "expect ''.'' s")
  case (Some q)
  then have "take_digits 6 0 q = Some (v, r)" using assms by (simp add: parse_fraction_def)
  from take_digits_bound [OF this, of 1] show ?thesis by simp
qed (use assms in \<open>simp add: parse_fraction_def\<close>)

lemma parse_offset_parts:
  assumes "parse_offset s = Some (Some m)"
  obtains c cs h s1 s2 i where "take_digits 2 0 cs = Some (h, s1)" "take_digits 2 0 s2 = Some (i, [])"
    "h \<le> 23" "i \<le> 59" "m = (if c = CHR ''-'' then - (60 * h + i) else 60 * h + i)"
proof (cases s)
  case (Cons c cs)
  with assms obtain h s1 where h: "take_digits 2 0 cs = Some (h, s1)"
    by (auto simp: parse_offset_def split: if_splits option.splits)
  with Cons assms obtain s2 where s2: "expect '':'' s1 = Some s2"
    by (auto simp: parse_offset_def simp del: expect.simps split: if_splits option.splits)
  obtain i r where i: "take_digits 2 0 s2 = Some (i, r)"
    using assms Cons h s2
    by (cases "take_digits 2 0 s2") (auto simp: parse_offset_def simp del: expect.simps split: if_splits)
  have "r = [] \<and> h \<le> 23 \<and> i \<le> 59 \<and> m = (if c = CHR ''-'' then - (60 * h + i) else 60 * h + i)"
    using assms Cons h s2 i
    by (cases r) (auto simp: parse_offset_def simp del: expect.simps split: if_splits)
  with h i that show thesis by blast
qed (use assms in \<open>simp add: parse_offset_def\<close>)

lemma parse_offset_bound:
  assumes "parse_offset s = Some (Some m)"
  shows "\<bar>m\<bar> < 1440"
  using assms
proof (rule parse_offset_parts)
  fix c cs h s1 s2 i
  assume p: "take_digits 2 0 cs = Some (h, s1)" "take_digits 2 0 s2 = Some (i, [])" "h \<le> 23" "i \<le> 59"
    "m = (if c = CHR ''-'' then - (60 * h + i) else 60 * h + i)"
  have "0 \<le> h" "0 \<le> i"
    using take_digits_bound [OF p(1), of 1] take_digits_bound [OF p(2), of 1] by simp_all
  with p(3-5) show ?thesis by (auto split: if_splits)
qed

theorem fromisoformat_valid:
  assumes "fromisoformat s = Inr t"
  shows "valid_datetime t"
proof -
  from assms have "parse_iso s = Some t" by (auto simp: fromisoformat_def split: option.splits)
  then obtain y mo d hh mi ss us off s0 s1 s2 s3 s4 s5 s6 s7 where
    p: "take_digits 4 0 s = Some (y, s0)" "parse_field ''-'' s0 = Some (mo, s1)"
    "parse_field ''-'' s1 = Some (d, s2)" "parse_field ''T'' s2 = Some (hh, s3)"
    "parse_field '':'' s3 = Some (mi, s4)" "parse_field '':'' s4 = Some (ss, s5)"
    "parse_fraction s5 = Some (us, s6)" "parse_offset s6 = Some off"
    and v: "valid_date y mo d" "hh \<le> 23" "mi \<le> 59" "ss \<le> 59"
    and t: "t = \<lparr>wall = days_from_civil y mo d * 86400000000 + ((hh * 60 + mi) * 60 + ss) * 1000000 + us,
                utc_offset = off\<rparr>"
    unfolding parse_iso_def by (auto simp: bind_eq_Some_conv split: if_splits)
  have "0 \<le> hh" "0 \<le> mi" "0 \<le> ss" using p(4-6) parse_field_bound by blast+
  then have b: "0 \<le> ((hh * 60 + mi) * 60 + ss) * 1000000 + us"
    "((hh * 60 + mi) * 60 + ss) * 1000000 + us < 86400000000"
    using v(2-4) parse_fraction_bound [OF p(7)] by simp_all
  have "wall t = (((hh * 60 + mi) * 60 + ss) * 1000000 + us) + days_from_civil y mo d * 86400000000"
    by (simp add: t)
  also have "\<dots> div 86400000000 = days_from_civil y mo d"
    using b by (subst div_mult_self1) simp_all
  finally have days: "wall t div 86400000000 = days_from_civil y mo d" .
  have "y < 10000" using take_digits_bound [OF p(1), of 1] by simp
  moreover have "case off of None \<Rightarrow> True | Some m \<Rightarrow> \<bar>m\<bar> < 1440"
    using parse_offset_bound p(8) by (cases off) auto
  ultimately show ?thesis
    using v(1) by (simp add: valid_datetime_def days valid_date_def) (simp add: t)
qed

lemma valid_utc_datetime:
  assumes "0 \<le> us" "us < 9007199254740992"
  shows "valid_datetime (utc_datetime us)"
proof -
  define n where "n = us div 86400000000"
  have n: "0 \<le> n" "n \<le> 104249"
    using assms div_ge [of 86400000000 0 us] div_le [of 86400000000 us 104249]
    unfolding n_def by simp_all
  obtain y m d where ymd: "civil_from_days n = (y, m, d)"
    by (cases "civil_from_days n") auto
  have "4 \<le> (n + 719468) div 146097" "(n + 719468) div 146097 \<le> 5"
    using n div_ge [of 146097 4 "n + 719468"] div_le [of 146097 "n + 719468" 5] by simp_all
  moreover obtain yoe where "(if m \<le> 2 then y - 1 else y) = 400 * ((n + 719468) div 146097) + yoe"
    "0 \<le> yoe" "yoe < 400"
    using civil_from_days_parts [OF ymd] by metis
  ultimately have "1 \<le> y \<and> y \<le> 9999"
    by (simp split: if_splits)
  then show ?thesis
    using ymd by (simp add: valid_datetime_def utc_datetime_def n_def)
qed

end
