(* ===== verification/Json.thy ===== *)
theory Json
  imports Prelude
begin

text \<open>
  The JSON texts the program stores in Redis: \<^verbatim>\<open>json.dumps\<close> with its default separators and
  ASCII escapes or indented, and \<^verbatim>\<open>json.loads\<close>.  Values are null, booleans, integers, strings, lists and
  objects; a text with a fraction, an exponent or a code point above 255 is not modelled and
  reads as a decode error.  The main results are that the reader's fuel is always enough and
  that reading back what was written gives the same value.
\<close>

datatype json =
    JNull
  | JBool bool
  | JInt int
  | JStr string
  | JList "json list"
  | JObj "(string \<times> json) list"

text \<open>Python's truth value of a decoded value.\<close>

fun json_truthy :: "json \<Rightarrow> bool" where
  "json_truthy JNull = False"
| "json_truthy (JBool b) = b"
| "json_truthy (JInt i) = (i \<noteq> 0)"
| "json_truthy (JStr s) = (s \<noteq> [])"
| "json_truthy (JList xs) = (xs \<noteq> [])"
| "json_truthy (JObj kvs) = (kvs \<noteq> [])"

section \<open>Writing\<close>

definition hex_digit :: "nat \<Rightarrow> char" where
  "hex_digit n = (if n < 10 then char_of (48 + n) else char_of (87 + n))"

definition esc_char :: "char \<Rightarrow> string" where
  "esc_char c =
     (let n = code_point c
      in if n = 34 then [CHR 0x5C, CHR 0x22]
         else if n = 92 then [CHR 0x5C, CHR 0x5C]
         else if n = 10 then [CHR 0x5C, CHR ''n'']
         else if n = 13 then [CHR 0x5C, CHR ''r'']
         else if n = 9 then [CHR 0x5C, CHR ''t'']
         else if n = 8 then [CHR 0x5C, CHR ''b'']
         else if n = 12 then [CHR 0x5C, CHR ''f'']
         else if 32 \<le> n \<and> n \<le> 126 then [c]
         else [CHR 0x5C, CHR ''u'', CHR ''0'', CHR ''0'',
               hex_digit (n div 16), hex_digit (n mod 16)])"

definition dump_str :: "string \<Rightarrow> string" where
  "dump_str s = CHR 0x22 # concat (map esc_char s) @ [CHR 0x22]"

fun dumps :: "json \<Rightarrow> string" where
  "dumps JNull = ''null''"
| "dumps (JBool b) = (if b then ''true'' else ''false'')"
| "dumps (JInt i) = int_str i"
| "dumps (JStr s) = dump_str s"
| "dumps (JList xs) = ''['' @ py_join '', '' (map dumps xs) @ '']''"
| "dumps (JObj kvs) =
     ''{'' @ py_join '', '' (map (\<lambda>p. dump_str (fst p) @ '': '' @ dumps (snd p)) kvs) @ ''}''"

definition nl :: string where
  "nl = [CHR 0x0A]"

text \<open>\<^verbatim>\<open>json.dumps(v, indent=2)\<close>, with the indentation of the enclosing line\<close>

fun dumps_indent :: "nat \<Rightarrow> json \<Rightarrow> string" where
  "dumps_indent n (JList xs) =
     (if xs = [] then ''[]''
      else ''['' @ nl @ py_join ('','' @ nl)
             (map (\<lambda>x. replicate (n + 2) (CHR '' '') @ dumps_indent (n + 2) x) xs)
           @ nl @ replicate n (CHR '' '') @ '']'')"
| "dumps_indent n (JObj kvs) =
     (if kvs = [] then ''{}''
      else ''{'' @ nl @ py_join ('','' @ nl)
             (map (\<lambda>p. replicate (n + 2) (CHR '' '') @ dump_str (fst p) @ '': '' @ dumps_indent (n + 2) (snd p)) kvs)
           @ nl @ replicate n (CHR '' '') @ ''}'')"
| "dumps_indent n v = dumps v"

section \<open>Reading\<close>

definition json_ws :: "char \<Rightarrow> bool" where
  "json_ws c \<longleftrightarrow> c = CHR '' '' \<or> code_point c = 9 \<or> code_point c = 10 \<or> code_point c = 13"

definition skip_ws :: "string \<Rightarrow> string" where
  "skip_ws s = dropWhile json_ws s"

definition hex_value :: "char \<Rightarrow> nat option" where
  "hex_value c =
     (let n = code_point c
      in if 48 \<le> n \<and> n \<le> 57 then Some (n - 48)
         else if 97 \<le> n \<and> n \<le> 102 then Some (n - 87)
         else if 65 \<le> n \<and> n \<le> 70 then Some (n - 55)
         else None)"

definition hex4 :: "char \<Rightarrow> char \<Rightarrow> char \<Rightarrow> char \<Rightarrow> nat option" where
  "hex4 a b c d =
     (case (hex_value a, hex_value b, hex_value c, hex_value d) of
        (Some w, Some x, Some y, Some z) \<Rightarrow> Some (((w * 16 + x) * 16 + y) * 16 + z)
      | _ \<Rightarrow> None)"

definition simple_escape :: "char \<Rightarrow> char option" where
  "simple_escape c =
     (if c = CHR 0x22 \<or> c = CHR 0x5C \<or> c = CHR ''/'' then Some c
      else if c = CHR ''n'' then Some (char_of (10 :: nat))
      else if c = CHR ''r'' then Some (char_of (13 :: nat))
      else if c = CHR ''t'' then Some (char_of (9 :: nat))
      else if c = CHR ''b'' then Some (char_of (8 :: nat))
      else if c = CHR ''f'' then Some (char_of (12 :: nat))
      else None)"

definition add_char :: "char \<Rightarrow> (string \<times> string) option \<Rightarrow> (string \<times> string) option" where
  "add_char c r = map_option (\<lambda>(t, s). (c # t, s)) r"

text \<open>The characters of a string literal, after its opening quote.\<close>

fun parse_str :: "string \<Rightarrow> (string \<times> string) option" where
  "parse_str [] = None"
| "parse_str (c # cs) =
     (if c = CHR 0x22 then Some ([], cs)
      else if c = CHR 0x5C then
        (case cs of
           [] \<Rightarrow> None
         | e # es \<Rightarrow>
             (case simple_escape e of
                Some d \<Rightarrow> add_char d (parse_str es)
              | None \<Rightarrow>
                  if e = CHR ''u'' then
                    (case es of
                       h1 # h2 # h3 # h4 # r \<Rightarrow>
                         (case hex4 h1 h2 h3 h4 of
                            Some k \<Rightarrow> if k < 256 then add_char (char_of k) (parse_str r) else None
                          | None \<Rightarrow> None)
                     | _ \<Rightarrow> None)
                  else None))
      else if code_point c < 32 then None
      else add_char c (parse_str cs))"

definition span_digits :: "string \<Rightarrow> string \<times> string" where
  "span_digits s = (takeWhile is_digit s, dropWhile is_digit s)"

text \<open>An integer literal: no leading zero, and not the integer part of a float.\<close>

definition parse_int :: "string \<Rightarrow> (json \<times> string) option" where
  "parse_int s =
     (let (neg, body) = (case s of c # cs \<Rightarrow> if c = CHR ''-'' then (True, cs) else (False, s)
                                 | [] \<Rightarrow> (False, s));
          (ds, r) = span_digits body
      in if ds = [] \<or> (hd ds = CHR ''0'' \<and> length ds \<noteq> 1) then None
         else if r \<noteq> [] \<and> hd r \<in> {CHR ''.'', CHR ''e'', CHR ''E''} then None
         else (case digits_from 0 ds of
                 None \<Rightarrow> None
               | Some n \<Rightarrow> Some (JInt (if neg then - int n else int n), r)))"

definition parse_atom :: "string \<Rightarrow> (json \<times> string) option" where
  "parse_atom s =
     (if starts_with s ''null'' then Some (JNull, drop 4 s)
      else if starts_with s ''true'' then Some (JBool True, drop 4 s)
      else if starts_with s ''false'' then Some (JBool False, drop 5 s)
      else parse_int s)"

text \<open>
  A value, the elements of a list and the members of an object, each with the fuel as its
  first argument.  A duplicate key keeps the last value, as in a \<^verbatim>\<open>dict\<close>.
\<close>

fun parse_value :: "nat \<Rightarrow> string \<Rightarrow> (json \<times> string) option"
  and parse_elems :: "nat \<Rightarrow> string \<Rightarrow> (json list \<times> string) option"
  and parse_members :: "nat \<Rightarrow> string \<Rightarrow> ((string \<times> json) list \<times> string) option"
where
  "parse_value 0 s = None"
| "parse_value (Suc n) s =
     (case skip_ws s of
        [] \<Rightarrow> None
      | c # cs \<Rightarrow>
          if c = CHR 0x22 then map_option (\<lambda>(t, r). (JStr t, r)) (parse_str cs)
          else if c = CHR ''['' then
            (if skip_ws cs \<noteq> [] \<and> hd (skip_ws cs) = CHR '']''
             then Some (JList [], tl (skip_ws cs))
             else map_option (\<lambda>(xs, r). (JList xs, r)) (parse_elems n cs))
          else if c = CHR ''{'' then
            (if skip_ws cs \<noteq> [] \<and> hd (skip_ws cs) = CHR ''}''
             then Some (JObj [], tl (skip_ws cs))
             else map_option (\<lambda>(kvs, r). (JObj (fold (\<lambda>(k, v). dset k v) kvs []), r))
                    (parse_members n cs))
          else parse_atom (c # cs))"
| "parse_elems 0 s = None"
| "parse_elems (Suc n) s =
     (case parse_value n s of
        None \<Rightarrow> None
      | Some (v, r) \<Rightarrow>
          (case skip_ws r of
             [] \<Rightarrow> None
           | c # r' \<Rightarrow>
               if c = CHR '','' then map_option (\<lambda>(vs, t). (v # vs, t)) (parse_elems n r')
               else if c = CHR '']'' then Some ([v], r')
               else None))"
| "parse_members 0 s = None"
| "parse_members (Suc n) s =
     (case skip_ws s of
        [] \<Rightarrow> None
      | q # cs \<Rightarrow>
          if q \<noteq> CHR 0x22 then None
          else
            (case parse_str cs of
               None \<Rightarrow> None
             | Some (k, r) \<Rightarrow>
                 (case skip_ws r of
                    [] \<Rightarrow> None
                  | col # r' \<Rightarrow>
                      if col \<noteq> CHR '':'' then None
                      else
                        (case parse_value n r' of
                           None \<Rightarrow> None
                         | Some (v, t) \<Rightarrow>
                             (case skip_ws t of
                                [] \<Rightarrow> None
                              | c # t' \<Rightarrow>
                                  if c = CHR '','' then
                                    map_option (\<lambda>(kvs, u). ((k, v) # kvs, u)) (parse_members n t')
                                  else if c = CHR ''}'' then Some ([(k, v)], t')
                                  else None)))))"

text \<open>Every call spends one unit of fuel and every second call a character.\<close>

definition json_fuel :: "string \<Rightarrow> nat" where
  "json_fuel s = 2 * length s + 1"

definition loads :: "string \<Rightarrow> exn + json" where
  "loads s =
     (case parse_value (json_fuel s) s of
        Some (v, r) \<Rightarrow>
          if skip_ws r = [] then Inr v else Inl (Exn PyJSONDecodeError ''Extra data'')
      | None \<Rightarrow> Inl (Exn PyJSONDecodeError ''Expecting value''))"

section \<open>Enough fuel\<close>

lemma length_skip_ws: "length (skip_ws s) \<le> length s"
  by (simp add: skip_ws_def length_dropWhile_le)

lemma skip_ws_Cons_length: "skip_ws s = c # cs \<Longrightarrow> length cs < length s"
  using length_skip_ws [of s] by simp

lemma add_char_eq_Some: "add_char c x = Some (t, r) \<longleftrightarrow> (\<exists>t'. x = Some (t', r) \<and> t = c # t')"
  by (cases x) (auto simp: add_char_def)

lemma parse_str_length: "parse_str s = Some (t, r) \<Longrightarrow> length r < length s"
proof (induction s arbitrary: t r rule: parse_str.induct)
  case 1
  then show ?case by simp
next
  case (2 c cs)
  consider "c = CHR 0x22" | "c \<noteq> CHR 0x22" "c = CHR 0x5C" | "c \<noteq> CHR 0x22" "c \<noteq> CHR 0x5C"
    by blast
  then show ?case
  proof cases
    case 1
    with "2.prems" show ?thesis by simp
  next
    case bs: 2
    with "2.prems" obtain e es where cs: "cs = e # es" by (cases cs) auto
    show ?thesis
    proof (cases "simple_escape e")
      case (Some d)
      with "2.prems" bs cs obtain t' where "parse_str es = Some (t', r)"
        by (auto simp: add_char_eq_Some)
      from "2.IH"(2) [OF bs cs Some this] show ?thesis by (simp add: cs)
    next
      case None
      with "2.prems" bs cs have u: "e = CHR ''u''" by (simp split: if_splits)
      with "2.prems" bs cs None obtain h1 h2 h3 h4 r' where es: "es = h1 # h2 # h3 # h4 # r'"
        by (auto split: list.splits)
      with "2.prems" bs cs None u obtain k where k: "hex4 h1 h2 h3 h4 = Some k" "k < 256"
        by (auto split: option.splits if_splits)
      with "2.prems" bs cs None u es obtain t' where "parse_str r' = Some (t', r)"
        by (auto simp: add_char_eq_Some)
      from "2.IH"(1) [OF bs cs None u es refl refl refl k this] show ?thesis by (simp add: cs es)
    qed
  next
    case plain: 3
    with "2.prems" have ctl: "\<not> code_point c < 32" by (auto split: if_splits)
    with "2.prems" plain obtain t' where "parse_str cs = Some (t', r)"
      by (auto simp: add_char_eq_Some)
    from "2.IH"(3) [OF plain ctl this] show ?thesis by simp
  qed
qed

lemma parse_int_length: "parse_int s = Some (v, r) \<Longrightarrow> length r < length s"
proof -
  assume p: "parse_int s = Some (v, r)"
  have span: "length (dropWhile is_digit b) < length b" if "takeWhile is_digit b \<noteq> []" for b
  proof -
    have "length b = length (takeWhile is_digit b) + length (dropWhile is_digit b)"
      by (metis length_append takeWhile_dropWhile_id)
    with that show ?thesis by (cases "takeWhile is_digit b") simp_all
  qed
  show ?thesis
  proof (cases "\<exists>cs. s = CHR ''-'' # cs")
    case True
    then obtain cs where "s = CHR ''-'' # cs" by blast
    with p span [of cs] show ?thesis
      by (auto simp: parse_int_def span_digits_def Let_def split: if_splits option.splits)
  next
    case False
    then have "(case s of c # cs \<Rightarrow> if c = CHR ''-'' then (True, cs) else (False, s)
        | [] \<Rightarrow> (False, s)) = (False, s)"
      by (auto split: list.splits)
    with p span [of s] show ?thesis
      by (auto simp: parse_int_def span_digits_def Let_def split: if_splits option.splits)
  qed
qed

lemma starts_with_length: "starts_with s p \<Longrightarrow> length p \<le> length s"
  by (metis length_take min.cobounded1 min.commute starts_with_def)

lemma parse_atom_length: "parse_atom s = Some (v, r) \<Longrightarrow> length r < length s"
  using starts_with_length [of s "''null''"] starts_with_length [of s "''true''"]
    starts_with_length [of s "''false''"]
  by (auto simp: parse_atom_def dest: parse_int_length split: if_splits)

lemma parse_lengths:
  "parse_value n s = Some (v, r) \<Longrightarrow> length r < length s"
  "parse_elems n s = Some (vs, r) \<Longrightarrow> length r < length s"
  "parse_members n s = Some (kvs, r) \<Longrightarrow> length r < length s"
proof (induction n arbitrary: s v vs kvs r)
  case 0
  {
    case 1
    then show ?case by simp
  next
    case 2
    then show ?case by simp
  next
    case 3
    then show ?case by simp
  }
next
  case (Suc n)
  {
    case 1
    then obtain c cs where s: "skip_ws s = c # cs" by (cases "skip_ws s") auto
    note l = length_skip_ws [of s, unfolded s] length_skip_ws [of cs]
    have tl: "length (tl (skip_ws cs)) \<le> length cs" using l(2) by simp
    from 1 s l tl show ?case
      by (auto dest!: parse_str_length parse_atom_length Suc.IH split: if_splits)
  next
    case 2
    then obtain v1 r1 where v1: "parse_value n s = Some (v1, r1)"
      by (auto split: option.splits)
    with 2 obtain c r2 where r2: "skip_ws r1 = c # r2" by (auto split: list.splits)
    from Suc.IH(1) [OF v1] skip_ws_Cons_length [OF r2] 2 v1 r2 show ?case
      by (auto dest!: Suc.IH(2) split: if_splits)
  next
    case 3
    then obtain cs where s: "skip_ws s = CHR 0x22 # cs"
      by (auto split: list.splits if_splits)
    with 3 obtain k r1 where k: "parse_str cs = Some (k, r1)" by (auto split: option.splits)
    with 3 s obtain r2 where r2: "skip_ws r1 = CHR '':'' # r2" by (auto split: list.splits if_splits)
    with 3 s k obtain v1 r3 where v1: "parse_value n r2 = Some (v1, r3)" by (auto split: option.splits)
    with 3 s k r2 obtain c r4 where r4: "skip_ws r3 = c # r4" by (auto split: list.splits)
    from skip_ws_Cons_length [OF s] parse_str_length [OF k] skip_ws_Cons_length [OF r2]
      Suc.IH(1) [OF v1] skip_ws_Cons_length [OF r4] 3 s k r2 v1 r4
    show ?case
      by (auto dest!: Suc.IH(3) split: if_splits)
  }
qed

lemma parse_fuel_enough:
  "2 * length s + 1 \<le> n \<Longrightarrow> 2 * length s + 1 \<le> m \<Longrightarrow> parse_value n s = parse_value m s"
  "2 * length s + 2 \<le> n \<Longrightarrow> 2 * length s + 2 \<le> m \<Longrightarrow> parse_elems n s = parse_elems m s"
  "2 * length s + 2 \<le> n \<Longrightarrow> 2 * length s + 2 \<le> m \<Longrightarrow> parse_members n s = parse_members m s"
proof (induction n arbitrary: m s)
  case 0
  {
    case 1
    then show ?case by simp
  next
    case 2
    then show ?case by simp
  next
    case 3
    then show ?case by simp
  }
next
  case (Suc n)
  {
    case 1
    then obtain m' where m: "m = Suc m'" by (cases m) auto
    show ?case
    proof (cases "skip_ws s")
      case Nil
      then show ?thesis by (simp add: m)
    next
      case (Cons c cs)
      with 1 m have "2 * length cs + 2 \<le> n" "2 * length cs + 2 \<le> m'"
        using skip_ws_Cons_length [OF Cons] by simp_all
      then have "parse_elems n cs = parse_elems m' cs" "parse_members n cs = parse_members m' cs"
        by (rule Suc.IH(2,3))+
      with Cons show ?thesis by (simp add: m)
    qed
  next
    case 2
    then obtain m' where m: "m = Suc m'" by (cases m) auto
    have v: "parse_value n s = parse_value m' s"
      by (rule Suc.IH(1)) (use 2 m in auto)
    have e: "parse_elems n r' = parse_elems m' r'"
      if "parse_value m' s = Some (x, r)" "skip_ws r = c # r'" for x r c r'
      by (rule Suc.IH(2)) (use 2 m parse_lengths(1) [OF that(1)] skip_ws_Cons_length [OF that(2)] in auto)
    show ?case
      by (auto simp: m v e split: option.splits list.splits)
  next
    case 3
    then obtain m' where m: "m = Suc m'" by (cases m) auto
    have v: "parse_value n r' = parse_value m' r'"
      if "skip_ws s = q # cs" "parse_str cs = Some (k, r)" "skip_ws r = c # r'" for q cs k r c r'
      by (rule Suc.IH(1))
        (use 3 m skip_ws_Cons_length [OF that(1)] parse_str_length [OF that(2)]
          skip_ws_Cons_length [OF that(3)] in auto)
    have e: "parse_members n t' = parse_members m' t'"
      if "skip_ws s = q # cs" "parse_str cs = Some (k, r)" "skip_ws r = c # r'"
        "parse_value m' r' = Some (x, t)" "skip_ws t = d # t'" for q cs k r c r' x t d t'
      by (rule Suc.IH(3))
        (use 3 m skip_ws_Cons_length [OF that(1)] parse_str_length [OF that(2)]
          skip_ws_Cons_length [OF that(3)] parse_lengths(1) [OF that(4)]
          skip_ws_Cons_length [OF that(5)] in auto)
    show ?case
      by (auto simp: m v e split: option.splits list.splits)
  }
qed

section \<open>Round trip\<close>

text \<open>The values \<^verbatim>\<open>json.dumps\<close> is given: the keys of a \<^verbatim>\<open>dict\<close> are distinct.\<close>

fun json_wf :: "json \<Rightarrow> bool" where
  "json_wf (JList xs) = (\<forall>x \<in> set xs. json_wf x)"
| "json_wf (JObj kvs) = (distinct (map fst kvs) \<and> (\<forall>p \<in> set kvs. json_wf (snd p)))"
| "json_wf v = True"

lemma char_of_code_point [simp]: "char_of (code_point c) = c"
  by (simp add: code_point_def)

lemma code_point_less: "code_point c < 256"
  by (simp add: code_point_def)

lemma code_point_eq_iff: "code_point c = code_point d \<longleftrightarrow> c = d"
  by (metis char_of_code_point)

lemma hex_value_hex_digit: "n < 16 \<Longrightarrow> hex_value (hex_digit n) = Some n"
  by (auto simp: hex_value_def hex_digit_def code_point_def Let_def)

lemma hex4_code_point:
  "hex4 (CHR ''0'') (CHR ''0'') (hex_digit (code_point c div 16)) (hex_digit (code_point c mod 16)) =
   Some (code_point c)"
proof -
  have "code_point c div 16 < 16" using code_point_less [of c] by simp
  moreover have "hex_value (CHR ''0'') = Some 0" by (simp add: hex_value_def code_point_def)
  ultimately show ?thesis by (simp add: hex4_def hex_value_hex_digit)
qed

lemma simple_escape_chars [simp]:
  "simple_escape (CHR 0x22) = Some (CHR 0x22)" "simple_escape (CHR 0x5C) = Some (CHR 0x5C)"
  "simple_escape (CHR ''n'') = Some (char_of (10 :: nat))"
  "simple_escape (CHR ''r'') = Some (char_of (13 :: nat))"
  "simple_escape (CHR ''t'') = Some (char_of (9 :: nat))"
  "simple_escape (CHR ''b'') = Some (char_of (8 :: nat))"
  "simple_escape (CHR ''f'') = Some (char_of (12 :: nat))"
  "simple_escape (CHR ''u'') = None"
  by (simp_all add: simple_escape_def)

lemma quote_chars: "char_of (34 :: nat) = CHR 0x22" "char_of (92 :: nat) = CHR 0x5C"
  by code_simp+

lemma parse_str_esc_char: "parse_str (esc_char c @ s) = add_char c (parse_str s)"
proof -
  define n where "n = code_point c"
  have c: "c = char_of n" by (simp add: n_def)
  consider "n = 34" | "n = 92" | "n = 10" | "n = 13" | "n = 9" | "n = 8" | "n = 12"
    | "n \<notin> {34, 92, 10, 13, 9, 8, 12}" "32 \<le> n" "n \<le> 126"
    | "n \<notin> {34, 92, 10, 13, 9, 8, 12}" "\<not> (32 \<le> n \<and> n \<le> 126)"
    by blast
  then show ?thesis
  proof cases
    case 8
    then have "esc_char c = [c]" by (simp add: esc_char_def n_def [symmetric])
    moreover have "c \<noteq> CHR 0x22" "c \<noteq> CHR 0x5C"
      using 8 by (auto simp: n_def code_point_def)
    moreover have "\<not> code_point c < 32" using 8 by (simp add: n_def)
    ultimately show ?thesis by simp
  next
    case 9
    then have "esc_char c = [CHR 0x5C, CHR ''u'', CHR ''0'', CHR ''0'',
        hex_digit (code_point c div 16), hex_digit (code_point c mod 16)]"
      by (simp add: esc_char_def n_def [symmetric])
    then show ?thesis by (simp add: hex4_code_point code_point_less)
  qed (simp_all add: esc_char_def n_def [symmetric] c Let_def code_point_def quote_chars)
qed

lemma parse_str_escaped:
  "parse_str (concat (map esc_char t) @ CHR 0x22 # r) = Some (t, r)"
  by (induction t) (simp_all add: parse_str_esc_char add_char_def)

lemma skip_ws_simps [simp]:
  "skip_ws [] = []" "skip_ws (c # s) = (if json_ws c then skip_ws s else c # s)"
  by (simp_all add: skip_ws_def)

lemma json_ws_chars [simp]:
  "json_ws (CHR '' '')" "\<not> json_ws (CHR '','')" "\<not> json_ws (CHR '']'')" "\<not> json_ws (CHR ''}'')"
  "\<not> json_ws (CHR '':'')" "\<not> json_ws (CHR 0x22)" "\<not> json_ws (CHR ''['')" "\<not> json_ws (CHR ''{'')"
  "\<not> json_ws (CHR ''n'')" "\<not> json_ws (CHR ''t'')" "\<not> json_ws (CHR ''f'')" "\<not> json_ws (CHR ''-'')"
  by (simp_all add: json_ws_def code_point_def)

lemma is_digit_not_special:
  "is_digit c \<Longrightarrow> \<not> json_ws c \<and> c \<notin> {CHR 0x22, CHR ''['', CHR '']'', CHR ''{'', CHR ''}'', CHR ''-'',
     CHR ''n'', CHR ''t'', CHR ''f''}"
  by (auto simp: is_digit_def json_ws_def code_point_def)

text \<open>What may follow a value inside a text that \<^const>\<open>dumps\<close> or \<^const>\<open>dumps_indent\<close> wrote.\<close>

definition after_value :: "string \<Rightarrow> bool" where
  "after_value r \<longleftrightarrow> r = [] \<or> hd r \<in> {CHR '','', CHR '']'', CHR ''}'', CHR 0x0A}"

lemma nat_str_leading: "nat_str n = c # cs \<Longrightarrow> c = CHR ''0'' \<Longrightarrow> cs = []"
proof (induction n arbitrary: c cs rule: nat_str.induct)
  case (1 n)
  show ?case
  proof (cases "n < 10")
    case True
    with 1 show ?thesis by (simp add: nat_str.simps [of n])
  next
    case False
    obtain d ds where d: "nat_str (n div 10) = d # ds"
      by (cases "nat_str (n div 10)") auto
    with False "1.prems" have "d = CHR ''0''" by (simp add: nat_str.simps [of n])
    with "1.IH" [OF False d] d have "nat_str (n div 10) = ''0''" by simp
    then have "digits_from 0 ''0'' = Some (n div 10)" using digits_from_nat_str by metis
    then have "n div 10 = 0" by (simp add: is_digit_def digit_value_def code_point_def)
    with False show ?thesis by simp
  qed
qed

lemma span_digits_nat_str:
  assumes "after_value r"
  shows "span_digits (nat_str n @ r) = (nat_str n, r)"
proof -
  have "\<not> is_digit (hd r)" if "r \<noteq> []"
    using assms that by (auto simp: after_value_def is_digit_def code_point_def)
  then have "takeWhile is_digit r = []" "dropWhile is_digit r = r"
    by (cases r; simp)+
  moreover have "\<forall>c \<in> set (nat_str n). is_digit c"
    using nat_str_digits by blast
  ultimately show ?thesis
    by (simp add: span_digits_def takeWhile_append2 dropWhile_append2)
qed

lemma parse_int_int_str:
  assumes "after_value r"
  shows "parse_int (int_str i @ r) = Some (JInt i, r)"
proof -
  have lead: "\<not> (hd (nat_str n) = CHR ''0'' \<and> length (nat_str n) \<noteq> Suc 0)" for n
    using nat_str_leading [of n] by (cases "nat_str n") auto
  have tail: "\<not> (r \<noteq> [] \<and> (hd r = CHR ''.'' \<or> hd r = CHR ''e'' \<or> hd r = CHR ''E''))"
    using assms by (auto simp: after_value_def)
  show ?thesis
  proof (cases "i < 0")
    case True
    with lead [of "nat (- i)"] tail assms show ?thesis
      by (simp add: parse_int_def int_str_def span_digits_nat_str digits_from_nat_str)
  next
    case False
    obtain c cs where n: "nat_str (nat i) = c # cs" by (cases "nat_str (nat i)") auto
    have "c \<noteq> CHR ''-''" using nat_str_hd [OF n] by simp
    then have "(case nat_str (nat i) @ r of c # cs \<Rightarrow>
        if c = CHR ''-'' then (True, cs) else (False, nat_str (nat i) @ r) | [] \<Rightarrow> (False, nat_str (nat i) @ r)) =
        (False, nat_str (nat i) @ r)"
      by (simp add: n)
    with False lead [of "nat i"] tail assms show ?thesis
      by (simp add: parse_int_def int_str_def span_digits_nat_str digits_from_nat_str)
  qed
qed

lemma parse_value_space: "parse_value n (CHR '' '' # s) = parse_value n s"
  by (cases n) simp_all

lemma parse_elems_space: "parse_elems n (CHR '' '' # s) = parse_elems n s"
  by (cases n) (simp_all add: parse_value_space)

lemma parse_members_space: "parse_members n (CHR '' '' # s) = parse_members n s"
  by (cases n) simp_all

text \<open>The first character of a written value: no white space and no closing bracket.\<close>

lemma dumps_head:
  obtains c cs where "dumps v = c # cs" "\<not> json_ws c" "c \<noteq> CHR '']''" "c \<noteq> CHR ''}''"
proof -
  have *: "\<exists>c cs. int_str i = c # cs \<and> \<not> json_ws c \<and> c \<noteq> CHR '']'' \<and> c \<noteq> CHR ''}''" for i
  proof (cases "i < 0")
    case False
    obtain c cs where n: "nat_str (nat i) = c # cs" by (cases "nat_str (nat i)") auto
    then have "is_digit c" using nat_str_digits [of "nat i"] by simp
    with False n is_digit_not_special [of c] show ?thesis by (simp add: int_str_def)
  qed (simp add: int_str_def)
  have "\<exists>c cs. dumps v = c # cs \<and> \<not> json_ws c \<and> c \<noteq> CHR '']'' \<and> c \<noteq> CHR ''}''"
    using * by (cases v) (auto simp: dump_str_def)
  then show thesis using that by blast
qed

definition reads_back :: "json \<Rightarrow> bool" where
  "reads_back v \<longleftrightarrow>
     (\<forall>n r. after_value r \<longrightarrow> 2 * length (dumps v) + 1 \<le> n \<longrightarrow>
            parse_value n (dumps v @ r) = Some (v, r))"

lemma reads_backD:
  "reads_back v \<Longrightarrow> after_value r \<Longrightarrow> 2 * length (dumps v) + 1 \<le> n \<Longrightarrow>
   parse_value n (dumps v @ r) = Some (v, r)"
  by (simp add: reads_back_def)

lemma after_value_simps [simp]:
  "after_value []" "after_value (CHR '','' # r)" "after_value (CHR '']'' # r)"
  "after_value (CHR ''}'' # r)" "after_value (CHR 0x0A # r)"
  by (simp_all add: after_value_def)

lemma parse_elems_join:
  assumes "xs \<noteq> []" "\<forall>x \<in> set xs. reads_back x"
    and "2 * length (py_join '', '' (map dumps xs)) + 2 \<le> n"
  shows "parse_elems n (py_join '', '' (map dumps xs) @ CHR '']'' # r) = Some (xs, r)"
  using assms
proof (induction xs arbitrary: n)
  case (Cons x xs)
  from Cons.prems(3) obtain m where n: "n = Suc m" by (cases n) auto
  show ?case
  proof (cases xs)
    case Nil
    with Cons.prems n show ?thesis by (simp add: reads_backD)
  next
    case (Cons y ys)
    define J where "J = py_join '', '' (map dumps xs)"
    have j: "py_join '', '' (map dumps (x # xs)) = dumps x @ '', '' @ J"
      by (simp add: J_def Cons)
    have m: "2 * length J + 2 \<le> m" "2 * length (dumps x) + 1 \<le> m"
      using Cons.prems(3) n unfolding j by simp_all
    have "parse_elems m (J @ CHR '']'' # r) = Some (xs, r)"
      unfolding J_def by (rule Cons.IH) (use Cons Cons.prems m in \<open>auto simp: J_def\<close>)
    with Cons.prems(2) m(2) show ?thesis
      unfolding j n by (simp add: reads_backD parse_elems_space)
  qed
qed simp

definition dump_member :: "string \<times> json \<Rightarrow> string" where
  "dump_member p = dump_str (fst p) @ '': '' @ dumps (snd p)"

lemma parse_members_join:
  assumes "kvs \<noteq> []" "\<forall>p \<in> set kvs. reads_back (snd p)"
    and "2 * length (py_join '', '' (map dump_member kvs)) + 2 \<le> n"
  shows "parse_members n (py_join '', '' (map dump_member kvs) @ CHR ''}'' # r) = Some (kvs, r)"
  using assms
proof (induction kvs arbitrary: n)
  case (Cons p kvs)
  obtain k v where p: "p = (k, v)" by (cases p)
  from Cons.prems(3) obtain m where n: "n = Suc m" by (cases n) auto
  show ?case
  proof (cases kvs)
    case Nil
    with Cons.prems n show ?thesis
      by (simp add: p dump_member_def dump_str_def parse_str_escaped parse_value_space reads_backD)
  next
    case (Cons q qs)
    define J where "J = py_join '', '' (map dump_member kvs)"
    have j: "py_join '', '' (map dump_member (p # kvs)) = dump_member p @ '', '' @ J"
      by (simp add: J_def Cons)
    have m: "2 * length J + 2 \<le> m" "2 * length (dumps v) + 1 \<le> m"
      using Cons.prems(3) n unfolding j by (simp_all add: p dump_member_def)
    have "parse_members m (J @ CHR ''}'' # r) = Some (kvs, r)"
      unfolding J_def by (rule Cons.IH) (use Cons Cons.prems m in \<open>auto simp: J_def\<close>)
    with Cons.prems(2) m(2) show ?thesis
      unfolding j n
      by (simp add: p dump_member_def dump_str_def parse_str_escaped parse_value_space
          parse_members_space reads_backD)
  qed
qed simp

lemma dset_fresh: "k \<notin> fst ` set d \<Longrightarrow> dset k v d = d @ [(k, v)]"
  by (induction d) auto

lemma fold_dset_distinct:
  "distinct (map fst (acc @ kvs)) \<Longrightarrow> fold (\<lambda>(k, v). dset k v) kvs acc = acc @ kvs"
proof (induction kvs arbitrary: acc)
  case (Cons p kvs)
  then have "fst p \<notin> fst ` set acc" by auto
  with Cons show ?case by (simp add: split_beta dset_fresh)
qed simp

lemma parse_value_atom:
  "0 < n \<Longrightarrow> \<not> json_ws c \<Longrightarrow> c \<notin> {CHR 0x22, CHR ''['', CHR ''{''} \<Longrightarrow>
   parse_value n (c # cs) = parse_atom (c # cs)"
  by (cases n) simp_all

lemma reads_back: "json_wf v \<Longrightarrow> reads_back v"
proof (induction v)
  case (JStr s)
  show ?case
    unfolding reads_back_def
  proof (intro allI impI)
    fix n r
    assume "2 * length (dumps (JStr s)) + 1 \<le> n"
    then obtain m where "n = Suc m" by (cases n) auto
    then show "parse_value n (dumps (JStr s) @ r) = Some (JStr s, r)"
      by (simp add: dump_str_def parse_str_escaped)
  qed
next
  case (JInt i)
  show ?case
    unfolding reads_back_def
  proof (intro allI impI)
    fix n r
    assume r: "after_value r" and "2 * length (dumps (JInt i)) + 1 \<le> n"
    then obtain m where n: "n = Suc m" by (cases n) auto
    obtain c cs where i: "int_str i = c # cs" by (cases "int_str i") (auto simp: int_str_edges)
    have "c = CHR ''-'' \<or> is_digit c"
      using i nat_str_digits [of "nat i"] by (auto simp: int_str_def split: if_splits)
    then have "\<not> json_ws c" "c \<notin> {CHR 0x22, CHR ''['', CHR ''{'', CHR ''n'', CHR ''t'', CHR ''f''}"
      using is_digit_not_special [of c] by auto
    with parse_int_int_str [OF r, of i] i n show "parse_value n (dumps (JInt i) @ r) = Some (JInt i, r)"
      by (simp add: parse_atom_def starts_with_def)
  qed
next
  case (JList xs)
  then have IH: "\<forall>x \<in> set xs. reads_back x" by simp
  show ?case
    unfolding reads_back_def
  proof (intro allI impI)
    fix n r
    assume len: "2 * length (dumps (JList xs)) + 1 \<le> n"
    then obtain m where n: "n = Suc m" by (cases n) auto
    show "parse_value n (dumps (JList xs) @ r) = Some (JList xs, r)"
    proof (cases "xs = []")
      case False
      then obtain x ys where xs: "xs = x # ys" by (cases xs) auto
      obtain c cs where c: "dumps x = c # cs" "\<not> json_ws c" "c \<noteq> CHR '']''"
        by (rule dumps_head [of x])
      then obtain ds where "py_join '', '' (map dumps xs) = c # ds"
        by (cases ys) (auto simp: xs)
      with c parse_elems_join [OF False IH, of m r] len show ?thesis
        by (simp add: n)
    qed (simp add: n)
  qed
next
  case (JObj kvs)
  then have IH: "\<forall>p \<in> set kvs. reads_back (snd p)" by (force simp: snds.simps)
  have obj: "dumps (JObj kvs) = ''{'' @ py_join '', '' (map dump_member kvs) @ ''}''"
    by (simp add: dump_member_def cong: map_cong)
  show ?case
    unfolding reads_back_def
  proof (intro allI impI)
    fix n r
    assume len: "2 * length (dumps (JObj kvs)) + 1 \<le> n"
    then obtain m where n: "n = Suc m" by (cases n) auto
    show "parse_value n (dumps (JObj kvs) @ r) = Some (JObj kvs, r)"
    proof (cases "kvs = []")
      case False
      then obtain p ps where kvs: "kvs = p # ps" by (cases kvs) auto
      then obtain ds where "py_join '', '' (map dump_member kvs) = CHR 0x22 # ds"
        by (cases ps) (auto simp: dump_member_def dump_str_def)
      moreover have "fold (\<lambda>(k, v). dset k v) kvs [] = kvs"
        using JObj.prems fold_dset_distinct [of "[]" kvs] by simp
      ultimately show ?thesis
        using parse_members_join [OF False IH, of m r] len unfolding obj by (simp add: n)
    qed (simp add: n)
  qed
qed (auto simp: reads_back_def parse_value_atom parse_atom_def starts_with_def)

theorem loads_dumps [simp]: "json_wf v \<Longrightarrow> loads (dumps v) = Inr v"
  using reads_backD [OF reads_back, of v "[]" "json_fuel (dumps v)"]
  by (simp add: loads_def json_fuel_def)

lemma loads_total_fuel:
  "json_fuel s \<le> n \<Longrightarrow> parse_value n s = parse_value (json_fuel s) s"
  by (rule parse_fuel_enough(1)) (simp_all add: json_fuel_def)

end
