(* ===== verification/Redis_Api.thy ===== *)
theory Redis_Api
  imports Prelude
begin

text \<open>
  The Redis client is not part of the repository: it is a parameter of the model, a record
  of the commands the program issues.  What the program relies on is stated against an
  abstract key space by the locales below, one per kind of value, each law being the
  documented effect of one command.  A key holds values of one kind only, as the key
  prefixes of the program ensure, so the kinds are separate maps.  Expiry of keys is an
  action of the server and not of a command.  The last section gives a reference server in
  plain lists, which satisfies every law.
\<close>

section \<open>Scores of sorted sets\<close>

datatype score = Fin int | PosInf

instantiation score :: linorder
begin

definition less_eq_score :: "score \<Rightarrow> score \<Rightarrow> bool" where
  "less_eq_score a b =
     (case b of PosInf \<Rightarrow> True | Fin j \<Rightarrow> (case a of Fin i \<Rightarrow> i \<le> j | PosInf \<Rightarrow> False))"

definition less_score :: "score \<Rightarrow> score \<Rightarrow> bool" where
  "less_score a b = (a \<le> b \<and> \<not> b \<le> (a :: score))"

instance
  by standard (auto simp: less_eq_score_def less_score_def split: score.splits)

end

lemma score_le_simps [simp]:
  "Fin i \<le> Fin j \<longleftrightarrow> i \<le> j" "a \<le> PosInf" "\<not> PosInf \<le> Fin j"
  by (simp_all add: less_eq_score_def)

section \<open>Commands\<close>

record pending_entry =
  message_id :: string
  pe_consumer :: string
  time_since_delivered :: int
  times_delivered :: int

type_synonym stream_entry = "string \<times> string pydict"

record 'x redis =
  r_hset :: "string \<Rightarrow> string pydict \<Rightarrow> ('x, unit) io"
  r_hgetall :: "string \<Rightarrow> ('x, string pydict) io"
  r_hincrby :: "string \<Rightarrow> string \<Rightarrow> int \<Rightarrow> ('x, int) io"
  r_exists :: "string \<Rightarrow> ('x, int) io"
  r_set :: "string \<Rightarrow> string \<Rightarrow> int \<Rightarrow> bool \<Rightarrow> ('x, bool) io"
  r_scan :: "string \<Rightarrow> ('x, string list) io"
  r_rpush :: "string \<Rightarrow> string \<Rightarrow> ('x, unit) io"
  r_lrange :: "string \<Rightarrow> ('x, string list) io"
  r_zadd :: "string \<Rightarrow> string \<Rightarrow> score \<Rightarrow> ('x, unit) io"
  r_zrem :: "string \<Rightarrow> string \<Rightarrow> ('x, unit) io"
  r_zrange :: "string \<Rightarrow> ('x, string list) io"
  r_zrangebyscore :: "string \<Rightarrow> score \<Rightarrow> score \<Rightarrow> ('x, string list) io"
  r_xadd :: "string \<Rightarrow> string pydict \<Rightarrow> nat \<Rightarrow> ('x, string) io"
  r_xgroup_create :: "string \<Rightarrow> string \<Rightarrow> string \<Rightarrow> ('x, unit) io"
  r_xreadgroup :: "string \<Rightarrow> string \<Rightarrow> string \<Rightarrow> int \<Rightarrow> int option \<Rightarrow>
                     ('x, (string \<times> stream_entry list) list) io"
  r_xack :: "string \<Rightarrow> string \<Rightarrow> string \<Rightarrow> ('x, int) io"
  r_xpending :: "string \<Rightarrow> string \<Rightarrow> ('x, int option) io"
  r_xpending_range :: "string \<Rightarrow> string \<Rightarrow> int \<Rightarrow> string option \<Rightarrow> ('x, pending_entry list) io"
  r_xclaim :: "string \<Rightarrow> string \<Rightarrow> string \<Rightarrow> int \<Rightarrow> string list \<Rightarrow> ('x, stream_entry list) io"

section \<open>The key space\<close>

record keyspace =
  hashes :: "string \<Rightarrow> string \<Rightarrow> string option"
  strs :: "string \<Rightarrow> string option"
  lists :: "string \<Rightarrow> string list"
  zsets :: "string \<Rightarrow> string \<Rightarrow> score option"
  streams :: "string \<Rightarrow> stream_entry list"
  unacked :: "string \<times> string \<Rightarrow> string set"

definition hash_put :: "string \<Rightarrow> string pydict \<Rightarrow> keyspace \<Rightarrow> keyspace" where
  "hash_put k d s = s\<lparr>hashes := (hashes s)(k := hashes s k ++ map_of d)\<rparr>"

definition hash_int :: "keyspace \<Rightarrow> string \<Rightarrow> string \<Rightarrow> int option" where
  "hash_int s k f = (case hashes s k f of None \<Rightarrow> Some 0 | Some v \<Rightarrow> int_of_str v)"

locale redis_hashes =
  fixes R :: "'x redis" and kv :: "'x \<Rightarrow> keyspace"
  assumes hset: "fst (r_hset R k d x) = Inr ()"
      "kv (snd (r_hset R k d x)) = hash_put k d (kv x)"
    and hgetall: "\<exists>d. fst (r_hgetall R k x) = Inr d \<and> map_of d = hashes (kv x) k"
      "kv (snd (r_hgetall R k x)) = kv x"
    and hincrby: "hash_int (kv x) k f = Some v \<Longrightarrow> fst (r_hincrby R k f n x) = Inr (v + n)"
      "hash_int (kv x) k f = Some v \<Longrightarrow>
       kv (snd (r_hincrby R k f n x)) = hash_put k [(f, int_str (v + n))] (kv x)"
      "hash_int (kv x) k f = None \<Longrightarrow>
       \<exists>m. fst (r_hincrby R k f n x) = Inl (Exn RedisResponseError m)"
      "hash_int (kv x) k f = None \<Longrightarrow> kv (snd (r_hincrby R k f n x)) = kv x"

locale redis_strings =
  fixes R :: "'x redis" and kv :: "'x \<Rightarrow> keyspace"
  assumes str_exists:
      "fst (r_exists R k x) =
         Inr (if strs (kv x) k \<noteq> None \<or> streams (kv x) k \<noteq> [] then 1 else 0)"
      "kv (snd (r_exists R k x)) = kv x"
    and set_new: "nx = False \<or> strs (kv x) k = None \<Longrightarrow> fst (r_set R k v ex nx x) = Inr True"
      "nx = False \<or> strs (kv x) k = None \<Longrightarrow>
       kv (snd (r_set R k v ex nx x)) = (kv x)\<lparr>strs := (strs (kv x))(k \<mapsto> v)\<rparr>"
    and set_taken: "strs (kv x) k \<noteq> None \<Longrightarrow> fst (r_set R k v ex True x) = Inr False"
      "strs (kv x) k \<noteq> None \<Longrightarrow> kv (snd (r_set R k v ex True x)) = kv x"

locale redis_lists =
  fixes R :: "'x redis" and kv :: "'x \<Rightarrow> keyspace"
  assumes rpush: "fst (r_rpush R k v x) = Inr ()"
      "kv (snd (r_rpush R k v x)) = (kv x)\<lparr>lists := (lists (kv x))(k := lists (kv x) k @ [v])\<rparr>"
    and lrange: "fst (r_lrange R k x) = Inr (lists (kv x) k)"
      "kv (snd (r_lrange R k x)) = kv x"

locale redis_zsets =
  fixes R :: "'x redis" and kv :: "'x \<Rightarrow> keyspace"
  assumes zadd: "fst (r_zadd R k m sc x) = Inr ()"
      "kv (snd (r_zadd R k m sc x)) = (kv x)\<lparr>zsets := (zsets (kv x))(k := (zsets (kv x) k)(m \<mapsto> sc))\<rparr>"
    and zrem: "fst (r_zrem R k m x) = Inr ()"
      "kv (snd (r_zrem R k m x)) = (kv x)\<lparr>zsets := (zsets (kv x))(k := (zsets (kv x) k)(m := None))\<rparr>"
    and zrange: "\<exists>ms. fst (r_zrange R k x) = Inr ms \<and> distinct ms \<and> set ms = dom (zsets (kv x) k)"
      "kv (snd (r_zrange R k x)) = kv x"
    and zrangebyscore:
      "\<exists>ms. fst (r_zrangebyscore R k lo hi x) = Inr ms \<and> distinct ms \<and>
            set ms = {m. \<exists>sc. zsets (kv x) k m = Some sc \<and> lo \<le> sc \<and> sc \<le> hi}"
      "kv (snd (r_zrangebyscore R k lo hi x)) = kv x"

text \<open>
  \<^verbatim>\<open>XADD\<close> with the approximate \<^verbatim>\<open>MAXLEN\<close> of the client appends an entry under a new id and
  may drop entries from the front, but none while the stream is within the bound.
\<close>

locale redis_streams =
  fixes R :: "'x redis" and kv :: "'x \<Rightarrow> keyspace"
  assumes xadd:
      "\<exists>i n. fst (r_xadd R k d maxlen x) = Inr i \<and> i \<notin> fst ` set (streams (kv x) k) \<and>
             n \<le> length (streams (kv x) k) \<and>
             (length (streams (kv x) k) < maxlen \<longrightarrow> n = 0) \<and>
             kv (snd (r_xadd R k d maxlen x)) =
               (kv x)\<lparr>streams := (streams (kv x))(k := drop n (streams (kv x) k) @ [(i, d)])\<rparr>"
    and xack: "fst (r_xack R k g i x) = Inr (if i \<in> unacked (kv x) (k, g) then 1 else 0)"
      "kv (snd (r_xack R k g i x)) =
         (kv x)\<lparr>unacked := (unacked (kv x))((k, g) := unacked (kv x) (k, g) - {i})\<rparr>"

locale redis_server =
  redis_hashes R kv + redis_strings R kv + redis_lists R kv + redis_zsets R kv +
  redis_streams R kv
  for R :: "'x redis" and kv :: "'x \<Rightarrow> keyspace"

section \<open>A reference server\<close>

record memstore =
  mem_hashes :: "string pydict pydict"
  mem_strs :: "string pydict"
  mem_lists :: "string list pydict"
  mem_zsets :: "score pydict pydict"
  mem_streams :: "stream_entry list pydict"
  mem_unacked :: "((string \<times> string) \<times> string list) list"
  mem_next :: nat

definition empty_memstore :: memstore where
  "empty_memstore =
     \<lparr>mem_hashes = [], mem_strs = [], mem_lists = [], mem_zsets = [], mem_streams = [],
      mem_unacked = [], mem_next = 0\<rparr>"

definition mem_get :: "('k \<times> 'v list) list \<Rightarrow> 'k \<Rightarrow> 'v list" where
  "mem_get d k = (case map_of d k of None \<Rightarrow> [] | Some v \<Rightarrow> v)"

fun dset_all :: "'v pydict \<Rightarrow> 'v pydict \<Rightarrow> 'v pydict" where
  "dset_all [] d = d"
| "dset_all (p # ps) d = dset (fst p) (snd p) (dset_all ps d)"

text \<open>A new stream id is longer than every id in use.\<close>

definition mem_new_id :: "memstore \<Rightarrow> string \<Rightarrow> string" where
  "mem_new_id m k = replicate (Suc (sum_list (map (length \<circ> fst) (mem_get (mem_streams m) k)))) (CHR ''0'')"

definition mem_abs :: "memstore \<Rightarrow> keyspace" where
  "mem_abs m =
     \<lparr>hashes = (\<lambda>k. map_of (mem_get (mem_hashes m) k)),
      strs = map_of (mem_strs m),
      lists = mem_get (mem_lists m),
      zsets = (\<lambda>k. map_of (mem_get (mem_zsets m) k)),
      streams = mem_get (mem_streams m),
      unacked = (\<lambda>p. set (mem_get (mem_unacked m) p))\<rparr>"

definition mem_hset :: "string \<Rightarrow> string pydict \<Rightarrow> memstore \<Rightarrow> memstore" where
  "mem_hset k d m = m\<lparr>mem_hashes := dset k (dset_all d (mem_get (mem_hashes m) k)) (mem_hashes m)\<rparr>"

definition mem_hincrby :: "string \<Rightarrow> string \<Rightarrow> int \<Rightarrow> (memstore, int) io" where
  "mem_hincrby k f n m =
     (case (case map_of (mem_get (mem_hashes m) k) f of None \<Rightarrow> Some 0 | Some v \<Rightarrow> int_of_str v) of
        None \<Rightarrow> (Inl (Exn RedisResponseError ''hash value is not an integer''), m)
      | Some v \<Rightarrow> (Inr (v + n), mem_hset k [(f, int_str (v + n))] m))"

definition mem_set :: "string \<Rightarrow> string \<Rightarrow> int \<Rightarrow> bool \<Rightarrow> (memstore, bool) io" where
  "mem_set k v ex nx m =
     (if nx \<and> map_of (mem_strs m) k \<noteq> None then (Inr False, m)
      else (Inr True, m\<lparr>mem_strs := dset k v (mem_strs m)\<rparr>))"

definition mem_xadd :: "string \<Rightarrow> string pydict \<Rightarrow> nat \<Rightarrow> (memstore, string) io" where
  "mem_xadd k d maxlen m =
     (Inr (mem_new_id m k),
      m\<lparr>mem_streams := dset k (mem_get (mem_streams m) k @ [(mem_new_id m k, d)]) (mem_streams m)\<rparr>)"

definition mem_redis :: "memstore redis" where
  "mem_redis =
     \<lparr>r_hset = (\<lambda>k d m. (Inr (), mem_hset k d m)),
      r_hgetall = (\<lambda>k m. (Inr (mem_get (mem_hashes m) k), m)),
      r_hincrby = mem_hincrby,
      r_exists = (\<lambda>k m. (Inr (if map_of (mem_strs m) k \<noteq> None \<or> mem_get (mem_streams m) k \<noteq> []
                              then 1 else 0), m)),
      r_set = mem_set,
      r_scan = (\<lambda>p m. (Inr (filter (\<lambda>k. starts_with k (butlast p)) (map fst (mem_hashes m))), m)),
      r_rpush = (\<lambda>k v m. (Inr (), m\<lparr>mem_lists := dset k (mem_get (mem_lists m) k @ [v]) (mem_lists m)\<rparr>)),
      r_lrange = (\<lambda>k m. (Inr (mem_get (mem_lists m) k), m)),
      r_zadd = (\<lambda>k e sc m. (Inr (), m\<lparr>mem_zsets := dset k (dset e sc (mem_get (mem_zsets m) k)) (mem_zsets m)\<rparr>)),
      r_zrem = (\<lambda>k e m. (Inr (), m\<lparr>mem_zsets := dset k (ddel e (mem_get (mem_zsets m) k)) (mem_zsets m)\<rparr>)),
      r_zrange = (\<lambda>k m. (Inr (remdups (map fst (mem_get (mem_zsets m) k))), m)),
      r_zrangebyscore = (\<lambda>k lo hi m.
        (Inr (filter (\<lambda>e. case map_of (mem_get (mem_zsets m) k) e of
                            None \<Rightarrow> False | Some sc \<Rightarrow> lo \<le> sc \<and> sc \<le> hi)
               (remdups (map fst (mem_get (mem_zsets m) k)))), m)),
      r_xadd = mem_xadd,
      r_xgroup_create = (\<lambda>k g i m. (Inr (), m)),
      r_xreadgroup = (\<lambda>g c k n b m. (Inr [(k, take (nat n) (mem_get (mem_streams m) k))], m)),
      r_xack = (\<lambda>k g i m.
        (Inr (if i \<in> set (mem_get (mem_unacked m) (k, g)) then 1 else 0),
         m\<lparr>mem_unacked := ((k, g), removeAll i (mem_get (mem_unacked m) (k, g))) # mem_unacked m\<rparr>)),
      r_xpending = (\<lambda>k g m. (Inr (Some (int (length (mem_get (mem_unacked m) (k, g))))), m)),
      r_xpending_range = (\<lambda>k g n c m.
        (Inr (map (\<lambda>i. \<lparr>message_id = i, pe_consumer = [], time_since_delivered = 60000,
                         times_delivered = 1\<rparr>)
               (take (nat n) (mem_get (mem_unacked m) (k, g)))), m)),
      r_xclaim = (\<lambda>k g c t ids m.
        (Inr (filter (\<lambda>e. fst e \<in> set ids) (mem_get (mem_streams m) k)), m))\<rparr>"

lemma map_of_dset_all [simp]: "map_of (dset_all ps d) = map_of d ++ map_of ps"
  by (induction ps) (auto simp: fun_eq_iff map_add_def split: option.splits)

lemma mem_get_dset [simp]: "mem_get (dset k v d) = (mem_get d)(k := v)"
  by (auto simp: mem_get_def fun_eq_iff)

lemma mem_get_Cons [simp]: "mem_get ((k, v) # d) = (mem_get d)(k := v)"
  by (auto simp: mem_get_def fun_eq_iff)

lemma mem_new_id_fresh: "mem_new_id m k \<notin> fst ` set (mem_get (mem_streams m) k)"
proof -
  have "length i \<le> sum_list (map (length \<circ> fst) es)" if "i \<in> fst ` set es" for i and es :: "stream_entry list"
    using that by (induction es) (auto intro: trans_le_add2)
  from this [of "mem_new_id m k" "mem_get (mem_streams m) k"] show ?thesis
    by (auto simp: mem_new_id_def)
qed

lemma map_of_in_keys: "map_of d k = Some v \<Longrightarrow> k \<in> fst ` set d"
  by (force dest: map_of_SomeD)

lemmas mem_defs = mem_redis_def mem_abs_def hash_put_def hash_int_def mem_hset_def mem_set_def
  mem_hincrby_def mem_xadd_def

interpretation mem: redis_server mem_redis mem_abs
proof unfold_locales
  fix k f v n x
  assume v: "hash_int (mem_abs x) k f = Some v"
  then have *: "(case map_of (mem_get (mem_hashes x) k) f of None \<Rightarrow> Some 0 | Some v \<Rightarrow> int_of_str v) = Some v"
    by (simp add: hash_int_def mem_abs_def)
  show "fst (r_hincrby mem_redis k f n x) = Inr (v + n)"
    by (simp add: mem_redis_def mem_hincrby_def *)
  show "mem_abs (snd (r_hincrby mem_redis k f n x)) = hash_put k [(f, int_str (v + n))] (mem_abs x)"
    by (simp add: mem_redis_def mem_hincrby_def * mem_hset_def mem_abs_def hash_put_def
        fun_eq_iff map_add_def)
next
  fix k f n x
  assume "hash_int (mem_abs x) k f = None"
  then have *: "(case map_of (mem_get (mem_hashes x) k) f of None \<Rightarrow> Some 0 | Some v \<Rightarrow> int_of_str v) = None"
    by (simp add: hash_int_def mem_abs_def)
  show "\<exists>m. fst (r_hincrby mem_redis k f n x) = Inl (Exn RedisResponseError m)"
    "mem_abs (snd (r_hincrby mem_redis k f n x)) = mem_abs x"
    by (simp_all add: mem_redis_def mem_hincrby_def *)
next
  fix k d maxlen x
  show "\<exists>i n. fst (r_xadd mem_redis k d maxlen x) = Inr i \<and>
       i \<notin> fst ` set (streams (mem_abs x) k) \<and> n \<le> length (streams (mem_abs x) k) \<and>
       (length (streams (mem_abs x) k) < maxlen \<longrightarrow> n = 0) \<and>
       mem_abs (snd (r_xadd mem_redis k d maxlen x)) =
         (mem_abs x)\<lparr>streams := (streams (mem_abs x))(k := drop n (streams (mem_abs x) k) @ [(i, d)])\<rparr>"
    by (rule exI [of _ "mem_new_id x k"], rule exI [of _ 0])
      (use mem_new_id_fresh [of x k] in \<open>simp add: mem_redis_def mem_xadd_def mem_abs_def\<close>)
qed (auto simp: mem_defs fun_eq_iff map_add_def dom_map_of_conv_image_fst
    intro: map_of_in_keys split: option.splits)

end
