(* ===== verification/World.thy ===== *)
theory World
  imports Redis_Api Clock
begin

text \<open>
  The state of a process of the system and its surroundings: the Redis server, the Git
  repository, the clock, the supply of \<^verbatim>\<open>uuid4\<close> values and the tenant bound in the current
  context.  What stays fixed while a process runs (its configuration and the services it
  calls) is the environment record, which every method takes as its first argument.
  The clock does not move during one method call; it moves between calls.
\<close>

text \<open>\<^verbatim>\<open>TenantConfig\<close> of \<^verbatim>\<open>src/core/config.py\<close>.\<close>

record tenant_config =
  tenancy_enabled :: bool
  default_tenant :: string
  allowed_tenants :: "string list"

record ('x, 'g) env =
  redis_of :: "'x redis"
  git_exec :: "string list \<Rightarrow> 'g \<Rightarrow> (int \<times> string \<times> string) \<times> 'g"
  path_exists :: "string \<Rightarrow> 'g \<Rightarrow> bool"
  tenant_cfg :: tenant_config
  env_git_write :: "string option"
  uuid_at :: "nat \<Rightarrow> string"
  sha256_hex :: "string \<Rightarrow> string"
  cfg_stream :: string

record ('x, 'g) world =
  srv :: 'x
  repo :: 'g
  clock_us :: int
  uuid_no :: nat
  ctx_tenant :: "string option"

type_synonym ('x, 'g, 'a) act = "(('x, 'g) world, 'a) io"

definition on_redis :: "('x, 'a) io \<Rightarrow> ('x, 'g, 'a) act" where
  "on_redis m w = (fst (m (srv w)), w\<lparr>srv := snd (m (srv w))\<rparr>)"

text \<open>\<^verbatim>\<open>datetime.now(timezone.utc)\<close> and \<^verbatim>\<open>str(uuid.uuid4())\<close>\<close>

definition now_utc :: "('x, 'g, datetime) act" where
  "now_utc w = (Inr (utc_datetime (clock_us w)), w)"

definition new_uuid :: "('x, 'g) env \<Rightarrow> ('x, 'g, string) act" where
  "new_uuid E w = (Inr (uuid_at E (uuid_no w)), w\<lparr>uuid_no := Suc (uuid_no w)\<rparr>)"

lemma on_redis_simps [simp]:
  "fst (on_redis m w) = fst (m (srv w))"
  "snd (on_redis m w) = w\<lparr>srv := snd (m (srv w))\<rparr>"
  by (simp_all add: on_redis_def)

lemma now_utc_simps [simp]:
  "fst (now_utc w) = Inr (utc_datetime (clock_us w))" "snd (now_utc w) = w"
  by (simp_all add: now_utc_def)

lemma new_uuid_simps [simp]:
  "fst (new_uuid E w) = Inr (uuid_at E (uuid_no w))"
  "snd (new_uuid E w) = w\<lparr>uuid_no := Suc (uuid_no w)\<rparr>"
  by (simp_all add: new_uuid_def)

section \<open>Tenant configuration\<close>

text \<open>The environment variables a configuration is read from, and \<^verbatim>\<open>os.getenv(k, d)\<close>.\<close>

type_synonym os_environ = "string pydict"

definition getenv :: "os_environ \<Rightarrow> string \<Rightarrow> string \<Rightarrow> string" where
  "getenv e k d = dget e k d"

text \<open>\<^verbatim>\<open>s.lower() in ("true", "1", "yes")\<close>\<close>

definition env_flag :: "string \<Rightarrow> bool" where
  "env_flag s \<longleftrightarrow> py_lower s \<in> {''true'', ''1'', ''yes''}"

definition tenant_config_from_env :: "os_environ \<Rightarrow> tenant_config" where
  "tenant_config_from_env e =
     \<lparr>tenancy_enabled = env_flag (getenv e ''MULTI_TENANCY_ENABLED'' ''false''),
      default_tenant = getenv e ''DEFAULT_TENANT_ID'' ''default'',
      allowed_tenants =
        map py_strip (filter (\<lambda>t. py_strip t \<noteq> [])
          (split_on (CHR '','') (getenv e ''ALLOWED_TENANTS'' ''*'')))\<rparr>"

section \<open>Tenant context (\<^verbatim>\<open>src/core/tenant.py\<close>)\<close>

definition get_current_tenant :: "('x, 'g, string) act" where
  "get_current_tenant w =
     (case ctx_tenant w of
        Some t \<Rightarrow> ret t w
      | None \<Rightarrow> raise (Exn TenantNotSetError
          (''No tenant set in current context. '' @
           ''Use TenantContext.set_tenant() or TenantContext.tenant_scope() '' @
           ''to set tenant context.'')) w)"

definition get_current_tenant_or_default :: "string \<Rightarrow> ('x, 'g, string) act" where
  "get_current_tenant_or_default d w =
     ret (case ctx_tenant w of Some t \<Rightarrow> t | None \<Rightarrow> d) w"

text \<open>The token of \<^verbatim>\<open>ContextVar.set\<close> remembers the previous binding.\<close>

definition set_tenant :: "string \<Rightarrow> ('x, 'g, string option) act" where
  "set_tenant t w = (Inr (ctx_tenant w), w\<lparr>ctx_tenant := Some t\<rparr>)"

text \<open>\<^verbatim>\<open>clear\<close> reads the variable and writes a debug line; it does not unbind the tenant.\<close>

definition clear_tenant :: "('x, 'g, unit) act" where
  "clear_tenant w = ret () w"

definition reset_tenant :: "string option \<Rightarrow> ('x, 'g, unit) act" where
  "reset_tenant token w = (Inr (), w\<lparr>ctx_tenant := token\<rparr>)"

definition tenant_is_set :: "('x, 'g, bool) act" where
  "tenant_is_set w = ret (ctx_tenant w \<noteq> None) w"

text \<open>The \<^verbatim>\<open>with\<close> block: the \<^verbatim>\<open>finally\<close> clause restores the binding, also when the body raises.\<close>

definition tenant_scope :: "string \<Rightarrow> ('x, 'g, 'a) act \<Rightarrow> ('x, 'g, 'a) act" where
  "tenant_scope t body =
     bindE (set_tenant t) (\<lambda>token w.
       (fst (body w), snd (reset_tenant token (snd (body w)))))"

definition validate_tenant :: "string \<Rightarrow> string list option \<Rightarrow> exn + bool" where
  "validate_tenant t allowed =
     (if is_blank t then Inl (Exn TenantNotAllowedError ''Tenant ID cannot be empty'')
      else (case allowed of
              None \<Rightarrow> Inr True
            | Some ts \<Rightarrow>
                if ''*'' \<in> set ts then Inr True
                else if t \<notin> set ts then
                  Inl (Exn TenantNotAllowedError
                    (''Tenant '' @ [CHR 0x27] @ t @ [CHR 0x27] @ '' is not in the allowed tenants list''))
                else Inr True))"

definition get_tenant_prefixed_key :: "string \<Rightarrow> string \<Rightarrow> ('x, 'g, string) act" where
  "get_tenant_prefixed_key key sep =
     bindE get_current_tenant (\<lambda>t. ret (''tenant'' @ sep @ t @ sep @ key))"

definition get_tenant_collection_name :: "string \<Rightarrow> ('x, 'g, string) act" where
  "get_tenant_collection_name base =
     bindE get_current_tenant (\<lambda>t. ret (t @ ''_'' @ base))"

text \<open>
  The tenant prefix that every \<^verbatim>\<open>_get_key\<close> of the program computes: with tenancy enabled,
  the bound tenant, and the default tenant when looking it up raises.
\<close>

definition tenant_prefixed :: "('x, 'g) env \<Rightarrow> string \<Rightarrow> ('x, 'g, string) act" where
  "tenant_prefixed E base =
     (if tenancy_enabled (tenant_cfg E) then
        try_except
          (bindE get_current_tenant (\<lambda>t. ret (''tenant:'' @ t @ '':'' @ base)))
          any_exception
          (\<lambda>_. ret (''tenant:'' @ default_tenant (tenant_cfg E) @ '':'' @ base))
      else ret base)"

text \<open>The same key as a function of the bound tenant.\<close>

definition prefixed_key :: "('x, 'g) env \<Rightarrow> string option \<Rightarrow> string \<Rightarrow> string" where
  "prefixed_key E t base =
     (if tenancy_enabled (tenant_cfg E)
      then ''tenant:'' @ (case t of Some t' \<Rightarrow> t' | None \<Rightarrow> default_tenant (tenant_cfg E)) @ '':'' @ base
      else base)"

lemma tenant_prefixed_eq:
  "tenant_prefixed E base w = ret (prefixed_key E (ctx_tenant w) base) w"
  by (simp add: tenant_prefixed_def prefixed_key_def try_except_def bindE_def get_current_tenant_def
      ret_def raise_def split: option.splits)

lemma tenant_prefixed_simps [simp]:
  "fst (tenant_prefixed E base w) = Inr (prefixed_key E (ctx_tenant w) base)"
  "snd (tenant_prefixed E base w) = w"
  by (simp_all add: tenant_prefixed_eq)

lemma bindE_tenant_prefixed [simp]:
  "bindE (tenant_prefixed E base) f w = f (prefixed_key E (ctx_tenant w) base) w"
  by (simp add: bindE_def)

lemma bindE_now_utc [simp]: "bindE now_utc f w = f (utc_datetime (clock_us w)) w"
  by (simp add: bindE_def)

lemma bindE_new_uuid [simp]:
  "bindE (new_uuid E) f w = f (uuid_at E (uuid_no w)) (w\<lparr>uuid_no := Suc (uuid_no w)\<rparr>)"
  by (simp add: bindE_def)

lemma prefixed_key_inject_base [simp]:
  "prefixed_key E t a = prefixed_key E t b \<longleftrightarrow> a = b"
  by (simp add: prefixed_key_def split: option.splits)

text \<open>Tenants whose identifiers hold no colon have disjoint key spaces.\<close>

lemma append_colon_inject:
  assumes "CHR '':'' \<notin> set s" "CHR '':'' \<notin> set t" "s @ CHR '':'' # a = t @ CHR '':'' # b"
  shows "s = t \<and> a = b"
  using assms
proof (induction s arbitrary: t)
  case Nil
  then show ?case by (cases t) auto
next
  case (Cons c s)
  then show ?case by (cases t) auto
qed

lemma prefixed_key_disjoint:
  assumes "tenancy_enabled (tenant_cfg E)" "CHR '':'' \<notin> set s" "CHR '':'' \<notin> set t"
    and "prefixed_key E (Some s) a = prefixed_key E (Some t) b"
  shows "s = t \<and> a = b"
  using assms append_colon_inject [of s t a b] by (simp add: prefixed_key_def)

lemma tenant_scope_restores:
  "ctx_tenant (snd (tenant_scope t body w)) = ctx_tenant w"
  by (simp add: tenant_scope_def bindE_def set_tenant_def reset_tenant_def)

lemma tenant_scope_binds:
  "fst (tenant_scope t body w) = fst (body (w\<lparr>ctx_tenant := Some t\<rparr>))"
  by (simp add: tenant_scope_def bindE_def set_tenant_def)

section \<open>The view of the server\<close>

definition view :: "('x \<Rightarrow> keyspace) \<Rightarrow> ('x, 'g) world \<Rightarrow> keyspace" where
  "view kv w = kv (srv w)"

lemma view_simps [simp]:
  "view kv (w\<lparr>srv := x\<rparr>) = kv x"
  "view kv (w\<lparr>uuid_no := n\<rparr>) = view kv w"
  "view kv (w\<lparr>ctx_tenant := t\<rparr>) = view kv w"
  "view kv (w\<lparr>clock_us := c\<rparr>) = view kv w"
  "view kv (w\<lparr>repo := g\<rparr>) = view kv w"
  by (simp_all add: view_def)

text \<open>
  The world with its server replaced by the key space it holds.  \<open>runs kv m w r a\<close> says that
  \<open>m\<close>, started in \<open>w\<close>, ends with the result \<open>r\<close> in a world whose abstraction is \<open>a\<close>: the
  effect of a method is stated on key spaces, whatever the server keeps inside.
\<close>

definition absw :: "('x \<Rightarrow> keyspace) \<Rightarrow> ('x, 'g) world \<Rightarrow> (keyspace, 'g) world" where
  "absw kv w =
     \<lparr>srv = kv (srv w), repo = repo w, clock_us = clock_us w, uuid_no = uuid_no w,
      ctx_tenant = ctx_tenant w\<rparr>"

definition runs ::
  "('x \<Rightarrow> keyspace) \<Rightarrow> ('x, 'g, 'a) act \<Rightarrow> ('x, 'g) world \<Rightarrow> exn + 'a \<Rightarrow> (keyspace, 'g) world \<Rightarrow> bool"
  where "runs kv m w r a \<longleftrightarrow> fst (m w) = r \<and> absw kv (snd (m w)) = a"

lemma absw_simps [simp]:
  "srv (absw kv w) = kv (srv w)" "repo (absw kv w) = repo w" "clock_us (absw kv w) = clock_us w"
  "uuid_no (absw kv w) = uuid_no w" "ctx_tenant (absw kv w) = ctx_tenant w"
  "absw kv (w\<lparr>srv := x\<rparr>) = (absw kv w)\<lparr>srv := kv x\<rparr>"
  "absw kv (w\<lparr>uuid_no := n\<rparr>) = (absw kv w)\<lparr>uuid_no := n\<rparr>"
  "absw kv (w\<lparr>repo := g\<rparr>) = (absw kv w)\<lparr>repo := g\<rparr>"
  "absw kv (w\<lparr>clock_us := c\<rparr>) = (absw kv w)\<lparr>clock_us := c\<rparr>"
  "absw kv (w\<lparr>ctx_tenant := t\<rparr>) = (absw kv w)\<lparr>ctx_tenant := t\<rparr>"
  by (simp_all add: absw_def)

lemma absw_eqD:
  assumes "absw kv w = a"
  shows "view kv w = srv a" "repo w = repo a" "clock_us w = clock_us a" "uuid_no w = uuid_no a"
    "ctx_tenant w = ctx_tenant a"
  using assms by (auto simp: absw_def view_def)

lemma view_absw: "view kv w = srv (absw kv w)"
  by (simp add: view_def)

lemma runs_fst: "runs kv m w r a \<Longrightarrow> fst (m w) = r"
  by (simp add: runs_def)

lemma runs_view: "runs kv m w r a \<Longrightarrow> view kv (snd (m w)) = srv a"
  by (auto simp: runs_def view_def)

lemma runs_pure [simp]:
  "runs kv (ret x) w r a \<longleftrightarrow> r = Inr x \<and> a = absw kv w"
  "runs kv (raise e) w r a \<longleftrightarrow> r = Inl e \<and> a = absw kv w"
  "runs kv (lift_result v) w r a \<longleftrightarrow> r = v \<and> a = absw kv w"
  by (auto simp: runs_def)

lemma runs_prefixed [simp]:
  "runs kv (bindE (tenant_prefixed E base) f) w r a \<longleftrightarrow>
   runs kv (f (prefixed_key E (ctx_tenant w) base)) w r a"
  by (simp add: runs_def)

lemma runs_now_utc [simp]:
  "runs kv (bindE now_utc f) w r a \<longleftrightarrow> runs kv (f (utc_datetime (clock_us w))) w r a"
  by (simp add: runs_def)

lemma runs_bindE:
  assumes "runs kv m w (Inr x) a" and "\<And>w'. absw kv w' = a \<Longrightarrow> runs kv (f x) w' r b"
  shows "runs kv (bindE m f) w r b"
  using assms by (simp add: runs_def bindE_def)

lemma runs_bindE_Inl: "runs kv m w (Inl e) a \<Longrightarrow> runs kv (bindE m f) w (Inl e) a"
  by (simp add: runs_def bindE_def)

lemma runs_thenE:
  assumes "runs kv m w (Inr x) a" and "\<And>w'. absw kv w' = a \<Longrightarrow> runs kv n w' r b"
  shows "runs kv (thenE m n) w r b"
  unfolding thenE_def using assms by (rule runs_bindE)

lemma runs_thenE_Inl: "runs kv m w (Inl e) a \<Longrightarrow> runs kv (thenE m n) w (Inl e) a"
  unfolding thenE_def by (rule runs_bindE_Inl)

lemma runs_try_except:
  "runs kv m w (Inr x) a \<Longrightarrow> runs kv (try_except m p h) w (Inr x) a"
  "runs kv m w (Inl e) a \<Longrightarrow> p (class_of e) \<Longrightarrow> (\<And>w'. absw kv w' = a \<Longrightarrow> runs kv (h e) w' r b) \<Longrightarrow>
   runs kv (try_except m p h) w r b"
  "runs kv m w (Inl e) a \<Longrightarrow> \<not> p (class_of e) \<Longrightarrow> runs kv (try_except m p h) w (Inl e) a"
  by (simp_all add: runs_def try_except_def)

text \<open>
  Where the server chooses (the identifier of an entry, the order of a listing), the effect
  is an assertion on the result and the abstraction of the final world.
\<close>

definition yields ::
  "('x \<Rightarrow> keyspace) \<Rightarrow> ('x, 'g, 'a) act \<Rightarrow> ('x, 'g) world \<Rightarrow> (exn + 'a \<Rightarrow> (keyspace, 'g) world \<Rightarrow> bool) \<Rightarrow> bool"
  where "yields kv m w Q \<longleftrightarrow> Q (fst (m w)) (absw kv (snd (m w)))"

lemma yields_runs: "runs kv m w r a \<Longrightarrow> Q r a \<Longrightarrow> yields kv m w Q"
  by (auto simp: runs_def yields_def)

lemma yieldsE:
  assumes "yields kv m w Q"
  obtains r a where "runs kv m w r a" "Q r a"
  using assms by (auto simp: runs_def yields_def)

lemma yields_mono: "yields kv m w P \<Longrightarrow> (\<And>r a. P r a \<Longrightarrow> Q r a) \<Longrightarrow> yields kv m w Q"
  by (simp add: yields_def)

lemma yields_pure [simp]:
  "yields kv (ret x) w Q \<longleftrightarrow> Q (Inr x) (absw kv w)"
  "yields kv (raise e) w Q \<longleftrightarrow> Q (Inl e) (absw kv w)"
  "yields kv (lift_result r) w Q \<longleftrightarrow> Q r (absw kv w)"
  by (simp_all add: yields_def)

lemma yields_bindE:
  assumes "yields kv m w P"
    and "\<And>x w'. P (Inr x) (absw kv w') \<Longrightarrow> yields kv (f x) w' Q"
    and "\<And>e a. P (Inl e) a \<Longrightarrow> Q (Inl e) a"
  shows "yields kv (bindE m f) w Q"
  using assms by (auto simp: yields_def bindE_def split: sum.splits)

lemma yields_bindE_runs:
  assumes "runs kv m w (Inr x) a" and "\<And>w'. absw kv w' = a \<Longrightarrow> yields kv (f x) w' Q"
  shows "yields kv (bindE m f) w Q"
  using assms by (simp add: yields_def runs_def bindE_def)

lemma yields_thenE_runs:
  assumes "runs kv m w (Inr x) a" and "\<And>w'. absw kv w' = a \<Longrightarrow> yields kv n w' Q"
  shows "yields kv (thenE m n) w Q"
  unfolding thenE_def using assms by (rule yields_bindE_runs)

lemma yields_try_except:
  assumes "yields kv m w P"
    and "\<And>x a. P (Inr x) a \<Longrightarrow> Q (Inr x) a"
    and "\<And>e w'. P (Inl e) (absw kv w') \<Longrightarrow> p (class_of e) \<Longrightarrow> yields kv (h e) w' Q"
    and "\<And>e a. P (Inl e) a \<Longrightarrow> \<not> p (class_of e) \<Longrightarrow> Q (Inl e) a"
  shows "yields kv (try_except m p h) w Q"
  using assms by (auto simp: yields_def try_except_def split: sum.splits)

lemma yields_prefixed [simp]:
  "yields kv (bindE (tenant_prefixed E base) f) w Q \<longleftrightarrow>
   yields kv (f (prefixed_key E (ctx_tenant w) base)) w Q"
  by (simp add: yields_def)

lemma yields_now_utc [simp]:
  "yields kv (bindE now_utc f) w Q \<longleftrightarrow> yields kv (f (utc_datetime (clock_us w))) w Q"
  by (simp add: yields_def)

lemma yields_new_uuid [simp]:
  "yields kv (bindE (new_uuid E) f) w Q \<longleftrightarrow>
   yields kv (f (uuid_at E (uuid_no w))) (w\<lparr>uuid_no := Suc (uuid_no w)\<rparr>) Q"
  by (simp add: yields_def)

lemma runs_new_uuid [simp]:
  "runs kv (bindE (new_uuid E) f) w r a \<longleftrightarrow>
   runs kv (f (uuid_at E (uuid_no w))) (w\<lparr>uuid_no := Suc (uuid_no w)\<rparr>) r a"
  by (simp add: runs_def)

section \<open>Relations that methods keep\<close>

text \<open>
  A reflexive and transitive relation between abstract worlds that holds across a method,
  whatever the method returns, composes through the combinators.  The components interpret
  the locale on the relations they need.
\<close>

definition keeps ::
  "('x \<Rightarrow> keyspace) \<Rightarrow> ((keyspace, 'g) world \<Rightarrow> (keyspace, 'g) world \<Rightarrow> bool) \<Rightarrow> ('x, 'g, 'a) act \<Rightarrow> bool" where
  "keeps kv R m \<longleftrightarrow> preserves (\<lambda>w w'. R (absw kv w) (absw kv w')) m"

lemma keepsI: "(\<And>w. yields kv m w (\<lambda>r a. R (absw kv w) a)) \<Longrightarrow> keeps kv R m"
  by (simp add: keeps_def preserves_def yields_def)

lemma keepsD: "keeps kv R m \<Longrightarrow> R (absw kv w) (absw kv (snd (m w)))"
  by (simp add: keeps_def preserves_def)

lemma keeps_yields: "keeps kv R m \<Longrightarrow> yields kv m w (\<lambda>r a. R (absw kv w) a)"
  by (simp add: keeps_def preserves_def yields_def)

locale frame_relation =
  fixes R :: "(keyspace, 'g) world \<Rightarrow> (keyspace, 'g) world \<Rightarrow> bool"
  assumes R_refl: "R a a" and R_trans: "R a b \<Longrightarrow> R b c \<Longrightarrow> R a c"
begin

lemma rel: "reflp (\<lambda>w w'. R (absw kv w) (absw kv w'))" "transp (\<lambda>w w'. R (absw kv w) (absw kv w'))"
  by (auto simp: reflp_def transp_def intro: R_refl R_trans)

lemma keeps_bindE [intro]:
  "keeps kv R m \<Longrightarrow> (\<And>x. keeps kv R (f x)) \<Longrightarrow> keeps kv R (bindE m f)"
  unfolding keeps_def by (rule preserves_bindE [OF rel])

lemma keeps_thenE [intro]: "keeps kv R m \<Longrightarrow> keeps kv R n \<Longrightarrow> keeps kv R (thenE m n)"
  unfolding keeps_def by (rule preserves_thenE [OF rel])

lemma keeps_try_except [intro]:
  "keeps kv R m \<Longrightarrow> (\<And>e. keeps kv R (h e)) \<Longrightarrow> keeps kv R (try_except m p h)"
  unfolding keeps_def by (rule preserves_try_except [OF rel])

lemma keeps_pure [intro]:
  "keeps kv R (ret x)" "keeps kv R (raise e)" "keeps kv R (lift_result v)" "keeps kv R now_utc"
  by (rule keepsI, simp add: yields_def R_refl)+

end

section \<open>Environments over the reference server\<close>

text \<open>The Git command line of this environment succeeds and records its arguments.\<close>

definition mem_env :: "tenant_config \<Rightarrow> (memstore, string list list) env" where
  "mem_env c =
     \<lparr>redis_of = mem_redis, git_exec = (\<lambda>args g. ((0, [], []), g @ [args])),
      path_exists = (\<lambda>p g. True), tenant_cfg = c, env_git_write = Some ''true'',
      uuid_at = nat_str, sha256_hex = (\<lambda>s. ''sha256-'' @ s), cfg_stream = ''asdlc:events''\<rparr>"

definition single_tenant :: tenant_config where
  "single_tenant = \<lparr>tenancy_enabled = False, default_tenant = ''default'', allowed_tenants = [''*'']\<rparr>"

definition multi_tenant :: tenant_config where
  "multi_tenant = \<lparr>tenancy_enabled = True, default_tenant = ''default'', allowed_tenants = [''*'']\<rparr>"

definition mem_world :: "(memstore, string list list) world" where
  "mem_world = \<lparr>srv = empty_memstore, repo = [], clock_us = 0, uuid_no = 0, ctx_tenant = None\<rparr>"

abbreviation demo_env :: "(memstore, string list list) env" where
  "demo_env \<equiv> mem_env single_tenant"

lemma redis_of_mem_env [simp]: "redis_of (mem_env c) = mem_redis"
  by (simp add: mem_env_def)

section \<open>The promise of the scope\<close>

text \<open>A tenant scope runs its body with the tenant bound and restores the earlier binding,
  whether the body returns or raises; \<^verbatim>\<open>clear\<close> leaves the binding as it is.\<close>

theorem tenant_scope_is_local:
  "fst (tenant_scope t body w) = fst (body (w\<lparr>ctx_tenant := Some t\<rparr>)) \<and>
   ctx_tenant (snd (tenant_scope t body w)) = ctx_tenant w \<and>
   fst (get_current_tenant (w\<lparr>ctx_tenant := Some t\<rparr>)) = Inr t \<and>
   ctx_tenant (snd (clear_tenant w)) = ctx_tenant w"
  by (simp add: tenant_scope_restores tenant_scope_binds get_current_tenant_def clear_tenant_def)

end
