(* ===== verification/Events.thy ===== *)
theory Events
  imports World Json
begin

text \<open>
  The event model of \<^verbatim>\<open>src/core/events.py\<close>: event types, the event record with the checks of
  \<^verbatim>\<open>__post_init__\<close>, its form in a Redis stream in both directions, the results of handlers
  and of recovery, and the idempotency key.  The lemmas show that an event read back from
  the stream is the event written, that every event in memory has a session and an aware
  timestamp, and what the idempotency key does and does not distinguish.
\<close>

datatype event_type =
    SESSION_STARTED | SESSION_COMPLETED
  | TASK_CREATED | TASK_DISPATCHED | TASK_COMPLETED | TASK_FAILED
  | GATE_REQUESTED | GATE_APPROVED | GATE_REJECTED | GATE_EXPIRED
  | AGENT_STARTED | AGENT_COMPLETED | AGENT_ERROR
  | PATCH_CREATED | PATCH_APPLIED | PATCH_REJECTED

definition event_types :: "event_type list" where
  "event_types =
     [SESSION_STARTED, SESSION_COMPLETED, TASK_CREATED, TASK_DISPATCHED, TASK_COMPLETED,
      TASK_FAILED, GATE_REQUESTED, GATE_APPROVED, GATE_REJECTED, GATE_EXPIRED, AGENT_STARTED,
      AGENT_COMPLETED, AGENT_ERROR, PATCH_CREATED, PATCH_APPLIED, PATCH_REJECTED]"

fun event_type_value :: "event_type \<Rightarrow> string" where
  "event_type_value SESSION_STARTED = ''session_started''"
| "event_type_value SESSION_COMPLETED = ''session_completed''"
| "event_type_value TASK_CREATED = ''task_created''"
| "event_type_value TASK_DISPATCHED = ''task_dispatched''"
| "event_type_value TASK_COMPLETED = ''task_completed''"
| "event_type_value TASK_FAILED = ''task_failed''"
| "event_type_value GATE_REQUESTED = ''gate_requested''"
| "event_type_value GATE_APPROVED = ''gate_approved''"
| "event_type_value GATE_REJECTED = ''gate_rejected''"
| "event_type_value GATE_EXPIRED = ''gate_expired''"
| "event_type_value AGENT_STARTED = ''agent_started''"
| "event_type_value AGENT_COMPLETED = ''agent_completed''"
| "event_type_value AGENT_ERROR = ''agent_error''"
| "event_type_value PATCH_CREATED = ''patch_created''"
| "event_type_value PATCH_APPLIED = ''patch_applied''"
| "event_type_value PATCH_REJECTED = ''patch_rejected''"

text \<open>\<^verbatim>\<open>EventType(s)\<close>\<close>

definition event_type_of :: "string \<Rightarrow> exn + event_type" where
  "event_type_of s =
     (case filter (\<lambda>t. event_type_value t = s) event_types of
        t # _ \<Rightarrow> Inr t
      | [] \<Rightarrow> Inl (Exn PyValueError ([CHR 0x27] @ s @ [CHR 0x27] @ '' is not a valid EventType'')))"

lemma event_type_of_value [simp]: "event_type_of (event_type_value t) = Inr t"
  by (cases t) (simp_all add: event_type_of_def event_types_def)

record asdlc_event =
  ev_type :: event_type
  ev_session_id :: string
  ev_timestamp :: datetime
  ev_id :: "string option"
  ev_epic_id :: "string option"
  ev_task_id :: "string option"
  ev_git_sha :: "string option"
  ev_artifact_paths :: "string list"
  ev_mode :: string
  ev_tenant_id :: "string option"
  ev_idempotency_key :: "string option"
  ev_metadata :: json

text \<open>The constructor with the defaults of the class and its \<^verbatim>\<open>__post_init__\<close>.\<close>

definition blank_event :: "event_type \<Rightarrow> string \<Rightarrow> datetime \<Rightarrow> asdlc_event" where
  "blank_event t s ts =
     \<lparr>ev_type = t, ev_session_id = s, ev_timestamp = ts, ev_id = None, ev_epic_id = None,
      ev_task_id = None, ev_git_sha = None, ev_artifact_paths = [], ev_mode = ''normal'',
      ev_tenant_id = None, ev_idempotency_key = None, ev_metadata = JObj []\<rparr>"

definition aware_utc :: "datetime \<Rightarrow> datetime" where
  "aware_utc t = (case utc_offset t of None \<Rightarrow> t\<lparr>utc_offset := Some 0\<rparr> | Some _ \<Rightarrow> t)"

definition post_init :: "asdlc_event \<Rightarrow> exn + asdlc_event" where
  "post_init e =
     (if is_blank (ev_session_id e)
      then Inl (Exn PyValueError ''session_id is required and cannot be empty'')
      else Inr (e\<lparr>ev_timestamp := aware_utc (ev_timestamp e)\<rparr>))"

section \<open>The stream format\<close>

definition to_stream_dict :: "asdlc_event \<Rightarrow> string pydict" where
  "to_stream_dict e =
     [(''event_type'', event_type_value (ev_type e)),
      (''session_id'', ev_session_id e),
      (''timestamp'', isoformat (ev_timestamp e)),
      (''mode'', ev_mode e)] @
     opt_field ''epic_id'' (ev_epic_id e) @
     opt_field ''task_id'' (ev_task_id e) @
     opt_field ''git_sha'' (ev_git_sha e) @
     (if ev_artifact_paths e = [] then []
      else [(''artifact_paths'', py_join '','' (ev_artifact_paths e))]) @
     opt_field ''tenant_id'' (ev_tenant_id e) @
     opt_field ''idempotency_key'' (ev_idempotency_key e) @
     (if json_truthy (ev_metadata e) then [(''metadata'', dumps (ev_metadata e))] else [])"

definition split_paths :: "string \<Rightarrow> string list" where
  "split_paths s = (if s = [] then [] else split_on (CHR '','') s)"

definition parse_metadata :: "string \<Rightarrow> json" where
  "parse_metadata s =
     (if s = [] then JObj []
      else (case loads s of Inl _ \<Rightarrow> JObj [] | Inr v \<Rightarrow> v))"

text \<open>The first argument is the reading of the clock, used when the entry has no timestamp.\<close>

definition event_of_dict :: "datetime \<Rightarrow> string \<Rightarrow> string pydict \<Rightarrow> exn + asdlc_event" where
  "event_of_dict now eid d =
     (let ts = dget d ''timestamp'' '''' in
      case (if ts = [] then Inr now else fromisoformat ts) of
        Inl e \<Rightarrow> Inl e
      | Inr stamp \<Rightarrow>
          (case event_type_of (dget d ''event_type'' ''task_created'') of
             Inl e \<Rightarrow> Inl e
           | Inr t \<Rightarrow>
               post_init
                 \<lparr>ev_type = t, ev_session_id = dget d ''session_id'' '''',
                  ev_timestamp = stamp, ev_id = Some eid,
                  ev_epic_id = map_of d ''epic_id'', ev_task_id = map_of d ''task_id'',
                  ev_git_sha = map_of d ''git_sha'',
                  ev_artifact_paths = split_paths (dget d ''artifact_paths'' ''''),
                  ev_mode = dget d ''mode'' ''normal'',
                  ev_tenant_id = map_of d ''tenant_id'',
                  ev_idempotency_key = map_of d ''idempotency_key'',
                  ev_metadata = parse_metadata (dget d ''metadata'' '''')\<rparr>))"

definition from_stream_dict :: "string \<Rightarrow> string pydict \<Rightarrow> ('x, 'g, asdlc_event) act" where
  "from_stream_dict eid d w = lift_result (event_of_dict (utc_datetime (clock_us w)) eid d) w"

text \<open>\<^verbatim>\<open>event.metadata.get(k, d)\<close>: only a \<^verbatim>\<open>dict\<close> has the method.\<close>

definition meta_get :: "asdlc_event \<Rightarrow> string \<Rightarrow> json \<Rightarrow> exn + json" where
  "meta_get e k d =
     (case ev_metadata e of
        JObj kvs \<Rightarrow> Inr (dget kvs k d)
      | _ \<Rightarrow> Inl (Exn PyAttributeError ''object has no attribute get''))"

section \<open>Results\<close>

record handler_result =
  hr_success :: bool
  hr_should_retry :: bool
  hr_error_message :: "string option"
  hr_artifact_paths :: "string list"

record recovery_result =
  rr_processed :: nat
  rr_skipped :: nat
  rr_failed :: nat
  rr_claimed :: nat

definition recovery_total :: "recovery_result \<Rightarrow> nat" where
  "recovery_total r = rr_processed r + rr_skipped r + rr_failed r + rr_claimed r"

section \<open>Idempotency keys\<close>

definition key_components ::
  "string \<Rightarrow> string \<Rightarrow> string option \<Rightarrow> string option \<Rightarrow> string option \<Rightarrow> string list" where
  "key_components et s task epic extra =
     [et, s] @ map snd (opt_field [] task @ opt_field [] epic @ opt_field [] extra)"

definition generate_idempotency_key ::
  "('x, 'g) env \<Rightarrow> string \<Rightarrow> string \<Rightarrow> string option \<Rightarrow> string option \<Rightarrow> string option \<Rightarrow> string" where
  "generate_idempotency_key E et s task epic extra =
     take 32 (sha256_hex E (py_join '':'' (key_components et s task epic extra)))"

section \<open>Lemmas\<close>

definition valid_opt :: "string option \<Rightarrow> bool" where
  "valid_opt s \<longleftrightarrow> s \<noteq> Some []"

definition valid_paths :: "string list \<Rightarrow> bool" where
  "valid_paths ps \<longleftrightarrow> ps \<noteq> [[]] \<and> (\<forall>p \<in> set ps. CHR '','' \<notin> set p)"

lemma valid_optD: "valid_opt s \<Longrightarrow> truthy s \<longleftrightarrow> s \<noteq> None"
  by (auto simp: valid_opt_def truthy_def)

lemma split_paths_join [simp]:
  "valid_paths ps \<Longrightarrow> split_paths (if ps = [] then [] else py_join '','' ps) = ps"
  by (auto simp: split_paths_def valid_paths_def split_on_py_join dest: py_join_eq_Nil)

text \<open>The events that survive the format: what the producers of the program write.\<close>

definition wf_event :: "asdlc_event \<Rightarrow> bool" where
  "wf_event e \<longleftrightarrow>
     \<not> is_blank (ev_session_id e) \<and>
     valid_datetime (ev_timestamp e) \<and> utc_offset (ev_timestamp e) \<noteq> None \<and>
     valid_opt (ev_epic_id e) \<and> valid_opt (ev_task_id e) \<and> valid_opt (ev_git_sha e) \<and>
     valid_opt (ev_tenant_id e) \<and> valid_opt (ev_idempotency_key e) \<and>
     valid_paths (ev_artifact_paths e) \<and>
     json_wf (ev_metadata e) \<and> (\<exists>kvs. ev_metadata e = JObj kvs)"

lemma pad4_append_not_Nil: "pad4 y @ s \<noteq> []"
  by (simp add: pad4_def pad2_def Let_def)

lemma isoformat_not_Nil [simp]: "isoformat t \<noteq> []"
  unfolding isoformat_def Let_def split_def by (rule pad4_append_not_Nil)

lemma dumps_not_Nil [simp]: "dumps v \<noteq> []"
  by (rule dumps_head [of v]) simp

lemma map_of_single: "map_of [(a, b)] k = (if k = a then Some b else None)"
  by simp

lemma stream_dict_fields:
  "map_of (to_stream_dict e) ''event_type'' = Some (event_type_value (ev_type e))"
  "map_of (to_stream_dict e) ''session_id'' = Some (ev_session_id e)"
  "map_of (to_stream_dict e) ''timestamp'' = Some (isoformat (ev_timestamp e))"
  "map_of (to_stream_dict e) ''mode'' = Some (ev_mode e)"
  "map_of (to_stream_dict e) ''epic_id'' = (if truthy (ev_epic_id e) then ev_epic_id e else None)"
  "map_of (to_stream_dict e) ''task_id'' = (if truthy (ev_task_id e) then ev_task_id e else None)"
  "map_of (to_stream_dict e) ''git_sha'' = (if truthy (ev_git_sha e) then ev_git_sha e else None)"
  "map_of (to_stream_dict e) ''tenant_id'' = (if truthy (ev_tenant_id e) then ev_tenant_id e else None)"
  "map_of (to_stream_dict e) ''idempotency_key'' =
     (if truthy (ev_idempotency_key e) then ev_idempotency_key e else None)"
  "map_of (to_stream_dict e) ''artifact_paths'' =
     (if ev_artifact_paths e = [] then None else Some (py_join '','' (ev_artifact_paths e)))"
  "map_of (to_stream_dict e) ''metadata'' =
     (if json_truthy (ev_metadata e) then Some (dumps (ev_metadata e)) else None)"
  by (simp_all add: to_stream_dict_def map_add_def split: option.splits)

lemma dget_simps:
  "map_of d k = Some v \<Longrightarrow> dget d k x = v"
  "map_of d k = None \<Longrightarrow> dget d k x = x"
  by (simp_all add: dget_def)

lemma parse_metadata_dumps:
  assumes "json_wf v" "v = JObj kvs"
  shows "parse_metadata (if json_truthy v then dumps v else []) = v"
  using assms loads_dumps [OF assms(1)] by (auto simp: parse_metadata_def)

lemma event_of_dict_to_stream_dict:
  assumes "wf_event e"
  shows "event_of_dict now eid (to_stream_dict e) = Inr (e\<lparr>ev_id := Some eid\<rparr>)"
proof -
  define d where "d = to_stream_dict e"
  note f = stream_dict_fields [of e, folded d_def]
  from assms obtain kvs where meta: "ev_metadata e = JObj kvs" "json_wf (ev_metadata e)"
    by (auto simp: wf_event_def)
  have ts: "dget d ''timestamp'' '''' = isoformat (ev_timestamp e)"
    and ty: "dget d ''event_type'' x = event_type_value (ev_type e)"
    and se: "dget d ''session_id'' '''' = ev_session_id e"
    and mo: "dget d ''mode'' ''normal'' = ev_mode e" for x
    using f by (simp_all add: dget_def)
  have ap: "split_paths (dget d ''artifact_paths'' '''') = ev_artifact_paths e"
  proof -
    have "valid_paths (ev_artifact_paths e)" using assms by (simp add: wf_event_def)
    from split_paths_join [OF this] show ?thesis by (simp add: dget_def f split: if_splits)
  qed
  have me: "parse_metadata (dget d ''metadata'' '''') = ev_metadata e"
    using parse_metadata_dumps [OF meta(2,1)] by (simp add: dget_def f split: if_splits)
  have opt: "map_of d ''epic_id'' = ev_epic_id e" "map_of d ''task_id'' = ev_task_id e"
    "map_of d ''git_sha'' = ev_git_sha e" "map_of d ''tenant_id'' = ev_tenant_id e"
    "map_of d ''idempotency_key'' = ev_idempotency_key e"
    using assms by (auto simp: f wf_event_def valid_optD)
  have "aware_utc (ev_timestamp e) = ev_timestamp e"
    using assms by (auto simp: aware_utc_def wf_event_def)
  with assms show ?thesis
    unfolding d_def [symmetric]
    by (simp add: event_of_dict_def ts ty se mo ap me opt post_init_def wf_event_def)
qed

lemma post_init_ok:
  "post_init e = Inr e' \<Longrightarrow>
   \<not> is_blank (ev_session_id e') \<and> utc_offset (ev_timestamp e') \<noteq> None \<and>
   ev_type e' = ev_type e \<and> ev_session_id e' = ev_session_id e"
  by (auto simp: post_init_def aware_utc_def split: if_splits option.splits)

lemma event_of_dict_ok:
  "event_of_dict now eid d = Inr e \<Longrightarrow>
   \<not> is_blank (ev_session_id e) \<and> utc_offset (ev_timestamp e) \<noteq> None \<and> ev_id e = Some eid"
  by (auto simp: event_of_dict_def Let_def post_init_def aware_utc_def
      split: sum.splits if_splits option.splits)

text \<open>An entry without a session, such as the placeholder of a new stream, is refused.\<close>

lemma event_of_dict_no_session:
  assumes "map_of d ''session_id'' = None"
  obtains e where "event_of_dict now eid d = Inl e" "class_of e = PyValueError"
proof -
  have iso: "fromisoformat s = Inl e \<Longrightarrow> class_of e = PyValueError" for s e
    by (auto simp: fromisoformat_def split: option.splits)
  have ty: "event_type_of s = Inl e \<Longrightarrow> class_of e = PyValueError" for s e
    by (auto simp: event_type_of_def split: list.splits)
  have "\<exists>e. event_of_dict now eid d = Inl e \<and> class_of e = PyValueError"
    using assms iso ty
    by (fastforce simp: event_of_dict_def Let_def post_init_def dget_def split: sum.splits)
  then show thesis using that by blast
qed

section \<open>The promises of the format\<close>

text \<open>An event with a session, an aware time stamp, no empty optional field, comma free artifact
  paths and an object as metadata is read from its stream entry as it was written, with the
  identifier of the entry.  Whatever is read has a session and an aware time stamp.\<close>

theorem event_codec:
  assumes "wf_event e"
  shows "event_of_dict now eid (to_stream_dict e) = Inr (e\<lparr>ev_id := Some eid\<rparr>) \<and>
    (event_of_dict now eid d = Inr e' \<longrightarrow>
      \<not> is_blank (ev_session_id e') \<and> utc_offset (ev_timestamp e') \<noteq> None \<and> ev_id e' = Some eid)"
  using event_of_dict_to_stream_dict [OF assms] event_of_dict_ok by blast

lemma event_codec_witness:
  "event_of_dict (utc_datetime 3) ''1-0'' (to_stream_dict
     ((blank_event AGENT_STARTED ''s1'' (utc_datetime 5))\<lparr>ev_task_id := Some ''t1'',
        ev_artifact_paths := [''a'', ''b.patch''], ev_metadata := JObj [(''n'', JInt (- 3))]\<rparr>)) =
   Inr ((blank_event AGENT_STARTED ''s1'' (utc_datetime 5))\<lparr>ev_task_id := Some ''t1'',
        ev_artifact_paths := [''a'', ''b.patch''], ev_metadata := JObj [(''n'', JInt (- 3))], ev_id := Some ''1-0''\<rparr>)"
proof -
  have "\<not> is_blank ''s1''" by code_simp
  moreover have "valid_datetime (utc_datetime 5)" by (rule valid_utc_datetime) simp_all
  ultimately have "wf_event ((blank_event AGENT_STARTED ''s1'' (utc_datetime 5))\<lparr>ev_task_id := Some ''t1'',
        ev_artifact_paths := [''a'', ''b.patch''], ev_metadata := JObj [(''n'', JInt (- 3))]\<rparr>)"
    by (simp add: wf_event_def blank_event_def valid_opt_def valid_paths_def utc_datetime_def)
  from conjunct1 [OF event_codec [OF this]] show ?thesis by simp
qed

text \<open>The idempotency key joins its components with colons and leaves out absent ones, so it does
  not tell a task from an epic of the same name, nor a task and an epic from one task whose
  name holds the colon; this is so whatever the hash function is.\<close>

theorem idempotency_keys_collide:
  "generate_idempotency_key E et s (Some x) None None = generate_idempotency_key E et s None (Some x) None \<and>
   generate_idempotency_key E et s (Some (c # t)) (Some (d # u)) None =
     generate_idempotency_key E et s (Some ((c # t) @ '':'' @ (d # u))) None None"
  by (simp add: generate_idempotency_key_def key_components_def opt_field_def truthy_def or_else_def)

end
