(* ===== verification/Task_State.thy ===== *)
theory Task_State
  imports Prelude
begin

text \<open>
  The task state machine of \<^verbatim>\<open>src/orchestrator/state_machine.py\<close>.  The locale states the
  contract its clients use: a validation that succeeds exactly on the allowed transitions,
  and terminal states that nothing leaves.
\<close>

datatype task_state = PENDING | IN_PROGRESS | TESTING | REVIEW | BLOCKED_HITL | COMPLETE | FAILED

definition task_states :: "task_state list" where
  "task_states = [PENDING, IN_PROGRESS, TESTING, REVIEW, BLOCKED_HITL, COMPLETE, FAILED]"

fun task_state_value :: "task_state \<Rightarrow> string" where
  "task_state_value PENDING = ''pending''"
| "task_state_value IN_PROGRESS = ''in_progress''"
| "task_state_value TESTING = ''testing''"
| "task_state_value REVIEW = ''review''"
| "task_state_value BLOCKED_HITL = ''blocked_hitl''"
| "task_state_value COMPLETE = ''complete''"
| "task_state_value FAILED = ''failed''"

definition task_state_of :: "string \<Rightarrow> exn + task_state" where
  "task_state_of s =
     (case filter (\<lambda>t. task_state_value t = s) task_states of
        t # _ \<Rightarrow> Inr t
      | [] \<Rightarrow> Inl (Exn PyValueError ([CHR 0x27] @ s @ [CHR 0x27] @ '' is not a valid TaskState'')))"

fun transitions :: "task_state \<Rightarrow> task_state set" where
  "transitions PENDING = {IN_PROGRESS, FAILED}"
| "transitions IN_PROGRESS = {TESTING, FAILED, BLOCKED_HITL}"
| "transitions TESTING = {REVIEW, IN_PROGRESS, FAILED}"
| "transitions REVIEW = {BLOCKED_HITL, IN_PROGRESS, FAILED}"
| "transitions BLOCKED_HITL = {COMPLETE, IN_PROGRESS, FAILED}"
| "transitions COMPLETE = {}"
| "transitions FAILED = {PENDING}"

definition can_transition :: "task_state \<Rightarrow> task_state \<Rightarrow> bool" where
  "can_transition a b \<longleftrightarrow> b \<in> transitions a"

text \<open>The arrow of the message is written in ASCII; the details of the exception are left out.\<close>

definition validate_transition :: "task_state \<Rightarrow> task_state \<Rightarrow> exn + unit" where
  "validate_transition a b =
     (if \<not> can_transition a b
      then Inl (Exn TaskStateError
             (''Invalid transition: '' @ task_state_value a @ '' -> '' @ task_state_value b))
      else Inr ())"

definition get_valid_transitions :: "task_state \<Rightarrow> task_state set" where
  "get_valid_transitions a = transitions a"

definition is_terminal :: "task_state \<Rightarrow> bool" where
  "is_terminal a \<longleftrightarrow> card (transitions a) = 0"

definition is_blocked :: "task_state \<Rightarrow> bool" where
  "is_blocked a \<longleftrightarrow> a \<in> {BLOCKED_HITL}"

section \<open>The contract of a life cycle\<close>

locale lifecycle =
  fixes can :: "'s \<Rightarrow> 's \<Rightarrow> bool"
    and validate :: "'s \<Rightarrow> 's \<Rightarrow> exn + unit"
    and terminal :: "'s \<Rightarrow> bool"
  assumes validate_iff: "validate a b = Inr () \<longleftrightarrow> can a b"
    and validate_raises: "\<not> can a b \<Longrightarrow> \<exists>m. validate a b = Inl (Exn TaskStateError m)"
    and terminal_iff: "terminal a \<longleftrightarrow> (\<forall>b. \<not> can a b)"
begin

lemma validate_cases:
  obtains "can a b" "validate a b = Inr ()"
  | m where "\<not> can a b" "validate a b = Inl (Exn TaskStateError m)"
  using validate_iff validate_raises by blast

lemma terminal_absorbing: "can\<^sup>*\<^sup>* a b \<Longrightarrow> terminal a \<Longrightarrow> b = a"
  by (erule converse_rtranclpE) (auto simp: terminal_iff)

text \<open>A history in which every change passed validation stays inside the relation.\<close>

lemma validated_history:
  "(\<And>i. Suc i < length ss \<Longrightarrow> ss ! Suc i = ss ! i \<or> validate (ss ! i) (ss ! Suc i) = Inr ()) \<Longrightarrow>
   ss \<noteq> [] \<Longrightarrow> can\<^sup>*\<^sup>* (hd ss) (last ss)"
proof (induction ss rule: rev_induct)
  case (snoc x xs)
  show ?case
  proof (cases "xs = []")
    case False
    have "can\<^sup>*\<^sup>* (hd xs) (last xs)"
    proof (rule snoc.IH)
      fix i assume i: "Suc i < length xs"
      with snoc.prems(1) [of i] show "xs ! Suc i = xs ! i \<or> validate (xs ! i) (xs ! Suc i) = Inr ()"
        by (simp add: nth_append)
    qed (rule False)
    moreover have "x = last xs \<or> can (last xs) x"
      using snoc.prems(1) [of "length xs - 1"] False
      by (simp add: nth_append last_conv_nth validate_iff)
    ultimately show ?thesis using False by (auto intro: rtranclp.rtrancl_into_rtrancl)
  qed simp
qed simp

end

lemma task_state_of_value [simp]: "task_state_of (task_state_value s) = Inr s"
  by (cases s) (simp_all add: task_state_of_def task_states_def)

lemma task_state_of_Inr: "task_state_of v = Inr s \<Longrightarrow> v = task_state_value s"
  by (auto simp: task_state_of_def filter_eq_Cons_iff split: list.splits)

lemma finite_transitions [simp]: "finite (transitions a)"
  by (cases a) simp_all

interpretation tasks: lifecycle can_transition validate_transition is_terminal
  by unfold_locales (auto simp: validate_transition_def is_terminal_def can_transition_def)

lemma can_transition_simps [simp]:
  "can_transition PENDING b \<longleftrightarrow> b \<in> {IN_PROGRESS, FAILED}"
  "can_transition IN_PROGRESS b \<longleftrightarrow> b \<in> {TESTING, FAILED, BLOCKED_HITL}"
  "can_transition TESTING b \<longleftrightarrow> b \<in> {REVIEW, IN_PROGRESS, FAILED}"
  "can_transition REVIEW b \<longleftrightarrow> b \<in> {BLOCKED_HITL, IN_PROGRESS, FAILED}"
  "can_transition BLOCKED_HITL b \<longleftrightarrow> b \<in> {COMPLETE, IN_PROGRESS, FAILED}"
  "\<not> can_transition COMPLETE b"
  "can_transition FAILED b \<longleftrightarrow> b = PENDING"
  by (auto simp: can_transition_def)

lemma to_complete_iff: "can_transition a COMPLETE \<longleftrightarrow> a = BLOCKED_HITL"
  by (cases a) simp_all

lemma to_failed_iff: "can_transition a FAILED \<longleftrightarrow> a \<notin> {COMPLETE, FAILED}"
  by (cases a) simp_all

lemma pending_reaches: "can_transition\<^sup>*\<^sup>* PENDING s"
proof -
  have 1: "can_transition\<^sup>*\<^sup>* PENDING IN_PROGRESS" "can_transition\<^sup>*\<^sup>* PENDING FAILED"
    by (rule r_into_rtranclp, simp)+
  have 2: "can_transition\<^sup>*\<^sup>* PENDING TESTING" "can_transition\<^sup>*\<^sup>* PENDING BLOCKED_HITL"
    by (rule rtranclp.rtrancl_into_rtrancl [OF 1(1)], simp)+
  have 3: "can_transition\<^sup>*\<^sup>* PENDING REVIEW" "can_transition\<^sup>*\<^sup>* PENDING COMPLETE"
    by (rule rtranclp.rtrancl_into_rtrancl [OF 2(1)], simp)
      (rule rtranclp.rtrancl_into_rtrancl [OF 2(2)], simp)
  show ?thesis using 1 2 3 by (cases s) auto
qed

lemma reaches_pending: "s \<noteq> COMPLETE \<Longrightarrow> can_transition\<^sup>*\<^sup>* s PENDING"
proof -
  have f: "can_transition\<^sup>*\<^sup>* FAILED PENDING" by (rule r_into_rtranclp) simp
  assume s: "s \<noteq> COMPLETE"
  show ?thesis
  proof (cases "s = FAILED")
    case False
    with s have "can_transition s FAILED" by (simp add: to_failed_iff)
    from converse_rtranclp_into_rtranclp [OF this f] show ?thesis .
  qed (simp add: f)
qed

lemma reaches_complete: "can_transition\<^sup>*\<^sup>* s COMPLETE"
  using rtranclp_trans [OF reaches_pending pending_reaches] by (cases "s = COMPLETE") auto

section \<open>Properties\<close>

text \<open>The life cycle.  Validation succeeds exactly on the allowed transitions; COMPLETE is
  entered from BLOCKED_HITL only and is never left; every state but COMPLETE and FAILED can
  fail; every state is reachable from PENDING, and COMPLETE is reachable from every state.\<close>

theorem life_cycle:
  "(validate_transition a b = Inr () \<longleftrightarrow> can_transition a b) \<and>
   (can_transition a COMPLETE \<longleftrightarrow> a = BLOCKED_HITL) \<and>
   (can_transition\<^sup>*\<^sup>* COMPLETE b \<longleftrightarrow> b = COMPLETE) \<and>
   (is_terminal a \<longleftrightarrow> a = COMPLETE) \<and>
   (can_transition a FAILED \<longleftrightarrow> a \<notin> {COMPLETE, FAILED}) \<and>
   can_transition\<^sup>*\<^sup>* PENDING b \<and> can_transition\<^sup>*\<^sup>* a COMPLETE"
proof -
  have t: "is_terminal a \<longleftrightarrow> a = COMPLETE" for a
    by (cases a) (simp_all add: is_terminal_def)
  have "can_transition\<^sup>*\<^sup>* COMPLETE b \<longleftrightarrow> b = COMPLETE"
    using tasks.terminal_absorbing [of COMPLETE b] t [of COMPLETE] by auto
  with t [of a] tasks.validate_iff [of a b] to_complete_iff [of a] to_failed_iff [of a]
    pending_reaches [of b] reaches_complete [of a]
  show ?thesis by (intro conjI)
qed

end
