(* ===== verification/Task_Store.thy ===== *)
theory Task_Store
  imports Events Task_State
begin

text \<open>
  Tasks and sessions as Redis hashes, \<^verbatim>\<open>src/orchestrator/task_manager.py\<close>.  The functions that
  read a hash take it as a map, since the order in which Redis lists the fields of a hash
  is not relied on.  The lemmas give the result and the exact effect on the key space of
  every operation, on every branch.
\<close>

record task =
  t_task_id :: string
  t_session_id :: string
  t_epic_id :: string
  t_state :: task_state
  t_created_at :: datetime
  t_updated_at :: datetime
  t_fail_count :: int
  t_current_agent :: "string option"
  t_git_sha :: "string option"
  t_artifact_paths :: "string list"

type_synonym hash = "string \<Rightarrow> string option"

definition hget :: "hash \<Rightarrow> string \<Rightarrow> string \<Rightarrow> string" where
  "hget m k v = (case m k of None \<Rightarrow> v | Some x \<Rightarrow> x)"

definition task_to_dict :: "task \<Rightarrow> string pydict" where
  "task_to_dict t =
     [(''task_id'', t_task_id t),
      (''session_id'', t_session_id t),
      (''epic_id'', t_epic_id t),
      (''state'', task_state_value (t_state t)),
      (''fail_count'', int_str (t_fail_count t)),
      (''created_at'', isoformat (t_created_at t)),
      (''updated_at'', isoformat (t_updated_at t))] @
     opt_field ''current_agent'' (t_current_agent t) @
     opt_field ''git_sha'' (t_git_sha t) @
     (if t_artifact_paths t = [] then []
      else [(''artifact_paths'', py_join '','' (t_artifact_paths t))])"

text \<open>The first argument is the reading of the clock, for a hash without time stamps.\<close>

definition task_of_map :: "datetime \<Rightarrow> hash \<Rightarrow> exn + task" where
  "task_of_map now m =
     (case task_state_of (hget m ''state'' ''pending'') of Inl e \<Rightarrow> Inl e | Inr st \<Rightarrow>
     (case py_int (hget m ''fail_count'' ''0'') of Inl e \<Rightarrow> Inl e | Inr n \<Rightarrow>
     (case fromisoformat (hget m ''created_at'' (isoformat now)) of Inl e \<Rightarrow> Inl e | Inr cr \<Rightarrow>
     (case fromisoformat (hget m ''updated_at'' (isoformat now)) of Inl e \<Rightarrow> Inl e | Inr up \<Rightarrow>
        Inr \<lparr>t_task_id = hget m ''task_id'' [],
             t_session_id = hget m ''session_id'' [],
             t_epic_id = hget m ''epic_id'' [],
             t_state = st, t_created_at = cr, t_updated_at = up, t_fail_count = n,
             t_current_agent = m ''current_agent'',
             t_git_sha = m ''git_sha'',
             t_artifact_paths = split_paths (hget m ''artifact_paths'' [])\<rparr>))))"

record session =
  s_session_id :: string
  s_tenant_id :: string
  s_current_git_sha :: string
  s_active_epic_ids :: "string list"
  s_created_at :: datetime
  s_status :: string

definition session_to_dict :: "session \<Rightarrow> string pydict" where
  "session_to_dict s =
     [(''session_id'', s_session_id s),
      (''tenant_id'', s_tenant_id s),
      (''current_git_sha'', s_current_git_sha s),
      (''active_epic_ids'', py_join '','' (s_active_epic_ids s)),
      (''created_at'', isoformat (s_created_at s)),
      (''status'', s_status s)]"

definition session_of_map :: "datetime \<Rightarrow> hash \<Rightarrow> exn + session" where
  "session_of_map now m =
     (case fromisoformat (hget m ''created_at'' (isoformat now)) of Inl e \<Rightarrow> Inl e | Inr cr \<Rightarrow>
        Inr \<lparr>s_session_id = hget m ''session_id'' [],
             s_tenant_id = hget m ''tenant_id'' [],
             s_current_git_sha = hget m ''current_git_sha'' [],
             s_active_epic_ids = split_paths (hget m ''active_epic_ids'' []),
             s_created_at = cr,
             s_status = hget m ''status'' ''active''\<rparr>)"

section \<open>Operations of \<^verbatim>\<open>TaskManager\<close>\<close>

definition task_base_key :: "string \<Rightarrow> string" where
  "task_base_key tid = ''asdlc:task:'' @ tid"

definition task_key :: "('x, 'g) env \<Rightarrow> string \<Rightarrow> ('x, 'g, string) act" where
  "task_key E tid = tenant_prefixed E (task_base_key tid)"

definition write_hash :: "('x, 'g) env \<Rightarrow> string \<Rightarrow> string pydict \<Rightarrow> ('x, 'g, unit) act" where
  "write_hash E k d = on_redis (r_hset (redis_of E) k d)"

definition create_task :: "('x, 'g) env \<Rightarrow> task \<Rightarrow> ('x, 'g, task) act" where
  "create_task E t =
     bindE (task_key E (t_task_id t)) (\<lambda>k.
     thenE (write_hash E k (task_to_dict t))
     (ret t))"

definition get_task :: "('x, 'g) env \<Rightarrow> string \<Rightarrow> ('x, 'g, task option) act" where
  "get_task E tid =
     bindE (task_key E tid) (\<lambda>k.
     bindE (on_redis (r_hgetall (redis_of E) k)) (\<lambda>data.
       if data = [] then ret None
       else bindE now_utc (\<lambda>now.
            bindE (lift_result (task_of_map now (map_of data))) (\<lambda>t. ret (Some t)))))"

text \<open>
  The keyword arguments of \<^verbatim>\<open>update_state\<close>: one constructor per field of \<^verbatim>\<open>Task\<close> (\<^verbatim>\<open>task_id\<close> is
  taken by the positional parameter), and one for a name that is not a field.
\<close>

datatype field_update =
    Upd_session_id string | Upd_epic_id string | Upd_state task_state
  | Upd_created_at datetime | Upd_updated_at datetime | Upd_fail_count int
  | Upd_current_agent "string option" | Upd_git_sha "string option"
  | Upd_artifact_paths "string list" | Upd_unknown string

fun apply_field :: "field_update \<Rightarrow> task \<Rightarrow> task" where
  "apply_field (Upd_session_id v) t = t\<lparr>t_session_id := v\<rparr>"
| "apply_field (Upd_epic_id v) t = t\<lparr>t_epic_id := v\<rparr>"
| "apply_field (Upd_state v) t = t\<lparr>t_state := v\<rparr>"
| "apply_field (Upd_created_at v) t = t\<lparr>t_created_at := v\<rparr>"
| "apply_field (Upd_updated_at v) t = t\<lparr>t_updated_at := v\<rparr>"
| "apply_field (Upd_fail_count v) t = t\<lparr>t_fail_count := v\<rparr>"
| "apply_field (Upd_current_agent v) t = t\<lparr>t_current_agent := v\<rparr>"
| "apply_field (Upd_git_sha v) t = t\<lparr>t_git_sha := v\<rparr>"
| "apply_field (Upd_artifact_paths v) t = t\<lparr>t_artifact_paths := v\<rparr>"
| "apply_field (Upd_unknown k) t = t"

fun apply_fields :: "field_update list \<Rightarrow> task \<Rightarrow> task" where
  "apply_fields [] t = t"
| "apply_fields (u # us) t = apply_fields us (apply_field u t)"

text \<open>
  \<^verbatim>\<open>update_state\<close> awaits Redis twice.  What happens before the second await is \<open>load_for_update\<close>,
  what follows is \<open>commit_update\<close>; another process may act in between.
\<close>

definition load_for_update ::
  "('x, 'g) env \<Rightarrow> string \<Rightarrow> task_state \<Rightarrow> ('x, 'g, task) act" where
  "load_for_update E tid s =
     bindE (get_task E tid) (\<lambda>found.
       case found of
         None \<Rightarrow> raise (Exn TaskNotFoundError (''Task not found: '' @ tid))
       | Some t \<Rightarrow> thenE (lift_result (validate_transition (t_state t) s)) (ret t))"

definition commit_update ::
  "('x, 'g) env \<Rightarrow> string \<Rightarrow> task_state \<Rightarrow> field_update list \<Rightarrow> task \<Rightarrow> ('x, 'g, task) act" where
  "commit_update E tid s us t =
     bindE (task_key E tid) (\<lambda>k.
     bindE now_utc (\<lambda>now.
       let t' = apply_fields us (t\<lparr>t_state := s, t_updated_at := now\<rparr>)
       in thenE (write_hash E k (task_to_dict t')) (ret t')))"

definition update_state ::
  "('x, 'g) env \<Rightarrow> string \<Rightarrow> task_state \<Rightarrow> field_update list \<Rightarrow> ('x, 'g, task) act" where
  "update_state E tid s us = bindE (load_for_update E tid s) (commit_update E tid s us)"

definition increment_fail_count :: "('x, 'g) env \<Rightarrow> string \<Rightarrow> ('x, 'g, int) act" where
  "increment_fail_count E tid =
     bindE (task_key E tid) (\<lambda>k.
     bindE (on_redis (r_hincrby (redis_of E) k ''fail_count'' 1)) (\<lambda>n.
     bindE now_utc (\<lambda>now.
     thenE (write_hash E k [(''updated_at'', isoformat now)])
     (ret n))))"

definition list_tasks_by_state ::
  "('x, 'g) env \<Rightarrow> task_state \<Rightarrow> string option \<Rightarrow> ('x, 'g, task list) act" where
  "list_tasks_by_state E s sid =
     bindE (tenant_prefixed E ''asdlc:task:*'') (\<lambda>pattern.
     bindE (on_redis (r_scan (redis_of E) pattern)) (\<lambda>keys.
     bindE (collect keys (\<lambda>k.
       bindE (on_redis (r_hgetall (redis_of E) k)) (\<lambda>data.
         if data \<noteq> [] \<and> map_of data ''state'' = Some (task_state_value s) \<and>
            (sid = None \<or> map_of data ''session_id'' = sid)
         then bindE now_utc (\<lambda>now.
              bindE (lift_result (task_of_map now (map_of data))) (\<lambda>t. ret [t]))
         else ret [])))
     (\<lambda>parts. ret (concat parts))))"

section \<open>Operations of \<^verbatim>\<open>SessionManager\<close>\<close>

definition session_base_key :: "string \<Rightarrow> string" where
  "session_base_key sid = ''asdlc:session:'' @ sid"

definition session_key :: "('x, 'g) env \<Rightarrow> string \<Rightarrow> ('x, 'g, string) act" where
  "session_key E sid = tenant_prefixed E (session_base_key sid)"

definition create_session :: "('x, 'g) env \<Rightarrow> session \<Rightarrow> ('x, 'g, session) act" where
  "create_session E s =
     bindE (session_key E (s_session_id s)) (\<lambda>k.
     thenE (write_hash E k (session_to_dict s))
     (ret s))"

definition get_session :: "('x, 'g) env \<Rightarrow> string \<Rightarrow> ('x, 'g, session option) act" where
  "get_session E sid =
     bindE (session_key E sid) (\<lambda>k.
     bindE (on_redis (r_hgetall (redis_of E) k)) (\<lambda>data.
       if data = [] then ret None
       else bindE now_utc (\<lambda>now.
            bindE (lift_result (session_of_map now (map_of data))) (\<lambda>s. ret (Some s)))))"

definition update_git_sha :: "('x, 'g) env \<Rightarrow> string \<Rightarrow> string \<Rightarrow> ('x, 'g, unit) act" where
  "update_git_sha E sid sha =
     bindE (session_key E sid) (\<lambda>k. write_hash E k [(''current_git_sha'', sha)])"

definition add_active_epic :: "('x, 'g) env \<Rightarrow> string \<Rightarrow> string \<Rightarrow> ('x, 'g, unit) act" where
  "add_active_epic E sid epic =
     bindE (get_session E sid) (\<lambda>found.
       case found of
         None \<Rightarrow> ret ()
       | Some s \<Rightarrow>
           if epic \<notin> set (s_active_epic_ids s) then
             bindE (session_key E sid) (\<lambda>k.
               write_hash E k
                 [(''active_epic_ids'', py_join '','' (s_active_epic_ids s @ [epic]))])
           else ret ())"

definition update_status :: "('x, 'g) env \<Rightarrow> string \<Rightarrow> string \<Rightarrow> ('x, 'g, unit) act" where
  "update_status E sid st =
     bindE (session_key E sid) (\<lambda>k. write_hash E k [(''status'', st)])"

section \<open>Codecs\<close>

definition wf_task :: "task \<Rightarrow> bool" where
  "wf_task t \<longleftrightarrow>
     valid_datetime (t_created_at t) \<and> valid_datetime (t_updated_at t) \<and>
     valid_paths (t_artifact_paths t)"

text \<open>
  What a hash holds after a task is written over it: an optional field that is unset in the
  task keeps its previous value, because \<^verbatim>\<open>to_dict\<close> leaves it out.
\<close>

definition written_over :: "hash \<Rightarrow> task \<Rightarrow> task" where
  "written_over m t =
     t\<lparr>t_current_agent := if truthy (t_current_agent t) then t_current_agent t else m ''current_agent'',
       t_git_sha := if truthy (t_git_sha t) then t_git_sha t else m ''git_sha'',
       t_artifact_paths := if t_artifact_paths t = [] then split_paths (hget m ''artifact_paths'' [])
                           else t_artifact_paths t\<rparr>"

lemma task_dict_fields:
  "map_of (task_to_dict t) ''task_id'' = Some (t_task_id t)"
  "map_of (task_to_dict t) ''session_id'' = Some (t_session_id t)"
  "map_of (task_to_dict t) ''epic_id'' = Some (t_epic_id t)"
  "map_of (task_to_dict t) ''state'' = Some (task_state_value (t_state t))"
  "map_of (task_to_dict t) ''fail_count'' = Some (int_str (t_fail_count t))"
  "map_of (task_to_dict t) ''created_at'' = Some (isoformat (t_created_at t))"
  "map_of (task_to_dict t) ''updated_at'' = Some (isoformat (t_updated_at t))"
  "map_of (task_to_dict t) ''current_agent'' =
     (if truthy (t_current_agent t) then t_current_agent t else None)"
  "map_of (task_to_dict t) ''git_sha'' = (if truthy (t_git_sha t) then t_git_sha t else None)"
  "map_of (task_to_dict t) ''artifact_paths'' =
     (if t_artifact_paths t = [] then None else Some (py_join '','' (t_artifact_paths t)))"
  by (simp_all add: task_to_dict_def map_add_def split: option.splits)

lemma task_of_map_counted:
  assumes "task_of_map now m = Inr t" "valid_datetime u"
  shows "task_of_map now (m(''fail_count'' \<mapsto> int_str n, ''updated_at'' \<mapsto> isoformat u)) =
    Inr (t\<lparr>t_fail_count := n, t_updated_at := u\<rparr>)"
  using assms by (auto simp: task_of_map_def hget_def split: sum.splits)

lemma split_paths_of_task:
  "valid_paths ps \<Longrightarrow> ps \<noteq> [] \<Longrightarrow> split_paths (py_join '','' ps) = ps"
  using split_paths_join [of ps] by simp

lemma task_of_map_put:
  assumes "wf_task t"
  shows "task_of_map now (m ++ map_of (task_to_dict t)) = Inr (written_over m t)"
proof -
  let ?m = "m ++ map_of (task_to_dict t)"
  have f: "?m ''task_id'' = Some (t_task_id t)" "?m ''session_id'' = Some (t_session_id t)"
    "?m ''epic_id'' = Some (t_epic_id t)" "?m ''state'' = Some (task_state_value (t_state t))"
    "?m ''fail_count'' = Some (int_str (t_fail_count t))"
    "?m ''created_at'' = Some (isoformat (t_created_at t))"
    "?m ''updated_at'' = Some (isoformat (t_updated_at t))"
    "?m ''current_agent'' = (if truthy (t_current_agent t) then t_current_agent t else m ''current_agent'')"
    "?m ''git_sha'' = (if truthy (t_git_sha t) then t_git_sha t else m ''git_sha'')"
    "?m ''artifact_paths'' = (if t_artifact_paths t = [] then m ''artifact_paths''
       else Some (py_join '','' (t_artifact_paths t)))"
    by (simp_all add: map_add_def task_dict_fields truthy_def split: option.splits)
  show ?thesis
    using assms
    by (simp add: task_of_map_def hget_def f written_over_def wf_task_def split_paths_of_task)
qed

lemma task_of_dict_to_dict:
  assumes "wf_task t" "valid_opt (t_current_agent t)" "valid_opt (t_git_sha t)"
  shows "task_of_map now (map_of (task_to_dict t)) = Inr t"
  using task_of_map_put [OF assms(1), of now Map.empty] assms(2,3)
  by (simp add: written_over_def hget_def split_paths_def valid_optD cong: if_cong)

definition wf_session :: "session \<Rightarrow> bool" where
  "wf_session s \<longleftrightarrow> valid_datetime (s_created_at s) \<and> valid_paths (s_active_epic_ids s)"

lemma session_dict_fields:
  "map_of (session_to_dict s) ''session_id'' = Some (s_session_id s)"
  "map_of (session_to_dict s) ''tenant_id'' = Some (s_tenant_id s)"
  "map_of (session_to_dict s) ''current_git_sha'' = Some (s_current_git_sha s)"
  "map_of (session_to_dict s) ''active_epic_ids'' = Some (py_join '','' (s_active_epic_ids s))"
  "map_of (session_to_dict s) ''created_at'' = Some (isoformat (s_created_at s))"
  "map_of (session_to_dict s) ''status'' = Some (s_status s)"
  by (simp_all add: session_to_dict_def)

text \<open>Every field is always written, so what the hash held before does not matter.\<close>

lemma session_of_map_put:
  assumes "wf_session s"
  shows "session_of_map now (m ++ map_of (session_to_dict s)) = Inr s"
proof -
  have "valid_paths (s_active_epic_ids s)" using assms by (simp add: wf_session_def)
  then have "split_paths (py_join '','' (s_active_epic_ids s)) = s_active_epic_ids s"
    using split_paths_join [of "s_active_epic_ids s"]
    by (cases "s_active_epic_ids s = []") (simp_all add: split_paths_def [of "[]"])
  with assms show ?thesis
    by (simp add: session_of_map_def hget_def map_add_def session_dict_fields wf_session_def)
qed

section \<open>The hashes of a server\<close>

text \<open>What the clients of hashes rely on, and the effect of one read and one write.\<close>

locale hash_world = redis_hashes "redis_of E" kv
  for E :: "('x, 'g) env" and kv :: "'x \<Rightarrow> keyspace"
begin

lemma read_hash:
  obtains d where "runs kv (on_redis (r_hgetall (redis_of E) k)) w (Inr d) (absw kv w)"
    and "map_of d = hashes (srv (absw kv w)) k"
  using hgetall(1) [of k "srv w"] hgetall(2) [of k "srv w"] that
  by (auto simp: runs_def on_redis_def)

lemma write_hash:
  "runs kv (write_hash E k d) w (Inr ())
     ((absw kv w)\<lparr>srv := hash_put k d (srv (absw kv w))\<rparr>)"
  using hset [of k d "srv w"] by (simp add: runs_def write_hash_def)

lemma incr_hash:
  "hash_int (srv (absw kv w)) k f = Some v \<Longrightarrow>
   runs kv (on_redis (r_hincrby (redis_of E) k f n)) w (Inr (v + n))
     ((absw kv w)\<lparr>srv := hash_put k [(f, int_str (v + n))] (srv (absw kv w))\<rparr>)"
  using hincrby(1,2) [of "srv w" k f v n] by (simp add: runs_def)

lemma incr_hash_fails:
  "hash_int (srv (absw kv w)) k f = None \<Longrightarrow>
   \<exists>m. runs kv (on_redis (r_hincrby (redis_of E) k f n)) w (Inl (Exn RedisResponseError m)) (absw kv w)"
  using hincrby(3,4) [of "srv w" k f n] by (simp add: runs_def)

end

interpretation mem_hash: hash_world "mem_env c" mem_abs
  rewrites "redis_of (mem_env c) = mem_redis"
  by (simp_all add: hash_world_def mem.redis_hashes_axioms)

section \<open>The task table\<close>

definition task_hash :: "('x, 'g) env \<Rightarrow> (keyspace, 'g) world \<Rightarrow> string \<Rightarrow> hash" where
  "task_hash E a tid = hashes (srv a) (prefixed_key E (ctx_tenant a) (task_base_key tid))"

definition put_task :: "('x, 'g) env \<Rightarrow> string \<Rightarrow> task \<Rightarrow> (keyspace, 'g) world \<Rightarrow> (keyspace, 'g) world" where
  "put_task E tid t a =
     a\<lparr>srv := hash_put (prefixed_key E (ctx_tenant a) (task_base_key tid)) (task_to_dict t) (srv a)\<rparr>"

definition count_task :: "('x, 'g) env \<Rightarrow> string \<Rightarrow> int \<Rightarrow> (keyspace, 'g) world \<Rightarrow> (keyspace, 'g) world" where
  "count_task E tid n a =
     (let k = prefixed_key E (ctx_tenant a) (task_base_key tid)
      in a\<lparr>srv := hash_put k [(''updated_at'', isoformat (utc_datetime (clock_us a)))]
                 (hash_put k [(''fail_count'', int_str n)] (srv a))\<rparr>)"

definition holds_task :: "('x, 'g) env \<Rightarrow> (keyspace, 'g) world \<Rightarrow> string \<Rightarrow> task \<Rightarrow> bool" where
  "holds_task E a tid t \<longleftrightarrow>
     task_hash E a tid \<noteq> Map.empty \<and> (\<forall>now. task_of_map now (task_hash E a tid) = Inr t)"

lemma task_hash_put [simp]:
  "task_hash E (put_task E tid t a) tid' =
     (if tid' = tid then task_hash E a tid ++ map_of (task_to_dict t) else task_hash E a tid')"
  by (simp add: task_hash_def put_task_def hash_put_def task_base_key_def)

lemma put_task_frame [simp]:
  "clock_us (put_task E tid t a) = clock_us a" "ctx_tenant (put_task E tid t a) = ctx_tenant a"
  "repo (put_task E tid t a) = repo a" "uuid_no (put_task E tid t a) = uuid_no a"
  "strs (srv (put_task E tid t a)) = strs (srv a)" "lists (srv (put_task E tid t a)) = lists (srv a)"
  "zsets (srv (put_task E tid t a)) = zsets (srv a)"
  "streams (srv (put_task E tid t a)) = streams (srv a)"
  "unacked (srv (put_task E tid t a)) = unacked (srv a)"
  by (simp_all add: put_task_def hash_put_def)

lemma task_hash_count:
  "task_hash E (count_task E tid n a) tid' =
     (if tid' = tid
      then (task_hash E a tid)(''fail_count'' \<mapsto> int_str n,
              ''updated_at'' \<mapsto> isoformat (utc_datetime (clock_us a)))
      else task_hash E a tid')"
  by (simp add: task_hash_def count_task_def hash_put_def Let_def task_base_key_def)

lemma map_add_not_empty: "d \<noteq> [] \<Longrightarrow> m ++ map_of d \<noteq> Map.empty"
  by simp

lemma task_to_dict_not_Nil [simp]: "task_to_dict t \<noteq> []"
  by (simp add: task_to_dict_def)

text \<open>Whatever is read from a hash can be written and read again.\<close>

lemma split_paths_valid: "valid_paths (split_paths s)"
proof (cases s)
  case (Cons c cs)
  then have "split_on (CHR '','') s \<noteq> [[]]" by (auto split: list.splits)
  moreover have "split_paths s = split_on (CHR '','') s" using Cons by (simp add: split_paths_def)
  ultimately show ?thesis
    unfolding valid_paths_def by (auto dest: split_on_parts_no_sep)
qed (simp add: split_paths_def valid_paths_def)

lemma task_of_map_wf: "task_of_map now m = Inr t \<Longrightarrow> wf_task t"
  by (auto simp: task_of_map_def wf_task_def split_paths_valid dest: fromisoformat_valid split: sum.splits)

lemma holds_task_wf: "holds_task E a tid t \<Longrightarrow> wf_task t"
  unfolding holds_task_def by (blast dest: task_of_map_wf)

lemma holds_put_task:
  "wf_task t \<Longrightarrow> holds_task E (put_task E tid t a) tid (written_over (task_hash E a tid) t)"
  by (simp add: holds_task_def task_of_map_put)

lemma holds_put_other:
  "tid' \<noteq> tid \<Longrightarrow> holds_task E (put_task E tid t a) tid' u \<longleftrightarrow> holds_task E a tid' u"
  by (simp add: holds_task_def)

lemma holds_count_task:
  assumes "holds_task E a tid t" "valid_datetime (utc_datetime (clock_us a))"
  shows "holds_task E (count_task E tid n a) tid
    (t\<lparr>t_fail_count := n, t_updated_at := utc_datetime (clock_us a)\<rparr>)"
  using assms by (simp add: holds_task_def task_hash_count task_of_map_counted)

lemma task_of_map_fail_count:
  assumes "task_of_map now m = Inr t"
  shows "(case m ''fail_count'' of None \<Rightarrow> Some 0 | Some v \<Rightarrow> int_of_str v) = Some (t_fail_count t)"
proof -
  have zero: "int_of_str ''0'' = Some 0" by code_simp
  have "py_int (hget m ''fail_count'' ''0'') = Inr (t_fail_count t)"
    using assms unfolding task_of_map_def by (auto split: sum.splits)
  then have "int_of_str (hget m ''fail_count'' ''0'') = Some (t_fail_count t)"
    unfolding py_int_def by (simp split: option.splits)
  with zero show ?thesis
    by (cases "m ''fail_count''") (simp_all add: hget_def)
qed

context hash_world
begin

lemma create_task:
  "runs kv (create_task E t) w (Inr t) (put_task E (t_task_id t) t (absw kv w))"
  unfolding create_task_def task_key_def runs_prefixed
  by (rule runs_thenE [OF write_hash]) (simp add: put_task_def)

lemma get_task_none:
  "task_hash E (absw kv w) tid = Map.empty \<Longrightarrow> runs kv (get_task E tid) w (Inr None) (absw kv w)"
proof -
  assume e: "task_hash E (absw kv w) tid = Map.empty"
  obtain d where d: "runs kv (on_redis (r_hgetall (redis_of E)
        (prefixed_key E (ctx_tenant w) (task_base_key tid)))) w (Inr d) (absw kv w)"
    "map_of d = task_hash E (absw kv w) tid"
    by (rule read_hash) (simp add: task_hash_def)
  show ?thesis
    unfolding get_task_def task_key_def runs_prefixed
    by (rule runs_bindE [OF d(1)]) (use d(2) e in simp)
qed

lemma get_task_some:
  assumes "task_hash E (absw kv w) tid \<noteq> Map.empty"
  shows "runs kv (get_task E tid) w
    (map_sum id Some (task_of_map (utc_datetime (clock_us w)) (task_hash E (absw kv w) tid))) (absw kv w)"
proof -
  obtain d where d: "runs kv (on_redis (r_hgetall (redis_of E)
        (prefixed_key E (ctx_tenant w) (task_base_key tid)))) w (Inr d) (absw kv w)"
    "map_of d = task_hash E (absw kv w) tid"
    by (rule read_hash) (simp add: task_hash_def)
  with assms have "d \<noteq> []" by auto
  show ?thesis
    unfolding get_task_def task_key_def runs_prefixed
  proof (rule runs_bindE [OF d(1)], goal_cases)
    case (1 w')
    then have "clock_us w' = clock_us w" by (auto dest: absw_eqD)
    with 1 \<open>d \<noteq> []\<close> d(2) show ?case
      by (cases "task_of_map (utc_datetime (clock_us w)) (task_hash E (absw kv w) tid)") simp_all
  qed
qed

lemma get_task_holds:
  "holds_task E (absw kv w) tid t \<Longrightarrow> runs kv (get_task E tid) w (Inr (Some t)) (absw kv w)"
  using get_task_some [of w tid] by (simp add: holds_task_def)

lemma load_ok:
  assumes "holds_task E (absw kv w) tid t" "can_transition (t_state t) s"
  shows "runs kv (load_for_update E tid s) w (Inr t) (absw kv w)"
  unfolding load_for_update_def
  by (rule runs_bindE [OF get_task_holds [OF assms(1)]])
    (use assms(2) in \<open>simp add: validate_transition_def thenE_def\<close>)

lemma load_not_found:
  assumes "task_hash E (absw kv w) tid = Map.empty"
  shows "runs kv (load_for_update E tid s) w (Inl (Exn TaskNotFoundError (''Task not found: '' @ tid)))
    (absw kv w)"
  unfolding load_for_update_def by (rule runs_bindE [OF get_task_none [OF assms]]) simp

lemma load_refused:
  assumes "holds_task E (absw kv w) tid t" "\<not> can_transition (t_state t) s"
  obtains m where "runs kv (load_for_update E tid s) w (Inl (Exn TaskStateError m)) (absw kv w)"
proof -
  obtain m where m: "validate_transition (t_state t) s = Inl (Exn TaskStateError m)"
    using assms(2) by (rule tasks.validate_raises [THEN exE])
  have "runs kv (load_for_update E tid s) w (Inl (Exn TaskStateError m)) (absw kv w)"
    unfolding load_for_update_def
    by (rule runs_bindE [OF get_task_holds [OF assms(1)]]) (simp add: m thenE_def)
  then show thesis by (rule that)
qed

text \<open>The commit writes the task that was loaded, whatever the hash holds by then.\<close>

lemma commit_update:
  defines "t' w us s t \<equiv> apply_fields us (t\<lparr>t_state := s, t_updated_at := utc_datetime (clock_us w)\<rparr>)"
  shows "runs kv (commit_update E tid s us t) w (Inr (t' w us s t)) (put_task E tid (t' w us s t) (absw kv w))"
  unfolding commit_update_def task_key_def runs_prefixed runs_now_utc Let_def t'_def
  by (rule runs_thenE [OF write_hash]) (simp add: put_task_def)

lemma update_state_ok:
  assumes "holds_task E (absw kv w) tid t" "can_transition (t_state t) s"
    and "t' = apply_fields us (t\<lparr>t_state := s, t_updated_at := utc_datetime (clock_us w)\<rparr>)"
  shows "runs kv (update_state E tid s us) w (Inr t') (put_task E tid t' (absw kv w))"
  unfolding update_state_def assms(3)
proof (rule runs_bindE [OF load_ok [OF assms(1,2)]], goal_cases)
  case (1 w')
  then have "clock_us w' = clock_us w" by (auto dest: absw_eqD)
  with commit_update [of tid s us t w'] 1 show ?case by simp
qed

lemma update_state_not_found:
  "task_hash E (absw kv w) tid = Map.empty \<Longrightarrow>
   runs kv (update_state E tid s us) w (Inl (Exn TaskNotFoundError (''Task not found: '' @ tid))) (absw kv w)"
  unfolding update_state_def by (rule runs_bindE_Inl) (rule load_not_found)

lemma update_state_refused:
  assumes "holds_task E (absw kv w) tid t" "\<not> can_transition (t_state t) s"
  obtains m where "runs kv (update_state E tid s us) w (Inl (Exn TaskStateError m)) (absw kv w)"
  using load_refused [OF assms] unfolding update_state_def by (metis runs_bindE_Inl)

lemma increment_ok:
  assumes "holds_task E (absw kv w) tid t"
  shows "runs kv (increment_fail_count E tid) w (Inr (t_fail_count t + 1))
    (count_task E tid (t_fail_count t + 1) (absw kv w))"
proof -
  let ?k = "prefixed_key E (ctx_tenant w) (task_base_key tid)"
  have "hash_int (srv (absw kv w)) ?k ''fail_count'' = Some (t_fail_count t)"
    using assms task_of_map_fail_count by (simp add: holds_task_def hash_int_def task_hash_def)
  note inc = incr_hash [OF this, of 1]
  show ?thesis
    unfolding increment_fail_count_def task_key_def runs_prefixed
  proof (rule runs_bindE [OF inc], goal_cases)
    case (1 w')
    then have "clock_us w' = clock_us w" by (auto dest: absw_eqD)
    with 1 show ?case
      unfolding runs_now_utc
      by (intro runs_thenE [OF write_hash]) (simp add: count_task_def Let_def)
  qed
qed

end

lemma apply_fields_state:
  "(\<And>v. Upd_state v \<notin> set us) \<Longrightarrow> t_state (apply_fields us t) = t_state t"
proof (induction us arbitrary: t)
  case (Cons u us)
  have "t_state (apply_field u t) = t_state t" using Cons.prems by (cases u) auto
  moreover have "Upd_state v \<notin> set us" for v using Cons.prems by auto
  ultimately show ?case using Cons.IH by simp
qed simp

text \<open>A counter of a task that does not exist makes a task of it, with an empty identifier.\<close>

lemma task_of_counted_empty:
  "valid_datetime now \<Longrightarrow> valid_datetime u \<Longrightarrow>
   task_of_map now (Map.empty(''fail_count'' \<mapsto> int_str n, ''updated_at'' \<mapsto> isoformat u)) =
     Inr \<lparr>t_task_id = [], t_session_id = [], t_epic_id = [], t_state = PENDING,
          t_created_at = now, t_updated_at = u, t_fail_count = n, t_current_agent = None,
          t_git_sha = None, t_artifact_paths = []\<rparr>"
  using task_state_of_value [of PENDING] by (simp add: task_of_map_def hget_def split_paths_def)

context hash_world
begin

lemma increment_missing:
  assumes "task_hash E (absw kv w) tid = Map.empty"
  shows "runs kv (increment_fail_count E tid) w (Inr 1) (count_task E tid 1 (absw kv w))"
proof -
  let ?k = "prefixed_key E (ctx_tenant w) (task_base_key tid)"
  have "hash_int (srv (absw kv w)) ?k ''fail_count'' = Some 0"
    using assms by (simp add: hash_int_def task_hash_def)
  note inc = incr_hash [OF this, of 1]
  show ?thesis
    unfolding increment_fail_count_def task_key_def runs_prefixed
  proof (rule runs_bindE [OF inc], goal_cases)
    case (1 w')
    then have "clock_us w' = clock_us w" by (auto dest: absw_eqD)
    with 1 show ?case
      unfolding runs_now_utc
      by (intro runs_thenE [OF write_hash]) (simp add: count_task_def Let_def)
  qed
qed

end

section \<open>The session table\<close>

definition session_hash :: "('x, 'g) env \<Rightarrow> (keyspace, 'g) world \<Rightarrow> string \<Rightarrow> hash" where
  "session_hash E a sid = hashes (srv a) (prefixed_key E (ctx_tenant a) (session_base_key sid))"

definition put_session :: "('x, 'g) env \<Rightarrow> string \<Rightarrow> string pydict \<Rightarrow> (keyspace, 'g) world \<Rightarrow> (keyspace, 'g) world" where
  "put_session E sid d a =
     a\<lparr>srv := hash_put (prefixed_key E (ctx_tenant a) (session_base_key sid)) d (srv a)\<rparr>"

definition holds_session :: "('x, 'g) env \<Rightarrow> (keyspace, 'g) world \<Rightarrow> string \<Rightarrow> session \<Rightarrow> bool" where
  "holds_session E a sid s \<longleftrightarrow>
     session_hash E a sid \<noteq> Map.empty \<and> (\<forall>now. session_of_map now (session_hash E a sid) = Inr s)"

lemma session_hash_put [simp]:
  "session_hash E (put_session E sid d a) sid' =
     (if sid' = sid then session_hash E a sid ++ map_of d else session_hash E a sid')"
  by (simp add: session_hash_def put_session_def hash_put_def session_base_key_def)

text \<open>Writing a session leaves every task as it was, and the reverse.\<close>

lemma session_task_keys:
  "task_hash E (put_session E sid d a) tid = task_hash E a tid"
  "session_hash E (put_task E tid t a) sid = session_hash E a sid"
  by (simp_all add: task_hash_def put_session_def session_hash_def put_task_def hash_put_def
      task_base_key_def session_base_key_def)

lemma holds_put_session:
  assumes "wf_session s"
  shows "holds_session E (put_session E sid (session_to_dict s) a) sid s"
proof -
  have "session_to_dict s \<noteq> []" by (simp add: session_to_dict_def)
  then show ?thesis using assms by (simp add: holds_session_def session_of_map_put)
qed

lemma session_of_map_upd:
  assumes "session_of_map now m = Inr s"
  shows "session_of_map now (m(''current_git_sha'' \<mapsto> v)) = Inr (s\<lparr>s_current_git_sha := v\<rparr>)"
    "session_of_map now (m(''status'' \<mapsto> v)) = Inr (s\<lparr>s_status := v\<rparr>)"
    "session_of_map now (m(''active_epic_ids'' \<mapsto> v)) = Inr (s\<lparr>s_active_epic_ids := split_paths v\<rparr>)"
  using assms by (auto simp: session_of_map_def hget_def split: sum.splits)

lemma holds_session_upd:
  assumes "holds_session E a sid s"
  shows "holds_session E (put_session E sid [(''current_git_sha'', v)] a) sid (s\<lparr>s_current_git_sha := v\<rparr>)"
    "holds_session E (put_session E sid [(''status'', v)] a) sid (s\<lparr>s_status := v\<rparr>)"
    "holds_session E (put_session E sid [(''active_epic_ids'', v)] a) sid
       (s\<lparr>s_active_epic_ids := split_paths v\<rparr>)"
  using assms by (simp_all add: holds_session_def session_of_map_upd)

context hash_world
begin

lemma create_session:
  "runs kv (create_session E s) w (Inr s)
     (put_session E (s_session_id s) (session_to_dict s) (absw kv w))"
  unfolding create_session_def session_key_def runs_prefixed
  by (rule runs_thenE [OF write_hash]) (simp add: put_session_def)

lemma get_session_holds:
  assumes "holds_session E (absw kv w) sid s"
  shows "runs kv (get_session E sid) w (Inr (Some s)) (absw kv w)"
proof -
  obtain d where d: "runs kv (on_redis (r_hgetall (redis_of E)
        (prefixed_key E (ctx_tenant w) (session_base_key sid)))) w (Inr d) (absw kv w)"
    "map_of d = session_hash E (absw kv w) sid"
    by (rule read_hash) (simp add: session_hash_def)
  have "d \<noteq> []" using assms d(2) by (auto simp: holds_session_def)
  show ?thesis
    unfolding get_session_def session_key_def runs_prefixed
    by (rule runs_bindE [OF d(1)])
      (use assms d(2) \<open>d \<noteq> []\<close> in \<open>simp add: holds_session_def\<close>)
qed

lemma get_session_none:
  assumes "session_hash E (absw kv w) sid = Map.empty"
  shows "runs kv (get_session E sid) w (Inr None) (absw kv w)"
proof -
  obtain d where d: "runs kv (on_redis (r_hgetall (redis_of E)
        (prefixed_key E (ctx_tenant w) (session_base_key sid)))) w (Inr d) (absw kv w)"
    "map_of d = session_hash E (absw kv w) sid"
    by (rule read_hash) (simp add: session_hash_def)
  show ?thesis
    unfolding get_session_def session_key_def runs_prefixed
    by (rule runs_bindE [OF d(1)]) (use assms d(2) in simp)
qed

lemma update_git_sha:
  "runs kv (update_git_sha E sid v) w (Inr ()) (put_session E sid [(''current_git_sha'', v)] (absw kv w))"
  using write_hash by (simp add: update_git_sha_def session_key_def put_session_def)

lemma update_status:
  "runs kv (update_status E sid v) w (Inr ()) (put_session E sid [(''status'', v)] (absw kv w))"
  using write_hash by (simp add: update_status_def session_key_def put_session_def)

lemma add_active_epic:
  assumes "holds_session E (absw kv w) sid s"
  shows "runs kv (add_active_epic E sid e) w (Inr ())
    (if e \<in> set (s_active_epic_ids s) then absw kv w
     else put_session E sid [(''active_epic_ids'', py_join '','' (s_active_epic_ids s @ [e]))] (absw kv w))"
  unfolding add_active_epic_def
proof (rule runs_bindE [OF get_session_holds [OF assms]], goal_cases)
  case (1 w')
  then have "ctx_tenant w' = ctx_tenant w" by (auto dest: absw_eqD)
  with 1 write_hash [of _ _ w'] show ?case
    by (simp add: session_key_def put_session_def)
qed

lemma add_active_epic_missing:
  "session_hash E (absw kv w) sid = Map.empty \<Longrightarrow>
   runs kv (add_active_epic E sid e) w (Inr ()) (absw kv w)"
  unfolding add_active_epic_def by (rule runs_bindE [OF get_session_none]) simp_all

end

section \<open>Properties\<close>

lemma hash_world_of: "redis_hashes (redis_of E) kv \<Longrightarrow> hash_world E kv"
  by (rule hash_world.intro)

text \<open>The task and the worlds of the witnesses.\<close>

definition demo_task :: "task_state \<Rightarrow> task" where
  "demo_task s =
     \<lparr>t_task_id = ''t1'', t_session_id = ''s1'', t_epic_id = ''e1'', t_state = s,
      t_created_at = utc_datetime 0, t_updated_at = utc_datetime 0, t_fail_count = 4,
      t_current_agent = Some ''coding'', t_git_sha = None, t_artifact_paths = [''a.patch'', ''b.md'']\<rparr>"

definition demo_world :: "task_state \<Rightarrow> (memstore, string list list) world" where
  "demo_world s = snd (create_task (mem_env single_tenant) (demo_task s) mem_world)"

lemma valid_epoch [simp]: "valid_datetime (utc_datetime 0)"
  by (rule valid_utc_datetime) simp_all

lemma demo_task_fields [simp]:
  "t_task_id (demo_task s) = ''t1''" "t_session_id (demo_task s) = ''s1''" "t_state (demo_task s) = s"
  "t_fail_count (demo_task s) = 4"
  by (simp_all add: demo_task_def)

definition demo_event :: "event_type \<Rightarrow> asdlc_event" where
  "demo_event t = (blank_event t ''s1'' (utc_datetime 0))\<lparr>ev_task_id := Some ''t1''\<rparr>"

lemma demo_event_fields [simp]:
  "ev_type (demo_event t) = t" "ev_task_id (demo_event t) = Some ''t1''"
  "ev_session_id (demo_event t) = ''s1''" "ev_metadata (demo_event t) = JObj []"
  by (simp_all add: demo_event_def blank_event_def)

lemma demo_session_id [simp]: "py_strip ''s1'' = ''s1''"
  by code_simp

lemma wf_demo_task: "wf_task (demo_task s)"
  by (simp add: wf_task_def demo_task_def valid_paths_def)

lemma demo_abs: "absw mem_abs (demo_world s) =
    put_task (mem_env single_tenant) ''t1'' (demo_task s) (absw mem_abs mem_world)"
  using mem_hash.create_task [of single_tenant "demo_task s" mem_world]
  by (simp add: runs_def demo_world_def)

lemma demo_clock [simp]: "clock_us (demo_world s) = 0"
  using absw_eqD(3) [OF demo_abs] by (simp add: mem_world_def)

lemma mem_world_empty: "hashes (srv (absw mem_abs mem_world)) k = Map.empty"
  by (simp add: mem_world_def empty_memstore_def mem_abs_def mem_get_def)

lemma demo_hash: "task_hash (mem_env single_tenant) (absw mem_abs (demo_world s)) ''t1'' =
    map_of (task_to_dict (demo_task s))"
  using mem_world_empty [of "prefixed_key (mem_env single_tenant) None (task_base_key ''t1'')"]
  unfolding demo_abs task_hash_put by (simp add: task_hash_def mem_world_def)

lemma demo_holds:
  "holds_task (mem_env single_tenant) (absw mem_abs (demo_world s)) ''t1'' (demo_task s)"
proof -
  have "valid_opt (t_current_agent (demo_task s))" "valid_opt (t_git_sha (demo_task s))"
    by (simp_all add: demo_task_def valid_opt_def)
  moreover have "map_of (task_to_dict (demo_task s)) \<noteq> Map.empty" by simp
  ultimately show ?thesis
    unfolding holds_task_def demo_hash using task_of_dict_to_dict [OF wf_demo_task] by blast
qed

text \<open>The task codec.  A task with valid time stamps, non-empty optional fields and artifact
  paths free of commas is read back from its hash as it was written.\<close>

theorem task_codec:
  assumes "wf_task t" "valid_opt (t_current_agent t)" "valid_opt (t_git_sha t)"
  shows "task_of_map now (map_of (task_to_dict t)) = Inr t"
  using assms by (rule task_of_dict_to_dict)

lemma task_codec_witness:
  "task_of_map (utc_datetime 5) (map_of (task_to_dict (demo_task PENDING))) = Inr (demo_task PENDING)"
  by (rule task_codec [OF wf_demo_task]) (simp_all add: demo_task_def valid_opt_def)

text \<open>C12: \<^verbatim>\<open>update_state\<close> on an existing task and an allowed transition.  It returns the task
  with the new state, the time of the update and the extra fields; it stores that task, where
  an optional field left unset keeps its stored value; unless the extra fields assign the
  state, the stored state is the requested one; no other task changes.\<close>

theorem update_state_moves:
  assumes "redis_hashes (redis_of E) kv"
    and "holds_task E (absw kv w) tid t" "can_transition (t_state t) s"
    and "t' = apply_fields us (t\<lparr>t_state := s, t_updated_at := utc_datetime (clock_us w)\<rparr>)" "wf_task t'"
  defines "w' \<equiv> snd (update_state E tid s us w)"
  shows "fst (update_state E tid s us w) = Inr t' \<and>
    holds_task E (absw kv w') tid (written_over (task_hash E (absw kv w) tid) t') \<and>
    ((\<forall>v. Upd_state v \<notin> set us) \<longrightarrow> t_state t' = s) \<and>
    (\<forall>tid'. tid' \<noteq> tid \<longrightarrow> task_hash E (absw kv w') tid' = task_hash E (absw kv w) tid')"
  using hash_world.update_state_ok [OF hash_world_of [OF assms(1)] assms(2-4)]
    holds_put_task [OF assms(5)] apply_fields_state
  by (auto simp: runs_def w'_def assms(4))

lemma update_state_moves_witness:
  "fst (update_state (mem_env single_tenant) ''t1'' IN_PROGRESS [] (demo_world PENDING)) =
     Inr ((demo_task PENDING)\<lparr>t_state := IN_PROGRESS, t_updated_at := utc_datetime 0\<rparr>)"
proof -
  have "wf_task ((demo_task PENDING)\<lparr>t_state := IN_PROGRESS, t_updated_at := utc_datetime 0\<rparr>)"
    using wf_demo_task [of PENDING] by (simp add: wf_task_def)
  then show ?thesis
    using update_state_moves [of "mem_env single_tenant" mem_abs "demo_world PENDING" "''t1''" "demo_task PENDING"
        IN_PROGRESS _ "[]"] demo_holds [of PENDING] mem.redis_hashes_axioms
    by simp
qed

text \<open>\<^verbatim>\<open>update_state\<close> refuses a task that does not exist and a transition that is not
  allowed, with the exception class of each case, and changes nothing.\<close>

theorem update_state_refuses:
  assumes "redis_hashes (redis_of E) kv"
  shows "(task_hash E (absw kv w) tid = Map.empty \<longrightarrow>
      runs kv (update_state E tid s us) w (Inl (Exn TaskNotFoundError (''Task not found: '' @ tid))) (absw kv w)) \<and>
    (holds_task E (absw kv w) tid t \<and> \<not> can_transition (t_state t) s \<longrightarrow>
      (\<exists>m. runs kv (update_state E tid s us) w (Inl (Exn TaskStateError m)) (absw kv w)))"
  using hash_world.update_state_not_found [OF hash_world_of [OF assms]]
    hash_world.update_state_refused [OF hash_world_of [OF assms]] by metis

lemma update_state_refuses_witness:
  "\<exists>m. runs mem_abs (update_state (mem_env single_tenant) ''t1'' COMPLETE []) (demo_world PENDING)
     (Inl (Exn TaskStateError m)) (absw mem_abs (demo_world PENDING))"
  using update_state_refuses [of "mem_env single_tenant" mem_abs "demo_world PENDING" "''t1''" COMPLETE "[]"
      "demo_task PENDING"] demo_holds [of PENDING] mem.redis_hashes_axioms
  by simp

text \<open>A failure counted between the two halves of \<^verbatim>\<open>update_state\<close> is lost.  The update reads
  the task, another process increments the counter atomically and is told the new value,
  and the update then writes the counter it had read.\<close>

theorem concurrent_failure_lost:
  assumes "redis_hashes (redis_of E) kv" "valid_datetime (utc_datetime (clock_us w))"
    and "holds_task E (absw kv w) tid t" "can_transition (t_state t) s"
  defines "w1 \<equiv> snd (load_for_update E tid s w)"
  defines "w2 \<equiv> snd (increment_fail_count E tid w1)"
  defines "w3 \<equiv> snd (commit_update E tid s [] t w2)"
  shows "fst (load_for_update E tid s w) = Inr t \<and>
    fst (increment_fail_count E tid w1) = Inr (t_fail_count t + 1) \<and>
    (\<exists>t'. holds_task E (absw kv w3) tid t' \<and> t_fail_count t' = t_fail_count t)"
proof -
  note hw = hash_world_of [OF assms(1)]
  have 1: "fst (load_for_update E tid s w) = Inr t" "absw kv w1 = absw kv w"
    using hash_world.load_ok [OF hw assms(3,4)] by (simp_all add: runs_def w1_def)
  have 2: "fst (increment_fail_count E tid w1) = Inr (t_fail_count t + 1)"
    "absw kv w2 = count_task E tid (t_fail_count t + 1) (absw kv w)"
    using hash_world.increment_ok [OF hw, of w1 tid t] 1 assms(3) by (simp_all add: runs_def w2_def)
  let ?t = "t\<lparr>t_state := s, t_updated_at := utc_datetime (clock_us w2)\<rparr>"
  have "clock_us w2 = clock_us w" using absw_eqD(3) [OF 2(2)] by (simp add: count_task_def Let_def)
  moreover note holds_task_wf [OF assms(3)]
  ultimately have "wf_task ?t" using assms(2) by (simp add: wf_task_def)
  moreover have "absw kv w3 = put_task E tid ?t (absw kv w2)"
    using hash_world.commit_update [OF hw, of tid s "[]" t w2] by (simp add: runs_def w3_def)
  ultimately have "holds_task E (absw kv w3) tid (written_over (task_hash E (absw kv w2) tid) ?t)"
    by (simp add: holds_put_task)
  with 1 2 show ?thesis by (auto simp: written_over_def)
qed

lemma concurrent_failure_lost_witness:
  "\<exists>t'. holds_task (mem_env single_tenant)
     (absw mem_abs (snd (commit_update (mem_env single_tenant) ''t1'' IN_PROGRESS [] (demo_task PENDING)
        (snd (increment_fail_count (mem_env single_tenant) ''t1''
          (snd (load_for_update (mem_env single_tenant) ''t1'' IN_PROGRESS (demo_world PENDING)))))))) ''t1'' t' \<and>
     t_fail_count t' = 4"
  using concurrent_failure_lost [of "mem_env single_tenant" mem_abs "demo_world PENDING" "''t1''"
      "demo_task PENDING" IN_PROGRESS] demo_holds [of PENDING] mem.redis_hashes_axioms
  by simp

text \<open>C13: the validation of \<^verbatim>\<open>update_state\<close> holds of the state that was read, not of the state
  that is overwritten.  Two updates that both read a task blocked at a gate are both
  accepted; the first completes the task and the second then moves the completed task,
  which no transition allows.\<close>

theorem stale_update_leaves_complete:
  assumes "redis_hashes (redis_of E) kv" "valid_datetime (utc_datetime (clock_us w))"
    and "holds_task E (absw kv w) tid t" "t_state t = BLOCKED_HITL" "s \<in> {IN_PROGRESS, FAILED}"
  defines "w1 \<equiv> snd (load_for_update E tid s (snd (load_for_update E tid COMPLETE w)))"
  defines "w2 \<equiv> snd (commit_update E tid COMPLETE [] t w1)"
  defines "w3 \<equiv> snd (commit_update E tid s [] t w2)"
  shows "fst (load_for_update E tid COMPLETE w) = Inr t \<and>
    fst (load_for_update E tid s (snd (load_for_update E tid COMPLETE w))) = Inr t \<and>
    (\<exists>u. holds_task E (absw kv w2) tid u \<and> t_state u = COMPLETE) \<and>
    (\<exists>u. holds_task E (absw kv w3) tid u \<and> t_state u = s) \<and> \<not> can_transition COMPLETE s"
proof -
  note hw = hash_world_of [OF assms(1)]
  define w0 where "w0 = snd (load_for_update E tid COMPLETE w)"
  have 0: "fst (load_for_update E tid COMPLETE w) = Inr t" "absw kv w0 = absw kv w"
    using hash_world.load_ok [OF hw assms(3), of COMPLETE] assms(4) by (simp_all add: runs_def w0_def)
  have 1: "fst (load_for_update E tid s w0) = Inr t" "absw kv w1 = absw kv w"
    using hash_world.load_ok [OF hw, of w0 tid t s] assms(3-5) 0 by (auto simp: runs_def w1_def w0_def)
  have wf: "wf_task (t\<lparr>t_state := x, t_updated_at := utc_datetime (clock_us w)\<rparr>)" for x
    using holds_task_wf [OF assms(3)] assms(2) by (simp add: wf_task_def)
  have c1: "clock_us w1 = clock_us w" using absw_eqD(3) [OF 1(2)] by simp
  have 2: "absw kv w2 = put_task E tid (t\<lparr>t_state := COMPLETE, t_updated_at := utc_datetime (clock_us w)\<rparr>) (absw kv w)"
    using hash_world.commit_update [OF hw, of tid COMPLETE "[]" t w1] 1(2) c1 by (simp add: runs_def w2_def)
  then have c2: "clock_us w2 = clock_us w" using absw_eqD(3) [OF 2] by simp
  have 3: "absw kv w3 = put_task E tid (t\<lparr>t_state := s, t_updated_at := utc_datetime (clock_us w)\<rparr>) (absw kv w2)"
    using hash_world.commit_update [OF hw, of tid s "[]" t w2] c2 by (simp add: runs_def w3_def)
  have "\<exists>u. holds_task E (absw kv w2) tid u \<and> t_state u = COMPLETE"
    unfolding 2 by (rule exI, rule conjI, rule holds_put_task [OF wf]) (simp add: written_over_def)
  moreover have "\<exists>u. holds_task E (absw kv w3) tid u \<and> t_state u = s"
    unfolding 3 by (rule exI, rule conjI, rule holds_put_task [OF wf]) (simp add: written_over_def)
  ultimately show ?thesis using 0 1 by (simp add: w0_def)
qed

lemma stale_update_leaves_complete_witness:
  "\<exists>u. holds_task (mem_env single_tenant) (absw mem_abs (snd (commit_update (mem_env single_tenant) ''t1'' FAILED []
      (demo_task BLOCKED_HITL) (snd (commit_update (mem_env single_tenant) ''t1'' COMPLETE [] (demo_task BLOCKED_HITL)
      (snd (load_for_update (mem_env single_tenant) ''t1'' FAILED
        (snd (load_for_update (mem_env single_tenant) ''t1'' COMPLETE (demo_world BLOCKED_HITL))))))))))
     ''t1'' u \<and> t_state u = FAILED"
  using stale_update_leaves_complete [of "mem_env single_tenant" mem_abs "demo_world BLOCKED_HITL" "''t1''"
      "demo_task BLOCKED_HITL" FAILED] demo_holds [of BLOCKED_HITL] mem.redis_hashes_axioms
  by simp

text \<open>The failure counter of a task that does not exist is counted all the same, and from
  then on the identifier has a task: pending, with empty identifiers and one failure.\<close>

theorem counting_creates_a_task:
  assumes "redis_hashes (redis_of E) kv" "valid_datetime (utc_datetime (clock_us w))"
    and "task_hash E (absw kv w) tid = Map.empty"
  defines "w' \<equiv> snd (increment_fail_count E tid w)"
  shows "fst (increment_fail_count E tid w) = Inr 1 \<and>
    fst (get_task E tid w') = Inr (Some
      \<lparr>t_task_id = [], t_session_id = [], t_epic_id = [], t_state = PENDING,
       t_created_at = utc_datetime (clock_us w), t_updated_at = utc_datetime (clock_us w),
       t_fail_count = 1, t_current_agent = None, t_git_sha = None, t_artifact_paths = []\<rparr>)"
proof -
  note hw = hash_world_of [OF assms(1)]
  have 1: "fst (increment_fail_count E tid w) = Inr 1" "absw kv w' = count_task E tid 1 (absw kv w)"
    using hash_world.increment_missing [OF hw assms(3)] by (simp_all add: runs_def w'_def)
  have c: "clock_us w' = clock_us w" using absw_eqD(3) [OF 1(2)] by (simp add: count_task_def Let_def)
  have h: "task_hash E (absw kv w') tid =
      Map.empty(''fail_count'' \<mapsto> int_str 1, ''updated_at'' \<mapsto> isoformat (utc_datetime (clock_us w)))"
    unfolding 1(2) task_hash_count by (simp add: assms(3))
  then have "task_hash E (absw kv w') tid \<noteq> Map.empty" by simp
  from hash_world.get_task_some [OF hw this] show ?thesis
    using 1(1) unfolding h c task_of_counted_empty [OF assms(2) assms(2)] by (simp add: runs_def)
qed

lemma counting_creates_a_task_witness:
  "fst (increment_fail_count (mem_env single_tenant) ''ghost'' mem_world) = Inr 1"
proof -
  have "task_hash (mem_env single_tenant) (absw mem_abs mem_world) ''ghost'' = Map.empty"
    unfolding task_hash_def by (rule mem_world_empty)
  moreover have "clock_us mem_world = 0" by (simp add: mem_world_def)
  ultimately show ?thesis
    using counting_creates_a_task [of "mem_env single_tenant" mem_abs mem_world "''ghost''"] mem.redis_hashes_axioms
    by simp
qed

text \<open>A session is read back as it was created, and \<^verbatim>\<open>add_active_epic\<close> adds an epic once: an
  epic that is listed leaves the key space as it was, a new one goes to the end of the list.\<close>

theorem session_epics:
  fixes E :: "('x, 'g) env" and w :: "('x, 'g) world"
  assumes "redis_hashes (redis_of E) kv" "wf_session s" "valid_paths (s_active_epic_ids s @ [e])"
  defines "w1 \<equiv> snd (create_session E s w)"
  defines "w2 \<equiv> snd (add_active_epic E (s_session_id s) e w1)"
  shows "fst (get_session E (s_session_id s) w1) = Inr (Some s) \<and>
    fst (get_session E (s_session_id s) w2) = Inr (Some (s\<lparr>s_active_epic_ids :=
      (if e \<in> set (s_active_epic_ids s) then s_active_epic_ids s else s_active_epic_ids s @ [e])\<rparr>))"
proof -
  note hw = hash_world_of [OF assms(1)]
  let ?sid = "s_session_id s"
  have 1: "absw kv w1 = put_session E ?sid (session_to_dict s) (absw kv w)"
    using hash_world.create_session [OF hw, of s w] by (simp add: runs_def w1_def)
  then have h1: "holds_session E (absw kv w1) ?sid s" using holds_put_session [OF assms(2)] by simp
  have 2: "absw kv w2 = (if e \<in> set (s_active_epic_ids s) then absw kv w1
      else put_session E ?sid [(''active_epic_ids'', py_join '','' (s_active_epic_ids s @ [e]))] (absw kv w1))"
    using hash_world.add_active_epic [OF hw h1, of e] by (simp add: runs_def w2_def)
  have "split_paths (py_join '','' (s_active_epic_ids s @ [e])) = s_active_epic_ids s @ [e]"
    by (rule split_paths_of_task [OF assms(3)]) simp
  then have "holds_session E (absw kv w2) ?sid (s\<lparr>s_active_epic_ids := s_active_epic_ids s @ [e]\<rparr>)"
    if "e \<notin> set (s_active_epic_ids s)"
    using holds_session_upd(3) [OF h1, of "py_join '','' (s_active_epic_ids s @ [e])"] 2 that by simp
  then have h2: "holds_session E (absw kv w2) ?sid (s\<lparr>s_active_epic_ids :=
      (if e \<in> set (s_active_epic_ids s) then s_active_epic_ids s else s_active_epic_ids s @ [e])\<rparr>)"
    using 2 h1 by (cases "e \<in> set (s_active_epic_ids s)") simp_all
  from hash_world.get_session_holds [OF hw h1] hash_world.get_session_holds [OF hw h2] show ?thesis
    by (simp add: runs_def)
qed

definition demo_session :: session where
  "demo_session = \<lparr>s_session_id = ''s1'', s_tenant_id = ''acme'', s_current_git_sha = ''abc'',
     s_active_epic_ids = [''e1''], s_created_at = utc_datetime 0, s_status = ''active''\<rparr>"

lemma session_epics_witness:
  "fst (get_session (mem_env single_tenant) ''s1''
     (snd (add_active_epic (mem_env single_tenant) ''s1'' ''e2''
       (snd (create_session (mem_env single_tenant) demo_session mem_world))))) =
   Inr (Some (demo_session\<lparr>s_active_epic_ids := [''e1'', ''e2'']\<rparr>))"
proof -
  have "wf_session demo_session" "valid_paths (s_active_epic_ids demo_session @ [''e2''])"
    by (simp_all add: wf_session_def demo_session_def valid_paths_def)
  from session_epics [OF mem.redis_hashes_axioms [folded redis_of_mem_env [of single_tenant]] this] show ?thesis
    by (simp add: demo_session_def)
qed

end
