(* ===== verification/Streams.thy ===== *)
theory Streams
  imports Task_Store
begin

text \<open>
  Redis Streams, \<^verbatim>\<open>src/infrastructure/redis_streams.py\<close>: creation of the stream and of the
  consumer groups, publishing, reading, acknowledging and claiming, and the tracker of
  processed events.  The locale \<open>event_sink\<close> is the contract of the \<^verbatim>\<open>event_publisher\<close> that
  the components of the orchestrator are given; \<^verbatim>\<open>publish_event_model\<close> meets it.
\<close>

definition is_redis_error :: "exn_class \<Rightarrow> bool" where
  "is_redis_error c \<longleftrightarrow> isinstance_exn c RedisRedisError"

text \<open>\<^verbatim>\<open>except redis.RedisError as e: raise StreamError(msg) from e\<close>\<close>

definition as_stream_error :: "string \<Rightarrow> ('x, 'g, 'a) act \<Rightarrow> ('x, 'g, 'a) act" where
  "as_stream_error msg m =
     try_except m is_redis_error (\<lambda>e. raise (Exn StreamError (msg @ message_of e)))"

section \<open>Entries of a stream\<close>

record stream_event =
  se_event_id :: string
  se_event_type :: string
  se_session_id :: string
  se_epic_id :: "string option"
  se_task_id :: "string option"
  se_git_sha :: "string option"
  se_artifact_paths :: "string list"
  se_mode :: string
  se_timestamp :: string
  se_raw_data :: "string pydict"

definition from_stream_entry :: "string \<Rightarrow> string pydict \<Rightarrow> ('x, 'g, stream_event) act" where
  "from_stream_entry eid d w =
     ret \<lparr>se_event_id = eid,
          se_event_type = dget d ''event_type'' ''unknown'',
          se_session_id = dget d ''session_id'' [],
          se_epic_id = map_of d ''epic_id'',
          se_task_id = map_of d ''task_id'',
          se_git_sha = map_of d ''git_sha'',
          se_artifact_paths = split_paths (dget d ''artifact_paths'' []),
          se_mode = dget d ''mode'' ''normal'',
          se_timestamp = dget d ''timestamp'' (isoformat (naive_datetime (clock_us w))),
          se_raw_data = d\<rparr> w"

section \<open>Streams and groups\<close>

text \<open>\<^verbatim>\<open>datetime.utcnow().isoformat()\<close>\<close>

definition utcnow_iso :: "('x, 'g, string) act" where
  "utcnow_iso w = ret (isoformat (naive_datetime (clock_us w))) w"

definition ensure_stream_exists :: "('x, 'g) env \<Rightarrow> string option \<Rightarrow> ('x, 'g, bool) act" where
  "ensure_stream_exists E name =
     (let stream = (case name of None \<Rightarrow> cfg_stream E | Some n \<Rightarrow> n) in
      as_stream_error ''Failed to ensure stream exists: ''
        (bindE (on_redis (r_exists (redis_of E) stream)) (\<lambda>n.
           if n \<noteq> 0 then ret True
           else
             bindE utcnow_iso (\<lambda>ts.
             bindE (on_redis (r_xadd (redis_of E) stream
                      [(''_init'', ''true''), (''timestamp'', ts)] 1000)) (\<lambda>_.
             ret True)))))"

definition create_consumer_group ::
  "('x, 'g) env \<Rightarrow> string \<Rightarrow> string \<Rightarrow> string \<Rightarrow> ('x, 'g, bool) act" where
  "create_consumer_group E stream grp start =
     try_except
       (bindE (on_redis (r_xgroup_create (redis_of E) stream grp start)) (\<lambda>_. ret True))
       is_redis_error
       (\<lambda>e. if isinstance_exn (class_of e) RedisResponseError then
              (if is_infix ''BUSYGROUP'' (message_of e) then ret False
               else raise (Exn ConsumerGroupError
                      (''Failed to create consumer group: '' @ message_of e)))
            else raise (Exn ConsumerGroupError
                   (''Redis error creating consumer group: '' @ message_of e)))"

text \<open>The loop over the configured groups; an error of one group ends it.\<close>

fun init_groups :: "('x, 'g) env \<Rightarrow> string list \<Rightarrow> bool pydict \<Rightarrow> ('x, 'g, bool pydict) act" where
  "init_groups E [] results = ret results"
| "init_groups E (g # gs) results =
     bindE (create_consumer_group E (cfg_stream E) g ''0'') (\<lambda>created.
       init_groups E gs (dset g created results))"

definition initialize_consumer_groups ::
  "('x, 'g) env \<Rightarrow> string list \<Rightarrow> ('x, 'g, bool pydict) act" where
  "initialize_consumer_groups E groups =
     thenE (bindE (ensure_stream_exists E (Some (cfg_stream E))) (\<lambda>_. ret ()))
     (init_groups E groups [])"

definition get_stream_name :: "('x, 'g) env \<Rightarrow> string option \<Rightarrow> ('x, 'g, string) act" where
  "get_stream_name E base =
     tenant_prefixed E (case base of None \<Rightarrow> cfg_stream E | Some b \<Rightarrow> b)"

definition ensure_stream_exists_for_tenant ::
  "('x, 'g) env \<Rightarrow> string option \<Rightarrow> ('x, 'g, bool) act" where
  "ensure_stream_exists_for_tenant E base =
     bindE (get_stream_name E base) (\<lambda>n. ensure_stream_exists E (Some n))"

section \<open>Publishing\<close>

text \<open>\<^verbatim>\<open>publish_event\<close>: the extra fields are merged into the entry and may replace its fields.\<close>

fun dupdate :: "'v pydict \<Rightarrow> 'v pydict \<Rightarrow> 'v pydict" where
  "dupdate d [] = d"
| "dupdate d (p # ps) = dupdate (dset (fst p) (snd p) d) ps"

definition publish_event ::
  "('x, 'g) env \<Rightarrow> string \<Rightarrow> string \<Rightarrow> string option \<Rightarrow> string option \<Rightarrow> string option \<Rightarrow>
   string list \<Rightarrow> string \<Rightarrow> string option \<Rightarrow> string pydict \<Rightarrow> ('x, 'g, string) act" where
  "publish_event E etype sid epic task sha paths mode name extra =
     (let stream = (case name of None \<Rightarrow> cfg_stream E | Some n \<Rightarrow> n) in
      bindE utcnow_iso (\<lambda>ts.
        let data = dupdate
          ([(''event_type'', etype), (''session_id'', sid), (''timestamp'', ts), (''mode'', mode)] @
           opt_field ''epic_id'' epic @ opt_field ''task_id'' task @ opt_field ''git_sha'' sha @
           (if paths = [] then [] else [(''artifact_paths'', py_join '','' paths)])) extra
        in as_stream_error ''Failed to publish event: ''
             (on_redis (r_xadd (redis_of E) stream data 10000))))"

text \<open>
  \<^verbatim>\<open>publish_event_model\<close> completes the event with the tenant and the idempotency key.  The
  code assigns them to the caller's object; no caller in the repository reads it afterwards.
\<close>

definition inject_tenant :: "('x, 'g) env \<Rightarrow> asdlc_event \<Rightarrow> ('x, 'g, asdlc_event) act" where
  "inject_tenant E e =
     (if tenancy_enabled (tenant_cfg E) \<and> \<not> truthy (ev_tenant_id e) then
        try_except
          (bindE get_current_tenant (\<lambda>t. ret (e\<lparr>ev_tenant_id := Some t\<rparr>)))
          any_exception
          (\<lambda>_. ret (e\<lparr>ev_tenant_id := Some (default_tenant (tenant_cfg E))\<rparr>))
      else ret e)"

definition inject_key :: "('x, 'g) env \<Rightarrow> asdlc_event \<Rightarrow> asdlc_event" where
  "inject_key E e =
     (if truthy (ev_idempotency_key e) then e
      else e\<lparr>ev_idempotency_key :=
        Some (generate_idempotency_key E (event_type_value (ev_type e)) (ev_session_id e)
                (ev_task_id e) (ev_epic_id e) None)\<rparr>)"

definition publish_event_model ::
  "('x, 'g) env \<Rightarrow> asdlc_event \<Rightarrow> string option \<Rightarrow> nat \<Rightarrow> ('x, 'g, string) act" where
  "publish_event_model E e name maxlen =
     bindE (case name of None \<Rightarrow> get_stream_name E None | Some n \<Rightarrow> ret n) (\<lambda>stream.
     bindE (inject_tenant E e) (\<lambda>e1.
       as_stream_error ''Failed to publish event: ''
         (on_redis (r_xadd (redis_of E) stream (to_stream_dict (inject_key E e1)) maxlen))))"

text \<open>\<^verbatim>\<open>ASDLCEvent(...)\<close>: the constructor runs \<^verbatim>\<open>__post_init__\<close>.\<close>

definition new_event :: "asdlc_event \<Rightarrow> ('x, 'g, asdlc_event) act" where
  "new_event e = lift_result (post_init e)"

text \<open>The publisher with the defaults of its parameters.\<close>

definition stream_publisher :: "('x, 'g) env \<Rightarrow> asdlc_event \<Rightarrow> ('x, 'g, string) act" where
  "stream_publisher E e = publish_event_model E e None 10000"

section \<open>The tracker of processed events\<close>

definition processed_base_key :: "string \<Rightarrow> string" where
  "processed_base_key key = ''asdlc:processed:'' @ key"

definition is_processed :: "('x, 'g) env \<Rightarrow> string \<Rightarrow> ('x, 'g, bool) act" where
  "is_processed E key =
     bindE (tenant_prefixed E (processed_base_key key)) (\<lambda>k.
     bindE (on_redis (r_exists (redis_of E) k)) (\<lambda>n. ret (n > 0)))"

definition mark_processed :: "('x, 'g) env \<Rightarrow> int \<Rightarrow> string \<Rightarrow> string \<Rightarrow> ('x, 'g, unit) act" where
  "mark_processed E ttl key eid =
     bindE (tenant_prefixed E (processed_base_key key)) (\<lambda>k.
     bindE (on_redis (r_set (redis_of E) k eid ttl False)) (\<lambda>_. ret ()))"

section \<open>Reading, acknowledging and claiming\<close>

definition read_events_from_group ::
  "('x, 'g) env \<Rightarrow> string \<Rightarrow> string \<Rightarrow> string option \<Rightarrow> int \<Rightarrow> int option \<Rightarrow>
   ('x, 'g, asdlc_event list) act" where
  "read_events_from_group E grp consumer name count block =
     bindE (case name of None \<Rightarrow> get_stream_name E None | Some n \<Rightarrow> ret n) (\<lambda>stream.
     as_stream_error ''Failed to read from consumer group: ''
       (bindE (on_redis (r_xreadgroup (redis_of E) grp consumer stream count block)) (\<lambda>result.
        collect (concat (map snd result)) (\<lambda>m. from_stream_dict (fst m) (snd m)))))"

definition acknowledge_event ::
  "('x, 'g) env \<Rightarrow> string \<Rightarrow> string \<Rightarrow> string \<Rightarrow> ('x, 'g, bool) act" where
  "acknowledge_event E stream grp eid =
     as_stream_error ''Failed to acknowledge event: ''
       (bindE (on_redis (r_xack (redis_of E) stream grp eid)) (\<lambda>n. ret (n > 0)))"

definition get_pending_events ::
  "('x, 'g) env \<Rightarrow> string \<Rightarrow> string \<Rightarrow> int \<Rightarrow> string option \<Rightarrow> ('x, 'g, pending_entry list) act" where
  "get_pending_events E stream grp count consumer =
     as_stream_error ''Failed to get pending events: ''
       (on_redis (r_xpending_range (redis_of E) stream grp count
          (if truthy consumer then consumer else None)))"

definition stale_ids :: "int \<Rightarrow> pending_entry list \<Rightarrow> string list" where
  "stale_ids min_idle ps = map message_id (filter (\<lambda>p. time_since_delivered p \<ge> min_idle) ps)"

definition claim_stale_events ::
  "('x, 'g) env \<Rightarrow> string \<Rightarrow> string \<Rightarrow> string \<Rightarrow> int \<Rightarrow> int \<Rightarrow> ('x, 'g, asdlc_event list) act" where
  "claim_stale_events E stream grp consumer min_idle count =
     as_stream_error ''Failed to claim stale events: ''
       (bindE (get_pending_events E stream grp count None) (\<lambda>pending.
          let ids = stale_ids min_idle pending in
          if ids = [] then ret []
          else
            bindE (on_redis (r_xclaim (redis_of E) stream grp consumer min_idle ids)) (\<lambda>claimed.
            collect (filter (\<lambda>m. snd m \<noteq> []) claimed)
              (\<lambda>m. from_stream_dict (fst m) (snd m)))))"

section \<open>The publisher's contract\<close>

definition stream_append ::
  "string \<Rightarrow> nat \<Rightarrow> stream_entry \<Rightarrow> (keyspace, 'g) world \<Rightarrow> (keyspace, 'g) world" where
  "stream_append k n x a =
     a\<lparr>srv := (srv a)\<lparr>streams := (streams (srv a))(k := drop n (streams (srv a) k) @ [x])\<rparr>\<rparr>"

text \<open>\<open>emitted chan stamp e a b\<close>: \<open>b\<close> is \<open>a\<close> with the completed event \<open>e\<close> appended to its channel.\<close>

definition emitted ::
  "(string option \<Rightarrow> string) \<Rightarrow> (string option \<Rightarrow> asdlc_event \<Rightarrow> asdlc_event) \<Rightarrow> asdlc_event \<Rightarrow>
   (keyspace, 'g) world \<Rightarrow> (keyspace, 'g) world \<Rightarrow> bool" where
  "emitted chan stamp e a b \<longleftrightarrow>
     (\<exists>i n. b = stream_append (chan (ctx_tenant a)) n (i, to_stream_dict (stamp (ctx_tenant a) e)) a)"

locale event_sink =
  fixes kv :: "'x \<Rightarrow> keyspace"
    and pub :: "asdlc_event \<Rightarrow> ('x, 'g, string) act"
    and chan :: "string option \<Rightarrow> string"
    and stamp :: "string option \<Rightarrow> asdlc_event \<Rightarrow> asdlc_event"
  assumes publish: "\<exists>i b. runs kv (pub e) w (Inr i) b \<and> emitted chan stamp e (absw kv w) b"
begin

lemma publish_cases:
  obtains i b where "runs kv (pub e) w (Inr i) b" "emitted chan stamp e (absw kv w) b"
  using publish [of e w] by blast

lemma publishes:
  "yields kv (pub e) w (\<lambda>r a. (\<exists>i. r = Inr i) \<and> emitted chan stamp e (absw kv w) a)"
  by (rule publish_cases [of e w]) (auto intro: yields_runs)

end

section \<open>Lemmas\<close>

lemma redis_error_classes [simp]:
  "is_redis_error RedisRedisError" "is_redis_error RedisResponseError"
  "\<not> is_redis_error PyValueError" "\<not> is_redis_error StreamError"
  by (simp_all add: is_redis_error_def isinstance_exn_def eval_nat_numeral)

lemma as_stream_error_ok:
  "runs kv m w (Inr x) a \<Longrightarrow> runs kv (as_stream_error msg m) w (Inr x) a"
  unfolding as_stream_error_def by (rule runs_try_except(1))

lemma as_stream_error_other:
  "runs kv m w (Inl e) a \<Longrightarrow> \<not> is_redis_error (class_of e) \<Longrightarrow>
   runs kv (as_stream_error msg m) w (Inl e) a"
  unfolding as_stream_error_def by (rule runs_try_except(3))

definition stamp_tenant :: "('x, 'g) env \<Rightarrow> string option \<Rightarrow> asdlc_event \<Rightarrow> asdlc_event" where
  "stamp_tenant E t e =
     (if tenancy_enabled (tenant_cfg E) \<and> \<not> truthy (ev_tenant_id e)
      then e\<lparr>ev_tenant_id := Some (case t of Some t' \<Rightarrow> t' | None \<Rightarrow> default_tenant (tenant_cfg E))\<rparr>
      else e)"

lemma runs_inject_tenant [simp]:
  "runs kv (bindE (inject_tenant E e) f) w r a \<longleftrightarrow>
   runs kv (f (stamp_tenant E (ctx_tenant w) e)) w r a"
  by (simp add: runs_def inject_tenant_def stamp_tenant_def bindE_def try_except_def
      get_current_tenant_def ret_def raise_def split: option.splits)

definition event_channel :: "('x, 'g) env \<Rightarrow> string option \<Rightarrow> string" where
  "event_channel E t = prefixed_key E t (cfg_stream E)"

definition complete_event :: "('x, 'g) env \<Rightarrow> string option \<Rightarrow> asdlc_event \<Rightarrow> asdlc_event" where
  "complete_event E t e = inject_key E (stamp_tenant E t e)"

lemma complete_event_fields [simp]:
  "ev_type (complete_event E t e) = ev_type e"
  "ev_session_id (complete_event E t e) = ev_session_id e"
  "ev_task_id (complete_event E t e) = ev_task_id e"
  "ev_epic_id (complete_event E t e) = ev_epic_id e"
  "ev_git_sha (complete_event E t e) = ev_git_sha e"
  "ev_mode (complete_event E t e) = ev_mode e"
  "ev_timestamp (complete_event E t e) = ev_timestamp e"
  "ev_metadata (complete_event E t e) = ev_metadata e"
  "ev_artifact_paths (complete_event E t e) = ev_artifact_paths e"
  by (simp_all add: complete_event_def inject_key_def stamp_tenant_def)

lemma stream_append_simps [simp]:
  "hashes (srv (stream_append k n x a)) = hashes (srv a)"
  "strs (srv (stream_append k n x a)) = strs (srv a)"
  "lists (srv (stream_append k n x a)) = lists (srv a)"
  "zsets (srv (stream_append k n x a)) = zsets (srv a)"
  "unacked (srv (stream_append k n x a)) = unacked (srv a)"
  "repo (stream_append k n x a) = repo a" "clock_us (stream_append k n x a) = clock_us a"
  "uuid_no (stream_append k n x a) = uuid_no a" "ctx_tenant (stream_append k n x a) = ctx_tenant a"
  "streams (srv (stream_append k n x a)) =
     (streams (srv a))(k := drop n (streams (srv a) k) @ [x])"
  by (simp_all add: stream_append_def)

locale stream_world = redis_streams "redis_of E" kv
  for E :: "('x, 'g) env" and kv :: "'x \<Rightarrow> keyspace"
begin

lemma xadd_runs:
  obtains i n where "runs kv (on_redis (r_xadd (redis_of E) k d maxlen)) w (Inr i)
      (stream_append k n (i, d) (absw kv w))"
    and "i \<notin> fst ` set (streams (srv (absw kv w)) k)"
    and "length (streams (srv (absw kv w)) k) < maxlen \<longrightarrow> n = 0"
proof -
  obtain i n where "fst (r_xadd (redis_of E) k d maxlen (srv w)) = Inr i"
    "i \<notin> fst ` set (streams (kv (srv w)) k)" "length (streams (kv (srv w)) k) < maxlen \<longrightarrow> n = 0"
    "kv (snd (r_xadd (redis_of E) k d maxlen (srv w))) =
       (kv (srv w))\<lparr>streams := (streams (kv (srv w)))(k := drop n (streams (kv (srv w)) k) @ [(i, d)])\<rparr>"
    using xadd [of k d maxlen "srv w"] by blast
  then show thesis
    by (intro that [of i n]) (simp_all add: runs_def stream_append_def)
qed

lemma publish_event_model:
  obtains i n where "runs kv (publish_event_model E e None maxlen) w (Inr i)
      (stream_append (event_channel E (ctx_tenant w)) n
        (i, to_stream_dict (complete_event E (ctx_tenant w) e)) (absw kv w))"
    and "i \<notin> fst ` set (streams (srv (absw kv w)) (event_channel E (ctx_tenant w)))"
    and "length (streams (srv (absw kv w)) (event_channel E (ctx_tenant w))) < maxlen \<longrightarrow> n = 0"
proof -
  obtain i n where x: "runs kv (on_redis (r_xadd (redis_of E) (event_channel E (ctx_tenant w))
        (to_stream_dict (complete_event E (ctx_tenant w) e)) maxlen)) w (Inr i)
      (stream_append (event_channel E (ctx_tenant w)) n
        (i, to_stream_dict (complete_event E (ctx_tenant w) e)) (absw kv w))"
    and y: "i \<notin> fst ` set (streams (srv (absw kv w)) (event_channel E (ctx_tenant w)))"
      "length (streams (srv (absw kv w)) (event_channel E (ctx_tenant w))) < maxlen \<longrightarrow> n = 0"
    by (rule xadd_runs)
  have "runs kv (publish_event_model E e None maxlen) w (Inr i)
      (stream_append (event_channel E (ctx_tenant w)) n
        (i, to_stream_dict (complete_event E (ctx_tenant w) e)) (absw kv w))"
    using as_stream_error_ok [OF x]
    by (simp add: publish_event_model_def get_stream_name_def event_channel_def complete_event_def)
  then show thesis using y by (rule that)
qed

lemma published_event:
  "\<exists>i b. runs kv (stream_publisher E e) w (Inr i) b \<and>
     emitted (event_channel E) (complete_event E) e (absw kv w) b"
  by (rule publish_event_model [of e 10000 w]) (auto simp: stream_publisher_def emitted_def)

end

sublocale stream_world \<subseteq> published: event_sink kv "stream_publisher E" "event_channel E" "complete_event E"
  by unfold_locales (rule published_event)

interpretation mem_stream: stream_world "mem_env c" mem_abs
  rewrites "redis_of (mem_env c) = mem_redis"
  by (simp_all add: stream_world_def mem.redis_streams_axioms)

section \<open>The tracker's contract\<close>

definition tracker_key :: "('x, 'g) env \<Rightarrow> string option \<Rightarrow> string \<Rightarrow> string" where
  "tracker_key E t key = prefixed_key E t (processed_base_key key)"

definition seen :: "('x, 'g) env \<Rightarrow> (keyspace, 'g) world \<Rightarrow> string \<Rightarrow> bool" where
  "seen E a key \<longleftrightarrow>
     strs (srv a) (tracker_key E (ctx_tenant a) key) \<noteq> None \<or>
     streams (srv a) (tracker_key E (ctx_tenant a) key) \<noteq> []"

definition mark_seen ::
  "('x, 'g) env \<Rightarrow> string \<Rightarrow> string \<Rightarrow> (keyspace, 'g) world \<Rightarrow> (keyspace, 'g) world" where
  "mark_seen E key v a =
     a\<lparr>srv := (srv a)\<lparr>strs := (strs (srv a))(tracker_key E (ctx_tenant a) key \<mapsto> v)\<rparr>\<rparr>"

lemma tracker_key_inject [simp]: "tracker_key E t a = tracker_key E t b \<longleftrightarrow> a = b"
  by (simp add: tracker_key_def processed_base_key_def)

lemma seen_mark [simp]:
  "seen E (mark_seen E key v a) key' \<longleftrightarrow> key' = key \<or> seen E a key'"
  by (auto simp: seen_def mark_seen_def)

lemma mark_seen_frame [simp]:
  "hashes (srv (mark_seen E key v a)) = hashes (srv a)"
  "streams (srv (mark_seen E key v a)) = streams (srv a)"
  "unacked (srv (mark_seen E key v a)) = unacked (srv a)"
  "repo (mark_seen E key v a) = repo a" "ctx_tenant (mark_seen E key v a) = ctx_tenant a"
  "clock_us (mark_seen E key v a) = clock_us a" "uuid_no (mark_seen E key v a) = uuid_no a"
  by (simp_all add: mark_seen_def)

locale string_world = redis_strings "redis_of E" kv
  for E :: "('x, 'g) env" and kv :: "'x \<Rightarrow> keyspace"
begin

lemma is_processed:
  "runs kv (is_processed E key) w (Inr (seen E (absw kv w) key)) (absw kv w)"
  using str_exists [of "tracker_key E (ctx_tenant w) key" "srv w"]
  by (simp add: runs_def is_processed_def seen_def tracker_key_def bindE_def)

lemma mark_processed:
  "runs kv (mark_processed E ttl key eid) w (Inr ()) (mark_seen E key eid (absw kv w))"
  using set_new [of False "srv w" "tracker_key E (ctx_tenant w) key" eid ttl]
  by (simp add: runs_def mark_processed_def mark_seen_def tracker_key_def bindE_def)

end

interpretation mem_string: string_world "mem_env c" mem_abs
  rewrites "redis_of (mem_env c) = mem_redis"
  by (simp_all add: string_world_def mem.redis_strings_axioms)

text \<open>Acknowledging removes one entry from the pending list of its group, and nothing else.\<close>

definition drop_pending :: "string \<Rightarrow> string \<Rightarrow> string \<Rightarrow> (keyspace, 'g) world \<Rightarrow> (keyspace, 'g) world" where
  "drop_pending k g i a =
     a\<lparr>srv := (srv a)\<lparr>unacked := (unacked (srv a))((k, g) := unacked (srv a) (k, g) - {i})\<rparr>\<rparr>"

lemma drop_pending_simps [simp]:
  "unacked (srv (drop_pending k g i a)) = (unacked (srv a))((k, g) := unacked (srv a) (k, g) - {i})"
  "hashes (srv (drop_pending k g i a)) = hashes (srv a)" "strs (srv (drop_pending k g i a)) = strs (srv a)"
  "streams (srv (drop_pending k g i a)) = streams (srv a)"
  "repo (drop_pending k g i a) = repo a" "ctx_tenant (drop_pending k g i a) = ctx_tenant a"
  "clock_us (drop_pending k g i a) = clock_us a" "uuid_no (drop_pending k g i a) = uuid_no a"
  by (simp_all add: drop_pending_def)

context stream_world
begin

lemma acknowledge_event:
  "runs kv (acknowledge_event E k g i) w (Inr (i \<in> unacked (srv (absw kv w)) (k, g)))
     (drop_pending k g i (absw kv w))"
proof -
  have "runs kv (bindE (on_redis (r_xack (redis_of E) k g i)) (\<lambda>n. ret (n > 0))) w
      (Inr (i \<in> unacked (srv (absw kv w)) (k, g))) (drop_pending k g i (absw kv w))"
    using xack [of k g i "srv w"] by (simp add: runs_def bindE_def drop_pending_def)
  then show ?thesis unfolding acknowledge_event_def by (rule as_stream_error_ok)
qed

end

section \<open>Reading a batch\<close>

fun decode_all :: "datetime \<Rightarrow> stream_entry list \<Rightarrow> exn + asdlc_event list" where
  "decode_all now [] = Inr []"
| "decode_all now (m # ms) =
     (case event_of_dict now (fst m) (snd m) of
        Inl e \<Rightarrow> Inl e
      | Inr x \<Rightarrow> (case decode_all now ms of Inl e \<Rightarrow> Inl e | Inr xs \<Rightarrow> Inr (x # xs)))"

lemma collect_events:
  "collect ms (\<lambda>m. from_stream_dict (fst m) (snd m)) w =
     lift_result (decode_all (utc_datetime (clock_us w)) ms) w"
proof (induction ms)
  case (Cons m ms)
  then show ?case
    by (auto simp: bindE_def from_stream_dict_def lift_result_def ret_def split: sum.splits)
qed (simp add: lift_result_def ret_def)

lemma event_of_dict_error:
  assumes "event_of_dict now i d = Inl e"
  shows "class_of e = PyValueError"
proof -
  have "fromisoformat s = Inl e \<Longrightarrow> class_of e = PyValueError" for s
    by (auto simp: fromisoformat_def split: option.splits)
  moreover have "event_type_of s = Inl e \<Longrightarrow> class_of e = PyValueError" for s
    by (auto simp: event_type_of_def split: list.splits)
  moreover have "post_init x = Inl e \<Longrightarrow> class_of e = PyValueError" for x
    by (auto simp: post_init_def split: if_splits)
  ultimately show ?thesis
    using assms by (auto simp: event_of_dict_def Let_def split: sum.splits if_splits)
qed

lemma decode_all_error: "decode_all now ms = Inl e \<Longrightarrow> class_of e = PyValueError"
  by (induction ms) (auto simp: event_of_dict_error split: sum.splits)

lemma decode_all_ok_iff:
  "(\<exists>xs. decode_all now ms = Inr xs) \<longleftrightarrow> (\<forall>m \<in> set ms. \<exists>x. event_of_dict now (fst m) (snd m) = Inr x)"
  by (induction ms) (auto split: sum.splits)

lemma decode_all_ids:
  "decode_all now ms = Inr xs \<Longrightarrow> map ev_id xs = map (Some \<circ> fst) ms"
  by (induction ms arbitrary: xs)
    (auto dest!: event_of_dict_ok split: sum.splits)

text \<open>One entry without a session makes the whole batch unreadable.\<close>

lemma decode_all_poisoned:
  assumes "(i, d) \<in> set ms" "map_of d ''session_id'' = None"
  obtains e where "decode_all now ms = Inl e" "class_of e = PyValueError"
proof -
  obtain e where "event_of_dict now i d = Inl e"
    by (rule event_of_dict_no_session [OF assms(2)])
  then have "\<not> (\<exists>xs. decode_all now ms = Inr xs)"
    unfolding decode_all_ok_iff using assms(1) by force
  then obtain e' where "decode_all now ms = Inl e'"
    by (cases "decode_all now ms") auto
  from that [OF this decode_all_error [OF this]] show thesis .
qed

lemma read_events_eq:
  assumes "fst (r_xreadgroup (redis_of E) g c k n b (srv w)) = Inr batches"
  shows "fst (read_events_from_group E g c (Some k) n b w) =
    decode_all (utc_datetime (clock_us w)) (concat (map snd batches))"
proof -
  let ?r = "decode_all (utc_datetime (clock_us w)) (concat (map snd batches))"
  have "fst (bindE (on_redis (r_xreadgroup (redis_of E) g c k n b))
      (\<lambda>result. collect (concat (map snd result)) (\<lambda>m. from_stream_dict (fst m) (snd m))) w) = ?r"
    using assms by (simp add: bindE_def collect_events)
  moreover have "\<not> is_redis_error (class_of e)" if "?r = Inl e" for e
    using decode_all_error [OF that] by simp
  ultimately show ?thesis
    by (auto simp: read_events_from_group_def as_stream_error_def try_except_def split: sum.splits)
qed

section \<open>The promises of the streams\<close>

lemma wf_complete_event:
  assumes "wf_event e" "\<And>s. sha256_hex E s \<noteq> []" "t \<noteq> Some []" "default_tenant (tenant_cfg E) \<noteq> []"
  shows "wf_event (complete_event E t e)"
proof -
  have "generate_idempotency_key E a b c d x \<noteq> []" for a b c d x
    using assms(2) by (simp add: generate_idempotency_key_def)
  with assms show ?thesis
    by (auto simp: complete_event_def inject_key_def stamp_tenant_def wf_event_def valid_opt_def
        split: option.splits)
qed

text \<open>C16: publishing a well-formed event appends one entry under a new identifier, and that entry is
  read back as the event completed with its tenant and its key; nothing is trimmed while the
  stream is shorter than the limit.\<close>

theorem published_event_readable:
  assumes "redis_streams (redis_of E) kv" "wf_event e" "\<And>s. sha256_hex E s \<noteq> []"
    and "ctx_tenant w \<noteq> Some []" "default_tenant (tenant_cfg E) \<noteq> []"
  shows "\<exists>i n. runs kv (publish_event_model E e None maxlen) w (Inr i)
      (stream_append (event_channel E (ctx_tenant w)) n
        (i, to_stream_dict (complete_event E (ctx_tenant w) e)) (absw kv w)) \<and>
    i \<notin> fst ` set (streams (srv (absw kv w)) (event_channel E (ctx_tenant w))) \<and>
    (length (streams (srv (absw kv w)) (event_channel E (ctx_tenant w))) < maxlen \<longrightarrow> n = 0) \<and>
    event_of_dict now i (to_stream_dict (complete_event E (ctx_tenant w) e)) =
      Inr ((complete_event E (ctx_tenant w) e)\<lparr>ev_id := Some i\<rparr>)"
proof -
  obtain i n where p: "runs kv (publish_event_model E e None maxlen) w (Inr i)
      (stream_append (event_channel E (ctx_tenant w)) n
        (i, to_stream_dict (complete_event E (ctx_tenant w) e)) (absw kv w))"
    "i \<notin> fst ` set (streams (srv (absw kv w)) (event_channel E (ctx_tenant w)))"
    "length (streams (srv (absw kv w)) (event_channel E (ctx_tenant w))) < maxlen \<longrightarrow> n = 0"
    using stream_world.publish_event_model [unfolded stream_world_def, OF assms(1), of e maxlen w] by blast
  have "wf_event (complete_event E (ctx_tenant w) e)"
    by (rule wf_complete_event [OF assms(2-5)])
  from event_of_dict_to_stream_dict [OF this] p show ?thesis by blast
qed

lemma published_event_readable_witness:
  "\<exists>i. fst (publish_event_model demo_env (demo_event TASK_CREATED) None 100 mem_world) = Inr i"
proof -
  have "utc_offset (utc_datetime 0) = Some 0" by (simp add: utc_datetime_def)
  then have "wf_event (demo_event TASK_CREATED)"
    by (simp add: wf_event_def demo_event_def blank_event_def valid_opt_def valid_paths_def is_blank_def)
  then show ?thesis
    using published_event_readable [of demo_env mem_abs "demo_event TASK_CREATED" mem_world 100]
      mem.redis_streams_axioms
    by (auto simp: runs_def mem_env_def mem_world_def single_tenant_def)
qed

text \<open>One entry without a session makes a whole read fail: when a batch holds such an entry,
  \<^verbatim>\<open>read_events_from_group\<close> raises a \<^verbatim>\<open>ValueError\<close> and returns none of the events.\<close>

theorem entry_without_session_blocks_read:
  assumes "fst (r_xreadgroup (redis_of E) g c k n b (srv w)) = Inr batches"
    and "(i, d) \<in> set (concat (map snd batches))" "map_of d ''session_id'' = None"
  shows "\<exists>e. fst (read_events_from_group E g c (Some k) n b w) = Inl e \<and> class_of e = PyValueError"
  using read_events_eq [OF assms(1)]
    decode_all_poisoned [OF assms(2,3), of "utc_datetime (clock_us w)"] by metis

text \<open>The placeholder of \<^verbatim>\<open>ensure_stream_exists\<close> is such an entry.\<close>

lemma entry_without_session_blocks_read_witness:
  "\<exists>e. fst (read_events_from_group demo_env ''g'' ''c'' (Some ''asdlc:events'') 10 None
     (snd (ensure_stream_exists demo_env None mem_world))) = Inl e \<and> class_of e = PyValueError"
proof (rule entry_without_session_blocks_read)
  show "fst (r_xreadgroup (redis_of demo_env) ''g'' ''c'' ''asdlc:events'' 10 None
      (srv (snd (ensure_stream_exists demo_env None mem_world)))) =
    Inr [(''asdlc:events'', [(''0'', [(''_init'', ''true''), (''timestamp'', ''1970-01-01T00:00:00'')])])]"
    by code_simp
  show "(''0'', [(''_init'', ''true''), (''timestamp'', ''1970-01-01T00:00:00'')]) \<in>
      set (concat (map snd [(''asdlc:events'', [(''0'', [(''_init'', ''true''), (''timestamp'', ''1970-01-01T00:00:00'')])])]))"
    by simp
qed simp

end
