(* ===== verification/Evidence.thy ===== *)
theory Evidence
  imports Task_Store
begin

text \<open>
  Evidence bundles and the records of the human gates: \<^verbatim>\<open>src/orchestrator/evidence_bundle.py\<close>
  and the data classes of \<^verbatim>\<open>src/orchestrator/hitl_dispatcher.py\<close>.  What JSON decodes to is not
  checked against the annotations of the classes, so the fields that come from a JSON text
  are JSON values.
\<close>

datatype gate_type =
    HITL_1_BACKLOG | HITL_2_DESIGN | HITL_3_PLAN | HITL_4_CODE | HITL_5_VALIDATION | HITL_6_RELEASE

definition gate_types :: "gate_type list" where
  "gate_types =
     [HITL_1_BACKLOG, HITL_2_DESIGN, HITL_3_PLAN, HITL_4_CODE, HITL_5_VALIDATION, HITL_6_RELEASE]"

fun gate_type_value :: "gate_type \<Rightarrow> string" where
  "gate_type_value HITL_1_BACKLOG = ''hitl_1_backlog''"
| "gate_type_value HITL_2_DESIGN = ''hitl_2_design''"
| "gate_type_value HITL_3_PLAN = ''hitl_3_plan''"
| "gate_type_value HITL_4_CODE = ''hitl_4_code''"
| "gate_type_value HITL_5_VALIDATION = ''hitl_5_validation''"
| "gate_type_value HITL_6_RELEASE = ''hitl_6_release''"

definition gate_type_of :: "string \<Rightarrow> exn + gate_type" where
  "gate_type_of s =
     (case filter (\<lambda>t. gate_type_value t = s) gate_types of
        t # _ \<Rightarrow> Inr t
      | [] \<Rightarrow> Inl (Exn PyValueError ([CHR 0x27] @ s @ [CHR 0x27] @ '' is not a valid GateType'')))"

datatype gate_status = GS_PENDING | GS_APPROVED | GS_REJECTED | GS_EXPIRED

definition gate_statuses :: "gate_status list" where
  "gate_statuses = [GS_PENDING, GS_APPROVED, GS_REJECTED, GS_EXPIRED]"

fun gate_status_value :: "gate_status \<Rightarrow> string" where
  "gate_status_value GS_PENDING = ''pending''"
| "gate_status_value GS_APPROVED = ''approved''"
| "gate_status_value GS_REJECTED = ''rejected''"
| "gate_status_value GS_EXPIRED = ''expired''"

definition gate_status_of :: "string \<Rightarrow> exn + gate_status" where
  "gate_status_of s =
     (case filter (\<lambda>t. gate_status_value t = s) gate_statuses of
        t # _ \<Rightarrow> Inr t
      | [] \<Rightarrow> Inl (Exn PyValueError ([CHR 0x27] @ s @ [CHR 0x27] @ '' is not a valid GateStatus'')))"

section \<open>Evidence\<close>

record evidence_item =
  ei_item_type :: json
  ei_path :: json
  ei_description :: json
  ei_content_hash :: json
  ei_metadata :: json

definition item_to_dict :: "evidence_item \<Rightarrow> json" where
  "item_to_dict i =
     JObj [(''item_type'', ei_item_type i), (''path'', ei_path i),
           (''description'', ei_description i), (''content_hash'', ei_content_hash i),
           (''metadata'', ei_metadata i)]"

definition item_of_json :: "json \<Rightarrow> exn + evidence_item" where
  "item_of_json v =
     (case v of
        JObj d \<Rightarrow>
          Inr \<lparr>ei_item_type = dget d ''item_type'' (JStr []),
               ei_path = dget d ''path'' (JStr []),
               ei_description = dget d ''description'' (JStr []),
               ei_content_hash = dget d ''content_hash'' (JStr []),
               ei_metadata = dget d ''metadata'' (JObj [])\<rparr>
      | _ \<Rightarrow> Inl (Exn PyAttributeError ''object has no attribute get''))"

text \<open>What a \<^verbatim>\<open>for\<close> loop over a decoded value runs through.\<close>

definition json_iter :: "json \<Rightarrow> exn + json list" where
  "json_iter v =
     (case v of
        JList vs \<Rightarrow> Inr vs
      | JObj d \<Rightarrow> Inr (map (JStr \<circ> fst) d)
      | JStr s \<Rightarrow> Inr (map (\<lambda>c. JStr [c]) s)
      | _ \<Rightarrow> Inl (Exn PyTypeError ''object is not iterable''))"

fun map_result :: "('a \<Rightarrow> exn + 'b) \<Rightarrow> 'a list \<Rightarrow> exn + 'b list" where
  "map_result f [] = Inr []"
| "map_result f (x # xs) =
     (case f x of
        Inl e \<Rightarrow> Inl e
      | Inr y \<Rightarrow> (case map_result f xs of Inl e \<Rightarrow> Inl e | Inr ys \<Rightarrow> Inr (y # ys)))"

record evidence_bundle =
  eb_bundle_id :: string
  eb_task_id :: string
  eb_gate_type :: gate_type
  eb_git_sha :: json
  eb_items :: "evidence_item list"
  eb_created_at :: datetime
  eb_summary :: string

definition create_bundle ::
  "('x, 'g) env \<Rightarrow> string \<Rightarrow> gate_type \<Rightarrow> json \<Rightarrow> evidence_item list \<Rightarrow> string \<Rightarrow>
   ('x, 'g, evidence_bundle) act" where
  "create_bundle E tid gate sha items summary =
     bindE (new_uuid E) (\<lambda>i.
     bindE now_utc (\<lambda>now.
     ret \<lparr>eb_bundle_id = i, eb_task_id = tid, eb_gate_type = gate, eb_git_sha = sha,
          eb_items = items, eb_created_at = now, eb_summary = summary\<rparr>))"

definition bundle_to_dict :: "evidence_bundle \<Rightarrow> json pydict" where
  "bundle_to_dict b =
     [(''bundle_id'', JStr (eb_bundle_id b)),
      (''task_id'', JStr (eb_task_id b)),
      (''gate_type'', JStr (gate_type_value (eb_gate_type b))),
      (''git_sha'', eb_git_sha b),
      (''items'', JStr (dumps (JList (map item_to_dict (eb_items b))))),
      (''created_at'', JStr (isoformat (eb_created_at b))),
      (''summary'', JStr (eb_summary b))]"

text \<open>A value as the Redis client encodes it; what is no string and no number it refuses, with the
  whole command, before anything is sent.\<close>

definition redis_text :: "json \<Rightarrow> string option" where
  "redis_text v = (case v of JStr s \<Rightarrow> Some s | JInt i \<Rightarrow> Some (int_str i) | _ \<Rightarrow> None)"

fun redis_mapping :: "json pydict \<Rightarrow> string pydict option" where
  "redis_mapping [] = Some []"
| "redis_mapping ((k, v) # d) =
     (case redis_text v of
        None \<Rightarrow> None
      | Some s \<Rightarrow> map_option (\<lambda>h. (k, s) # h) (redis_mapping d))"

definition write_values :: "('x, 'g) env \<Rightarrow> string \<Rightarrow> json pydict \<Rightarrow> ('x, 'g, unit) act" where
  "write_values E k d =
     (case redis_mapping d of
        None \<Rightarrow> raise (Exn RedisDataError ''Invalid input of type'')
      | Some h \<Rightarrow> write_hash E k h)"

definition bundle_of_map :: "datetime \<Rightarrow> hash \<Rightarrow> exn + evidence_bundle" where
  "bundle_of_map now m =
     (case loads (hget m ''items'' ''[]'') of Inl e \<Rightarrow> Inl e | Inr data \<Rightarrow>
     (case json_iter data of Inl e \<Rightarrow> Inl e | Inr vs \<Rightarrow>
     (case map_result item_of_json vs of Inl e \<Rightarrow> Inl e | Inr items \<Rightarrow>
     (case gate_type_of (hget m ''gate_type'' ''hitl_4_code'') of Inl e \<Rightarrow> Inl e | Inr gt \<Rightarrow>
     (case fromisoformat (hget m ''created_at'' (isoformat now)) of Inl e \<Rightarrow> Inl e | Inr cr \<Rightarrow>
        Inr \<lparr>eb_bundle_id = hget m ''bundle_id'' [],
             eb_task_id = hget m ''task_id'' [],
             eb_gate_type = gt,
             eb_git_sha = JStr (hget m ''git_sha'' []),
             eb_items = items,
             eb_created_at = cr,
             eb_summary = hget m ''summary'' []\<rparr>)))))"

fun required_evidence :: "gate_type \<Rightarrow> string list" where
  "required_evidence HITL_1_BACKLOG = [''prd'', ''acceptance_criteria'']"
| "required_evidence HITL_2_DESIGN = [''architecture'', ''design_doc'']"
| "required_evidence HITL_3_PLAN = [''task_breakdown'', ''dependency_graph'']"
| "required_evidence HITL_4_CODE = [''artifact'', ''test_result'']"
| "required_evidence HITL_5_VALIDATION = [''integration_tests'', ''security_scan'']"
| "required_evidence HITL_6_RELEASE = [''release_notes'', ''deployment_plan'']"

text \<open>A set of decoded values can be built from hashable ones only.\<close>

definition hashable :: "json \<Rightarrow> bool" where
  "hashable v \<longleftrightarrow> (case v of JList _ \<Rightarrow> False | JObj _ \<Rightarrow> False | _ \<Rightarrow> True)"

definition validate_evidence_for_gate :: "evidence_bundle \<Rightarrow> exn + bool" where
  "validate_evidence_for_gate b =
     (if eb_items b = [] then
        Inl (Exn EvidenceValidationError
          (''Evidence bundle has no items for '' @ gate_type_value (eb_gate_type b)))
      else if \<not> list_all (hashable \<circ> ei_item_type) (eb_items b) then
        Inl (Exn PyTypeError ''unhashable type'')
      else if \<not> list_ex (\<lambda>req. JStr req \<in> set (map ei_item_type (eb_items b)))
                 (required_evidence (eb_gate_type b)) then
        Inl (Exn EvidenceValidationError
          (''Missing required evidence for '' @ gate_type_value (eb_gate_type b)))
      else Inr True)"

section \<open>Decisions and requests\<close>

record gate_decision =
  gd_decision_id :: string
  gd_request_id :: string
  gd_approved :: bool
  gd_reviewer :: string
  gd_reason :: string
  gd_decided_at :: datetime
  gd_conditions :: json

definition bool_str :: "bool \<Rightarrow> string" where
  "bool_str b = (if b then ''true'' else ''false'')"

definition decision_to_dict :: "gate_decision \<Rightarrow> string pydict" where
  "decision_to_dict d =
     [(''decision_id'', gd_decision_id d),
      (''request_id'', gd_request_id d),
      (''approved'', bool_str (gd_approved d)),
      (''reviewer'', gd_reviewer d),
      (''reason'', gd_reason d),
      (''decided_at'', isoformat (gd_decided_at d)),
      (''conditions'', dumps (gd_conditions d))]"

definition decision_of_map :: "datetime \<Rightarrow> hash \<Rightarrow> exn + gate_decision" where
  "decision_of_map now m =
     (case loads (hget m ''conditions'' ''[]'') of Inl e \<Rightarrow> Inl e | Inr conds \<Rightarrow>
     (case fromisoformat (hget m ''decided_at'' (isoformat now)) of Inl e \<Rightarrow> Inl e | Inr dt \<Rightarrow>
        Inr \<lparr>gd_decision_id = hget m ''decision_id'' [],
             gd_request_id = hget m ''request_id'' [],
             gd_approved = (py_lower (hget m ''approved'' ''false'') = ''true''),
             gd_reviewer = hget m ''reviewer'' [],
             gd_reason = hget m ''reason'' [],
             gd_decided_at = dt,
             gd_conditions = conds\<rparr>))"

record gate_request =
  gq_request_id :: string
  gq_task_id :: string
  gq_session_id :: string
  gq_gate_type :: gate_type
  gq_status :: gate_status
  gq_evidence_bundle :: evidence_bundle
  gq_requested_by :: string
  gq_requested_at :: datetime
  gq_expires_at :: "datetime option"

definition request_to_dict :: "gate_request \<Rightarrow> string pydict" where
  "request_to_dict q =
     [(''request_id'', gq_request_id q),
      (''task_id'', gq_task_id q),
      (''session_id'', gq_session_id q),
      (''gate_type'', gate_type_value (gq_gate_type q)),
      (''status'', gate_status_value (gq_status q)),
      (''evidence_bundle_id'', eb_bundle_id (gq_evidence_bundle q)),
      (''requested_by'', gq_requested_by q),
      (''requested_at'', isoformat (gq_requested_at q))] @
     (case gq_expires_at q of None \<Rightarrow> [] | Some t \<Rightarrow> [(''expires_at'', isoformat t)])"

text \<open>A request is read with a placeholder in place of its bundle, which takes a new identifier.\<close>

definition placeholder_bundle :: "('x, 'g) env \<Rightarrow> hash \<Rightarrow> ('x, 'g, evidence_bundle) act" where
  "placeholder_bundle E m =
     bindE (lift_result (gate_type_of (hget m ''gate_type'' ''hitl_4_code''))) (\<lambda>gt.
     bindE (create_bundle E (hget m ''task_id'' []) gt (JStr []) [] ''Placeholder'') (\<lambda>b.
     ret (b\<lparr>eb_bundle_id := hget m ''evidence_bundle_id'' []\<rparr>)))"

definition request_of_map :: "('x, 'g) env \<Rightarrow> hash \<Rightarrow> ('x, 'g, gate_request) act" where
  "request_of_map E m =
     bindE (placeholder_bundle E m) (\<lambda>b.
     bindE (case hget m ''expires_at'' [] of
              [] \<Rightarrow> ret None
            | s \<Rightarrow> bindE (lift_result (fromisoformat s)) (\<lambda>t. ret (Some t))) (\<lambda>ex.
     bindE (lift_result (gate_type_of (hget m ''gate_type'' ''hitl_4_code''))) (\<lambda>gt.
     bindE (lift_result (gate_status_of (hget m ''status'' ''pending''))) (\<lambda>st.
     bindE now_utc (\<lambda>now.
     bindE (lift_result (fromisoformat (hget m ''requested_at'' (isoformat now)))) (\<lambda>rq.
     ret \<lparr>gq_request_id = hget m ''request_id'' [],
          gq_task_id = hget m ''task_id'' [],
          gq_session_id = hget m ''session_id'' [],
          gq_gate_type = gt, gq_status = st, gq_evidence_bundle = b,
          gq_requested_by = hget m ''requested_by'' [],
          gq_requested_at = rq, gq_expires_at = ex\<rparr>))))))"

section \<open>Lemmas\<close>

lemma gate_type_of_value [simp]: "gate_type_of (gate_type_value g) = Inr g"
  by (cases g) (simp_all add: gate_type_of_def gate_types_def)

lemma gate_status_of_value [simp]: "gate_status_of (gate_status_value s) = Inr s"
  by (cases s) (simp_all add: gate_status_of_def gate_statuses_def)

lemma gate_status_value_inject [simp]:
  "gate_status_value s = gate_status_value t \<longleftrightarrow> s = t"
  by (cases s; cases t) simp_all

lemma item_of_json_to_dict [simp]: "item_of_json (item_to_dict i) = Inr i"
  by (simp add: item_of_json_def item_to_dict_def dget_def)

lemma map_result_map:
  "(\<And>x. x \<in> set xs \<Longrightarrow> f (g x) = Inr x) \<Longrightarrow> map_result f (map g xs) = Inr xs"
  by (induction xs) auto

definition wf_bundle :: "evidence_bundle \<Rightarrow> bool" where
  "wf_bundle b \<longleftrightarrow>
     json_wf (JList (map item_to_dict (eb_items b))) \<and> valid_datetime (eb_created_at b) \<and>
     (\<exists>sha. eb_git_sha b = JStr sha)"

lemma redis_text_JStr [simp]: "redis_text (JStr s) = Some s"
  by (simp add: redis_text_def)

text \<open>The commit is the only field of a bundle that need not be a string.\<close>

definition bundle_fields :: "string \<Rightarrow> evidence_bundle \<Rightarrow> string pydict" where
  "bundle_fields sha b =
     [(''bundle_id'', eb_bundle_id b), (''task_id'', eb_task_id b),
      (''gate_type'', gate_type_value (eb_gate_type b)), (''git_sha'', sha),
      (''items'', dumps (JList (map item_to_dict (eb_items b)))),
      (''created_at'', isoformat (eb_created_at b)), (''summary'', eb_summary b)]"

lemma bundle_mapping:
  "redis_mapping (bundle_to_dict b) = map_option (\<lambda>sha. bundle_fields sha b) (redis_text (eb_git_sha b))"
  by (cases "redis_text (eb_git_sha b)") (simp_all add: bundle_to_dict_def bundle_fields_def)

lemma write_bundle:
  "write_values E k (bundle_to_dict b) =
     (case redis_text (eb_git_sha b) of
        None \<Rightarrow> raise (Exn RedisDataError ''Invalid input of type'')
      | Some sha \<Rightarrow> write_hash E k (bundle_fields sha b))"
  by (cases "redis_text (eb_git_sha b)") (simp_all add: write_values_def bundle_mapping)

lemma unwritable_bundle:
  "redis_text (eb_git_sha b) = None \<Longrightarrow>
   thenE (write_values E k (bundle_to_dict b)) m = raise (Exn RedisDataError ''Invalid input of type'')"
  by (simp add: write_bundle thenE_def bindE_def raise_def fun_eq_iff)

lemma bundle_of_map_put:
  assumes "wf_bundle b"
  obtains h where "redis_mapping (bundle_to_dict b) = Some h" "bundle_of_map now (m ++ map_of h) = Inr b"
proof -
  obtain sha where sha: "eb_git_sha b = JStr sha" using assms by (auto simp: wf_bundle_def)
  have "bundle_of_map now (m ++ map_of (bundle_fields sha b)) = Inr b"
    using assms sha loads_dumps [of "JList (map item_to_dict (eb_items b))"]
    by (simp add: bundle_of_map_def hget_def map_add_def bundle_fields_def wf_bundle_def json_iter_def
        map_result_map del: loads_dumps)
  then show thesis by (intro that) (simp_all add: bundle_mapping sha)
qed

lemma decision_of_map_to_dict:
  assumes "json_wf (gd_conditions d)" "valid_datetime (gd_decided_at d)"
  shows "decision_of_map now (map_of (decision_to_dict d)) = Inr d"
proof -
  have "py_lower (bool_str b) = ''true'' \<longleftrightarrow> b" for b
    by (cases b) (simp_all add: bool_str_def py_lower_def lower_char_def code_point_def)
  with assms show ?thesis
    by (simp add: decision_of_map_def decision_to_dict_def hget_def)
qed

text \<open>A bundle passes when one of the types required for its gate is present.\<close>

lemma validate_evidence_iff:
  "validate_evidence_for_gate b = Inr True \<longleftrightarrow>
     (\<forall>i \<in> set (eb_items b). hashable (ei_item_type i)) \<and>
     (\<exists>req \<in> set (required_evidence (eb_gate_type b)). \<exists>i \<in> set (eb_items b). ei_item_type i = JStr req)"
  by (auto simp: validate_evidence_for_gate_def list_all_iff list_ex_iff) (metis image_eqI, metis)

lemma validate_evidence_cases:
  "validate_evidence_for_gate b = Inr True \<or> (\<exists>e. validate_evidence_for_gate b = Inl e)"
  by (auto simp: validate_evidence_for_gate_def)

end
