(* ===== verification/Hitl.thy ===== *)
theory Hitl
  imports Evidence Streams
begin

text \<open>
  The human gates, \<^verbatim>\<open>src/orchestrator/hitl_dispatcher.py\<close>: the audit log, the creation of
  requests, the recording of decisions and the expiry sweep.  The lemmas give the effect of
  each operation and the invariant that ties the set of pending requests to their status.
\<close>

section \<open>\<^verbatim>\<open>DecisionLogger\<close>\<close>

definition log_base_key :: "string \<Rightarrow> string" where
  "log_base_key tid = ''asdlc:decision_log:'' @ tid"

definition entry_json :: "string pydict \<Rightarrow> json" where
  "entry_json d = JObj (map (\<lambda>p. (fst p, JStr (snd p))) d)"

text \<open>The two appends that end both logging methods.\<close>

definition append_audit :: "('x, 'g) env \<Rightarrow> string \<Rightarrow> string pydict \<Rightarrow> ('x, 'g, unit) act" where
  "append_audit E tid entry =
     bindE (tenant_prefixed E (log_base_key tid)) (\<lambda>k.
     thenE (on_redis (r_rpush (redis_of E) k (dumps (entry_json entry))))
     (bindE (tenant_prefixed E ''asdlc:audit'') (\<lambda>stream.
      bindE (on_redis (r_xadd (redis_of E) stream entry 100000)) (\<lambda>_. ret ()))))"

definition request_entry :: "gate_request \<Rightarrow> datetime \<Rightarrow> string pydict" where
  "request_entry q now =
     [(''event'', ''gate_requested''),
      (''request_id'', gq_request_id q),
      (''task_id'', gq_task_id q),
      (''gate_type'', gate_type_value (gq_gate_type q)),
      (''requested_by'', gq_requested_by q),
      (''timestamp'', isoformat now)]"

definition log_request :: "('x, 'g) env \<Rightarrow> gate_request \<Rightarrow> ('x, 'g, unit) act" where
  "log_request E q =
     bindE now_utc (\<lambda>now. append_audit E (gq_task_id q) (request_entry q now))"

definition decision_entry :: "gate_request \<Rightarrow> gate_decision \<Rightarrow> string pydict" where
  "decision_entry q d =
     [(''event'', ''gate_decision''),
      (''request_id'', gq_request_id q),
      (''decision_id'', gd_decision_id d),
      (''task_id'', gq_task_id q),
      (''gate_type'', gate_type_value (gq_gate_type q)),
      (''approved'', bool_str (gd_approved d)),
      (''reviewer'', gd_reviewer d),
      (''reason'', gd_reason d),
      (''timestamp'', isoformat (gd_decided_at d))]"

definition log_decision :: "('x, 'g) env \<Rightarrow> gate_request \<Rightarrow> gate_decision \<Rightarrow> ('x, 'g, unit) act" where
  "log_decision E q d = append_audit E (gq_task_id q) (decision_entry q d)"

definition get_task_history :: "('x, 'g) env \<Rightarrow> string \<Rightarrow> ('x, 'g, json list) act" where
  "get_task_history E tid =
     bindE (tenant_prefixed E (log_base_key tid)) (\<lambda>k.
     bindE (on_redis (r_lrange (redis_of E) k)) (\<lambda>entries.
     lift_result (map_result loads entries)))"

section \<open>\<^verbatim>\<open>HITLDispatcher\<close>\<close>

definition request_base_key :: "string \<Rightarrow> string" where
  "request_base_key rid = ''asdlc:gate_request:'' @ rid"

definition bundle_base_key :: "string \<Rightarrow> string" where
  "bundle_base_key bid = ''asdlc:evidence_bundle:'' @ bid"

definition pending_base_key :: string where
  "pending_base_key = ''asdlc:pending_gates''"

definition expiry :: "int option \<Rightarrow> datetime \<Rightarrow> datetime option" where
  "expiry ttl now =
     (case ttl of None \<Rightarrow> None | Some s \<Rightarrow> if s = 0 then None else Some (add_seconds now s))"

definition expiry_score :: "datetime option \<Rightarrow> score" where
  "expiry_score t = (case t of None \<Rightarrow> PosInf | Some d \<Rightarrow> Fin (timestamp_us d))"

definition requested_event :: "string \<Rightarrow> string \<Rightarrow> gate_type \<Rightarrow> string \<Rightarrow> string \<Rightarrow> datetime \<Rightarrow> asdlc_event" where
  "requested_event sid tid gate rid bid now =
     (blank_event GATE_REQUESTED sid now)
       \<lparr>ev_task_id := Some tid,
        ev_metadata := JObj [(''request_id'', JStr rid), (''gate_type'', JStr (gate_type_value gate)),
                             (''evidence_bundle_id'', JStr bid)]\<rparr>"

definition request_gate ::
  "('x, 'g) env \<Rightarrow> (asdlc_event \<Rightarrow> ('x, 'g, string) act) \<Rightarrow> string \<Rightarrow> string \<Rightarrow> gate_type \<Rightarrow>
   evidence_bundle \<Rightarrow> string \<Rightarrow> int option \<Rightarrow> ('x, 'g, gate_request) act" where
  "request_gate E pub tid sid gate b by_agent ttl =
     bindE (lift_result (validate_evidence_for_gate b)) (\<lambda>_.
     bindE now_utc (\<lambda>now.
     bindE (new_uuid E) (\<lambda>rid.
       let q = \<lparr>gq_request_id = rid, gq_task_id = tid, gq_session_id = sid, gq_gate_type = gate,
                gq_status = GS_PENDING, gq_evidence_bundle = b, gq_requested_by = by_agent,
                gq_requested_at = now, gq_expires_at = expiry ttl now\<rparr>
       in
       bindE (tenant_prefixed E (request_base_key rid)) (\<lambda>rk.
       thenE (write_hash E rk (request_to_dict q))
       (bindE (tenant_prefixed E (bundle_base_key (eb_bundle_id b))) (\<lambda>bk.
       thenE (write_values E bk (bundle_to_dict b))
       (bindE (tenant_prefixed E pending_base_key) (\<lambda>ps.
       thenE (on_redis (r_zadd (redis_of E) ps rid (expiry_score (expiry ttl now))))
       (thenE (log_request E q)
       (bindE (new_event (requested_event sid tid gate rid (eb_bundle_id b) now)) (\<lambda>e.
       bindE (pub e) (\<lambda>_.
       ret q))))))))))))"

definition decided_event ::
  "gate_request \<Rightarrow> string \<Rightarrow> gate_decision \<Rightarrow> asdlc_event" where
  "decided_event q rid d =
     (blank_event (if gd_approved d then GATE_APPROVED else GATE_REJECTED) (gq_session_id q)
        (gd_decided_at d))
       \<lparr>ev_task_id := Some (gq_task_id q),
        ev_metadata := JObj [(''request_id'', JStr rid), (''decision_id'', JStr (gd_decision_id d)),
                             (''reviewer'', JStr (gd_reviewer d)), (''reason'', JStr (gd_reason d)),
                             (''conditions'', gd_conditions d)]\<rparr>"

text \<open>\<^verbatim>\<open>conditions or []\<close>\<close>

definition conditions_json :: "string list option \<Rightarrow> json" where
  "conditions_json c = JList (map JStr (case c of None \<Rightarrow> [] | Some cs \<Rightarrow> cs))"

definition decided_status :: "bool \<Rightarrow> gate_status" where
  "decided_status approved = (if approved then GS_APPROVED else GS_REJECTED)"

definition record_decision ::
  "('x, 'g) env \<Rightarrow> (asdlc_event \<Rightarrow> ('x, 'g, string) act) \<Rightarrow> string \<Rightarrow> bool \<Rightarrow> string \<Rightarrow> string \<Rightarrow>
   string list option \<Rightarrow> ('x, 'g, gate_decision) act" where
  "record_decision E pub rid approved reviewer reason conditions =
     bindE (tenant_prefixed E (request_base_key rid)) (\<lambda>rk.
     bindE (on_redis (r_hgetall (redis_of E) rk)) (\<lambda>data.
       if data = [] then raise (Exn HITLError (''Gate request not found: '' @ rid))
       else
         bindE (request_of_map E (map_of data)) (\<lambda>q.
           if gq_status q \<noteq> GS_PENDING
           then raise (Exn HITLError (''Gate request is not pending: '' @ rid))
           else
             bindE now_utc (\<lambda>now.
             bindE (new_uuid E) (\<lambda>did.
               let d = \<lparr>gd_decision_id = did, gd_request_id = rid, gd_approved = approved,
                        gd_reviewer = reviewer, gd_reason = reason, gd_decided_at = now,
                        gd_conditions = conditions_json conditions\<rparr>;
                   st = decided_status approved
               in
               thenE (write_hash E rk [(''status'', gate_status_value st)])
               (bindE (tenant_prefixed E pending_base_key) (\<lambda>ps.
               thenE (on_redis (r_zrem (redis_of E) ps rid))
               (thenE (log_decision E (q\<lparr>gq_status := st\<rparr>) d)
               (bindE (new_event (decided_event q rid d)) (\<lambda>e.
               bindE (pub e) (\<lambda>_.
               ret d)))))))))))"

text \<open>The requests of a list of identifiers; a missing hash is skipped.\<close>

definition fetch_request ::
  "('x, 'g) env \<Rightarrow> gate_type option \<Rightarrow> string \<Rightarrow> ('x, 'g, gate_request list) act" where
  "fetch_request E gate rid =
     bindE (tenant_prefixed E (request_base_key rid)) (\<lambda>rk.
     bindE (on_redis (r_hgetall (redis_of E) rk)) (\<lambda>data.
       if data = [] then ret []
       else
         bindE (request_of_map E (map_of data)) (\<lambda>q.
           ret (if gate = None \<or> gate = Some (gq_gate_type q) then [q] else []))))"

definition get_pending_requests ::
  "('x, 'g) env \<Rightarrow> gate_type option \<Rightarrow> ('x, 'g, gate_request list) act" where
  "get_pending_requests E gate =
     bindE (tenant_prefixed E pending_base_key) (\<lambda>ps.
     bindE (on_redis (r_zrange (redis_of E) ps)) (\<lambda>rids.
     bindE (collect rids (fetch_request E gate)) (\<lambda>qs. ret (concat qs))))"

definition get_request_by_id ::
  "('x, 'g) env \<Rightarrow> string \<Rightarrow> ('x, 'g, gate_request option) act" where
  "get_request_by_id E rid =
     bindE (tenant_prefixed E (request_base_key rid)) (\<lambda>rk.
     bindE (on_redis (r_hgetall (redis_of E) rk)) (\<lambda>data.
       if data = [] then ret None
       else bindE (request_of_map E (map_of data)) (\<lambda>q. ret (Some q))))"

definition expired_event :: "gate_request \<Rightarrow> string \<Rightarrow> datetime \<Rightarrow> asdlc_event" where
  "expired_event q rid now =
     (blank_event GATE_EXPIRED (gq_session_id q) now)
       \<lparr>ev_task_id := Some (gq_task_id q), ev_metadata := JObj [(''request_id'', JStr rid)]\<rparr>"

text \<open>The body of the sweep for one identifier.\<close>

definition expire_one ::
  "('x, 'g) env \<Rightarrow> (asdlc_event \<Rightarrow> ('x, 'g, string) act) \<Rightarrow> string \<Rightarrow> datetime \<Rightarrow> string \<Rightarrow>
   ('x, 'g, gate_request list) act" where
  "expire_one E pub ps now rid =
     bindE (tenant_prefixed E (request_base_key rid)) (\<lambda>rk.
     bindE (on_redis (r_hgetall (redis_of E) rk)) (\<lambda>data.
       if data \<noteq> [] \<and> map_of data ''status'' = Some (gate_status_value GS_PENDING) then
         thenE (write_hash E rk [(''status'', gate_status_value GS_EXPIRED)])
         (thenE (on_redis (r_zrem (redis_of E) ps rid))
         (bindE (request_of_map E (map_of data)) (\<lambda>q.
          bindE (new_event (expired_event q rid now)) (\<lambda>e.
          bindE (pub e) (\<lambda>_.
          ret [q\<lparr>gq_status := GS_EXPIRED\<rparr>])))))
       else ret []))"

definition check_expired ::
  "('x, 'g) env \<Rightarrow> (asdlc_event \<Rightarrow> ('x, 'g, string) act) \<Rightarrow> ('x, 'g, gate_request list) act" where
  "check_expired E pub =
     bindE now_utc (\<lambda>now.
     bindE (tenant_prefixed E pending_base_key) (\<lambda>ps.
     bindE (on_redis (r_zrangebyscore (redis_of E) ps (Fin 0) (Fin (timestamp_us now)))) (\<lambda>rids.
     bindE (collect rids (expire_one E pub ps now)) (\<lambda>qs. ret (concat qs)))))"

lemma request_dict_fields:
  "map_of (request_to_dict q) ''request_id'' = Some (gq_request_id q)"
  "map_of (request_to_dict q) ''task_id'' = Some (gq_task_id q)"
  "map_of (request_to_dict q) ''session_id'' = Some (gq_session_id q)"
  "map_of (request_to_dict q) ''gate_type'' = Some (gate_type_value (gq_gate_type q))"
  "map_of (request_to_dict q) ''status'' = Some (gate_status_value (gq_status q))"
  "map_of (request_to_dict q) ''evidence_bundle_id'' = Some (eb_bundle_id (gq_evidence_bundle q))"
  "map_of (request_to_dict q) ''requested_by'' = Some (gq_requested_by q)"
  "map_of (request_to_dict q) ''requested_at'' = Some (isoformat (gq_requested_at q))"
  "map_of (request_to_dict q) ''expires_at'' = map_option isoformat (gq_expires_at q)"
  by (simp_all add: request_to_dict_def split: option.splits)

text \<open>A stored request reads back with an empty bundle in place of its evidence.\<close>

definition read_back :: "gate_request \<Rightarrow> datetime \<Rightarrow> gate_request" where
  "read_back q now =
     q\<lparr>gq_evidence_bundle :=
         \<lparr>eb_bundle_id = eb_bundle_id (gq_evidence_bundle q), eb_task_id = gq_task_id q,
          eb_gate_type = gq_gate_type q, eb_git_sha = JStr [], eb_items = [], eb_created_at = now,
          eb_summary = ''Placeholder''\<rparr>\<rparr>"

lemma request_of_map_to_dict:
  fixes E :: "('x, 'g) env"
  assumes "valid_datetime (gq_requested_at q)" "\<And>t. gq_expires_at q = Some t \<Longrightarrow> valid_datetime t"
  shows "fst (request_of_map E (map_of (request_to_dict q)) w) =
    Inr (read_back q (utc_datetime (clock_us w)))"
proof -
  let ?m = "map_of (request_to_dict q)"
  have f: "hget ?m ''request_id'' x = gq_request_id q" "hget ?m ''task_id'' x = gq_task_id q"
    "hget ?m ''session_id'' x = gq_session_id q" "hget ?m ''gate_type'' x = gate_type_value (gq_gate_type q)"
    "hget ?m ''status'' x = gate_status_value (gq_status q)"
    "hget ?m ''evidence_bundle_id'' x = eb_bundle_id (gq_evidence_bundle q)"
    "hget ?m ''requested_by'' x = gq_requested_by q"
    "hget ?m ''requested_at'' x = isoformat (gq_requested_at q)"
    "hget ?m ''expires_at'' [] = (case gq_expires_at q of None \<Rightarrow> [] | Some t \<Rightarrow> isoformat t)" for x
    by (simp_all add: hget_def request_dict_fields split: option.splits)
  have "(case (case gq_expires_at q of None \<Rightarrow> [] | Some t \<Rightarrow> isoformat t) of [] \<Rightarrow> ret None
      | c # cs \<Rightarrow> bindE (lift_result (fromisoformat (c # cs))) (\<lambda>t. ret (Some t))) =
      (ret (gq_expires_at q) :: ('x, 'g, datetime option) act)"
  proof (cases "gq_expires_at q")
    case (Some t)
    obtain c cs where "isoformat t = c # cs"
      using isoformat_not_Nil [of t] by (cases "isoformat t") auto
    with fromisoformat_isoformat [OF assms(2) [OF Some]] Some show ?thesis by simp
  qed simp
  then show ?thesis
    unfolding request_of_map_def placeholder_bundle_def create_bundle_def f bindE_assoc
      gate_type_of_value gate_status_of_value bindE_lift_result bindE_new_uuid bindE_now_utc bindE_ret
    using assms(1) by (simp add: read_back_def)
qed

section \<open>The gates of a key space\<close>

definition gate_hash :: "('x, 'g) env \<Rightarrow> (keyspace, 'g) world \<Rightarrow> string \<Rightarrow> hash" where
  "gate_hash E a rid = hashes (srv a) (prefixed_key E (ctx_tenant a) (request_base_key rid))"

definition pending_gates :: "('x, 'g) env \<Rightarrow> (keyspace, 'g) world \<Rightarrow> string \<Rightarrow> score option" where
  "pending_gates E a = zsets (srv a) (prefixed_key E (ctx_tenant a) pending_base_key)"

definition set_gate :: "('x, 'g) env \<Rightarrow> string \<Rightarrow> string pydict \<Rightarrow> (keyspace, 'g) world \<Rightarrow> (keyspace, 'g) world" where
  "set_gate E rid d a =
     a\<lparr>srv := hash_put (prefixed_key E (ctx_tenant a) (request_base_key rid)) d (srv a)\<rparr>"

definition set_pending ::
  "('x, 'g) env \<Rightarrow> string \<Rightarrow> score option \<Rightarrow> (keyspace, 'g) world \<Rightarrow> (keyspace, 'g) world" where
  "set_pending E rid sc a =
     (let k = prefixed_key E (ctx_tenant a) pending_base_key
      in a\<lparr>srv := (srv a)\<lparr>zsets := (zsets (srv a))(k := (zsets (srv a) k)(rid := sc))\<rparr>\<rparr>)"

definition set_bundle ::
  "('x, 'g) env \<Rightarrow> string \<Rightarrow> evidence_bundle \<Rightarrow> (keyspace, 'g) world \<Rightarrow> (keyspace, 'g) world" where
  "set_bundle E sha b a =
     a\<lparr>srv := hash_put (prefixed_key E (ctx_tenant a) (bundle_base_key (eb_bundle_id b)))
               (bundle_fields sha b) (srv a)\<rparr>"

text \<open>An entry of the audit log, in the list of the task and at the end of the audit stream.\<close>

definition audited ::
  "('x, 'g) env \<Rightarrow> string \<Rightarrow> string pydict \<Rightarrow> (keyspace, 'g) world \<Rightarrow> (keyspace, 'g) world \<Rightarrow> bool" where
  "audited E tid entry a b \<longleftrightarrow>
     (\<exists>i n. b = stream_append (prefixed_key E (ctx_tenant a) ''asdlc:audit'') n (i, entry)
                 (a\<lparr>srv := (srv a)\<lparr>lists := (lists (srv a))(prefixed_key E (ctx_tenant a) (log_base_key tid) :=
                     lists (srv a) (prefixed_key E (ctx_tenant a) (log_base_key tid)) @
                       [dumps (entry_json entry)])\<rparr>\<rparr>))"

lemma gate_effects [simp]:
  "gate_hash E (set_gate E rid d a) rid' =
     (if rid' = rid then gate_hash E a rid ++ map_of d else gate_hash E a rid')"
  "gate_hash E (set_pending E rid sc a) rid' = gate_hash E a rid'"
  "gate_hash E (set_bundle E sha b a) rid' = gate_hash E a rid'"
  "pending_gates E (set_gate E rid d a) = pending_gates E a"
  "pending_gates E (set_pending E rid sc a) = (pending_gates E a)(rid := sc)"
  "pending_gates E (set_bundle E sha b a) = pending_gates E a"
  "ctx_tenant (set_gate E rid d a) = ctx_tenant a" "ctx_tenant (set_pending E rid sc a) = ctx_tenant a"
  "ctx_tenant (set_bundle E sha b a) = ctx_tenant a"
  "clock_us (set_gate E rid d a) = clock_us a" "clock_us (set_pending E rid sc a) = clock_us a"
  "clock_us (set_bundle E sha b a) = clock_us a"
  "uuid_no (set_gate E rid d a) = uuid_no a" "uuid_no (set_pending E rid sc a) = uuid_no a"
  "uuid_no (set_bundle E sha b a) = uuid_no a"
  "repo (set_gate E rid d a) = repo a" "repo (set_pending E rid sc a) = repo a"
  "repo (set_bundle E sha b a) = repo a"
  "lists (srv (set_gate E rid d a)) = lists (srv a)" "lists (srv (set_pending E rid sc a)) = lists (srv a)"
  "lists (srv (set_bundle E sha b a)) = lists (srv a)"
  "streams (srv (set_gate E rid d a)) = streams (srv a)"
  "streams (srv (set_pending E rid sc a)) = streams (srv a)"
  "streams (srv (set_bundle E sha b a)) = streams (srv a)"
  by (simp_all add: gate_hash_def pending_gates_def set_gate_def set_pending_def set_bundle_def
      hash_put_def Let_def request_base_key_def bundle_base_key_def)

lemma gate_uuid [simp]:
  "gate_hash E (a\<lparr>uuid_no := n\<rparr>) = gate_hash E a" "pending_gates E (a\<lparr>uuid_no := n\<rparr>) = pending_gates E a"
  by (rule ext, simp add: gate_hash_def pending_gates_def)+

text \<open>What neither logging nor publishing touches.\<close>

definition same_gates :: "(keyspace, 'g) world \<Rightarrow> (keyspace, 'g) world \<Rightarrow> bool" where
  "same_gates a b \<longleftrightarrow>
     hashes (srv b) = hashes (srv a) \<and> zsets (srv b) = zsets (srv a) \<and> ctx_tenant b = ctx_tenant a"

lemma same_gates_refl [simp]: "same_gates a a"
  by (simp add: same_gates_def)

lemma same_gates_trans: "same_gates a b \<Longrightarrow> same_gates b c \<Longrightarrow> same_gates a c"
  by (simp add: same_gates_def)

lemma same_gatesD:
  assumes "same_gates a b"
  shows "gate_hash E b rid = gate_hash E a rid" "pending_gates E b = pending_gates E a"
    "ctx_tenant b = ctx_tenant a"
  using assms by (simp_all add: same_gates_def gate_hash_def pending_gates_def)

lemma audited_frame:
  assumes "audited E tid entry a b"
  shows "same_gates a b" "clock_us b = clock_us a" "uuid_no b = uuid_no a" "repo b = repo a"
    "lists (srv b) (prefixed_key E (ctx_tenant a) (log_base_key tid)) =
       lists (srv a) (prefixed_key E (ctx_tenant a) (log_base_key tid)) @ [dumps (entry_json entry)]"
  using assms by (auto simp: audited_def same_gates_def)

lemma emitted_frame:
  assumes "emitted chan stamp e a b"
  shows "same_gates a b" "clock_us b = clock_us a" "uuid_no b = uuid_no a" "repo b = repo a"
    "lists (srv b) = lists (srv a)" "strs (srv b) = strs (srv a)" "unacked (srv b) = unacked (srv a)"
    "\<exists>i. (i, to_stream_dict (stamp (ctx_tenant a) e)) \<in> set (streams (srv b) (chan (ctx_tenant a)))"
  using assms by (auto simp: emitted_def same_gates_def)

text \<open>The invariant: a request is in the pending set exactly while its status is pending.\<close>

definition gates_consistent :: "('x, 'g) env \<Rightarrow> (keyspace, 'g) world \<Rightarrow> bool" where
  "gates_consistent E a \<longleftrightarrow>
     (\<forall>rid. pending_gates E a rid \<noteq> None \<longleftrightarrow> gate_hash E a rid ''status'' = Some ''pending'')"

lemma gates_consistent_same: "same_gates a b \<Longrightarrow> gates_consistent E b = gates_consistent E a"
  by (simp add: gates_consistent_def same_gatesD)

lemma gates_consistent_settle:
  assumes "gates_consistent E a" "st \<noteq> GS_PENDING"
  shows "gates_consistent E (set_pending E rid None (set_gate E rid [(''status'', gate_status_value st)] a))"
proof -
  have "gate_status_value st \<noteq> ''pending''"
    using assms(2) gate_status_value_inject [of st GS_PENDING] by simp
  with assms(1) show ?thesis by (simp add: gates_consistent_def)
qed

lemma request_dict_status: "map_of (request_to_dict q) ''status'' = Some (gate_status_value (gq_status q))"
  by (simp add: request_to_dict_def)

lemma gates_consistent_open:
  assumes "gates_consistent E a" "gq_status q = GS_PENDING"
  shows "gates_consistent E
    (set_pending E rid (Some sc) (set_bundle E sha b (set_gate E rid (request_to_dict q) a)))"
  using assms by (simp add: gates_consistent_def map_add_Some_iff request_dict_status)

abbreviation gates_kept :: "('x \<Rightarrow> keyspace) \<Rightarrow> ('x, 'g, 'a) act \<Rightarrow> bool" where
  "gates_kept kv m \<equiv> keeps kv same_gates m"

interpretation gates: frame_relation same_gates
  by unfold_locales (simp, rule same_gates_trans)

lemma gates_kept_rules [intro]:
  "gates_kept kv (new_event ev)" "gates_kept kv (new_uuid E)"
  by (rule keepsI, simp add: yields_def same_gates_def new_event_def)+

lemma gates_kept_request_of_map [intro]: "gates_kept kv (request_of_map E m)"
proof -
  have "gates_kept kv (case hget m ''expires_at'' [] of [] \<Rightarrow> ret None
      | s \<Rightarrow> bindE (lift_result (fromisoformat s)) (\<lambda>t. ret (Some t)))"
    by (auto split: list.splits)
  then show ?thesis
    unfolding request_of_map_def placeholder_bundle_def create_bundle_def by blast
qed

text \<open>The effect of a sweep over a set of identifiers: pending requests expire, the rest stay.\<close>

definition swept :: "('x, 'g) env \<Rightarrow> string set \<Rightarrow> (keyspace, 'g) world \<Rightarrow> (keyspace, 'g) world \<Rightarrow> bool" where
  "swept E S a b \<longleftrightarrow>
     ctx_tenant b = ctx_tenant a \<and> clock_us b = clock_us a \<and>
     (\<forall>rid. if rid \<in> S \<and> gate_hash E a rid ''status'' = Some ''pending''
            then gate_hash E b rid = (gate_hash E a rid)(''status'' \<mapsto> ''expired'') \<and>
                 pending_gates E b rid = None
            else gate_hash E b rid = gate_hash E a rid \<and> pending_gates E b rid = pending_gates E a rid)"

lemma swept_refl [simp]: "swept E {} a a"
  by (simp add: swept_def)

lemma swept_trans:
  assumes "swept E S a b" "swept E T b c"
  shows "swept E (S \<union> T) a c"
  unfolding swept_def
proof (intro conjI allI)
  fix rid
  have "if rid \<in> S \<and> gate_hash E a rid ''status'' = Some ''pending''
      then gate_hash E b rid = (gate_hash E a rid)(''status'' \<mapsto> ''expired'') \<and> pending_gates E b rid = None
      else gate_hash E b rid = gate_hash E a rid \<and> pending_gates E b rid = pending_gates E a rid"
    and "if rid \<in> T \<and> gate_hash E b rid ''status'' = Some ''pending''
      then gate_hash E c rid = (gate_hash E b rid)(''status'' \<mapsto> ''expired'') \<and> pending_gates E c rid = None
      else gate_hash E c rid = gate_hash E b rid \<and> pending_gates E c rid = pending_gates E b rid"
    using assms unfolding swept_def by blast+
  then show "if rid \<in> S \<union> T \<and> gate_hash E a rid ''status'' = Some ''pending''
      then gate_hash E c rid = (gate_hash E a rid)(''status'' \<mapsto> ''expired'') \<and> pending_gates E c rid = None
      else gate_hash E c rid = gate_hash E a rid \<and> pending_gates E c rid = pending_gates E a rid"
    by (auto split: if_splits)
qed (use assms in \<open>simp_all add: swept_def\<close>)

lemma swept_same:
  assumes "same_gates a b" "clock_us b = clock_us a" "swept E S b c"
  shows "swept E S a c"
  using assms by (simp add: swept_def same_gatesD)

lemma swept_same_right:
  assumes "swept E S a b" "same_gates b c" "clock_us c = clock_us b"
  shows "swept E S a c"
  using assms by (simp add: swept_def same_gatesD)

lemma gates_consistent_swept:
  assumes "gates_consistent E a" "swept E S a b"
  shows "gates_consistent E b"
  unfolding gates_consistent_def
proof
  fix rid
  have "pending_gates E a rid \<noteq> None \<longleftrightarrow> gate_hash E a rid ''status'' = Some ''pending''"
    using assms(1) unfolding gates_consistent_def by blast
  moreover have "if rid \<in> S \<and> gate_hash E a rid ''status'' = Some ''pending''
      then gate_hash E b rid = (gate_hash E a rid)(''status'' \<mapsto> ''expired'') \<and> pending_gates E b rid = None
      else gate_hash E b rid = gate_hash E a rid \<and> pending_gates E b rid = pending_gates E a rid"
    using assms(2) unfolding swept_def by blast
  ultimately show "pending_gates E b rid \<noteq> None \<longleftrightarrow> gate_hash E b rid ''status'' = Some ''pending''"
    by (auto split: if_splits)
qed

lemma swept_one:
  "gate_hash E a rid ''status'' = Some ''pending'' \<Longrightarrow>
   swept E {rid} a (set_pending E rid None (set_gate E rid [(''status'', ''expired'')] a))"
  by (simp add: swept_def)

lemma swept_skip: "gate_hash E a rid ''status'' \<noteq> Some ''pending'' \<Longrightarrow> swept E {rid} a a"
  by (simp add: swept_def)

text \<open>The tail of each operation: the log entry, then the event.\<close>

definition announced ::
  "('x, 'g) env \<Rightarrow> (string option \<Rightarrow> string) \<Rightarrow> (string option \<Rightarrow> asdlc_event \<Rightarrow> asdlc_event) \<Rightarrow>
   string \<Rightarrow> string pydict \<Rightarrow> asdlc_event \<Rightarrow> (keyspace, 'g) world \<Rightarrow> (keyspace, 'g) world \<Rightarrow> bool" where
  "announced E chan stamp tid entry ev a b \<longleftrightarrow>
     (\<exists>c. audited E tid entry a c \<and> emitted chan stamp ev c b)"

lemma announced_effects:
  assumes "announced E chan stamp tid entry ev a b"
  shows "same_gates a b" "clock_us b = clock_us a" "uuid_no b = uuid_no a"
    and "lists (srv b) (prefixed_key E (ctx_tenant a) (log_base_key tid)) =
       lists (srv a) (prefixed_key E (ctx_tenant a) (log_base_key tid)) @ [dumps (entry_json entry)]"
    and "\<exists>i. (i, to_stream_dict (stamp (ctx_tenant a) ev)) \<in> set (streams (srv b) (chan (ctx_tenant a)))"
proof -
  obtain c where c: "audited E tid entry a c" "emitted chan stamp ev c b"
    using assms announced_def by blast
  note ac = audited_frame [OF c(1)] and cb = emitted_frame [OF c(2)]
  show "same_gates a b" by (rule same_gates_trans [OF ac(1) cb(1)])
  show "clock_us b = clock_us a" "uuid_no b = uuid_no a" using ac(2,3) cb(2,3) by simp_all
  show "lists (srv b) (prefixed_key E (ctx_tenant a) (log_base_key tid)) =
       lists (srv a) (prefixed_key E (ctx_tenant a) (log_base_key tid)) @ [dumps (entry_json entry)]"
    using ac(5) cb(5) by simp
  show "\<exists>i. (i, to_stream_dict (stamp (ctx_tenant a) ev)) \<in> set (streams (srv b) (chan (ctx_tenant a)))"
    using cb(8) same_gatesD(3) [OF ac(1)] by simp
qed

text \<open>The requests a sweep is about: those whose expiry lies between the epoch and now.\<close>

definition due :: "('x, 'g) env \<Rightarrow> (keyspace, 'g) world \<Rightarrow> string set" where
  "due E a = {rid. \<exists>sc. pending_gates E a rid = Some sc \<and> Fin 0 \<le> sc \<and>
     sc \<le> Fin (timestamp_us (utc_datetime (clock_us a)))}"

section \<open>The operations\<close>

locale server_world = redis_server "redis_of E" kv
  for E :: "('x, 'g) env" and kv :: "'x \<Rightarrow> keyspace"

sublocale server_world \<subseteq> hash_world E kv
  by unfold_locales

sublocale server_world \<subseteq> string_world E kv
  by unfold_locales

sublocale server_world \<subseteq> stream_world E kv
  by unfold_locales

locale gate_world = server_world E kv + event_sink kv pub chan stamp
  for E :: "('x, 'g) env" and kv :: "'x \<Rightarrow> keyspace"
    and pub :: "asdlc_event \<Rightarrow> ('x, 'g, string) act" and chan stamp
begin

lemma rpush_runs:
  "runs kv (on_redis (r_rpush (redis_of E) k v)) w (Inr ())
     ((absw kv w)\<lparr>srv := (srv (absw kv w))\<lparr>lists := (lists (srv (absw kv w)))(k := lists (srv (absw kv w)) k @ [v])\<rparr>\<rparr>)"
  using rpush [of k v "srv w"] by (simp add: runs_def)

lemma zadd_runs:
  "k = prefixed_key E (ctx_tenant w) pending_base_key \<Longrightarrow>
   runs kv (on_redis (r_zadd (redis_of E) k rid sc)) w (Inr ()) (set_pending E rid (Some sc) (absw kv w))"
  using zadd [of k rid sc "srv w"] by (simp add: runs_def set_pending_def Let_def)

lemma zrem_runs:
  "k = prefixed_key E (ctx_tenant w) pending_base_key \<Longrightarrow>
   runs kv (on_redis (r_zrem (redis_of E) k rid)) w (Inr ()) (set_pending E rid None (absw kv w))"
  using zrem [of k rid "srv w"] by (simp add: runs_def set_pending_def Let_def)

lemma append_audit:
  "yields kv (append_audit E tid entry) w (\<lambda>r a. r = Inr () \<and> audited E tid entry (absw kv w) a)"
  unfolding append_audit_def yields_prefixed
proof (rule yields_thenE_runs [OF rpush_runs], unfold yields_prefixed, goal_cases)
  case (1 w')
  obtain i n where x: "runs kv (on_redis (r_xadd (redis_of E)
        (prefixed_key E (ctx_tenant w') ''asdlc:audit'') entry 100000)) w' (Inr i)
      (stream_append (prefixed_key E (ctx_tenant w') ''asdlc:audit'') n (i, entry) (absw kv w'))"
    by (rule xadd_runs)
  have "ctx_tenant w' = ctx_tenant w" using 1 by (auto dest: absw_eqD)
  with 1 show ?case
    by (intro yields_bindE_runs [OF x]) (auto simp: audited_def)
qed

lemma gates_kept_audit [intro]: "gates_kept kv (append_audit E tid entry)"
  by (rule keepsI, rule yields_mono [OF append_audit]) (blast intro: audited_frame(1))

lemma gates_kept_pub [intro]: "gates_kept kv (pub e)"
  by (rule keepsI, rule yields_mono [OF publishes]) (blast intro: emitted_frame(1))

lemma gates_kept_log [intro]: "gates_kept kv (log_request E q)" "gates_kept kv (log_decision E q d)"
  unfolding log_request_def log_decision_def by blast+

lemma set_gate_runs:
  "k = prefixed_key E (ctx_tenant w) (request_base_key rid) \<Longrightarrow>
   runs kv (write_hash E k d) w (Inr ()) (set_gate E rid d (absw kv w))"
  using write_hash [of k d w] by (simp add: set_gate_def)

lemma set_bundle_runs:
  "redis_text (eb_git_sha b) = Some sha \<Longrightarrow>
   k = prefixed_key E (ctx_tenant w) (bundle_base_key (eb_bundle_id b)) \<Longrightarrow>
   runs kv (write_values E k (bundle_to_dict b)) w (Inr ()) (set_bundle E sha b (absw kv w))"
  using write_hash [of k "bundle_fields sha b" w] by (simp add: set_bundle_def write_bundle)

lemma announce:
  assumes "post_init ev = Inr ev'"
  shows "yields kv (thenE (append_audit E tid entry)
      (bindE (new_event ev) (\<lambda>e. bindE (pub e) (\<lambda>_. ret x)))) w
    (\<lambda>r a. r = Inr x \<and> announced E chan stamp tid entry ev' (absw kv w) a)"
  unfolding thenE_def
proof (rule yields_bindE [OF append_audit], goal_cases)
  case (1 u w')
  have "yields kv (bindE (pub ev') (\<lambda>_. ret x)) w' (\<lambda>r a. r = Inr x \<and> emitted chan stamp ev' (absw kv w') a)"
    by (rule yields_bindE [OF publishes]) auto
  with 1 show ?case
    by (auto simp: new_event_def assms announced_def elim: yields_mono)
qed auto

text \<open>A new request: stored with its bundle, entered in the pending set, logged and published.\<close>

lemma request_gate:
  fixes w tid sid gate b agent ttl
  defines "now \<equiv> utc_datetime (clock_us w)" and "rid \<equiv> uuid_at E (uuid_no w)"
  defines "q \<equiv> \<lparr>gq_request_id = rid, gq_task_id = tid, gq_session_id = sid, gq_gate_type = gate,
                gq_status = GS_PENDING, gq_evidence_bundle = b, gq_requested_by = agent,
                gq_requested_at = now, gq_expires_at = expiry ttl now\<rparr>"
  assumes "validate_evidence_for_gate b = Inr True"
    and "post_init (requested_event sid tid gate rid (eb_bundle_id b) now) = Inr ev"
    and "redis_text (eb_git_sha b) = Some sha"
  shows "yields kv (request_gate E pub tid sid gate b agent ttl) w (\<lambda>r a. r = Inr q \<and>
    announced E chan stamp tid (request_entry q now) ev
      (set_pending E rid (Some (expiry_score (expiry ttl now))) (set_bundle E sha b
        (set_gate E rid (request_to_dict q) ((absw kv w)\<lparr>uuid_no := Suc (uuid_no w)\<rparr>)))) a)"
proof -
  let ?w = "w\<lparr>uuid_no := Suc (uuid_no w)\<rparr>"
  show ?thesis
    unfolding request_gate_def assms(4) bindE_lift_result yields_now_utc yields_new_uuid Let_def
      yields_prefixed
    unfolding now_def [symmetric] rid_def [symmetric]
    unfolding q_def [symmetric]
  proof (rule yields_thenE_runs [OF set_gate_runs], simp, unfold yields_prefixed, goal_cases)
    case (1 w1)
    note w1 = this
    show ?case
    proof (rule yields_thenE_runs [OF set_bundle_runs [OF assms(6)]], simp, unfold yields_prefixed, goal_cases)
      case (1 w2)
      note w2 = this
      show ?case
      proof (rule yields_thenE_runs [OF zadd_runs], simp, goal_cases)
        case (1 w3)
        have "clock_us w3 = clock_us w"
          using absw_eqD(3) [OF w1] absw_eqD(3) [OF w2] absw_eqD(3) [OF 1] by simp
        then have lg: "log_request E q w3 = append_audit E tid (request_entry q now) w3"
          by (simp add: log_request_def now_def q_def)
        have eq: "thenE (log_request E q) m w3 =
            thenE (append_audit E tid (request_entry q now)) m w3" for m :: "('x, 'g, gate_request) act"
          unfolding thenE_def bindE_def lg ..
        have "yields kv (thenE (append_audit E tid (request_entry q now))
            (bindE (new_event (requested_event sid tid gate rid (eb_bundle_id b) now))
              (\<lambda>e. bindE (pub e) (\<lambda>_. ret q)))) w3
          (\<lambda>r a. r = Inr q \<and> announced E chan stamp tid (request_entry q now) ev (absw kv w3) a)"
          by (rule announce) (rule assms(5))
        with 1 w1 w2 show ?case
          by (simp add: yields_def eq)
      qed
    qed
  qed
qed

text \<open>What opening a request leaves of the gates, whatever becomes of the event: the request is stored
  before the bundle, and listed after it.\<close>

lemma request_gate_stored:
  fixes w tid sid gate b agent ttl
  defines "now \<equiv> utc_datetime (clock_us w)" and "rid \<equiv> uuid_at E (uuid_no w)"
  defines "q \<equiv> \<lparr>gq_request_id = rid, gq_task_id = tid, gq_session_id = sid, gq_gate_type = gate,
                gq_status = GS_PENDING, gq_evidence_bundle = b, gq_requested_by = agent,
                gq_requested_at = now, gq_expires_at = expiry ttl now\<rparr>"
  assumes "validate_evidence_for_gate b = Inr True"
  shows "yields kv (request_gate E pub tid sid gate b agent ttl) w (\<lambda>r a.
    gate_hash E a = (gate_hash E (absw kv w))(rid := gate_hash E (absw kv w) rid ++ map_of (request_to_dict q)) \<and>
    pending_gates E a =
      (if redis_text (eb_git_sha b) = None then pending_gates E (absw kv w)
       else (pending_gates E (absw kv w))(rid \<mapsto> expiry_score (expiry ttl now))))"
  unfolding request_gate_def assms(4) bindE_lift_result yields_now_utc yields_new_uuid Let_def yields_prefixed
  unfolding now_def [symmetric] rid_def [symmetric]
  unfolding q_def [symmetric]
proof (rule yields_thenE_runs [OF set_gate_runs], simp, unfold yields_prefixed, goal_cases)
  case (1 w1)
  note w1 = this
  have hash: "gate_hash E (set_gate E rid d a) = (gate_hash E a)(rid := gate_hash E a rid ++ map_of d)" for d a
    by (simp add: fun_eq_iff)
  show ?case
  proof (cases "redis_text (eb_git_sha b)")
    case None
    then show ?thesis by (simp add: unwritable_bundle yields_def raise_def w1 hash)
  next
    case (Some sha)
    show ?thesis
    proof (rule yields_thenE_runs [OF set_bundle_runs [OF Some]], simp, unfold yields_prefixed, goal_cases)
      case (1 w2)
      note w2 = this
      show ?case
      proof (rule yields_thenE_runs [OF zadd_runs], simp, goal_cases)
        case (1 w3)
        have hashes: "gate_hash E (set_pending E i sc a) = gate_hash E a" "gate_hash E (set_bundle E sh c a) = gate_hash E a"
          for i sc sh c a by (simp_all add: fun_eq_iff)
        let ?tail = "thenE (log_request E q) (bindE (new_event (requested_event sid tid gate rid (eb_bundle_id b) now))
            (\<lambda>e. bindE (pub e) (\<lambda>_. ret q)))"
        have "gates_kept kv ?tail" by blast
        note same = same_gatesD [OF keepsD [OF this, of w3]]
        have "gate_hash E (absw kv (snd (?tail w3))) = gate_hash E (absw kv w3)" by (rule ext) (rule same(1))
        then show ?case by (simp add: yields_def same(2) 1 w2 w1 hash hashes Some)
      qed
    qed
  qed
qed

text \<open>A refused bundle leaves everything as it was.\<close>

lemma request_gate_refused:
  "validate_evidence_for_gate b = Inl e \<Longrightarrow>
   runs kv (request_gate E pub tid sid gate b agent ttl) w (Inl e) (absw kv w)"
  by (simp add: request_gate_def)

text \<open>A decision on a pending request.\<close>

lemma gate_read:
  obtains d where "runs kv (on_redis (r_hgetall (redis_of E)
        (prefixed_key E (ctx_tenant w) (request_base_key rid)))) w (Inr d) (absw kv w)"
    and "map_of d = gate_hash E (absw kv w) rid"
  by (rule read_hash) (simp add: gate_hash_def)

lemma request_of_map_state:
  "fst (request_of_map E m w) = Inr q \<Longrightarrow>
   runs kv (request_of_map E m) w (Inr q) ((absw kv w)\<lparr>uuid_no := Suc (uuid_no w)\<rparr>)"
  by (auto simp: runs_def request_of_map_def placeholder_bundle_def create_bundle_def bindE_def
      ret_def split: sum.splits list.splits)

lemma record_decision:
  fixes w rid approved reviewer reason conditions
  defines "now \<equiv> utc_datetime (clock_us w)" and "did \<equiv> uuid_at E (Suc (uuid_no w))"
  defines "d \<equiv> \<lparr>gd_decision_id = did, gd_request_id = rid, gd_approved = approved,
      gd_reviewer = reviewer, gd_reason = reason, gd_decided_at = now,
      gd_conditions = conditions_json conditions\<rparr>"
    and "st \<equiv> decided_status approved"
  assumes m: "gate_hash E (absw kv w) rid \<noteq> Map.empty"
    and q: "\<And>w'. absw kv w' = absw kv w \<Longrightarrow> fst (request_of_map E (gate_hash E (absw kv w) rid) w') = Inr q"
    and pend: "gq_status q = GS_PENDING"
    and ev: "post_init (decided_event q rid d) = Inr ev"
  shows "yields kv (record_decision E pub rid approved reviewer reason conditions) w (\<lambda>r a. r = Inr d \<and>
    announced E chan stamp (gq_task_id q) (decision_entry (q\<lparr>gq_status := st\<rparr>) d) ev
      (set_pending E rid None (set_gate E rid [(''status'', gate_status_value st)]
        ((absw kv w)\<lparr>uuid_no := Suc (Suc (uuid_no w))\<rparr>))) a)"
proof -
  obtain data where data: "runs kv (on_redis (r_hgetall (redis_of E)
        (prefixed_key E (ctx_tenant w) (request_base_key rid)))) w (Inr data) (absw kv w)"
    "map_of data = gate_hash E (absw kv w) rid"
    by (rule gate_read)
  with m have "data \<noteq> []" by auto
  show ?thesis
    unfolding record_decision_def yields_prefixed
  proof (rule yields_bindE_runs [OF data(1)], goal_cases)
    case (1 w1)
    note w1 = this
    note q1 = request_of_map_state [OF q [OF 1]]
    show ?case
      unfolding data(2) if_not_P [OF \<open>data \<noteq> []\<close>]
    proof (rule yields_bindE_runs [OF q1], goal_cases)
      case (1 w2)
      have f: "clock_us w2 = clock_us w" "uuid_no w2 = Suc (uuid_no w)" "ctx_tenant w2 = ctx_tenant w"
        using absw_eqD [OF 1] absw_eqD [OF w1] by simp_all
      let ?w = "w2\<lparr>uuid_no := Suc (uuid_no w2)\<rparr>"
      have w2: "absw kv ?w = (absw kv w)\<lparr>uuid_no := Suc (Suc (uuid_no w))\<rparr>"
        using 1 w1 absw_eqD(4) [OF w1] f by simp
      have d: "\<lparr>gd_decision_id = uuid_at E (uuid_no w2), gd_request_id = rid, gd_approved = approved,
          gd_reviewer = reviewer, gd_reason = reason, gd_decided_at = utc_datetime (clock_us w2),
          gd_conditions = conditions_json conditions\<rparr> = d"
        by (simp add: d_def f did_def now_def)
      have key: "prefixed_key E (ctx_tenant w) (request_base_key rid) =
          prefixed_key E (ctx_tenant ?w) (request_base_key rid)"
        by (simp add: f)
      show ?case
        unfolding pend yields_now_utc yields_new_uuid Let_def d st_def [symmetric] simp_thms if_False
      proof (rule yields_thenE_runs [OF set_gate_runs [OF key]], unfold yields_prefixed, goal_cases)
        case (1 w3)
        note w3 = this
        show ?case
        proof (rule yields_thenE_runs [OF zrem_runs], simp, goal_cases)
          case (1 w4)
          have "yields kv (thenE (append_audit E (gq_task_id q) (decision_entry (q\<lparr>gq_status := st\<rparr>) d))
              (bindE (new_event (decided_event q rid d)) (\<lambda>e. bindE (pub e) (\<lambda>_. ret d)))) w4
            (\<lambda>r a. r = Inr d \<and> announced E chan stamp (gq_task_id q) (decision_entry (q\<lparr>gq_status := st\<rparr>) d) ev (absw kv w4) a)"
            by (rule announce) (rule ev)
          then show ?case unfolding 1 w3 w2 by (simp add: log_decision_def)
        qed
      qed
    qed
  qed
qed

text \<open>A request that is not pending, or not there, is refused and stays as it is.\<close>

lemma record_decision_missing:
  assumes "gate_hash E (absw kv w) rid = Map.empty"
  shows "runs kv (record_decision E pub rid approved reviewer reason conditions) w
    (Inl (Exn HITLError (''Gate request not found: '' @ rid))) (absw kv w)"
proof -
  obtain data where data: "runs kv (on_redis (r_hgetall (redis_of E)
        (prefixed_key E (ctx_tenant w) (request_base_key rid)))) w (Inr data) (absw kv w)"
    "map_of data = gate_hash E (absw kv w) rid"
    by (rule gate_read)
  show ?thesis
    unfolding record_decision_def runs_prefixed
    by (rule runs_bindE [OF data(1)]) (use data(2) assms in simp)
qed

lemma record_decision_settled:
  assumes m: "gate_hash E (absw kv w) rid \<noteq> Map.empty"
    and q: "\<And>w'. absw kv w' = absw kv w \<Longrightarrow> fst (request_of_map E (gate_hash E (absw kv w) rid) w') = Inr q"
    and st: "gq_status q \<noteq> GS_PENDING"
  shows "runs kv (record_decision E pub rid approved reviewer reason conditions) w
    (Inl (Exn HITLError (''Gate request is not pending: '' @ rid)))
    ((absw kv w)\<lparr>uuid_no := Suc (uuid_no w)\<rparr>)"
proof -
  obtain data where data: "runs kv (on_redis (r_hgetall (redis_of E)
        (prefixed_key E (ctx_tenant w) (request_base_key rid)))) w (Inr data) (absw kv w)"
    "map_of data = gate_hash E (absw kv w) rid"
    by (rule gate_read)
  with m have "data \<noteq> []" by auto
  show ?thesis
    unfolding record_decision_def runs_prefixed
  proof (rule runs_bindE [OF data(1)], goal_cases)
    case (1 w1)
    note q1 = request_of_map_state [OF q [OF 1]]
    have "uuid_no w1 = uuid_no w" using absw_eqD(4) [OF 1] by simp
    then show ?case
      unfolding data(2) if_not_P [OF \<open>data \<noteq> []\<close>]
      by (intro runs_bindE [OF q1]) (simp add: st 1)
  qed
qed

text \<open>The tails also leave the clock alone.\<close>

lemma kept_clock:
  "yields kv (pub e) w (\<lambda>r a. clock_us a = clock_us w)"
  "clock_us (snd (request_of_map E m w)) = clock_us w"
  by (rule yields_mono [OF publishes], use emitted_frame(2) in fastforce)
    (auto simp: request_of_map_def placeholder_bundle_def create_bundle_def bindE_def
      ret_def split: sum.splits list.splits)

lemma expire_one:
  assumes "ps = prefixed_key E (ctx_tenant w) pending_base_key"
  shows "yields kv (expire_one E pub ps now rid) w (\<lambda>r a. swept E {rid} (absw kv w) a)"
proof -
  obtain data where data: "runs kv (on_redis (r_hgetall (redis_of E)
        (prefixed_key E (ctx_tenant w) (request_base_key rid)))) w (Inr data) (absw kv w)"
    "map_of data = gate_hash E (absw kv w) rid"
    by (rule gate_read)
  define tail where "tail = bindE (request_of_map E (map_of data)) (\<lambda>q.
      bindE (new_event (expired_event q rid now)) (\<lambda>e.
      bindE (pub e) (\<lambda>_. ret [q\<lparr>gq_status := GS_EXPIRED\<rparr>])))"
  have kept: "gates_kept kv tail" unfolding tail_def by blast
  have clock: "clock_us (snd (tail w')) = clock_us w'" for w'
    using kept_clock unfolding tail_def yields_def
    by (auto simp: bindE_def new_event_def lift_result_def ret_def now_utc_def split: sum.splits)
  show ?thesis
  proof (cases "data \<noteq> [] \<and> map_of data ''status'' = Some (gate_status_value GS_PENDING)")
    case False
    then have "map_of data ''status'' \<noteq> Some ''pending''" by (cases data) auto
    then have "gate_hash E (absw kv w) rid ''status'' \<noteq> Some ''pending''"
      unfolding data(2) .
    then show ?thesis
      unfolding expire_one_def yields_prefixed
      by (intro yields_bindE_runs [OF data(1)]) (simp only: if_not_P [OF False] yields_pure, simp add: swept_skip)
  next
    case True
    then have p: "gate_hash E (absw kv w) rid ''status'' = Some ''pending''"
      using data(2) by simp
    show ?thesis
      unfolding expire_one_def yields_prefixed
    proof (rule yields_bindE_runs [OF data(1)], goal_cases)
      case (1 w1)
      note w1 = this
      have key: "prefixed_key E (ctx_tenant w) (request_base_key rid) =
          prefixed_key E (ctx_tenant w1) (request_base_key rid)"
        using absw_eqD(5) [OF w1] by simp
      show ?case
        unfolding if_P [OF True] tail_def [symmetric]
      proof (rule yields_thenE_runs [OF set_gate_runs [OF key]], goal_cases)
        case (1 w2)
        note w2 = this
        show ?case
        proof (rule yields_thenE_runs [OF zrem_runs], goal_cases)
          case 1
          then show ?case using absw_eqD(5) [OF w1] absw_eqD(5) [OF w2] assms by simp
        next
          case (2 w3)
          then have "swept E {rid} (absw kv w) (absw kv w3)"
            using swept_one [OF p] w1 w2 by simp
          then show ?case
            unfolding yields_def
            by (rule swept_same_right) (use keepsD [OF kept, of w3] clock [of w3] in simp_all)
        qed
      qed
    qed
  qed
qed

lemma expire_all:
  assumes "ps = prefixed_key E (ctx_tenant w) pending_base_key"
  shows "yields kv (collect rids (expire_one E pub ps now)) w
     (\<lambda>r a. \<exists>S \<subseteq> set rids. swept E S (absw kv w) a \<and> (\<forall>x. r = Inr x \<longrightarrow> S = set rids))"
  using assms
proof (induction rids arbitrary: w)
  case (Cons rid rids)
  show ?case
    unfolding collect.simps
  proof (rule yields_bindE [OF expire_one [OF Cons.prems]], goal_cases)
    case (1 x w1)
    note s1 = this
    then have "ps = prefixed_key E (ctx_tenant w1) pending_base_key"
      using Cons.prems by (simp add: swept_def)
    note IH = Cons.IH [OF this]
    show ?case
    proof (rule yields_bindE [OF IH], goal_cases)
      case (1 y w2)
      then obtain S where "S \<subseteq> set rids" "swept E S (absw kv w1) (absw kv w2)" "S = set rids" by auto
      with swept_trans [OF s1, of S "absw kv w2"] show ?case
        by (auto intro: exI [of _ "insert rid S"])
    next
      case (2 e a)
      then obtain S where "S \<subseteq> set rids" "swept E S (absw kv w1) a" by auto
      with swept_trans [OF s1, of S a] show ?case
        by (auto intro!: exI [of _ "insert rid S"])
    qed
  next
    case (2 e a)
    then show ?case by (auto intro: exI [of _ "{rid}"])
  qed
qed simp

lemma due_runs:
  obtains rids where "runs kv (on_redis (r_zrangebyscore (redis_of E)
      (prefixed_key E (ctx_tenant w) pending_base_key) (Fin 0)
      (Fin (timestamp_us (utc_datetime (clock_us w)))))) w (Inr rids) (absw kv w)"
    and "set rids = due E (absw kv w)"
  using zrangebyscore [of "prefixed_key E (ctx_tenant w) pending_base_key" "Fin 0"
      "Fin (timestamp_us (utc_datetime (clock_us w)))" "srv w"] that
  by (auto simp: runs_def due_def pending_gates_def)

lemma check_expired:
  "yields kv (check_expired E pub) w
     (\<lambda>r a. \<exists>S \<subseteq> due E (absw kv w). swept E S (absw kv w) a \<and> (\<forall>x. r = Inr x \<longrightarrow> S = due E (absw kv w)))"
proof -
  obtain rids where rids: "runs kv (on_redis (r_zrangebyscore (redis_of E)
      (prefixed_key E (ctx_tenant w) pending_base_key) (Fin 0)
      (Fin (timestamp_us (utc_datetime (clock_us w)))))) w (Inr rids) (absw kv w)"
    and set: "set rids = due E (absw kv w)"
    by (rule due_runs)
  show ?thesis
    unfolding check_expired_def yields_now_utc yields_prefixed
  proof (rule yields_bindE_runs [OF rids], goal_cases)
    case (1 w1)
    show ?case
      by (rule yields_bindE [OF expire_all]) (use 1 set absw_eqD(5) [OF 1] in auto)
  qed
qed

text \<open>Whatever an operation returns, the pending set and the statuses agree afterwards.\<close>

lemma check_expired_consistent:
  "gates_consistent E (absw kv w) \<Longrightarrow> gates_consistent E (absw kv (snd (check_expired E pub w)))"
  using check_expired [of w] unfolding yields_def by (auto intro: gates_consistent_swept)

lemma kept_consistent:
  assumes "gates_kept kv m" "gates_consistent E (absw kv w)"
  shows "yields kv m w (\<lambda>r a. gates_consistent E a)"
  using gates_consistent_same [OF keepsD [OF assms(1), of w], of E] assms(2) by (simp add: yields_def)

lemma settle_consistent:
  assumes "gates_consistent E (absw kv w)" "st \<noteq> GS_PENDING" "gates_kept kv tail"
    and "rk = prefixed_key E (ctx_tenant w) (request_base_key rid)"
  shows "yields kv (thenE (write_hash E rk [(''status'', gate_status_value st)])
      (bindE (tenant_prefixed E pending_base_key) (\<lambda>ps.
        thenE (on_redis (r_zrem (redis_of E) ps rid)) tail))) w (\<lambda>r a. gates_consistent E a)"
proof (rule yields_thenE_runs [OF set_gate_runs [OF assms(4)]], unfold yields_prefixed, goal_cases)
  case (1 w1)
  note w1 = this
  show ?case
  proof (rule yields_thenE_runs [OF zrem_runs], simp, goal_cases)
    case (1 w2)
    have "gates_consistent E (absw kv w2)"
      unfolding 1 w1 by (rule gates_consistent_settle [OF assms(1,2)])
    then show ?case by (rule kept_consistent [OF assms(3)])
  qed
qed

lemma record_decision_consistent:
  assumes "gates_consistent E (absw kv w)"
  shows "gates_consistent E (absw kv (snd (record_decision E pub rid ok who why conds w)))"
proof -
  obtain data where data: "runs kv (on_redis (r_hgetall (redis_of E)
        (prefixed_key E (ctx_tenant w) (request_base_key rid)))) w (Inr data) (absw kv w)"
    "map_of data = gate_hash E (absw kv w) rid"
    by (rule gate_read)
  have "yields kv (record_decision E pub rid ok who why conds) w (\<lambda>r a. gates_consistent E a)"
    unfolding record_decision_def yields_prefixed
  proof (rule yields_bindE_runs [OF data(1)], goal_cases)
    case (1 w1)
    show ?case
    proof (cases "data = []")
      case False
      note kept = keepsD [OF gates_kept_request_of_map, of kv w1 E "map_of data"]
      have "ctx_tenant w1 = ctx_tenant w" using absw_eqD(5) [OF 1] by simp
      then have "yields kv (request_of_map E (map_of data)) w1
          (\<lambda>r a. gates_consistent E a \<and> ctx_tenant a = ctx_tenant w)"
        unfolding yields_def gates_consistent_same [OF kept] same_gatesD(3) [OF kept]
        using 1 assms by simp
      then show ?thesis
        unfolding if_not_P [OF False]
      proof (rule yields_bindE, goal_cases)
        case (1 q w2)
        then have 2: "gates_consistent E (absw kv w2)" "ctx_tenant w2 = ctx_tenant w" by simp_all
        have st: "decided_status ok \<noteq> GS_PENDING" by (simp add: decided_status_def)
        show ?case
        proof (cases "gq_status q \<noteq> GS_PENDING")
          case True
          then show ?thesis using 2 by simp
        next
          case p: False
          show ?thesis
            unfolding if_not_P [OF p] yields_now_utc yields_new_uuid Let_def
          proof (rule settle_consistent [OF _ st])
            show "gates_consistent E (absw kv (w2\<lparr>uuid_no := Suc (uuid_no w2)\<rparr>))"
              using 2(1) by (simp add: gates_consistent_def)
          qed (blast, simp add: 2(2))
        qed
      qed simp
    qed (use 1 assms in simp)
  qed
  then show ?thesis by (simp add: yields_def)
qed

lemma request_gate_consistent:
  fixes w b tid sid gate agent ttl
  assumes "gates_consistent E (absw kv w)"
  defines "rid \<equiv> uuid_at E (uuid_no w)"
  defines "a \<equiv> absw kv (snd (request_gate E pub tid sid gate b agent ttl w))"
  shows "gates_consistent E a \<or>
    redis_text (eb_git_sha b) = None \<and> pending_gates E a = pending_gates E (absw kv w) \<and>
    gate_hash E a rid ''status'' = Some ''pending'' \<and>
    (\<forall>i. i \<noteq> rid \<longrightarrow> gate_hash E a i = gate_hash E (absw kv w) i)"
proof (cases "validate_evidence_for_gate b")
  case (Inl e)
  then show ?thesis using request_gate_refused [OF Inl, of tid sid gate agent ttl w] assms(1)
    by (simp add: runs_def a_def)
next
  case (Inr v)
  then have "validate_evidence_for_gate b = Inr True" using validate_evidence_cases [of b] by auto
  from request_gate_stored [OF this, of tid sid gate agent ttl w]
  show ?thesis
    using assms(1) unfolding yields_def a_def [symmetric] rid_def [symmetric] gates_consistent_def
    by (auto simp: map_add_Some_iff request_dict_status fun_eq_iff split: if_splits)
qed

end

interpretation mem_gates: gate_world "mem_env c" mem_abs "stream_publisher (mem_env c)"
    "event_channel (mem_env c)" "complete_event (mem_env c)"
  rewrites "redis_of (mem_env c) = mem_redis"
  by (simp_all add: gate_world_def server_world_def mem.redis_server_axioms mem_stream.published.event_sink_axioms)

section \<open>The promises of the gates\<close>

lemma gate_world_of:
  "redis_server (redis_of E) kv \<Longrightarrow>
   gate_world E kv (stream_publisher E) (event_channel E) (complete_event E)"
  unfolding gate_world_def server_world_def
  using stream_world.published_event [unfolded stream_world_def, of E kv]
  by (auto simp: event_sink_def redis_server_def)

text \<open>A stored request whose time stamps are valid.\<close>

definition holds_request ::
  "('x, 'g) env \<Rightarrow> (keyspace, 'g) world \<Rightarrow> string \<Rightarrow> gate_request \<Rightarrow> bool" where
  "holds_request E a rid q \<longleftrightarrow>
     gate_hash E a rid = map_of (request_to_dict q) \<and> valid_datetime (gq_requested_at q) \<and>
     (\<forall>t. gq_expires_at q = Some t \<longrightarrow> valid_datetime t)"

lemma holds_request_map:
  assumes "holds_request E (absw kv w) rid q" "absw kv w' = absw kv w"
  shows "gate_hash E (absw kv w) rid \<noteq> Map.empty"
    and "fst (request_of_map E (gate_hash E (absw kv w) rid) w') =
      Inr (read_back q (utc_datetime (clock_us w)))"
proof -
  have h: "gate_hash E (absw kv w) rid = map_of (request_to_dict q)"
    "valid_datetime (gq_requested_at q)" "\<And>t. gq_expires_at q = Some t \<Longrightarrow> valid_datetime t"
    using assms(1) by (simp_all add: holds_request_def)
  have "map_of (request_to_dict q) ''status'' \<noteq> None" by (simp add: request_dict_fields)
  then show "gate_hash E (absw kv w) rid \<noteq> Map.empty" unfolding h(1) by force
  have "clock_us w' = clock_us w" using absw_eqD(3) [OF assms(2)] by simp
  then show "fst (request_of_map E (gate_hash E (absw kv w) rid) w') =
      Inr (read_back q (utc_datetime (clock_us w)))"
    unfolding h(1) using request_of_map_to_dict [of q E w'] h(2,3) by simp
qed

lemma read_back_fields [simp]:
  "gq_status (read_back q now) = gq_status q" "gq_task_id (read_back q now) = gq_task_id q"
  "gq_session_id (read_back q now) = gq_session_id q" "gq_request_id (read_back q now) = gq_request_id q"
  "gq_gate_type (read_back q now) = gq_gate_type q" "gq_expires_at (read_back q now) = gq_expires_at q"
  by (simp_all add: read_back_def)

lemma announced_state:
  assumes "announced E chan stamp tid entry ev a b"
  shows "gate_hash E b = gate_hash E a \<and> pending_gates E b = pending_gates E a \<and>
    lists (srv b) (prefixed_key E (ctx_tenant a) (log_base_key tid)) =
      lists (srv a) (prefixed_key E (ctx_tenant a) (log_base_key tid)) @ [dumps (entry_json entry)] \<and>
    (\<exists>i. (i, to_stream_dict (stamp (ctx_tenant a) ev)) \<in> set (streams (srv b) (chan (ctx_tenant a))))"
proof (intro conjI)
  show "gate_hash E b = gate_hash E a"
    by (rule ext) (rule same_gatesD(1) [OF announced_effects(1) [OF assms]])
  show "pending_gates E b = pending_gates E a"
    by (rule same_gatesD(2) [OF announced_effects(1) [OF assms]])
qed (rule announced_effects(4,5) [OF assms])+

text \<open>A bundle, a request and the world that stores it.\<close>

definition demo_bundle :: evidence_bundle where
  "demo_bundle =
     \<lparr>eb_bundle_id = ''b1'', eb_task_id = ''t1'', eb_gate_type = HITL_4_CODE, eb_git_sha = JStr ''c0ffee'',
      eb_items = [\<lparr>ei_item_type = JStr ''artifact'', ei_path = JStr ''a.patch'',
                   ei_description = JStr ''the patch'', ei_content_hash = JStr ''h'', ei_metadata = JObj []\<rparr>],
      eb_created_at = utc_datetime 0, eb_summary = ''demo''\<rparr>"

definition demo_request :: gate_request where
  "demo_request =
     \<lparr>gq_request_id = ''0'', gq_task_id = ''t1'', gq_session_id = ''s1'', gq_gate_type = HITL_4_CODE,
      gq_status = GS_PENDING, gq_evidence_bundle = demo_bundle, gq_requested_by = ''coding'',
      gq_requested_at = utc_datetime 0, gq_expires_at = None\<rparr>"

definition demo_gates :: "(memstore, string list list) world" where
  "demo_gates = snd (request_gate demo_env (stream_publisher demo_env) ''t1'' ''s1'' HITL_4_CODE
     demo_bundle ''coding'' None mem_world)"

lemma opening_effect:
  fixes E :: "('x, 'g) env" and w :: "('x, 'g) world"
    and tid sid :: string and gate :: gate_type and b :: evidence_bundle and agent :: string and ttl :: "int option"
  assumes "redis_server (redis_of E) kv" "validate_evidence_for_gate b = Inr True" "\<not> is_blank sid"
    and "redis_text (eb_git_sha b) = Some sha"
  defines "now \<equiv> utc_datetime (clock_us w)" and "rid \<equiv> uuid_at E (uuid_no w)"
  defines "q \<equiv> \<lparr>gq_request_id = rid, gq_task_id = tid, gq_session_id = sid, gq_gate_type = gate,
                gq_status = GS_PENDING, gq_evidence_bundle = b, gq_requested_by = agent,
                gq_requested_at = now, gq_expires_at = expiry ttl now\<rparr>"
    and "log \<equiv> prefixed_key E (ctx_tenant w) (log_base_key tid)"
  shows "yields kv (request_gate E (stream_publisher E) tid sid gate b agent ttl) w (\<lambda>r a. r = Inr q \<and>
    gate_hash E a rid = gate_hash E (absw kv w) rid ++ map_of (request_to_dict q) \<and>
    pending_gates E a = (pending_gates E (absw kv w))(rid \<mapsto> expiry_score (expiry ttl now)) \<and>
    lists (srv a) log = lists (srv (absw kv w)) log @ [dumps (entry_json (request_entry q now))] \<and>
    (\<exists>i. (i, to_stream_dict (complete_event E (ctx_tenant w)
         (requested_event sid tid gate rid (eb_bundle_id b) now)))
       \<in> set (streams (srv a) (event_channel E (ctx_tenant w)))))"
proof -
  have "post_init (requested_event sid tid gate rid (eb_bundle_id b) now) =
      Inr (requested_event sid tid gate rid (eb_bundle_id b) now)"
    using assms(3) by (simp add: requested_event_def blank_event_def post_init_def aware_utc_def
      now_def utc_datetime_def)
  from gate_world.request_gate [OF gate_world_of [OF assms(1)] assms(2),
      where tid = tid and agent = agent and ttl = ttl, OF this [unfolded rid_def now_def] assms(4)]
  show ?thesis
    unfolding rid_def [symmetric] now_def [symmetric] q_def [symmetric] log_def
  proof (rule yields_mono, goal_cases)
    case (1 r a)
    show ?case
      using conjunct1 [OF 1] announced_state [OF conjunct2 [OF 1]] by simp
  qed
qed

text \<open>A gate request with sufficient evidence is answered with a pending request under a fresh
  identifier.  The request and its bundle are stored, it is pending until its expiry, one
  entry is added to the log of the task, and one event is on the stream.\<close>

theorem request_gate_opens:
  fixes E :: "('x, 'g) env" and w :: "('x, 'g) world"
    and tid sid :: string and gate :: gate_type and b :: evidence_bundle and agent :: string and ttl :: "int option"
  assumes "redis_server (redis_of E) kv" "validate_evidence_for_gate b = Inr True" "\<not> is_blank sid"
    and "redis_text (eb_git_sha b) = Some sha"
  defines "now \<equiv> utc_datetime (clock_us w)" and "rid \<equiv> uuid_at E (uuid_no w)"
  defines "q \<equiv> \<lparr>gq_request_id = rid, gq_task_id = tid, gq_session_id = sid, gq_gate_type = gate,
                gq_status = GS_PENDING, gq_evidence_bundle = b, gq_requested_by = agent,
                gq_requested_at = now, gq_expires_at = expiry ttl now\<rparr>"
    and "log \<equiv> prefixed_key E (ctx_tenant w) (log_base_key tid)"
  shows "yields kv (request_gate E (stream_publisher E) tid sid gate b agent ttl) w (\<lambda>r a. r = Inr q \<and>
    gate_hash E a rid = gate_hash E (absw kv w) rid ++ map_of (request_to_dict q) \<and>
    pending_gates E a = (pending_gates E (absw kv w))(rid \<mapsto> expiry_score (expiry ttl now)) \<and>
    lists (srv a) log = lists (srv (absw kv w)) log @ [dumps (entry_json (request_entry q now))] \<and>
    (\<exists>i. (i, to_stream_dict (complete_event E (ctx_tenant w)
         (requested_event sid tid gate rid (eb_bundle_id b) now)))
       \<in> set (streams (srv a) (event_channel E (ctx_tenant w)))))"
  unfolding now_def rid_def q_def log_def by (rule opening_effect [OF assms(1-4)])

lemma demo_evidence: "validate_evidence_for_gate demo_bundle = Inr True" "redis_text (eb_git_sha demo_bundle) = Some ''c0ffee''"
  by (simp_all add: validate_evidence_iff demo_bundle_def hashable_def)

lemma request_gate_opens_witness:
  "fst (request_gate demo_env (stream_publisher demo_env) ''t1'' ''s1'' HITL_4_CODE demo_bundle ''coding''
     None mem_world) = Inr demo_request"
proof -
  have "uuid_at demo_env (uuid_no mem_world) = ''0''" "clock_us mem_world = 0"
    by (simp_all add: mem_env_def mem_world_def) code_simp
  then show ?thesis
    using request_gate_opens [of demo_env mem_abs demo_bundle "''s1''" "''c0ffee''" "''t1''" HITL_4_CODE "''coding''" None mem_world]
      mem.redis_server_axioms demo_evidence
    by (simp add: yields_def is_blank_def demo_request_def expiry_def)
qed

text \<open>Evidence is accepted exactly when every item type can be an element of a set and some
  item has one of the types listed for the gate; otherwise the request is refused and nothing
  is stored, logged or published.  One of the listed types is enough.\<close>

theorem evidence_decides:
  assumes "redis_server (redis_of E) kv"
  shows "(validate_evidence_for_gate b = Inr True \<longleftrightarrow>
     (\<forall>i \<in> set (eb_items b). hashable (ei_item_type i)) \<and>
     (\<exists>req \<in> set (required_evidence (eb_gate_type b)). \<exists>i \<in> set (eb_items b). ei_item_type i = JStr req)) \<and>
    (validate_evidence_for_gate b \<noteq> Inr True \<longrightarrow>
      (\<exists>e. runs kv (request_gate E (stream_publisher E) tid sid gate b agent ttl) w (Inl e) (absw kv w)))"
  using validate_evidence_iff [of b] validate_evidence_cases [of b]
    gate_world.request_gate_refused [OF gate_world_of [OF assms]] by blast

lemma evidence_decides_witness:
  "\<exists>e. runs mem_abs (request_gate demo_env (stream_publisher demo_env) ''t1'' ''s1'' HITL_4_CODE
     (demo_bundle\<lparr>eb_items := []\<rparr>) ''coding'' None) mem_world (Inl e) (absw mem_abs mem_world)"
  using evidence_decides [of demo_env mem_abs "demo_bundle\<lparr>eb_items := []\<rparr>"] mem.redis_server_axioms
  by (simp add: validate_evidence_for_gate_def)

lemma decision_effect:
  fixes E :: "('x, 'g) env" and w :: "('x, 'g) world"
    and rid :: string and q :: gate_request and ok :: bool and who why :: string and conds :: "string list option"
  assumes "redis_server (redis_of E) kv" "holds_request E (absw kv w) rid q" "gq_status q = GS_PENDING"
    and "\<not> is_blank (gq_session_id q)"
  defines "d \<equiv> \<lparr>gd_decision_id = uuid_at E (Suc (uuid_no w)), gd_request_id = rid, gd_approved = ok,
      gd_reviewer = who, gd_reason = why, gd_decided_at = utc_datetime (clock_us w),
      gd_conditions = conditions_json conds\<rparr>"
    and "log \<equiv> prefixed_key E (ctx_tenant w) (log_base_key (gq_task_id q))"
  shows "yields kv (record_decision E (stream_publisher E) rid ok who why conds) w (\<lambda>r a. r = Inr d \<and>
    gate_hash E a rid = map_of (request_to_dict (q\<lparr>gq_status := decided_status ok\<rparr>)) \<and>
    pending_gates E a = (pending_gates E (absw kv w))(rid := None) \<and>
    lists (srv a) log = lists (srv (absw kv w)) log @
      [dumps (entry_json (decision_entry (q\<lparr>gq_status := decided_status ok\<rparr>) d))] \<and>
    (\<exists>i. (i, to_stream_dict (complete_event E (ctx_tenant w) (decided_event q rid d)))
       \<in> set (streams (srv a) (event_channel E (ctx_tenant w)))))"
proof -
  let ?q = "read_back q (utc_datetime (clock_us w))"
  note h = holds_request_map [OF assms(2)]
  have same: "decision_entry (?q\<lparr>gq_status := st\<rparr>) d = decision_entry (q\<lparr>gq_status := st\<rparr>) d"
    "decided_event ?q rid d = decided_event q rid d" for st
    by (simp_all add: decision_entry_def decided_event_def)
  have post: "post_init (decided_event ?q rid d) = Inr (decided_event q rid d)"
    using assms(4) by (simp add: decided_event_def blank_event_def post_init_def aware_utc_def
      d_def utc_datetime_def)
  have upd: "(map_of (request_to_dict q))(''status'' \<mapsto> gate_status_value st) =
      map_of (request_to_dict (q\<lparr>gq_status := st\<rparr>))" for st
    by (rule ext) (simp add: request_to_dict_def split: option.splits)
  have g: "gate_hash E (absw kv w) rid = map_of (request_to_dict q)"
    using assms(2) by (simp add: holds_request_def)
  have pend: "gq_status ?q = GS_PENDING" using assms(3) by simp
  have "yields kv (record_decision E (stream_publisher E) rid ok who why conds) w (\<lambda>r a. r = Inr d \<and>
    announced E (event_channel E) (complete_event E) (gq_task_id ?q)
      (decision_entry (?q\<lparr>gq_status := decided_status ok\<rparr>) d) (decided_event q rid d)
      (set_pending E rid None (set_gate E rid [(''status'', gate_status_value (decided_status ok))]
        ((absw kv w)\<lparr>uuid_no := Suc (Suc (uuid_no w))\<rparr>))) a)"
    unfolding d_def
    by (rule gate_world.record_decision [OF gate_world_of [OF assms(1)] h(1) [OF refl] h(2) pend
        post [unfolded d_def]])
  then show ?thesis
    unfolding log_def
  proof (rule yields_mono, goal_cases)
    case (1 r a)
    show ?case
      using conjunct1 [OF 1] announced_state [OF conjunct2 [OF 1]] by (simp add: same g upd)
  qed
qed

text \<open>C4: a decision on a pending request is recorded whatever its expiry says.  The status becomes
  approved or rejected and no other field changes, the request leaves the pending set, the
  decision is logged under the task and published.\<close>

theorem decision_recorded:
  fixes E :: "('x, 'g) env" and w :: "('x, 'g) world"
    and rid :: string and q :: gate_request and ok :: bool and who why :: string and conds :: "string list option"
  assumes "redis_server (redis_of E) kv" "holds_request E (absw kv w) rid q" "gq_status q = GS_PENDING"
    and "\<not> is_blank (gq_session_id q)"
  defines "d \<equiv> \<lparr>gd_decision_id = uuid_at E (Suc (uuid_no w)), gd_request_id = rid, gd_approved = ok,
      gd_reviewer = who, gd_reason = why, gd_decided_at = utc_datetime (clock_us w),
      gd_conditions = conditions_json conds\<rparr>"
    and "log \<equiv> prefixed_key E (ctx_tenant w) (log_base_key (gq_task_id q))"
  shows "yields kv (record_decision E (stream_publisher E) rid ok who why conds) w (\<lambda>r a. r = Inr d \<and>
    gate_hash E a rid = map_of (request_to_dict (q\<lparr>gq_status := decided_status ok\<rparr>)) \<and>
    pending_gates E a = (pending_gates E (absw kv w))(rid := None) \<and>
    lists (srv a) log = lists (srv (absw kv w)) log @
      [dumps (entry_json (decision_entry (q\<lparr>gq_status := decided_status ok\<rparr>) d))] \<and>
    (\<exists>i. (i, to_stream_dict (complete_event E (ctx_tenant w) (decided_event q rid d)))
       \<in> set (streams (srv a) (event_channel E (ctx_tenant w)))))"
  unfolding d_def log_def by (rule decision_effect [OF assms(1-4)])

lemma demo_gate:
  "holds_request demo_env (absw mem_abs demo_gates) ''0'' demo_request"
proof -
  have "uuid_at demo_env (uuid_no mem_world) = ''0''" "clock_us mem_world = 0"
    by (simp_all add: mem_env_def mem_world_def) code_simp
  moreover have "gate_hash demo_env (absw mem_abs mem_world) ''0'' = Map.empty"
    unfolding gate_hash_def by (rule mem_world_empty)
  ultimately have "gate_hash demo_env (absw mem_abs demo_gates) ''0'' = map_of (request_to_dict demo_request)"
    using opening_effect [of demo_env mem_abs demo_bundle "''s1''" "''c0ffee''" "''t1''" HITL_4_CODE "''coding''" None mem_world]
      demo_evidence mem.redis_server_axioms
    by (simp add: yields_def is_blank_def demo_request_def expiry_def demo_gates_def)
  then show ?thesis
    by (simp add: holds_request_def demo_request_def)
qed

lemma decision_recorded_witness:
  "gate_hash demo_env (absw mem_abs (snd (record_decision demo_env (stream_publisher demo_env) ''0'' True
     ''ann'' ''fine'' None demo_gates))) ''0'' =
   map_of (request_to_dict (demo_request\<lparr>gq_status := GS_APPROVED\<rparr>))"
  using decision_recorded [of demo_env mem_abs demo_gates "''0''" demo_request True "''ann''" "''fine''" None]
    mem.redis_server_axioms demo_gate
  by (simp add: yields_def is_blank_def demo_request_def decided_status_def)

text \<open>C5: a request is decided once: whatever the first decision was, a second one on the same
  request is refused, and neither the request nor the pending set changes.  A request that
  does not exist is refused as well.\<close>

theorem decided_once:
  fixes E :: "('x, 'g) env" and w :: "('x, 'g) world" and rid :: string and ok ok' :: bool
    and who why who' why' :: string and conds conds' :: "string list option"
  assumes "redis_server (redis_of E) kv" "holds_request E (absw kv w) rid q" "gq_status q = GS_PENDING"
    and "\<not> is_blank (gq_session_id q)"
  defines "w1 \<equiv> snd (record_decision E (stream_publisher E) rid ok who why conds w)"
  defines "second \<equiv> record_decision E (stream_publisher E) rid ok' who' why' conds' w1"
  shows "fst second = Inl (Exn HITLError (''Gate request is not pending: '' @ rid)) \<and>
    gate_hash E (absw kv (snd second)) rid = gate_hash E (absw kv w1) rid \<and>
    pending_gates E (absw kv (snd second)) = pending_gates E (absw kv w1) \<and>
    (gate_hash E (absw kv w) rid' = Map.empty \<longrightarrow>
      runs kv (record_decision E (stream_publisher E) rid' ok' who' why' conds') w
        (Inl (Exn HITLError (''Gate request not found: '' @ rid'))) (absw kv w))"
proof -
  note gw = gate_world_of [OF assms(1)]
  let ?q = "q\<lparr>gq_status := decided_status ok\<rparr>"
  have "gate_hash E (absw kv w1) rid = map_of (request_to_dict ?q)"
    using decision_effect [OF assms(1-4), of ok who why conds] by (simp add: yields_def w1_def)
  then have h1: "holds_request E (absw kv w1) rid ?q"
    using assms(2) by (simp add: holds_request_def)
  have "runs kv (record_decision E (stream_publisher E) rid ok' who' why' conds') w1
      (Inl (Exn HITLError (''Gate request is not pending: '' @ rid))) ((absw kv w1)\<lparr>uuid_no := Suc (uuid_no w1)\<rparr>)"
    by (rule gate_world.record_decision_settled [OF gw holds_request_map(1) [OF h1 refl] holds_request_map(2) [OF h1]])
      (simp_all add: decided_status_def)
  with gate_world.record_decision_missing [OF gw, of w rid'] show ?thesis
    by (simp add: runs_def second_def)
qed

lemma decided_once_witness:
  "fst (record_decision demo_env (stream_publisher demo_env) ''0'' True ''bob'' ''again'' None
     (snd (record_decision demo_env (stream_publisher demo_env) ''0'' False ''ann'' ''no'' None demo_gates))) =
   Inl (Exn HITLError ''Gate request is not pending: 0'')"
  using decided_once [of demo_env mem_abs demo_gates "''0''" demo_request]
    mem.redis_server_axioms demo_gate
  by (simp add: is_blank_def demo_request_def)

text \<open>C6: a request is in the pending set exactly while its status is pending, as long as the server
  answers.  Deciding a request and sweeping keep this, also when they fail, and so does opening
  one unless its bundle has a commit that cannot be written: then at most the new request is
  stored as pending without being in the set, and the set and all other requests are as before.\<close>

theorem gates_stay_consistent:
  fixes E :: "('x, 'g) env" and w :: "('x, 'g) world" and b :: evidence_bundle and tid sid :: string
    and gate :: gate_type and agent :: string and ttl :: "int option"
  assumes "redis_server (redis_of E) kv" "gates_consistent E (absw kv w)"
  defines "rid \<equiv> uuid_at E (uuid_no w)"
    and "a \<equiv> absw kv (snd (request_gate E (stream_publisher E) tid sid gate b agent ttl w))"
  shows "(gates_consistent E a \<or>
      redis_text (eb_git_sha b) = None \<and> pending_gates E a = pending_gates E (absw kv w) \<and>
      gate_hash E a rid ''status'' = Some ''pending'' \<and>
      (\<forall>i. i \<noteq> rid \<longrightarrow> gate_hash E a i = gate_hash E (absw kv w) i)) \<and>
    gates_consistent E (absw kv (snd (record_decision E (stream_publisher E) did ok who why conds w))) \<and>
    gates_consistent E (absw kv (snd (check_expired E (stream_publisher E) w)))"
  using gate_world.request_gate_consistent [OF gate_world_of [OF assms(1)] assms(2)]
    gate_world.record_decision_consistent [OF gate_world_of [OF assms(1)] assms(2)]
    gate_world.check_expired_consistent [OF gate_world_of [OF assms(1)] assms(2)]
  unfolding a_def rid_def by blast

lemma demo_start_consistent: "gates_consistent demo_env (absw mem_abs mem_world)"
  unfolding gates_consistent_def gate_hash_def mem_world_empty
  by (simp add: pending_gates_def mem_world_def empty_memstore_def mem_abs_def mem_get_def)

lemma gates_stay_consistent_witness:
  "gates_consistent demo_env (absw mem_abs demo_gates) \<and>
   gates_consistent demo_env (absw mem_abs (snd (record_decision demo_env (stream_publisher demo_env) ''7''
     True ''ann'' ''fine'' None mem_world)))"
  using gates_stay_consistent [of demo_env mem_abs mem_world "''t1''" "''s1''" HITL_4_CODE demo_bundle "''coding''" None]
    demo_start_consistent mem.redis_server_axioms demo_evidence(2) by (simp add: demo_gates_def)

text \<open>A commit that is missing leaves a pending request that the set does not list.\<close>

lemma missing_commit_leaves_request:
  fixes E :: "('x, 'g) env" and w :: "('x, 'g) world" and b :: evidence_bundle and tid sid :: string
    and gate :: gate_type and agent :: string and ttl :: "int option"
  assumes "redis_server (redis_of E) kv" "validate_evidence_for_gate b = Inr True" "eb_git_sha b = JNull"
  defines "rid \<equiv> uuid_at E (uuid_no w)"
    and "a \<equiv> absw kv (snd (request_gate E (stream_publisher E) tid sid gate b agent ttl w))"
  assumes "pending_gates E (absw kv w) rid = None"
  shows "gate_hash E a rid ''status'' = Some ''pending'' \<and> pending_gates E a rid = None \<and> \<not> gates_consistent E a"
proof -
  have "redis_text (eb_git_sha b) = None" by (simp add: assms(3) redis_text_def)
  with gate_world.request_gate_stored [OF gate_world_of [OF assms(1)] assms(2), of tid sid gate agent ttl w] assms(6)
  have "gate_hash E a rid ''status'' = Some ''pending''" "pending_gates E a rid = None"
    by (simp_all add: yields_def a_def rid_def map_add_Some_iff request_dict_status)
  then show ?thesis by (auto simp: gates_consistent_def intro!: exI [of _ rid])
qed

text \<open>C7: the sweep.  When it returns, exactly the requests whose expiry lies between the epoch and
  now and whose status is pending are expired and out of the pending set, and every other
  request is as it was; when it fails half-way, this holds of a part of them.\<close>

theorem sweep_expires_due:
  assumes "redis_server (redis_of E) kv"
  shows "yields kv (check_expired E (stream_publisher E)) w
    (\<lambda>r a. \<exists>S \<subseteq> due E (absw kv w). swept E S (absw kv w) a \<and> (\<forall>x. r = Inr x \<longrightarrow> S = due E (absw kv w)))"
  by (rule gate_world.check_expired [OF gate_world_of [OF assms]])

lemma sweep_expires_due_witness:
  "yields mem_abs (check_expired demo_env (stream_publisher demo_env)) demo_gates
    (\<lambda>r a. \<exists>S \<subseteq> due demo_env (absw mem_abs demo_gates). swept demo_env S (absw mem_abs demo_gates) a \<and>
       (\<forall>x. r = Inr x \<longrightarrow> S = due demo_env (absw mem_abs demo_gates)))"
  by (rule sweep_expires_due) (simp add: mem.redis_server_axioms)

text \<open>C15: stored records read back.  A bundle and a decision are read as they were written; a request
  keeps every field but its evidence, which is replaced by an empty bundle of the same
  identifier.\<close>

theorem gate_codecs:
  assumes "wf_bundle b" "json_wf (gd_conditions d)" "valid_datetime (gd_decided_at d)"
    and "valid_datetime (gq_requested_at q)" "\<And>t. gq_expires_at q = Some t \<Longrightarrow> valid_datetime t"
  shows "(\<exists>h. redis_mapping (bundle_to_dict b) = Some h \<and> bundle_of_map now (map_of h) = Inr b) \<and>
    decision_of_map now (map_of (decision_to_dict d)) = Inr d \<and>
    (\<exists>q'. fst (request_of_map E (map_of (request_to_dict q)) w) = Inr q' \<and>
      q' = q\<lparr>gq_evidence_bundle := gq_evidence_bundle q'\<rparr> \<and> eb_items (gq_evidence_bundle q') = [] \<and>
      eb_bundle_id (gq_evidence_bundle q') = eb_bundle_id (gq_evidence_bundle q))"
proof -
  obtain h where "redis_mapping (bundle_to_dict b) = Some h" "bundle_of_map now (Map.empty ++ map_of h) = Inr b"
    by (rule bundle_of_map_put [OF assms(1)])
  then show ?thesis
    using decision_of_map_to_dict [OF assms(2,3)] request_of_map_to_dict [OF assms(4,5), of E w]
    by (auto simp: read_back_def)
qed

lemma gate_codecs_witness:
  "\<exists>h. redis_mapping (bundle_to_dict demo_bundle) = Some h \<and> bundle_of_map (utc_datetime 7) (map_of h) = Inr demo_bundle"
proof -
  have "wf_bundle demo_bundle" by (simp add: wf_bundle_def demo_bundle_def item_to_dict_def)
  then show ?thesis
    by (rule conjunct1 [OF gate_codecs [where q = demo_request and E = demo_env and w = mem_world
      and d = "\<lparr>gd_decision_id = ''1'', gd_request_id = ''0'', gd_approved = True, gd_reviewer = ''ann'',
        gd_reason = ''fine'', gd_decided_at = utc_datetime 0, gd_conditions = JList []\<rparr>"]])
      (simp_all add: demo_request_def)
qed

end
