(* ===== verification/Git_Gateway.thy ===== *)
theory Git_Gateway
  imports World
begin

text \<open>
  The Git gateway, \<^verbatim>\<open>src/orchestrator/git_gateway.py\<close>.  The Git command line is a parameter:
  \<^const>\<open>git_exec\<close> takes the arguments and the repository and gives the exit code, the two
  outputs and the repository it leaves.  The lemmas say which commands an operation issues,
  and that none is issued without the permission.
\<close>

section \<open>Paths\<close>

text \<open>\<^verbatim>\<open>str(Path(p))\<close>: empty and \<^verbatim>\<open>.\<close> components vanish, and two leading slashes (not more) stay.\<close>

definition path_str :: "string \<Rightarrow> string" where
  "path_str p =
     (let parts = filter (\<lambda>c. c \<noteq> [] \<and> c \<noteq> ''.'') (split_on (CHR ''/'') p);
          root = (if starts_with p ''///'' then ''/''
                  else if starts_with p ''//'' then ''//''
                  else if starts_with p ''/'' then ''/'' else []);
          s = root @ py_join ''/'' parts
      in if s = [] then ''.'' else s)"

section \<open>Running Git\<close>

definition is_write_allowed :: "('x, 'g) env \<Rightarrow> bool" where
  "is_write_allowed E \<longleftrightarrow> env_flag (case env_git_write E of None \<Rightarrow> ''false'' | Some v \<Rightarrow> v)"

definition check_write_permission :: "('x, 'g) env \<Rightarrow> ('x, 'g, unit) act" where
  "check_write_permission E =
     (if \<not> is_write_allowed E then
        raise (Exn GitOperationError
          (''Write access not allowed. '' @
           ''Set GIT_WRITE_ACCESS=true in orchestrator container.''))
      else ret ())"

definition run_git ::
  "('x, 'g) env \<Rightarrow> string list \<Rightarrow> bool \<Rightarrow> ('x, 'g, int \<times> string \<times> string) act" where
  "run_git E args chk w =
     (let res = git_exec E args (repo w); w' = w\<lparr>repo := snd res\<rparr>
      in if chk \<and> fst (fst res) \<noteq> 0
         then (Inl (Exn GitOperationError (''Git command failed: '' @ py_join '' '' (''git'' # args))), w')
         else (Inr (fst res), w'))"

definition is_git_error :: "exn_class \<Rightarrow> bool" where
  "is_git_error c \<longleftrightarrow> isinstance_exn c GitOperationError"

section \<open>Operations\<close>

definition get_current_sha :: "('x, 'g) env \<Rightarrow> string \<Rightarrow> ('x, 'g, string) act" where
  "get_current_sha E ref =
     bindE (run_git E [''rev-parse'', ref] True) (\<lambda>(rc, out, err). ret (py_strip out))"

definition verify_sha_exists :: "('x, 'g) env \<Rightarrow> string \<Rightarrow> ('x, 'g, bool) act" where
  "verify_sha_exists E sha =
     try_except
       (bindE (run_git E [''cat-file'', ''-t'', sha] False) (\<lambda>(rc, out, err).
          ret (rc = 0 \<and> is_infix ''commit'' out)))
       any_exception
       (\<lambda>_. ret False)"

text \<open>The two attempts at applying the file, and the commit that follows.\<close>

definition apply_file :: "('x, 'g) env \<Rightarrow> string \<Rightarrow> ('x, 'g, unit) act" where
  "apply_file E patch =
     try_except
       (bindE (run_git E [''apply'', path_str patch] True) (\<lambda>_. ret ()))
       is_git_error
       (\<lambda>e. try_except
              (bindE (run_git E [''apply'', ''--3way'', path_str patch] True) (\<lambda>_. ret ()))
              is_git_error
              (\<lambda>_. raise (Exn GitOperationError (''Failed to apply patch: '' @ patch))))"

definition commit_all :: "('x, 'g) env \<Rightarrow> string \<Rightarrow> string \<Rightarrow> ('x, 'g, string) act" where
  "commit_all E message tid =
     thenE (run_git E [''add'', ''-A''] True)
     (thenE (run_git E [''commit'', ''-m'', message @ [CHR 0x0A, CHR 0x0A] @ ''Task-ID: '' @ tid] True)
     (get_current_sha E ''HEAD''))"

definition apply_patch ::
  "('x, 'g) env \<Rightarrow> string \<Rightarrow> string \<Rightarrow> string \<Rightarrow> ('x, 'g, string) act" where
  "apply_patch E patch message tid =
     thenE (check_write_permission E)
     (\<lambda>w.
       (if \<not> path_exists E (path_str patch) (repo w)
        then raise (Exn GitOperationError (''Patch file not found: '' @ patch))
        else thenE (apply_file E patch) (commit_all E message tid)) w)"

definition create_branch :: "('x, 'g) env \<Rightarrow> string \<Rightarrow> string \<Rightarrow> ('x, 'g, unit) act" where
  "create_branch E branch ref =
     thenE (check_write_permission E)
     (bindE (run_git E [''branch'', branch, ref] True) (\<lambda>_. ret ()))"

definition checkout_branch :: "('x, 'g) env \<Rightarrow> string \<Rightarrow> ('x, 'g, unit) act" where
  "checkout_branch E branch =
     thenE (check_write_permission E)
     (bindE (run_git E [''checkout'', branch] True) (\<lambda>_. ret ()))"

definition merge_branch ::
  "('x, 'g) env \<Rightarrow> string \<Rightarrow> string \<Rightarrow> string option \<Rightarrow> ('x, 'g, string) act" where
  "merge_branch E src tgt message =
     thenE (check_write_permission E)
     (thenE (run_git E [''checkout'', tgt] True)
     (thenE (run_git E ([''merge'', src] @
               (if truthy message then [''-m'', or_else message []] else [])) True)
     (get_current_sha E ''HEAD'')))"

definition get_diff :: "('x, 'g) env \<Rightarrow> string \<Rightarrow> string \<Rightarrow> ('x, 'g, string) act" where
  "get_diff E from_ref to_ref =
     bindE (run_git E [''diff'', from_ref, to_ref] True) (\<lambda>(rc, out, err). ret out)"

record git_status =
  gs_staged :: "string list"
  gs_modified :: "string list"
  gs_untracked :: "string list"

text \<open>One line of the porcelain output; a line of one character has no second status.\<close>

definition status_line :: "string \<Rightarrow> git_status \<Rightarrow> exn + git_status" where
  "status_line line s =
     (let st = take 2 line; file = drop 3 line in
      case st of
        [] \<Rightarrow> Inr s
      | [a] \<Rightarrow> Inl (Exn PyIndexError ''string index out of range'')
      | a # b # _ \<Rightarrow>
          Inr \<lparr>gs_staged = gs_staged s @ (if a \<in> set ''AMDR'' then [file] else []),
               gs_modified = gs_modified s @ (if b = CHR ''M'' then [file] else []),
               gs_untracked = gs_untracked s @ (if st = ''??'' then [file] else [])\<rparr>)"

fun status_lines :: "string list \<Rightarrow> git_status \<Rightarrow> exn + git_status" where
  "status_lines [] s = Inr s"
| "status_lines (l # ls) s =
     (case status_line l s of Inl e \<Rightarrow> Inl e | Inr s' \<Rightarrow> status_lines ls s')"

definition parse_status :: "string \<Rightarrow> exn + git_status" where
  "parse_status out =
     status_lines (split_on (CHR 0x0A) (py_strip out)) \<lparr>gs_staged = [], gs_modified = [], gs_untracked = []\<rparr>"

definition get_status :: "('x, 'g) env \<Rightarrow> ('x, 'g, git_status) act" where
  "get_status E =
     bindE (run_git E [''status'', ''--porcelain''] True) (\<lambda>(rc, out, err).
       lift_result (parse_status out))"

definition reset_hard :: "('x, 'g) env \<Rightarrow> string \<Rightarrow> ('x, 'g, unit) act" where
  "reset_hard E ref =
     thenE (check_write_permission E)
     (bindE (run_git E [''reset'', ''--hard'', ref] True) (\<lambda>_. ret ()))"

definition clean_untracked :: "('x, 'g) env \<Rightarrow> ('x, 'g, unit) act" where
  "clean_untracked E =
     thenE (check_write_permission E)
     (bindE (run_git E [''clean'', ''-fd''] True) (\<lambda>_. ret ()))"

section \<open>Lemmas\<close>

lemma git_error_class [simp]: "is_git_error GitOperationError"
  by (simp add: is_git_error_def isinstance_exn_def eval_nat_numeral)

lemma run_git_simps:
  "fst (run_git E args chk w) =
     (if chk \<and> fst (fst (git_exec E args (repo w))) \<noteq> 0
      then Inl (Exn GitOperationError (''Git command failed: '' @ py_join '' '' (''git'' # args)))
      else Inr (fst (git_exec E args (repo w))))"
  "snd (run_git E args chk w) = w\<lparr>repo := snd (git_exec E args (repo w))\<rparr>"
  by (simp_all add: run_git_def Let_def)

text \<open>Commands run one after the other until one of them fails.\<close>

fun run_script ::
  "('x, 'g) env \<Rightarrow> string list list \<Rightarrow> 'g \<Rightarrow> string \<Rightarrow> string option \<times> 'g" where
  "run_script E [] g out = (Some out, g)"
| "run_script E (c # cs) g out =
     (let r = git_exec E c g
      in if fst (fst r) \<noteq> 0 then (None, snd r)
         else run_script E cs (snd r) (fst (snd (fst r))))"

definition commit_script :: "string \<Rightarrow> string \<Rightarrow> string list list" where
  "commit_script message tid =
     [[''add'', ''-A''],
      [''commit'', ''-m'', message @ [CHR 0x0A, CHR 0x0A] @ ''Task-ID: '' @ tid],
      [''rev-parse'', ''HEAD'']]"

text \<open>What \<^const>\<open>apply_patch\<close> does once the patch has been applied, one way or the other.\<close>

lemma commit_all:
  fixes w :: "('x, 'g) world" and E :: "('x, 'g) env" and message tid :: string
  defines "s \<equiv> run_script E (commit_script message tid) (repo w) []"
  shows "snd (commit_all E message tid w) = w\<lparr>repo := snd s\<rparr>"
    and "case fst s of Some out \<Rightarrow> fst (commit_all E message tid w) = Inr (py_strip out)
       | None \<Rightarrow> \<exists>msg. fst (commit_all E message tid w) = Inl (Exn GitOperationError msg)"
  by (auto simp: commit_all_def s_def commit_script_def thenE_def bindE_def get_current_sha_def
      run_git_simps Let_def split_def split: if_splits)

definition patched :: "('x, 'g) env \<Rightarrow> string \<Rightarrow> 'g \<Rightarrow> bool \<times> 'g" where
  "patched E p g =
     (let r = git_exec E [''apply'', path_str p] g in
      if fst (fst r) = 0 then (True, snd r)
      else (let r3 = git_exec E [''apply'', ''--3way'', path_str p] (snd r) in (fst (fst r3) = 0, snd r3)))"

lemma apply_file:
  "fst (apply_file E p w) =
     (if fst (patched E p (repo w)) then Inr ()
      else Inl (Exn GitOperationError (''Failed to apply patch: '' @ p)))"
  "snd (apply_file E p w) = w\<lparr>repo := snd (patched E p (repo w))\<rparr>"
  by (auto simp: apply_file_def patched_def try_except_def bindE_def run_git_simps Let_def)

lemma apply_patch_refused:
  "\<not> is_write_allowed E \<Longrightarrow>
   \<exists>msg. apply_patch E p message tid w = (Inl (Exn GitOperationError msg), w)"
  by (simp add: apply_patch_def check_write_permission_def thenE_def raise_def)

lemma apply_patch_missing:
  "is_write_allowed E \<Longrightarrow> \<not> path_exists E (path_str p) (repo w) \<Longrightarrow>
   apply_patch E p message tid w = (Inl (Exn GitOperationError (''Patch file not found: '' @ p)), w)"
  by (simp add: apply_patch_def check_write_permission_def raise_def)

lemma apply_patch_split:
  assumes "is_write_allowed E" "path_exists E (path_str p) (repo w)"
  shows "apply_patch E p message tid w =
    (if fst (patched E p (repo w))
     then commit_all E message tid (w\<lparr>repo := snd (patched E p (repo w))\<rparr>)
     else (Inl (Exn GitOperationError (''Failed to apply patch: '' @ p)),
           w\<lparr>repo := snd (patched E p (repo w))\<rparr>))"
  using assms by (simp add: apply_patch_def check_write_permission_def thenE_def bindE_def apply_file)

lemma apply_patch_runs:
  fixes w :: "('x, 'g) world" and E :: "('x, 'g) env"
  assumes "is_write_allowed E" "path_exists E (path_str p) (repo w)"
  shows "\<not> fst (patched E p (repo w)) \<Longrightarrow> apply_patch E p message tid w =
      (Inl (Exn GitOperationError (''Failed to apply patch: '' @ p)),
       w\<lparr>repo := snd (patched E p (repo w))\<rparr>)"
    and "fst (patched E p (repo w)) \<Longrightarrow> snd (apply_patch E p message tid w) =
      w\<lparr>repo := snd (run_script E (commit_script message tid) (snd (patched E p (repo w))) [])\<rparr>"
    and "fst (patched E p (repo w)) \<Longrightarrow>
      (case fst (run_script E (commit_script message tid) (snd (patched E p (repo w))) []) of
         Some out \<Rightarrow> fst (apply_patch E p message tid w) = Inr (py_strip out)
       | None \<Rightarrow> \<exists>msg. fst (apply_patch E p message tid w) = Inl (Exn GitOperationError msg))"
  using commit_all [of E message tid "w\<lparr>repo := snd (patched E p (repo w))\<rparr>"]
  by (simp_all add: apply_patch_split [OF assms] split: option.splits)

text \<open>No operation of the gateway touches anything but the repository.\<close>

definition repo_only :: "('x, 'g) world \<Rightarrow> ('x, 'g) world \<Rightarrow> bool" where
  "repo_only w w' \<longleftrightarrow> w' = w\<lparr>repo := repo w'\<rparr>"

lemma repo_onlyD:
  assumes "repo_only w w'"
  shows "srv w' = srv w" "clock_us w' = clock_us w" "uuid_no w' = uuid_no w" "ctx_tenant w' = ctx_tenant w"
  by (subst assms [unfolded repo_only_def], simp)+

lemma repo_only_rel: "reflp repo_only" "transp repo_only"
  by (auto simp: reflp_def transp_def repo_only_def) (metis world.surjective world.update_convs(2))

lemma repo_only_run_git: "preserves repo_only (run_git E args chk)"
  by (rule preservesI) (simp add: repo_only_def run_git_simps)

lemma apply_patch_repo_only: "repo_only w (snd (apply_patch E p message tid w))"
proof (cases "is_write_allowed E \<and> path_exists E (path_str p) (repo w)")
  case True
  then show ?thesis
    using apply_patch_runs [of E p w message tid]
    by (cases "fst (patched E p (repo w))") (auto simp: repo_only_def)
next
  case False
  then have "snd (apply_patch E p message tid w) = w"
    using apply_patch_refused [of E p message tid w] apply_patch_missing [of E p w message tid]
    by (cases "is_write_allowed E") auto
  then show ?thesis by (simp add: repo_only_def)
qed

text \<open>A first line that is not staged is read as staged, with its name cut.\<close>

lemma split_on_strip_line:
  assumes "p \<noteq> []" "\<forall>c \<in> set p. \<not> is_space c"
  shows "py_strip (CHR '' '' # CHR ''M'' # CHR '' '' # p @ [CHR 0x0A]) = CHR ''M'' # CHR '' '' # p"
proof -
  have sp: "is_space (CHR '' '')" "\<not> is_space (CHR ''M'')" "is_space (CHR 0x0A)"
    by (simp_all add: is_space_def code_point_def)
  obtain c q where "rev p = c # q" using assms(1) by (cases "rev p") auto
  moreover have "\<not> is_space c" using assms(2) calculation by (metis list.set_intros(1) set_rev)
  ultimately show ?thesis
    by (simp add: py_strip_def sp)
qed

lemma parse_status_first_line:
  assumes "p \<noteq> []" "\<forall>c \<in> set p. \<not> is_space c"
  shows "parse_status (CHR '' '' # CHR ''M'' # CHR '' '' # p @ [CHR 0x0A]) =
    Inr \<lparr>gs_staged = [tl p], gs_modified = [], gs_untracked = []\<rparr>"
proof -
  have nl: "is_space (CHR 0x0A)" by (simp add: is_space_def code_point_def)
  then have "CHR 0x0A \<notin> set (CHR ''M'' # CHR '' '' # p)" using assms(2) by auto
  then have "split_on (CHR 0x0A) (CHR ''M'' # CHR '' '' # p) = [CHR ''M'' # CHR '' '' # p]"
    by (rule split_on_no_sep)
  then show ?thesis
    unfolding parse_status_def split_on_strip_line [OF assms]
    by (simp add: status_line_def eval_nat_numeral drop_Suc)
qed

section \<open>The promises of the gateway\<close>

text \<open>\<^verbatim>\<open>apply_patch\<close> with the permission and an existing file applies the file, falls back to a
  three-way merge when that fails, and gives up when both do; once the file is applied, it
  stages everything, commits with the task identifier and returns the new head, and stops at
  the first command that fails.\<close>

theorem apply_patch_script:
  fixes w :: "('x, 'g) world" and E :: "('x, 'g) env" and p message tid :: string
  assumes "is_write_allowed E" "path_exists E (path_str p) (repo w)"
  defines "script \<equiv> run_script E (commit_script message tid) (snd (patched E p (repo w))) []"
  shows "if fst (patched E p (repo w))
    then snd (apply_patch E p message tid w) = w\<lparr>repo := snd script\<rparr> \<and>
      (case fst script of
         Some out \<Rightarrow> fst (apply_patch E p message tid w) = Inr (py_strip out)
       | None \<Rightarrow> \<exists>msg. fst (apply_patch E p message tid w) = Inl (Exn GitOperationError msg))
    else apply_patch E p message tid w =
      (Inl (Exn GitOperationError (''Failed to apply patch: '' @ p)), w\<lparr>repo := snd (patched E p (repo w))\<rparr>)"
  using apply_patch_runs [OF assms(1,2), of message tid] by (simp add: script_def)

lemma apply_patch_script_witness:
  "repo (snd (apply_patch demo_env ''./a.patch'' ''msg'' ''t1'' mem_world)) =
     [[''apply'', ''a.patch''], [''add'', ''-A''],
      [''commit'', ''-m'', ''msg'' @ [CHR 0x0A, CHR 0x0A] @ ''Task-ID: t1''], [''rev-parse'', ''HEAD'']]"
proof -
  have "is_write_allowed demo_env" by code_simp
  moreover have "path_str ''./a.patch'' = ''a.patch''" by code_simp
  ultimately show ?thesis
    using apply_patch_script [of demo_env "''./a.patch''" mem_world "''msg''" "''t1''"]
    by (simp add: mem_env_def mem_world_def patched_def commit_script_def)
qed

text \<open>Without the permission every mutating operation raises a \<^verbatim>\<open>GitOperationError\<close> and runs no
  command at all.\<close>

theorem git_writes_guarded:
  assumes "\<not> is_write_allowed E"
  shows "\<exists>m. apply_patch E p msg tid w = (Inl (Exn GitOperationError m), w) \<and>
    create_branch E br ref w = (Inl (Exn GitOperationError m), w) \<and>
    checkout_branch E br w = (Inl (Exn GitOperationError m), w) \<and>
    merge_branch E br br' opt w = (Inl (Exn GitOperationError m), w) \<and>
    reset_hard E ref w = (Inl (Exn GitOperationError m), w) \<and>
    clean_untracked E w = (Inl (Exn GitOperationError m), w)"
  using assms
  by (simp add: apply_patch_def create_branch_def checkout_branch_def merge_branch_def reset_hard_def
      clean_untracked_def check_write_permission_def thenE_def bindE_def raise_def)

lemma git_writes_guarded_witness:
  "\<exists>m. reset_hard (demo_env\<lparr>env_git_write := Some ''no''\<rparr>) ''HEAD'' mem_world =
     (Inl (Exn GitOperationError m), mem_world)"
proof -
  have "\<not> env_flag ''no''" by code_simp
  then have "\<not> is_write_allowed (demo_env\<lparr>env_git_write := Some ''no''\<rparr>)" by (simp add: is_write_allowed_def)
  from git_writes_guarded [OF this] show ?thesis by blast
qed

text \<open>The status of a repository with one modified file that is not staged.  The output is
  stripped before its lines are cut, which removes the blank first column of the first line:
  the file is reported as staged and its name loses its first letter.\<close>

theorem status_misreads_first_line:
  assumes "p \<noteq> []" "\<forall>c \<in> set p. \<not> is_space c"
    and "git_exec E [''status'', ''--porcelain''] (repo w) = ((0, '' M '' @ p @ [CHR 0x0A], err), g)"
  shows "fst (get_status E w) = Inr \<lparr>gs_staged = [tl p], gs_modified = [], gs_untracked = []\<rparr>"
  using parse_status_first_line [OF assms(1,2)] assms(3)
  by (simp add: get_status_def bindE_def run_git_simps)

lemma status_misreads_first_line_witness:
  "fst (get_status (demo_env\<lparr>git_exec := (\<lambda>args g. ((0, '' M README'' @ [CHR 0x0A], []), g))\<rparr>) mem_world) =
     Inr \<lparr>gs_staged = [''EADME''], gs_modified = [], gs_untracked = []\<rparr>"
proof -
  have "\<forall>c \<in> set ''README''. \<not> is_space c" by code_simp
  from status_misreads_first_line [OF _ this, of "demo_env\<lparr>git_exec := (\<lambda>args g. ((0, '' M README'' @ [CHR 0x0A], []), g))\<rparr>"]
  show ?thesis by simp
qed

end
