(* ===== verification/Manager.thy ===== *)
theory Manager
  imports Git_Gateway Streams
begin

text \<open>
  The manager agent, \<^verbatim>\<open>src/orchestrator/manager_agent.py\<close>: one function per handler, the
  routing of \<^verbatim>\<open>handle\<close> and the dispatch to a worker.  The publisher is the argument \<open>pub\<close>.
  The lemmas give the task transitions every handler can make.
\<close>

definition handled_event_types :: "event_type set" where
  "handled_event_types =
     {TASK_CREATED, TASK_DISPATCHED, AGENT_COMPLETED, AGENT_ERROR, TASK_FAILED, GATE_APPROVED,
      GATE_REJECTED, PATCH_CREATED}"

definition can_handle :: "event_type \<Rightarrow> bool" where
  "can_handle t \<longleftrightarrow> t \<in> handled_event_types"

definition rlm_fail_threshold :: int where
  "rlm_fail_threshold = 4"

text \<open>
  What the Redis client makes of a decoded value assigned to \<^verbatim>\<open>current_agent\<close>: a false value is
  left out of the hash, text is kept, a number is written in decimal, and anything else is
  a \<^verbatim>\<open>DataError\<close>, raised before the command is sent.
\<close>

definition agent_field :: "json \<Rightarrow> exn + string option" where
  "agent_field v =
     (if \<not> json_truthy v then Inr None
      else (case v of
              JStr s \<Rightarrow> Inr (Some s)
            | JInt n \<Rightarrow> Inr (Some (int_str n))
            | _ \<Rightarrow> Inl (Exn RedisRedisError ''Invalid input of type'')))"

text \<open>\<^verbatim>\<open>update_state(task_id, TaskState.IN_PROGRESS, current_agent=v)\<close>\<close>

definition start_agent :: "('x, 'g) env \<Rightarrow> string \<Rightarrow> json \<Rightarrow> ('x, 'g, task) act" where
  "start_agent E tid v =
     bindE (load_for_update E tid IN_PROGRESS) (\<lambda>t.
     bindE (lift_result (agent_field v)) (\<lambda>a.
     commit_update E tid IN_PROGRESS [Upd_current_agent a] t))"

text \<open>\<^verbatim>\<open>if not event.task_id: return\<close>\<close>

definition with_task_id :: "asdlc_event \<Rightarrow> (string \<Rightarrow> ('x, 'g, unit) act) \<Rightarrow> ('x, 'g, unit) act" where
  "with_task_id ev body =
     (case ev_task_id ev of None \<Rightarrow> ret () | Some tid \<Rightarrow> if tid = [] then ret () else body tid)"

text \<open>\<^verbatim>\<open>task = await get_task(...); if task is None: return\<close>\<close>

definition with_task ::
  "('x, 'g) env \<Rightarrow> string \<Rightarrow> (task \<Rightarrow> ('x, 'g, unit) act) \<Rightarrow> ('x, 'g, unit) act" where
  "with_task E tid body =
     bindE (get_task E tid) (\<lambda>found. case found of None \<Rightarrow> ret () | Some t \<Rightarrow> body t)"

text \<open>An event made now and handed to the publisher.\<close>

definition publish_now ::
  "(asdlc_event \<Rightarrow> ('x, 'g, string) act) \<Rightarrow> (datetime \<Rightarrow> asdlc_event) \<Rightarrow> ('x, 'g, unit) act" where
  "publish_now pub mk =
     bindE now_utc (\<lambda>now.
     bindE (new_event (mk now)) (\<lambda>e.
     bindE (pub e) (\<lambda>_. ret ())))"

section \<open>Handlers\<close>

definition handle_task_created :: "('x, 'g) env \<Rightarrow> asdlc_event \<Rightarrow> ('x, 'g, unit) act" where
  "handle_task_created E ev =
     bindE now_utc (\<lambda>now.
     bindE (create_task E
       \<lparr>t_task_id = or_else (ev_task_id ev) [], t_session_id = ev_session_id ev,
        t_epic_id = or_else (ev_epic_id ev) [], t_state = PENDING, t_created_at = now,
        t_updated_at = now, t_fail_count = 0, t_current_agent = None, t_git_sha = ev_git_sha ev,
        t_artifact_paths = []\<rparr>)
     (\<lambda>_. ret ()))"

definition handle_task_dispatched :: "('x, 'g) env \<Rightarrow> asdlc_event \<Rightarrow> ('x, 'g, unit) act" where
  "handle_task_dispatched E ev =
     with_task_id ev (\<lambda>tid.
     with_task E tid (\<lambda>t.
     bindE (lift_result (meta_get ev ''agent_type'' (JStr ''unknown''))) (\<lambda>agent.
     bindE (start_agent E tid agent) (\<lambda>_. ret ()))))"

definition debug_event :: "task \<Rightarrow> int \<Rightarrow> json \<Rightarrow> datetime \<Rightarrow> asdlc_event" where
  "debug_event t n msg now =
     (blank_event AGENT_STARTED (t_session_id t) now)
       \<lparr>ev_task_id := Some (t_task_id t), ev_epic_id := Some (t_epic_id t), ev_mode := ''rlm'',
        ev_metadata := JObj [(''agent_type'', JStr ''debugger''), (''fail_count'', JInt n),
                             (''error_message'', msg)]\<rparr>"

definition handle_task_failure ::
  "('x, 'g) env \<Rightarrow> (asdlc_event \<Rightarrow> ('x, 'g, string) act) \<Rightarrow> task \<Rightarrow> json \<Rightarrow> ('x, 'g, unit) act" where
  "handle_task_failure E pub t msg =
     bindE (increment_fail_count E (t_task_id t)) (\<lambda>n.
       if n > rlm_fail_threshold then publish_now pub (debug_event t n msg) else ret ())"

definition patch_message :: "string \<Rightarrow> string" where
  "patch_message tid = ''Apply patch for task '' @ tid"

text \<open>The loop over the patches; the result says whether the handler goes on after it.\<close>

fun apply_patches ::
  "('x, 'g) env \<Rightarrow> (asdlc_event \<Rightarrow> ('x, 'g, string) act) \<Rightarrow> asdlc_event \<Rightarrow> task \<Rightarrow> string \<Rightarrow>
   string list \<Rightarrow> ('x, 'g, bool) act" where
  "apply_patches E pub ev t tid [] = ret True"
| "apply_patches E pub ev t tid (p # ps) =
     bindE (try_except
              (bindE (apply_patch E p (patch_message tid) tid) (\<lambda>sha.
               thenE (update_git_sha E (ev_session_id ev) sha) (ret True)))
              any_exception
              (\<lambda>e. thenE (handle_task_failure E pub t (JStr (message_of e))) (ret False)))
     (\<lambda>ok. if ok then apply_patches E pub ev t tid ps else ret False)"

definition test_event :: "asdlc_event \<Rightarrow> string \<Rightarrow> datetime \<Rightarrow> asdlc_event" where
  "test_event ev tid now =
     (blank_event TASK_DISPATCHED (ev_session_id ev) now)
       \<lparr>ev_task_id := Some tid, ev_metadata := JObj [(''agent_type'', JStr ''test-runner'')]\<rparr>"

definition handle_agent_completed ::
  "('x, 'g) env \<Rightarrow> (asdlc_event \<Rightarrow> ('x, 'g, string) act) \<Rightarrow> asdlc_event \<Rightarrow> ('x, 'g, unit) act" where
  "handle_agent_completed E pub ev =
     with_task_id ev (\<lambda>tid.
     with_task E tid (\<lambda>t.
       let patches = filter (\<lambda>p. ends_with p ''.patch'') (ev_artifact_paths ev) in
       bindE (if patches \<noteq> [] \<and> is_write_allowed E
              then apply_patches E pub ev t tid patches else ret True) (\<lambda>ok.
         if ok then
           bindE (update_state E tid TESTING []) (\<lambda>_. publish_now pub (test_event ev tid))
         else ret ())))"

definition handle_failed_event ::
  "('x, 'g) env \<Rightarrow> (asdlc_event \<Rightarrow> ('x, 'g, string) act) \<Rightarrow> string \<Rightarrow> asdlc_event \<Rightarrow> ('x, 'g, unit) act" where
  "handle_failed_event E pub dflt ev =
     with_task_id ev (\<lambda>tid.
     with_task E tid (\<lambda>t.
     bindE (lift_result (meta_get ev ''error_message'' (JStr dflt))) (\<lambda>msg.
     handle_task_failure E pub t msg)))"

definition handle_agent_error ::
  "('x, 'g) env \<Rightarrow> (asdlc_event \<Rightarrow> ('x, 'g, string) act) \<Rightarrow> asdlc_event \<Rightarrow> ('x, 'g, unit) act" where
  "handle_agent_error E pub ev = handle_failed_event E pub ''Agent error'' ev"

definition handle_task_failed ::
  "('x, 'g) env \<Rightarrow> (asdlc_event \<Rightarrow> ('x, 'g, string) act) \<Rightarrow> asdlc_event \<Rightarrow> ('x, 'g, unit) act" where
  "handle_task_failed E pub ev = handle_failed_event E pub ''Task failed'' ev"

definition complete_task_event :: "asdlc_event \<Rightarrow> string \<Rightarrow> datetime \<Rightarrow> asdlc_event" where
  "complete_task_event ev tid now =
     (blank_event TASK_COMPLETED (ev_session_id ev) now)\<lparr>ev_task_id := Some tid\<rparr>"

definition handle_gate_approved ::
  "('x, 'g) env \<Rightarrow> (asdlc_event \<Rightarrow> ('x, 'g, string) act) \<Rightarrow> asdlc_event \<Rightarrow> ('x, 'g, unit) act" where
  "handle_gate_approved E pub ev =
     with_task_id ev (\<lambda>tid.
     with_task E tid (\<lambda>t.
       if t_state t = BLOCKED_HITL then
         bindE (update_state E tid COMPLETE []) (\<lambda>_. publish_now pub (complete_task_event ev tid))
       else ret ()))"

definition retry_event :: "asdlc_event \<Rightarrow> string \<Rightarrow> task \<Rightarrow> int \<Rightarrow> json \<Rightarrow> datetime \<Rightarrow> asdlc_event" where
  "retry_event ev tid t n feedback now =
     (blank_event AGENT_STARTED (ev_session_id ev) now)
       \<lparr>ev_task_id := Some tid, ev_epic_id := Some (t_epic_id t),
        ev_mode := (if n > rlm_fail_threshold then ''rlm'' else ''normal''),
        ev_metadata := JObj [(''agent_type'', JStr (or_else (t_current_agent t) ''coding-agent'')),
                             (''retry'', JBool True), (''fail_count'', JInt n),
                             (''feedback'', feedback)]\<rparr>"

definition handle_gate_rejected ::
  "('x, 'g) env \<Rightarrow> (asdlc_event \<Rightarrow> ('x, 'g, string) act) \<Rightarrow> asdlc_event \<Rightarrow> ('x, 'g, unit) act" where
  "handle_gate_rejected E pub ev =
     with_task_id ev (\<lambda>tid.
     with_task E tid (\<lambda>t.
     bindE (increment_fail_count E tid) (\<lambda>n.
     bindE (update_state E tid IN_PROGRESS []) (\<lambda>_.
     bindE (lift_result (meta_get ev ''feedback'' (JStr ''Gate rejected''))) (\<lambda>feedback.
     publish_now pub (retry_event ev tid t n feedback))))))"

definition applied_event :: "asdlc_event \<Rightarrow> string \<Rightarrow> string \<Rightarrow> datetime \<Rightarrow> asdlc_event" where
  "applied_event ev tid sha now =
     (blank_event PATCH_APPLIED (ev_session_id ev) now)
       \<lparr>ev_task_id := Some tid, ev_git_sha := Some sha\<rparr>"

definition patch_rejected_event :: "asdlc_event \<Rightarrow> string \<Rightarrow> string \<Rightarrow> datetime \<Rightarrow> asdlc_event" where
  "patch_rejected_event ev tid err now =
     (blank_event PATCH_REJECTED (ev_session_id ev) now)
       \<lparr>ev_task_id := Some tid, ev_metadata := JObj [(''error'', JStr err)]\<rparr>"

definition handle_patch_created ::
  "('x, 'g) env \<Rightarrow> (asdlc_event \<Rightarrow> ('x, 'g, string) act) \<Rightarrow> asdlc_event \<Rightarrow> ('x, 'g, unit) act" where
  "handle_patch_created E pub ev =
     with_task_id ev (\<lambda>tid.
       case ev_artifact_paths ev of
         [] \<Rightarrow> ret ()
       | p # _ \<Rightarrow>
           if is_write_allowed E then
             try_except
               (bindE (apply_patch E p (patch_message tid) tid) (\<lambda>sha.
                publish_now pub (applied_event ev tid sha)))
               any_exception
               (\<lambda>e. publish_now pub (patch_rejected_event ev tid (message_of e)))
           else ret ())"

section \<open>Routing\<close>

fun handler_of ::
  "('x, 'g) env \<Rightarrow> (asdlc_event \<Rightarrow> ('x, 'g, string) act) \<Rightarrow> event_type \<Rightarrow>
   (asdlc_event \<Rightarrow> ('x, 'g, unit) act) option" where
  "handler_of E pub TASK_CREATED = Some (handle_task_created E)"
| "handler_of E pub TASK_DISPATCHED = Some (handle_task_dispatched E)"
| "handler_of E pub AGENT_COMPLETED = Some (handle_agent_completed E pub)"
| "handler_of E pub AGENT_ERROR = Some (handle_agent_error E pub)"
| "handler_of E pub TASK_FAILED = Some (handle_task_failed E pub)"
| "handler_of E pub GATE_APPROVED = Some (handle_gate_approved E pub)"
| "handler_of E pub GATE_REJECTED = Some (handle_gate_rejected E pub)"
| "handler_of E pub PATCH_CREATED = Some (handle_patch_created E pub)"
| "handler_of E pub _ = None"

definition handled_ok :: handler_result where
  "handled_ok = \<lparr>hr_success = True, hr_should_retry = False, hr_error_message = None, hr_artifact_paths = []\<rparr>"

definition handled_retry :: "exn \<Rightarrow> handler_result" where
  "handled_retry e =
     \<lparr>hr_success = False, hr_should_retry = True, hr_error_message = Some (message_of e), hr_artifact_paths = []\<rparr>"

definition handle ::
  "('x, 'g) env \<Rightarrow> (asdlc_event \<Rightarrow> ('x, 'g, string) act) \<Rightarrow> asdlc_event \<Rightarrow> ('x, 'g, handler_result) act" where
  "handle E pub ev =
     try_except
       (case handler_of E pub (ev_type ev) of
          None \<Rightarrow> ret handled_ok
        | Some h \<Rightarrow> thenE (h ev) (ret handled_ok))
       any_exception
       (\<lambda>e. ret (handled_retry e))"

definition worker_event :: "task \<Rightarrow> string \<Rightarrow> string \<Rightarrow> datetime \<Rightarrow> asdlc_event" where
  "worker_event t agent mode now =
     (blank_event AGENT_STARTED (t_session_id t) now)
       \<lparr>ev_task_id := Some (t_task_id t), ev_epic_id := Some (t_epic_id t),
        ev_git_sha := t_git_sha t, ev_mode := mode,
        ev_metadata := JObj [(''agent_type'', JStr agent),
          (''context_pack'', JStr (''/context/packs/'' @ t_task_id t @ ''.json''))]\<rparr>"

definition dispatch_to_worker ::
  "('x, 'g) env \<Rightarrow> (asdlc_event \<Rightarrow> ('x, 'g, string) act) \<Rightarrow> task \<Rightarrow> string \<Rightarrow> string \<Rightarrow> ('x, 'g, unit) act" where
  "dispatch_to_worker E pub t agent mode =
     bindE (update_state E (t_task_id t) IN_PROGRESS [Upd_current_agent (Some agent)]) (\<lambda>_.
     publish_now pub (worker_event t agent mode))"

section \<open>The state field of a task\<close>

definition state_field :: "('x, 'g) env \<Rightarrow> (keyspace, 'g) world \<Rightarrow> string \<Rightarrow> string" where
  "state_field E a tid = hget (task_hash E a tid) ''state'' ''pending''"

definition step_into :: "task_state set \<Rightarrow> task_state \<Rightarrow> task_state \<Rightarrow> bool" where
  "step_into S a b \<longleftrightarrow> can_transition a b \<and> b \<in> S"

text \<open>Every task stays where it is or moves along transitions that end in \<open>S\<close>.\<close>

definition moves :: "('x, 'g) env \<Rightarrow> task_state set \<Rightarrow> (keyspace, 'g) world \<Rightarrow> (keyspace, 'g) world \<Rightarrow> bool" where
  "moves E S a b \<longleftrightarrow>
     ctx_tenant b = ctx_tenant a \<and>
     (\<forall>tid. state_field E b tid = state_field E a tid \<or>
        (\<exists>s s'. state_field E a tid = task_state_value s \<and> state_field E b tid = task_state_value s' \<and>
                (step_into S)\<^sup>*\<^sup>* s s'))"

lemma task_state_value_inject [simp]: "task_state_value s = task_state_value t \<longleftrightarrow> s = t"
  by (cases s; cases t) simp_all

lemma moves_refl [simp]: "moves E S a a"
  by (simp add: moves_def)

lemma moves_trans: "moves E S a b \<Longrightarrow> moves E S b c \<Longrightarrow> moves E S a c"
  unfolding moves_def by (metis (no_types, lifting) rtranclp_trans task_state_value_inject)

lemma moves_mono:
  assumes "moves E S a b" "S \<subseteq> T"
  shows "moves E T a b"
proof -
  have "step_into S \<le> step_into T" using assms(2) by (auto simp: step_into_def)
  then have "(step_into S)\<^sup>*\<^sup>* \<le> (step_into T)\<^sup>*\<^sup>*" by (rule rtranclp_mono)
  with assms(1) show ?thesis unfolding moves_def by blast
qed

lemma moves_same_hashes:
  "hashes (srv b) = hashes (srv a) \<Longrightarrow> ctx_tenant b = ctx_tenant a \<Longrightarrow> moves E S a b"
  by (simp add: moves_def state_field_def task_hash_def)

lemma state_field_put:
  "state_field E (put_task E tid t a) tid' =
     (if tid' = tid then task_state_value (t_state t) else state_field E a tid')"
  by (simp add: state_field_def hget_def map_add_def task_dict_fields)

lemma state_field_count: "state_field E (count_task E tid n a) tid' = state_field E a tid'"
  by (simp add: state_field_def hget_def task_hash_count)

lemma count_task_frame [simp]:
  "ctx_tenant (count_task E tid n a) = ctx_tenant a" "clock_us (count_task E tid n a) = clock_us a"
  "repo (count_task E tid n a) = repo a" "uuid_no (count_task E tid n a) = uuid_no a"
  "streams (srv (count_task E tid n a)) = streams (srv a)"
  by (simp_all add: count_task_def Let_def hash_put_def)

lemma put_session_frame [simp]:
  "ctx_tenant (put_session E sid d a) = ctx_tenant a" "clock_us (put_session E sid d a) = clock_us a"
  "repo (put_session E sid d a) = repo a" "streams (srv (put_session E sid d a)) = streams (srv a)"
  by (simp_all add: put_session_def hash_put_def)

lemma moves_put:
  assumes "task_of_map now (task_hash E a tid) = Inr t" "step_into S (t_state t) (t_state t')"
  shows "moves E S a (put_task E tid t' a)"
proof -
  have "state_field E a tid = task_state_value (t_state t)"
    using assms(1) task_state_of_Inr by (auto simp: state_field_def task_of_map_def split: sum.splits)
  with assms(2) show ?thesis by (auto simp: moves_def state_field_put)
qed

lemma moves_count: "moves E S a (count_task E tid n a)"
  by (simp add: moves_def state_field_count)

lemma moves_session: "moves E S a (put_session E sid d a)"
  by (simp add: moves_def state_field_def session_task_keys)

section \<open>The operations move tasks legally\<close>

context hash_world
begin

lemma get_task_effect: "yields kv (get_task E tid) w (\<lambda>r a. a = absw kv w \<and>
    (\<forall>t. r = Inr (Some t) \<longrightarrow> task_of_map (utc_datetime (clock_us w)) (task_hash E (absw kv w) tid) = Inr t))"
proof (cases "task_hash E (absw kv w) tid = Map.empty")
  case True
  then show ?thesis by (rule yields_runs [OF get_task_none]) simp
next
  case False
  then show ?thesis
    by (rule yields_runs [OF get_task_some])
      (cases "task_of_map (utc_datetime (clock_us w)) (task_hash E (absw kv w) tid)"; simp)
qed

lemma load_effect: "yields kv (load_for_update E tid s) w (\<lambda>r a. a = absw kv w \<and>
    (\<forall>t. r = Inr t \<longrightarrow> task_of_map (utc_datetime (clock_us w)) (task_hash E (absw kv w) tid) = Inr t \<and>
      can_transition (t_state t) s))"
  unfolding load_for_update_def
proof (rule yields_bindE [OF get_task_effect], goal_cases)
  case (1 found w')
  then show ?case
    by (cases found) (auto simp: thenE_def validate_transition_def)
qed auto

lemma update_effect:
  "yields kv (update_state E tid s us) w (\<lambda>r a. a = absw kv w \<or>
     (\<exists>t t'. task_of_map (utc_datetime (clock_us w)) (task_hash E (absw kv w) tid) = Inr t \<and>
        can_transition (t_state t) s \<and> a = put_task E tid t' (absw kv w) \<and>
        t' = apply_fields us (t\<lparr>t_state := s, t_updated_at := utc_datetime (clock_us w)\<rparr>)))"
  unfolding update_state_def
proof (rule yields_bindE [OF load_effect], goal_cases)
  case (1 t w')
  then have "clock_us w' = clock_us w" by (auto dest: absw_eqD(3))
  with 1 show ?case
    by (intro yields_runs [OF commit_update]) auto
qed auto

lemma increment_effect:
  "yields kv (increment_fail_count E tid) w (\<lambda>r a. a = absw kv w \<or> (\<exists>n. a = count_task E tid n (absw kv w)))"
proof -
  let ?k = "prefixed_key E (ctx_tenant w) (task_base_key tid)"
  show ?thesis
  proof (cases "hash_int (srv (absw kv w)) ?k ''fail_count''")
    case None
    then obtain m where "runs kv (on_redis (r_hincrby (redis_of E) ?k ''fail_count'' 1)) w
        (Inl (Exn RedisResponseError m)) (absw kv w)"
      using incr_hash_fails by blast
    from runs_bindE_Inl [OF this] show ?thesis
      unfolding increment_fail_count_def task_key_def yields_prefixed
      by (rule yields_runs) simp
  next
    case (Some v)
    show ?thesis
      unfolding increment_fail_count_def task_key_def yields_prefixed
    proof (rule yields_bindE_runs [OF incr_hash [OF Some]], goal_cases)
      case (1 w')
      then have "clock_us w' = clock_us w" by (auto dest: absw_eqD(3))
      with 1 show ?case
        unfolding yields_now_utc
        by (intro yields_thenE_runs [OF write_hash])
          (auto simp: count_task_def Let_def intro!: exI [of _ "v + 1"])
    qed
  qed
qed

end

definition created_task :: "asdlc_event \<Rightarrow> datetime \<Rightarrow> task" where
  "created_task ev now =
     \<lparr>t_task_id = or_else (ev_task_id ev) [], t_session_id = ev_session_id ev,
      t_epic_id = or_else (ev_epic_id ev) [], t_state = PENDING, t_created_at = now,
      t_updated_at = now, t_fail_count = 0, t_current_agent = None, t_git_sha = ev_git_sha ev,
      t_artifact_paths = []\<rparr>"

text \<open>The states an event of a type may move a task to.\<close>

fun targets :: "event_type \<Rightarrow> task_state set" where
  "targets TASK_DISPATCHED = {IN_PROGRESS}"
| "targets AGENT_COMPLETED = {TESTING}"
| "targets GATE_APPROVED = {COMPLETE}"
| "targets GATE_REJECTED = {IN_PROGRESS}"
| "targets _ = {}"

text \<open>Acting for tenant \<open>s\<close> leaves the hashes of tenant \<open>t\<close> alone.\<close>

definition tenant_kept ::
  "('x, 'g) env \<Rightarrow> string \<Rightarrow> string \<Rightarrow> (keyspace, 'g) world \<Rightarrow> (keyspace, 'g) world \<Rightarrow> bool" where
  "tenant_kept E s t a b \<longleftrightarrow>
     ctx_tenant b = ctx_tenant a \<and>
     (ctx_tenant a = Some s \<longrightarrow>
        (\<forall>k. hashes (srv b) (prefixed_key E (Some t) k) = hashes (srv a) (prefixed_key E (Some t) k)))"

lemma tenant_kept_refl [simp]: "tenant_kept E s t a a"
  by (simp add: tenant_kept_def)

lemma tenant_kept_updates:
  assumes "tenancy_enabled (tenant_cfg E)" "CHR '':'' \<notin> set s" "CHR '':'' \<notin> set t" "s \<noteq> t"
  shows "tenant_kept E s t a (put_task E tid x a)" "tenant_kept E s t a (count_task E tid n a)"
    "tenant_kept E s t a (put_session E sid d a)"
proof -
  have ne: "prefixed_key E (Some t) k \<noteq> prefixed_key E (Some s) x"
    "prefixed_key E (Some s) x \<noteq> prefixed_key E (Some t) k" for k x
    using prefixed_key_disjoint [OF assms(1-3), of x k] assms(4) by auto
  show "tenant_kept E s t a (put_task E tid x a)" "tenant_kept E s t a (count_task E tid n a)"
    "tenant_kept E s t a (put_session E sid d a)"
    by (auto simp: ne tenant_kept_def put_task_def count_task_def put_session_def hash_put_def Let_def)
qed

section \<open>What every handler keeps\<close>

text \<open>
  A relation kept by the operations a handler is made of, where \<open>S\<close> holds the states it asks
  for, is kept by every handler but the one that creates tasks.
\<close>

locale handler_frame = frame_relation R
  for R :: "(keyspace, 'g) world \<Rightarrow> (keyspace, 'g) world \<Rightarrow> bool" +
  fixes E :: "('x, 'g) env" and kv :: "'x \<Rightarrow> keyspace"
    and pub :: "asdlc_event \<Rightarrow> ('x, 'g, string) act" and S :: "task_state set"
  assumes get: "keeps kv R (get_task E tid)"
    and update: "s \<in> S \<Longrightarrow> (\<And>v. Upd_state v \<notin> set us) \<Longrightarrow> keeps kv R (update_state E tid s us)"
    and load: "keeps kv R (load_for_update E tid s)"
    and count: "keeps kv R (increment_fail_count E tid)"
    and session: "keeps kv R (update_git_sha E sid sha)"
    and publishing: "keeps kv R (pub e)"
    and patching: "is_write_allowed E \<Longrightarrow> keeps kv R (apply_patch E p msg tid)"
begin

lemma new_event_kept: "keeps kv R (new_event ev)"
  unfolding new_event_def by blast

lemma publish_now_kept: "keeps kv R (publish_now pub mk)"
  unfolding publish_now_def using new_event_kept publishing by blast

lemma start_agent_kept:
  assumes "IN_PROGRESS \<in> S"
  shows "keeps kv R (start_agent E tid v)"
proof (cases "agent_field v")
  case (Inl e)
  then show ?thesis unfolding start_agent_def using load by auto
next
  case (Inr a)
  then have "start_agent E tid v = update_state E tid IN_PROGRESS [Upd_current_agent a]"
    by (simp add: start_agent_def update_state_def)
  with update [OF assms] show ?thesis by simp
qed

lemma with_task_kept: "(\<And>t. keeps kv R (body t)) \<Longrightarrow> keeps kv R (with_task E tid body)"
  unfolding with_task_def by (intro keeps_bindE get) (auto split: option.splits)

lemma with_task_id_kept: "(\<And>tid. keeps kv R (body tid)) \<Longrightarrow> keeps kv R (with_task_id ev body)"
  unfolding with_task_id_def by (auto split: option.splits)

lemma failure_kept: "keeps kv R (handle_task_failure E pub t msg)"
  unfolding handle_task_failure_def by (intro keeps_bindE count) (auto intro: publish_now_kept)

lemma patches_kept: "is_write_allowed E \<Longrightarrow> keeps kv R (apply_patches E pub ev t tid ps)"
  by (induction ps) (auto intro!: keeps_bindE keeps_try_except keeps_thenE patching session failure_kept)

lemmas parts_kept = with_task_id_kept with_task_kept keeps_bindE keeps_pure new_event_kept
  publish_now_kept failure_kept count

lemma handler_kept:
  assumes "handler_of E pub (ev_type ev) = Some h" "ev_type ev \<noteq> TASK_CREATED" "targets (ev_type ev) \<subseteq> S"
  shows "keeps kv R (h ev)"
proof (cases "ev_type ev")
  case TASK_DISPATCHED
  with assms show ?thesis by (auto simp: handle_task_dispatched_def intro!: parts_kept start_agent_kept)
next
  case AGENT_COMPLETED
  with assms show ?thesis
    by (auto simp: handle_agent_completed_def Let_def intro!: parts_kept patches_kept update)
next
  case AGENT_ERROR
  with assms show ?thesis by (auto simp: handle_agent_error_def handle_failed_event_def intro!: parts_kept)
next
  case TASK_FAILED
  with assms show ?thesis by (auto simp: handle_task_failed_def handle_failed_event_def intro!: parts_kept)
next
  case GATE_APPROVED
  with assms show ?thesis by (auto simp: handle_gate_approved_def intro!: parts_kept update)
next
  case GATE_REJECTED
  with assms show ?thesis by (auto simp: handle_gate_rejected_def intro!: parts_kept update)
next
  case PATCH_CREATED
  with assms show ?thesis
    by (auto simp: handle_patch_created_def intro!: parts_kept keeps_try_except patching split: list.splits)
qed (use assms in auto)

lemma handle_kept:
  assumes "ev_type ev \<noteq> TASK_CREATED" "targets (ev_type ev) \<subseteq> S"
  shows "keeps kv R (handle E pub ev)"
  unfolding handle_def using handler_kept [OF _ assms]
  by (auto intro!: keeps_try_except keeps_thenE split: option.splits)

lemma dispatch_kept: "IN_PROGRESS \<in> S \<Longrightarrow> keeps kv R (dispatch_to_worker E pub t agent mode)"
  unfolding dispatch_to_worker_def by (auto intro!: keeps_bindE update publish_now_kept)

end

locale manager_world = hash_world E kv + event_sink kv pub chan stamp
  for E :: "('x, 'g) env" and kv :: "'x \<Rightarrow> keyspace"
    and pub :: "asdlc_event \<Rightarrow> ('x, 'g, string) act" and chan stamp
begin

text \<open>The relations: transitions into \<open>S\<close>, the repository, and the hashes of another tenant.\<close>

lemma frame_moves: "handler_frame (moves E S) E kv pub S"
proof unfold_locales
  show "moves E S a b \<Longrightarrow> moves E S b c \<Longrightarrow> moves E S a c" for a b c by (rule moves_trans)
  show "keeps kv (moves E S) (get_task E tid)" for tid
    by (rule keepsI, rule yields_mono [OF get_task_effect]) auto
  show "keeps kv (moves E S) (load_for_update E tid s)" for tid s
    by (rule keepsI, rule yields_mono [OF load_effect]) auto
  show "keeps kv (moves E S) (increment_fail_count E tid)" for tid
    by (rule keepsI, rule yields_mono [OF increment_effect]) (auto simp: moves_count)
  show "keeps kv (moves E S) (update_git_sha E sid sha)" for sid sha
    by (rule keepsI, rule yields_runs [OF update_git_sha]) (simp add: moves_session)
  show "keeps kv (moves E S) (pub e)" for e
    by (rule keepsI, rule yields_mono [OF publishes]) (auto simp: emitted_def intro: moves_same_hashes)
  show "keeps kv (moves E S) (apply_patch E p msg tid)" for p msg tid
    by (rule keepsI) (auto simp: yields_def repo_onlyD [OF apply_patch_repo_only] intro: moves_same_hashes)
  fix s tid and us :: "field_update list"
  assume s: "s \<in> S" and us: "\<And>v. Upd_state v \<notin> set us"
  show "keeps kv (moves E S) (update_state E tid s us)"
  proof (rule keepsI, rule yields_mono [OF update_effect], elim disjE exE conjE)
    fix w r a t t'
    assume h: "task_of_map (utc_datetime (clock_us w)) (task_hash E (absw kv w) tid) = Inr t"
      "can_transition (t_state t) s" "a = put_task E tid t' (absw kv w)"
      "t' = apply_fields us (t\<lparr>t_state := s, t_updated_at := utc_datetime (clock_us w)\<rparr>)"
    then have "t_state t' = s" using us by (simp add: apply_fields_state)
    with h s show "moves E S (absw kv w) a" by (auto simp: step_into_def intro: moves_put)
  qed simp
qed simp

lemma frame_repo:
  assumes "\<not> is_write_allowed E"
  shows "handler_frame (\<lambda>a b. repo b = repo a) E kv pub UNIV"
  by unfold_locales
    (use assms in \<open>auto intro!: keepsI yields_mono [OF get_task_effect] yields_mono [OF update_effect]
       yields_mono [OF load_effect] yields_mono [OF increment_effect] yields_runs [OF update_git_sha]
       yields_mono [OF publishes] simp: emitted_def\<close>)

lemma frame_tenant:
  assumes "tenancy_enabled (tenant_cfg E)" "CHR '':'' \<notin> set s" "CHR '':'' \<notin> set t" "s \<noteq> t"
  shows "handler_frame (tenant_kept E s t) E kv pub UNIV"
proof -
  note upd = tenant_kept_updates [OF assms]
  have app: "tenant_kept E s t a (stream_append c n x a)" for a :: "(keyspace, 'g) world" and c n x
    by (simp add: tenant_kept_def stream_append_def)
  have git: "keeps kv (tenant_kept E s t) (apply_patch E p msg tid)" for p msg tid
    by (rule keepsI) (simp add: yields_def repo_onlyD [OF apply_patch_repo_only] tenant_kept_def)
  show ?thesis
    by unfold_locales
      (auto simp: tenant_kept_def, (auto intro!: git keepsI yields_mono [OF get_task_effect] yields_mono [OF update_effect]
         yields_mono [OF load_effect] yields_mono [OF increment_effect] yields_runs [OF update_git_sha]
         yields_mono [OF publishes] upd app simp: emitted_def)+)
qed

lemma moves_handle:
  "ev_type ev \<noteq> TASK_CREATED \<Longrightarrow> keeps kv (moves E (targets (ev_type ev))) (handle E pub ev)"
  by (rule handler_frame.handle_kept [OF frame_moves]) simp_all

lemma moves_dispatch: "keeps kv (moves E {IN_PROGRESS}) (dispatch_to_worker E pub t agent mode)"
  by (rule handler_frame.dispatch_kept [OF frame_moves]) simp

text \<open>What the handlers do when the task is there.\<close>

lemma handle_yields:
  assumes "handler_of E pub (ev_type ev) = Some h" "yields kv (h ev) w (\<lambda>r a. r = Inr () \<and> P a)"
  shows "yields kv (handle E pub ev) w (\<lambda>r a. r = Inr handled_ok \<and> P a)"
  using assms by (auto simp: handle_def yields_def try_except_def thenE_def bindE_def)

lemma handle_fails:
  assumes "handler_of E pub (ev_type ev) = Some h" "runs kv (h ev) w (Inl e) a"
  shows "runs kv (handle E pub ev) w (Inr (handled_retry e)) a"
  using assms by (auto simp: handle_def runs_def try_except_def thenE_def bindE_def)

lemma publish_now_yields:
  assumes "mk (utc_datetime (clock_us w)) = ev" "\<not> is_blank (ev_session_id ev)"
    "utc_offset (ev_timestamp ev) \<noteq> None"
  shows "yields kv (publish_now pub mk) w (\<lambda>r a. r = Inr () \<and> emitted chan stamp ev (absw kv w) a)"
proof -
  have "post_init ev = Inr ev" using assms(2,3) by (auto simp: post_init_def aware_utc_def)
  then show ?thesis
    unfolding publish_now_def yields_now_utc new_event_def assms(1)
    by (simp, intro yields_bindE [OF publishes]) auto
qed

lemma with_task_yields:
  assumes "holds_task E (absw kv w) tid t" and "\<And>w'. absw kv w' = absw kv w \<Longrightarrow> yields kv (body t) w' Q"
  shows "yields kv (with_task E tid body) w Q"
  unfolding with_task_def by (rule yields_bindE_runs [OF get_task_holds [OF assms(1)]]) (simp add: assms(2))

lemma gate_approved_completes:
  assumes "ev_type ev = GATE_APPROVED" "ev_task_id ev = Some tid" "tid \<noteq> []"
    and "\<not> is_blank (ev_session_id ev)"
    and t: "holds_task E (absw kv w) tid t" "t_state t = BLOCKED_HITL"
  defines "now \<equiv> utc_datetime (clock_us w)"
  shows "yields kv (handle E pub ev) w (\<lambda>r a. r = Inr handled_ok \<and>
    emitted chan stamp (complete_task_event ev tid now)
      (put_task E tid (t\<lparr>t_state := COMPLETE, t_updated_at := now\<rparr>) (absw kv w)) a)"
proof (rule handle_yields)
  show "handler_of E pub (ev_type ev) = Some (handle_gate_approved E pub)" by (simp add: assms(1))
  show "yields kv (handle_gate_approved E pub ev) w (\<lambda>r a. r = Inr () \<and>
    emitted chan stamp (complete_task_event ev tid now)
      (put_task E tid (t\<lparr>t_state := COMPLETE, t_updated_at := now\<rparr>) (absw kv w)) a)"
    unfolding handle_gate_approved_def with_task_id_def assms(2) option.case if_not_P [OF assms(3)]
  proof (rule with_task_yields [OF t(1)], unfold if_P [OF t(2)], goal_cases)
    case (1 w1)
    note w1 = this
    have clock: "clock_us w1 = clock_us w" using absw_eqD(3) [OF 1] by simp
    have upd: "runs kv (update_state E tid COMPLETE []) w1
        (Inr (t\<lparr>t_state := COMPLETE, t_updated_at := now\<rparr>))
        (put_task E tid (t\<lparr>t_state := COMPLETE, t_updated_at := now\<rparr>) (absw kv w1))"
      by (rule update_state_ok) (use t 1 clock in \<open>simp_all add: now_def\<close>)
    show ?case
    proof (rule yields_bindE_runs [OF upd], goal_cases)
      case (1 w2)
      then have "clock_us w2 = clock_us w" using absw_eqD(3) [OF 1] clock by simp
      moreover have w2: "put_task E tid (t\<lparr>t_state := COMPLETE, t_updated_at := now\<rparr>) (absw kv w) = absw kv w2"
        using 1 w1 by simp
      ultimately show ?case
        unfolding w2 using assms(4)
        by (intro publish_now_yields) (simp_all add: now_def complete_task_event_def blank_event_def utc_datetime_def)
    qed
  qed
qed

lemma failure_counts:
  assumes t: "holds_task E (absw kv w) (t_task_id t) t" "\<not> is_blank (t_session_id t)"
  defines "n \<equiv> t_fail_count t + 1"
  shows "yields kv (handle_task_failure E pub t msg) w (\<lambda>r a. r = Inr () \<and>
    (if n > rlm_fail_threshold
     then emitted chan stamp (debug_event t n msg (utc_datetime (clock_us w)))
            (count_task E (t_task_id t) n (absw kv w)) a
     else a = count_task E (t_task_id t) n (absw kv w)))"
  unfolding handle_task_failure_def
proof (rule yields_bindE_runs [OF increment_ok [OF t(1)]], goal_cases)
  case (1 w1)
  have "clock_us w1 = clock_us w" using absw_eqD(3) [OF 1] by simp
  then show ?case
    unfolding n_def
    by (cases "t_fail_count t + 1 > rlm_fail_threshold")
      (auto intro!: yields_mono [OF publish_now_yields] simp: 1 t(2) debug_event_def blank_event_def
        utc_datetime_def)
qed

lemma failed_event_counts:
  assumes "ev_type ev \<in> {AGENT_ERROR, TASK_FAILED}" "ev_task_id ev = Some tid" "tid \<noteq> []"
    and t: "holds_task E (absw kv w) tid t" "t_task_id t = tid" "\<not> is_blank (t_session_id t)"
    and msg: "meta_get ev ''error_message''
        (JStr (if ev_type ev = AGENT_ERROR then ''Agent error'' else ''Task failed'')) = Inr msg"
  defines "n \<equiv> t_fail_count t + 1"
  shows "yields kv (handle E pub ev) w (\<lambda>r a. r = Inr handled_ok \<and>
    (if n > rlm_fail_threshold
     then emitted chan stamp (debug_event t n msg (utc_datetime (clock_us w)))
            (count_task E tid n (absw kv w)) a
     else a = count_task E tid n (absw kv w)))"
proof -
  define dflt where "dflt = (if ev_type ev = AGENT_ERROR then ''Agent error'' else ''Task failed'')"
  define h where "h = handle_failed_event E pub dflt"
  have h: "handler_of E pub (ev_type ev) = Some h"
    using assms(1) by (auto simp: h_def dflt_def handle_agent_error_def fun_eq_iff handle_task_failed_def)
  show ?thesis
  proof (rule handle_yields [OF h])
    show "yields kv (h ev) w (\<lambda>r a. r = Inr () \<and>
    (if n > rlm_fail_threshold
     then emitted chan stamp (debug_event t n msg (utc_datetime (clock_us w)))
            (count_task E tid n (absw kv w)) a
     else a = count_task E tid n (absw kv w)))"
      unfolding h_def handle_failed_event_def with_task_id_def assms(2) option.case if_not_P [OF assms(3)]
    proof (rule with_task_yields [OF t(1)], goal_cases)
      case (1 w1)
      have "clock_us w1 = clock_us w" using absw_eqD(3) [OF 1] by simp
      with failure_counts [of w1 t msg] 1 t msg show ?case
        by (cases "rlm_fail_threshold \<le> t_fail_count t") (simp_all add: dflt_def n_def)
    qed
  qed
qed

lemma gate_rejected_refused:
  assumes "ev_type ev = GATE_REJECTED" "ev_task_id ev = Some tid" "tid \<noteq> []"
    and t: "holds_task E (absw kv w) tid t" "\<not> can_transition (t_state t) IN_PROGRESS"
    and clock: "valid_datetime (utc_datetime (clock_us w))"
  obtains e where "runs kv (handle E pub ev) w (Inr (handled_retry e))
    (count_task E tid (t_fail_count t + 1) (absw kv w))"
proof -
  have "\<exists>e. runs kv (handle_gate_rejected E pub ev) w (Inl e)
      (count_task E tid (t_fail_count t + 1) (absw kv w))"
    unfolding handle_gate_rejected_def with_task_id_def assms(2) option.case if_not_P [OF assms(3)] with_task_def
  proof -
    obtain w1 where w1: "runs kv (get_task E tid) w (Inr (Some t)) (absw kv w1)" "absw kv w1 = absw kv w"
      and s1: "snd (get_task E tid w) = w1"
      using get_task_holds [OF t(1)] by (auto simp: runs_def)
    define w2 where "w2 = snd (increment_fail_count E tid w1)"
    have w2: "fst (increment_fail_count E tid w1) = Inr (t_fail_count t + 1)"
      "absw kv w2 = count_task E tid (t_fail_count t + 1) (absw kv w)"
      using increment_ok [of w1 tid t] t(1) w1(2) by (simp_all add: runs_def w2_def)
    have "clock_us w2 = clock_us w" using absw_eqD(3) [OF w2(2)] by simp
    have "holds_task E (absw kv w2) tid
        (t\<lparr>t_fail_count := t_fail_count t + 1, t_updated_at := utc_datetime (clock_us w)\<rparr>)"
      using holds_count_task [OF t(1)] clock w2(2) by simp
    from update_state_refused [OF this, of IN_PROGRESS] t(2)
    obtain m where m: "runs kv (update_state E tid IN_PROGRESS []) w2 (Inl (Exn TaskStateError m)) (absw kv w2)"
      by auto
    have "runs kv (bindE (get_task E tid) (\<lambda>found. case found of None \<Rightarrow> ret () | Some t \<Rightarrow>
        bindE (increment_fail_count E tid) (\<lambda>n.
        bindE (update_state E tid IN_PROGRESS []) (\<lambda>_.
        bindE (lift_result (meta_get ev ''feedback'' (JStr ''Gate rejected''))) (\<lambda>feedback.
        publish_now pub (retry_event ev tid t n feedback)))))) w (Inl (Exn TaskStateError m))
      (count_task E tid (t_fail_count t + 1) (absw kv w))"
      using w1(1) s1 w2 m by (simp add: runs_def bindE_def w2_def)
    then show "\<exists>e. runs kv (bindE (get_task E tid) (\<lambda>found. case found of None \<Rightarrow> ret () | Some t \<Rightarrow>
        bindE (increment_fail_count E tid) (\<lambda>n.
        bindE (update_state E tid IN_PROGRESS []) (\<lambda>_.
        bindE (lift_result (meta_get ev ''feedback'' (JStr ''Gate rejected''))) (\<lambda>feedback.
        publish_now pub (retry_event ev tid t n feedback)))))) w (Inl e)
      (count_task E tid (t_fail_count t + 1) (absw kv w))" by blast
  qed
  then obtain e where "runs kv (handle_gate_rejected E pub ev) w (Inl e)
      (count_task E tid (t_fail_count t + 1) (absw kv w))" by blast
  from handle_fails [where h = "handle_gate_rejected E pub", OF _ this] assms(1) that show thesis by simp
qed

lemma task_created_stores:
  assumes "ev_type ev = TASK_CREATED"
  shows "runs kv (handle E pub ev) w (Inr handled_ok)
    (put_task E (or_else (ev_task_id ev) []) (created_task ev (utc_datetime (clock_us w))) (absw kv w))"
proof -
  have "yields kv (handle_task_created E ev) w (\<lambda>r a. r = Inr () \<and>
    a = put_task E (or_else (ev_task_id ev) []) (created_task ev (utc_datetime (clock_us w))) (absw kv w))"
    unfolding handle_task_created_def yields_now_utc
    by (rule yields_bindE_runs [OF create_task]) (simp add: created_task_def)
  from handle_yields [where h = "handle_task_created E", OF _ this] assms show ?thesis
    by (auto simp: yields_def runs_def)
qed

end

text \<open>
  The manager as a process: it handles one event, or dispatches a task, or time passes.
\<close>

inductive manager_step ::
  "('x, 'g) env \<Rightarrow> (asdlc_event \<Rightarrow> ('x, 'g, string) act) \<Rightarrow> ('x, 'g) world \<Rightarrow> ('x, 'g) world \<Rightarrow> bool"
  for E pub where
  handles: "manager_step E pub w (snd (handle E pub ev w))"
| dispatches: "manager_step E pub w (snd (dispatch_to_worker E pub t agent mode w))"
| elapses: "manager_step E pub w (w\<lparr>clock_us := c\<rparr>)"

inductive_cases manager_stepE: "manager_step E pub w w'"

definition manager_states :: "task_state set" where
  "manager_states = {PENDING, IN_PROGRESS, TESTING}"

definition only_manager_states :: "('x, 'g) env \<Rightarrow> (keyspace, 'g) world \<Rightarrow> bool" where
  "only_manager_states E a \<longleftrightarrow>
     (\<forall>tid s. state_field E a tid = task_state_value s \<longrightarrow> s \<in> manager_states)"

lemma manager_states_closed:
  assumes "(step_into {IN_PROGRESS, TESTING, COMPLETE})\<^sup>*\<^sup>* s s'" "s \<in> manager_states"
  shows "s' \<in> manager_states"
  using assms by induction (auto simp: step_into_def manager_states_def)

lemma only_manager_moves:
  assumes "only_manager_states E a" "moves E S a b" "S \<subseteq> {IN_PROGRESS, TESTING, COMPLETE}"
  shows "only_manager_states E b"
  using moves_mono [OF assms(2,3)] assms(1) manager_states_closed
  unfolding only_manager_states_def moves_def by (metis task_state_value_inject)

lemma only_manager_put:
  "only_manager_states E a \<Longrightarrow> t_state t \<in> manager_states \<Longrightarrow> only_manager_states E (put_task E tid t a)"
  by (simp add: only_manager_states_def state_field_put)

lemma targets_subset: "targets t \<subseteq> {IN_PROGRESS, TESTING, COMPLETE}"
  by (cases t) simp_all

context manager_world
begin

lemma manager_step_keeps:
  assumes "manager_step E pub w w'" "only_manager_states E (absw kv w)"
  shows "only_manager_states E (absw kv w')"
  using assms(1)
proof (rule manager_stepE, goal_cases)
  case (1 ev)
  show ?thesis
  proof (cases "ev_type ev = TASK_CREATED")
    case True
    then have "absw kv w' = put_task E (or_else (ev_task_id ev) [])
        (created_task ev (utc_datetime (clock_us w))) (absw kv w)"
      using task_created_stores [of ev w] 1 by (simp add: runs_def)
    with only_manager_put [OF assms(2)] show ?thesis
      by (simp add: created_task_def manager_states_def)
  next
    case False
    with only_manager_moves [OF assms(2) keepsD [OF moves_handle] targets_subset] 1 show ?thesis
      by simp
  qed
next
  case (2 t agent mode)
  with only_manager_moves [OF assms(2) keepsD [OF moves_dispatch]] show ?thesis by simp
next
  case (3 c)
  with assms(2) show ?thesis
    by (simp add: only_manager_states_def state_field_def task_hash_def)
qed

lemma manager_run_keeps:
  "(manager_step E pub)\<^sup>*\<^sup>* w w' \<Longrightarrow> only_manager_states E (absw kv w) \<Longrightarrow>
   only_manager_states E (absw kv w')"
  by (induction rule: rtranclp_induct) (auto intro: manager_step_keeps)

end

interpretation mem_manager: manager_world "mem_env c" mem_abs "stream_publisher (mem_env c)"
    "event_channel (mem_env c)" "complete_event (mem_env c)"
  rewrites "redis_of (mem_env c) = mem_redis"
  by (simp_all add: manager_world_def mem_hash.hash_world_axioms mem_stream.published.event_sink_axioms)

interpretation mem_moves: handler_frame "moves (mem_env c) S" "mem_env c" mem_abs "stream_publisher (mem_env c)" S
  for c S
  by (rule mem_manager.frame_moves [unfolded redis_of_mem_env])

section \<open>The manager's promises\<close>

lemma manager_world_of:
  "redis_hashes (redis_of E) kv \<Longrightarrow> redis_streams (redis_of E) kv \<Longrightarrow>
   manager_world E kv (stream_publisher E) (event_channel E) (complete_event E)"
  unfolding manager_world_def hash_world_def
  using stream_world.published_event [unfolded stream_world_def, of E kv]
  by (auto simp: event_sink_def)

lemma put_task_repo [simp]: "repo (put_task E tid t a) = repo a"
  by (simp add: put_task_def)

text \<open>C1: every event but \<^verbatim>\<open>TASK_CREATED\<close>, and every dispatch, leaves each task in its state or
  moves it along allowed transitions into the states the event stands for.\<close>

theorem manager_moves_legally:
  assumes "redis_hashes (redis_of E) kv" "redis_streams (redis_of E) kv"
  shows "(ev_type ev \<noteq> TASK_CREATED \<longrightarrow>
      moves E (targets (ev_type ev)) (absw kv w) (absw kv (snd (handle E (stream_publisher E) ev w)))) \<and>
    moves E {IN_PROGRESS} (absw kv w)
      (absw kv (snd (dispatch_to_worker E (stream_publisher E) t agent mode w)))"
  using keepsD [OF manager_world.moves_handle [OF manager_world_of [OF assms]]]
    keepsD [OF manager_world.moves_dispatch [OF manager_world_of [OF assms]]] by blast

lemma manager_moves_legally_witness:
  "moves demo_env {TESTING} (absw mem_abs (demo_world IN_PROGRESS))
     (absw mem_abs (snd (handle demo_env (stream_publisher demo_env) (demo_event AGENT_COMPLETED)
       (demo_world IN_PROGRESS))))"
  using manager_moves_legally [of demo_env mem_abs "demo_event AGENT_COMPLETED" "demo_world IN_PROGRESS"]
    mem.redis_hashes_axioms mem.redis_streams_axioms by simp

text \<open>C2: a manager that starts where no task is under review, blocked, failed or complete never
  brings a task there: on its own it does not reach COMPLETE.\<close>

theorem manager_never_completes:
  assumes "redis_hashes (redis_of E) kv" "redis_streams (redis_of E) kv"
    and "(manager_step E (stream_publisher E))\<^sup>*\<^sup>* w w'" "only_manager_states E (absw kv w)"
  shows "only_manager_states E (absw kv w')"
  using manager_world.manager_run_keeps [OF manager_world_of [OF assms(1,2)] assms(3,4)] .

lemma manager_never_completes_witness:
  "only_manager_states demo_env (absw mem_abs
     (snd (handle demo_env (stream_publisher demo_env) (demo_event TASK_CREATED) mem_world)))"
proof (rule manager_never_completes [OF _ _ r_into_rtranclp])
  show "manager_step demo_env (stream_publisher demo_env) mem_world
     (snd (handle demo_env (stream_publisher demo_env) (demo_event TASK_CREATED) mem_world))"
    by (rule manager_step.handles)
  have "task_state_value s = ''pending'' \<Longrightarrow> s = PENDING" for s by (cases s) simp_all
  moreover have "state_field demo_env (absw mem_abs mem_world) tid = ''pending''" for tid
    unfolding state_field_def task_hash_def mem_world_empty by (simp add: hget_def)
  ultimately show "only_manager_states demo_env (absw mem_abs mem_world)"
    by (auto simp: only_manager_states_def manager_states_def)
qed (use mem.redis_hashes_axioms mem.redis_streams_axioms in simp_all)

text \<open>An approval completes a task that is blocked at a gate: the handler succeeds, the task
  is stored as COMPLETE with the time of the update, and one \<^verbatim>\<open>TASK_COMPLETED\<close> event is
  appended to the stream.\<close>

theorem approval_completes_task:
  assumes "redis_hashes (redis_of E) kv" "redis_streams (redis_of E) kv"
    and "ev_type ev = GATE_APPROVED" "ev_task_id ev = Some tid" "tid \<noteq> []" "\<not> is_blank (ev_session_id ev)"
    and "holds_task E (absw kv w) tid t" "t_state t = BLOCKED_HITL"
  defines "now \<equiv> utc_datetime (clock_us w)"
  shows "yields kv (handle E (stream_publisher E) ev) w (\<lambda>r a. r = Inr handled_ok \<and>
    emitted (event_channel E) (complete_event E) (complete_task_event ev tid now)
      (put_task E tid (t\<lparr>t_state := COMPLETE, t_updated_at := now\<rparr>) (absw kv w)) a)"
  unfolding now_def
  by (rule manager_world.gate_approved_completes [OF manager_world_of [OF assms(1,2)] assms(3-8)])

lemma approval_completes_task_witness:
  "fst (handle demo_env (stream_publisher demo_env) (demo_event GATE_APPROVED) (demo_world BLOCKED_HITL)) =
     Inr handled_ok"
  using approval_completes_task [of demo_env mem_abs "demo_event GATE_APPROVED" "''t1''"
      "demo_world BLOCKED_HITL" "demo_task BLOCKED_HITL"]
    mem.redis_hashes_axioms mem.redis_streams_axioms demo_holds
  by (simp add: yields_def is_blank_def)

text \<open>An \<^verbatim>\<open>AGENT_ERROR\<close> or \<^verbatim>\<open>TASK_FAILED\<close> event adds one to the failure counter of its task;
  from the fifth failure on it also starts the debugger, and until then it publishes nothing.\<close>

theorem failures_reach_debugger:
  assumes "redis_hashes (redis_of E) kv" "redis_streams (redis_of E) kv"
    and "ev_type ev \<in> {AGENT_ERROR, TASK_FAILED}" "ev_task_id ev = Some tid" "tid \<noteq> []"
    and "holds_task E (absw kv w) tid t" "t_task_id t = tid" "\<not> is_blank (t_session_id t)"
    and "meta_get ev ''error_message''
        (JStr (if ev_type ev = AGENT_ERROR then ''Agent error'' else ''Task failed'')) = Inr msg"
  defines "n \<equiv> t_fail_count t + 1"
  shows "yields kv (handle E (stream_publisher E) ev) w (\<lambda>r a. r = Inr handled_ok \<and>
    (if n \<ge> 5
     then emitted (event_channel E) (complete_event E) (debug_event t n msg (utc_datetime (clock_us w)))
            (count_task E tid n (absw kv w)) a
     else a = count_task E tid n (absw kv w)))"
proof -
  have "n > rlm_fail_threshold \<longleftrightarrow> n \<ge> 5" by (auto simp: rlm_fail_threshold_def)
  with manager_world.failed_event_counts [OF manager_world_of [OF assms(1,2)] assms(3-9)]
  show ?thesis unfolding n_def by simp
qed

lemma failures_reach_debugger_witness:
  "yields mem_abs (handle demo_env (stream_publisher demo_env) (demo_event TASK_FAILED)) (demo_world TESTING)
     (\<lambda>r a. r = Inr handled_ok \<and> emitted (event_channel demo_env) (complete_event demo_env)
        (debug_event (demo_task TESTING) 5 (JStr ''Task failed'') (utc_datetime 0))
        (count_task demo_env ''t1'' 5 (absw mem_abs (demo_world TESTING))) a)"
  using failures_reach_debugger [of demo_env mem_abs "demo_event TASK_FAILED" "''t1''"
      "demo_world TESTING" "demo_task TESTING" "JStr ''Task failed''"]
    mem.redis_hashes_axioms mem.redis_streams_axioms demo_holds
  by (simp add: is_blank_def meta_get_def dget_def)

text \<open>A rejection of a task that cannot go back to work, because it is in progress, complete or
  failed, still counts a failure: the handler then fails, asks for a retry and publishes
  nothing, so each redelivery counts again.\<close>

theorem rejection_counts_before_failing:
  assumes "redis_hashes (redis_of E) kv" "redis_streams (redis_of E) kv"
    and "ev_type ev = GATE_REJECTED" "ev_task_id ev = Some tid" "tid \<noteq> []"
    and "holds_task E (absw kv w) tid t" "t_state t \<in> {IN_PROGRESS, COMPLETE, FAILED}"
    and "valid_datetime (utc_datetime (clock_us w))"
  shows "\<exists>e. runs kv (handle E (stream_publisher E) ev) w (Inr (handled_retry e))
    (count_task E tid (t_fail_count t + 1) (absw kv w))"
proof -
  have "\<not> can_transition (t_state t) IN_PROGRESS" using assms(7) by auto
  from manager_world.gate_rejected_refused [OF manager_world_of [OF assms(1,2)] assms(3-6) this assms(8)]
  show ?thesis by blast
qed

lemma rejection_counts_before_failing_witness:
  "\<exists>e. runs mem_abs (handle demo_env (stream_publisher demo_env) (demo_event GATE_REJECTED))
     (demo_world COMPLETE) (Inr (handled_retry e))
     (count_task demo_env ''t1'' 5 (absw mem_abs (demo_world COMPLETE)))"
  using rejection_counts_before_failing [of demo_env mem_abs "demo_event GATE_REJECTED" "''t1''"
      "demo_world COMPLETE" "demo_task COMPLETE"]
    mem.redis_hashes_axioms mem.redis_streams_axioms demo_holds valid_epoch
  by simp

text \<open>A \<^verbatim>\<open>TASK_CREATED\<close> event stores a pending task without failures under its identifier
  whatever is stored there: a redelivery starts a task that is complete anew.\<close>

theorem task_created_overwrites:
  assumes "redis_hashes (redis_of E) kv" "redis_streams (redis_of E) kv"
    and "ev_type ev = TASK_CREATED" "ev_task_id ev = Some tid" "tid \<noteq> []"
    and "valid_datetime (utc_datetime (clock_us w))"
  defines "w' \<equiv> snd (handle E (stream_publisher E) ev w)"
  shows "fst (handle E (stream_publisher E) ev w) = Inr handled_ok \<and>
    (\<exists>t. holds_task E (absw kv w') tid t \<and> t_state t = PENDING \<and> t_fail_count t = 0 \<and>
         t_task_id t = tid \<and> t_session_id t = ev_session_id ev)"
proof -
  let ?t = "created_task ev (utc_datetime (clock_us w))"
  have "runs kv (handle E (stream_publisher E) ev) w (Inr handled_ok) (put_task E tid ?t (absw kv w))"
    using manager_world.task_created_stores [OF manager_world_of [OF assms(1,2)] assms(3), of w]
    by (simp add: assms(4,5) or_else_def)
  moreover have "wf_task ?t"
    by (simp add: wf_task_def created_task_def assms(6) valid_paths_def)
  ultimately show ?thesis
    using holds_put_task [of ?t E tid "absw kv w"]
    by (auto simp: runs_def w'_def written_over_def created_task_def assms(4,5) or_else_def)
qed

lemma task_created_overwrites_witness:
  "\<exists>t. holds_task demo_env (absw mem_abs (snd (handle demo_env (stream_publisher demo_env)
       (demo_event TASK_CREATED) (demo_world COMPLETE)))) ''t1'' t \<and> t_state t = PENDING"
  using task_created_overwrites [of demo_env mem_abs "demo_event TASK_CREATED" "''t1''" "demo_world COMPLETE"]
    mem.redis_hashes_axioms mem.redis_streams_axioms valid_epoch
  by auto

text \<open>C14: with tenancy on and tenant names free of colons, handling any event for one tenant
  leaves every hash of every other tenant as it was.\<close>

theorem manager_keeps_other_tenants:
  assumes "redis_hashes (redis_of E) kv" "redis_streams (redis_of E) kv"
    and "tenancy_enabled (tenant_cfg E)" "CHR '':'' \<notin> set s" "CHR '':'' \<notin> set t" "s \<noteq> t"
    and "ctx_tenant w = Some s"
  shows "hashes (srv (absw kv (snd (handle E (stream_publisher E) ev w)))) (prefixed_key E (Some t) k) =
    hashes (srv (absw kv w)) (prefixed_key E (Some t) k)"
proof -
  note mw = manager_world_of [OF assms(1,2)]
  have "tenant_kept E s t (absw kv w) (absw kv (snd (handle E (stream_publisher E) ev w)))"
  proof (cases "ev_type ev = TASK_CREATED")
    case True
    then show ?thesis
      using manager_world.task_created_stores [OF mw True, of w] tenant_kept_updates(1) [OF assms(3-6)]
      by (simp add: runs_def)
  next
    case False
    show ?thesis
      by (rule keepsD, rule handler_frame.handle_kept [OF manager_world.frame_tenant [OF mw assms(3-6)] False])
        simp
  qed
  then show ?thesis using assms(7) by (simp add: tenant_kept_def)
qed

lemma manager_keeps_other_tenants_witness:
  "hashes (srv (absw mem_abs (snd (handle (mem_env multi_tenant) (stream_publisher (mem_env multi_tenant))
      (demo_event TASK_CREATED) (mem_world\<lparr>ctx_tenant := Some ''acme''\<rparr>))))) ''tenant:other:asdlc:task:t1'' =
   hashes (srv (absw mem_abs (mem_world\<lparr>ctx_tenant := Some ''acme''\<rparr>))) ''tenant:other:asdlc:task:t1''"
  using manager_keeps_other_tenants [of "mem_env multi_tenant" mem_abs "''acme''" "''other''"
      "mem_world\<lparr>ctx_tenant := Some ''acme''\<rparr>" "demo_event TASK_CREATED" "''asdlc:task:t1''"]
    mem.redis_hashes_axioms mem.redis_streams_axioms
  by (simp add: mem_env_def multi_tenant_def prefixed_key_def)

text \<open>Without the write permission no event makes the manager touch the repository.\<close>

theorem manager_leaves_repository:
  assumes "redis_hashes (redis_of E) kv" "redis_streams (redis_of E) kv" "\<not> is_write_allowed E"
  shows "repo (snd (handle E (stream_publisher E) ev w)) = repo w"
proof -
  note mw = manager_world_of [OF assms(1,2)]
  have "repo (absw kv (snd (handle E (stream_publisher E) ev w))) = repo (absw kv w)"
  proof (cases "ev_type ev = TASK_CREATED")
    case True
    then show ?thesis
      using manager_world.task_created_stores [OF mw True, of w] by (simp add: runs_def)
  next
    case False
    show ?thesis
      by (rule keepsD [where R = "\<lambda>a b. repo b = repo a"],
        rule handler_frame.handle_kept [OF manager_world.frame_repo [OF mw assms(3)] False]) simp
  qed
  then show ?thesis by simp
qed

lemma manager_leaves_repository_witness:
  "repo (snd (handle (demo_env\<lparr>env_git_write := None\<rparr>) (stream_publisher (demo_env\<lparr>env_git_write := None\<rparr>))
     (demo_event PATCH_CREATED) mem_world)) = []"
proof -
  have "\<not> env_flag ''false''" by code_simp
  then have "\<not> is_write_allowed (demo_env\<lparr>env_git_write := None\<rparr>)"
    by (simp add: is_write_allowed_def)
  moreover have "redis_of (demo_env\<lparr>env_git_write := None\<rparr>) = mem_redis"
    by (simp add: mem_env_def)
  ultimately show ?thesis
    using manager_leaves_repository [of "demo_env\<lparr>env_git_write := None\<rparr>" mem_abs "demo_event PATCH_CREATED" mem_world]
      mem.redis_hashes_axioms mem.redis_streams_axioms
    by (simp add: mem_world_def)
qed

end
