(* ===== verification/Consumer.thy ===== *)
theory Consumer
  imports Streams
begin

text \<open>
  The consumer of a group, \<^verbatim>\<open>src/infrastructure/consumer_group.py\<close>: handling of one event,
  one batch, the consuming loop and the recovery of pending entries.  The handler is the
  argument; the stream name is resolved, as the property of the class resolves it at its
  first use.  The lemmas say for every outcome of the handler what is marked as processed
  and what is acknowledged.
\<close>

record ('x, 'g) event_handler =
  eh_can_handle :: "event_type \<Rightarrow> bool"
  eh_handle :: "asdlc_event \<Rightarrow> ('x, 'g, handler_result) act"

record consumer =
  cs_group :: string
  cs_name :: string
  cs_stream :: string
  cs_batch_size :: int
  cs_block_ms :: int
  cs_ttl :: int

definition ack :: "('x, 'g) env \<Rightarrow> consumer \<Rightarrow> string \<Rightarrow> ('x, 'g, unit) act" where
  "ack E C eid = bindE (acknowledge_event E (cs_stream C) (cs_group C) eid) (\<lambda>_. ret ())"

text \<open>\<^verbatim>\<open>idempotency_key and await tracker.is_processed(idempotency_key)\<close>\<close>

definition already_processed :: "('x, 'g) env \<Rightarrow> string option \<Rightarrow> ('x, 'g, bool) act" where
  "already_processed E key =
     (case key of None \<Rightarrow> ret False | Some k \<Rightarrow> if k = [] then ret False else is_processed E k)"

definition mark_if_keyed :: "('x, 'g) env \<Rightarrow> int \<Rightarrow> string option \<Rightarrow> string \<Rightarrow> ('x, 'g, unit) act" where
  "mark_if_keyed E ttl key eid =
     (case key of None \<Rightarrow> ret () | Some k \<Rightarrow> if k = [] then ret () else mark_processed E ttl k eid)"

definition handle_event ::
  "('x, 'g) env \<Rightarrow> ('x, 'g) event_handler \<Rightarrow> consumer \<Rightarrow> asdlc_event \<Rightarrow> ('x, 'g, unit) act" where
  "handle_event E h C ev =
     (let eid = or_else (ev_id ev) []; key = ev_idempotency_key ev in
      if \<not> eh_can_handle h (ev_type ev) then ack E C eid
      else
        bindE (already_processed E key) (\<lambda>dup.
          if dup then ack E C eid
          else
            try_except
              (bindE (eh_handle h ev) (\<lambda>res.
                 if hr_success res then thenE (mark_if_keyed E (cs_ttl C) key eid) (ack E C eid)
                 else if hr_should_retry res then ret ()
                 else ack E C eid))
              any_exception
              (\<lambda>_. ret ())))"

text \<open>The loop over a batch counts the events handled without an exception.\<close>

fun process_batch ::
  "('x, 'g) env \<Rightarrow> ('x, 'g) event_handler \<Rightarrow> consumer \<Rightarrow> asdlc_event list \<Rightarrow> nat \<Rightarrow> ('x, 'g, nat) act" where
  "process_batch E h C [] n = ret n"
| "process_batch E h C (ev # evs) n =
     bindE (try_except (thenE (handle_event E h C ev) (ret (Suc n))) any_exception (\<lambda>_. ret n))
     (process_batch E h C evs)"

definition process_once ::
  "('x, 'g) env \<Rightarrow> ('x, 'g) event_handler \<Rightarrow> consumer \<Rightarrow> ('x, 'g, nat) act" where
  "process_once E h C =
     bindE (read_events_from_group E (cs_group C) (cs_name C) (Some (cs_stream C)) (cs_batch_size C)
              (Some (cs_block_ms C)))
     (\<lambda>evs. process_batch E h C evs 0)"

text \<open>
  \<^verbatim>\<open>start\<close>: the iterations made before \<^verbatim>\<open>stop\<close> is called, as their number.  Both exception
  clauses log and wait.
\<close>

fun consume_loop :: "('x, 'g) env \<Rightarrow> ('x, 'g) event_handler \<Rightarrow> consumer \<Rightarrow> nat \<Rightarrow> ('x, 'g, unit) act" where
  "consume_loop E h C 0 = ret ()"
| "consume_loop E h C (Suc n) =
     thenE (try_except (bindE (process_once E h C) (\<lambda>_. ret ())) any_exception (\<lambda>_. ret ()))
     (consume_loop E h C n)"

section \<open>Recovery\<close>

definition no_recovery :: recovery_result where
  "no_recovery = \<lparr>rr_processed = 0, rr_skipped = 0, rr_failed = 0, rr_claimed = 0\<rparr>"

definition recover_one ::
  "('x, 'g) env \<Rightarrow> ('x, 'g) event_handler \<Rightarrow> consumer \<Rightarrow> stream_entry \<Rightarrow> recovery_result \<Rightarrow>
   ('x, 'g, recovery_result) act" where
  "recover_one E h C m st =
     (if snd m = [] then ret st
      else
        bindE (from_stream_dict (fst m) (snd m)) (\<lambda>ev.
        let key = ev_idempotency_key ev in
        bindE (already_processed E key) (\<lambda>dup.
          if dup \<or> \<not> eh_can_handle h (ev_type ev) then
            thenE (ack E C (fst m)) (ret (st\<lparr>rr_skipped := rr_skipped st + 1\<rparr>))
          else
            try_except
              (bindE (eh_handle h ev) (\<lambda>res.
                 if hr_success res then
                   thenE (mark_if_keyed E (cs_ttl C) key (fst m))
                   (thenE (ack E C (fst m)) (ret (st\<lparr>rr_processed := rr_processed st + 1\<rparr>)))
                 else if hr_should_retry res then ret (st\<lparr>rr_failed := rr_failed st + 1\<rparr>)
                 else thenE (ack E C (fst m)) (ret (st\<lparr>rr_failed := rr_failed st + 1\<rparr>))))
              any_exception
              (\<lambda>_. ret (st\<lparr>rr_failed := rr_failed st + 1\<rparr>)))))"

text \<open>
  The loop over the claimed entries.  The counters are local variables, which keep their
  values when an exception leaves the loop: the result has them and the exception.
\<close>

fun recover_all ::
  "('x, 'g) env \<Rightarrow> ('x, 'g) event_handler \<Rightarrow> consumer \<Rightarrow> stream_entry list \<Rightarrow> recovery_result \<Rightarrow>
   ('x, 'g, recovery_result \<times> exn option) act" where
  "recover_all E h C [] st w = ret (st, None) w"
| "recover_all E h C (m # ms) st w =
     (case fst (recover_one E h C m st w) of
        Inl e \<Rightarrow> (Inr (st, Some e), snd (recover_one E h C m st w))
      | Inr st' \<Rightarrow> recover_all E h C ms st' (snd (recover_one E h C m st w)))"

definition claim_and_recover ::
  "('x, 'g) env \<Rightarrow> ('x, 'g) event_handler \<Rightarrow> consumer \<Rightarrow> string list \<Rightarrow>
   ('x, 'g, recovery_result \<times> exn option) act" where
  "claim_and_recover E h C ids =
     try_except
       (bindE (on_redis (r_xclaim (redis_of E) (cs_stream C) (cs_group C) (cs_name C) 60000 ids))
        (\<lambda>claimed. recover_all E h C claimed (no_recovery\<lparr>rr_claimed := length claimed\<rparr>)))
       is_redis_error
       (\<lambda>_. ret (no_recovery, None))"

definition process_pending ::
  "('x, 'g) env \<Rightarrow> ('x, 'g) event_handler \<Rightarrow> consumer \<Rightarrow> ('x, 'g, recovery_result) act" where
  "process_pending E h C =
     bindE (get_pending_events E (cs_stream C) (cs_group C) 100 None) (\<lambda>pending.
       let ids = stale_ids 60000 pending in
       if ids = [] then ret no_recovery
       else
         bindE (claim_and_recover E h C ids) (\<lambda>(st, err).
           case err of
             None \<Rightarrow> ret st
           | Some e \<Rightarrow> if is_redis_error (class_of e) then ret st else raise e))"

section \<open>Lemmas\<close>

definition mark_key :: "('x, 'g) env \<Rightarrow> string option \<Rightarrow> string \<Rightarrow> (keyspace, 'g) world \<Rightarrow> (keyspace, 'g) world" where
  "mark_key E key eid a = (case key of None \<Rightarrow> a | Some k \<Rightarrow> if k = [] then a else mark_seen E k eid a)"

definition key_seen :: "('x, 'g) env \<Rightarrow> (keyspace, 'g) world \<Rightarrow> string option \<Rightarrow> bool" where
  "key_seen E a key \<longleftrightarrow> truthy key \<and> seen E a (or_else key [])"

definition acked :: "consumer \<Rightarrow> string \<Rightarrow> (keyspace, 'g) world \<Rightarrow> (keyspace, 'g) world" where
  "acked C eid a = drop_pending (cs_stream C) (cs_group C) eid a"

lemma mark_key_frame [simp]:
  "hashes (srv (mark_key E key eid a)) = hashes (srv a)"
  "streams (srv (mark_key E key eid a)) = streams (srv a)"
  "unacked (srv (mark_key E key eid a)) = unacked (srv a)"
  "ctx_tenant (mark_key E key eid a) = ctx_tenant a"
  by (auto simp: mark_key_def split: option.splits)

lemma acked_frame [simp]:
  "hashes (srv (acked C eid a)) = hashes (srv a)" "strs (srv (acked C eid a)) = strs (srv a)"
  "streams (srv (acked C eid a)) = streams (srv a)" "ctx_tenant (acked C eid a) = ctx_tenant a"
  "unacked (srv (acked C eid a)) =
     (unacked (srv a))((cs_stream C, cs_group C) := unacked (srv a) (cs_stream C, cs_group C) - {eid})"
  by (simp_all add: acked_def)

lemma seen_acked [simp]: "seen E (acked C eid a) k = seen E a k"
  by (simp add: seen_def)

lemma key_seen_simps [simp]:
  "key_seen E (acked C eid a) key = key_seen E a key"
  "truthy key \<Longrightarrow> key_seen E (mark_key E key eid a) key"
  by (cases key; simp add: key_seen_def mark_key_def or_else_def)+

text \<open>The table of outcomes for an event that is handled.\<close>

definition outcome ::
  "('x, 'g) env \<Rightarrow> consumer \<Rightarrow> asdlc_event \<Rightarrow> exn + handler_result \<Rightarrow>
   (keyspace, 'g) world \<Rightarrow> (keyspace, 'g) world" where
  "outcome E C ev r a =
     (case r of
        Inl _ \<Rightarrow> a
      | Inr res \<Rightarrow>
          if hr_success res
          then acked C (or_else (ev_id ev) []) (mark_key E (ev_idempotency_key ev) (or_else (ev_id ev) []) a)
          else if hr_should_retry res then a
          else acked C (or_else (ev_id ev) []) a)"

locale consumer_world = string_world E kv + stream_world E kv
  for E :: "('x, 'g) env" and kv :: "'x \<Rightarrow> keyspace"
begin

lemma ack_runs: "runs kv (ack E C eid) w (Inr ()) (acked C eid (absw kv w))"
  unfolding ack_def acked_def by (rule runs_bindE [OF acknowledge_event]) simp

lemma already_processed_runs:
  "runs kv (already_processed E key) w (Inr (key_seen E (absw kv w) key)) (absw kv w)"
  using is_processed [of "or_else key []" w]
  by (cases key) (auto simp: already_processed_def key_seen_def or_else_def)

lemma mark_if_keyed_runs:
  "runs kv (mark_if_keyed E ttl key eid) w (Inr ()) (mark_key E key eid (absw kv w))"
  using mark_processed by (cases key) (simp_all add: mark_if_keyed_def mark_key_def)

lemma handle_event_skips:
  assumes "\<not> eh_can_handle h (ev_type ev) \<or> key_seen E (absw kv w) (ev_idempotency_key ev)"
  shows "runs kv (handle_event E h C ev) w (Inr ()) (acked C (or_else (ev_id ev) []) (absw kv w))"
proof (cases "eh_can_handle h (ev_type ev)")
  case True
  with assms have k: "key_seen E (absw kv w) (ev_idempotency_key ev) = True" by simp
  have "\<not> \<not> eh_can_handle h (ev_type ev)" using True by simp
  note c = if_not_P [OF this]
  show ?thesis
    unfolding handle_event_def Let_def c
  proof (rule runs_bindE [OF already_processed_runs], unfold k if_True, goal_cases)
    case (1 w')
    from ack_runs [of C "or_else (ev_id ev) []" w'] show ?case unfolding 1 .
  qed
next
  case False
  then show ?thesis by (simp add: handle_event_def Let_def ack_runs)
qed

lemma handle_event_handles:
  assumes "eh_can_handle h (ev_type ev)" "\<not> key_seen E (absw kv w) (ev_idempotency_key ev)"
    and run: "\<And>w'. absw kv w' = absw kv w \<Longrightarrow> runs kv (eh_handle h ev) w' r a"
  shows "runs kv (handle_event E h C ev) w (Inr ()) (outcome E C ev r a)"
proof -
  let ?eid = "or_else (ev_id ev) []"
  let ?body = "bindE (eh_handle h ev) (\<lambda>res.
      if hr_success res then thenE (mark_if_keyed E (cs_ttl C) (ev_idempotency_key ev) ?eid) (ack E C ?eid)
      else if hr_should_retry res then ret () else ack E C ?eid)"
  have "runs kv (try_except ?body any_exception (\<lambda>_. ret ())) w' (Inr ()) (outcome E C ev r a)"
    if w': "absw kv w' = absw kv w" for w'
  proof (cases r)
    case (Inl e)
    with runs_bindE_Inl [OF run [OF w', unfolded Inl]] show ?thesis
      by (intro runs_try_except(2) [where a = a]) (auto simp: outcome_def)
  next
    case (Inr res)
    note h = run [OF w', unfolded Inr]
    have "runs kv ?body w' (Inr ()) (outcome E C ev r a)"
    proof (rule runs_bindE [OF h], goal_cases)
      case (1 w2)
      show ?case
      proof (cases "hr_success res")
        case True
        show ?thesis
          unfolding if_P [OF True]
          by (rule runs_thenE [OF mark_if_keyed_runs])
            (use True Inr 1 ack_runs [of C ?eid] in \<open>simp add: outcome_def, metis\<close>)
      next
        case False
        with 1 Inr ack_runs [of C ?eid w2] show ?thesis by (simp add: outcome_def)
      qed
    qed
    then show ?thesis by (rule runs_try_except(1))
  qed
  then show ?thesis
    unfolding handle_event_def Let_def using assms(1)
    by (simp, intro runs_bindE [OF already_processed_runs]) (simp add: assms(2))
qed

end

interpretation mem_consumer: consumer_world "mem_env c" mem_abs
  rewrites "redis_of (mem_env c) = mem_redis"
  by (simp_all add: consumer_world_def mem_string.string_world_axioms mem_stream.stream_world_axioms)

section \<open>The counters of a recovery\<close>

definition settled :: "recovery_result \<Rightarrow> nat" where
  "settled r = rr_processed r + rr_skipped r + rr_failed r"

lemma recover_one_counts:
  assumes "fst (recover_one E h C m st w) = Inr st'"
  shows "rr_claimed st' = rr_claimed st" "settled st' = settled st + (if snd m = [] then 0 else 1)"
  using assms
  by (auto simp: recover_one_def settled_def bindE_def thenE_def try_except_def ret_def Let_def
      split: sum.splits if_splits)

lemma recover_all_counts:
  assumes "fst (recover_all E h C ms st w) = Inr (st', err)"
  shows "rr_claimed st' = rr_claimed st \<and> settled st' \<le> settled st + length ms \<and>
    (err = None \<longrightarrow> settled st' = settled st + length (filter (\<lambda>m. snd m \<noteq> []) ms))"
  using assms
proof (induction ms arbitrary: st w)
  case (Cons m ms)
  show ?case
  proof (cases "fst (recover_one E h C m st w)")
    case (Inl e)
    with Cons.prems show ?thesis by (auto simp: ret_def)
  next
    case (Inr st1)
    note c = recover_one_counts [OF Inr]
    from Inr Cons.prems have "fst (recover_all E h C ms st1 (snd (recover_one E h C m st w))) = Inr (st', err)"
      by simp
    from Cons.IH [OF this] c show ?thesis by (auto split: if_splits)
  qed
qed simp

lemma recover_all_returns: "\<exists>st' err. fst (recover_all E h C ms st w) = Inr (st', err)"
  by (induction ms arbitrary: st w) (auto split: sum.splits)

lemma process_pending_counts:
  assumes "fst (process_pending E h C w) = Inr st"
  shows "settled st \<le> rr_claimed st"
proof -
  have no: "settled no_recovery \<le> rr_claimed no_recovery" by (simp add: settled_def no_recovery_def)
  have one: "settled st' \<le> rr_claimed st'"
    if "fst (claim_and_recover E h C ids w') = Inr (st', err)" for ids w' st' err
  proof -
    let ?claim = "on_redis (r_xclaim (redis_of E) (cs_stream C) (cs_group C) (cs_name C) 60000 ids)"
    show ?thesis
    proof (cases "fst (?claim w')")
      case (Inl e)
      with that no show ?thesis
        by (auto simp: claim_and_recover_def try_except_def bindE_def split: if_splits)
    next
      case (Inr ms)
      obtain st1 err1 where r: "fst (recover_all E h C ms (no_recovery\<lparr>rr_claimed := length ms\<rparr>) (snd (?claim w')))
          = Inr (st1, err1)"
        using recover_all_returns by blast
      with that Inr have "st' = st1"
        by (simp add: claim_and_recover_def try_except_def bindE_def)
      with recover_all_counts [OF r] show ?thesis
        by (simp add: settled_def no_recovery_def)
    qed
  qed
  from assms show ?thesis
    unfolding process_pending_def
    by (auto simp: bindE_def Let_def ret_def raise_def no split: sum.splits if_splits option.splits prod.splits
        dest: one)
qed

section \<open>The consumer's promises\<close>

lemma consumer_world_of:
  "redis_strings (redis_of E) kv \<Longrightarrow> redis_streams (redis_of E) kv \<Longrightarrow> consumer_world E kv"
  by (simp add: consumer_world_def string_world_def stream_world_def)

definition demo_consumer :: consumer where
  "demo_consumer =
     \<lparr>cs_group = ''g'', cs_name = ''c'', cs_stream = ''asdlc:events'', cs_batch_size = 10,
      cs_block_ms = 1000, cs_ttl = 86400\<rparr>"

definition demo_handler :: "(memstore, string list list) event_handler" where
  "demo_handler =
     \<lparr>eh_can_handle = (\<lambda>t. True),
      eh_handle = (\<lambda>ev. ret \<lparr>hr_success = True, hr_should_retry = False, hr_error_message = None,
                              hr_artifact_paths = []\<rparr>)\<rparr>"

text \<open>C8: what becomes of an event.  An event of a type the handler does not take, or whose key is
  marked, is acknowledged and the handler does not run.  Any other event is handled: success
  marks its key and acknowledges it, a permanent failure only acknowledges it, and a retry or
  a crash does neither; no outcome raises.\<close>

theorem event_outcomes:
  assumes "redis_strings (redis_of E) kv" "redis_streams (redis_of E) kv"
  shows "(\<not> eh_can_handle h (ev_type ev) \<or> key_seen E (absw kv w) (ev_idempotency_key ev) \<longrightarrow>
      runs kv (handle_event E h C ev) w (Inr ()) (acked C (or_else (ev_id ev) []) (absw kv w))) \<and>
    (eh_can_handle h (ev_type ev) \<and> \<not> key_seen E (absw kv w) (ev_idempotency_key ev) \<and>
      (\<forall>w'. absw kv w' = absw kv w \<longrightarrow> runs kv (eh_handle h ev) w' r a) \<longrightarrow>
      runs kv (handle_event E h C ev) w (Inr ()) (outcome E C ev r a))"
  using consumer_world.handle_event_skips [OF consumer_world_of [OF assms]]
    consumer_world.handle_event_handles [OF consumer_world_of [OF assms]] by blast

lemma event_outcomes_witness:
  "runs mem_abs (handle_event demo_env demo_handler demo_consumer (demo_event TASK_CREATED)) mem_world (Inr ())
     (acked demo_consumer [] (absw mem_abs mem_world))"
proof -
  let ?r = "Inr \<lparr>hr_success = True, hr_should_retry = False, hr_error_message = None,
                 hr_artifact_paths = []\<rparr> :: exn + handler_result"
  have "\<forall>w'. absw mem_abs w' = absw mem_abs mem_world \<longrightarrow>
      runs mem_abs (eh_handle demo_handler (demo_event TASK_CREATED)) w' ?r (absw mem_abs mem_world)"
    by (simp add: demo_handler_def)
  then show ?thesis
    using event_outcomes [of demo_env mem_abs demo_handler "demo_event TASK_CREATED" mem_world demo_consumer ?r
        "absw mem_abs mem_world"] mem.redis_strings_axioms mem.redis_streams_axioms
    by (simp add: demo_handler_def demo_event_def blank_event_def key_seen_def truthy_def outcome_def mark_key_def
        or_else_def)
qed

text \<open>C9: at most once per key.  When an event with a key has been handled with success, every
  later event with that key is acknowledged without running any handler.\<close>

theorem keyed_event_handled_once:
  fixes E :: "('x, 'g) env" and C :: consumer
  assumes "redis_strings (redis_of E) kv" "redis_streams (redis_of E) kv"
    and "eh_can_handle h (ev_type ev)" "\<not> key_seen E (absw kv w) (ev_idempotency_key ev)"
    and "\<And>w'. absw kv w' = absw kv w \<Longrightarrow> runs kv (eh_handle h ev) w' (Inr res) a" "hr_success res"
    and "truthy (ev_idempotency_key ev)" "ev_idempotency_key ev' = ev_idempotency_key ev"
  defines "w1 \<equiv> snd (handle_event E h C ev w)"
  shows "runs kv (handle_event E h' C ev') w1 (Inr ()) (acked C (or_else (ev_id ev') []) (absw kv w1))"
proof -
  note cw = consumer_world_of [OF assms(1,2)]
  have "absw kv w1 = outcome E C ev (Inr res) a"
    using consumer_world.handle_event_handles [OF cw assms(3,4,5), of C] by (simp add: runs_def w1_def)
  then have "key_seen E (absw kv w1) (ev_idempotency_key ev')"
    using assms(6-8) by (simp add: outcome_def)
  then show ?thesis by (intro consumer_world.handle_event_skips [OF cw]) simp
qed

lemma keyed_event_handled_once_witness:
  "runs mem_abs (handle_event demo_env demo_handler demo_consumer
       ((demo_event TASK_FAILED)\<lparr>ev_idempotency_key := Some ''k''\<rparr>))
     (snd (handle_event demo_env demo_handler demo_consumer
       ((demo_event TASK_CREATED)\<lparr>ev_idempotency_key := Some ''k''\<rparr>) mem_world)) (Inr ())
     (acked demo_consumer [] (absw mem_abs (snd (handle_event demo_env demo_handler demo_consumer
       ((demo_event TASK_CREATED)\<lparr>ev_idempotency_key := Some ''k''\<rparr>) mem_world))))"
proof -
  let ?ev = "\<lambda>t. (demo_event t)\<lparr>ev_idempotency_key := Some ''k''\<rparr>"
  let ?r = "\<lparr>hr_success = True, hr_should_retry = False, hr_error_message = None, hr_artifact_paths = []\<rparr>"
  have "\<not> key_seen demo_env (absw mem_abs mem_world) (Some ''k'')"
    by (simp add: key_seen_def seen_def mem_world_def empty_memstore_def mem_abs_def mem_get_def)
  moreover have "ev_id (?ev t) = None" for t by (simp add: demo_event_def blank_event_def)
  ultimately show ?thesis
    using keyed_event_handled_once [of demo_env mem_abs demo_handler "?ev TASK_CREATED" mem_world ?r
        "absw mem_abs mem_world" "?ev TASK_FAILED" demo_handler demo_consumer]
      mem.redis_strings_axioms mem.redis_streams_axioms
    by (simp add: demo_handler_def truthy_def or_else_def)
qed

text \<open>A recovery that returns has settled each claimed entry at most once, as processed, skipped
  or failed; so the total it reports, which adds the claimed ones, counts entries twice.\<close>

theorem recovery_accounts:
  assumes "fst (process_pending E h C w) = Inr r"
  shows "rr_processed r + rr_skipped r + rr_failed r \<le> rr_claimed r \<and>
    2 * (rr_processed r + rr_skipped r + rr_failed r) \<le> recovery_total r"
  using process_pending_counts [OF assms] by (simp add: settled_def recovery_total_def)

text \<open>One entry is pending since a minute.\<close>

definition stale_world :: "(memstore, string list list) world" where
  "stale_world =
     mem_world\<lparr>srv := empty_memstore
       \<lparr>mem_streams := [(''asdlc:events'', [(''1'', [(''session_id'', ''s1'')])])],
        mem_unacked := [((''asdlc:events'', ''g''), [''1''])]\<rparr>\<rparr>"

lemma recovery_accounts_witness:
  "\<exists>r. fst (process_pending demo_env demo_handler demo_consumer stale_world) = Inr r \<and>
     rr_processed r = 1 \<and> recovery_total r = 2 \<and>
     rr_processed r + rr_skipped r + rr_failed r \<le> rr_claimed r"
proof -
  have r: "fst (process_pending demo_env demo_handler demo_consumer stale_world) =
      Inr \<lparr>rr_processed = 1, rr_skipped = 0, rr_failed = 0, rr_claimed = 1\<rparr>"
    by code_simp
  from conjunct1 [OF recovery_accounts [OF r]] r show ?thesis by (simp add: recovery_total_def)
qed

end
