(* ===== verification/Worker_Pool.thy ===== *)
theory Worker_Pool
  imports Streams
begin

text \<open>
  The worker pool, \<^verbatim>\<open>src/workers\<close>: its configuration, the consumer of \<^verbatim>\<open>AGENT_STARTED\<close> events,
  the tracker that claims an event atomically, the dispatcher of agents, the processing of
  one event with the counters of the pool, and the pool's life cycle as a step relation.
\<close>

section \<open>Configuration (\<^verbatim>\<open>workers/config.py\<close>)\<close>

record worker_config =
  wc_pool_size :: int
  wc_batch_size :: int
  wc_event_timeout :: int
  wc_shutdown_timeout :: int
  wc_consumer_group :: string
  wc_consumer_name :: string

definition positive_field :: "string \<Rightarrow> int \<Rightarrow> exn + unit" where
  "positive_field name v =
     (if v < 1 then Inl (Exn PyValueError (name @ '' must be positive, got '' @ int_str v)) else Inr ())"

definition worker_post_init :: "worker_config \<Rightarrow> exn + worker_config" where
  "worker_post_init c =
     (case positive_field ''pool_size'' (wc_pool_size c) of Inl e \<Rightarrow> Inl e | Inr _ \<Rightarrow>
     (case positive_field ''batch_size'' (wc_batch_size c) of Inl e \<Rightarrow> Inl e | Inr _ \<Rightarrow>
     (case positive_field ''event_timeout_seconds'' (wc_event_timeout c) of Inl e \<Rightarrow> Inl e | Inr _ \<Rightarrow>
     (case positive_field ''shutdown_timeout_seconds'' (wc_shutdown_timeout c) of Inl e \<Rightarrow> Inl e | Inr _ \<Rightarrow>
        Inr c))))"

text \<open>The hexadecimal form of a \<^verbatim>\<open>uuid4\<close> is its text without the dashes.\<close>

definition generate_consumer_name :: "('x, 'g) env \<Rightarrow> ('x, 'g, string) act" where
  "generate_consumer_name E =
     bindE (new_uuid E) (\<lambda>u. ret (''worker-'' @ take 8 (filter (\<lambda>c. c \<noteq> CHR ''-'') u)))"

definition worker_config_from_env :: "('x, 'g) env \<Rightarrow> os_environ \<Rightarrow> ('x, 'g, worker_config) act" where
  "worker_config_from_env E env =
     bindE (if truthy (map_of env ''WORKER_CONSUMER_NAME'')
            then ret (or_else (map_of env ''WORKER_CONSUMER_NAME'') [])
            else generate_consumer_name E) (\<lambda>name.
     bindE (lift_result (py_int (getenv env ''WORKER_POOL_SIZE'' ''4''))) (\<lambda>ps.
     bindE (lift_result (py_int (getenv env ''WORKER_BATCH_SIZE'' ''10''))) (\<lambda>bs.
     bindE (lift_result (py_int (getenv env ''WORKER_EVENT_TIMEOUT'' ''300''))) (\<lambda>et.
     bindE (lift_result (py_int (getenv env ''WORKER_SHUTDOWN_TIMEOUT'' ''30''))) (\<lambda>st.
     lift_result (worker_post_init
       \<lparr>wc_pool_size = ps, wc_batch_size = bs, wc_event_timeout = et, wc_shutdown_timeout = st,
        wc_consumer_group = getenv env ''WORKER_CONSUMER_GROUP'' ''development-handlers'',
        wc_consumer_name = name\<rparr>))))))"

section \<open>The consumer (\<^verbatim>\<open>pool/event_consumer.py\<close>)\<close>

record worker =
  wk_config :: worker_config
  wk_tenant :: "string option"
  wk_workspace :: string

definition tenant_of_worker :: "worker \<Rightarrow> string \<Rightarrow> string" where
  "tenant_of_worker W base =
     (case wk_tenant W of None \<Rightarrow> base | Some t \<Rightarrow> if t = [] then base else ''tenant:'' @ t @ '':'' @ base)"

definition wk_stream_name :: "('x, 'g) env \<Rightarrow> worker \<Rightarrow> string" where
  "wk_stream_name E W = tenant_of_worker W (cfg_stream E)"

definition wk_acknowledge :: "('x, 'g) env \<Rightarrow> worker \<Rightarrow> string \<Rightarrow> ('x, 'g, bool) act" where
  "wk_acknowledge E W eid =
     as_stream_error ''Failed to acknowledge event: ''
       (bindE (on_redis (r_xack (redis_of E) (wk_stream_name E W) (wc_consumer_group (wk_config W)) eid))
        (\<lambda>n. ret (n > 0)))"

text \<open>The loop keeps the \<^verbatim>\<open>AGENT_STARTED\<close> events and acknowledges every other one at once.\<close>

fun keep_started :: "('x, 'g) env \<Rightarrow> worker \<Rightarrow> stream_entry list \<Rightarrow> ('x, 'g, asdlc_event list) act" where
  "keep_started E W [] = ret []"
| "keep_started E W (m # ms) =
     bindE (from_stream_dict (fst m) (snd m)) (\<lambda>ev.
       if ev_type ev = AGENT_STARTED
       then bindE (keep_started E W ms) (\<lambda>evs. ret (ev # evs))
       else bindE (wk_acknowledge E W (fst m)) (\<lambda>_. keep_started E W ms))"

definition read_events :: "('x, 'g) env \<Rightarrow> worker \<Rightarrow> int option \<Rightarrow> ('x, 'g, asdlc_event list) act" where
  "read_events E W block =
     as_stream_error ''Failed to read events from stream: ''
       (bindE (on_redis (r_xreadgroup (redis_of E) (wc_consumer_group (wk_config W))
                 (wc_consumer_name (wk_config W)) (wk_stream_name E W) (wc_batch_size (wk_config W)) block))
        (\<lambda>result. keep_started E W (concat (map snd result))))"

definition get_pending_count :: "('x, 'g) env \<Rightarrow> worker \<Rightarrow> ('x, 'g, int) act" where
  "get_pending_count E W =
     try_except
       (bindE (on_redis (r_xpending (redis_of E) (wk_stream_name E W) (wc_consumer_group (wk_config W))))
        (\<lambda>r. ret (case r of None \<Rightarrow> 0 | Some n \<Rightarrow> n)))
       is_redis_error
       (\<lambda>_. ret 0)"

definition claim_stale_started ::
  "('x, 'g) env \<Rightarrow> worker \<Rightarrow> int \<Rightarrow> int \<Rightarrow> ('x, 'g, asdlc_event list) act" where
  "claim_stale_started E W min_idle count =
     try_except
       (bindE (on_redis (r_xpending_range (redis_of E) (wk_stream_name E W)
                 (wc_consumer_group (wk_config W)) count None)) (\<lambda>pending.
          let ids = stale_ids min_idle pending in
          if ids = [] then ret []
          else
            bindE (on_redis (r_xclaim (redis_of E) (wk_stream_name E W) (wc_consumer_group (wk_config W))
                     (wc_consumer_name (wk_config W)) min_idle ids)) (\<lambda>claimed.
            bindE (collect (filter (\<lambda>m. snd m \<noteq> []) claimed)
                     (\<lambda>m. from_stream_dict (fst m) (snd m))) (\<lambda>evs.
            ret (filter (\<lambda>ev. ev_type ev = AGENT_STARTED) evs)))))
       is_redis_error
       (\<lambda>_. ret [])"

section \<open>The tracker (\<^verbatim>\<open>pool/idempotency.py\<close>)\<close>

definition worker_ttl :: int where
  "worker_ttl = 86400 * 7"

definition wk_key :: "worker \<Rightarrow> string \<Rightarrow> string" where
  "wk_key W key = tenant_of_worker W (''asdlc:worker:processed:'' @ key)"

definition event_key :: "('x, 'g) env \<Rightarrow> asdlc_event \<Rightarrow> string" where
  "event_key E ev =
     (if truthy (ev_idempotency_key ev) then or_else (ev_idempotency_key ev) []
      else generate_idempotency_key E (event_type_value (ev_type ev)) (ev_session_id ev)
             (ev_task_id ev) (ev_epic_id ev) None)"

definition wk_is_processed :: "('x, 'g) env \<Rightarrow> worker \<Rightarrow> asdlc_event \<Rightarrow> ('x, 'g, bool) act" where
  "wk_is_processed E W ev =
     bindE (on_redis (r_exists (redis_of E) (wk_key W (event_key E ev)))) (\<lambda>n. ret (n > 0))"

definition wk_mark_processed :: "('x, 'g) env \<Rightarrow> worker \<Rightarrow> asdlc_event \<Rightarrow> ('x, 'g, unit) act" where
  "wk_mark_processed E W ev =
     bindE (on_redis (r_set (redis_of E) (wk_key W (event_key E ev)) (or_else (ev_id ev) ''unknown'')
              worker_ttl False)) (\<lambda>_. ret ())"

definition check_and_mark_if_new :: "('x, 'g) env \<Rightarrow> worker \<Rightarrow> asdlc_event \<Rightarrow> ('x, 'g, bool) act" where
  "check_and_mark_if_new E W ev =
     on_redis (r_set (redis_of E) (wk_key W (event_key E ev)) (or_else (ev_id ev) ''unknown'') worker_ttl True)"

section \<open>Agents (\<^verbatim>\<open>agents/protocols.py\<close>, \<^verbatim>\<open>agents/dispatcher.py\<close>)\<close>

record agent_result =
  ar_success :: bool
  ar_agent_type :: string
  ar_task_id :: string
  ar_error_message :: "string option"
  ar_should_retry :: bool
  ar_artifact_paths :: "string list"
  ar_metadata :: "json pydict"

record agent_context =
  ac_session_id :: string
  ac_task_id :: string
  ac_tenant_id :: string
  ac_workspace_path :: string
  ac_metadata :: "json pydict"

text \<open>An agent, with the two optional methods.\<close>

record ('x, 'g) agent =
  ag_type :: string
  ag_execute :: "agent_context \<Rightarrow> json \<Rightarrow> ('x, 'g, agent_result) act"
  ag_validate :: "(agent_context \<Rightarrow> ('x, 'g, bool) act) option"
  ag_cleanup :: "(agent_context \<Rightarrow> ('x, 'g, unit) act) option"

type_synonym ('x, 'g) agents = "('x, 'g) agent pydict"

definition register :: "('x, 'g) agent \<Rightarrow> ('x, 'g) agents \<Rightarrow> ('x, 'g) agents" where
  "register a ags = dset (ag_type a) a ags"

text \<open>\<^verbatim>\<open>try: m finally: c\<close>, where the clean-up \<open>c\<close> swallows its own exceptions.\<close>

definition finally_do :: "('s, 'a) io \<Rightarrow> ('s, unit) io \<Rightarrow> ('s, 'a) io" where
  "finally_do m c s = (fst (m s), snd (c (snd (m s))))"

definition run_agent ::
  "('x, 'g) agent \<Rightarrow> string \<Rightarrow> agent_context \<Rightarrow> json \<Rightarrow> ('x, 'g, agent_result) act" where
  "run_agent a atype ctx meta =
     finally_do
       (bindE (case ag_validate a of None \<Rightarrow> ret True | Some v \<Rightarrow> v ctx) (\<lambda>valid.
          if \<not> valid then
            ret \<lparr>ar_success = False, ar_agent_type = atype, ar_task_id = ac_task_id ctx,
                 ar_error_message = Some ''Context validation failed'', ar_should_retry = False,
                 ar_artifact_paths = [], ar_metadata = []\<rparr>
          else ag_execute a ctx meta))
       (case ag_cleanup a of
          None \<Rightarrow> ret ()
        | Some c \<Rightarrow> try_except (c ctx) any_exception (\<lambda>_. ret ()))"

text \<open>\<^verbatim>\<open>self._agents.get(agent_type)\<close>: only text can be a key of the dictionary.\<close>

definition dispatch ::
  "('x, 'g) agents \<Rightarrow> asdlc_event \<Rightarrow> agent_context \<Rightarrow> ('x, 'g, agent_result) act" where
  "dispatch ags ev ctx =
     bindE (lift_result (meta_get ev ''agent_type'' JNull)) (\<lambda>atype.
       if \<not> json_truthy atype then
         raise (Exn AgentNotFoundError ''Event metadata missing agent_type'')
       else
         (case atype of
            JStr s \<Rightarrow>
              (case map_of ags s of
                 None \<Rightarrow> raise (Exn AgentNotFoundError (''No agent registered for type: '' @ s))
               | Some a \<Rightarrow> run_agent a s ctx (ev_metadata ev))
          | JInt i \<Rightarrow> raise (Exn AgentNotFoundError (''No agent registered for type: '' @ int_str i))
          | JBool b \<Rightarrow> raise (Exn AgentNotFoundError (''No agent registered for type: True''))
          | _ \<Rightarrow> raise (Exn PyTypeError ''unhashable type'')))"

section \<open>The pool (\<^verbatim>\<open>pool/worker_pool.py\<close>)\<close>

record pool_stats =
  events_processed :: nat
  events_succeeded :: nat
  events_failed :: nat

text \<open>The methods of the pool act on the world and on the counters of the object.\<close>

type_synonym ('x, 'g, 'a) pool_act = "(('x, 'g) world \<times> pool_stats, 'a) io"

definition outside :: "('x, 'g, 'a) act \<Rightarrow> ('x, 'g, 'a) pool_act" where
  "outside m s = (fst (m (fst s)), (snd (m (fst s)), snd s))"

definition count_result :: "bool \<Rightarrow> ('x, 'g, unit) pool_act" where
  "count_result ok s =
     (Inr (), (fst s, (snd s)\<lparr>events_processed := events_processed (snd s) + 1,
        events_succeeded := events_succeeded (snd s) + (if ok then 1 else 0),
        events_failed := events_failed (snd s) + (if ok then 0 else 1)\<rparr>))"

definition json_opt :: "string option \<Rightarrow> json" where
  "json_opt s = (case s of None \<Rightarrow> JNull | Some v \<Rightarrow> JStr v)"

definition worker_context :: "worker \<Rightarrow> asdlc_event \<Rightarrow> agent_context" where
  "worker_context W ev =
     \<lparr>ac_session_id = ev_session_id ev,
      ac_task_id = or_else (ev_task_id ev) ''unknown'',
      ac_tenant_id = or_else (wk_tenant W) (or_else (ev_tenant_id ev) ''default''),
      ac_workspace_path = wk_workspace W,
      ac_metadata = [(''git_sha'', json_opt (ev_git_sha ev)), (''epic_id'', json_opt (ev_epic_id ev)),
                     (''mode'', JStr (ev_mode ev))]\<rparr>"

text \<open>The event that answers \<open>ev\<close>: what both kinds of answer copy from it.\<close>

definition answer_event :: "event_type \<Rightarrow> asdlc_event \<Rightarrow> string list \<Rightarrow> json pydict \<Rightarrow> datetime \<Rightarrow> asdlc_event" where
  "answer_event t ev paths meta now =
     (blank_event t (ev_session_id ev) now)
       \<lparr>ev_task_id := ev_task_id ev, ev_epic_id := ev_epic_id ev, ev_git_sha := ev_git_sha ev,
        ev_artifact_paths := paths, ev_mode := ev_mode ev, ev_tenant_id := ev_tenant_id ev,
        ev_metadata := JObj meta\<rparr>"

definition wk_publish :: "('x, 'g) env \<Rightarrow> worker \<Rightarrow> asdlc_event \<Rightarrow> ('x, 'g, string) act" where
  "wk_publish E W ev =
     on_redis (r_xadd (redis_of E) (wk_stream_name E W) (to_stream_dict ev) 10000)"

definition result_meta :: "agent_result \<Rightarrow> json pydict" where
  "result_meta r =
     dupdate
       [(''agent_type'', JStr (ar_agent_type r)), (''success'', JBool (ar_success r)),
        (''error_message'', json_opt (ar_error_message r)), (''should_retry'', JBool (ar_should_retry r))]
       (ar_metadata r)"

definition publish_result ::
  "('x, 'g) env \<Rightarrow> worker \<Rightarrow> asdlc_event \<Rightarrow> agent_result \<Rightarrow> ('x, 'g, unit) act" where
  "publish_result E W ev r =
     bindE now_utc (\<lambda>now.
     bindE (new_event (answer_event (if ar_success r then AGENT_COMPLETED else AGENT_ERROR) ev
              (ar_artifact_paths r) (result_meta r) now)) (\<lambda>e.
     bindE (wk_publish E W e) (\<lambda>_. ret ())))"

definition publish_error ::
  "('x, 'g) env \<Rightarrow> worker \<Rightarrow> asdlc_event \<Rightarrow> string \<Rightarrow> ('x, 'g, unit) act" where
  "publish_error E W ev msg =
     bindE now_utc (\<lambda>now.
     bindE (lift_result (meta_get ev ''agent_type'' (JStr ''unknown''))) (\<lambda>atype.
     bindE (new_event (answer_event AGENT_ERROR ev []
              [(''agent_type'', atype), (''success'', JBool False), (''error_message'', JStr msg),
               (''should_retry'', JBool False)] now)) (\<lambda>e.
     bindE (wk_publish E W e) (\<lambda>_. ret ()))))"

text \<open>An event read from a stream has an identifier; without one the client refuses the command.\<close>

definition wk_ack_event :: "('x, 'g) env \<Rightarrow> worker \<Rightarrow> asdlc_event \<Rightarrow> ('x, 'g, unit) act" where
  "wk_ack_event E W ev =
     (case ev_id ev of
        None \<Rightarrow> raise (Exn StreamError ''Failed to acknowledge event'')
      | Some i \<Rightarrow> bindE (wk_acknowledge E W i) (\<lambda>_. ret ()))"

text \<open>The two exception clauses differ in the line they log.\<close>

definition process_event ::
  "('x, 'g) env \<Rightarrow> worker \<Rightarrow> ('x, 'g) agents \<Rightarrow> asdlc_event \<Rightarrow> ('x, 'g, unit) pool_act" where
  "process_event E W ags ev =
     try_except
       (bindE (outside (check_and_mark_if_new E W ev)) (\<lambda>is_new.
          if \<not> is_new then outside (wk_ack_event E W ev)
          else
            bindE (outside (dispatch ags ev (worker_context W ev))) (\<lambda>r.
            thenE (count_result (ar_success r))
            (thenE (outside (publish_result E W ev r))
            (outside (wk_ack_event E W ev))))))
       any_exception
       (\<lambda>e. thenE (count_result False)
            (thenE (outside (publish_error E W ev (message_of e)))
            (outside (wk_ack_event E W ev))))"

section \<open>The counters\<close>

definition balanced :: "pool_stats \<Rightarrow> bool" where
  "balanced p \<longleftrightarrow> events_processed p = events_succeeded p + events_failed p"

lemma outside_simps [simp]:
  "fst (outside m s) = fst (m (fst s))" "snd (outside m s) = (snd (m (fst s)), snd s)"
  by (simp_all add: outside_def)

lemma count_result_simps [simp]:
  "fst (count_result ok s) = Inr ()" "fst (snd (count_result ok s)) = fst s"
  by (simp_all add: count_result_def)

definition balanced_rel :: "('x, 'g) world \<times> pool_stats \<Rightarrow> ('x, 'g) world \<times> pool_stats \<Rightarrow> bool" where
  "balanced_rel s s' \<longleftrightarrow> (balanced (snd s) \<longrightarrow> balanced (snd s'))"

lemma balanced_rel: "reflp balanced_rel" "transp balanced_rel"
  by (auto simp: reflp_def transp_def balanced_rel_def)

lemma balanced_parts:
  "preserves balanced_rel (outside m)" "preserves balanced_rel (count_result ok)"
  by (simp_all add: preserves_def balanced_rel_def balanced_def count_result_def)

lemma process_event_balanced: "preserves balanced_rel (process_event E W ags ev)"
proof -
  have *: "preserves balanced_rel (if b then x else y)"
    if "preserves balanced_rel x" "preserves balanced_rel y" for b and x y :: "('x, 'g, unit) pool_act"
    using that by simp
  show ?thesis
    unfolding process_event_def
    by (intro preserves_try_except preserves_bindE preserves_thenE balanced_rel balanced_parts *)
qed

section \<open>Claiming and answering an event\<close>

definition wk_acked :: "('x, 'g) env \<Rightarrow> worker \<Rightarrow> string \<Rightarrow> (keyspace, 'g) world \<Rightarrow> (keyspace, 'g) world" where
  "wk_acked E W i a = drop_pending (wk_stream_name E W) (wc_consumer_group (wk_config W)) i a"

definition claim :: "('x, 'g) env \<Rightarrow> worker \<Rightarrow> asdlc_event \<Rightarrow> (keyspace, 'g) world \<Rightarrow> (keyspace, 'g) world" where
  "claim E W ev a =
     a\<lparr>srv := (srv a)\<lparr>strs := (strs (srv a))(wk_key W (event_key E ev) \<mapsto> or_else (ev_id ev) ''unknown'')\<rparr>\<rparr>"

definition claimed :: "('x, 'g) env \<Rightarrow> worker \<Rightarrow> (keyspace, 'g) world \<Rightarrow> asdlc_event \<Rightarrow> bool" where
  "claimed E W a ev \<longleftrightarrow> strs (srv a) (wk_key W (event_key E ev)) \<noteq> None"

lemma claimed_claim [simp]: "claimed E W (claim E W ev a) ev' \<longleftrightarrow> event_key E ev' = event_key E ev \<or> claimed E W a ev'"
  by (auto simp: claimed_def claim_def wk_key_def tenant_of_worker_def split: option.splits)

locale worker_world = string_world E kv + stream_world E kv
  for E :: "('x, 'g) env" and kv :: "'x \<Rightarrow> keyspace"
begin

lemma check_new:
  "\<not> claimed E W (absw kv w) ev \<Longrightarrow>
   runs kv (check_and_mark_if_new E W ev) w (Inr True) (claim E W ev (absw kv w))"
  using set_new [of True "srv w" "wk_key W (event_key E ev)"]
  by (simp add: runs_def check_and_mark_if_new_def claimed_def claim_def)

lemma check_duplicate:
  "claimed E W (absw kv w) ev \<Longrightarrow>
   runs kv (check_and_mark_if_new E W ev) w (Inr False) (absw kv w)"
  using set_taken [of "srv w" "wk_key W (event_key E ev)"]
  by (simp add: runs_def check_and_mark_if_new_def claimed_def)

lemma ack_event_runs:
  assumes "ev_id ev = Some i"
  shows "runs kv (wk_ack_event E W ev) w (Inr ()) (wk_acked E W i (absw kv w))"
proof -
  have "wk_ack_event E W ev =
      bindE (acknowledge_event E (wk_stream_name E W) (wc_consumer_group (wk_config W)) i) (\<lambda>_. ret ())"
    using assms by (simp add: wk_ack_event_def wk_acknowledge_def acknowledge_event_def)
  then show ?thesis
    unfolding wk_acked_def by (simp, intro runs_bindE [OF acknowledge_event]) simp
qed

lemma publish_yields:
  "yields kv (wk_publish E W ev) w (\<lambda>r a. (\<exists>i n. r = Inr i \<and>
     a = stream_append (wk_stream_name E W) n (i, to_stream_dict ev) (absw kv w)))"
  unfolding wk_publish_def
  by (rule xadd_runs [of "wk_stream_name E W" "to_stream_dict ev" 10000 w]) (auto intro: yields_runs)

lemma answer_yields:
  assumes "\<not> is_blank (ev_session_id ev)"
  shows "yields kv (bindE (new_event (answer_event t ev ps meta (utc_datetime c))) (\<lambda>e.
      bindE (wk_publish E W e) (\<lambda>_. ret ()))) w
    (\<lambda>r a. r = Inr () \<and> (\<exists>i n. a = stream_append (wk_stream_name E W) n
       (i, to_stream_dict (answer_event t ev ps meta (utc_datetime c))) (absw kv w)))"
proof -
  have "post_init (answer_event t ev ps meta (utc_datetime c)) = Inr (answer_event t ev ps meta (utc_datetime c))"
    using assms by (simp add: post_init_def answer_event_def blank_event_def aware_utc_def utc_datetime_def)
  then show ?thesis
    unfolding new_event_def by (simp, intro yields_bindE [OF publish_yields]) auto
qed

text \<open>A claimed event is acknowledged and nothing else happens: the agent does not run.\<close>

lemma duplicate_skipped:
  assumes "claimed E W (absw kv w) ev" "ev_id ev = Some i"
  shows "\<exists>w'. process_event E W ags ev (w, p) = (Inr (), (w', p)) \<and> absw kv w' = wk_acked E W i (absw kv w)"
proof -
  define w1 where "w1 = snd (check_and_mark_if_new E W ev w)"
  have 1: "fst (check_and_mark_if_new E W ev w) = Inr False" "absw kv w1 = absw kv w"
    using check_duplicate [OF assms(1)] by (simp_all add: runs_def w1_def)
  have 2: "fst (wk_ack_event E W ev w1) = Inr ()"
    "absw kv (snd (wk_ack_event E W ev w1)) = wk_acked E W i (absw kv w)"
    using ack_event_runs [OF assms(2), of W w1] 1(2) by (simp_all add: runs_def)
  have "process_event E W ags ev (w, p) = (Inr (), (snd (wk_ack_event E W ev w1), p))"
    using 1(1) 2(1) by (simp add: process_event_def try_except_def bindE_def w1_def)
  with 2(2) show ?thesis by blast
qed

text \<open>A new event whose agent returns: one answer, one acknowledgement, one count.\<close>

lemma new_event_answered:
  assumes new: "\<not> claimed E W (absw kv w) ev" and i: "ev_id ev = Some i"
    and sess: "\<not> is_blank (ev_session_id ev)"
    and agent: "\<And>w'. absw kv w' = claim E W ev (absw kv w) \<Longrightarrow>
      runs kv (dispatch ags ev (worker_context W ev)) w' (Inr r) a"
  shows "\<exists>w' j n. process_event E W ags ev (w, p) = (Inr (), (w', snd (snd (count_result (ar_success r) (w, p))))) \<and>
    absw kv w' = wk_acked E W i (stream_append (wk_stream_name E W) n
      (j, to_stream_dict (answer_event (if ar_success r then AGENT_COMPLETED else AGENT_ERROR) ev
            (ar_artifact_paths r) (result_meta r) (utc_datetime (clock_us a)))) a)"
proof -
  define w1 where "w1 = snd (check_and_mark_if_new E W ev w)"
  have 1: "fst (check_and_mark_if_new E W ev w) = Inr True" "absw kv w1 = claim E W ev (absw kv w)"
    using check_new [OF new] by (simp_all add: runs_def w1_def)
  define w2 where "w2 = snd (dispatch ags ev (worker_context W ev) w1)"
  have 2: "fst (dispatch ags ev (worker_context W ev) w1) = Inr r" "absw kv w2 = a"
    using agent [OF 1(2)] by (simp_all add: runs_def w2_def)
  define w3 where "w3 = snd (publish_result E W ev r w2)"
  let ?e = "answer_event (if ar_success r then AGENT_COMPLETED else AGENT_ERROR) ev
            (ar_artifact_paths r) (result_meta r) (utc_datetime (clock_us a))"
  have c: "clock_us w2 = clock_us a" using absw_eqD(3) [OF 2(2)] .
  have "yields kv (publish_result E W ev r) w2 (\<lambda>x b. x = Inr () \<and> (\<exists>j n. b =
      stream_append (wk_stream_name E W) n (j, to_stream_dict ?e) (absw kv w2)))"
    unfolding publish_result_def yields_now_utc c by (rule answer_yields [OF sess])
  then obtain j n where 3: "fst (publish_result E W ev r w2) = Inr ()"
    "absw kv w3 = stream_append (wk_stream_name E W) n (j, to_stream_dict ?e) a"
    by (auto simp: yields_def w3_def 2(2))
  have 4: "fst (wk_ack_event E W ev w3) = Inr ()"
    "absw kv (snd (wk_ack_event E W ev w3)) = wk_acked E W i (absw kv w3)"
    using ack_event_runs [OF i, of W w3] by (simp_all add: runs_def)
  have run: "process_event E W ags ev (w, p) =
      (Inr (), (snd (wk_ack_event E W ev w3), snd (snd (count_result (ar_success r) (w, p)))))"
    using 1(1) 2(1) 3(1) 4(1)
    by (simp add: process_event_def try_except_def bindE_def thenE_def w1_def [symmetric] w2_def [symmetric]
        w3_def [symmetric] count_result_def)
  show ?thesis
    by (rule exI, rule exI, rule exI, rule conjI, rule run, rule 4(2) [unfolded 3(2)])
qed

end

interpretation mem_worker: worker_world "mem_env c" mem_abs
  rewrites "redis_of (mem_env c) = mem_redis"
  by (simp_all add: worker_world_def mem_string.string_world_axioms mem_stream.stream_world_axioms)

section \<open>Life cycle and concurrency\<close>

datatype pool_state = STOPPED | RUNNING | SHUTTING_DOWN

text \<open>
  The event loops of a pool are counted by where they wait: between two events, or at
  \<^verbatim>\<open>await self._semaphore.acquire()\<close>.  The active tasks are identified by numbers; the time-out
  of \<^verbatim>\<open>stop\<close> cancels them, which ends them like any other end.  A cancelled loop leaves at
  either of its waits.
\<close>

record pool =
  pl_state :: pool_state
  pl_loops :: nat
  pl_waiting :: nat
  pl_permits :: nat
  pl_active :: "nat set"

definition new_pool :: "nat \<Rightarrow> pool" where
  "new_pool n =
     \<lparr>pl_state = STOPPED, pl_loops = 0, pl_waiting = 0, pl_permits = n, pl_active = {}\<rparr>"

inductive pool_step :: "pool \<Rightarrow> pool \<Rightarrow> bool" where
  start: "pl_state p \<noteq> RUNNING \<Longrightarrow> pool_step p (p\<lparr>pl_state := RUNNING, pl_loops := pl_loops p + 1\<rparr>)"
| take_event: "pl_state p = RUNNING \<Longrightarrow> 0 < pl_loops p \<Longrightarrow>
    pool_step p (p\<lparr>pl_loops := pl_loops p - 1, pl_waiting := pl_waiting p + 1\<rparr>)"
| spawn: "0 < pl_waiting p \<Longrightarrow> 0 < pl_permits p \<Longrightarrow> t \<notin> pl_active p \<Longrightarrow>
    pool_step p (p\<lparr>pl_waiting := pl_waiting p - 1, pl_loops := pl_loops p + 1,
                   pl_permits := pl_permits p - 1, pl_active := insert t (pl_active p)\<rparr>)"
| task_done: "t \<in> pl_active p \<Longrightarrow>
    pool_step p (p\<lparr>pl_active := pl_active p - {t}, pl_permits := pl_permits p + 1\<rparr>)"
| stop: "pl_state p = RUNNING \<Longrightarrow> pool_step p (p\<lparr>pl_state := SHUTTING_DOWN\<rparr>)"
| leave_loop: "pl_state p \<noteq> RUNNING \<Longrightarrow> 0 < pl_loops p \<Longrightarrow>
    pool_step p (p\<lparr>pl_loops := pl_loops p - 1, pl_state := STOPPED\<rparr>)"
| cancel_loop: "0 < pl_loops p \<Longrightarrow> pool_step p (p\<lparr>pl_loops := pl_loops p - 1, pl_state := STOPPED\<rparr>)"
| cancel_wait: "0 < pl_waiting p \<Longrightarrow> pool_step p (p\<lparr>pl_waiting := pl_waiting p - 1, pl_state := STOPPED\<rparr>)"

inductive_simps pool_step_iff: "pool_step p q"

definition pool_ok :: "nat \<Rightarrow> pool \<Rightarrow> bool" where
  "pool_ok n p \<longleftrightarrow> finite (pl_active p) \<and> pl_permits p + card (pl_active p) = n"

lemma pool_step_ok: "pool_step p q \<Longrightarrow> pool_ok n p \<Longrightarrow> pool_ok n q"
proof (induction rule: pool_step.induct)
  case (task_done t p)
  then have "card (pl_active p) > 0" by (auto simp: pool_ok_def card_gt_0_iff)
  with task_done show ?case by (simp add: pool_ok_def card_Diff_singleton)
qed (auto simp: pool_ok_def)

lemma pool_ok_new: "pool_ok n (new_pool n)"
  by (simp add: pool_ok_def new_pool_def)

lemma pool_reachable_ok: "pool_step\<^sup>*\<^sup>* (new_pool n) p \<Longrightarrow> pool_ok n p"
  by (induction rule: rtranclp_induct) (auto intro: pool_ok_new pool_step_ok)

section \<open>The pool's promises\<close>

lemma worker_world_of:
  "redis_strings (redis_of E) kv \<Longrightarrow> redis_streams (redis_of E) kv \<Longrightarrow> worker_world E kv"
  by (simp add: worker_world_def string_world_def stream_world_def)

definition demo_worker :: worker where
  "demo_worker =
     \<lparr>wk_config = \<lparr>wc_pool_size = 4, wc_batch_size = 10, wc_event_timeout = 300, wc_shutdown_timeout = 30,
        wc_consumer_group = ''development-handlers'', wc_consumer_name = ''worker-1''\<rparr>,
      wk_tenant = None, wk_workspace = ''/app''\<rparr>"

definition demo_result :: agent_result where
  "demo_result =
     \<lparr>ar_success = True, ar_agent_type = ''coding'', ar_task_id = ''t1'', ar_error_message = None,
      ar_should_retry = False, ar_artifact_paths = [''a.patch''], ar_metadata = []\<rparr>"

definition demo_agents :: "(memstore, string list list) agents" where
  "demo_agents = register \<lparr>ag_type = ''coding'', ag_execute = (\<lambda>c m. ret demo_result),
     ag_validate = None, ag_cleanup = None\<rparr> []"

definition start_event :: asdlc_event where
  "start_event = (demo_event AGENT_STARTED)
     \<lparr>ev_id := Some ''1'', ev_metadata := JObj [(''agent_type'', JStr ''coding'')]\<rparr>"

lemma start_event_fields [simp]:
  "ev_id start_event = Some ''1''" "ev_session_id start_event = ''s1''" "ev_idempotency_key start_event = None"
  "ev_type start_event = AGENT_STARTED" "ev_metadata start_event = JObj [(''agent_type'', JStr ''coding'')]"
  by (simp_all add: start_event_def demo_event_def blank_event_def)

lemma demo_dispatch:
  "runs mem_abs (dispatch demo_agents start_event (worker_context demo_worker start_event)) w
     (Inr demo_result) (absw mem_abs w)"
  by (simp add: dispatch_def meta_get_def dget_def demo_agents_def register_def run_agent_def finally_do_def
      runs_def bindE_def ret_def)

text \<open>C10: an event that no worker has claimed, and whose agent returns, is answered once: it is
  claimed before the agent runs, one event with the agent's outcome goes to the stream, the
  event is acknowledged, and it is counted once.\<close>

theorem worker_answers_once:
  assumes "redis_strings (redis_of E) kv" "redis_streams (redis_of E) kv"
    and "\<not> claimed E W (absw kv w) ev" "ev_id ev = Some i" "\<not> is_blank (ev_session_id ev)"
    and "\<And>w'. absw kv w' = claim E W ev (absw kv w) \<Longrightarrow>
      runs kv (dispatch ags ev (worker_context W ev)) w' (Inr r) a"
  shows "\<exists>w' p' j n. process_event E W ags ev (w, p) = (Inr (), (w', p')) \<and>
    p' = p\<lparr>events_processed := events_processed p + 1,
           events_succeeded := events_succeeded p + (if ar_success r then 1 else 0),
           events_failed := events_failed p + (if ar_success r then 0 else 1)\<rparr> \<and>
    absw kv w' = wk_acked E W i (stream_append (wk_stream_name E W) n
      (j, to_stream_dict (answer_event (if ar_success r then AGENT_COMPLETED else AGENT_ERROR) ev
            (ar_artifact_paths r) (result_meta r) (utc_datetime (clock_us a)))) a)"
  using worker_world.new_event_answered [OF worker_world_of [OF assms(1,2)] assms(3-6), of p]
  by (auto simp: count_result_def)

lemma worker_answers_once_witness:
  "fst (process_event demo_env demo_worker demo_agents start_event
     (mem_world, \<lparr>events_processed = 0, events_succeeded = 0, events_failed = 0\<rparr>)) = Inr ()"
proof -
  have free: "\<not> claimed demo_env demo_worker (absw mem_abs mem_world) start_event"
    by (simp add: claimed_def mem_world_def empty_memstore_def mem_abs_def)
  have run: "runs mem_abs (dispatch demo_agents start_event (worker_context demo_worker start_event)) w'
      (Inr demo_result) (claim demo_env demo_worker start_event (absw mem_abs mem_world))"
    if "absw mem_abs w' = claim demo_env demo_worker start_event (absw mem_abs mem_world)" for w'
    using demo_dispatch [of w'] that by simp
  show ?thesis
    using worker_answers_once [of demo_env mem_abs, OF _ _ free _ _ run,
        of "''1''" "\<lparr>events_processed = 0, events_succeeded = 0, events_failed = 0\<rparr>"]
      mem.redis_strings_axioms mem.redis_streams_axioms
    by (auto simp: is_blank_def)
qed

text \<open>An event whose key is claimed is acknowledged, and nothing else happens: no agent runs,
  nothing is published and nothing is counted, whatever became of the event that claimed it.\<close>

theorem claimed_event_dropped:
  assumes "redis_strings (redis_of E) kv" "redis_streams (redis_of E) kv"
    and "claimed E W (absw kv w) ev" "ev_id ev = Some i"
  shows "\<exists>w'. process_event E W ags ev (w, p) = (Inr (), (w', p)) \<and> absw kv w' = wk_acked E W i (absw kv w)"
  by (rule worker_world.duplicate_skipped [OF worker_world_of [OF assms(1,2)] assms(3,4)])

lemma claimed_event_dropped_witness:
  "fst (process_event demo_env demo_worker [] start_event
     (snd (check_and_mark_if_new demo_env demo_worker start_event mem_world),
      \<lparr>events_processed = 0, events_succeeded = 0, events_failed = 0\<rparr>)) = Inr ()"
proof -
  have "\<not> claimed demo_env demo_worker (absw mem_abs mem_world) start_event"
    by (simp add: claimed_def mem_world_def empty_memstore_def mem_abs_def)
  from mem_worker.check_new [OF this]
  have "claimed demo_env demo_worker
      (absw mem_abs (snd (check_and_mark_if_new demo_env demo_worker start_event mem_world))) start_event"
    by (simp add: runs_def)
  from claimed_event_dropped [OF _ _ this, of "''1''" "[]"
      "\<lparr>events_processed = 0, events_succeeded = 0, events_failed = 0\<rparr>"]
  show ?thesis using mem.redis_strings_axioms mem.redis_streams_axioms by auto
qed

text \<open>Whatever happens to an event, the events counted as processed are those counted as
  succeeded and as failed.\<close>

theorem pool_counters_balance:
  assumes "balanced (snd s)"
  shows "balanced (snd (snd (process_event E W ags ev s)))"
  using process_event_balanced [of E W ags ev] assms by (cases s) (simp add: preserves_def balanced_rel_def)

lemma pool_counters_balance_witness:
  "balanced (snd (snd (process_event demo_env demo_worker [] start_event
     (mem_world, \<lparr>events_processed = 3, events_succeeded = 1, events_failed = 2\<rparr>))))"
  by (rule pool_counters_balance) (simp add: balanced_def)

text \<open>C17: in every reachable state of the pool, at most as many agents are active as the pool has
  permits, and each active one holds a permit.\<close>

theorem pool_bounds_agents:
  assumes "pool_step\<^sup>*\<^sup>* (new_pool n) p"
  shows "card (pl_active p) \<le> n \<and> pl_permits p + card (pl_active p) = n"
  using pool_reachable_ok [OF assms] by (simp add: pool_ok_def)

definition spawned_pool :: pool where
  "spawned_pool = \<lparr>pl_state = RUNNING, pl_loops = 1, pl_waiting = 0, pl_permits = 1, pl_active = {7}\<rparr>"

lemma spawned_reachable: "pool_step\<^sup>*\<^sup>* (new_pool 2) spawned_pool"
proof -
  let ?a = "(new_pool 2)\<lparr>pl_state := RUNNING, pl_loops := 1\<rparr>"
  let ?b = "?a\<lparr>pl_loops := 0, pl_waiting := 1\<rparr>"
  have "pool_step (new_pool 2) ?a" "pool_step ?a ?b" "pool_step ?b spawned_pool"
    using pool_step.start [of "new_pool 2"] pool_step.take_event [of ?a] pool_step.spawn [of ?b 7]
    by (simp_all add: new_pool_def spawned_pool_def)
  then show ?thesis by (meson rtranclp.rtrancl_into_rtrancl rtranclp.rtrancl_refl)
qed

lemma pool_bounds_agents_witness: "card (pl_active spawned_pool) \<le> 2"
  using pool_bounds_agents [OF spawned_reachable] by blast

text \<open>\<^verbatim>\<open>stop\<close> does not hold back an event that waits for a permit: some pool that is shutting
  down, with no permit free, later starts an agent while it is not running.\<close>

theorem pool_spawns_after_stop:
  "\<exists>p q r. pool_step\<^sup>*\<^sup>* (new_pool 1) p \<and> pl_state p = SHUTTING_DOWN \<and> pl_permits p = 0 \<and>
     pool_step p q \<and> pool_step q r \<and> pl_state r = SHUTTING_DOWN \<and> pl_active r \<noteq> {} \<and>
     pl_active r \<inter> pl_active p = {}"
proof -
  let ?s = "\<lambda>st l w k A. \<lparr>pl_state = st, pl_loops = l, pl_waiting = w, pl_permits = k, pl_active = A\<rparr> :: pool"
  have "pool_step (new_pool 1) (?s RUNNING 1 0 1 {})"
    using pool_step.start [of "new_pool 1"] by (simp add: new_pool_def)
  moreover have "pool_step (?s RUNNING 1 0 1 {}) (?s RUNNING 0 1 1 {})"
    using pool_step.take_event [of "?s RUNNING 1 0 1 {}"] by simp
  moreover have "pool_step (?s RUNNING 0 1 1 {}) (?s RUNNING 1 0 0 {1})"
    using pool_step.spawn [of "?s RUNNING 0 1 1 {}" 1] by simp
  moreover have "pool_step (?s RUNNING 1 0 0 {1}) (?s RUNNING 0 1 0 {1})"
    using pool_step.take_event [of "?s RUNNING 1 0 0 {1}"] by simp
  moreover have "pool_step (?s RUNNING 0 1 0 {1}) (?s SHUTTING_DOWN 0 1 0 {1})"
    using pool_step.stop [of "?s RUNNING 0 1 0 {1}"] by simp
  ultimately have r: "pool_step\<^sup>*\<^sup>* (new_pool 1) (?s SHUTTING_DOWN 0 1 0 {1})"
    by (meson rtranclp.rtrancl_into_rtrancl rtranclp.rtrancl_refl)
  have d: "pool_step (?s SHUTTING_DOWN 0 1 0 {1}) (?s SHUTTING_DOWN 0 1 1 {})"
    using pool_step.task_done [of 1 "?s SHUTTING_DOWN 0 1 0 {1}"] by simp
  have e: "pool_step (?s SHUTTING_DOWN 0 1 1 {}) (?s SHUTTING_DOWN 1 0 0 {2})"
    using pool_step.spawn [of "?s SHUTTING_DOWN 0 1 1 {}" 2] by simp
  show ?thesis
    by (rule exI, rule exI, rule exI, intro conjI, rule r, simp, simp, rule d, rule e) simp_all
qed

end
