(* ===== verification/Rlm_Budget.thy ===== *)
theory Rlm_Budget
  imports Prelude
begin

text \<open>
  The two guards of recursive exploration (\<^verbatim>\<open>src/workers/rlm\<close>): \<^verbatim>\<open>SubCallBudgetManager\<close>, which
  limits the calls to the sub-model in total and per iteration, and \<^verbatim>\<open>SubCallCache\<close>, which
  keeps the answers.  Instants are microseconds since the epoch.  The interfaces the query
  tool relies on are the locales \<open>call_quota\<close> and \<open>memo\<close>; both are interpreted on the code's
  own definitions.
\<close>

section \<open>The budget (\<^verbatim>\<open>budget_manager.py\<close>)\<close>

record budget_snapshot =
  snap_total :: int
  snap_iteration :: int
  snap_remaining :: int
  snap_at :: int

record budget =
  max_total :: int
  max_per_iteration :: int
  total_used :: int
  iteration_used :: int
  iteration_count :: int
  budget_history :: "budget_snapshot list"

text \<open>The dataclass fields with the checks of \<^verbatim>\<open>__post_init__\<close>\<close>

definition new_budget :: "int \<Rightarrow> int \<Rightarrow> exn + budget" where
  "new_budget t p =
     (if t < 1 then Inl (Exn PyValueError ''max_total must be at least 1'')
      else if p < 1 then Inl (Exn PyValueError ''max_per_iteration must be at least 1'')
      else if p > t
        then Inl (Exn PyValueError ''max_per_iteration cannot exceed max_total'')
      else Inr \<lparr>max_total = t, max_per_iteration = p, total_used = 0,
                iteration_used = 0, iteration_count = 0, budget_history = []\<rparr>)"

definition remaining :: "budget \<Rightarrow> int" where
  "remaining b = max_total b - total_used b"

definition iteration_remaining :: "budget \<Rightarrow> int" where
  "iteration_remaining b = max_per_iteration b - iteration_used b"

definition is_exhausted :: "budget \<Rightarrow> bool" where
  "is_exhausted b \<longleftrightarrow> total_used b \<ge> max_total b"

definition iteration_exhausted :: "budget \<Rightarrow> bool" where
  "iteration_exhausted b \<longleftrightarrow> iteration_used b \<ge> max_per_iteration b"

definition can_make_call :: "int \<Rightarrow> budget \<Rightarrow> bool" where
  "can_make_call n b \<longleftrightarrow>
     (if n < 1 then False
      else total_used b + n \<le> max_total b \<and> iteration_used b + n \<le> max_per_iteration b)"

definition spend_calls :: "int \<Rightarrow> budget \<Rightarrow> budget" where
  "spend_calls n b =
     b\<lparr>total_used := total_used b + n, iteration_used := iteration_used b + n\<rparr>"

definition record_call :: "int \<Rightarrow> (budget, unit) io" where
  "record_call n b =
     (if n < 1 then (Inr (), b)
      else if \<not> can_make_call n b
        then (Inl (Exn BudgetExceededError
                (''Cannot make '' @ int_str n @ '' sub-call(s): budget exceeded'')), b)
      else (Inr (), spend_calls n b))"

definition record_call_if_allowed :: "int \<Rightarrow> (budget, bool) io" where
  "record_call_if_allowed n b =
     (if \<not> can_make_call n b then (Inr False, b) else (Inr True, spend_calls n b))"

definition budget_snapshot_of :: "int \<Rightarrow> budget \<Rightarrow> budget_snapshot" where
  "budget_snapshot_of now b =
     \<lparr>snap_total = total_used b, snap_iteration = iteration_used b, snap_remaining = remaining b,
      snap_at = now\<rparr>"

definition reset_iteration :: "int \<Rightarrow> budget \<Rightarrow> budget" where
  "reset_iteration now b =
     b\<lparr>budget_history := budget_history b @ [budget_snapshot_of now b],
       iteration_count := iteration_count b + 1, iteration_used := 0\<rparr>"

definition require_budget :: "int \<Rightarrow> (budget, unit) io" where
  "require_budget n b =
     (if \<not> can_make_call n b
      then (Inl (Exn BudgetExceededError (''Insufficient budget for '' @ int_str n @ '' sub-call(s)'')), b)
      else (Inr (), b))"

text \<open>
  What a budget keeps: both counters within their limits, one snapshot per finished
  iteration, and the total split over the finished iterations and the current one.
\<close>

definition budget_ok :: "budget \<Rightarrow> bool" where
  "budget_ok b \<longleftrightarrow>
     1 \<le> max_per_iteration b \<and> max_per_iteration b \<le> max_total b
     \<and> 0 \<le> iteration_used b \<and> iteration_used b \<le> max_per_iteration b
     \<and> 0 \<le> total_used b \<and> total_used b \<le> max_total b
     \<and> iteration_count b = int (length (budget_history b))
     \<and> (\<forall>h \<in> set (budget_history b). 0 \<le> snap_iteration h \<and> snap_iteration h \<le> max_per_iteration b)
     \<and> total_used b = sum_list (map snap_iteration (budget_history b)) + iteration_used b"

text \<open>The operations of the manager that change it.\<close>

datatype budget_op = RecordCall int | RecordIfAllowed int | ResetIteration int

fun budget_step :: "budget_op \<Rightarrow> budget \<Rightarrow> budget" where
  "budget_step (RecordCall n) b = snd (record_call n b)"
| "budget_step (RecordIfAllowed n) b = snd (record_call_if_allowed n b)"
| "budget_step (ResetIteration now) b = reset_iteration now b"

lemma new_budget_ok: "new_budget t m = Inr b \<Longrightarrow> budget_ok b"
  by (auto simp: new_budget_def budget_ok_def split: if_splits)

lemma spend_calls_ok:
  "budget_ok b \<Longrightarrow> can_make_call n b \<Longrightarrow> budget_ok (spend_calls n b)"
  by (auto simp: budget_ok_def can_make_call_def spend_calls_def split: if_splits)

lemma reset_iteration_ok: "budget_ok b \<Longrightarrow> budget_ok (reset_iteration now b)"
  by (auto simp: budget_ok_def reset_iteration_def budget_snapshot_of_def)

lemma budget_step_ok: "budget_ok b \<Longrightarrow> budget_ok (budget_step op b)"
  by (cases op)
    (auto simp: record_call_def record_call_if_allowed_def intro: spend_calls_ok reset_iteration_ok)

lemma budget_run_ok: "budget_ok b \<Longrightarrow> budget_ok (fold budget_step ops b)"
  by (induction ops arbitrary: b) (auto intro: budget_step_ok)

lemma budget_total_per_iteration:
  assumes "budget_ok b"
  shows "total_used b \<le> (iteration_count b + 1) * max_per_iteration b"
proof -
  have "sum_list (map snap_iteration hs) \<le> int (length hs) * m"
    if "\<forall>h \<in> set hs. 0 \<le> snap_iteration h \<and> snap_iteration h \<le> m" for hs :: "budget_snapshot list" and m
    using that by (induction hs) (auto simp: algebra_simps)
  from this [of "budget_history b" "max_per_iteration b"] assms show ?thesis
    by (auto simp: budget_ok_def algebra_simps)
qed

lemma spend_calls_simps [simp]:
  "max_total (spend_calls n b) = max_total b"
  "max_per_iteration (spend_calls n b) = max_per_iteration b"
  "total_used (spend_calls n b) = total_used b + n"
  "iteration_used (spend_calls n b) = iteration_used b + n"
  "iteration_count (spend_calls n b) = iteration_count b"
  by (simp_all add: spend_calls_def)

lemma reset_iteration_simps [simp]:
  "max_total (reset_iteration now b) = max_total b"
  "max_per_iteration (reset_iteration now b) = max_per_iteration b"
  "total_used (reset_iteration now b) = total_used b"
  "iteration_used (reset_iteration now b) = 0"
  "iteration_count (reset_iteration now b) = iteration_count b + 1"
  by (simp_all add: reset_iteration_def)

text \<open>What the query tool relies on: a quota of calls that is never overdrawn.\<close>

locale call_quota =
  fixes ok :: "'b \<Rightarrow> bool" and allowed :: "'b \<Rightarrow> bool" and spend :: "'b \<Rightarrow> 'b"
    and spent :: "'b \<Rightarrow> int" and quota :: "'b \<Rightarrow> int"
  assumes ok_spend: "ok b \<Longrightarrow> allowed b \<Longrightarrow> ok (spend b)"
    and spent_spend: "spent (spend b) = spent b + 1"
    and quota_spend: "quota (spend b) = quota b"
    and within: "ok b \<Longrightarrow> spent b \<le> quota b"
begin

text \<open>A client that asks before each of its attempts.\<close>

primrec spend_upto :: "nat \<Rightarrow> 'b \<Rightarrow> 'b" where
  "spend_upto 0 b = b"
| "spend_upto (Suc n) b = (if allowed b then spend_upto n (spend b) else b)"

lemma spend_upto_ok: "ok b \<Longrightarrow> ok (spend_upto n b)"
  by (induction n arbitrary: b) (auto intro: ok_spend)

lemma spend_upto_quota: "quota (spend_upto n b) = quota b"
  by (induction n arbitrary: b) (auto simp: quota_spend)

lemma spend_upto_within: "ok b \<Longrightarrow> spent (spend_upto n b) \<le> quota b"
  using within [OF spend_upto_ok [of b n]] by (simp add: spend_upto_quota)

lemma spend_upto_attempts: "spent (spend_upto n b) \<le> spent b + int n"
proof (induction n arbitrary: b)
  case (Suc n)
  from Suc [of "spend b"] show ?case by (simp add: spent_spend)
qed simp

end

interpretation sub_calls: call_quota budget_ok "can_make_call 1" "spend_calls 1" total_used max_total
  by unfold_locales (auto intro: spend_calls_ok, auto simp: budget_ok_def)

section \<open>The cache (\<^verbatim>\<open>cache.py\<close>)\<close>

record cache_entry =
  ce_key :: string
  ce_prompt :: string
  ce_context :: string
  ce_result :: string
  ce_created :: int
  ce_hits :: nat

record cache_stats =
  cs_requests :: nat
  cs_hits :: nat
  cs_misses :: nat
  cs_entries :: nat
  cs_evictions :: nat

record cache =
  max_entries :: int
  cache_enabled :: bool
  cache_store :: "cache_entry pydict"
  cache_stats :: cache_stats

definition new_cache :: "int \<Rightarrow> bool \<Rightarrow> cache" where
  "new_cache m en =
     \<lparr>max_entries = m, cache_enabled = en, cache_store = [],
      cache_stats = \<lparr>cs_requests = 0, cs_hits = 0, cs_misses = 0, cs_entries = 0, cs_evictions = 0\<rparr>\<rparr>"

text \<open>\<^verbatim>\<open>_generate_key\<close>, with the digest as its first argument\<close>

definition key_text :: "string \<Rightarrow> string \<Rightarrow> string" where
  "key_text p c = ''prompt:'' @ p @ CHR 0x0A # ''context:'' @ c"

definition generate_key :: "(string \<Rightarrow> string) \<Rightarrow> string \<Rightarrow> string \<Rightarrow> string" where
  "generate_key sha p c = sha (key_text p c)"

definition cache_get :: "(string \<Rightarrow> string) \<Rightarrow> string \<Rightarrow> string \<Rightarrow> cache \<Rightarrow> string option \<times> cache" where
  "cache_get sha p c x =
     (if \<not> cache_enabled x then (None, x)
      else let st = (cache_stats x)\<lparr>cs_requests := Suc (cs_requests (cache_stats x))\<rparr>;
               k = generate_key sha p c
           in case map_of (cache_store x) k of
                Some e \<Rightarrow>
                  (Some (ce_result e),
                   x\<lparr>cache_stats := st\<lparr>cs_hits := Suc (cs_hits st)\<rparr>,
                     cache_store := dset k (e\<lparr>ce_hits := Suc (ce_hits e)\<rparr>) (cache_store x)\<rparr>)
              | None \<Rightarrow> (None, x\<lparr>cache_stats := st\<lparr>cs_misses := Suc (cs_misses st)\<rparr>\<rparr>))"

text \<open>\<^verbatim>\<open>min(keys, key=created_at)\<close>: the first key, in the order of the dictionary, with the least value.\<close>

fun oldest_from :: "string \<times> cache_entry \<Rightarrow> cache_entry pydict \<Rightarrow> string \<times> cache_entry" where
  "oldest_from m [] = m"
| "oldest_from m (q # d) =
     oldest_from (if ce_created (snd q) < ce_created (snd m) then q else m) d"

definition evict_oldest :: "cache \<Rightarrow> cache" where
  "evict_oldest x =
     (case cache_store x of
        [] \<Rightarrow> x
      | q # d \<Rightarrow>
          let left = ddel (fst (oldest_from q d)) (cache_store x)
          in x\<lparr>cache_store := left,
               cache_stats := (cache_stats x)\<lparr>cs_evictions := Suc (cs_evictions (cache_stats x)),
                                             cs_entries := length left\<rparr>\<rparr>)"

definition cache_set ::
  "(string \<Rightarrow> string) \<Rightarrow> int \<Rightarrow> string \<Rightarrow> string \<Rightarrow> string \<Rightarrow> cache \<Rightarrow> cache" where
  "cache_set sha now p c r x =
     (if \<not> cache_enabled x then x
      else let k = generate_key sha p c;
               y = (if 0 < max_entries x \<and> max_entries x \<le> int (length (cache_store x))
                    then evict_oldest x else x);
               d = dset k \<lparr>ce_key = k, ce_prompt = p, ce_context = c, ce_result = r,
                          ce_created = now, ce_hits = 0\<rparr> (cache_store y)
           in y\<lparr>cache_store := d, cache_stats := (cache_stats y)\<lparr>cs_entries := length d\<rparr>\<rparr>)"

definition cache_contains :: "(string \<Rightarrow> string) \<Rightarrow> string \<Rightarrow> string \<Rightarrow> cache \<Rightarrow> bool" where
  "cache_contains sha p c x \<longleftrightarrow>
     (if \<not> cache_enabled x then False else generate_key sha p c \<in> fst ` set (cache_store x))"

definition get_entry :: "(string \<Rightarrow> string) \<Rightarrow> string \<Rightarrow> string \<Rightarrow> cache \<Rightarrow> cache_entry option" where
  "get_entry sha p c x =
     (if \<not> cache_enabled x then None else map_of (cache_store x) (generate_key sha p c))"

definition cache_clear :: "cache \<Rightarrow> nat \<times> cache" where
  "cache_clear x =
     (length (cache_store x),
      x\<lparr>cache_store := [], cache_stats := (cache_stats x)\<lparr>cs_entries := 0\<rparr>\<rparr>)"

definition cache_remove :: "(string \<Rightarrow> string) \<Rightarrow> string \<Rightarrow> string \<Rightarrow> cache \<Rightarrow> bool \<times> cache" where
  "cache_remove sha p c x =
     (let k = generate_key sha p c; d = ddel k (cache_store x)
      in if k \<in> fst ` set (cache_store x)
         then (True, x\<lparr>cache_store := d, cache_stats := (cache_stats x)\<lparr>cs_entries := length d\<rparr>\<rparr>)
         else (False, x))"

datatype cache_op =
    CacheGet string string | CacheSet int string string string | CacheRemove string string | CacheClear

fun cache_step :: "(string \<Rightarrow> string) \<Rightarrow> cache_op \<Rightarrow> cache \<Rightarrow> cache" where
  "cache_step sha (CacheGet p c) x = snd (cache_get sha p c x)"
| "cache_step sha (CacheSet now p c r) x = cache_set sha now p c r x"
| "cache_step sha (CacheRemove p c) x = snd (cache_remove sha p c x)"
| "cache_step sha CacheClear x = snd (cache_clear x)"

text \<open>What a cache keeps: its counters agree with its contents, and it stays within its size.\<close>

definition keyed :: "cache_entry pydict \<Rightarrow> bool" where
  "keyed d \<longleftrightarrow> (\<forall>q \<in> set d. ce_key (snd q) = fst q)"

definition cache_ok :: "cache \<Rightarrow> bool" where
  "cache_ok x \<longleftrightarrow>
     distinct (map fst (cache_store x))
     \<and> keyed (cache_store x)
     \<and> cs_entries (cache_stats x) = length (cache_store x)
     \<and> cs_requests (cache_stats x) = cs_hits (cache_stats x) + cs_misses (cache_stats x)
     \<and> (0 < max_entries x \<longrightarrow> int (length (cache_store x)) \<le> max_entries x)"

lemma keyed_dset: "keyed d \<Longrightarrow> ce_key v = k \<Longrightarrow> keyed (dset k v d)"
  by (induction d) (auto simp: keyed_def)

lemma keyed_Nil [simp]: "keyed []"
  by (simp add: keyed_def)

lemma keyed_map_of: "keyed d \<Longrightarrow> map_of d k = Some e \<Longrightarrow> ce_key e = k"
  by (force simp: keyed_def dest: map_of_SomeD)

lemma keyed_subset: "keyed d \<Longrightarrow> set e \<subseteq> set d \<Longrightarrow> keyed e"
  by (auto simp: keyed_def)

lemma oldest_from_in: "oldest_from m d \<in> insert m (set d)"
  by (induction m d rule: oldest_from.induct) (auto split: if_splits)

lemma oldest_from_least:
  "q \<in> insert m (set d) \<Longrightarrow> ce_created (snd (oldest_from m d)) \<le> ce_created (snd q)"
proof (induction m d arbitrary: q rule: oldest_from.induct)
  case (2 m r d)
  let ?m = "if ce_created (snd r) < ce_created (snd m) then r else m"
  have m: "ce_created (snd (oldest_from ?m d)) \<le> ce_created (snd ?m)"
    by (rule "2.IH") (rule insertI1)
  have d: "q \<in> set d \<Longrightarrow> ce_created (snd (oldest_from ?m d)) \<le> ce_created (snd q)"
    by (rule "2.IH") (rule insertI2)
  from "2.prems" consider "q = m" | "q = r" | "q \<in> set d" by auto
  then show ?case
    by cases (use m d in \<open>auto split: if_splits\<close>)
qed simp

lemma evict_oldest_length:
  assumes "cache_ok x" "cache_store x \<noteq> []"
  shows "length (cache_store (evict_oldest x)) = length (cache_store x) - 1"
proof -
  obtain q d where x: "cache_store x = q # d" using assms(2) by (cases "cache_store x") auto
  have "fst (oldest_from q d) \<in> fst ` set (cache_store x)"
    using oldest_from_in [of q d] x by (simp add: image_iff) metis
  with assms(1) x show ?thesis
    by (simp add: evict_oldest_def Let_def length_ddel cache_ok_def)
qed

lemma evict_oldest_simps [simp]:
  "max_entries (evict_oldest x) = max_entries x"
  "cache_enabled (evict_oldest x) = cache_enabled x"
  "cs_requests (cache_stats (evict_oldest x)) = cs_requests (cache_stats x)"
  "cs_hits (cache_stats (evict_oldest x)) = cs_hits (cache_stats x)"
  "cs_misses (cache_stats (evict_oldest x)) = cs_misses (cache_stats x)"
  by (simp_all add: evict_oldest_def Let_def split: list.splits)

lemma evict_oldest_subset: "set (cache_store (evict_oldest x)) \<subseteq> set (cache_store x)"
  by (auto simp: evict_oldest_def Let_def ddel_def split: list.splits)

lemma evict_oldest_distinct:
  "distinct (map fst (cache_store x)) \<Longrightarrow> distinct (map fst (cache_store (evict_oldest x)))"
  by (auto simp: evict_oldest_def Let_def split: list.splits)

lemma evict_oldest_map_of:
  "map_of (cache_store (evict_oldest x)) k = Some e \<Longrightarrow> map_of (cache_store x) k = Some e"
  by (auto simp: evict_oldest_def Let_def split: list.splits if_splits)

lemma cache_ok_new: "cache_ok (new_cache m en)"
  by (simp add: cache_ok_def new_cache_def)

lemma cache_get_ok: "cache_ok x \<Longrightarrow> cache_ok (snd (cache_get sha p c x))"
  by (auto simp: cache_ok_def cache_get_def Let_def length_dset map_of_eq_None_iff
      split: option.splits dest: keyed_map_of intro!: keyed_dset)
    (auto dest: map_of_SomeD intro: rev_image_eqI)

lemma cache_set_ok:
  assumes "cache_ok x"
  shows "cache_ok (cache_set sha now p c r x)"
proof -
  define full where "full \<longleftrightarrow> 0 < max_entries x \<and> max_entries x \<le> int (length (cache_store x))"
  define y where "y = (if full then evict_oldest x else x)"
  have room: "int (length (cache_store y)) < max_entries x" if "0 < max_entries x"
  proof (cases full)
    case True
    then have "cache_store x \<noteq> []" by (auto simp: full_def)
    with evict_oldest_length [OF assms this] True that assms show ?thesis
      by (cases "cache_store x") (auto simp: y_def cache_ok_def)
  next
    case False
    with that assms show ?thesis by (auto simp: y_def full_def)
  qed
  have dist: "distinct (map fst (cache_store y))"
    using assms by (simp add: y_def cache_ok_def evict_oldest_distinct)
  have keys: "keyed (cache_store y)"
    using assms by (auto simp: y_def cache_ok_def intro: keyed_subset [OF _ evict_oldest_subset])
  have stats: "cs_requests (cache_stats y) = cs_hits (cache_stats y) + cs_misses (cache_stats y)"
    using assms by (simp add: y_def cache_ok_def)
  have "max_entries y = max_entries x" by (simp add: y_def)
  moreover have "cache_set sha now p c r x =
      (if cache_enabled x then
         (let d = dset (generate_key sha p c) \<lparr>ce_key = generate_key sha p c, ce_prompt = p,
              ce_context = c, ce_result = r, ce_created = now, ce_hits = 0\<rparr> (cache_store y)
          in y\<lparr>cache_store := d, cache_stats := (cache_stats y)\<lparr>cs_entries := length d\<rparr>\<rparr>)
       else x)"
    by (simp add: cache_set_def Let_def y_def full_def)
  ultimately show ?thesis
    using room dist keys stats assms
    by (auto simp: Let_def cache_ok_def length_dset intro!: keyed_dset)
qed

lemma cache_remove_ok: "cache_ok x \<Longrightarrow> cache_ok (snd (cache_remove sha p c x))"
  by (auto simp: cache_ok_def cache_remove_def Let_def length_ddel)
    (auto simp: ddel_def keyed_def)

lemma cache_step_ok: "cache_ok x \<Longrightarrow> cache_ok (cache_step sha op x)"
proof (cases op)
  case CacheClear
  then show "cache_ok x \<Longrightarrow> ?thesis" by (simp add: cache_clear_def cache_ok_def)
qed (simp_all add: cache_get_ok cache_set_ok cache_remove_ok)

lemma cache_run_ok: "cache_ok x \<Longrightarrow> cache_ok (fold (cache_step sha) ops x)"
  by (induction ops arbitrary: x) (auto intro: cache_step_ok)

section \<open>What a look-up can return\<close>

text \<open>The last value a sequence of operations wrote under each key.\<close>

definition last_written :: "('o \<Rightarrow> ('k \<times> 'v) option) \<Rightarrow> 'o list \<Rightarrow> 'k \<Rightarrow> 'v option" where
  "last_written writes ops =
     fold (\<lambda>op m. case writes op of None \<Rightarrow> m | Some (k, v) \<Rightarrow> m(k \<mapsto> v)) ops Map.empty"

text \<open>
  A store that may forget: an operation keeps what it finds or loses it, and only a write
  changes what is found under its key.
\<close>

locale memo =
  fixes good :: "'c \<Rightarrow> bool" and found :: "'c \<Rightarrow> 'k \<Rightarrow> 'v option"
    and step :: "'o \<Rightarrow> 'c \<Rightarrow> 'c" and writes :: "'o \<Rightarrow> ('k \<times> 'v) option"
  assumes good_step: "good c \<Longrightarrow> good (step op c)"
    and found_step: "good c \<Longrightarrow> found (step op c) k = Some v \<Longrightarrow>
      (case writes op of
         None \<Rightarrow> found c k = Some v
       | Some (k', v') \<Rightarrow> if k = k' then v = v' else found c k = Some v)"
begin

lemma found_run_from:
  assumes "good c" "\<And>k v. found c k = Some v \<Longrightarrow> m k = Some v"
    and "found (fold step ops c) k = Some v"
  shows "fold (\<lambda>op m. case writes op of None \<Rightarrow> m | Some (k, v) \<Rightarrow> m(k \<mapsto> v)) ops m k = Some v"
  using assms
proof (induction ops arbitrary: c m)
  case (Cons op ops)
  let ?m = "case writes op of None \<Rightarrow> m | Some (k, v) \<Rightarrow> m(k \<mapsto> v)"
  have "?m k = Some v" if "found (step op c) k = Some v" for k v
    using found_step [OF Cons.prems(1) that] Cons.prems(2) [of k v]
    by (auto split: option.splits if_splits)
  from Cons.IH [OF good_step [OF Cons.prems(1)] this] Cons.prems(3) show ?case by simp
qed simp

lemma found_run:
  assumes "good c" "\<And>k. found c k = None" "found (fold step ops c) k = Some v"
  shows "last_written writes ops k = Some v"
  unfolding last_written_def
  by (rule found_run_from [OF assms(1) _ assms(3)]) (simp add: assms(2))

end

definition found_answer :: "cache \<Rightarrow> string \<Rightarrow> string option" where
  "found_answer x k = map_option ce_result (map_of (cache_store x) k)"

fun cache_writes :: "(string \<Rightarrow> string) \<Rightarrow> cache_op \<Rightarrow> (string \<times> string) option" where
  "cache_writes sha (CacheSet now p c r) = Some (generate_key sha p c, r)"
| "cache_writes sha op = None"

lemma cache_step_enabled: "cache_enabled (cache_step sha op x) = cache_enabled x"
  by (cases op)
    (auto simp: cache_get_def cache_set_def cache_remove_def cache_clear_def Let_def
      split: option.splits)

lemma found_after_set:
  "found_answer (cache_set sha now p c r x) k =
     (if \<not> cache_enabled x then found_answer x k
      else if k = generate_key sha p c then Some r
      else found_answer (if 0 < max_entries x \<and> max_entries x \<le> int (length (cache_store x))
                         then evict_oldest x else x) k)"
  by (simp add: found_answer_def cache_set_def Let_def)

lemma found_after_evict: "found_answer (evict_oldest x) k = Some v \<Longrightarrow> found_answer x k = Some v"
  by (auto simp: found_answer_def dest: evict_oldest_map_of)

interpretation answers: memo "cache_enabled :: cache \<Rightarrow> bool" found_answer "cache_step sha" "cache_writes sha" for sha
proof unfold_locales
  fix c :: cache and op assume "cache_enabled c"
  then show "cache_enabled (cache_step sha op c)" by (simp add: cache_step_enabled)
next
  fix c :: cache and op k v
  assume en: "cache_enabled c" and f: "found_answer (cache_step sha op c) k = Some v"
  show "case cache_writes sha op of None \<Rightarrow> found_answer c k = Some v
    | Some (k', v') \<Rightarrow> if k = k' then v = v' else found_answer c k = Some v"
  proof (cases op)
    case (CacheSet now p d r)
    with en f show ?thesis
      by (auto simp: found_after_set split: if_splits dest: found_after_evict)
  qed (use en f in \<open>auto simp: found_answer_def cache_get_def cache_remove_def cache_clear_def
      Let_def split: option.splits if_splits\<close>)
qed

lemma cache_get_result: "fst (cache_get sha p c x) =
    (if cache_enabled x then found_answer x (generate_key sha p c) else None)"
  by (auto simp: cache_get_def found_answer_def Let_def split: option.splits)

section \<open>Properties\<close>

text \<open>Whatever is recorded and reset, and in whatever order, a budget that was accepted
  keeps its counters within both limits, the total being the calls of the finished
  iterations and of the current one; a rejected call changes nothing.\<close>

theorem budget_never_exceeded:
  assumes "new_budget t m = Inr b"
  shows "budget_ok (fold budget_step ops b)
    \<and> total_used (fold budget_step ops b) \<le> max_total (fold budget_step ops b)
    \<and> total_used (fold budget_step ops b)
        \<le> (iteration_count (fold budget_step ops b) + 1) * max_per_iteration (fold budget_step ops b)"
proof -
  have ok: "budget_ok (fold budget_step ops b)"
    by (rule budget_run_ok) (rule new_budget_ok [OF assms])
  from sub_calls.within [OF this] budget_total_per_iteration [OF this] ok show ?thesis by simp
qed

theorem budget_never_exceeded_witness:
  "total_used (fold budget_step [RecordCall 2, RecordIfAllowed 2, ResetIteration 7, RecordCall 2]
     \<lparr>max_total = 5, max_per_iteration = 3, total_used = 0, iteration_used = 0,
      iteration_count = 0, budget_history = []\<rparr>) \<le> 5"
proof -
  let ?b = "\<lparr>max_total = 5, max_per_iteration = 3, total_used = 0, iteration_used = 0,
      iteration_count = 0, budget_history = []\<rparr> :: budget"
  have "new_budget 5 3 = Inr ?b" by (simp add: new_budget_def)
  from budget_never_exceeded [OF this,
      of "[RecordCall 2, RecordIfAllowed 2, ResetIteration 7, RecordCall 2]"]
  show ?thesis
    by (simp add: record_call_def record_call_if_allowed_def can_make_call_def
        reset_iteration_def)
qed

text \<open>C21: through any sequence of look-ups, insertions, removals and clearings the cache's
  counters agree with its contents and a bounded cache stays within its bound; and a look-up
  that succeeds returns the answer that was last stored under the key of its question.\<close>

theorem cache_returns_last_answer:
  "cache_ok (fold (cache_step sha) ops (new_cache m en))
   \<and> (fst (cache_get sha p c (fold (cache_step sha) ops (new_cache m en))) = Some r
      \<longrightarrow> last_written (cache_writes sha) ops (generate_key sha p c) = Some r)"
proof (intro conjI impI)
  show "cache_ok (fold (cache_step sha) ops (new_cache m en))"
    by (rule cache_run_ok) (rule cache_ok_new)
next
  assume r: "fst (cache_get sha p c (fold (cache_step sha) ops (new_cache m en))) = Some r"
  have "cache_enabled (fold (cache_step sha) ops x) = cache_enabled x" for x
    by (induction ops arbitrary: x) (simp_all add: cache_step_enabled)
  with r have en: "cache_enabled (new_cache m en)"
    and f: "found_answer (fold (cache_step sha) ops (new_cache m en)) (generate_key sha p c) = Some r"
    by (auto simp: cache_get_result split: if_splits)
  show "last_written (cache_writes sha) ops (generate_key sha p c) = Some r"
    by (rule answers.found_run [OF en _ f]) (simp add: found_answer_def new_cache_def)
qed

theorem cache_returns_last_answer_witness:
  "last_written (cache_writes id) [CacheSet 1 ''q'' [] ''a'', CacheSet 2 ''q'' [] ''b'']
     (generate_key id ''q'' []) = Some ''b''"
  by (rule cache_returns_last_answer
      [where sha = id and m = 2 and en = True and p = "''q''" and c = "[]" and r = "''b''"
        and ops = "[CacheSet 1 ''q'' [] ''a'', CacheSet 2 ''q'' [] ''b'']", THEN conjunct2,
        rule_format])
    code_simp

text \<open>Storing again under a key that a full cache already holds removes the oldest other
  entry although no room was needed, so the cache shrinks by one.\<close>

theorem overwrite_evicts_other:
  assumes "cache_ok x" "cache_enabled x" "0 < max_entries x"
    and "int (length (cache_store x)) = max_entries x"
    and "cache_store x = q # d" "fst (oldest_from q d) \<noteq> generate_key sha p c"
    and "generate_key sha p c \<in> fst ` set (cache_store x)"
  shows "fst (oldest_from q d) \<notin> fst ` set (cache_store (cache_set sha now p c r x))
    \<and> length (cache_store (cache_set sha now p c r x)) = length (cache_store x) - 1"
proof -
  let ?k = "generate_key sha p c"
  have left: "cache_store (evict_oldest x) = ddel (fst (oldest_from q d)) (cache_store x)"
    using assms(5) by (simp add: evict_oldest_def Let_def)
  have st: "cache_store (cache_set sha now p c r x) =
      dset ?k \<lparr>ce_key = ?k, ce_prompt = p, ce_context = c, ce_result = r, ce_created = now,
        ce_hits = 0\<rparr> (cache_store (evict_oldest x))"
    using assms(2-4) by (simp add: cache_set_def Let_def)
  have "?k \<in> fst ` set (cache_store (evict_oldest x))"
    using assms(6,7) by (simp add: left)
  moreover have "cache_store x \<noteq> []" using assms(5) by simp
  ultimately show ?thesis
    using assms(6) evict_oldest_length [OF assms(1)]
    by (simp add: st left length_dset)
qed

definition demo_cache :: cache where
  "demo_cache =
     fold (cache_step id) [CacheSet 1 ''a'' [] ''x'', CacheSet 2 ''b'' [] ''y''] (new_cache 2 True)"

theorem overwrite_evicts_other_witness:
  "generate_key id ''a'' [] \<notin> fst ` set (cache_store (cache_set id 3 ''b'' [] ''z'' demo_cache))
   \<and> length (cache_store (cache_set id 3 ''b'' [] ''z'' demo_cache)) = 1"
proof -
  have s: "cache_store demo_cache = hd (cache_store demo_cache) # tl (cache_store demo_cache)"
    and o: "fst (oldest_from (hd (cache_store demo_cache)) (tl (cache_store demo_cache))) =
      generate_key id ''a'' []"
    by code_simp+
  have ok: "cache_ok demo_cache"
    unfolding demo_cache_def by (rule cache_run_ok) (rule cache_ok_new)
  have facts: "cache_enabled demo_cache" "0 < max_entries demo_cache"
    "int (length (cache_store demo_cache)) = max_entries demo_cache"
    "generate_key id ''b'' [] \<in> fst ` set (cache_store demo_cache)"
    "length (cache_store demo_cache) = 2"
    "generate_key id ''a'' [] \<noteq> generate_key id ''b'' []"
    by code_simp+
  from overwrite_evicts_other [OF ok facts(1,2,3) s _ facts(4), where now = 3 and r = "''z''"]
    facts(5,6) show ?thesis by (simp only: o) simp
qed

end
