(* ===== verification/Rlm_Tools.thy ===== *)
theory Rlm_Tools
  imports Rlm_Budget Json
begin

text \<open>
  The tools an exploration may call (\<^verbatim>\<open>src/workers/rlm/tools\<close>): the query of a sub-model
  behind the budget and the cache, the sandboxed reading of a file, and the registry that
  dispatches a call by name and logs it.  The model client, the clock, the file system and
  the tools that search files and symbols are the parameters of the environment record.
  Durations are not modelled; a value decoded from the model's text is a \<open>json\<close>, as Python
  checks no argument type.  The messages of Python's own errors are shortened.
\<close>

section \<open>The surroundings\<close>

record llm_request =
  req_model :: string
  req_max_tokens :: json
  req_system :: json
  req_content :: json

text \<open>The blocks of a reply, with their text where they have one, and its token counts.\<close>

record llm_response =
  resp_blocks :: "string option list"
  resp_usage :: "(int \<times> int) option"

record llm_query_result =
  q_response :: string
  q_cached :: bool
  q_tokens :: int
  q_model :: string

text \<open>
  What a tool returns: a plain value, a list of objects or one object (given by their
  \<^verbatim>\<open>str\<close>), or the result of a query.
\<close>

datatype tool_value =
    TValue json | TObjects "string list" | TObject string | TQuery llm_query_result

record tool_invocation =
  inv_tool :: string
  inv_arguments :: "json pydict"
  inv_result :: string
  inv_success :: bool
  inv_error :: "string option"
  inv_at :: int

record 'c rlm_env =
  llm_create :: "llm_request \<Rightarrow> 'c \<Rightarrow> (exn + llm_response) \<times> 'c"
  clock_of :: "'c \<Rightarrow> int"
  sleep_ms :: "nat \<Rightarrow> 'c \<Rightarrow> 'c"
  timer_fired :: "'c \<Rightarrow> bool"
  sha256 :: "string \<Rightarrow> string"
  repr_container :: "json \<Rightarrow> string"
  repr_query :: "llm_query_result \<Rightarrow> string"
  repr_names :: "string list \<Rightarrow> string"
  resolve_path :: "string \<Rightarrow> string option"
  root_dir :: string
  inside_root :: "string \<Rightarrow> bool"
  is_file :: "string \<Rightarrow> bool"
  file_size :: "string \<Rightarrow> int option"
  read_text :: "string \<Rightarrow> string option"
  other_tool :: "string \<Rightarrow> json pydict \<Rightarrow> exn + tool_value"
  allowed_tools :: "string list option"
  has_llm_tool :: bool
  tool_model :: string
  tool_max_tokens :: int
  default_system_prompt :: string

record 'c rlm =
  rl_budget :: budget
  rl_cache :: cache
  tool_tokens :: int
  tool_queries :: nat
  tool_cached :: nat
  invocations :: "tool_invocation list"
  outside :: 'c

section \<open>Text of values\<close>

text \<open>\<^verbatim>\<open>str(v)\<close> of a decoded value\<close>

definition py_str :: "'c rlm_env \<Rightarrow> json \<Rightarrow> string" where
  "py_str E v =
     (case v of
        JNull \<Rightarrow> ''None''
      | JBool b \<Rightarrow> (if b then ''True'' else ''False'')
      | JInt i \<Rightarrow> int_str i
      | JStr s \<Rightarrow> s
      | JList _ \<Rightarrow> repr_container E v
      | JObj _ \<Rightarrow> repr_container E v)"

text \<open>The text of a result, given how lists and dictionaries are written.\<close>

definition value_text :: "'c rlm_env \<Rightarrow> (json \<Rightarrow> string) \<Rightarrow> tool_value \<Rightarrow> string" where
  "value_text E wr v =
     (case v of
        TValue (JList xs) \<Rightarrow> wr (JList xs)
      | TValue (JObj kvs) \<Rightarrow> wr (JObj kvs)
      | TValue j \<Rightarrow> py_str E j
      | TObjects xs \<Rightarrow> wr (JList (map JStr xs))
      | TObject s \<Rightarrow> s
      | TQuery q \<Rightarrow> repr_query E q)"

definition format_result :: "'c rlm_env \<Rightarrow> tool_value \<Rightarrow> string" where
  "format_result E v =
     (let s = value_text E dumps v
      in if length s > 500 then take 500 s @ ''... ('' @ nat_str (length s) @ '' chars total)'' else s)"

section \<open>The query tool (\<^verbatim>\<open>llm_query.py\<close>)\<close>

definition build_context :: "'c rlm_env \<Rightarrow> json \<Rightarrow> json \<Rightarrow> string" where
  "build_context E p c =
     (if json_truthy c
      then ''Context:'' @ nl @ py_str E c @ nl @ nl @ ''Prompt:'' @ nl @ py_str E p
      else py_str E p)"

definition user_content :: "'c rlm_env \<Rightarrow> json \<Rightarrow> json \<Rightarrow> json" where
  "user_content E p c =
     (if json_truthy c
      then JStr (''Context:'' @ nl @ ''```'' @ nl @ py_str E c @ nl @ ''```'' @ nl @ nl @ py_str E p)
      else p)"

definition response_text :: "llm_response \<Rightarrow> string" where
  "response_text r = concat (map (\<lambda>b. case b of None \<Rightarrow> [] | Some t \<Rightarrow> t) (resp_blocks r))"

definition response_tokens :: "llm_response \<Rightarrow> int" where
  "response_tokens r = (case resp_usage r of None \<Rightarrow> 0 | Some (i, j) \<Rightarrow> i + j)"

definition make_api_call ::
  "'c rlm_env \<Rightarrow> json \<Rightarrow> json \<Rightarrow> json \<Rightarrow> json \<Rightarrow> ('c, llm_query_result) io" where
  "make_api_call E p c system mt w =
     (case llm_create E \<lparr>req_model = tool_model E, req_max_tokens = mt, req_system = system,
                         req_content = user_content E p c\<rparr> w of
        (Inl e, w') \<Rightarrow> (Inl e, w')
      | (Inr r, w') \<Rightarrow>
          (Inr \<lparr>q_response = response_text r, q_cached = False, q_tokens = response_tokens r,
                q_model = tool_model E\<rparr>, w'))"

text \<open>\<^verbatim>\<open>a or b\<close>\<close>

definition json_or :: "json \<Rightarrow> json \<Rightarrow> json" where
  "json_or a b = (if json_truthy a then a else b)"

definition llm_query ::
  "'c rlm_env \<Rightarrow> json \<Rightarrow> json \<Rightarrow> json \<Rightarrow> json \<Rightarrow> ('c rlm, llm_query_result) io" where
  "llm_query E p c system mt s =
     (let s1 = s\<lparr>tool_queries := Suc (tool_queries s)\<rparr>
      in if \<not> can_make_call 1 (rl_budget s1)
         then (Inl (Exn BudgetExceededError ''Cannot make LLM query: sub-call budget exceeded''), s1)
         else
           (let full = build_context E p c;
                (hit, x) = cache_get (sha256 E) (py_str E p) full (rl_cache s1);
                s2 = s1\<lparr>rl_cache := x\<rparr>
            in case hit of
                 Some a \<Rightarrow>
                   (Inr \<lparr>q_response = a, q_cached = True, q_tokens = 0, q_model = tool_model E\<rparr>,
                    s2\<lparr>tool_cached := Suc (tool_cached s2)\<rparr>)
               | None \<Rightarrow>
                   (case record_call 1 (rl_budget s2) of
                      (Inl e, b) \<Rightarrow> (Inl e, s2\<lparr>rl_budget := b\<rparr>)
                    | (Inr _, b) \<Rightarrow>
                        (case make_api_call E p c (json_or system (JStr (default_system_prompt E)))
                                (json_or mt (JInt (tool_max_tokens E))) (outside s2) of
                           (Inl e, w') \<Rightarrow>
                             (Inl (Exn RLMError (''LLM query failed: '' @ message_of e)),
                              s2\<lparr>rl_budget := b, outside := w'\<rparr>)
                         | (Inr q, w') \<Rightarrow>
                             (Inr q,
                              s2\<lparr>rl_budget := b, outside := w',
                                 rl_cache := cache_set (sha256 E) (clock_of E w') (py_str E p) full
                                               (q_response q) (rl_cache s2),
                                 tool_tokens := tool_tokens s2 + q_tokens q\<rparr>)))))"

text \<open>The attempts of \<^verbatim>\<open>query_with_retry\<close>, numbered from \<open>i\<close>, with \<open>n\<close> of them left.\<close>

primrec query_attempts ::
  "'c rlm_env \<Rightarrow> json \<Rightarrow> json \<Rightarrow> json \<Rightarrow> json \<Rightarrow> int \<Rightarrow> nat \<Rightarrow> int \<Rightarrow> ('c rlm, llm_query_result) io"
where
  "query_attempts E p c system mt retries 0 i s =
     (Inl (Exn RLMError (''LLM query failed after '' @ int_str (retries + 1) @ '' attempts'')), s)"
| "query_attempts E p c system mt retries (Suc n) i s =
     (case llm_query E p c system mt s of
        (Inr q, s') \<Rightarrow> (Inr q, s')
      | (Inl e, s') \<Rightarrow>
          if isinstance_exn (class_of e) BudgetExceededError then (Inl e, s')
          else if isinstance_exn (class_of e) RLMError then
            query_attempts E p c system mt retries n (i + 1)
              (if i < retries then s'\<lparr>outside := sleep_ms E (500 * 2 ^ nat i) (outside s')\<rparr> else s')
          else (Inl e, s'))"

definition query_with_retry ::
  "'c rlm_env \<Rightarrow> json \<Rightarrow> json \<Rightarrow> json \<Rightarrow> json \<Rightarrow> int \<Rightarrow> ('c rlm, llm_query_result) io" where
  "query_with_retry E p c system mt retries =
     query_attempts E p c system mt retries (nat (retries + 1)) 0"

section \<open>Reading files (\<^verbatim>\<open>file_tools.py\<close>)\<close>

definition validate_path :: "'c rlm_env \<Rightarrow> json \<Rightarrow> exn + string" where
  "validate_path E p =
     (case p of
        JStr s \<Rightarrow>
          (case resolve_path E s of
             None \<Rightarrow> Inl (Exn RLMToolError (''Cannot resolve path: '' @ s))
           | Some r \<Rightarrow>
               if inside_root E r then Inr r
               else Inl (Exn RLMToolError (''Path escapes repository root: '' @ s @ '' (resolved: '' @ r
                           @ '', root: '' @ root_dir E @ '')'')))
      | _ \<Rightarrow> Inl (Exn PyTypeError ''expected str, bytes or os.PathLike object''))"

text \<open>The line boundaries of \<^verbatim>\<open>str.splitlines\<close> among the modelled characters.\<close>

definition is_linebreak :: "char \<Rightarrow> bool" where
  "is_linebreak c \<longleftrightarrow>
     (let n = code_point c in (10 \<le> n \<and> n \<le> 13) \<or> (28 \<le> n \<and> n \<le> 30) \<or> n = 133)"

text \<open>\<^verbatim>\<open>splitlines(keepends=True)\<close>, with the current line reversed\<close>

fun lines_keepends :: "string \<Rightarrow> string \<Rightarrow> string list" where
  "lines_keepends acc [] = (if acc = [] then [] else [rev acc])"
| "lines_keepends acc [c] = [rev (c # acc)]"
| "lines_keepends acc (c # d # cs) =
     (if c = CHR 0x0D \<and> d = CHR 0x0A then rev (d # c # acc) # lines_keepends [] cs
      else if is_linebreak c then rev (c # acc) # lines_keepends [] (d # cs)
      else lines_keepends (c # acc) (d # cs))"

text \<open>The number an argument is compared as; \<^verbatim>\<open>None\<close>, text and containers do not compare.\<close>

definition as_number :: "json \<Rightarrow> exn + int" where
  "as_number j =
     (case j of
        JInt i \<Rightarrow> Inr i
      | JBool b \<Rightarrow> Inr (if b then 1 else 0)
      | _ \<Rightarrow> Inl (Exn PyTypeError ''not supported between these types''))"

definition select_lines :: "string list \<Rightarrow> int \<Rightarrow> int \<Rightarrow> string" where
  "select_lines ls start end =
     (let n = int (length ls); a = (if start < 1 then 1 else start); b = (if end > n then n else end)
      in if a > b then [] else concat (take (nat b - nat (a - 1)) (drop (nat (a - 1)) ls)))"

definition line_range :: "string \<Rightarrow> json \<Rightarrow> json \<Rightarrow> exn + string" where
  "line_range content start end =
     (if start = JNull \<and> end = JNull then Inr content
      else let ls = lines_keepends [] content
           in case (if start = JNull then Inr 1 else as_number start) of
                Inl e \<Rightarrow> Inl e
              | Inr a \<Rightarrow>
                  (case (if end = JNull then Inr (int (length ls)) else as_number end) of
                     Inl e \<Rightarrow> Inl e
                   | Inr b \<Rightarrow> Inr (select_lines ls a b)))"

definition read_file :: "'c rlm_env \<Rightarrow> json \<Rightarrow> json \<Rightarrow> json \<Rightarrow> json \<Rightarrow> exn + string" where
  "read_file E path start end max_size =
     (case validate_path E path of
        Inl e \<Rightarrow> Inl e
      | Inr f \<Rightarrow>
          if \<not> is_file E f then Inl (Exn RLMToolError (''Not a file: '' @ py_str E path))
          else
            (case file_size E f of
               None \<Rightarrow> Inl (Exn RLMToolError (''Cannot stat file: '' @ py_str E path))
             | Some n \<Rightarrow>
                 (case as_number max_size of
                    Inl e \<Rightarrow> Inl e
                  | Inr m \<Rightarrow>
                      if n > m
                      then Inl (Exn RLMToolError (''File too large: '' @ py_str E path @ '' (''
                             @ int_str n @ '' bytes, max: '' @ py_str E max_size @ '')''))
                      else
                        (case read_text E f of
                           None \<Rightarrow> Inl (Exn RLMToolError (''Cannot read file: '' @ py_str E path))
                         | Some content \<Rightarrow> line_range content start end))))"

definition file_exists :: "'c rlm_env \<Rightarrow> json \<Rightarrow> exn + bool" where
  "file_exists E path =
     (case validate_path E path of
        Inr f \<Rightarrow> Inr (is_file E f)
      | Inl e \<Rightarrow> if isinstance_exn (class_of e) RLMToolError then Inr False else Inl e)"

section \<open>The registry (\<^verbatim>\<open>registry.py\<close>)\<close>

definition registry_names :: "'c rlm_env \<Rightarrow> string list" where
  "registry_names E =
     [''list_files'', ''read_file'', ''grep'', ''file_exists'', ''get_file_info'', ''extract_symbols'',
      ''parse_ast'', ''find_symbol'', ''find_symbols_by_kind'', ''get_function_signature'',
      ''get_imports''] @ (if has_llm_tool E then [''llm_query''] else [])"

definition get_available_tools :: "'c rlm_env \<Rightarrow> string list" where
  "get_available_tools E =
     (case allowed_tools E of
        None \<Rightarrow> registry_names E
      | Some al \<Rightarrow> filter (\<lambda>t. t \<in> set al) (registry_names E))"

definition tool_description :: "string \<Rightarrow> string" where
  "tool_description t =
     (if t = ''list_files'' then ''List files matching a pattern in a directory''
      else if t = ''read_file'' then ''Read contents of a file''
      else if t = ''grep'' then ''Search for pattern in files''
      else if t = ''file_exists'' then ''Check if a file exists''
      else if t = ''get_file_info'' then ''Get metadata about a file''
      else if t = ''extract_symbols'' then ''Extract symbols from a file''
      else if t = ''parse_ast'' then ''Parse abstract syntax tree of a file''
      else if t = ''find_symbol'' then ''Find a specific symbol by name''
      else if t = ''find_symbols_by_kind'' then ''Find symbols of a specific kind''
      else if t = ''get_function_signature'' then ''Get signature of a function''
      else if t = ''get_imports'' then ''Get imports from a file''
      else ''Query LLM for analysis'')"

definition get_tool_descriptions :: "'c rlm_env \<Rightarrow> string pydict" where
  "get_tool_descriptions E = map (\<lambda>t. (t, tool_description t)) (get_available_tools E)"

definition is_tool_allowed :: "'c rlm_env \<Rightarrow> string \<Rightarrow> bool" where
  "is_tool_allowed E t \<longleftrightarrow>
     t \<in> set (registry_names E)
     \<and> (case allowed_tools E of None \<Rightarrow> True | Some al \<Rightarrow> t \<in> set al)"

text \<open>Binding the keyword arguments of a call to a method's parameters.\<close>

definition bind_args :: "string \<Rightarrow> string list \<Rightarrow> string \<Rightarrow> json pydict \<Rightarrow> exn + unit" where
  "bind_args f ps required kw =
     (case filter (\<lambda>p. fst p \<notin> set ps) kw of
        q # _ \<Rightarrow> Inl (Exn PyTypeError
          (f @ ''() got an unexpected keyword argument '' @ CHR 0x27 # fst q @ [CHR 0x27]))
      | [] \<Rightarrow>
          if required \<in> fst ` set kw then Inr ()
          else Inl (Exn PyTypeError
            (f @ ''() missing 1 required positional argument: '' @ CHR 0x27 # required @ [CHR 0x27])))"

definition run_tool :: "'c rlm_env \<Rightarrow> string \<Rightarrow> json pydict \<Rightarrow> ('c rlm, tool_value) io" where
  "run_tool E t kw s =
     (if t = ''llm_query'' then
        (case bind_args ''LLMQueryTool.query'' [''prompt'', ''context'', ''system_prompt'', ''max_tokens'']
                ''prompt'' kw of
           Inl e \<Rightarrow> (Inl e, s)
         | Inr _ \<Rightarrow>
             (case llm_query E (dget kw ''prompt'' JNull) (dget kw ''context'' (JStr []))
                     (dget kw ''system_prompt'' JNull) (dget kw ''max_tokens'' JNull) s of
                (Inl e, s') \<Rightarrow> (Inl e, s')
              | (Inr q, s') \<Rightarrow> (Inr (TQuery q), s')))
      else if t = ''read_file'' then
        (case bind_args ''FileTools.read_file'' [''path'', ''start_line'', ''end_line'', ''max_size_bytes'']
                ''path'' kw of
           Inl e \<Rightarrow> (Inl e, s)
         | Inr _ \<Rightarrow>
             (map_sum id (\<lambda>t. TValue (JStr t))
                (read_file E (dget kw ''path'' JNull) (dget kw ''start_line'' JNull)
                   (dget kw ''end_line'' JNull) (dget kw ''max_size_bytes'' (JInt 1000000))), s))
      else if t = ''file_exists'' then
        (case bind_args ''FileTools.file_exists'' [''path''] ''path'' kw of
           Inl e \<Rightarrow> (Inl e, s)
         | Inr _ \<Rightarrow> (map_sum id (\<lambda>b. TValue (JBool b)) (file_exists E (dget kw ''path'' JNull)), s))
      else (other_tool E t kw, s))"

definition log_invocation :: "tool_invocation \<Rightarrow> 'c rlm \<Rightarrow> 'c rlm" where
  "log_invocation i s = s\<lparr>invocations := invocations s @ [i]\<rparr>"

text \<open>
  \<^verbatim>\<open>invoke\<close>.  The name comes from the model's text: a list or a dictionary cannot be looked
  up, and any other value that is not a registered name is unknown.
\<close>

definition invoke_tool :: "'c rlm_env \<Rightarrow> json \<Rightarrow> json pydict \<Rightarrow> ('c rlm, tool_value) io" where
  "invoke_tool E name kw s =
     (case name of
        JList _ \<Rightarrow> (Inl (Exn PyTypeError ''unhashable type: list''), s)
      | JObj _ \<Rightarrow> (Inl (Exn PyTypeError ''unhashable type: dict''), s)
      | JStr t \<Rightarrow>
          if t \<notin> set (registry_names E)
          then (Inl (Exn RLMToolError (''Unknown tool: '' @ t)), s)
          else if \<not> is_tool_allowed E t
          then (Inl (Exn RLMToolError (''Tool not allowed: '' @ t @ ''. Allowed tools: ''
                  @ (case allowed_tools E of None \<Rightarrow> ''None'' | Some al \<Rightarrow> repr_names E al))), s)
          else
            (let at = clock_of E (outside s) in
             case run_tool E t kw s of
               (Inr v, s') \<Rightarrow>
                 (Inr v, log_invocation \<lparr>inv_tool = t, inv_arguments = kw, inv_result = format_result E v,
                           inv_success = True, inv_error = None, inv_at = at\<rparr> s')
             | (Inl e, s') \<Rightarrow>
                 (Inl e, log_invocation \<lparr>inv_tool = t, inv_arguments = kw, inv_result = [],
                           inv_success = False, inv_error = Some (message_of e), inv_at = at\<rparr> s'))
      | j \<Rightarrow> (Inl (Exn RLMToolError (''Unknown tool: '' @ py_str E j)), s))"

definition invoke_safe ::
  "'c rlm_env \<Rightarrow> json \<Rightarrow> json pydict \<Rightarrow> 'c rlm \<Rightarrow> (tool_value option \<times> string option) \<times> 'c rlm" where
  "invoke_safe E name kw s =
     (case invoke_tool E name kw s of
        (Inr v, s') \<Rightarrow> ((Some v, None), s')
      | (Inl e, s') \<Rightarrow> ((None, Some (message_of e)), s'))"

definition clear_invocations :: "'c rlm \<Rightarrow> nat \<times> 'c rlm" where
  "clear_invocations s = (length (invocations s), s\<lparr>invocations := []\<rparr>)"

section \<open>Every call to the model is paid for\<close>

text \<open>
  A measure of the surroundings that counts the requests sent to the model: each request
  adds one and sleeping adds nothing.
\<close>

definition counts_requests :: "'c rlm_env \<Rightarrow> ('c \<Rightarrow> int) \<Rightarrow> bool" where
  "counts_requests E n \<longleftrightarrow>
     (\<forall>r w. n (snd (llm_create E r w)) = n w + 1) \<and> (\<forall>k w. n (sleep_ms E k w) = n w)"

definition paid :: "('c \<Rightarrow> int) \<Rightarrow> 'c rlm \<Rightarrow> 'c rlm \<Rightarrow> bool" where
  "paid n s s' \<longleftrightarrow>
     (budget_ok (rl_budget s) \<longrightarrow> budget_ok (rl_budget s'))
     \<and> (cache_ok (rl_cache s) \<longrightarrow> cache_ok (rl_cache s'))
     \<and> max_total (rl_budget s') = max_total (rl_budget s)
     \<and> max_per_iteration (rl_budget s') = max_per_iteration (rl_budget s)
     \<and> iteration_count (rl_budget s') = iteration_count (rl_budget s)
     \<and> total_used (rl_budget s) \<le> total_used (rl_budget s')
     \<and> n (outside s') - n (outside s) = total_used (rl_budget s') - total_used (rl_budget s)"

lemma paid_refl: "reflp (paid n)"
  by (simp add: paid_def reflp_def)

lemma paid_trans: "transp (paid n)"
  by (auto simp: paid_def transp_def)

lemma paid_same:
  fixes s s' :: "'c rlm"
  shows "rl_budget s' = rl_budget s \<Longrightarrow> rl_cache s' = rl_cache s \<Longrightarrow> outside s' = outside s \<Longrightarrow> paid n s s'"
  by (simp add: paid_def)

lemma make_api_call_counts:
  assumes "counts_requests E n"
  shows "n (snd (make_api_call E p c y m w)) = n w + 1"
proof -
  let ?q = "\<lparr>req_model = tool_model E, req_max_tokens = m, req_system = y,
    req_content = user_content E p c\<rparr>"
  have "snd (make_api_call E p c y m w) = snd (llm_create E ?q w)"
    by (auto simp: make_api_call_def split: prod.splits sum.splits)
  with assms show ?thesis by (simp add: counts_requests_def)
qed

text \<open>The three ways a query ends.\<close>

lemma llm_query_cases:
  obtains (over) "\<not> can_make_call 1 (rl_budget s)"
      "llm_query E p c y m s =
        (Inl (Exn BudgetExceededError ''Cannot make LLM query: sub-call budget exceeded''),
         s\<lparr>tool_queries := Suc (tool_queries s)\<rparr>)"
  | (hit) a where "can_make_call 1 (rl_budget s)"
      "fst (cache_get (sha256 E) (py_str E p) (build_context E p c) (rl_cache s)) = Some a"
      "llm_query E p c y m s =
        (Inr \<lparr>q_response = a, q_cached = True, q_tokens = 0, q_model = tool_model E\<rparr>,
         s\<lparr>tool_queries := Suc (tool_queries s), tool_cached := Suc (tool_cached s),
           rl_cache := snd (cache_get (sha256 E) (py_str E p) (build_context E p c) (rl_cache s))\<rparr>)"
  | (failed) e w' x where "can_make_call 1 (rl_budget s)"
      "x = snd (cache_get (sha256 E) (py_str E p) (build_context E p c) (rl_cache s))"
      "make_api_call E p c (json_or y (JStr (default_system_prompt E)))
         (json_or m (JInt (tool_max_tokens E))) (outside s) = (Inl e, w')"
      "llm_query E p c y m s =
        (Inl (Exn RLMError (''LLM query failed: '' @ message_of e)),
         s\<lparr>tool_queries := Suc (tool_queries s), rl_cache := x,
           rl_budget := spend_calls 1 (rl_budget s), outside := w'\<rparr>)"
  | (answered) q w' x where "can_make_call 1 (rl_budget s)"
      "x = snd (cache_get (sha256 E) (py_str E p) (build_context E p c) (rl_cache s))"
      "make_api_call E p c (json_or y (JStr (default_system_prompt E)))
         (json_or m (JInt (tool_max_tokens E))) (outside s) = (Inr q, w')"
      "llm_query E p c y m s =
        (Inr q,
         s\<lparr>tool_queries := Suc (tool_queries s), rl_budget := spend_calls 1 (rl_budget s),
           outside := w',
           rl_cache := cache_set (sha256 E) (clock_of E w') (py_str E p) (build_context E p c)
             (q_response q) x, tool_tokens := tool_tokens s + q_tokens q\<rparr>)"
proof (cases "can_make_call 1 (rl_budget s)")
  case False
  then show ?thesis by (intro over) (simp_all add: llm_query_def Let_def)
next
  case can: True
  obtain h x where g: "cache_get (sha256 E) (py_str E p) (build_context E p c) (rl_cache s) = (h, x)"
    by fastforce
  show ?thesis
  proof (cases h)
    case (Some a)
    with can g show ?thesis by (intro hit) (simp_all add: llm_query_def Let_def)
  next
    case None
    obtain r w' where a: "make_api_call E p c (json_or y (JStr (default_system_prompt E)))
         (json_or m (JInt (tool_max_tokens E))) (outside s) = (r, w')" by fastforce
    show ?thesis
    proof (cases r)
      case (Inl e)
      with can g None a show ?thesis
        by (intro failed) (simp_all add: llm_query_def record_call_def Let_def)
    next
      case (Inr q)
      with can g None a show ?thesis
        by (intro answered) (simp_all add: llm_query_def record_call_def Let_def)
    qed
  qed
qed

lemma llm_query_hit:
  "can_make_call 1 (rl_budget s) \<Longrightarrow>
   fst (cache_get (sha256 E) (py_str E p) (build_context E p c) (rl_cache s)) = Some a \<Longrightarrow>
   llm_query E p c y m s =
     (Inr \<lparr>q_response = a, q_cached = True, q_tokens = 0, q_model = tool_model E\<rparr>,
      s\<lparr>tool_queries := Suc (tool_queries s), tool_cached := Suc (tool_cached s),
        rl_cache := snd (cache_get (sha256 E) (py_str E p) (build_context E p c) (rl_cache s))\<rparr>)"
  by (cases "cache_get (sha256 E) (py_str E p) (build_context E p c) (rl_cache s)")
    (simp add: llm_query_def Let_def)

lemma llm_query_paid:
  assumes "counts_requests E n"
  shows "preserves (paid n) (llm_query E p c y m)"
proof (rule preservesI)
  fix s :: "'a rlm"
  have call: "n w' = n (outside s) + 1"
    if "make_api_call E p c (json_or y (JStr (default_system_prompt E)))
       (json_or m (JInt (tool_max_tokens E))) (outside s) = (r, w')" for r w'
    using make_api_call_counts [OF assms, of p c "json_or y (JStr (default_system_prompt E))"
        "json_or m (JInt (tool_max_tokens E))" "outside s"] that by simp
  show "paid n s (snd (llm_query E p c y m s))"
    by (cases rule: llm_query_cases [of s E p c y m])
      (auto simp: paid_def call spend_calls_ok cache_get_ok cache_set_ok)
qed

lemma query_attempts_paid:
  assumes "counts_requests E n"
  shows "paid n s (snd (query_attempts E p c y m r k i s))"
proof (induction k arbitrary: i s)
  case 0
  then show ?case by (simp add: paid_same)
next
  case (Suc k)
  obtain a s' where q: "llm_query E p c y m s = (a, s')" by fastforce
  have one: "paid n s s'"
    using preservesD [OF llm_query_paid [OF assms], of s p c y m] q by simp
  have slept: "paid n s' (if i < r then s'\<lparr>outside := sleep_ms E (500 * 2 ^ nat i) (outside s')\<rparr> else s')"
    using assms by (simp add: paid_def counts_requests_def)
  show ?case
    using one transpD [OF paid_trans one transpD [OF paid_trans slept Suc.IH]]
    by (auto simp: q split: sum.splits)
qed

lemma run_tool_paid:
  "counts_requests E n \<Longrightarrow> paid n s (snd (run_tool E t kw s))"
  using preservesD [OF llm_query_paid [of E n]]
  by (auto simp: run_tool_def paid_same split: sum.splits prod.splits) (metis snd_conv)+

lemma invoke_tool_paid:
  assumes "counts_requests E n"
  shows "paid n s (snd (invoke_tool E name kw s))"
proof -
  have log: "paid n s (log_invocation i s')" if "paid n s s'" for i s'
    using that by (simp add: paid_def log_invocation_def)
  have "paid n s s'" if "run_tool E t kw s = (r, s')" for t r s'
    using run_tool_paid [OF assms, of s t kw] that by simp
  then show ?thesis
    by (auto simp: invoke_tool_def Let_def paid_same intro: log split: json.splits prod.splits sum.splits)
qed

lemma invoke_safe_paid: "counts_requests E n \<Longrightarrow> paid n s (snd (invoke_safe E name kw s))"
  using invoke_tool_paid [of E n s name kw]
  by (auto simp: invoke_safe_def split: prod.splits sum.splits)

lemma llm_query_one:
  "total_used (rl_budget (snd (llm_query E p c y m s))) \<le> total_used (rl_budget s) + 1"
  by (cases rule: llm_query_cases [of s E p c y m]) simp_all

lemma query_attempts_bound:
  "total_used (rl_budget (snd (query_attempts E p c y m r k i s))) \<le> total_used (rl_budget s) + int k"
proof (induction k arbitrary: i s)
  case (Suc k)
  obtain a s' where q: "llm_query E p c y m s = (a, s')" by fastforce
  have one: "total_used (rl_budget s') \<le> total_used (rl_budget s) + 1"
    using llm_query_one [of E p c y m s] q by simp
  have rest: "total_used (rl_budget (snd (query_attempts E p c y m r k (i + 1) s''))) \<le>
      total_used (rl_budget s) + (1 + int k)" if "rl_budget s'' = rl_budget s'" for s''
    using Suc.IH [of "i + 1" s''] one that by simp
  show ?case
    using one by (auto simp: q rest split: sum.splits)
qed simp

section \<open>Lines of a file\<close>

lemma concat_lines_keepends: "concat (lines_keepends acc s) = rev acc @ s"
  by (induction acc s rule: lines_keepends.induct) auto

lemma select_lines_part:
  "\<exists>pre post. concat ls = pre @ select_lines ls a b @ post"
proof -
  have cut: "concat xs = concat (take n xs) @ concat (drop n xs)" for n and xs :: "string list"
    by (simp flip: concat_append)
  have "\<exists>pre post. concat ls = pre @ concat (take k (drop j ls)) @ post" for j k
    using cut [of ls j] cut [of "drop j ls" k] by metis
  then show ?thesis
    by (auto simp: select_lines_def Let_def)
qed

lemma select_all_lines: "select_lines ls 1 (int (length ls)) = concat ls"
  by (cases ls) (simp_all add: select_lines_def Let_def)

lemma line_range_part:
  assumes "line_range content a b = Inr t"
  shows "\<exists>pre post. content = pre @ t @ post"
proof (cases "a = JNull \<and> b = JNull")
  case True
  with assms show ?thesis by (auto simp: line_range_def intro: exI [of _ "[]"])
next
  case False
  with assms obtain x y where "t = select_lines (lines_keepends [] content) x y"
    by (auto simp: line_range_def Let_def split: sum.splits)
  with select_lines_part [of "lines_keepends [] content" x y] show ?thesis
    by (simp add: concat_lines_keepends)
qed

section \<open>Properties\<close>

text \<open>The surroundings of the examples: the state counts the requests, and the model answers.\<close>

definition demo_rlm_env :: "int rlm_env" where
  "demo_rlm_env =
     \<lparr>llm_create = (\<lambda>r w. (Inr \<lparr>resp_blocks = [Some ''fine''], resp_usage = Some (3, 2)\<rparr>, w + 1)),
      clock_of = (\<lambda>w. w), sleep_ms = (\<lambda>k w. w), timer_fired = (\<lambda>w. False),
      sha256 = (\<lambda>t. t), repr_container = (\<lambda>j. []), repr_query = q_response, repr_names = concat,
      resolve_path = Some, root_dir = ''/r'', inside_root = (\<lambda>p. take 3 p = ''/r/''),
      is_file = (\<lambda>p. p = ''/r/a'' \<or> p = ''/s''), file_size = (\<lambda>p. Some 4),
      read_text = (\<lambda>p. Some [CHR ''x'', CHR 0x0A, CHR ''y'', CHR 0x0A]),
      other_tool = (\<lambda>t kw. Inr (TValue JNull)), allowed_tools = None, has_llm_tool = True,
      tool_model = ''m'', tool_max_tokens = 500, default_system_prompt = ''s''\<rparr>"

definition demo_rlm :: "int rlm" where
  "demo_rlm =
     \<lparr>rl_budget = \<lparr>max_total = 2, max_per_iteration = 1, total_used = 0, iteration_used = 0,
                  iteration_count = 0, budget_history = []\<rparr>,
      rl_cache = new_cache 0 True, tool_tokens = 0, tool_queries = 0, tool_cached = 0,
      invocations = [], outside = 0\<rparr>"

lemma demo_counts: "counts_requests demo_rlm_env id"
  by (simp add: counts_requests_def demo_rlm_env_def)

lemma demo_budget_ok: "budget_ok (rl_budget demo_rlm)"
  by (simp add: demo_rlm_def budget_ok_def)

text \<open>C19: a query with retries sends the model exactly as many requests as it takes from the
  budget, never more than the budget had left and never more than its number of attempts; and
  the budget stays within its limits whether the query answers, fails or is refused.\<close>

theorem queries_are_paid:
  assumes "counts_requests E n" "budget_ok (rl_budget s)"
  shows "budget_ok (rl_budget (snd (query_with_retry E p c y m k s)))
    \<and> n (outside (snd (query_with_retry E p c y m k s))) - n (outside s) =
        remaining (rl_budget s) - remaining (rl_budget (snd (query_with_retry E p c y m k s)))
    \<and> n (outside (snd (query_with_retry E p c y m k s))) - n (outside s) \<le> remaining (rl_budget s)
    \<and> n (outside (snd (query_with_retry E p c y m k s))) - n (outside s) \<le> int (nat (k + 1))"
proof -
  let ?s = "snd (query_with_retry E p c y m k s)"
  have "paid n s ?s"
    unfolding query_with_retry_def by (rule query_attempts_paid [OF assms(1)])
  moreover have "total_used (rl_budget ?s) \<le> total_used (rl_budget s) + int (nat (k + 1))"
    unfolding query_with_retry_def by (rule query_attempts_bound)
  ultimately show ?thesis
    using assms(2) sub_calls.within [of "rl_budget ?s"] by (auto simp: paid_def remaining_def)
qed

theorem queries_are_paid_witness:
  "outside (snd (query_with_retry demo_rlm_env (JStr ''q'') (JStr []) JNull JNull 2 demo_rlm)) \<le> 2"
proof -
  have "remaining (rl_budget demo_rlm) = 2" "outside demo_rlm = 0"
    by (simp_all add: demo_rlm_def remaining_def)
  with queries_are_paid [OF demo_counts demo_budget_ok,
      where p = "JStr ''q''" and c = "JStr []" and y = JNull and m = JNull and k = 2]
  show ?thesis by simp
qed

text \<open>C20: whatever the arguments a model writes into a call, a file that is read lies inside
  the repository root after its path was resolved, is a file no larger than the limit, and
  the text returned is a contiguous part of its content.\<close>

theorem read_file_sandboxed:
  assumes "read_file E path a b m = Inr t"
  shows "\<exists>p f size limit content.
    path = JStr p \<and> resolve_path E p = Some f \<and> inside_root E f \<and> is_file E f
    \<and> file_size E f = Some size \<and> as_number m = Inr limit \<and> size \<le> limit
    \<and> read_text E f = Some content \<and> (\<exists>pre post. content = pre @ t @ post)"
proof -
  from assms obtain f size limit content where f: "validate_path E path = Inr f"
    "is_file E f" "file_size E f = Some size" "as_number m = Inr limit" "size \<le> limit"
    "read_text E f = Some content" and t: "line_range content a b = Inr t"
    by (auto simp: read_file_def split: sum.splits option.splits if_splits)
  from f(1) obtain p where "path = JStr p" "resolve_path E p = Some f" "inside_root E f"
    by (auto simp: validate_path_def split: json.splits option.splits if_splits)
  with f line_range_part [OF t] show ?thesis by blast
qed

theorem read_file_sandboxed_witness:
  "inside_root demo_rlm_env ''/r/a''
   \<and> \<not> (\<exists>t. read_file demo_rlm_env (JStr ''/s'') JNull JNull (JInt 9) = Inr t)"
proof
  have "read_file demo_rlm_env (JStr ''/r/a'') (JInt 2) JNull (JInt 9) = Inr [CHR ''y'', CHR 0x0A]"
    by code_simp
  from read_file_sandboxed [OF this] show "inside_root demo_rlm_env ''/r/a''"
    by (auto simp: demo_rlm_env_def)
  have "\<not> inside_root demo_rlm_env ''/s''" "resolve_path demo_rlm_env ''/s'' = Some ''/s''"
    by (simp_all add: demo_rlm_env_def)
  then show "\<not> (\<exists>t. read_file demo_rlm_env (JStr ''/s'') JNull JNull (JInt 9) = Inr t)"
    by (auto simp: read_file_def validate_path_def split: sum.splits)
qed

text \<open>
  The prompt and the context are joined into the key text without quoting, so a prompt can
  contain what separates them.
\<close>

definition forged_context :: "string \<Rightarrow> string \<Rightarrow> string" where
  "forged_context p t =
     t @ nl @ nl @ ''Prompt:'' @ nl @ p @ nl @ ''context:'' @ p @ nl @ ''context:Context:'' @ nl @ t"

definition forged_prompt :: "string \<Rightarrow> string \<Rightarrow> string" where
  "forged_prompt p t = p @ nl @ ''context:Context:'' @ nl @ t @ nl @ nl @ ''Prompt:'' @ nl @ p"

lemma forged_key:
  "generate_key sha (forged_prompt p t) (build_context E (JStr (forged_prompt p t)) (JStr [])) =
   generate_key sha p (build_context E (JStr p) (JStr (forged_context p t)))"
  by (simp add: generate_key_def key_text_def build_context_def py_str_def forged_prompt_def
      forged_context_def nl_def)

text \<open>Two different questions can share a key whatever the digest: after a question about
  some context was answered and cached, another prompt without context is served that answer,
  and the model is not asked.\<close>

theorem other_question_served_from_cache:
  assumes "llm_query E (JStr p) (JStr (forged_context p t)) y m s = (Inr q, s')" "\<not> q_cached q"
    and "cache_enabled (rl_cache s)" "can_make_call 1 (rl_budget s')"
  shows "forged_prompt p t \<noteq> p
    \<and> fst (llm_query E (JStr (forged_prompt p t)) (JStr []) y m s') =
        Inr \<lparr>q_response = q_response q, q_cached = True, q_tokens = 0, q_model = tool_model E\<rparr>
    \<and> outside (snd (llm_query E (JStr (forged_prompt p t)) (JStr []) y m s')) = outside s'"
proof -
  let ?k = "generate_key (sha256 E) p (build_context E (JStr p) (JStr (forged_context p t)))"
  have get_enabled: "cache_enabled (snd (cache_get sha a b x)) = cache_enabled x" for sha a b x
    by (auto simp: cache_get_def Let_def split: option.splits)
  let ?x = "snd (cache_get (sha256 E) (py_str E (JStr p))
      (build_context E (JStr p) (JStr (forged_context p t))) (rl_cache s))"
  have stored: "\<exists>now. rl_cache s' = cache_set (sha256 E) now (py_str E (JStr p))
      (build_context E (JStr p) (JStr (forged_context p t))) (q_response q) ?x"
    using assms(1,2)
    by (cases rule: llm_query_cases [of s E "JStr p" "JStr (forged_context p t)" y m]) auto
  have on: "cache_enabled ?x" using assms(3) by (simp add: get_enabled)
  from stored on have found: "found_answer (rl_cache s') ?k = Some (q_response q)"
    by (auto simp: found_after_set py_str_def)
  from stored on have en: "cache_enabled (rl_cache s')"
    by (auto simp: cache_set_def Let_def)
  have hit: "fst (cache_get (sha256 E) (py_str E (JStr (forged_prompt p t)))
      (build_context E (JStr (forged_prompt p t)) (JStr [])) (rl_cache s')) = Some (q_response q)"
    using found en forged_key [of "sha256 E" p t E] by (simp add: cache_get_result py_str_def)
  have "forged_prompt p t \<noteq> p" by (simp add: forged_prompt_def nl_def)
  with llm_query_hit [OF assms(4) hit] show ?thesis by simp
qed

theorem other_question_served_from_cache_witness:
  "fst (llm_query demo_rlm_env (JStr (forged_prompt ''q'' ''code'')) (JStr []) JNull JNull
     (snd (llm_query demo_rlm_env (JStr ''q'') (JStr (forged_context ''q'' ''code'')) JNull JNull
        (demo_rlm\<lparr>rl_budget := (rl_budget demo_rlm)\<lparr>max_per_iteration := 2\<rparr>\<rparr>)))) =
   Inr \<lparr>q_response = ''fine'', q_cached = True, q_tokens = 0, q_model = ''m''\<rparr>"
proof -
  let ?s = "demo_rlm\<lparr>rl_budget := (rl_budget demo_rlm)\<lparr>max_per_iteration := 2\<rparr>\<rparr>"
  let ?r = "llm_query demo_rlm_env (JStr ''q'') (JStr (forged_context ''q'' ''code'')) JNull JNull ?s"
  let ?q = "\<lparr>q_response = ''fine'', q_cached = False, q_tokens = 5, q_model = ''m''\<rparr>"
  have r: "fst ?r = Inr ?q" "can_make_call 1 (rl_budget (snd ?r))" "cache_enabled (rl_cache ?s)"
    by (simp_all add: llm_query_def demo_rlm_env_def demo_rlm_def can_make_call_def cache_get_def
        new_cache_def record_call_def make_api_call_def response_text_def response_tokens_def Let_def)
  have m: "tool_model demo_rlm_env = ''m''" by (simp add: demo_rlm_env_def)
  have eq: "?r = (Inr ?q, snd ?r)" using r(1) by (metis prod.collapse)
  from other_question_served_from_cache [OF eq _ r(3) r(2)] show ?thesis by (simp add: m)
qed

end
