(* ===== verification/Rlm_Explore.thy ===== *)
theory Rlm_Explore
  imports Rlm_Tools
begin

text \<open>
  Recursive exploration (\<^verbatim>\<open>src/workers/rlm\<close>): when it is triggered (\<^verbatim>\<open>trigger.py\<close>), the agent
  that asks the model for its next step, reads the reply and runs the tools it names
  (\<^verbatim>\<open>agent.py\<close>), and the orchestrator that repeats this within the budget, the number of
  iterations and the time (\<^verbatim>\<open>orchestrator.py\<close>).  The loop is synchronous but for the pause
  after an iteration, so the timer of \<^verbatim>\<open>asyncio.wait_for\<close> can only interrupt it there;
  whether it has fired is read from the surroundings.  Durations and the confidence of a
  finding are floats and not modelled.
\<close>

section \<open>The trigger (\<^verbatim>\<open>trigger.py\<close>)\<close>

datatype trigger_reason =
    LARGE_CONTEXT | MULTI_FILE_DEPENDENCY | DEBUGGER_FAIL_COUNT | EXPLICIT_REQUEST | COMPLEX_QUERY
  | NO_REASON

record trigger_detector =
  context_threshold :: int
  fail_count_threshold :: int
  multi_file_threshold :: int
  complex_query_keywords :: "string list option"

text \<open>The confidence is given in tenths.\<close>

record trigger_result =
  should_trigger :: bool
  trigger_reason :: trigger_reason
  all_reasons :: "trigger_reason list"
  trigger_details :: "json pydict"
  confidence_tenths :: nat

definition default_keywords :: "string list" where
  "default_keywords =
     [''how does'', ''explain the'', ''architecture'', ''flow'', ''trace'', ''all usages'', ''dependencies'',
      ''relationship between'', ''impact of'', ''refactor'']"

definition new_detector :: "int \<Rightarrow> int \<Rightarrow> int \<Rightarrow> string list option \<Rightarrow> trigger_detector" where
  "new_detector ctx fails files kws =
     \<lparr>context_threshold = ctx, fail_count_threshold = fails, multi_file_threshold = files,
      complex_query_keywords = Some (case kws of None \<Rightarrow> default_keywords | Some ks \<Rightarrow> ks)\<rparr>"

definition keywords_of :: "trigger_detector \<Rightarrow> string list" where
  "keywords_of D = (case complex_query_keywords D of None \<Rightarrow> [] | Some ks \<Rightarrow> ks)"

definition is_complex_query :: "trigger_detector \<Rightarrow> string \<Rightarrow> bool" where
  "is_complex_query D q \<longleftrightarrow>
     (if q = [] then False else list_ex (\<lambda>k. is_infix k (py_lower q)) (keywords_of D))"

text \<open>Each check appends its reason and its details.\<close>

definition trigger_checks ::
  "trigger_detector \<Rightarrow> int \<Rightarrow> string \<Rightarrow> int \<Rightarrow> int \<Rightarrow> bool \<Rightarrow> string
    \<Rightarrow> (bool \<times> trigger_reason \<times> json pydict) list" where
  "trigger_checks D tokens query files fails explicit agent =
     [(explicit, EXPLICIT_REQUEST, [(''explicit_request'', JBool True)]),
      (tokens > context_threshold D, LARGE_CONTEXT,
       [(''context_tokens'', JInt tokens), (''context_threshold'', JInt (context_threshold D))]),
      (files > multi_file_threshold D, MULTI_FILE_DEPENDENCY,
       [(''file_count'', JInt files), (''multi_file_threshold'', JInt (multi_file_threshold D))]),
      (py_lower agent = ''debugger'' \<and> fails > fail_count_threshold D, DEBUGGER_FAIL_COUNT,
       [(''fail_count'', JInt fails), (''fail_count_threshold'', JInt (fail_count_threshold D))]),
      (is_complex_query D query, COMPLEX_QUERY, [(''complex_query_detected'', JBool True)])]"

definition check_trigger ::
  "trigger_detector \<Rightarrow> int \<Rightarrow> string \<Rightarrow> int \<Rightarrow> int \<Rightarrow> bool \<Rightarrow> string \<Rightarrow> trigger_result" where
  "check_trigger D tokens query files fails explicit agent =
     (let hits = filter fst (trigger_checks D tokens query files fails explicit agent);
          reasons = map (\<lambda>(b, r, d). r) hits
      in \<lparr>should_trigger = (reasons \<noteq> []),
          trigger_reason = (case reasons of [] \<Rightarrow> NO_REASON | r # _ \<Rightarrow> r),
          all_reasons = reasons,
          trigger_details = concat (map (\<lambda>(b, r, d). d) hits),
          confidence_tenths = (if reasons = [] then 0 else min 10 (length reasons * 3 + 4))\<rparr>)"

definition check_context_size :: "trigger_detector \<Rightarrow> int \<Rightarrow> trigger_result" where
  "check_context_size D tokens = check_trigger D tokens [] 0 0 False []"

definition check_debugger_fails :: "trigger_detector \<Rightarrow> int \<Rightarrow> trigger_result" where
  "check_debugger_fails D fails = check_trigger D 0 [] 0 fails False ''debugger''"

definition check_query_complexity :: "trigger_detector \<Rightarrow> string \<Rightarrow> trigger_result" where
  "check_query_complexity D query = check_trigger D 0 query 0 0 False []"

definition add_complex_keyword :: "string \<Rightarrow> trigger_detector \<Rightarrow> trigger_detector" where
  "add_complex_keyword k D =
     (let ks = keywords_of D
      in if py_lower k \<notin> set (map py_lower ks)
         then D\<lparr>complex_query_keywords := Some (ks @ [py_lower k])\<rparr>
         else D\<lparr>complex_query_keywords := Some ks\<rparr>)"

fun remove_first :: "('a \<Rightarrow> bool) \<Rightarrow> 'a list \<Rightarrow> 'a list option" where
  "remove_first P [] = None"
| "remove_first P (x # xs) = (if P x then Some xs else map_option (\<lambda>ys. x # ys) (remove_first P xs))"

definition remove_complex_keyword :: "string \<Rightarrow> trigger_detector \<Rightarrow> bool \<times> trigger_detector" where
  "remove_complex_keyword k D =
     (case complex_query_keywords D of
        None \<Rightarrow> (False, D)
      | Some ks \<Rightarrow>
          (case remove_first (\<lambda>x. py_lower x = py_lower k) ks of
             None \<Rightarrow> (False, D)
           | Some ks' \<Rightarrow> (True, D\<lparr>complex_query_keywords := Some ks'\<rparr>)))"

section \<open>The configuration (\<^verbatim>\<open>config.py\<close>)\<close>

record rlm_config =
  cfg_max_subcalls :: int
  cfg_max_per_iteration :: int
  cfg_timeout :: int
  cfg_model :: string
  cfg_max_tokens :: int
  cfg_cache_enabled :: bool
  cfg_audit_dir :: string
  cfg_repo_root :: string

text \<open>The first \<^verbatim>\<open>int\<close> that fails raises.\<close>

definition rlm_config_from_env :: "string pydict \<Rightarrow> exn + rlm_config" where
  "rlm_config_from_env e =
     (case py_int (dget e ''RLM_MAX_SUBCALLS'' ''50'') of Inl x \<Rightarrow> Inl x | Inr t \<Rightarrow>
     (case py_int (dget e ''RLM_MAX_PER_ITERATION'' ''8'') of Inl x \<Rightarrow> Inl x | Inr p \<Rightarrow>
     (case py_int (dget e ''RLM_TIMEOUT'' ''300'') of Inl x \<Rightarrow> Inl x | Inr w \<Rightarrow>
     (case py_int (dget e ''RLM_MAX_TOKENS_PER_SUBCALL'' ''500'') of Inl x \<Rightarrow> Inl x | Inr k \<Rightarrow>
        Inr \<lparr>cfg_max_subcalls = t, cfg_max_per_iteration = p, cfg_timeout = w,
             cfg_model = dget e ''RLM_MODEL'' ''claude-3-5-haiku-20241022'', cfg_max_tokens = k,
             cfg_cache_enabled = (py_lower (dget e ''RLM_CACHE_ENABLED'' ''true'') = ''true''),
             cfg_audit_dir = dget e ''RLM_AUDIT_DIR'' ''telemetry/rlm'',
             cfg_repo_root = dget e ''RLM_REPO_ROOT'' ''.''\<rparr>))))"

definition validate_rlm_config :: "rlm_config \<Rightarrow> string list" where
  "validate_rlm_config c =
     (if cfg_max_subcalls c < 1 then [''max_subcalls must be at least 1''] else [])
     @ (if cfg_max_per_iteration c < 1 then [''max_subcalls_per_iteration must be at least 1''] else [])
     @ (if cfg_max_per_iteration c > cfg_max_subcalls c
        then [''max_subcalls_per_iteration cannot exceed max_subcalls''] else [])
     @ (if cfg_timeout c < 1 then [''timeout_seconds must be at least 1''] else [])
     @ (if cfg_max_tokens c < 1 then [''max_tokens_per_subcall must be at least 1''] else [])
     @ (if cfg_model c = [] then [''model cannot be empty''] else [])"

text \<open>The budget, the cache and the detector that \<^verbatim>\<open>integration.py\<close> makes of a configuration\<close>

definition config_budget :: "rlm_config \<Rightarrow> exn + budget" where
  "config_budget c = new_budget (cfg_max_subcalls c) (cfg_max_per_iteration c)"

definition config_cache :: "rlm_config \<Rightarrow> cache" where
  "config_cache c = new_cache 0 (cfg_cache_enabled c)"

definition config_detector :: "rlm_config \<Rightarrow> trigger_detector" where
  "config_detector c = new_detector (cfg_max_subcalls c * 2000) 4 10 None"

lemma valid_config_has_budget:
  "validate_rlm_config c = [] \<Longrightarrow> \<exists>b. config_budget c = Inr b \<and> budget_ok b \<and> remaining b = cfg_max_subcalls c"
  by (auto simp: validate_rlm_config_def config_budget_def new_budget_def budget_ok_def remaining_def
      split: if_splits)

section \<open>The records of an exploration (\<^verbatim>\<open>models.py\<close>)\<close>

record tool_call =
  tc_tool :: json
  tc_args :: "json pydict"
  tc_result :: string
  tc_at :: int

record citation =
  ci_path :: json
  ci_start :: json
  ci_end :: json
  ci_hash :: string
  ci_snippet :: string

record finding =
  fi_description :: string
  fi_evidence :: string
  fi_source_file :: string
  fi_line_range :: "(int \<times> int) option"
  fi_tags :: "string list"

record exploration_step =
  st_iteration :: nat
  st_thought :: string
  st_tool_calls :: "tool_call list"
  st_findings :: "string list"
  st_next :: string
  st_subcalls :: nat

record trajectory =
  tr_steps :: "exploration_step list"
  tr_start :: int
  tr_end :: "int option"
  tr_subcalls :: int
  tr_cached_hits :: nat
  tr_query :: string
  tr_hints :: "string list"

record rlm_usage =
  us_subcalls :: int
  us_cached :: nat
  us_tokens :: int
  us_model_calls :: nat
  us_limit :: int
  us_remaining :: int

record rlm_result =
  rr_task_id :: string
  rr_success :: bool
  rr_findings :: "finding list"
  rr_synthesis :: string
  rr_trajectory :: trajectory
  rr_usage :: rlm_usage
  rr_citations :: "citation list"
  rr_error :: "string option"

definition rlm_failure :: "string \<Rightarrow> string \<Rightarrow> trajectory \<Rightarrow> rlm_usage \<Rightarrow> rlm_result" where
  "rlm_failure task err tr us =
     \<lparr>rr_task_id = task, rr_success = False, rr_findings = [], rr_synthesis = [],
      rr_trajectory = tr, rr_usage = us, rr_citations = [], rr_error = Some err\<rparr>"

definition citation_from_content ::
  "'c rlm_env \<Rightarrow> json \<Rightarrow> json \<Rightarrow> json \<Rightarrow> string \<Rightarrow> citation" where
  "citation_from_content E path a b content =
     \<lparr>ci_path = path, ci_start = a, ci_end = b, ci_hash = sha256 E content,
      ci_snippet = (if length content > 200 then take 200 content @ ''...'' else content)\<rparr>"

text \<open>
  The configuration of the agent and of the orchestrator, and the state they keep.  The lists
  an exploration accumulates are shared with the handlers of its exceptions, so they are part
  of the state.
\<close>

record 'c explorer =
  tools :: "'c rlm_env"
  agent_model :: string
  agent_max_tokens :: int
  max_iterations :: int
  timeout_seconds :: int
  new_task_id :: "'c \<Rightarrow> string"

record 'c exploration =
  ex_rlm :: "'c rlm"
  agent_iterations :: nat
  agent_tokens :: int
  exploration_count :: nat
  xp_steps :: "exploration_step list"
  xp_notes :: "string list"
  xp_findings :: "finding list"
  xp_citations :: "citation list"

section \<open>The agent (\<^verbatim>\<open>agent.py\<close>)\<close>

record executed_call =
  ec_tool :: json
  ec_args :: "json pydict"
  ec_result :: string
  ec_success :: bool

record agent_iteration =
  it_thought :: string
  it_calls :: "json list"
  it_findings :: "string list"
  it_next :: string
  it_done :: bool

definition prompt_before_tools :: string where
  "prompt_before_tools =
     ''You are a code exploration agent. Your task is to explore a codebase to answer a specific question or find specific information.''
     @ nl @ nl @ ''You have access to the following tools:'' @ nl"

definition prompt_after_tools :: string where
  "prompt_after_tools =
     nl @ py_join nl
       [[], ''## Instructions'', [],
        ''1. Think step by step about what information you need'',
        ''2. Use tools to explore the codebase'',
        ''3. Keep track of what you've found'',
        ''4. When you have enough information, provide your findings'', [],
        ''## Output Format'', [],
        ''For each step, provide your response in this format:'', [],
        ''<thought>'', ''Your reasoning about what to explore next and why.'', ''</thought>'', [],
        ''<tool_calls>'', ''['',
        ''  {\"tool\": \"tool_name\", \"args\": {\"arg1\": \"value1\", \"arg2\": \"value2\"}}'',
        '']'', ''</tool_calls>'', [],
        ''<findings>'', ''- Finding 1: Description of what you discovered'',
        ''- Finding 2: Another discovery'', ''</findings>'', [],
        ''<next_direction>'',
        ''What you plan to explore next, or \"DONE\" if you have enough information.'',
        ''</next_direction>'', [],
        ''If you have gathered enough information and want to conclude, set next_direction to \"DONE\" and provide a comprehensive synthesis in your findings.'',
        [], ''## Important Notes'', [],
        ''- Be systematic and thorough'', ''- Don't repeat the same tool calls'',
        ''- Focus on the specific question asked'',
        ''- Cite file paths and line numbers when referencing code'', []]"

definition build_system_prompt :: "'c rlm_env \<Rightarrow> string" where
  "build_system_prompt E =
     prompt_before_tools
     @ py_join nl (map (\<lambda>(t, d). ''- '' @ t @ '': '' @ d) (get_tool_descriptions E))
     @ prompt_after_tools"

text \<open>\<^verbatim>\<open>', '.join(names)\<close>, which raises on a name that is not text\<close>

fun string_names :: "tool_call list \<Rightarrow> exn + string list" where
  "string_names [] = Inr []"
| "string_names (c # cs) =
     (case tc_tool c of
        JStr t \<Rightarrow> map_sum id (\<lambda>ts. t # ts) (string_names cs)
      | _ \<Rightarrow> Inl (Exn PyTypeError ''sequence item: expected str instance''))"

definition summarize_step :: "exploration_step \<Rightarrow> exn + string" where
  "summarize_step st =
     map_sum id
       (\<lambda>ts. ''Step '' @ nat_str (st_iteration st) @ '': '' @ take 100 (st_thought st) @ ''... (tools: ''
             @ py_join '', '' ts @ '')'')
       (string_names (st_tool_calls st))"

fun summarize_steps :: "exploration_step list \<Rightarrow> exn + string list" where
  "summarize_steps [] = Inr []"
| "summarize_steps (st # sts) =
     (case summarize_step st of
        Inl e \<Rightarrow> Inl e
      | Inr t \<Rightarrow> map_sum id (\<lambda>ts. t # ts) (summarize_steps sts))"

text \<open>\<^verbatim>\<open>history[-5:]\<close>\<close>

definition summarize_history :: "exploration_step list \<Rightarrow> exn + string" where
  "summarize_history h = map_sum id (py_join nl) (summarize_steps (drop (length h - 5) h))"

definition build_user_message ::
  "string \<Rightarrow> string \<Rightarrow> exploration_step list \<Rightarrow> string list \<Rightarrow> exn + string" where
  "build_user_message query context hist notes =
     (case (if hist = [] then Inr [] else
              map_sum id (\<lambda>t. [nl @ ''## Exploration History'' @ nl @ t]) (summarize_history hist)) of
        Inl e \<Rightarrow> Inl e
      | Inr hp \<Rightarrow>
          Inr (py_join nl
            ([''## Query'' @ nl @ query]
             @ (if context = [] then [] else [nl @ ''## Context'' @ nl @ context])
             @ (if notes = [] then []
                else [nl @ ''## Findings So Far'' @ nl @ py_join nl (map (\<lambda>f. ''- '' @ f) notes)])
             @ hp
             @ [nl @ ''## Instructions'' @ nl @ ''Continue exploring to answer the query. ''
                @ ''Use tools to gather information. ''
                @ ''When you have enough information, set next_direction to 'DONE'.''])))"

definition call_llm :: "'c explorer \<Rightarrow> string \<Rightarrow> string \<Rightarrow> ('c exploration, string) io" where
  "call_llm A system user s =
     (case llm_create (tools A)
             \<lparr>req_model = agent_model A, req_max_tokens = JInt (agent_max_tokens A),
              req_system = JStr system, req_content = JStr user\<rparr> (outside (ex_rlm s)) of
        (Inl e, w) \<Rightarrow> (Inl e, s\<lparr>ex_rlm := (ex_rlm s)\<lparr>outside := w\<rparr>\<rparr>)
      | (Inr r, w) \<Rightarrow>
          (Inr (response_text r),
           s\<lparr>ex_rlm := (ex_rlm s)\<lparr>outside := w\<rparr>, agent_tokens := agent_tokens s + response_tokens r\<rparr>))"

text \<open>The text after, and the text before, the first occurrence of a pattern.\<close>

fun after_first :: "string \<Rightarrow> string \<Rightarrow> string option" where
  "after_first p [] = (if p = [] then Some [] else None)"
| "after_first p (c # cs) =
     (if starts_with (c # cs) p then Some (drop (length p) (c # cs)) else after_first p cs)"

fun before_first :: "string \<Rightarrow> string \<Rightarrow> string option" where
  "before_first p [] = (if p = [] then Some [] else None)"
| "before_first p (c # cs) =
     (if starts_with (c # cs) p then Some [] else map_option (\<lambda>t. c # t) (before_first p cs))"

text \<open>
  \<^verbatim>\<open>re.search("<tag>(.*?)</tag>", text, re.DOTALL)\<close>: a closing tag after the first opening
  one is after every later one, so the first opening tag decides.
\<close>

definition extract_tag :: "string \<Rightarrow> string \<Rightarrow> string" where
  "extract_tag text tag =
     (case after_first (''<'' @ tag @ ''>'') text of
        None \<Rightarrow> []
      | Some r \<Rightarrow> (case before_first (''</'' @ tag @ ''>'') r of None \<Rightarrow> [] | Some b \<Rightarrow> py_strip b))"

fun parse_notes :: "string list \<Rightarrow> string list" where
  "parse_notes [] = []"
| "parse_notes (l # ls) =
     (case py_strip l of
        [] \<Rightarrow> parse_notes ls
      | c # cs \<Rightarrow> (if c = CHR ''-'' then py_strip cs else c # cs) # parse_notes ls)"

text \<open>\<^verbatim>\<open>s.upper()\<close>, but for the three characters whose capitals are not among those modelled\<close>

definition upper_char :: "char \<Rightarrow> char" where
  "upper_char c =
     (let n = code_point c
      in if (97 \<le> n \<and> n \<le> 122) \<or> (224 \<le> n \<and> n \<le> 254 \<and> n \<noteq> 247)
         then char_of (n - 32) else c)"

definition parse_response :: "string \<Rightarrow> agent_iteration" where
  "parse_response r =
     (let cj = extract_tag r ''tool_calls''; fr = extract_tag r ''findings'';
          nx = extract_tag r ''next_direction''
      in \<lparr>it_thought = extract_tag r ''thought'',
          it_calls = (if cj = [] then [] else
                        case loads cj of Inr (JList xs) \<Rightarrow> xs | _ \<Rightarrow> []),
          it_findings = (if fr = [] then [] else parse_notes (split_on (CHR 0x0A) (py_strip fr))),
          it_next = nx,
          it_done = (map upper_char (py_strip nx) = ''DONE'')\<rparr>)"

definition format_tool_result :: "'c rlm_env \<Rightarrow> tool_value option \<Rightarrow> string" where
  "format_tool_result E v =
     (case v of
        None \<Rightarrow> ''None''
      | Some r \<Rightarrow>
          (let s = value_text E (dumps_indent 0) r
           in if length s > 2000
              then take 2000 s @ nl @ ''... (truncated, '' @ nat_str (length s) @ '' chars total)''
              else s))"

text \<open>
  One tool call of the reply: it must be an object, its arguments too, and they may not name
  the parameters of \<^verbatim>\<open>invoke_safe\<close> itself; otherwise the exception leaves the iteration.
\<close>

definition execute_call :: "'c rlm_env \<Rightarrow> json \<Rightarrow> ('c rlm, executed_call) io" where
  "execute_call E tc s =
     (case tc of
        JObj d \<Rightarrow>
          (let name = dget d ''tool'' (JStr []) in
           case dget d ''args'' (JObj []) of
             JObj kw \<Rightarrow>
               if ''tool_name'' \<in> fst ` set kw \<or> ''self'' \<in> fst ` set kw
               then (Inl (Exn PyTypeError ''invoke_safe() got multiple values for argument''), s)
               else
                 (let ((v, err), s') = invoke_safe E name kw s
                  in (Inr \<lparr>ec_tool = name, ec_args = kw,
                          ec_result = (if truthy err then ''Error: '' @ the err
                                       else format_tool_result E v),
                          ec_success = (err = None)\<rparr>, s'))
           | _ \<Rightarrow> (Inl (Exn PyTypeError ''argument after ** must be a mapping''), s))
      | _ \<Rightarrow> (Inl (Exn PyAttributeError ''object has no attribute get''), s))"

definition on_rlm :: "('c rlm, 'a) io \<Rightarrow> ('c exploration, 'a) io" where
  "on_rlm m s = (fst (m (ex_rlm s)), s\<lparr>ex_rlm := snd (m (ex_rlm s))\<rparr>)"

definition run_iteration ::
  "'c explorer \<Rightarrow> string \<Rightarrow> string \<Rightarrow> ('c exploration, agent_iteration \<times> executed_call list) io" where
  "run_iteration A query context s =
     (let s1 = s\<lparr>agent_iterations := Suc (agent_iterations s)\<rparr> in
      case build_user_message query context (xp_steps s1) (xp_notes s1) of
        Inl e \<Rightarrow> (Inl e, s1)
      | Inr user \<Rightarrow>
          bindE (call_llm A (build_system_prompt (tools A)) user) (\<lambda>r.
          bindE (on_rlm (collect (it_calls (parse_response r)) (execute_call (tools A)))) (\<lambda>cs.
          ret (parse_response r, cs))) s1)"

section \<open>The orchestrator (\<^verbatim>\<open>orchestrator.py\<close>)\<close>

definition build_initial_context :: "string list \<Rightarrow> string" where
  "build_initial_context hints =
     (if hints = [] then []
      else ''Context hints:'' @ nl @ py_join nl (map (\<lambda>h. ''- '' @ h) hints))"

text \<open>\<^verbatim>\<open>start + 10\<close> is computed whether or not it is needed.\<close>

definition extract_citation :: "'c rlm_env \<Rightarrow> executed_call \<Rightarrow> exn + citation option" where
  "extract_citation E c =
     (if ec_tool c = JStr ''read_file'' \<and> json_truthy (dget (ec_args c) ''file_path'' JNull) then
        (let a = dget (ec_args c) ''start_line'' (JInt 1) in
         case as_number a of
           Inl e \<Rightarrow> Inl e
         | Inr n \<Rightarrow>
             Inr (Some (citation_from_content E (dget (ec_args c) ''file_path'' JNull) a
                          (dget (ec_args c) ''end_line'' (JInt (n + 10))) (take 500 (ec_result c)))))
      else Inr None)"

fun extract_citations ::
  "'c rlm_env \<Rightarrow> executed_call list \<Rightarrow> 'c exploration \<Rightarrow> (exn + unit) \<times> 'c exploration" where
  "extract_citations E [] s = (Inr (), s)"
| "extract_citations E (c # cs) s =
     (case extract_citation E c of
        Inl e \<Rightarrow> (Inl e, s)
      | Inr None \<Rightarrow> extract_citations E cs s
      | Inr (Some x) \<Rightarrow> extract_citations E cs (s\<lparr>xp_citations := xp_citations s @ [x]\<rparr>))"

definition to_exploration_step ::
  "int \<Rightarrow> nat \<Rightarrow> nat \<Rightarrow> agent_iteration \<Rightarrow> executed_call list \<Rightarrow> exploration_step" where
  "to_exploration_step now i subcalls it cs =
     \<lparr>st_iteration = i, st_thought = it_thought it,
      st_tool_calls = map (\<lambda>c. \<lparr>tc_tool = ec_tool c, tc_args = ec_args c, tc_result = ec_result c,
                              tc_at = now\<rparr>) cs,
      st_findings = it_findings it, st_next = it_next it, st_subcalls = subcalls\<rparr>"

definition add_note :: "string \<Rightarrow> string list \<Rightarrow> string list" where
  "add_note f acc = (if f \<in> set acc then acc else acc @ [f])"

definition sleep_or_timeout :: "'c explorer \<Rightarrow> ('c exploration, unit) io" where
  "sleep_or_timeout A s =
     (let w = sleep_ms (tools A) 100 (outside (ex_rlm s));
          s' = s\<lparr>ex_rlm := (ex_rlm s)\<lparr>outside := w\<rparr>\<rparr>
      in if timer_fired (tools A) w then (Inl (Exn PyTimeoutError []), s') else (Inr (), s'))"

text \<open>What one iteration records once the agent has returned.\<close>

definition record_iteration ::
  "'c explorer \<Rightarrow> nat \<Rightarrow> agent_iteration \<Rightarrow> executed_call list \<Rightarrow> ('c exploration, unit) io" where
  "record_iteration A i it cs s =
     (let n = length (filter (\<lambda>c. ec_tool c = JStr ''llm_query'') cs);
          now = clock_of (tools A) (outside (ex_rlm s));
          s1 = s\<lparr>xp_steps := xp_steps s @ [to_exploration_step now i n it cs],
                xp_notes := fold add_note (it_findings it) (xp_notes s)\<rparr>
      in case extract_citations (tools A) cs s1 of
           (Inl e, s2) \<Rightarrow> (Inl e, s2)
         | (Inr _, s2) \<Rightarrow>
             (Inr (), s2\<lparr>ex_rlm := (ex_rlm s2)\<lparr>rl_budget := reset_iteration now (rl_budget (ex_rlm s2))\<rparr>\<rparr>))"

definition budget_exhausted :: exn where
  "budget_exhausted = Exn BudgetExceededError ''Sub-call budget exhausted''"

fun exploration_loop ::
  "'c explorer \<Rightarrow> string \<Rightarrow> string \<Rightarrow> nat list \<Rightarrow> ('c exploration, string) io" where
  "exploration_loop A query context [] s = (Inr ''Max iterations reached'', s)"
| "exploration_loop A query context (i # is) s =
     (if \<not> can_make_call 1 (rl_budget (ex_rlm s)) then (Inl budget_exhausted, s)
      else bindE (run_iteration A query context) (\<lambda>(it, cs).
           thenE (record_iteration A i it cs)
             (if it_done it then ret (it_next it)
              else thenE (sleep_or_timeout A) (exploration_loop A query context is))) s)"

definition synthesize_findings :: "string list \<Rightarrow> string \<Rightarrow> string" where
  "synthesize_findings notes msg =
     (if notes = [] then msg
      else py_join nl ([''## Summary'', msg, [], ''## Findings'']
             @ map (\<lambda>(i, f). nat_str i @ ''. '' @ f) (enumerate 1 notes)))"

definition build_usage :: "'c exploration \<Rightarrow> rlm_usage" where
  "build_usage s =
     \<lparr>us_subcalls = total_used (rl_budget (ex_rlm s)),
      us_cached = cs_hits (cache_stats (rl_cache (ex_rlm s))),
      us_tokens = agent_tokens s, us_model_calls = agent_iterations s,
      us_limit = max_total (rl_budget (ex_rlm s)), us_remaining = remaining (rl_budget (ex_rlm s))\<rparr>"

definition start_exploration :: "'c exploration \<Rightarrow> 'c exploration" where
  "start_exploration s =
     s\<lparr>exploration_count := Suc (exploration_count s), xp_steps := [], xp_notes := [],
       xp_findings := [], xp_citations := []\<rparr>"

definition trajectory_of ::
  "'c explorer \<Rightarrow> string \<Rightarrow> string list \<Rightarrow> int \<Rightarrow> nat \<Rightarrow> 'c exploration \<Rightarrow> trajectory" where
  "trajectory_of A query hints begun hits s =
     \<lparr>tr_steps = xp_steps s, tr_start = begun, tr_end = Some (clock_of (tools A) (outside (ex_rlm s))),
      tr_subcalls = total_used (rl_budget (ex_rlm s)), tr_cached_hits = hits,
      tr_query = query, tr_hints = hints\<rparr>"

text \<open>
  \<^verbatim>\<open>explore\<close>: the loop and the three handlers of its \<^verbatim>\<open>try\<close>, in their order.  None of them raises,
  so that a later handler never sees what an earlier one did.  The trajectory of an interrupted
  exploration keeps the initial count of cached hits.
\<close>

definition explore ::
  "'c explorer \<Rightarrow> string \<Rightarrow> string list \<Rightarrow> string option \<Rightarrow> ('c exploration, rlm_result) io"
where
  "explore A query hints task s =
     (let tid = or_else task (new_task_id A (outside (ex_rlm s)));
          tr = trajectory_of A query hints (clock_of (tools A) (outside (ex_rlm s)));
          failed = (\<lambda>err s'. ret (rlm_failure tid err (tr 0 s') (build_usage s')) s')
      in try_except (try_except (try_except
           (bindE (exploration_loop A query (build_initial_context hints) [0..<nat (max_iterations A)])
             (\<lambda>msg s'. ret
               \<lparr>rr_task_id = tid, rr_success = True, rr_findings = xp_findings s',
                rr_synthesis = synthesize_findings (xp_notes s') msg,
                rr_trajectory = tr (cs_hits (cache_stats (rl_cache (ex_rlm s')))) s',
                rr_usage = build_usage s', rr_citations = xp_citations s', rr_error = None\<rparr> s'))
           (\<lambda>cl. isinstance_exn cl PyTimeoutError)
           (\<lambda>e. failed (''Exploration timed out after '' @ int_str (timeout_seconds A) @ ''s'')))
           (\<lambda>cl. isinstance_exn cl BudgetExceededError)
           (\<lambda>e s'.
              if xp_findings s' \<noteq> [] then
                ret \<lparr>rr_task_id = tid, rr_success = True, rr_findings = xp_findings s',
                     rr_synthesis = synthesize_findings (xp_notes s')
                       ''Exploration ended due to budget limits. Partial results below.'',
                     rr_trajectory = tr 0 s', rr_usage = build_usage s', rr_citations = xp_citations s',
                     rr_error = Some ''Budget exhausted - partial results''\<rparr> s'
              else failed (''Budget exhausted: '' @ message_of e) s'))
           any_exception (\<lambda>e. failed (message_of e)) (start_exploration s))"

section \<open>What an exploration may spend\<close>

lemma preserves_collect:
  assumes "reflp R" "transp R" "\<And>x. preserves R (body x)"
  shows "preserves R (collect xs body)"
  by (induction xs) (auto intro!: preserves_bindE preserves_pure assms)

lemma execute_call_paid: "counts_requests E n \<Longrightarrow> preserves (paid n) (execute_call E tc)"
proof (rule preservesI)
  fix s :: "'a rlm"
  assume c: "counts_requests E n"
  have "paid n s s'" if "invoke_safe E name kw s = ((v, err), s')" for name kw v err s'
    using invoke_safe_paid [OF c, of s name kw] that by simp
  then show "paid n s (snd (execute_call E tc s))"
    by (auto simp: execute_call_def paid_same Let_def split: json.splits prod.splits)
qed

text \<open>
  From one state to a later one: at most \<open>i\<close> further turns of the agent and \<open>j\<close> further
  steps, and no more requests than turns and sub-calls together.
\<close>

definition progress :: "('c \<Rightarrow> int) \<Rightarrow> nat \<Rightarrow> nat \<Rightarrow> 'c exploration \<Rightarrow> 'c exploration \<Rightarrow> bool" where
  "progress n i j s s' \<longleftrightarrow>
     (budget_ok (rl_budget (ex_rlm s)) \<longrightarrow> budget_ok (rl_budget (ex_rlm s')))
     \<and> max_total (rl_budget (ex_rlm s')) = max_total (rl_budget (ex_rlm s))
     \<and> agent_iterations s \<le> agent_iterations s' \<and> agent_iterations s' \<le> agent_iterations s + i
     \<and> length (xp_steps s') \<le> length (xp_steps s) + j
     \<and> n (outside (ex_rlm s')) - n (outside (ex_rlm s)) \<le>
         (total_used (rl_budget (ex_rlm s')) - total_used (rl_budget (ex_rlm s)))
         + (int (agent_iterations s') - int (agent_iterations s))"

lemma progress_trans:
  "progress n i j s s' \<Longrightarrow> progress n k l s' s'' \<Longrightarrow> progress n (i + k) (j + l) s s''"
  by (auto simp: progress_def)

lemma progress_mono: "progress n i j s s' \<Longrightarrow> i \<le> i' \<Longrightarrow> j \<le> j' \<Longrightarrow> progress n i' j' s s'"
  by (auto simp: progress_def)

lemma progress_bindE:
  assumes "\<And>s. progress n i j s (snd (m s))" "\<And>x s. progress n k l s (snd (f x s))"
  shows "progress n (i + k) (j + l) s (snd (bindE m f s))"
  using assms(1) [of s] progress_trans [OF assms(1) assms(2)]
  by (auto simp: bindE_def split: sum.splits elim: progress_mono)

lemma progress_thenE:
  assumes "\<And>s. progress n i j s (snd (m s))" "\<And>s. progress n k l s (snd (f s))"
  shows "progress n (i + k) (j + l) s (snd (thenE m f s))"
  unfolding thenE_def by (rule progress_bindE) (rule assms)+

lemma progress_ret: "progress n 0 0 s (snd (ret x s))"
  by (simp add: progress_def)

lemma on_rlm_progress:
  assumes "preserves (paid n) m"
  shows "progress n 0 0 s (snd (on_rlm m s))"
  using preservesD [OF assms, of "ex_rlm s"]
  by (auto simp: on_rlm_def progress_def paid_def)

lemma call_llm_same [simp]:
  "agent_iterations (snd (call_llm A x y s)) = agent_iterations s"
  "xp_steps (snd (call_llm A x y s)) = xp_steps s"
  "xp_findings (snd (call_llm A x y s)) = xp_findings s"
  "rl_budget (ex_rlm (snd (call_llm A x y s))) = rl_budget (ex_rlm s)"
  by (auto simp: call_llm_def split: prod.splits sum.splits)

lemma call_llm_counts:
  "counts_requests (tools A) n \<Longrightarrow>
     n (outside (ex_rlm (snd (call_llm A x y s)))) = n (outside (ex_rlm s)) + 1"
  by (auto simp: call_llm_def counts_requests_def split: prod.splits sum.splits) (metis snd_conv)+

lemma run_iteration_progress:
  assumes "counts_requests (tools A) n"
  shows "progress n 1 0 s (snd (run_iteration A query context s))"
proof -
  define s1 where "s1 = s\<lparr>agent_iterations := Suc (agent_iterations s)\<rparr>"
  define calls where "calls r = on_rlm (collect (it_calls (parse_response r)) (execute_call (tools A)))"
    for r
  have tools_run: "progress n 0 0 s (snd (calls r s))" for r s
    unfolding calls_def
    by (intro on_rlm_progress preserves_collect execute_call_paid assms paid_refl paid_trans)
  have rest: "progress n 0 0 s (snd (bindE (calls r) (\<lambda>cs. ret (parse_response r, cs)) s))" for r s
    using progress_bindE [of n 0 0 "calls r" 0 0, OF tools_run progress_ret] by simp
  have asked: "progress n 1 0 s (snd (call_llm A x y s1))" for x y
    by (simp add: progress_def s1_def call_llm_counts [OF assms])
  have "progress n 1 0 s (snd (bindE (call_llm A x y) (\<lambda>r. bindE (calls r)
      (\<lambda>cs. ret (parse_response r, cs))) s1))" for x y
    using asked [of x y] progress_trans [OF asked rest]
    by (auto simp: bindE_def split: sum.splits)
  moreover have "progress n 1 0 s s1" by (simp add: progress_def s1_def)
  ultimately show ?thesis
    by (auto simp: run_iteration_def s1_def calls_def Let_def split: sum.splits)
qed

lemma extract_citations_same [simp]:
  "ex_rlm (snd (extract_citations E cs s)) = ex_rlm s"
  "agent_iterations (snd (extract_citations E cs s)) = agent_iterations s"
  "xp_steps (snd (extract_citations E cs s)) = xp_steps s"
  "xp_findings (snd (extract_citations E cs s)) = xp_findings s"
  by (induction E cs s rule: extract_citations.induct) (auto split: sum.splits option.splits)

lemma record_iteration_progress: "progress n 0 1 s (snd (record_iteration A i it cs s))"
proof -
  have "progress n 0 1 s s2
      \<and> progress n 0 1 s (s2\<lparr>ex_rlm := (ex_rlm s2)\<lparr>rl_budget := reset_iteration now (rl_budget (ex_rlm s2))\<rparr>\<rparr>)"
    if "extract_citations (tools A) cs (s\<lparr>xp_steps := xp_steps s @ [st], xp_notes := ns\<rparr>) = (r, s2)"
    for st ns r s2 now
  proof -
    let ?s1 = "s\<lparr>xp_steps := xp_steps s @ [st], xp_notes := ns\<rparr>"
    have "ex_rlm s2 = ex_rlm s" "agent_iterations s2 = agent_iterations s" "xp_steps s2 = xp_steps s @ [st]"
      using extract_citations_same [of "tools A" cs ?s1] that by simp_all
    then show ?thesis by (simp add: progress_def reset_iteration_ok)
  qed
  then show ?thesis
    by (auto simp: record_iteration_def Let_def split: prod.splits sum.splits)
qed

lemma sleep_or_timeout_progress:
  "counts_requests (tools A) n \<Longrightarrow> progress n 0 0 s (snd (sleep_or_timeout A s))"
  by (simp add: sleep_or_timeout_def progress_def counts_requests_def Let_def)

lemma exploration_loop_progress:
  assumes "counts_requests (tools A) n"
  shows "progress n (length is) (length is) s (snd (exploration_loop A query context is s))"
proof (induction "is" arbitrary: s)
  case Nil
  then show ?case by (simp add: progress_def)
next
  case (Cons i "is")
  let ?k = "length is"
  define rest where "rest (it :: agent_iteration) = (if it_done it then ret (it_next it)
      else thenE (sleep_or_timeout A) (exploration_loop A query context is))" for it
  have tail: "progress n ?k ?k s (snd (rest it s))" for it s
    using progress_thenE [of n 0 0 "sleep_or_timeout A" ?k ?k "exploration_loop A query context is" s,
        OF sleep_or_timeout_progress [OF assms] Cons.IH]
      progress_mono [OF progress_ret [of n s "it_next it"], of ?k ?k]
    by (simp add: rest_def)
  have "progress n ?k (1 + ?k) s (snd (thenE (record_iteration A i it cs) (rest it) s))" for it cs s
    using progress_thenE [of n 0 1 "record_iteration A i it cs" ?k ?k "rest it" s,
        OF record_iteration_progress tail]
    by simp
  then have "progress n (1 + ?k) (0 + (1 + ?k)) s (snd (bindE (run_iteration A query context)
      (\<lambda>(it, cs). thenE (record_iteration A i it cs) (rest it)) s))"
    by (intro progress_bindE run_iteration_progress [OF assms]) (auto split: prod.splits)
  then show ?case
    by (simp add: rest_def [abs_def] progress_def)
qed

section \<open>Findings and citations\<close>

definition same_findings :: "'c exploration \<Rightarrow> 'c exploration \<Rightarrow> bool" where
  "same_findings s s' \<longleftrightarrow> xp_findings s' = xp_findings s"

lemma same_findings_order: "reflp same_findings" "transp same_findings"
  by (simp_all add: same_findings_def reflp_def transp_def)

lemma on_rlm_findings: "preserves same_findings (on_rlm m)"
  by (simp add: preserves_def same_findings_def on_rlm_def)

lemma run_iteration_findings: "preserves same_findings (run_iteration A query context)"
proof (rule preservesI)
  fix s :: "'a exploration"
  let ?ask = "\<lambda>u. bindE (call_llm A (build_system_prompt (tools A)) u) (\<lambda>r.
      bindE (on_rlm (collect (it_calls (parse_response r)) (execute_call (tools A)))) (\<lambda>cs.
      ret (parse_response r, cs)))"
  have "preserves same_findings (call_llm A x u)" for x u
    by (simp add: preserves_def same_findings_def)
  then have "preserves same_findings (?ask u)" for u
    by (intro preserves_bindE same_findings_order on_rlm_findings preserves_pure)
  from preservesD [OF this] show "same_findings s (snd (run_iteration A query context s))"
    by (simp add: run_iteration_def Let_def same_findings_def split: sum.splits)
qed

lemma record_iteration_findings: "preserves same_findings (record_iteration A i it cs)"
proof (rule preservesI)
  fix s :: "'a exploration"
  have "xp_findings s2 = xp_findings s"
    if "extract_citations (tools A) cs (s\<lparr>xp_steps := st, xp_notes := ns\<rparr>) = (r, s2)" for st ns r s2
    using extract_citations_same(4) [of "tools A" cs "s\<lparr>xp_steps := st, xp_notes := ns\<rparr>"] that by simp
  then show "same_findings s (snd (record_iteration A i it cs s))"
    by (auto simp: record_iteration_def same_findings_def Let_def split: prod.splits sum.splits)
qed

lemma exploration_loop_findings: "xp_findings (snd (exploration_loop A query context is s)) = xp_findings s"
proof -
  have "preserves same_findings (exploration_loop A query context is)"
  proof (induction "is")
    case Nil
    then show ?case by (simp add: preserves_def same_findings_def)
  next
    case (Cons i "is")
    have sleep: "preserves same_findings (sleep_or_timeout A)"
      by (simp add: preserves_def same_findings_def sleep_or_timeout_def Let_def)
    have "preserves same_findings (bindE (run_iteration A query context) (\<lambda>(it, cs).
        thenE (record_iteration A i it cs)
          (if it_done it then ret (it_next it)
           else thenE (sleep_or_timeout A) (exploration_loop A query context is))))"
      by (auto intro!: preserves_bindE preserves_thenE same_findings_order preserves_pure
          run_iteration_findings record_iteration_findings sleep Cons.IH)
    from preservesD [OF this] show ?case
      by (auto simp: preserves_def same_findings_def)
  qed
  from preservesD [OF this] show ?thesis by (simp add: same_findings_def)
qed

lemma file_path_is_refused:
  assumes "''file_path'' \<in> fst ` set kw"
  shows "\<exists>m. fst (invoke_safe E (JStr ''read_file'') kw s) = (None, Some m)"
proof -
  have "filter (\<lambda>p. fst p \<notin> set [''path'', ''start_line'', ''end_line'', ''max_size_bytes'']) kw \<noteq> []"
    using assms by (force simp: filter_empty_conv)
  then obtain q qs where q: "filter (\<lambda>p. fst p \<notin> set [''path'', ''start_line'', ''end_line'', ''max_size_bytes'']) kw = q # qs"
    by (cases "filter (\<lambda>p. fst p \<notin> set [''path'', ''start_line'', ''end_line'', ''max_size_bytes'']) kw") auto
  have "\<exists>e. run_tool E ''read_file'' kw s = (Inl e, s)"
    unfolding run_tool_def bind_args_def q by simp
  then show ?thesis
    by (auto simp: invoke_safe_def invoke_tool_def Let_def split: prod.splits sum.splits)
qed

section \<open>Properties\<close>

text \<open>What the loop's outcome becomes; the findings are still those the exploration started with, none.\<close>

definition explore_error :: "'c explorer \<Rightarrow> exn \<Rightarrow> string" where
  "explore_error A e =
     (if isinstance_exn (class_of e) PyTimeoutError
      then ''Exploration timed out after '' @ int_str (timeout_seconds A) @ ''s''
      else if isinstance_exn (class_of e) BudgetExceededError then ''Budget exhausted: '' @ message_of e
      else message_of e)"

lemma explore_outcome:
  assumes "exploration_loop A query (build_initial_context hints) [0..<nat (max_iterations A)]
      (start_exploration s) = (l, s')"
  shows "\<exists>r. explore A query hints task s = (Inr r, s')
    \<and> (case l of Inr msg \<Rightarrow> rr_success r \<and> rr_error r = None \<and> rr_synthesis r = synthesize_findings (xp_notes s') msg
       | Inl e \<Rightarrow> \<not> rr_success r \<and> rr_error r = Some (explore_error A e) \<and> rr_synthesis r = [] \<and> rr_citations r = [])
    \<and> rr_findings r = [] \<and> tr_steps (rr_trajectory r) = xp_steps s' \<and> rr_usage r = build_usage s'"
proof -
  have "xp_findings s' = []"
    using exploration_loop_findings [of A query "build_initial_context hints"
        "[0..<nat (max_iterations A)]" "start_exploration s"] assms
    by (simp add: start_exploration_def)
  then show ?thesis
    by (cases l)
      (simp_all add: explore_def explore_error_def bindE_def try_except_def ret_def assms Let_def
        rlm_failure_def trajectory_of_def any_exception_True)
qed

text \<open>C18: An exploration never raises, neither the timeout nor the exhausted budget that its
  documentation says are raised: it always returns a result.  The result is a success, without an
  error, exactly when the loop ended with the agent's word or its last iteration; the timer, an
  exhausted budget and every other exception become a failed result that names them, without
  synthesis and findings.  In any case it takes at most the configured number of steps, stays within
  the budget of sub-calls, and sends the model at most one request per step besides the sub-calls it
  paid for, whatever the model answers and the tools do.\<close>

theorem exploration_is_bounded:
  fixes A :: "'c explorer" and query :: string and hints :: "string list"
  assumes "counts_requests (tools A) n" "budget_ok (rl_budget (ex_rlm s))"
  defines "l \<equiv> fst (exploration_loop A query (build_initial_context hints) [0..<nat (max_iterations A)]
      (start_exploration s))"
  shows "\<exists>r s'. explore A query hints task s = (Inr r, s')
      \<and> rr_success r = (\<exists>msg. l = Inr msg)
      \<and> rr_error r = (case l of Inl e \<Rightarrow> Some (explore_error A e) | Inr msg \<Rightarrow> None)
      \<and> (rr_success r \<or> rr_synthesis r = []) \<and> rr_findings r = []
      \<and> length (tr_steps (rr_trajectory r)) \<le> nat (max_iterations A)
      \<and> budget_ok (rl_budget (ex_rlm s')) \<and> us_subcalls (rr_usage r) \<le> us_limit (rr_usage r)
      \<and> us_limit (rr_usage r) = max_total (rl_budget (ex_rlm s))
      \<and> us_model_calls (rr_usage r) \<le> agent_iterations s + nat (max_iterations A)
      \<and> n (outside (ex_rlm s')) - n (outside (ex_rlm s))
          \<le> remaining (rl_budget (ex_rlm s)) + int (nat (max_iterations A))"
proof -
  let ?is = "[0..<nat (max_iterations A)]"
  obtain s' where loop: "exploration_loop A query (build_initial_context hints) ?is (start_exploration s) = (l, s')"
    unfolding l_def by (metis prod.collapse)
  from explore_outcome [OF this, of task] obtain r where r: "explore A query hints task s = (Inr r, s')"
    "case l of Inr msg \<Rightarrow> rr_success r \<and> rr_error r = None \<and> rr_synthesis r = synthesize_findings (xp_notes s') msg
     | Inl e \<Rightarrow> \<not> rr_success r \<and> rr_error r = Some (explore_error A e) \<and> rr_synthesis r = [] \<and> rr_citations r = []"
    "rr_findings r = []" "tr_steps (rr_trajectory r) = xp_steps s'" "rr_usage r = build_usage s'" by blast
  have "progress n (nat (max_iterations A)) (nat (max_iterations A)) (start_exploration s) s'"
    using exploration_loop_progress [OF assms(1), of ?is "start_exploration s" query
        "build_initial_context hints"] loop by simp
  with assms(2) r show ?thesis
    by (intro exI [of _ r] exI [of _ s'])
      (auto simp: progress_def start_exploration_def build_usage_def remaining_def
        split: sum.splits dest: sub_calls.within)
qed

text \<open>What the agent notes is never made into findings, so every result has an empty list of
  findings, the branch that returns partial results is dead, and an exploration that runs out
  of budget is a failure without synthesis and citations whatever it had noted.\<close>

theorem exhaustion_discards_notes:
  assumes "fst (exploration_loop A query (build_initial_context hints) [0..<nat (max_iterations A)]
      (start_exploration s)) = Inl budget_exhausted"
  shows "\<exists>r. fst (explore A query hints task s) = Inr r \<and> \<not> rr_success r \<and> rr_findings r = []
    \<and> rr_synthesis r = [] \<and> rr_citations r = []
    \<and> rr_error r = Some ''Budget exhausted: Sub-call budget exhausted''"
proof -
  obtain s' where l: "exploration_loop A query (build_initial_context hints) [0..<nat (max_iterations A)]
      (start_exploration s) = (Inl budget_exhausted, s')"
    using assms by (metis prod.collapse)
  have "\<not> isinstance_exn BudgetExceededError PyTimeoutError"
    "isinstance_exn BudgetExceededError BudgetExceededError"
    by code_simp+
  then have "explore_error A budget_exhausted = ''Budget exhausted: Sub-call budget exhausted''"
    by (simp add: explore_error_def budget_exhausted_def)
  then show ?thesis using explore_outcome [OF l, of task] by auto
qed

text \<open>A citation is only taken from a call whose argument is named \<^verbatim>\<open>file_path\<close>, which is not
  a parameter of the reading tool: the call it comes from has failed, and what it cites is
  the text of the error.\<close>

theorem citations_come_from_failed_reads:
  assumes "execute_call E tc s = (Inr c, s')" "extract_citation E c = Inr (Some x)"
  shows "ec_tool c = JStr ''read_file'' \<and> \<not> ec_success c
    \<and> ci_hash x = sha256 E (take 500 (ec_result c))"
proof -
  from assms(2) have read: "ec_tool c = JStr ''read_file''"
    and path: "json_truthy (dget (ec_args c) ''file_path'' JNull)"
    and hash: "ci_hash x = sha256 E (take 500 (ec_result c))"
    by (auto simp: extract_citation_def citation_from_content_def Let_def split: if_splits sum.splits)
  from path have "''file_path'' \<in> fst ` set (ec_args c)"
    by (auto simp: dget_def split: option.splits dest: map_of_SomeD intro: rev_image_eqI)
  moreover from assms(1) obtain v err where "invoke_safe E (ec_tool c) (ec_args c) s = ((v, err), s')"
    "ec_success c = (err = None)"
    by (auto simp: execute_call_def Let_def split: json.splits if_splits prod.splits)
  ultimately show ?thesis
    using file_path_is_refused [of "ec_args c" E s] read hash by auto
qed

text \<open>The trigger fires exactly when one of its five conditions holds, reports the first of
  them in the order of its checks, and is certain as soon as two hold.\<close>

theorem trigger_decides:
  "should_trigger (check_trigger D tokens query files fails explicit agent) =
     (explicit \<or> context_threshold D < tokens \<or> multi_file_threshold D < files
      \<or> (py_lower agent = ''debugger'' \<and> fail_count_threshold D < fails) \<or> is_complex_query D query)
   \<and> trigger_reason (check_trigger D tokens query files fails explicit agent) =
     (if explicit then EXPLICIT_REQUEST
      else if context_threshold D < tokens then LARGE_CONTEXT
      else if multi_file_threshold D < files then MULTI_FILE_DEPENDENCY
      else if py_lower agent = ''debugger'' \<and> fail_count_threshold D < fails then DEBUGGER_FAIL_COUNT
      else if is_complex_query D query then COMPLEX_QUERY else NO_REASON)
   \<and> confidence_tenths (check_trigger D tokens query files fails explicit agent) =
     [0, 7, 10, 10, 10, 10] ! length (all_reasons (check_trigger D tokens query files fails explicit agent))"
  by (cases explicit; cases "context_threshold D < tokens"; cases "multi_file_threshold D < files";
      cases "py_lower agent = ''debugger'' \<and> fail_count_threshold D < fails"; cases "is_complex_query D query")
    (simp_all add: check_trigger_def trigger_checks_def Let_def)

text \<open>A model that always replies with a note and one query, over a budget of one sub-call.\<close>

definition demo_reply :: string where
  "demo_reply =
     ''<tool_calls>[{\"tool\": \"llm_query\", \"args\": {\"prompt\": \"p\"}}]</tool_calls>''
     @ ''<findings>- note</findings>''"

definition demo_explorer :: "int explorer" where
  "demo_explorer =
     \<lparr>tools = demo_rlm_env\<lparr>llm_create := (\<lambda>r w. (Inr \<lparr>resp_blocks = [Some demo_reply], resp_usage = None\<rparr>, w + 1))\<rparr>,
      agent_model = ''a'', agent_max_tokens = 9, max_iterations = 3, timeout_seconds = 300,
      new_task_id = (\<lambda>w. ''t'')\<rparr>"

definition demo_exploration :: "int exploration" where
  "demo_exploration =
     \<lparr>ex_rlm = demo_rlm\<lparr>rl_budget := (rl_budget demo_rlm)\<lparr>max_total := 1\<rparr>\<rparr>,
      agent_iterations = 0, agent_tokens = 0, exploration_count = 0, xp_steps = [], xp_notes = [],
      xp_findings = [], xp_citations = []\<rparr>"

lemma demo_explorer_counts: "counts_requests (tools demo_explorer) id"
  by (simp add: counts_requests_def demo_explorer_def demo_rlm_env_def)

lemma demo_exploration_budget: "budget_ok (rl_budget (ex_rlm demo_exploration))"
  by (simp add: demo_exploration_def demo_rlm_def budget_ok_def)

lemma demo_reply_parsed:
  "parse_response demo_reply =
     \<lparr>it_thought = [], it_calls = [JObj [(''tool'', JStr ''llm_query''), (''args'', JObj [(''prompt'', JStr ''p'')])]],
      it_findings = [''note''], it_next = [], it_done = False\<rparr>"
  by code_simp

theorem exploration_is_bounded_witness:
  "\<exists>r s'. explore demo_explorer ''q'' [] None demo_exploration = (Inr r, s') \<and> outside (ex_rlm s') \<le> 4
     \<and> us_subcalls (rr_usage r) \<le> 1"
proof -
  have "remaining (rl_budget (ex_rlm demo_exploration)) = 1" "outside (ex_rlm demo_exploration) = 0"
    "max_total (rl_budget (ex_rlm demo_exploration)) = 1" "nat (max_iterations demo_explorer) = 3"
    by (simp_all add: demo_exploration_def demo_rlm_def remaining_def demo_explorer_def)
  with exploration_is_bounded [OF demo_explorer_counts demo_exploration_budget,
      of "''q''" "[]" None]
  show ?thesis by auto
qed

lemma demo_loop:
  "exploration_loop demo_explorer ''q'' [] [0..<3] (start_exploration demo_exploration) =
     (Inl budget_exhausted,
      snd (exploration_loop demo_explorer ''q'' [] [0..<3] (start_exploration demo_exploration)))
   \<and> xp_notes (snd (exploration_loop demo_explorer ''q'' [] [0..<3] (start_exploration demo_exploration)))
       = [''note'']"
  by (simp add: upt_conv_Cons run_iteration_def call_llm_def build_user_message_def bindE_def thenE_def
      demo_explorer_def demo_exploration_def demo_rlm_def demo_rlm_env_def start_exploration_def
      response_text_def response_tokens_def demo_reply_parsed on_rlm_def execute_call_def invoke_safe_def
      invoke_tool_def run_tool_def registry_names_def is_tool_allowed_def bind_args_def dget_def
      llm_query_def can_make_call_def cache_get_def new_cache_def record_call_def make_api_call_def
      record_iteration_def sleep_or_timeout_def extract_citation_def reset_iteration_def
      budget_exhausted_def ret_def Let_def log_invocation_def add_note_def)

theorem exhaustion_discards_notes_witness:
  "\<exists>r s'. explore demo_explorer ''q'' [] None demo_exploration = (Inr r, s') \<and> xp_notes s' = [''note'']
     \<and> rr_synthesis r = []"
proof -
  have three: "nat (max_iterations demo_explorer) = 3" and none: "build_initial_context [] = []"
    by (simp_all add: demo_explorer_def build_initial_context_def)
  from demo_loop obtain s' where l: "exploration_loop demo_explorer ''q'' (build_initial_context [])
      [0..<nat (max_iterations demo_explorer)] (start_exploration demo_exploration) = (Inl budget_exhausted, s')"
    and noted: "xp_notes s' = [''note'']"
    unfolding three none by (metis prod.collapse)
  from l have "fst (exploration_loop demo_explorer ''q'' (build_initial_context [])
      [0..<nat (max_iterations demo_explorer)] (start_exploration demo_exploration)) = Inl budget_exhausted" by simp
  from exhaustion_discards_notes [OF this, of None] explore_outcome [OF l, of None] noted
  show ?thesis by auto
qed

theorem citations_come_from_failed_reads_witness:
  "\<exists>c. fst (execute_call demo_rlm_env
        (JObj [(''tool'', JStr ''read_file''), (''args'', JObj [(''file_path'', JStr ''/r/a'')])]) demo_rlm) = Inr c
     \<and> \<not> ec_success c"
proof -
  let ?tc = "JObj [(''tool'', JStr ''read_file''), (''args'', JObj [(''file_path'', JStr ''/r/a'')])]"
  obtain v err t where "invoke_safe demo_rlm_env (JStr ''read_file'') [(''file_path'', JStr ''/r/a'')] demo_rlm
      = ((v, err), t)" by (metis surj_pair)
  then obtain c s' where c: "execute_call demo_rlm_env ?tc demo_rlm = (Inr c, s')"
    and args: "ec_tool c = JStr ''read_file''" "ec_args c = [(''file_path'', JStr ''/r/a'')]"
    by (simp add: execute_call_def dget_def)
  have "\<exists>x. extract_citation demo_rlm_env c = Inr (Some x)"
    by (simp add: extract_citation_def args dget_def as_number_def)
  then obtain x where x: "extract_citation demo_rlm_env c = Inr (Some x)" by blast
  from citations_come_from_failed_reads [OF c x] c show ?thesis by simp
qed

lemma is_infix_subset: "is_infix k s \<Longrightarrow> set k \<subseteq> set s"
proof (induction s)
  case (Cons c s)
  then show ?case
    using set_take_subset [of "length k" "c # s"] by (auto simp: starts_with_def)
qed simp

definition is_capital :: "char \<Rightarrow> bool" where
  "is_capital c \<longleftrightarrow> 65 \<le> code_point c \<and> code_point c \<le> 90"

lemma lower_not_capital: "\<not> is_capital (lower_char c)"
  by (cases "65 \<le> code_point c \<and> code_point c \<le> 90"; cases "192 \<le> code_point c \<and> code_point c \<le> 222 \<and> code_point c \<noteq> 215")
    (auto simp: is_capital_def lower_char_def code_point_def Let_def of_char_of)

text \<open>A configured keyword with a capital letter never matches, as only the query is
  lowered; and adding the keyword again changes nothing, as the list already holds it but for
  its case.\<close>

theorem capital_keyword_never_matches:
  assumes "complex_query_keywords D = Some (ks @ k # ks')" "list_ex is_capital k"
    and "\<not> list_ex (\<lambda>x. is_infix x (py_lower query)) (ks @ ks')"
  shows "\<not> is_complex_query D query \<and> add_complex_keyword (py_lower k) D = D"
proof
  have "\<not> is_infix k (py_lower query)"
  proof
    assume "is_infix k (py_lower query)"
    from is_infix_subset [OF this] assms(2) obtain c where "is_capital (lower_char c)"
      by (auto simp: list_ex_iff py_lower_def)
    with lower_not_capital show False by blast
  qed
  with assms show "\<not> is_complex_query D query"
    by (auto simp: is_complex_query_def keywords_of_def)
  have idem: "lower_char (lower_char c) = lower_char c" for c
  proof (cases "65 \<le> code_point c \<and> code_point c \<le> 90 \<or> 192 \<le> code_point c \<and> code_point c \<le> 222 \<and> code_point c \<noteq> 215")
    case True
    then have "code_point (lower_char c) = code_point c + 32"
      by (auto simp: lower_char_def code_point_def Let_def of_char_of)
    with True show ?thesis
      by (auto simp: lower_char_def [of "lower_char c"] Let_def)
  next
    case False
    then have "lower_char c = c" by (auto simp: lower_char_def Let_def)
    then show ?thesis by simp
  qed
  then have "py_lower (py_lower k) = py_lower k" by (simp add: py_lower_def)
  with assms(1) show "add_complex_keyword (py_lower k) D = D"
    by (simp add: add_complex_keyword_def keywords_of_def Let_def)
qed

theorem capital_keyword_never_matches_witness:
  "\<not> is_complex_query (new_detector 100000 4 10 (Some [''API''])) ''Trace the API''
   \<and> add_complex_keyword ''api'' (new_detector 100000 4 10 (Some [''API'']))
       = new_detector 100000 4 10 (Some [''API''])"
proof -
  have k: "complex_query_keywords (new_detector 100000 4 10 (Some [''API''])) = Some ([] @ ''API'' # [])"
    by (simp add: new_detector_def)
  have "list_ex is_capital ''API''" "py_lower ''API'' = ''api''" by code_simp+
  with capital_keyword_never_matches [OF k, of "''Trace the API''"] show ?thesis by simp
qed

end
