(* ===== verification/Review_Swarm.thy ===== *)
theory Review_Swarm
  imports Prelude Complex_Main
begin

text \<open>
  The aggregation of a review swarm (\<^verbatim>\<open>src/workers/swarm/models.py\<close> and \<^verbatim>\<open>aggregator.py\<close>):
  findings of several reviewers are compared, merged when they are duplicates, sorted by
  severity and counted.  The similarity of two titles is \<^verbatim>\<open>difflib.SequenceMatcher.ratio\<close>,
  written out here with its rule for popular characters.  Ratios, thresholds and confidences
  are rational numbers where the program has floats.
\<close>

section \<open>Similarity of texts\<close>

text \<open>The length of the common prefix of two texts whose characters satisfy a condition.\<close>

fun common_prefix :: "(char \<Rightarrow> bool) \<Rightarrow> string \<Rightarrow> string \<Rightarrow> nat" where
  "common_prefix P (x # xs) (y # ys) = (if x = y \<and> P x then Suc (common_prefix P xs ys) else 0)"
| "common_prefix P _ _ = 0"

definition longer_match ::
  "(char \<Rightarrow> bool) \<Rightarrow> string \<Rightarrow> string \<Rightarrow> nat \<times> nat \<Rightarrow> nat \<times> nat \<times> nat \<Rightarrow> nat \<times> nat \<times> nat" where
  "longer_match P a b p m =
     (let k = common_prefix P (drop (fst p) a) (drop (snd p) b)
      in if k > snd (snd m) then (fst p, snd p, k) else m)"

text \<open>The first longest block of characters that satisfy the condition.\<close>

definition first_longest :: "(char \<Rightarrow> bool) \<Rightarrow> string \<Rightarrow> string \<Rightarrow> nat \<times> nat \<times> nat" where
  "first_longest P a b =
     fold (longer_match P a b) (List.product [0..<length a] [0..<length b]) (0, 0, 0)"

text \<open>The block is then extended on both sides over any characters.\<close>

definition find_longest_match :: "(char \<Rightarrow> bool) \<Rightarrow> string \<Rightarrow> string \<Rightarrow> nat \<times> nat \<times> nat" where
  "find_longest_match P a b =
     (let (i, j, k) = first_longest P a b;
          back = common_prefix (\<lambda>_. True) (rev (take i a)) (rev (take j b));
          ext = common_prefix (\<lambda>_. True) (drop (i + k) a) (drop (j + k) b)
      in (i - back, j - back, back + k + ext))"

lemma common_prefix_le: "common_prefix P a b \<le> length a" "common_prefix P a b \<le> length b"
  by (induction P a b rule: common_prefix.induct) auto

lemma longer_match_fits:
  assumes "fst p \<le> length a" "snd p \<le> length b"
    and "fst m + snd (snd m) \<le> length a" "fst (snd m) + snd (snd m) \<le> length b"
  shows "fst (longer_match P a b p m) + snd (snd (longer_match P a b p m)) \<le> length a"
    "fst (snd (longer_match P a b p m)) + snd (snd (longer_match P a b p m)) \<le> length b"
  using assms common_prefix_le [of P "drop (fst p) a" "drop (snd p) b"]
  by (auto simp: longer_match_def Let_def)

lemma first_longest_fits:
  assumes "first_longest P a b = (i, j, k)"
  shows "i + k \<le> length a \<and> j + k \<le> length b"
proof -
  have "fst (fold (longer_match P a b) ps m) + snd (snd (fold (longer_match P a b) ps m)) \<le> length a
      \<and> fst (snd (fold (longer_match P a b) ps m)) + snd (snd (fold (longer_match P a b) ps m)) \<le> length b"
    if "\<forall>p \<in> set ps. fst p \<le> length a \<and> snd p \<le> length b"
      "fst m + snd (snd m) \<le> length a" "fst (snd m) + snd (snd m) \<le> length b" for ps m
    using that
  proof (induction ps arbitrary: m)
    case (Cons p ps)
    then show ?case
      using longer_match_fits [of p a b m P] by (simp del: fold_simps add: fold_simps(2))
  qed simp
  from this [of "List.product [0..<length a] [0..<length b]" "(0, 0, 0)"] show ?thesis
    using assms by (auto simp: first_longest_def)
qed

lemma find_longest_match_fits:
  assumes "find_longest_match P a b = (i, j, k)"
  shows "i + k \<le> length a" "j + k \<le> length b"
proof -
  obtain i0 j0 k0 where f: "first_longest P a b = (i0, j0, k0)" by (cases "first_longest P a b") auto
  note fits = first_longest_fits [OF f]
  show "i + k \<le> length a" "j + k \<le> length b"
    using assms f fits common_prefix_le [of "\<lambda>_. True" "rev (take i0 a)" "rev (take j0 b)"]
      common_prefix_le [of "\<lambda>_. True" "drop (i0 + k0) a" "drop (j0 + k0) b"]
    by (auto simp: find_longest_match_def Let_def)
qed

text \<open>The total size of the matching blocks.\<close>

function match_total :: "(char \<Rightarrow> bool) \<Rightarrow> string \<Rightarrow> string \<Rightarrow> nat" where
  "match_total P a b =
     (let m = find_longest_match P a b; i = fst m; j = fst (snd m); k = snd (snd m)
      in if k = 0 then 0
         else k + match_total P (take i a) (take j b)
                + match_total P (drop (i + k) a) (drop (j + k) b))"
  by pat_completeness auto

termination
proof (relation "measure (\<lambda>(P, a, b). length a)", simp)
  fix P a b m i j k
  assume m: "m = find_longest_match P a b" "i = fst m" "j = fst (snd m)" "k = snd (snd m)" "k \<noteq> 0"
  then have "i + k \<le> length a"
    by (intro find_longest_match_fits(1) [of P a b i j k]) simp
  with m(5) show "((P, take i a, take j b), (P, a, b)) \<in> measure (\<lambda>(P, a, b). length a)"
    "((P, drop (i + k) a, drop (j + k) b), (P, a, b)) \<in> measure (\<lambda>(P, a, b). length a)"
    by simp_all
qed

declare match_total.simps [simp del]

text \<open>From 200 characters on, a character of the second text that makes up more than about one
  per cent of it starts no block.\<close>

definition popular :: "string \<Rightarrow> char \<Rightarrow> bool" where
  "popular b c \<longleftrightarrow> 200 \<le> length b \<and> length b div 100 + 1 < count_list b c"

definition ratio :: "string \<Rightarrow> string \<Rightarrow> rat" where
  "ratio a b =
     (if length a + length b = 0 then 1
      else 2 * of_nat (match_total (\<lambda>c. \<not> popular b c) a b) / of_nat (length a + length b))"

definition text_similarity :: "string \<Rightarrow> string \<Rightarrow> rat" where
  "text_similarity a b = ratio (py_lower a) (py_lower b)"

lemma match_total_le: "match_total P a b \<le> length a \<and> match_total P a b \<le> length b"
proof (induction P a b rule: match_total.induct)
  case (1 P a b)
  obtain i j k where m: "find_longest_match P a b = (i, j, k)" by (cases "find_longest_match P a b") auto
  note fits = find_longest_match_fits [OF m]
  from 1 m have "k \<noteq> 0 \<Longrightarrow> match_total P (take i a) (take j b) \<le> i \<and> match_total P (take i a) (take j b) \<le> j"
    "k \<noteq> 0 \<Longrightarrow> match_total P (drop (i + k) a) (drop (j + k) b) \<le> length a - (i + k)
       \<and> match_total P (drop (i + k) a) (drop (j + k) b) \<le> length b - (j + k)"
    by auto
  with fits m show ?case by (subst (1 2) match_total.simps) (auto simp: Let_def)
qed

lemma common_prefix_same: "\<forall>c \<in> set s. P c \<Longrightarrow> common_prefix P s s = length s"
  by (induction s) auto

lemma find_longest_match_same:
  assumes "\<forall>c \<in> set s. P c" "s \<noteq> []"
  shows "find_longest_match P s s = (0, 0, length s)"
proof -
  let ?f = "longer_match P s s"
  have keep: "fold ?f ps (0, 0, length s) = (0, 0, length s)" for ps
  proof (induction ps)
    case (Cons p ps)
    have "common_prefix P (drop (fst p) s) (drop (snd p) s) \<le> length s"
      using common_prefix_le(1) [of P "drop (fst p) s" "drop (snd p) s"] by simp
    with Cons show ?case by (simp add: longer_match_def Let_def)
  qed simp
  obtain ps where "List.product [0..<length s] [0..<length s] = (0, 0) # ps"
    using assms(2) by (cases s) (simp_all add: upt_conv_Cons del: upt_Suc)
  then have "first_longest P s s = (0, 0, length s)"
    using assms keep by (simp add: first_longest_def longer_match_def common_prefix_same)
  then show ?thesis by (simp add: find_longest_match_def)
qed

lemma match_total_same: "\<forall>c \<in> set s. P c \<Longrightarrow> match_total P s s = length s"
proof (cases "s = []")
  case True
  then show ?thesis
    by (subst match_total.simps)
      (simp add: find_longest_match_def first_longest_def Let_def)
next
  case False
  assume "\<forall>c \<in> set s. P c"
  moreover have "match_total P [] [] = 0"
    by (subst match_total.simps) (simp add: find_longest_match_def first_longest_def)
  ultimately show ?thesis
    using False by (subst match_total.simps) (simp add: find_longest_match_same)
qed

lemma ratio_bounds: "0 \<le> ratio a b \<and> ratio a b \<le> 1"
proof -
  have "2 * match_total P a b \<le> length a + length b" for P
    using match_total_le [of P a b] by simp
  then have "2 * rat_of_nat (match_total P a b) \<le> of_nat (length a + length b)" for P
    by (metis of_nat_le_iff of_nat_mult of_nat_numeral)
  then show ?thesis by (auto simp: ratio_def divide_le_eq)
qed

lemma ratio_same: "length s < 200 \<Longrightarrow> ratio s s = 1"
  by (simp add: ratio_def popular_def match_total_same)

section \<open>Findings (\<^verbatim>\<open>models.py\<close>)\<close>

datatype severity = CRITICAL | HIGH | MEDIUM | LOW | INFO

record review_finding =
  rf_id :: string
  rf_reviewer :: string
  rf_severity :: severity
  rf_category :: string
  rf_title :: string
  rf_description :: string
  rf_file :: string
  rf_line_start :: int
  rf_line_end :: "int option"
  rf_snippet :: "string option"
  rf_recommendation :: string
  rf_confidence :: rat

record reviewer_result =
  rr_reviewer :: string
  rr_status :: string
  rr_review_findings :: "review_finding list"
  rr_files :: "string list"
  rr_error_message :: "string option"

record unified_report =
  ur_swarm_id :: string
  ur_target_path :: string
  ur_completed :: "string list"
  ur_failed :: "string list"
  ur_critical :: "review_finding list"
  ur_high :: "review_finding list"
  ur_medium :: "review_finding list"
  ur_low :: "review_finding list"
  ur_info :: "review_finding list"
  ur_total :: nat
  ur_by_reviewer :: "nat pydict"
  ur_by_category :: "nat pydict"
  ur_duplicates_removed :: nat

fun severity_order :: "severity \<Rightarrow> nat" where
  "severity_order CRITICAL = 0"
| "severity_order HIGH = 1"
| "severity_order MEDIUM = 2"
| "severity_order LOW = 3"
| "severity_order INFO = 4"

section \<open>Duplicates (\<^verbatim>\<open>aggregator.py\<close>)\<close>

definition lines_overlap :: "int option \<Rightarrow> int option \<Rightarrow> int option \<Rightarrow> int option \<Rightarrow> bool" where
  "lines_overlap start1 end1 start2 end2 \<longleftrightarrow>
     (case (start1, start2) of
        (Some s1, Some s2) \<Rightarrow>
          (let e1 = (case end1 of None \<Rightarrow> s1 | Some e \<Rightarrow> e);
               e2 = (case end2 of None \<Rightarrow> s2 | Some e \<Rightarrow> e)
           in \<not> (e1 < s2 \<or> e2 < s1))
      | _ \<Rightarrow> False)"

text \<open>\<^verbatim>\<open>category.split("/")[0]\<close>\<close>

definition root_category :: "string \<Rightarrow> string" where
  "root_category c = hd (split_on (CHR ''/'') c)"

definition is_duplicate :: "rat \<Rightarrow> review_finding \<Rightarrow> review_finding \<Rightarrow> bool" where
  "is_duplicate threshold f1 f2 \<longleftrightarrow>
     (if rf_file f1 \<noteq> rf_file f2 then False
      else if \<not> lines_overlap (Some (rf_line_start f1)) (rf_line_end f1)
                  (Some (rf_line_start f2)) (rf_line_end f2) then False
      else if rf_category f1 \<noteq> [] \<and> rf_category f2 \<noteq> []
              \<and> root_category (rf_category f1) \<noteq> root_category (rf_category f2) then False
      else text_similarity (rf_title f1) (rf_title f2) \<ge> threshold)"

text \<open>\<^verbatim>\<open>s.split(", ")\<close>\<close>

fun split_names :: "string \<Rightarrow> string list" where
  "split_names [] = [[]]"
| "split_names [x] = [[x]]"
| "split_names (x # y # s) =
     (if x = CHR '','' \<and> y = CHR '' '' then [] # split_names s
      else (case split_names (y # s) of [] \<Rightarrow> [[x]] | p # ps \<Rightarrow> (x # p) # ps))"

definition join_names :: "string list \<Rightarrow> string" where
  "join_names ns = py_join '', '' ns"

text \<open>A line number in a condition is false when it is zero, an end also when it is absent.\<close>

definition merged_start :: "review_finding \<Rightarrow> review_finding \<Rightarrow> int" where
  "merged_start f1 f2 =
     (let m = min (rf_line_start f1) (rf_line_start f2)
      in if m = 0 then (if rf_line_start f1 \<noteq> 0 then rf_line_start f1 else rf_line_start f2) else m)"

definition merged_end :: "review_finding \<Rightarrow> review_finding \<Rightarrow> int option" where
  "merged_end f1 f2 =
     (let e1 = (case rf_line_end f1 of None \<Rightarrow> 0 | Some e \<Rightarrow> e);
          e2 = (case rf_line_end f2 of None \<Rightarrow> 0 | Some e \<Rightarrow> e)
      in if e1 \<noteq> 0 \<or> e2 \<noteq> 0 then Some (max e1 e2) else None)"

definition merge_findings :: "review_finding \<Rightarrow> review_finding \<Rightarrow> review_finding" where
  "merge_findings f1 f2 =
     (let (base, other) = (if severity_order (rf_severity f1) \<le> severity_order (rf_severity f2)
                           then (f1, f2) else (f2, f1))
      in \<lparr>rf_id = rf_id base,
          rf_reviewer = join_names (sort (remdups
             (split_names (rf_reviewer base) @ split_names (rf_reviewer other)))),
          rf_severity = rf_severity base,
          rf_category = rf_category base,
          rf_title = rf_title base,
          rf_description = rf_description base @ CHR 0x0A # CHR 0x0A # ''---'' @ CHR 0x0A # CHR 0x0A
             # rf_description other,
          rf_file = rf_file base,
          rf_line_start = merged_start f1 f2,
          rf_line_end = merged_end f1 f2,
          rf_snippet = rf_snippet base,
          rf_recommendation = rf_recommendation base,
          rf_confidence = max (rf_confidence base) (rf_confidence other)\<rparr>)"

text \<open>The first duplicate among the findings kept so far is merged in place.\<close>

fun merge_into :: "rat \<Rightarrow> review_finding \<Rightarrow> review_finding list \<Rightarrow> review_finding list option" where
  "merge_into t f [] = None"
| "merge_into t f (u # us) =
     (if is_duplicate t f u then Some (merge_findings u f # us)
      else map_option (\<lambda>vs. u # vs) (merge_into t f us))"

fun detect_from ::
  "rat \<Rightarrow> review_finding list \<Rightarrow> review_finding list \<Rightarrow> nat \<Rightarrow> review_finding list \<times> nat" where
  "detect_from t [] unique removed = (unique, removed)"
| "detect_from t (f # fs) unique removed =
     (case merge_into t f unique of
        Some unique' \<Rightarrow> detect_from t fs unique' (Suc removed)
      | None \<Rightarrow> detect_from t fs (unique @ [f]) removed)"

definition detect_duplicates :: "rat \<Rightarrow> review_finding list \<Rightarrow> review_finding list \<times> nat" where
  "detect_duplicates t fs = detect_from t fs [] 0"

section \<open>The report\<close>

definition count_up :: "string \<Rightarrow> nat pydict \<Rightarrow> nat pydict" where
  "count_up k d = dset k (dget d k 0 + 1) d"

definition successful :: "(string \<times> reviewer_result) list \<Rightarrow> (string \<times> reviewer_result) list" where
  "successful results = filter (\<lambda>(t, r). rr_status r = ''success'') results"

definition all_findings :: "(string \<times> reviewer_result) list \<Rightarrow> review_finding list" where
  "all_findings results = concat (map (\<lambda>(t, r). rr_review_findings r) (successful results))"

definition with_severity :: "severity \<Rightarrow> review_finding list \<Rightarrow> review_finding list" where
  "with_severity v fs = filter (\<lambda>f. rf_severity f = v) fs"

definition aggregate ::
  "rat \<Rightarrow> string \<Rightarrow> string \<Rightarrow> (string \<times> reviewer_result) list \<Rightarrow> unified_report" where
  "aggregate t swarm_id target results =
     (let (unique, removed) = detect_duplicates t (all_findings results);
          us = sort_key (\<lambda>f. severity_order (rf_severity f)) unique
      in \<lparr>ur_swarm_id = swarm_id, ur_target_path = target,
          ur_completed = map fst (successful results),
          ur_failed = map fst (filter (\<lambda>(t, r). rr_status r \<noteq> ''success'') results),
          ur_critical = with_severity CRITICAL us, ur_high = with_severity HIGH us,
          ur_medium = with_severity MEDIUM us, ur_low = with_severity LOW us,
          ur_info = with_severity INFO us,
          ur_total = length us,
          ur_by_reviewer = fold (\<lambda>f. fold count_up (split_names (rf_reviewer f))) us [],
          ur_by_category = fold (\<lambda>f. count_up (rf_category f)) us [],
          ur_duplicates_removed = removed\<rparr>)"

section \<open>What aggregation keeps\<close>

definition end_line :: "review_finding \<Rightarrow> int" where
  "end_line f = (case rf_line_end f of None \<Rightarrow> rf_line_start f | Some e \<Rightarrow> e)"

text \<open>A finding about actual lines: numbered from one, the end not before the start.\<close>

definition proper_lines :: "review_finding \<Rightarrow> bool" where
  "proper_lines f \<longleftrightarrow> 0 < rf_line_start f \<and> rf_line_start f \<le> end_line f"

text \<open>
  \<open>covers u f\<close>: the finding \<open>u\<close> of the report stands for \<open>f\<close>: the same file, all its lines, a
  severity and a confidence no lower, and all its reviewers.
\<close>

definition covers :: "review_finding \<Rightarrow> review_finding \<Rightarrow> bool" where
  "covers u f \<longleftrightarrow>
     rf_file u = rf_file f
     \<and> rf_line_start u \<le> rf_line_start f \<and> end_line f \<le> end_line u
     \<and> severity_order (rf_severity u) \<le> severity_order (rf_severity f)
     \<and> rf_confidence f \<le> rf_confidence u
     \<and> set (split_names (rf_reviewer f)) \<subseteq> set (split_names (rf_reviewer u))"

lemma covers_refl: "covers f f"
  by (simp add: covers_def)

lemma covers_trans: "covers u v \<Longrightarrow> covers v f \<Longrightarrow> covers u f"
  by (auto simp: covers_def)

lemma split_names_not_Nil [simp]: "split_names s \<noteq> []"
  by (induction s rule: split_names.induct) (auto split: list.splits)

text \<open>A name without the separator: splitting gives it back whole.\<close>

lemma split_names_append:
  "split_names p = [p] \<Longrightarrow> split_names (p @ '', '' @ r) = p # split_names r"
proof (induction p rule: split_names.induct)
  case (3 x y s)
  from "3.prems" have nsep: "\<not> (x = CHR '','' \<and> y = CHR '' '')" by (auto split: if_splits)
  with "3.prems" have "split_names (y # s) = [y # s]" by (auto split: list.splits)
  from "3.IH"(2) [OF nsep this] nsep show ?case by auto
qed auto

lemma split_names_parts: "p \<in> set (split_names s) \<Longrightarrow> split_names p = [p]"
proof (induction s arbitrary: p rule: split_names.induct)
  case (3 x y s)
  show ?case
  proof (cases "x = CHR '','' \<and> y = CHR '' ''")
    case True
    with 3 show ?thesis by auto
  next
    case False
    obtain q qs where q: "split_names (y # s) = q # qs" by (cases "split_names (y # s)") auto
    with "3.prems" False consider "p = x # q" | "p \<in> set qs" by auto
    then show ?thesis
    proof cases
      case 1
      have sq: "split_names q = [q]" using "3.IH"(2) [OF False, of q] q by simp
      have "q = [] \<or> hd q = y"
        using q by (cases s) (auto split: if_splits list.splits)
      with sq False 1 show ?thesis by (cases q) auto
    next
      case 2
      with "3.IH"(2) [OF False, of p] q show ?thesis by simp
    qed
  qed
qed auto

lemma split_join_names:
  "ns \<noteq> [] \<Longrightarrow> \<forall>n \<in> set ns. split_names n = [n] \<Longrightarrow> split_names (join_names ns) = ns"
proof (induction ns)
  case (Cons n ns)
  then show ?case
    by (cases ns) (auto simp: join_names_def split_names_append [simplified])
qed simp

lemma merged_reviewers:
  "set (split_names (rf_reviewer (merge_findings f1 f2))) =
     set (split_names (rf_reviewer f1)) \<union> set (split_names (rf_reviewer f2))"
proof -
  have "split_names (join_names (sort (remdups (split_names a @ split_names b)))) =
      sort (remdups (split_names a @ split_names b))" for a b
  proof (rule split_join_names)
    have "set (sort (remdups (split_names a @ split_names b))) \<noteq> {}" by simp
    then show "sort (remdups (split_names a @ split_names b)) \<noteq> []" by (metis set_empty)
  qed (auto dest: split_names_parts)
  then show ?thesis by (auto simp: merge_findings_def Let_def)
qed

lemma merge_covers:
  assumes "proper_lines f1" "proper_lines f2" "is_duplicate t f2 f1"
  shows "proper_lines (merge_findings f1 f2)" "covers (merge_findings f1 f2) f1"
    "covers (merge_findings f1 f2) f2"
proof -
  have same: "rf_file f2 = rf_file f1"
    and lap: "rf_line_start f1 \<le> end_line f2" "rf_line_start f2 \<le> end_line f1"
    using assms(3)
    by (auto simp: is_duplicate_def lines_overlap_def end_line_def Let_def split: if_splits)
  have lines: "rf_line_start (merge_findings f1 f2) = min (rf_line_start f1) (rf_line_start f2)"
    "end_line (merge_findings f1 f2) = max (end_line f1) (end_line f2)"
    using assms(1,2) lap
    by (auto simp: merge_findings_def merged_start_def merged_end_def end_line_def proper_lines_def
        Let_def min_def max_def split: option.splits if_splits)
  have rest: "rf_file (merge_findings f1 f2) = rf_file f1"
    "severity_order (rf_severity (merge_findings f1 f2)) =
       min (severity_order (rf_severity f1)) (severity_order (rf_severity f2))"
    "rf_confidence (merge_findings f1 f2) = max (rf_confidence f1) (rf_confidence f2)"
    using same by (auto simp: merge_findings_def Let_def max.commute)
  show "proper_lines (merge_findings f1 f2)"
    using assms(1,2) by (auto simp: proper_lines_def lines)
  show "covers (merge_findings f1 f2) f1" "covers (merge_findings f1 f2) f2"
    by (auto simp: covers_def lines rest same merged_reviewers)
qed

lemma merge_into_length: "merge_into t f us = Some vs \<Longrightarrow> length vs = length us"
  by (induction us arbitrary: vs) (auto split: if_splits)

lemma merge_into_covers:
  assumes "merge_into t f us = Some vs" "proper_lines f" "\<forall>u \<in> set us. proper_lines u"
  shows "(\<forall>v \<in> set vs. proper_lines v) \<and> (\<forall>u \<in> insert f (set us). \<exists>v \<in> set vs. covers v u)"
  using assms
proof (induction us arbitrary: vs)
  case (Cons u us)
  show ?case
  proof (cases "is_duplicate t f u")
    case True
    with Cons.prems have vs: "vs = merge_findings u f # us" by simp
    from Cons.prems True have "proper_lines (merge_findings u f)" "covers (merge_findings u f) u"
      "covers (merge_findings u f) f"
      by (auto intro: merge_covers)
    with Cons.prems vs show ?thesis by (auto intro: covers_refl)
  next
    case False
    with Cons.prems obtain ws where "merge_into t f us = Some ws" "vs = u # ws" by auto
    with Cons.IH [of ws] Cons.prems show ?thesis by (auto intro: covers_refl)
  qed
qed simp

lemma detect_from_length:
  "length (fst (detect_from t fs us n)) + snd (detect_from t fs us n) = length fs + length us + n"
proof (induction t fs us n rule: detect_from.induct)
  case (2 t f fs us n)
  then show ?case by (cases "merge_into t f us") (auto dest: merge_into_length)
qed simp

lemma detect_from_covers:
  assumes "\<forall>f \<in> set fs. proper_lines f" "\<forall>u \<in> set us. proper_lines u"
  shows "\<forall>f \<in> set fs \<union> set us. \<exists>v \<in> set (fst (detect_from t fs us n)). covers v f"
  using assms
proof (induction t fs us n rule: detect_from.induct)
  case (1 t us n)
  then show ?case by (auto intro: covers_refl)
next
  case (2 t f fs us n)
  show ?case
  proof (cases "merge_into t f us")
    case None
    with "2.IH"(1) [OF None] "2.prems" show ?thesis by auto
  next
    case (Some vs)
    from merge_into_covers [OF Some] "2.prems"
    have vs: "\<forall>v \<in> set vs. proper_lines v" "\<forall>u \<in> insert f (set us). \<exists>v \<in> set vs. covers v u" by auto
    have "\<forall>g \<in> set fs \<union> set vs. \<exists>w \<in> set (fst (detect_from t fs vs (Suc n))). covers w g"
      using "2.IH"(2) [OF Some] "2.prems" vs by auto
    with vs(2) Some show ?thesis by (auto intro: covers_trans) (meson UnCI covers_trans)+
  qed
qed

text \<open>A list that is sorted by severity is the concatenation of its severities.\<close>

lemma with_severity_concat:
  assumes "sorted (map (\<lambda>f. severity_order (rf_severity f)) us)"
  shows "us = with_severity CRITICAL us @ with_severity HIGH us @ with_severity MEDIUM us
    @ with_severity LOW us @ with_severity INFO us"
  using assms
proof (induction us)
  case (Cons f us)
  have none: "with_severity v us = []" if "severity_order v < severity_order (rf_severity f)" for v
    using Cons.prems that by (auto simp: with_severity_def filter_empty_conv)
  show ?case
    using Cons by (cases "rf_severity f") (simp_all add: with_severity_def none [unfolded with_severity_def])
qed (simp add: with_severity_def)

section \<open>Properties\<close>

text \<open>The similarity of two titles lies between zero and one, and a title of fewer than 200
  characters is wholly similar to itself in any case.\<close>

theorem similarity_is_a_ratio:
  "0 \<le> text_similarity a b \<and> text_similarity a b \<le> 1
   \<and> (text_similarity a a = 1 \<or> 200 \<le> length a)"
  using ratio_bounds [of "py_lower a" "py_lower b"] ratio_same [of "py_lower a"]
  by (auto simp: text_similarity_def py_lower_def)

text \<open>The report accounts for every finding of the reviewers that succeeded: those it lists
  are sorted into its five groups without loss, their number is the total, and with the
  duplicates removed it is the number of findings that came in.\<close>

theorem report_accounts_for_findings:
  "ur_critical (aggregate t i p rs) @ ur_high (aggregate t i p rs) @ ur_medium (aggregate t i p rs)
     @ ur_low (aggregate t i p rs) @ ur_info (aggregate t i p rs) =
   sort_key (\<lambda>f. severity_order (rf_severity f)) (fst (detect_duplicates t (all_findings rs)))
   \<and> ur_total (aggregate t i p rs) + ur_duplicates_removed (aggregate t i p rs) = length (all_findings rs)
   \<and> ur_total (aggregate t i p rs) =
       length (ur_critical (aggregate t i p rs)) + length (ur_high (aggregate t i p rs))
       + length (ur_medium (aggregate t i p rs)) + length (ur_low (aggregate t i p rs))
       + length (ur_info (aggregate t i p rs))
   \<and> length (ur_completed (aggregate t i p rs)) + length (ur_failed (aggregate t i p rs)) = length rs"
proof -
  obtain u n where d: "detect_duplicates t (all_findings rs) = (u, n)" by fastforce
  let ?us = "sort_key (\<lambda>f. severity_order (rf_severity f)) u"
  have split: "?us = with_severity CRITICAL ?us @ with_severity HIGH ?us @ with_severity MEDIUM ?us
      @ with_severity LOW ?us @ with_severity INFO ?us"
    by (rule with_severity_concat) simp
  have "length u + n = length (all_findings rs)"
    using detect_from_length [of t "all_findings rs" "[]" 0] d by (simp add: detect_duplicates_def)
  moreover have "length (successful rs) + length (filter (\<lambda>(t, r). rr_status r \<noteq> ''success'') rs) = length rs"
    unfolding successful_def using sum_length_filter_compl [of "\<lambda>(t, r). rr_status r = ''success''" rs]
    by (simp add: case_prod_unfold)
  moreover have "length ?us = length (with_severity CRITICAL ?us) + length (with_severity HIGH ?us)
      + length (with_severity MEDIUM ?us) + length (with_severity LOW ?us) + length (with_severity INFO ?us)"
    by (subst (1) split) simp
  ultimately show ?thesis
    using split by (simp add: aggregate_def d Let_def)
qed

text \<open>C22: merging loses no issue: every finding of a successful reviewer that names actual lines
  is represented in the report by one about the same file that spans its lines, is no less
  severe and no less confident, and lists its reviewers.\<close>

theorem every_finding_is_covered:
  assumes "\<forall>g \<in> set (all_findings rs). proper_lines g" "f \<in> set (all_findings rs)"
  shows "\<exists>u \<in> set (ur_critical (aggregate t i p rs) @ ur_high (aggregate t i p rs)
      @ ur_medium (aggregate t i p rs) @ ur_low (aggregate t i p rs) @ ur_info (aggregate t i p rs)).
    covers u f"
proof -
  obtain u n where d: "detect_duplicates t (all_findings rs) = (u, n)" by fastforce
  have "\<exists>v \<in> set u. covers v f"
    using detect_from_covers [OF assms(1), of "[]" t 0] assms(2) d by (auto simp: detect_duplicates_def)
  moreover have "set (ur_critical (aggregate t i p rs) @ ur_high (aggregate t i p rs)
      @ ur_medium (aggregate t i p rs) @ ur_low (aggregate t i p rs) @ ur_info (aggregate t i p rs)) = set u"
  proof -
    have "rf_severity g \<in> {CRITICAL, HIGH, MEDIUM, LOW, INFO}" for g
      by (cases "rf_severity g") auto
    then show ?thesis by (fastforce simp: aggregate_def d Let_def with_severity_def)
  qed
  ultimately show ?thesis by simp
qed

text \<open>Three reports of one defect: on line 1, on line 3, and on lines 1 to 3.\<close>

definition demo_finding :: "string \<Rightarrow> int \<Rightarrow> int option \<Rightarrow> review_finding" where
  "demo_finding r a b =
     \<lparr>rf_id = r, rf_reviewer = r, rf_severity = HIGH, rf_category = ''bug'', rf_title = ''leak'',
      rf_description = [], rf_file = ''f'', rf_line_start = a, rf_line_end = b, rf_snippet = None,
      rf_recommendation = [], rf_confidence = 1 / 2\<rparr>"

definition demo_review :: "review_finding list \<Rightarrow> reviewer_result" where
  "demo_review fs =
     \<lparr>rr_reviewer = ''r'', rr_status = ''success'', rr_review_findings = fs, rr_files = [],
      rr_error_message = None\<rparr>"

theorem every_finding_is_covered_witness:
  "\<exists>u \<in> set (ur_high (aggregate 1 ''i'' ''p'' [(''a'', demo_review [demo_finding ''a'' 1 None])])).
     covers u (demo_finding ''a'' 1 None)"
proof -
  let ?f = "demo_finding ''a'' 1 None" and ?rs = "[(''a'', demo_review [demo_finding ''a'' 1 None])]"
  have all: "all_findings ?rs = [?f]" by (simp add: all_findings_def successful_def demo_review_def)
  have "proper_lines ?f" by (simp add: proper_lines_def demo_finding_def end_line_def)
  with every_finding_is_covered [of ?rs ?f 1 "''i''" "''p''"] all
  show ?thesis
    by (simp add: aggregate_def detect_duplicates_def Let_def with_severity_def demo_finding_def)
qed

text \<open>The comparison is with the findings kept so far and a merged finding is not compared
  again, so the order of the reviewers decides: the same three reports of one defect give two
  findings that are still duplicates of each other, or one.\<close>

theorem order_decides_duplicates:
  "length (fst (detect_duplicates (4/5) [demo_finding ''a'' 1 None, demo_finding ''b'' 3 None,
       demo_finding ''c'' 1 (Some 3)])) = 2
   \<and> length (fst (detect_duplicates (4/5) [demo_finding ''c'' 1 (Some 3), demo_finding ''a'' 1 None,
       demo_finding ''b'' 3 None])) = 1
   \<and> is_duplicate (4/5) (demo_finding ''b'' 3 None)
       (hd (fst (detect_duplicates (4/5) [demo_finding ''a'' 1 None, demo_finding ''b'' 3 None,
          demo_finding ''c'' 1 (Some 3)])))"
proof -
  have same: "text_similarity ''leak'' ''leak'' = 1"
    unfolding text_similarity_def by (rule ratio_same) (simp add: py_lower_def)
  show ?thesis
    by (simp add: detect_duplicates_def is_duplicate_def lines_overlap_def demo_finding_def
        merge_findings_def merged_start_def merged_end_def same root_category_def Let_def)
qed

end
