(* ===== verification/Coord_Types.thy ===== *)
theory Coord_Types
  imports World Json
begin

text \<open>
  The data of the coordination between instances (\<^verbatim>\<open>src/infrastructure/coordination/types.py\<close> and
  \<^verbatim>\<open>config.py\<close>): message types, messages with their JSON form, queries, notifications with
  theirs, presence, and the configuration with its keys.  Validation by pydantic is a
  \<^verbatim>\<open>ValueError\<close>; its lax readings (\<^verbatim>\<open>1\<close> or \<^verbatim>\<open>"yes"\<close> for a boolean, numbers for a time) are not
  modelled and are errors here.  The lemmas are the round trips, with the stamp cut to the second.
\<close>

section \<open>Time stamps\<close>

text \<open>\<^verbatim>\<open>strftime("%Y-%m-%dT%H:%M:%SZ")\<close>: the fields of the wall clock up to the second.\<close>

definition strftime_z :: "datetime \<Rightarrow> string" where
  "strftime_z t =
     (let (y, m, d) = civil_from_days (wall t div 86400000000);
          sec = wall t mod 86400000000 div 1000000
      in pad4 y @ ''-'' @ pad2 m @ ''-'' @ pad2 d @ ''T'' @
         pad2 (sec div 3600) @ '':'' @ pad2 (sec div 60 mod 60) @ '':'' @ pad2 (sec mod 60) @ ''Z'')"

text \<open>\<^verbatim>\<open>if v.endswith("Z"): v = v[:-1] + "+00:00"\<close>, then \<^verbatim>\<open>fromisoformat\<close>.\<close>

definition parse_stamp :: "string \<Rightarrow> exn + datetime" where
  "parse_stamp s = fromisoformat (if ends_with s ''Z'' then butlast s @ ''+00:00'' else s)"

text \<open>\<^verbatim>\<open>fromisoformat(v.replace("Z", "+00:00"))\<close>\<close>

definition replace_z :: "string \<Rightarrow> string" where
  "replace_z s = concat (map (\<lambda>c. if c = CHR ''Z'' then ''+00:00'' else [c]) s)"

definition parse_stamp_anywhere :: "string \<Rightarrow> exn + datetime" where
  "parse_stamp_anywhere s = fromisoformat (replace_z s)"

text \<open>A stamp without its fraction of a second.\<close>

definition whole_seconds :: "int \<Rightarrow> int" where
  "whole_seconds us = us div 1000000 * 1000000"

lemma whole_seconds_le: "whole_seconds us \<le> us" "us < whole_seconds us + 1000000"
  using div_rest [of 1000000 us] by (simp_all add: whole_seconds_def algebra_simps)

lemma whole_seconds_mono: "a \<le> b \<Longrightarrow> whole_seconds a \<le> whole_seconds b"
  by (simp add: whole_seconds_def zdiv_mono1)

lemma whole_seconds_idem [simp]: "whole_seconds (whole_seconds us) = whole_seconds us"
  by (simp add: whole_seconds_def)

lemma whole_seconds_day:
  "whole_seconds us div 86400000000 = us div 86400000000"
  "whole_seconds us mod 86400000000 = us mod 86400000000 div 1000000 * 1000000"
proof -
  define s where "s = us div 1000000"
  have ws: "whole_seconds us = 1000000 * s" by (simp add: whole_seconds_def s_def)
  have us: "us = 1000000 * s + us mod 1000000" by (simp add: s_def)
  have "us div 86400000000 = s div 86400"
    using zdiv_zmult2_eq [of 86400 us 1000000] by (simp add: s_def)
  moreover have "whole_seconds us div 86400000000 = s div 86400"
    using zdiv_zmult2_eq [of 86400 "whole_seconds us" 1000000] by (simp add: ws)
  ultimately show "whole_seconds us div 86400000000 = us div 86400000000" by simp
  have "us mod 86400000000 = 1000000 * (us div 1000000 mod 86400) + us mod 1000000"
    using zmod_zmult2_eq [of 86400 us 1000000] by simp
  then have "us mod 86400000000 div 1000000 = s mod 86400"
    by (simp add: s_def)
  moreover have "whole_seconds us mod 86400000000 = 1000000 * (s mod 86400)"
    using zmod_zmult2_eq [of 86400 "whole_seconds us" 1000000] by (simp add: ws)
  ultimately show "whole_seconds us mod 86400000000 = us mod 86400000000 div 1000000 * 1000000"
    by simp
qed

lemma butlast_end: "ys \<noteq> [] \<Longrightarrow> butlast (xs @ ys) = xs @ butlast ys"
  by (simp add: butlast_append)

lemma offset_str_zero: "offset_str 0 = ''+00:00''"
  by (simp add: offset_str_def pad2_def digit_char_def) (simp add: char_of_def bit_Suc bit_0)

lemma isoformat_whole_seconds:
  "isoformat (utc_datetime (whole_seconds us)) = butlast (strftime_z (utc_datetime us)) @ ''+00:00''"
proof -
  obtain y m d where c: "civil_from_days (us div 86400000000) = (y, m, d)"
    by (cases "civil_from_days (us div 86400000000)") auto
  have "isoformat (utc_datetime (whole_seconds us)) =
      (let sec = us mod 86400000000 div 1000000
       in pad4 y @ ''-'' @ pad2 m @ ''-'' @ pad2 d @ ''T'' @
         pad2 (sec div 3600) @ '':'' @ pad2 (sec div 60 mod 60) @ '':'' @ pad2 (sec mod 60) @ ''+00:00'')"
    by (simp only: isoformat_def utc_datetime_def datetime.select_convs whole_seconds_day c Let_def
        prod.case offset_str_zero option.case) simp
  also have "\<dots> = butlast (strftime_z (utc_datetime us)) @ ''+00:00''"
    by (simp only: strftime_z_def utc_datetime_def datetime.select_convs c Let_def prod.case) (simp add: butlast_end)
  finally show ?thesis .
qed

lemma valid_whole_seconds:
  "valid_datetime (utc_datetime (whole_seconds us)) \<longleftrightarrow> valid_datetime (utc_datetime us)"
  by (simp add: valid_datetime_def utc_datetime_def whole_seconds_day)

lemma strftime_z_ends: "ends_with (strftime_z t) ''Z''"
proof -
  obtain y m d where c: "civil_from_days (wall t div 86400000000) = (y, m, d)"
    by (cases "civil_from_days (wall t div 86400000000)") auto
  have "\<exists>r. strftime_z t = r @ ''Z''"
    by (rule exI [of _ "butlast (strftime_z t)"], simp only: strftime_z_def c Let_def prod.case, simp add: butlast_end)
  then show ?thesis by (auto simp: ends_with_def)
qed

lemma parse_stamp_strftime [simp]:
  assumes "valid_datetime (utc_datetime us)"
  shows "parse_stamp (strftime_z (utc_datetime us)) = Inr (utc_datetime (whole_seconds us))"
proof -
  have "valid_datetime (utc_datetime (whole_seconds us))" using assms by (simp add: valid_whole_seconds)
  from fromisoformat_isoformat [OF this] show ?thesis
    by (simp add: parse_stamp_def strftime_z_ends isoformat_whole_seconds)
qed

text \<open>The digits and separators of a stamp hold no \<^verbatim>\<open>Z\<close>, so both ways of reading it agree.\<close>

lemma replace_z_append: "replace_z (a @ b) = replace_z a @ replace_z b"
  by (simp add: replace_z_def)

lemma replace_z_none: "CHR ''Z'' \<notin> set s \<Longrightarrow> replace_z s = s"
  by (induction s) (auto simp: replace_z_def)

lemma digit_char_not_Z: "n < 10 \<Longrightarrow> digit_char n \<noteq> CHR ''Z''"
  using digit_char_props(1) [of n] by (auto simp: is_digit_def code_point_def)

lemma pad2_no_Z: "CHR ''Z'' \<notin> set (pad2 i)"
  using digit_char_not_Z [of "nat i div 10 mod 10"] digit_char_not_Z [of "nat i mod 10"]
  by (simp add: pad2_def Let_def)

lemma replace_z_simps [simp]:
  "replace_z (a @ b) = replace_z a @ replace_z b"
  "replace_z (c # s) = (if c = CHR ''Z'' then ''+00:00'' else [c]) @ replace_z s"
  "replace_z [] = []"
  "replace_z (pad2 i) = pad2 i" "replace_z (pad4 i) = pad4 i"
  by (simp_all add: replace_z_append pad4_def replace_z_none pad2_no_Z) (simp_all add: replace_z_def)

lemma replace_z_stamp:
  "replace_z (pad4 y @ ''-'' @ pad2 m @ ''-'' @ pad2 d @ ''T'' @ pad2 h @ '':'' @ pad2 i @ '':'' @ pad2 k @ ''Z'') =
   pad4 y @ ''-'' @ pad2 m @ ''-'' @ pad2 d @ ''T'' @ pad2 h @ '':'' @ pad2 i @ '':'' @ pad2 k @ ''+00:00''"
  by simp

lemma replace_z_strftime: "replace_z (strftime_z t) = butlast (strftime_z t) @ ''+00:00''"
proof (cases "civil_from_days (wall t div 86400000000)")
  case (fields y m d)
  show ?thesis
    unfolding strftime_z_def fields Let_def prod.case replace_z_stamp by (simp add: butlast_end)
qed

lemma parse_stamp_anywhere_strftime [simp]:
  assumes "valid_datetime (utc_datetime us)"
  shows "parse_stamp_anywhere (strftime_z (utc_datetime us)) = Inr (utc_datetime (whole_seconds us))"
  using parse_stamp_strftime [OF assms]
  by (simp add: parse_stamp_def parse_stamp_anywhere_def strftime_z_ends replace_z_strftime)

section \<open>Message types\<close>

datatype message_type =
    READY_FOR_REVIEW | REVIEW_COMPLETE | REVIEW_FAILED | CONTRACT_CHANGE_PROPOSED |
  CONTRACT_REVIEW_NEEDED | CONTRACT_FEEDBACK | CONTRACT_APPROVED | CONTRACT_REJECTED |
  META_CHANGE_REQUEST | META_CHANGE_COMPLETE | INTERFACE_UPDATE | BLOCKING_ISSUE | GENERAL
  | STATUS_UPDATE | HEARTBEAT | NOTIFICATION | DEVOPS_STARTED | DEVOPS_STEP_UPDATE |
  DEVOPS_COMPLETE | DEVOPS_FAILED | SESSION_START | SESSION_END | SWARM_STARTED |
  SWARM_REVIEWER_COMPLETE | SWARM_COMPLETE | SWARM_FAILED

definition message_types :: "message_type list" where
  "message_types =
     [READY_FOR_REVIEW, REVIEW_COMPLETE, REVIEW_FAILED, CONTRACT_CHANGE_PROPOSED,
      CONTRACT_REVIEW_NEEDED, CONTRACT_FEEDBACK, CONTRACT_APPROVED, CONTRACT_REJECTED,
      META_CHANGE_REQUEST, META_CHANGE_COMPLETE, INTERFACE_UPDATE, BLOCKING_ISSUE,
      GENERAL, STATUS_UPDATE, HEARTBEAT, NOTIFICATION, DEVOPS_STARTED, DEVOPS_STEP_UPDATE,
      DEVOPS_COMPLETE, DEVOPS_FAILED, SESSION_START, SESSION_END, SWARM_STARTED,
      SWARM_REVIEWER_COMPLETE, SWARM_COMPLETE, SWARM_FAILED]"

fun message_type_value :: "message_type \<Rightarrow> string" where
  "message_type_value READY_FOR_REVIEW = ''READY_FOR_REVIEW''"
| "message_type_value REVIEW_COMPLETE = ''REVIEW_COMPLETE''"
| "message_type_value REVIEW_FAILED = ''REVIEW_FAILED''"
| "message_type_value CONTRACT_CHANGE_PROPOSED = ''CONTRACT_CHANGE_PROPOSED''"
| "message_type_value CONTRACT_REVIEW_NEEDED = ''CONTRACT_REVIEW_NEEDED''"
| "message_type_value CONTRACT_FEEDBACK = ''CONTRACT_FEEDBACK''"
| "message_type_value CONTRACT_APPROVED = ''CONTRACT_APPROVED''"
| "message_type_value CONTRACT_REJECTED = ''CONTRACT_REJECTED''"
| "message_type_value META_CHANGE_REQUEST = ''META_CHANGE_REQUEST''"
| "message_type_value META_CHANGE_COMPLETE = ''META_CHANGE_COMPLETE''"
| "message_type_value INTERFACE_UPDATE = ''INTERFACE_UPDATE''"
| "message_type_value BLOCKING_ISSUE = ''BLOCKING_ISSUE''"
| "message_type_value GENERAL = ''GENERAL''"
| "message_type_value STATUS_UPDATE = ''STATUS_UPDATE''"
| "message_type_value HEARTBEAT = ''HEARTBEAT''"
| "message_type_value NOTIFICATION = ''NOTIFICATION''"
| "message_type_value DEVOPS_STARTED = ''DEVOPS_STARTED''"
| "message_type_value DEVOPS_STEP_UPDATE = ''DEVOPS_STEP_UPDATE''"
| "message_type_value DEVOPS_COMPLETE = ''DEVOPS_COMPLETE''"
| "message_type_value DEVOPS_FAILED = ''DEVOPS_FAILED''"
| "message_type_value SESSION_START = ''SESSION_START''"
| "message_type_value SESSION_END = ''SESSION_END''"
| "message_type_value SWARM_STARTED = ''SWARM_STARTED''"
| "message_type_value SWARM_REVIEWER_COMPLETE = ''SWARM_REVIEWER_COMPLETE''"
| "message_type_value SWARM_COMPLETE = ''SWARM_COMPLETE''"
| "message_type_value SWARM_FAILED = ''SWARM_FAILED''"

text \<open>\<^verbatim>\<open>MessageType(s)\<close>\<close>

definition message_type_of :: "string \<Rightarrow> exn + message_type" where
  "message_type_of s =
     (case filter (\<lambda>t. message_type_value t = s) message_types of
        t # _ \<Rightarrow> Inr t
      | [] \<Rightarrow> Inl (Exn PyValueError ([CHR 0x27] @ s @ [CHR 0x27] @ '' is not a valid MessageType'')))"

lemma message_type_of_value [simp]: "message_type_of (message_type_value t) = Inr t"
  by (cases t) (simp_all add: message_type_of_def message_types_def)

section \<open>Messages\<close>

record message_payload =
  mp_subject :: string
  mp_description :: string

record coord_message =
  cm_id :: string
  cm_type :: message_type
  cm_from :: string
  cm_to :: string
  cm_timestamp :: datetime
  cm_requires_ack :: bool
  cm_acknowledged :: bool
  cm_payload :: message_payload
  cm_ack_by :: "string option"
  cm_ack_timestamp :: "datetime option"
  cm_ack_comment :: "string option"

definition payload_to_dict :: "message_payload \<Rightarrow> json pydict" where
  "payload_to_dict p = [(''subject'', JStr (mp_subject p)), (''description'', JStr (mp_description p))]"

definition message_to_dict :: "coord_message \<Rightarrow> json pydict" where
  "message_to_dict m =
     [(''id'', JStr (cm_id m)),
      (''type'', JStr (message_type_value (cm_type m))),
      (''from'', JStr (cm_from m)),
      (''to'', JStr (cm_to m)),
      (''timestamp'', JStr (strftime_z (cm_timestamp m))),
      (''requires_ack'', JBool (cm_requires_ack m)),
      (''acknowledged'', JBool (cm_acknowledged m)),
      (''payload'', JObj (payload_to_dict (cm_payload m)))] @
     map (\<lambda>p. (fst p, JStr (snd p)))
       (opt_field ''ack_by'' (cm_ack_by m) @
        (case cm_ack_timestamp m of None \<Rightarrow> [] | Some t \<Rightarrow> [(''ack_timestamp'', strftime_z t)]) @
        opt_field ''ack_comment'' (cm_ack_comment m))"

text \<open>The validators of the model's fields.  A missing or ill-typed field is a
  \<^verbatim>\<open>ValidationError\<close>, which is a \<^verbatim>\<open>ValueError\<close>.\<close>

definition invalid :: "string \<Rightarrow> exn + 'a" where
  "invalid f = Inl (Exn PyValueError (''validation error: '' @ f))"

definition str_field :: "string \<Rightarrow> json pydict \<Rightarrow> exn + string" where
  "str_field k d = (case map_of d k of Some (JStr s) \<Rightarrow> Inr s | _ \<Rightarrow> invalid k)"

definition bool_field :: "string \<Rightarrow> bool \<Rightarrow> json pydict \<Rightarrow> exn + bool" where
  "bool_field k dflt d =
     (case map_of d k of None \<Rightarrow> Inr dflt | Some (JBool b) \<Rightarrow> Inr b | Some _ \<Rightarrow> invalid k)"

definition opt_str_field :: "string \<Rightarrow> json pydict \<Rightarrow> exn + string option" where
  "opt_str_field k d =
     (case map_of d k of None \<Rightarrow> Inr None | Some JNull \<Rightarrow> Inr None | Some (JStr s) \<Rightarrow> Inr (Some s)
      | Some _ \<Rightarrow> invalid k)"

definition parse_timestamp :: "string \<Rightarrow> json pydict \<Rightarrow> exn + datetime option" where
  "parse_timestamp k d =
     (case map_of d k of
        None \<Rightarrow> Inr None
      | Some JNull \<Rightarrow> Inr None
      | Some (JStr s) \<Rightarrow>
          (case parse_stamp s of Inr t \<Rightarrow> Inr (Some t) | Inl e \<Rightarrow> invalid k)
      | Some _ \<Rightarrow> invalid k)"

definition payload_of_dict :: "json option \<Rightarrow> exn + message_payload" where
  "payload_of_dict j =
     (case j of
        Some (JObj d) \<Rightarrow>
          bind_sum (str_field ''subject'' d) (\<lambda>s.
          bind_sum (str_field ''description'' d) (\<lambda>t.
          Inr \<lparr>mp_subject = s, mp_description = t\<rparr>))
      | _ \<Rightarrow> invalid ''payload'')"

text \<open>\<^verbatim>\<open>from\<close> and \<^verbatim>\<open>to\<close> are aliases: either spelling populates the field.\<close>

definition aliased :: "string \<Rightarrow> string \<Rightarrow> json pydict \<Rightarrow> json pydict" where
  "aliased k f d =
     (if map_of d k \<noteq> None \<and> map_of d f = None then dset f (dget d k JNull) d else d)"

definition message_of_dict :: "json pydict \<Rightarrow> exn + coord_message" where
  "message_of_dict d0 =
     (let d = aliased ''to'' ''to_instance'' (aliased ''from'' ''from_instance'' d0);
          instance_field = (\<lambda>k f. if map_of d k \<noteq> None then str_field k d else str_field f d)
      in bind_sum (payload_of_dict (map_of d ''payload'')) (\<lambda>p.
         bind_sum (str_field ''id'' d) (\<lambda>i.
         bind_sum (bind_sum (str_field ''type'' d) message_type_of) (\<lambda>ty.
         bind_sum (instance_field ''from'' ''from_instance'') (\<lambda>fr.
         bind_sum (instance_field ''to'' ''to_instance'') (\<lambda>t.
         bind_sum (parse_timestamp ''timestamp'' d) (\<lambda>ts.
         bind_sum (bool_field ''requires_ack'' True d) (\<lambda>ra.
         bind_sum (bool_field ''acknowledged'' False d) (\<lambda>ack.
         bind_sum (opt_str_field ''ack_by'' d) (\<lambda>by.
         bind_sum (parse_timestamp ''ack_timestamp'' d) (\<lambda>ats.
         bind_sum (opt_str_field ''ack_comment'' d) (\<lambda>c.
           case ts of
             None \<Rightarrow> invalid ''timestamp''
           | Some when \<Rightarrow>
               Inr \<lparr>cm_id = i, cm_type = ty, cm_from = fr, cm_to = t, cm_timestamp = when,
                    cm_requires_ack = ra, cm_acknowledged = ack, cm_payload = p, cm_ack_by = by,
                    cm_ack_timestamp = ats, cm_ack_comment = c\<rparr>))))))))))))"

record message_query =
  mq_to :: "string option"
  mq_from :: "string option"
  mq_type :: "message_type option"
  mq_pending_only :: bool
  mq_since :: "datetime option"
  mq_limit :: int

definition default_query :: message_query where
  "default_query =
     \<lparr>mq_to = None, mq_from = None, mq_type = None, mq_pending_only = False, mq_since = None,
      mq_limit = 100\<rparr>"

definition new_query ::
  "string option \<Rightarrow> string option \<Rightarrow> message_type option \<Rightarrow> bool \<Rightarrow> datetime option \<Rightarrow> int \<Rightarrow> exn + message_query" where
  "new_query t f ty po since limit =
     (if 1 \<le> limit \<and> limit \<le> 1000
      then Inr \<lparr>mq_to = t, mq_from = f, mq_type = ty, mq_pending_only = po, mq_since = since, mq_limit = limit\<rparr>
      else invalid ''limit'')"

section \<open>Notifications\<close>

record notification =
  nt_event :: string
  nt_message_id :: string
  nt_type :: message_type
  nt_from :: string
  nt_to :: string
  nt_requires_ack :: bool
  nt_timestamp :: datetime

definition notification_to_dict :: "notification \<Rightarrow> json pydict" where
  "notification_to_dict n =
     [(''event'', JStr (nt_event n)),
      (''message_id'', JStr (nt_message_id n)),
      (''type'', JStr (message_type_value (nt_type n))),
      (''from'', JStr (nt_from n)),
      (''to'', JStr (nt_to n)),
      (''requires_ack'', JBool (nt_requires_ack n)),
      (''timestamp'', JStr (strftime_z (nt_timestamp n)))]"

definition notification_to_json :: "notification \<Rightarrow> string" where
  "notification_to_json n = dumps (JObj (notification_to_dict n))"

definition notification_of_message :: "coord_message \<Rightarrow> notification" where
  "notification_of_message m =
     \<lparr>nt_event = ''message_published'', nt_message_id = cm_id m, nt_type = cm_type m,
      nt_from = cm_from m, nt_to = cm_to m, nt_requires_ack = cm_requires_ack m,
      nt_timestamp = cm_timestamp m\<rparr>"

text \<open>\<^verbatim>\<open>data[k]\<close>, and the keyword arguments of the model's constructor.\<close>

definition item :: "json pydict \<Rightarrow> string \<Rightarrow> exn + json" where
  "item d k = (case map_of d k of None \<Rightarrow> Inl (Exn PyKeyError k) | Some v \<Rightarrow> Inr v)"

definition type_item :: "json \<Rightarrow> exn + message_type" where
  "type_item j = (case j of JStr s \<Rightarrow> message_type_of s | _ \<Rightarrow> invalid ''msg_type'')"

definition new_notification ::
  "json \<Rightarrow> json \<Rightarrow> message_type \<Rightarrow> json \<Rightarrow> json \<Rightarrow> json \<Rightarrow> datetime \<Rightarrow> exn + notification" where
  "new_notification ev i ty fr t ra ts =
     (case (ev, i, fr, t, ra) of
        (JStr ev', JStr i', JStr fr', JStr t', JBool ra') \<Rightarrow>
          Inr \<lparr>nt_event = ev', nt_message_id = i', nt_type = ty, nt_from = fr', nt_to = t',
               nt_requires_ack = ra', nt_timestamp = ts\<rparr>
      | _ \<Rightarrow> invalid ''notification'')"

definition notification_items :: "json pydict \<Rightarrow> datetime \<Rightarrow> exn + notification" where
  "notification_items d ts =
     bind_sum (item d ''message_id'') (\<lambda>i.
     bind_sum (bind_sum (item d ''type'') type_item) (\<lambda>ty.
     bind_sum (item d ''from'') (\<lambda>fr.
     bind_sum (item d ''to'') (\<lambda>t.
     bind_sum (item d ''requires_ack'') (\<lambda>ra.
       new_notification (dget d ''event'' (JStr ''message_published'')) i ty fr t ra ts)))))"

definition attribute_error :: "exn + 'a" where
  "attribute_error = Inl (Exn PyAttributeError ''object has no attribute'')"

definition notification_of_json :: "string \<Rightarrow> exn + notification" where
  "notification_of_json s =
     (case loads s of
        Inl e \<Rightarrow> Inl (Exn PyValueError (''Invalid JSON: '' @ message_of e))
      | Inr (JObj d) \<Rightarrow>
          (case dget d ''timestamp'' (JStr []) of
             JStr ts \<Rightarrow> bind_sum (parse_stamp ts) (notification_items d)
           | _ \<Rightarrow> attribute_error)
      | Inr _ \<Rightarrow> attribute_error)"

definition cut :: "notification \<Rightarrow> notification" where
  "cut n = n\<lparr>nt_timestamp := utc_datetime (whole_seconds (wall (nt_timestamp n)))\<rparr>"

definition utc_stamp :: "datetime \<Rightarrow> bool" where
  "utc_stamp t \<longleftrightarrow> utc_offset t = Some 0 \<and> valid_datetime t"

lemma utc_stampE:
  assumes "utc_stamp t"
  obtains us where "t = utc_datetime us" "valid_datetime (utc_datetime us)"
  using assms that [of "wall t"] by (cases t) (simp_all add: utc_stamp_def utc_datetime_def)

lemma wall_utc_datetime [simp]: "wall (utc_datetime us) = us" "utc_offset (utc_datetime us) = Some 0"
  by (simp_all add: utc_datetime_def)

lemma loads_notification:
  "loads (notification_to_json n) = Inr (JObj (notification_to_dict n))"
  unfolding notification_to_json_def
  by (rule loads_dumps) (simp add: notification_to_dict_def)

lemma notification_roundtrip:
  assumes "utc_stamp (nt_timestamp n)"
  shows "notification_of_json (notification_to_json n) = Inr (cut n)"
proof -
  obtain us where "nt_timestamp n = utc_datetime us" "valid_datetime (utc_datetime us)"
    using assms by (rule utc_stampE)
  then show ?thesis
    unfolding notification_of_json_def loads_notification
    by (simp add: notification_to_dict_def dget_def notification_items_def item_def type_item_def
        new_notification_def cut_def)
qed

lemma message_roundtrip:
  assumes "utc_stamp (cm_timestamp m)" "\<And>t. cm_ack_timestamp m = Some t \<Longrightarrow> utc_stamp t"
    and "cm_ack_by m \<noteq> Some []" "cm_ack_comment m \<noteq> Some []"
  shows "message_of_dict (message_to_dict m) =
    Inr (m\<lparr>cm_timestamp := utc_datetime (whole_seconds (wall (cm_timestamp m))),
           cm_ack_timestamp := map_option (\<lambda>t. utc_datetime (whole_seconds (wall t))) (cm_ack_timestamp m)\<rparr>)"
proof -
  obtain us where us: "cm_timestamp m = utc_datetime us" "valid_datetime (utc_datetime us)"
    using assms(1) by (rule utc_stampE)
  have ack: "cm_ack_timestamp m = Some t \<Longrightarrow> \<exists>us. t = utc_datetime us \<and> valid_datetime (utc_datetime us)" for t
    using assms(2) utc_stampE by metis
  have stamp: "parse_timestamp k d = Inr (Some (utc_datetime (whole_seconds us)))"
    if "map_of d k = Some (JStr (strftime_z (utc_datetime us)))" "valid_datetime (utc_datetime us)" for k d us
    using that by (simp add: parse_timestamp_def)
  note fields = message_of_dict_def message_to_dict_def aliased_def dget_def Let_def payload_of_dict_def
    payload_to_dict_def str_field_def bool_field_def opt_str_field_def
  show ?thesis
  proof (cases "cm_ack_timestamp m")
    case None
    then show ?thesis
      using assms(3,4) us
      by (cases "cm_ack_by m"; cases "cm_ack_comment m";
          simp add: fields stamp [OF _ us(2)] parse_timestamp_def [of "''ack_timestamp''"])
  next
    case (Some t)
    then obtain u where "t = utc_datetime u" "valid_datetime (utc_datetime u)" using ack by blast
    with Some show ?thesis
      using assms(3,4) us
      by (cases "cm_ack_by m"; cases "cm_ack_comment m"; simp add: fields stamp)
  qed
qed

section \<open>Presence and statistics\<close>

record presence_info =
  pi_instance :: string
  pi_active :: bool
  pi_last_heartbeat :: datetime
  pi_session :: "string option"

definition presence_to_dict :: "presence_info \<Rightarrow> json pydict" where
  "presence_to_dict p =
     [(''instance_id'', JStr (pi_instance p)), (''active'', JBool (pi_active p)),
      (''last_heartbeat'', JStr (strftime_z (pi_last_heartbeat p))),
      (''session_id'', case pi_session p of None \<Rightarrow> JNull | Some s \<Rightarrow> JStr s)]"

text \<open>The age of the heart beat in microseconds; a naive stamp counts as UTC.\<close>

definition heartbeat_age :: "int \<Rightarrow> presence_info \<Rightarrow> int" where
  "heartbeat_age now p = now - timestamp_us (pi_last_heartbeat p)"

definition is_stale :: "int \<Rightarrow> int \<Rightarrow> presence_info \<Rightarrow> bool" where
  "is_stale now timeout p \<longleftrightarrow> timeout * 60 * 1000000 < heartbeat_age now p"

record coord_stats =
  cs_total_messages :: int
  cs_pending_messages :: int
  cs_messages_by_type :: "int pydict"
  cs_active_instances :: int
  cs_instance_names :: "string list"

definition stats_to_dict :: "coord_stats \<Rightarrow> json pydict" where
  "stats_to_dict s =
     [(''total_messages'', JInt (cs_total_messages s)),
      (''pending_messages'', JInt (cs_pending_messages s)),
      (''messages_by_type'', JObj (map (\<lambda>p. (fst p, JInt (snd p))) (cs_messages_by_type s))),
      (''active_instances'', JInt (cs_active_instances s)),
      (''instance_names'', JList (map JStr (cs_instance_names s)))]"

section \<open>Configuration and keys\<close>

record coord_config =
  cc_redis_host :: string
  cc_redis_port :: int
  cc_redis_db :: int
  cc_key_prefix :: string
  cc_message_ttl_days :: int
  cc_presence_timeout_minutes :: int
  cc_timeline_max_size :: int

definition default_coord_config :: coord_config where
  "default_coord_config =
     \<lparr>cc_redis_host = ''localhost'', cc_redis_port = 6379, cc_redis_db = 0, cc_key_prefix = ''coord'',
      cc_message_ttl_days = 30, cc_presence_timeout_minutes = 5, cc_timeline_max_size = 1000\<rparr>"

definition coord_config_from_env :: "os_environ \<Rightarrow> exn + coord_config" where
  "coord_config_from_env e =
     bind_sum (py_int (getenv e ''REDIS_PORT'' ''6379'')) (\<lambda>port.
     bind_sum (py_int (getenv e ''REDIS_DB'' ''0'')) (\<lambda>no.
     bind_sum (py_int (getenv e ''COORD_MESSAGE_TTL_DAYS'' ''30'')) (\<lambda>ttl.
     bind_sum (py_int (getenv e ''COORD_PRESENCE_TIMEOUT_MINUTES'' ''5'')) (\<lambda>pt.
     bind_sum (py_int (getenv e ''COORD_TIMELINE_MAX_SIZE'' ''1000'')) (\<lambda>tm.
       Inr \<lparr>cc_redis_host = getenv e ''REDIS_HOST'' ''localhost'', cc_redis_port = port, cc_redis_db = no,
            cc_key_prefix = getenv e ''COORD_KEY_PREFIX'' ''coord'', cc_message_ttl_days = ttl,
            cc_presence_timeout_minutes = pt, cc_timeline_max_size = tm\<rparr>)))))"

definition message_ttl_seconds :: "coord_config \<Rightarrow> int" where
  "message_ttl_seconds c = cc_message_ttl_days c * 24 * 60 * 60"

definition message_key :: "coord_config \<Rightarrow> string \<Rightarrow> string" where
  "message_key c i = cc_key_prefix c @ '':msg:'' @ i"

definition inbox_key :: "coord_config \<Rightarrow> string \<Rightarrow> string" where
  "inbox_key c i = cc_key_prefix c @ '':inbox:'' @ i"

definition timeline_key :: "coord_config \<Rightarrow> string" where
  "timeline_key c = cc_key_prefix c @ '':timeline''"

definition pending_key :: "coord_config \<Rightarrow> string" where
  "pending_key c = cc_key_prefix c @ '':pending''"

definition presence_key :: "coord_config \<Rightarrow> string" where
  "presence_key c = cc_key_prefix c @ '':presence''"

definition instance_channel :: "coord_config \<Rightarrow> string \<Rightarrow> string" where
  "instance_channel c i = cc_key_prefix c @ '':notify:'' @ i"

definition broadcast_channel :: "coord_config \<Rightarrow> string" where
  "broadcast_channel c = cc_key_prefix c @ '':notify:all''"

definition notification_queue_key :: "coord_config \<Rightarrow> string \<Rightarrow> string" where
  "notification_queue_key c i = cc_key_prefix c @ '':notifications:'' @ i"

text \<open>The keys of different kinds never meet.\<close>

lemmas coord_keys = message_key_def inbox_key_def timeline_key_def pending_key_def presence_key_def
  notification_queue_key_def

lemma keys_distinct [simp]:
  "message_key c i \<noteq> inbox_key c j" "message_key c i \<noteq> timeline_key c" "message_key c i \<noteq> pending_key c"
  "message_key c i \<noteq> presence_key c" "message_key c i \<noteq> notification_queue_key c j"
  "inbox_key c i \<noteq> timeline_key c" "inbox_key c i \<noteq> pending_key c" "inbox_key c i \<noteq> presence_key c"
  "inbox_key c i \<noteq> notification_queue_key c j" "timeline_key c \<noteq> pending_key c"
  "timeline_key c \<noteq> presence_key c" "timeline_key c \<noteq> notification_queue_key c j"
  "pending_key c \<noteq> presence_key c" "pending_key c \<noteq> notification_queue_key c j"
  "presence_key c \<noteq> notification_queue_key c j"
  "message_key c i = message_key c j \<longleftrightarrow> i = j" "inbox_key c i = inbox_key c j \<longleftrightarrow> i = j"
  "notification_queue_key c i = notification_queue_key c j \<longleftrightarrow> i = j"
  by (simp_all add: coord_keys)

lemmas keys_distinct' [simp] = keys_distinct(1-15) [symmetric]

lemma broadcast_is_instance_all: "instance_channel c ''all'' = broadcast_channel c"
  by (simp add: instance_channel_def broadcast_channel_def)

end
