(* ===== verification/Redis_Cmds.thy ===== *)
theory Redis_Cmds
  imports Prelude "HOL-Library.Product_Lexorder"
begin

text \<open>
  The Redis client as the coordination client and the swarm store use it: single commands and
  transactional pipelines.  The client is not part of the repository and is a parameter, one
  function from a list of commands, executed as one unit, to their replies.  The locale states
  its documented contract against an abstract data base: what each command answers and what it
  changes, while the connection is up; when a call fails, the exception is a \<^verbatim>\<open>RedisError\<close>.  A
  key holds values of one kind only, as the key prefixes ensure, so the kinds are separate
  maps.  Expiry is an action of the server, \<open>expired\<close>, not of a command, but a time to live that is not
  positive deletes the key at once.  Scores are time
  stamps in microseconds: \<^verbatim>\<open>timestamp()\<close> as a float orders the stamps of this era as the integers.
\<close>

named_theorems wp_simps \<open>weakest preconditions of the combinators\<close>

section \<open>Commands and replies\<close>

datatype redis_cmd =
    Ping
  | Exists string
  | Delete string
  | Expire string int
  | Hset string "string pydict"
  | Hget string string
  | Hgetall string
  | Hdel string "string list"
  | Sadd string string
  | Srem string string
  | Smembers string
  | Scard string
  | Zadd string string int
  | Zcard string
  | Zrangebyscore string int
  | Zrevrange string int int
  | Zremrangebyrank string int int
  | Lpush string string
  | Lrange string int int
  | Publish string string

datatype reply =
    RInt int
  | RText "string option"
  | RTexts "string list"
  | RDict "string pydict"

fun int_of_reply :: "reply \<Rightarrow> int" where
  "int_of_reply (RInt i) = i"
| "int_of_reply _ = 0"

fun text_of_reply :: "reply \<Rightarrow> string option" where
  "text_of_reply (RText t) = t"
| "text_of_reply _ = None"

fun texts_of_reply :: "reply \<Rightarrow> string list" where
  "texts_of_reply (RTexts ts) = ts"
| "texts_of_reply _ = []"

fun dict_of_reply :: "reply \<Rightarrow> string pydict" where
  "dict_of_reply (RDict d) = d"
| "dict_of_reply _ = []"

section \<open>The data base\<close>

text \<open>Redis ranges are inclusive, and negative positions count from the end.\<close>

definition range_start :: "int \<Rightarrow> nat \<Rightarrow> nat" where
  "range_start i n = nat (if i < 0 then i + int n else i)"

definition range_stop :: "int \<Rightarrow> nat \<Rightarrow> nat" where
  "range_stop j n = nat ((if j < 0 then j + int n else j) + 1)"

definition in_range :: "int \<Rightarrow> int \<Rightarrow> 'a list \<Rightarrow> 'a list" where
  "in_range i j xs =
     take (range_stop j (length xs) - range_start i (length xs)) (drop (range_start i (length xs)) xs)"

definition out_of_range :: "int \<Rightarrow> int \<Rightarrow> 'a list \<Rightarrow> 'a list" where
  "out_of_range i j xs =
     take (range_start i (length xs)) xs @
     drop (max (range_start i (length xs)) (range_stop j (length xs))) xs"

text \<open>A sorted set is its list of scores and members, in ascending order.\<close>

record db =
  db_hashes :: "string \<Rightarrow> string \<Rightarrow> string option"
  db_sets :: "string \<Rightarrow> string set"
  db_zsets :: "string \<Rightarrow> (int \<times> string) list"
  db_lists :: "string \<Rightarrow> string list"
  db_ttl :: "string \<Rightarrow> int option"
  db_published :: "(string \<times> string) list"

definition present :: "db \<Rightarrow> string \<Rightarrow> bool" where
  "present d k \<longleftrightarrow>
     db_hashes d k \<noteq> Map.empty \<or> db_sets d k \<noteq> {} \<or> db_zsets d k \<noteq> [] \<or> db_lists d k \<noteq> []"

definition expired :: "string \<Rightarrow> db \<Rightarrow> db" where
  "expired k d =
     d\<lparr>db_hashes := (db_hashes d)(k := Map.empty), db_sets := (db_sets d)(k := {}),
       db_zsets := (db_zsets d)(k := []), db_lists := (db_lists d)(k := []),
       db_ttl := (db_ttl d)(k := None)\<rparr>"

text \<open>The time to live of a key goes with its last element.\<close>

definition ttl_settled :: "string \<Rightarrow> db \<Rightarrow> db" where
  "ttl_settled k d = (if present d k then d else d\<lparr>db_ttl := (db_ttl d)(k := None)\<rparr>)"

definition zput :: "string \<Rightarrow> int \<Rightarrow> (int \<times> string) list \<Rightarrow> (int \<times> string) list" where
  "zput m s z = insort (s, m) (filter (\<lambda>p. snd p \<noteq> m) z)"

fun cmd_effect :: "redis_cmd \<Rightarrow> db \<Rightarrow> db" where
  "cmd_effect (Delete k) d = expired k d"
| "cmd_effect (Expire k t) d =
     (if \<not> present d k then d
      else if 0 < t then d\<lparr>db_ttl := (db_ttl d)(k \<mapsto> t)\<rparr>
      else expired k d)"
| "cmd_effect (Hset k h) d = d\<lparr>db_hashes := (db_hashes d)(k := db_hashes d k ++ map_of h)\<rparr>"
| "cmd_effect (Hdel k fs) d =
     ttl_settled k (d\<lparr>db_hashes := (db_hashes d)(k := db_hashes d k |` (- set fs))\<rparr>)"
| "cmd_effect (Sadd k m) d = d\<lparr>db_sets := (db_sets d)(k := insert m (db_sets d k))\<rparr>"
| "cmd_effect (Srem k m) d = ttl_settled k (d\<lparr>db_sets := (db_sets d)(k := db_sets d k - {m})\<rparr>)"
| "cmd_effect (Zadd k m s) d = d\<lparr>db_zsets := (db_zsets d)(k := zput m s (db_zsets d k))\<rparr>"
| "cmd_effect (Zremrangebyrank k i j) d =
     ttl_settled k (d\<lparr>db_zsets := (db_zsets d)(k := out_of_range i j (db_zsets d k))\<rparr>)"
| "cmd_effect (Lpush k v) d = d\<lparr>db_lists := (db_lists d)(k := v # db_lists d k)\<rparr>"
| "cmd_effect (Publish c m) d = d\<lparr>db_published := db_published d @ [(c, m)]\<rparr>"
| "cmd_effect _ d = d"

definition lists_set :: "reply \<Rightarrow> string set \<Rightarrow> bool" where
  "lists_set r S \<longleftrightarrow> (\<exists>ms. r = RTexts ms \<and> distinct ms \<and> set ms = S)"

definition lists_map :: "reply \<Rightarrow> (string \<Rightarrow> string option) \<Rightarrow> bool" where
  "lists_map r h \<longleftrightarrow> (\<exists>ps. r = RDict ps \<and> distinct (map fst ps) \<and> map_of ps = h)"

text \<open>What the reply to a command says of the data base the command finds.\<close>

fun answers :: "db \<Rightarrow> redis_cmd \<Rightarrow> reply \<Rightarrow> bool" where
  "answers d Ping r \<longleftrightarrow> r = RInt 1"
| "answers d (Exists k) r \<longleftrightarrow> r = RInt (if present d k then 1 else 0)"
| "answers d (Hget k f) r \<longleftrightarrow> r = RText (db_hashes d k f)"
| "answers d (Hgetall k) r \<longleftrightarrow> lists_map r (db_hashes d k)"
| "answers d (Smembers k) r \<longleftrightarrow> lists_set r (db_sets d k)"
| "answers d (Scard k) r \<longleftrightarrow> r = RInt (int (card (db_sets d k)))"
| "answers d (Zcard k) r \<longleftrightarrow> r = RInt (int (length (db_zsets d k)))"
| "answers d (Zrangebyscore k lo) r \<longleftrightarrow>
     r = RTexts (map snd (filter (\<lambda>p. lo \<le> fst p) (db_zsets d k)))"
| "answers d (Zrevrange k i j) r \<longleftrightarrow> r = RTexts (map snd (in_range i j (rev (db_zsets d k))))"
| "answers d (Lrange k i j) r \<longleftrightarrow> r = RTexts (in_range i j (db_lists d k))"
| "answers d _ r \<longleftrightarrow> (\<exists>i. r = RInt i)"

fun run_effects :: "redis_cmd list \<Rightarrow> db \<Rightarrow> db" where
  "run_effects [] d = d"
| "run_effects (c # cs) d = run_effects cs (cmd_effect c d)"

fun all_answers :: "db \<Rightarrow> redis_cmd list \<Rightarrow> reply list \<Rightarrow> bool" where
  "all_answers d [] rs \<longleftrightarrow> rs = []"
| "all_answers d (c # cs) rs \<longleftrightarrow>
     (case rs of [] \<Rightarrow> False | r # rs' \<Rightarrow> answers d c r \<and> all_answers (cmd_effect c d) cs rs')"

section \<open>A connection\<close>

text \<open>
  The environment holds what is not code of the repository: the client, \<^verbatim>\<open>uuid4().hex\<close>, the
  order in which a Python set of strings is iterated, and the local time zone (in microseconds,
  used only by \<^verbatim>\<open>timestamp()\<close> of a naive value).  The clock stands still within a method.
\<close>

record 'x cmd_env =
  ce_exec :: "redis_cmd list \<Rightarrow> ('x, reply list) io"
  ce_hex :: "nat \<Rightarrow> string"
  ce_iter :: "string list \<Rightarrow> string list"
  ce_local :: "int \<Rightarrow> int"

record 'x conn =
  cn_redis :: 'x
  cn_now :: int
  cn_uuids :: nat

definition pipeline :: "'x cmd_env \<Rightarrow> redis_cmd list \<Rightarrow> ('x conn, reply list) io" where
  "pipeline E cs w =
     (let (r, x) = ce_exec E cs (cn_redis w) in (r, w\<lparr>cn_redis := x\<rparr>))"

definition reply_at :: "nat \<Rightarrow> reply list \<Rightarrow> reply" where
  "reply_at n rs = (if n < length rs then rs ! n else RInt 0)"

definition command :: "'x cmd_env \<Rightarrow> (reply \<Rightarrow> 'a) \<Rightarrow> redis_cmd \<Rightarrow> ('x conn, 'a) io" where
  "command E conv c = bindE (pipeline E [c]) (\<lambda>rs. ret (conv (reply_at 0 rs)))"

definition now_us :: "('x conn, int) io" where
  "now_us w = (Inr (cn_now w), w)"

definition new_hex :: "'x cmd_env \<Rightarrow> ('x conn, string) io" where
  "new_hex E w = (Inr (ce_hex E (cn_uuids w)), w\<lparr>cn_uuids := Suc (cn_uuids w)\<rparr>)"

definition redis_error :: "exn_class \<Rightarrow> bool" where
  "redis_error c \<longleftrightarrow> isinstance_exn c RedisRedisError"

lemma redis_error_simps [simp]:
  "redis_error RedisRedisError" "\<not> redis_error CoordinationError" "\<not> redis_error PublishError"
  "\<not> redis_error PyValueError" "\<not> redis_error PyKeyError" "\<not> redis_error PyTypeError"
  "\<not> redis_error PyAttributeError"
  by (simp_all add: redis_error_def isinstance_exn_def eval_nat_numeral)

section \<open>Weakest preconditions\<close>

definition wp ::
  "('s, 'a) io \<Rightarrow> 's \<Rightarrow> ('a \<Rightarrow> 's \<Rightarrow> bool) \<Rightarrow> (exn \<Rightarrow> 's \<Rightarrow> bool) \<Rightarrow> bool" where
  "wp m s Q F \<longleftrightarrow> (case fst (m s) of Inr v \<Rightarrow> Q v (snd (m s)) | Inl e \<Rightarrow> F e (snd (m s)))"

lemma wp_ret [wp_simps]: "wp (ret v) s Q F \<longleftrightarrow> Q v s"
  and wp_raise [wp_simps]: "wp (raise e) s Q F \<longleftrightarrow> F e s"
  by (simp_all add: wp_def)

lemma wp_lift_result [wp_simps]:
  "wp (lift_result r) s Q F \<longleftrightarrow> (case r of Inr v \<Rightarrow> Q v s | Inl e \<Rightarrow> F e s)"
  by (cases r) (simp_all add: wp_def)

lemma wp_bindE [wp_simps]: "wp (bindE m f) s Q F \<longleftrightarrow> wp m s (\<lambda>v s'. wp (f v) s' Q F) F"
  by (auto simp: wp_def bindE_def split: sum.splits)

lemma wp_thenE [wp_simps]: "wp (thenE m n) s Q F \<longleftrightarrow> wp m s (\<lambda>_ s'. wp n s' Q F) F"
  by (simp add: thenE_def wp_bindE)

lemma wp_try_except [wp_simps]:
  "wp (try_except m p h) s Q F \<longleftrightarrow>
     wp m s Q (\<lambda>e s'. if p (class_of e) then wp (h e) s' Q F else F e s')"
  by (auto simp: wp_def try_except_def split: sum.splits)

lemma wp_now_us [wp_simps]: "wp now_us w Q F \<longleftrightarrow> Q (cn_now w) w"
  by (simp add: wp_def now_us_def)

lemma wp_new_hex [wp_simps]:
  "wp (new_hex E) w Q F \<longleftrightarrow> Q (ce_hex E (cn_uuids w)) (w\<lparr>cn_uuids := Suc (cn_uuids w)\<rparr>)"
  by (simp add: wp_def new_hex_def)

lemma wp_mono:
  assumes "wp m s Q F" "\<And>v s'. Q v s' \<Longrightarrow> Q' v s'" "\<And>e s'. F e s' \<Longrightarrow> F' e s'"
  shows "wp m s Q' F'"
  using assms by (auto simp: wp_def split: sum.splits)

lemma wpD: "wp m s Q F \<Longrightarrow> (\<exists>v. fst (m s) = Inr v \<and> Q v (snd (m s))) \<or> (\<exists>e. fst (m s) = Inl e \<and> F e (snd (m s)))"
  by (auto simp: wp_def split: sum.splits)

lemma wp_succeeds: "wp m s Q (\<lambda>e s'. False) \<Longrightarrow> \<exists>v. fst (m s) = Inr v \<and> Q v (snd (m s))"
  by (auto simp: wp_def split: sum.splits)

lemma wp_fails: "wp m s (\<lambda>v s'. False) F \<Longrightarrow> \<exists>e. fst (m s) = Inl e \<and> F e (snd (m s))"
  by (auto simp: wp_def split: sum.splits)

text \<open>A loop over a list whose body reads only.\<close>

lemma wp_collect:
  assumes "I s" "\<And>x s'. x \<in> set xs \<Longrightarrow> I s' \<Longrightarrow> wp (body x) s' (\<lambda>v s''. v = f x \<and> I s'') F"
    and "\<And>s'. I s' \<Longrightarrow> Q (map f xs) s'"
  shows "wp (collect xs body) s Q F"
  using assms
proof (induction xs arbitrary: s Q)
  case (Cons x xs)
  have "wp (collect xs body) s' (\<lambda>ys s''. Q (f x # ys) s'') F" if "I s'" for s'
    by (rule Cons.IH) (use that Cons.prems in auto)
  moreover have "wp (body x) s (\<lambda>v s''. v = f x \<and> I s'') F"
    using Cons.prems(1,2) by auto
  ultimately show ?case
    by (auto simp: wp_simps intro: wp_mono)
qed (simp add: wp_ret)

section \<open>The contract of the client\<close>

text \<open>
  \<open>up x\<close> says that calls succeed in the state \<open>x\<close> of the client; \<open>kv\<close> is the data base it is
  connected to.
\<close>

definition connected ::
  "('x \<Rightarrow> bool) \<Rightarrow> ('x \<Rightarrow> db) \<Rightarrow> 'x conn \<Rightarrow> db \<Rightarrow> int \<Rightarrow> nat \<Rightarrow> bool" where
  "connected up kv w d t n \<longleftrightarrow>
     up (cn_redis w) \<and> kv (cn_redis w) = d \<and> cn_now w = t \<and> cn_uuids w = n"

locale redis_exec =
  fixes exec :: "redis_cmd list \<Rightarrow> ('x, reply list) io" and up :: "'x \<Rightarrow> bool" and kv :: "'x \<Rightarrow> db"
  assumes exec_answers: "up x \<Longrightarrow> \<exists>rs. fst (exec cs x) = Inr rs \<and> all_answers (kv x) cs rs"
    and exec_effect: "up x \<Longrightarrow> kv (snd (exec cs x)) = run_effects cs (kv x)"
    and exec_up: "up x \<Longrightarrow> up (snd (exec cs x))"
    and exec_error: "fst (exec cs x) = Inl e \<Longrightarrow> redis_error (class_of e)"
begin

lemma wp_pipeline:
  assumes "ce_exec E = exec" "connected up kv w d t n"
    and "\<And>rs w'. all_answers d cs rs \<Longrightarrow> connected up kv w' (run_effects cs d) t n \<Longrightarrow> Q rs w'"
  shows "wp (pipeline E cs) w Q F"
proof -
  obtain r x where e: "exec cs (cn_redis w) = (r, x)" by (cases "exec cs (cn_redis w)")
  have u: "up (cn_redis w)" "kv (cn_redis w) = d" using assms(2) by (simp_all add: connected_def)
  obtain rs where "r = Inr rs" "all_answers d cs rs"
    using exec_answers [OF u(1), of cs] by (auto simp: e u)
  moreover have "connected up kv (w\<lparr>cn_redis := x\<rparr>) (run_effects cs d) t n"
    using exec_effect [OF u(1), of cs] exec_up [OF u(1), of cs] assms(2) by (simp add: e connected_def)
  ultimately show ?thesis using assms(3) by (simp add: wp_def pipeline_def assms(1) e)
qed

lemma wp_command:
  assumes "ce_exec E = exec" "connected up kv w d t n"
    and "\<And>r w'. answers d c r \<Longrightarrow> connected up kv w' (cmd_effect c d) t n \<Longrightarrow> Q (conv r) w'"
  shows "wp (command E conv c) w Q F"
  unfolding command_def wp_simps
  by (rule wp_pipeline [OF assms(1,2)])
    (auto simp: reply_at_def wp_simps intro: assms(3) split: list.splits)

text \<open>Without the connection: a call that fails raises a \<^verbatim>\<open>RedisError\<close>.\<close>

lemma wp_command_any:
  assumes "ce_exec E = exec" "\<And>v w'. Q v w'" "\<And>e w'. redis_error (class_of e) \<Longrightarrow> F e w'"
  shows "wp (command E conv c) w Q F"
  using assms exec_error [of "[c]" "cn_redis w"]
  by (auto simp: command_def wp_def pipeline_def bindE_def split: sum.splits prod.splits)

end

section \<open>A reference server\<close>

record memdb =
  md_hashes :: "string \<Rightarrow> string pydict"
  md_sets :: "string \<Rightarrow> string list"
  md_zsets :: "string \<Rightarrow> (int \<times> string) list"
  md_lists :: "string \<Rightarrow> string list"
  md_ttl :: "string \<Rightarrow> int option"
  md_published :: "(string \<times> string) list"

definition empty_memdb :: memdb where
  "empty_memdb =
     \<lparr>md_hashes = (\<lambda>_. []), md_sets = (\<lambda>_. []), md_zsets = (\<lambda>_. []), md_lists = (\<lambda>_. []),
      md_ttl = (\<lambda>_. None), md_published = []\<rparr>"

definition memdb_abs :: "memdb \<Rightarrow> db" where
  "memdb_abs m =
     \<lparr>db_hashes = (\<lambda>k. map_of (md_hashes m k)), db_sets = (\<lambda>k. set (md_sets m k)),
      db_zsets = md_zsets m, db_lists = md_lists m, db_ttl = md_ttl m, db_published = md_published m\<rparr>"

definition md_present :: "memdb \<Rightarrow> string \<Rightarrow> bool" where
  "md_present m k \<longleftrightarrow> md_hashes m k \<noteq> [] \<or> md_sets m k \<noteq> [] \<or> md_zsets m k \<noteq> [] \<or> md_lists m k \<noteq> []"

definition md_settled :: "string \<Rightarrow> memdb \<Rightarrow> memdb" where
  "md_settled k m = (if md_present m k then m else m\<lparr>md_ttl := (md_ttl m)(k := None)\<rparr>)"

fun dput_all :: "'v pydict \<Rightarrow> 'v pydict \<Rightarrow> 'v pydict" where
  "dput_all [] d = d"
| "dput_all (p # ps) d = dset (fst p) (snd p) (dput_all ps d)"

definition md_deleted :: "string \<Rightarrow> memdb \<Rightarrow> memdb" where
  "md_deleted k m =
     m\<lparr>md_hashes := (md_hashes m)(k := []), md_sets := (md_sets m)(k := []),
       md_zsets := (md_zsets m)(k := []), md_lists := (md_lists m)(k := []), md_ttl := (md_ttl m)(k := None)\<rparr>"

fun md_effect :: "redis_cmd \<Rightarrow> memdb \<Rightarrow> memdb" where
  "md_effect (Delete k) m = md_deleted k m"
| "md_effect (Expire k t) m =
     (if \<not> md_present m k then m
      else if 0 < t then m\<lparr>md_ttl := (md_ttl m)(k \<mapsto> t)\<rparr>
      else md_deleted k m)"
| "md_effect (Hset k h) m = m\<lparr>md_hashes := (md_hashes m)(k := dput_all h (md_hashes m k))\<rparr>"
| "md_effect (Hdel k fs) m =
     md_settled k (m\<lparr>md_hashes := (md_hashes m)(k := filter (\<lambda>p. fst p \<notin> set fs) (md_hashes m k))\<rparr>)"
| "md_effect (Sadd k e) m = m\<lparr>md_sets := (md_sets m)(k := List.insert e (md_sets m k))\<rparr>"
| "md_effect (Srem k e) m = md_settled k (m\<lparr>md_sets := (md_sets m)(k := removeAll e (md_sets m k))\<rparr>)"
| "md_effect (Zadd k e s) m = m\<lparr>md_zsets := (md_zsets m)(k := zput e s (md_zsets m k))\<rparr>"
| "md_effect (Zremrangebyrank k i j) m =
     md_settled k (m\<lparr>md_zsets := (md_zsets m)(k := out_of_range i j (md_zsets m k))\<rparr>)"
| "md_effect (Lpush k v) m = m\<lparr>md_lists := (md_lists m)(k := v # md_lists m k)\<rparr>"
| "md_effect (Publish c v) m = m\<lparr>md_published := md_published m @ [(c, v)]\<rparr>"
| "md_effect _ m = m"

fun md_reply :: "redis_cmd \<Rightarrow> memdb \<Rightarrow> reply" where
  "md_reply Ping m = RInt 1"
| "md_reply (Exists k) m = RInt (if md_present m k then 1 else 0)"
| "md_reply (Hget k f) m = RText (map_of (md_hashes m k) f)"
| "md_reply (Hgetall k) m =
     RDict (map (\<lambda>f. (f, dget (md_hashes m k) f [])) (remdups (map fst (md_hashes m k))))"
| "md_reply (Smembers k) m = RTexts (remdups (md_sets m k))"
| "md_reply (Scard k) m = RInt (int (length (remdups (md_sets m k))))"
| "md_reply (Zcard k) m = RInt (int (length (md_zsets m k)))"
| "md_reply (Zrangebyscore k lo) m = RTexts (map snd (filter (\<lambda>p. lo \<le> fst p) (md_zsets m k)))"
| "md_reply (Zrevrange k i j) m = RTexts (map snd (in_range i j (rev (md_zsets m k))))"
| "md_reply (Lrange k i j) m = RTexts (in_range i j (md_lists m k))"
| "md_reply _ m = RInt 1"

fun md_exec :: "redis_cmd list \<Rightarrow> (memdb, reply list) io" where
  "md_exec [] m = (Inr [], m)"
| "md_exec (c # cs) m =
     (case md_exec cs (md_effect c m) of
        (Inr rs, m') \<Rightarrow> (Inr (md_reply c m # rs), m')
      | (Inl e, m') \<Rightarrow> (Inl e, m'))"

lemma map_of_dput_all [simp]: "map_of (dput_all ps d) = map_of d ++ map_of ps"
  by (induction ps) (auto simp: fun_eq_iff map_add_def split: option.splits)

lemma md_present_abs [simp]: "present (memdb_abs m) k = md_present m k"
  by (auto simp: present_def md_present_def memdb_abs_def)

lemma md_settled_abs: "memdb_abs (md_settled k m) = ttl_settled k (memdb_abs m)"
  by (simp add: md_settled_def ttl_settled_def) (simp add: memdb_abs_def)

lemma md_deleted_abs: "memdb_abs (md_deleted k m) = expired k (memdb_abs m)"
  by (simp add: md_deleted_def expired_def memdb_abs_def fun_eq_iff)

lemma map_of_filter_keys: "map_of (filter (\<lambda>p. fst p \<notin> S) d) = map_of d |` (- S)"
  by (induction d) (auto simp: fun_eq_iff restrict_map_def)

lemma md_effect_abs: "memdb_abs (md_effect c m) = cmd_effect c (memdb_abs m)"
proof (cases c)
  case (Hdel k fs)
  have "memdb_abs (md_effect c m) =
    ttl_settled k (memdb_abs (m\<lparr>md_hashes := (md_hashes m)(k := filter (\<lambda>p. fst p \<notin> set fs) (md_hashes m k))\<rparr>))"
    by (simp add: Hdel md_settled_abs)
  also have "memdb_abs (m\<lparr>md_hashes := (md_hashes m)(k := filter (\<lambda>p. fst p \<notin> set fs) (md_hashes m k))\<rparr>) =
    (memdb_abs m)\<lparr>db_hashes := (db_hashes (memdb_abs m))(k := db_hashes (memdb_abs m) k |` (- set fs))\<rparr>"
    by (simp add: memdb_abs_def fun_eq_iff map_of_filter_keys)
  finally show ?thesis by (simp add: Hdel)
next
  case (Expire k t)
  have "memdb_abs (m\<lparr>md_ttl := (md_ttl m)(k \<mapsto> t)\<rparr>) = (memdb_abs m)\<lparr>db_ttl := (db_ttl (memdb_abs m))(k \<mapsto> t)\<rparr>"
    by (simp add: memdb_abs_def)
  then show ?thesis by (simp add: Expire md_deleted_abs)
next
  case (Srem k e)
  have "memdb_abs (m\<lparr>md_sets := (md_sets m)(k := removeAll e (md_sets m k))\<rparr>) =
    (memdb_abs m)\<lparr>db_sets := (db_sets (memdb_abs m))(k := db_sets (memdb_abs m) k - {e})\<rparr>"
    by (simp add: memdb_abs_def fun_eq_iff)
  then show ?thesis by (simp add: Srem md_settled_abs)
next
  case (Zremrangebyrank k i j)
  have "memdb_abs (m\<lparr>md_zsets := (md_zsets m)(k := out_of_range i j (md_zsets m k))\<rparr>) =
    (memdb_abs m)\<lparr>db_zsets := (db_zsets (memdb_abs m))(k := out_of_range i j (db_zsets (memdb_abs m) k))\<rparr>"
    by (simp add: memdb_abs_def)
  then show ?thesis by (simp add: Zremrangebyrank md_settled_abs)
next
  case (Delete k)
  then show ?thesis by (simp add: md_deleted_abs)
qed (auto simp: memdb_abs_def fun_eq_iff)

lemma md_reply_abs: "answers (memdb_abs m) c (md_reply c m)"
proof (cases c)
  case (Hgetall k)
  let ?d = "md_hashes m k" and ?r = "map (\<lambda>f. (f, dget (md_hashes m k) f [])) (remdups (map fst (md_hashes m k)))"
  have "map_of ?r f = map_of ?d f" for f
  proof (cases "map_of ?d f")
    case None
    then have "f \<notin> set (map fst ?d)" by (simp add: map_of_eq_None_iff)
    then show ?thesis by (simp add: None map_of_eq_None_iff image_image)
  next
    case (Some v)
    then have "f \<in> set (remdups (map fst ?d))" by (force dest: map_of_SomeD)
    then have "(f, v) \<in> set ?r" using Some by (force simp: dget_def)
    then show ?thesis
      using Some by (simp add: map_of_eq_Some_iff comp_def)
  qed
  then show ?thesis by (simp add: Hgetall lists_map_def memdb_abs_def fun_eq_iff comp_def)
next
  case (Exists k)
  then show ?thesis by simp
qed (simp_all add: lists_set_def memdb_abs_def card_set)

lemma md_exec_answers:
  "\<exists>rs. md_exec cs m = (Inr rs, snd (md_exec cs m)) \<and> all_answers (memdb_abs m) cs rs \<and>
     memdb_abs (snd (md_exec cs m)) = run_effects cs (memdb_abs m)"
proof (induction cs arbitrary: m)
  case (Cons c cs)
  from Cons.IH [of "md_effect c m"] obtain rs where
    "md_exec cs (md_effect c m) = (Inr rs, snd (md_exec cs (md_effect c m)))"
    "all_answers (cmd_effect c (memdb_abs m)) cs rs"
    "memdb_abs (snd (md_exec cs (md_effect c m))) = run_effects cs (cmd_effect c (memdb_abs m))"
    by (auto simp: md_effect_abs)
  then show ?case
    by (cases "md_exec cs (md_effect c m)") (auto simp: md_reply_abs)
qed simp

interpretation md: redis_exec md_exec "\<lambda>_. True" memdb_abs
proof unfold_locales
  fix cs x and e :: exn
  show "\<exists>rs. fst (md_exec cs x) = Inr rs \<and> all_answers (memdb_abs x) cs rs"
    "memdb_abs (snd (md_exec cs x)) = run_effects cs (memdb_abs x)"
    using md_exec_answers [of cs x] by (auto simp: prod_eq_iff)
  show "redis_error (class_of e)" if "fst (md_exec cs x) = Inl e"
    using md_exec_answers [of cs x] that by (auto simp: prod_eq_iff)
qed simp

text \<open>The environment of the methods: the client, and the iteration order of sets.\<close>

locale cmd_world = redis_exec "ce_exec E" up kv
  for E :: "'x cmd_env" and up :: "'x \<Rightarrow> bool" and kv :: "'x \<Rightarrow> db" +
  assumes iter: "distinct l \<Longrightarrow> set (ce_iter E l) = set l \<and> distinct (ce_iter E l)"

definition md_env :: "memdb cmd_env" where
  "md_env = \<lparr>ce_exec = md_exec, ce_hex = (\<lambda>n. replicate 8 (CHR ''a'') @ nat_str n),
             ce_iter = (\<lambda>l. l), ce_local = (\<lambda>_. 0)\<rparr>"

interpretation mdw: cmd_world md_env "\<lambda>_. True" memdb_abs
  by (simp add: cmd_world_def cmd_world_axioms_def md_env_def md.redis_exec_axioms)

lemma connectedD:
  assumes "connected up kv w d t n"
  shows "up (cn_redis w)" "kv (cn_redis w) = d" "cn_now w = t" "cn_uuids w = n"
  using assms by (simp_all add: connected_def)

lemma connected_md: "connected (\<lambda>_. True) memdb_abs w d t n \<longleftrightarrow>
    memdb_abs (cn_redis w) = d \<and> cn_now w = t \<and> cn_uuids w = n"
  by (simp add: connected_def)

lemma run_effects_append: "run_effects (xs @ ys) d = run_effects ys (run_effects xs d)"
  by (induction xs arbitrary: d) simp_all

end
