(* ===== verification/Coordination.thy ===== *)
theory Coordination
  imports Coord_Types Redis_Cmds
begin

text \<open>
  The coordination client (\<^verbatim>\<open>src/infrastructure/coordination/client.py\<close>): publishing, querying and
  acknowledging messages, presence of instances, queued notifications and subscriptions.  A
  method issues commands and pipelines on the connection of \<open>Redis_Cmds\<close> and turns their
  failures into exceptions of the program.  The lemmas say which hashes read as a message; the
  effects of the methods are in \<open>Coord_Effects\<close>.
\<close>

section \<open>The client and its connection\<close>

record coord_client =
  cl_config :: coord_config
  cl_instance :: "string option"
  cl_connected :: bool
  cl_correlation :: "string option"

definition new_client :: "coord_config \<Rightarrow> string option \<Rightarrow> coord_client" where
  "new_client c i = \<lparr>cl_config = c, cl_instance = i, cl_connected = False, cl_correlation = None\<rparr>"

definition set_correlation_id :: "string \<Rightarrow> coord_client \<Rightarrow> coord_client" where
  "set_correlation_id i cl = cl\<lparr>cl_correlation := Some i\<rparr>"

definition clear_correlation_id :: "coord_client \<Rightarrow> coord_client" where
  "clear_correlation_id cl = cl\<lparr>cl_correlation := None\<rparr>"

text \<open>The answer of the health check; the latency is zero as the clock stands still.\<close>

datatype health = Healthy string | Unhealthy string

definition health_check :: "'x cmd_env \<Rightarrow> coord_config \<Rightarrow> ('x conn, health) io" where
  "health_check E c =
     try_except
       (bindE (command E (\<lambda>r. int_of_reply r \<noteq> 0) Ping) (\<lambda>pong.
          ret (if pong then Healthy (cc_key_prefix c) else Unhealthy ''PING returned unexpected response'')))
       redis_error
       (\<lambda>e. ret (Unhealthy (message_of e)))"

definition client_enter :: "'x cmd_env \<Rightarrow> coord_client \<Rightarrow> ('x conn, coord_client) io" where
  "client_enter E cl =
     try_except
       (bindE (health_check E (cl_config cl)) (\<lambda>h.
          case h of
            Unhealthy _ \<Rightarrow> raise (Exn CoordinationError ''Redis connection failed on context entry'')
          | Healthy _ \<Rightarrow> ret (cl\<lparr>cl_connected := True\<rparr>)))
       redis_error
       (\<lambda>e. raise (Exn CoordinationError (''Failed to connect to Redis: '' @ message_of e)))"

definition client_exit :: "coord_client \<Rightarrow> coord_client" where
  "client_exit cl = cl\<lparr>cl_connected := False, cl_correlation := None\<rparr>"

text \<open>\<^verbatim>\<open>except redis.RedisError as e: raise C(f"...{e}") from e\<close>\<close>

definition translating :: "exn_class \<Rightarrow> string \<Rightarrow> ('s, 'a) io \<Rightarrow> ('s, 'a) io" where
  "translating C msg m = try_except m redis_error (\<lambda>e. raise (Exn C (msg @ message_of e)))"

section \<open>Presence\<close>

text \<open>\<^verbatim>\<open>key.rsplit(".", 1)\<close>, when the key has a dot.\<close>

definition rsplit_dot :: "string \<Rightarrow> (string \<times> string) option" where
  "rsplit_dot s =
     (if CHR ''.'' \<in> set s
      then Some (rev (tl (dropWhile (\<lambda>c. c \<noteq> CHR ''.'') (rev s))), rev (takeWhile (\<lambda>c. c \<noteq> CHR ''.'') (rev s)))
      else None)"

definition register_instance ::
  "'x cmd_env \<Rightarrow> coord_config \<Rightarrow> string \<Rightarrow> string option \<Rightarrow> ('x conn, unit) io" where
  "register_instance E c i sess =
     bindE now_us (\<lambda>now.
     translating PresenceError ''Failed to register instance: ''
       (command E (\<lambda>_. ())
         (Hset (presence_key c)
           ([(i @ ''.active'', ''1''), (i @ ''.last_heartbeat'', strftime_z (utc_datetime now))] @
            opt_field (i @ ''.session_id'') sess))))"

definition heartbeat :: "'x cmd_env \<Rightarrow> coord_config \<Rightarrow> string \<Rightarrow> ('x conn, unit) io" where
  "heartbeat E c i =
     bindE now_us (\<lambda>now.
     translating PresenceError ''Failed to update heartbeat: ''
       (command E (\<lambda>_. ())
         (Hset (presence_key c) [(i @ ''.last_heartbeat'', strftime_z (utc_datetime now))])))"

definition unregister_instance :: "'x cmd_env \<Rightarrow> coord_config \<Rightarrow> string \<Rightarrow> ('x conn, unit) io" where
  "unregister_instance E c i =
     translating PresenceError ''Failed to unregister instance: ''
       (command E (\<lambda>_. ())
         (Hdel (presence_key c) [i @ ''.active'', i @ ''.last_heartbeat'', i @ ''.session_id'']))"

text \<open>The fields of the hash, grouped by instance in the order in which they are met.\<close>

fun group_fields :: "string pydict \<Rightarrow> string pydict pydict \<Rightarrow> string pydict pydict" where
  "group_fields [] acc = acc"
| "group_fields (p # ps) acc =
     group_fields ps
       (case rsplit_dot (fst p) of
          None \<Rightarrow> acc
        | Some (i, f) \<Rightarrow> dset i (dset f (snd p) (dget acc i [])) acc)"

definition presence_of_fields :: "int \<Rightarrow> int \<Rightarrow> string \<Rightarrow> string pydict \<Rightarrow> exn + presence_info" where
  "presence_of_fields now timeout i fs =
     bind_sum
       (let s = dget fs ''last_heartbeat'' []
        in if s \<noteq> [] then parse_stamp_anywhere s else Inr (utc_datetime now)) (\<lambda>hb.
     let p = \<lparr>pi_instance = i, pi_active = (dget fs ''active'' ''0'' = ''1''), pi_last_heartbeat = hb,
              pi_session = map_of fs ''session_id''\<rparr>
     in Inr (if is_stale now timeout p then p\<lparr>pi_active := False\<rparr> else p))"

fun presence_infos :: "int \<Rightarrow> int \<Rightarrow> string pydict pydict \<Rightarrow> exn + presence_info pydict" where
  "presence_infos now timeout [] = Inr []"
| "presence_infos now timeout (g # gs) =
     bind_sum (presence_of_fields now timeout (fst g) (snd g)) (\<lambda>p.
     bind_sum (presence_infos now timeout gs) (\<lambda>ps. Inr ((fst g, p) # ps)))"

definition presence_timeout :: "coord_config \<Rightarrow> int option \<Rightarrow> int" where
  "presence_timeout c t =
     (case t of None \<Rightarrow> cc_presence_timeout_minutes c
      | Some m \<Rightarrow> if m = 0 then cc_presence_timeout_minutes c else m)"

definition get_presence ::
  "'x cmd_env \<Rightarrow> coord_config \<Rightarrow> int option \<Rightarrow> ('x conn, presence_info pydict) io" where
  "get_presence E c t =
     translating PresenceError ''Failed to get presence: ''
       (bindE (command E dict_of_reply (Hgetall (presence_key c))) (\<lambda>h.
        bindE now_us (\<lambda>now.
        lift_result (presence_infos now (presence_timeout c t) (group_fields h [])))))"

definition get_stats :: "'x cmd_env \<Rightarrow> coord_config \<Rightarrow> ('x conn, coord_stats) io" where
  "get_stats E c =
     translating CoordinationError ''Failed to get stats: ''
       (bindE (pipeline E [Zcard (timeline_key c), Scard (pending_key c)]) (\<lambda>rs.
        bindE (get_presence E c None) (\<lambda>ps.
        let act = map (pi_instance \<circ> snd) (filter (pi_active \<circ> snd) ps)
        in ret \<lparr>cs_total_messages = int_of_reply (reply_at 0 rs),
                cs_pending_messages = int_of_reply (reply_at 1 rs), cs_messages_by_type = [],
                cs_active_instances = int (length act), cs_instance_names = act\<rparr>)))"

section \<open>Queued notifications\<close>

definition queue_notification ::
  "'x cmd_env \<Rightarrow> coord_config \<Rightarrow> string \<Rightarrow> notification \<Rightarrow> ('x conn, bool) io" where
  "queue_notification E c i n =
     translating CoordinationError ''Failed to queue notification: ''
       (bindE (pipeline E
          [Lpush (notification_queue_key c i) (notification_to_json n),
           Expire (notification_queue_key c i) (message_ttl_seconds c)]) (\<lambda>_. ret True))"

text \<open>Entries that do not parse are skipped; other exceptions end the call.\<close>

definition skipped_parse_error :: "exn_class \<Rightarrow> bool" where
  "skipped_parse_error c \<longleftrightarrow> isinstance_exn c PyValueError \<or> isinstance_exn c PyKeyError"

fun parse_notifications :: "string list \<Rightarrow> exn + notification list" where
  "parse_notifications [] = Inr []"
| "parse_notifications (s # ss) =
     (case notification_of_json s of
        Inr n \<Rightarrow> bind_sum (parse_notifications ss) (\<lambda>ns. Inr (n # ns))
      | Inl e \<Rightarrow> if skipped_parse_error (class_of e) then parse_notifications ss else Inl e)"

definition pop_notifications ::
  "'x cmd_env \<Rightarrow> coord_config \<Rightarrow> string \<Rightarrow> int \<Rightarrow> ('x conn, notification list) io" where
  "pop_notifications E c i limit =
     translating CoordinationError ''Failed to pop notifications: ''
       (bindE (pipeline E
          [Lrange (notification_queue_key c i) 0 (limit - 1), Delete (notification_queue_key c i)]) (\<lambda>rs.
        lift_result (parse_notifications (texts_of_reply (reply_at 0 rs)))))"

definition queue_if_offline ::
  "'x cmd_env \<Rightarrow> coord_config \<Rightarrow> string \<Rightarrow> notification \<Rightarrow> ('x conn, unit) io" where
  "queue_if_offline E c i n =
     try_except
       (bindE (get_presence E c None) (\<lambda>ps.
          if (case map_of ps i of None \<Rightarrow> True | Some p \<Rightarrow> \<not> pi_active p)
          then bindE (queue_notification E c i n) (\<lambda>_. ret ())
          else ret ()))
       any_exception (\<lambda>e. ret ())"

section \<open>Publishing\<close>

definition new_message ::
  "string \<Rightarrow> message_type \<Rightarrow> string \<Rightarrow> string \<Rightarrow> string \<Rightarrow> string \<Rightarrow> bool \<Rightarrow> int \<Rightarrow> coord_message" where
  "new_message i ty subj descr fr t ra now =
     \<lparr>cm_id = i, cm_type = ty, cm_from = fr, cm_to = t, cm_timestamp = utc_datetime now,
      cm_requires_ack = ra, cm_acknowledged = False,
      cm_payload = \<lparr>mp_subject = subj, mp_description = descr\<rparr>,
      cm_ack_by = None, cm_ack_timestamp = None, cm_ack_comment = None\<rparr>"

definition flag :: "bool \<Rightarrow> string" where
  "flag b = (if b then ''1'' else ''0'')"

definition message_hash :: "coord_message \<Rightarrow> string pydict" where
  "message_hash m =
     [(''id'', cm_id m), (''type'', message_type_value (cm_type m)), (''from'', cm_from m),
      (''to'', cm_to m), (''timestamp'', strftime_z (cm_timestamp m)),
      (''requires_ack'', flag (cm_requires_ack m)), (''acknowledged'', ''0''),
      (''subject'', mp_subject (cm_payload m)), (''description'', mp_description (cm_payload m))]"

definition publish_commands :: "coord_config \<Rightarrow> coord_message \<Rightarrow> redis_cmd list" where
  "publish_commands c m =
     [Hset (message_key c (cm_id m)) (message_hash m),
      Expire (message_key c (cm_id m)) (message_ttl_seconds c),
      Zadd (timeline_key c) (cm_id m) (timestamp_us (cm_timestamp m)),
      Zremrangebyrank (timeline_key c) 0 (- cc_timeline_max_size c - 1),
      Sadd (inbox_key c (cm_to m)) (cm_id m)] @
     (if cm_requires_ack m then [Sadd (pending_key c) (cm_id m)] else []) @
     [Publish (instance_channel c (cm_to m)) (notification_to_json (notification_of_message m)),
      Publish (broadcast_channel c) (notification_to_json (notification_of_message m))]"

definition publish_failed :: "exn \<Rightarrow> ('s, 'a) io" where
  "publish_failed e =
     (if isinstance_exn (class_of e) PublishError then raise e
      else if redis_error (class_of e)
      then raise (Exn PublishError (''Failed to publish message: '' @ message_of e))
      else raise (Exn PublishError (''Unexpected error publishing message: '' @ message_of e)))"

definition store_message :: "'x cmd_env \<Rightarrow> coord_config \<Rightarrow> coord_message \<Rightarrow> ('x conn, coord_message) io" where
  "store_message E c m =
     try_except
       (bindE (command E int_of_reply (Exists (message_key c (cm_id m)))) (\<lambda>n.
          if n \<noteq> 0 then raise (Exn PublishError (''Message ID already exists: '' @ cm_id m))
          else
            bindE (pipeline E (publish_commands c m)) (\<lambda>_.
            thenE (if cm_to m \<noteq> ''all'' then queue_if_offline E c (cm_to m) (notification_of_message m)
                   else ret ())
              (ret m))))
       any_exception publish_failed"

definition generate_message_id :: "'x cmd_env \<Rightarrow> ('x conn, string) io" where
  "generate_message_id E = bindE (new_hex E) (\<lambda>h. ret (''msg-'' @ take 8 h))"

definition publish_message ::
  "'x cmd_env \<Rightarrow> coord_config \<Rightarrow> message_type \<Rightarrow> string \<Rightarrow> string \<Rightarrow> string \<Rightarrow> string \<Rightarrow> bool \<Rightarrow>
   string option \<Rightarrow> ('x conn, coord_message) io" where
  "publish_message E c ty subj descr fr t ra mid =
     bindE (if truthy mid then ret (the mid) else generate_message_id E) (\<lambda>i.
     bindE now_us (\<lambda>now. store_message E c (new_message i ty subj descr fr t ra now)))"

definition check_message_exists :: "'x cmd_env \<Rightarrow> coord_config \<Rightarrow> string \<Rightarrow> ('x conn, bool) io" where
  "check_message_exists E c i = command E (\<lambda>r. int_of_reply r \<noteq> 0) (Exists (message_key c i))"

section \<open>Reading messages\<close>

text \<open>\<^verbatim>\<open>_hash_to_message\<close> reads five fields with \<^verbatim>\<open>h[k]\<close> and the rest with defaults.\<close>

definition hash_to_message :: "string pydict \<Rightarrow> exn + coord_message" where
  "hash_to_message h =
     (let need = (\<lambda>k. case map_of h k of None \<Rightarrow> Inl (Exn PyKeyError k) | Some v \<Rightarrow> Inr v)
      in bind_sum (need ''id'') (\<lambda>i.
         bind_sum (need ''type'') (\<lambda>ty.
         bind_sum (need ''from'') (\<lambda>fr.
         bind_sum (need ''to'') (\<lambda>t.
         bind_sum (need ''timestamp'') (\<lambda>ts.
           message_of_dict
             ([(''id'', JStr i), (''type'', JStr ty), (''from'', JStr fr), (''to'', JStr t),
               (''timestamp'', JStr ts),
               (''requires_ack'', JBool (dget h ''requires_ack'' ''1'' = ''1'')),
               (''acknowledged'', JBool (dget h ''acknowledged'' ''0'' = ''1'')),
               (''payload'', JObj [(''subject'', JStr (dget h ''subject'' [])),
                                   (''description'', JStr (dget h ''description'' []))])] @
              map (\<lambda>p. (fst p, JStr (snd p)))
                (opt_field ''ack_by'' (map_of h ''ack_by'') @
                 opt_field ''ack_timestamp'' (map_of h ''ack_timestamp'') @
                 opt_field ''ack_comment'' (map_of h ''ack_comment'')))))))))"

definition get_message :: "'x cmd_env \<Rightarrow> coord_config \<Rightarrow> string \<Rightarrow> ('x conn, coord_message option) io" where
  "get_message E c i =
     translating CoordinationError ''Failed to get message: ''
       (bindE (command E dict_of_reply (Hgetall (message_key c i))) (\<lambda>h.
          if h = [] then ret None
          else bindE (lift_result (hash_to_message h)) (\<lambda>m. ret (Some m))))"

text \<open>\<^verbatim>\<open>a < b\<close> for two stamps: comparing a naive with an aware one is a \<^verbatim>\<open>TypeError\<close>.\<close>

definition aware :: "datetime \<Rightarrow> bool" where
  "aware t \<longleftrightarrow> utc_offset t \<noteq> None"

definition mixed_comparison :: "exn + 'a" where
  "mixed_comparison = Inl (Exn PyTypeError ''can't compare offset-naive and offset-aware datetimes'')"

definition datetime_less :: "datetime \<Rightarrow> datetime \<Rightarrow> exn + bool" where
  "datetime_less a b =
     (if aware a \<noteq> aware b then mixed_comparison else Inr (timestamp_us a < timestamp_us b))"

text \<open>\<^verbatim>\<open>since.timestamp()\<close>: a naive value is local time.\<close>

definition since_score :: "'x cmd_env \<Rightarrow> datetime \<Rightarrow> int" where
  "since_score E t = (if aware t then timestamp_us t else wall t - ce_local E (wall t))"

text \<open>The identifiers a query starts from.\<close>

definition pending_among ::
  "'x cmd_env \<Rightarrow> coord_config \<Rightarrow> message_query \<Rightarrow> string list option \<Rightarrow> ('x conn, string list option) io" where
  "pending_among E c q ids =
     (if mq_pending_only q then
        bindE (command E texts_of_reply (Smembers (pending_key c))) (\<lambda>pending.
          ret (Some (case ids of None \<Rightarrow> pending | Some l \<Rightarrow> filter (\<lambda>i. i \<in> set pending) l)))
      else ret ids)"

definition timeline_ids :: "'x cmd_env \<Rightarrow> coord_config \<Rightarrow> message_query \<Rightarrow> ('x conn, string list) io" where
  "timeline_ids E c q =
     command E texts_of_reply
       (case mq_since q of
          Some t \<Rightarrow> Zrangebyscore (timeline_key c) (since_score E t)
        | None \<Rightarrow> Zrevrange (timeline_key c) 0 (mq_limit q * 2 - 1))"

definition candidate_ids :: "'x cmd_env \<Rightarrow> coord_config \<Rightarrow> message_query \<Rightarrow> ('x conn, string list) io" where
  "candidate_ids E c q =
     bindE (if truthy (mq_to q)
            then command E (Some \<circ> texts_of_reply) (Smembers (inbox_key c (the (mq_to q))))
            else ret None) (\<lambda>inbox.
     bindE (pending_among E c q inbox) (\<lambda>ids.
       case ids of
         Some l \<Rightarrow> ret l
       | None \<Rightarrow> bindE (timeline_ids E c q) (\<lambda>l. ret (remdups l))))"

definition passes_filters :: "message_query \<Rightarrow> coord_message \<Rightarrow> exn + bool" where
  "passes_filters q m =
     (if truthy (mq_from q) \<and> cm_from m \<noteq> the (mq_from q) then Inr False
      else if mq_type q \<noteq> None \<and> cm_type m \<noteq> the (mq_type q) then Inr False
      else case mq_since q of
             None \<Rightarrow> Inr True
           | Some t \<Rightarrow> bind_sum (datetime_less (cm_timestamp m) t) (\<lambda>b. Inr (\<not> b)))"

definition fetch_matching ::
  "'x cmd_env \<Rightarrow> coord_config \<Rightarrow> message_query \<Rightarrow> string \<Rightarrow> ('x conn, coord_message list) io" where
  "fetch_matching E c q i =
     bindE (command E dict_of_reply (Hgetall (message_key c i))) (\<lambda>h.
       if h = [] then ret []
       else bindE (lift_result (hash_to_message h)) (\<lambda>m.
            bindE (lift_result (passes_filters q m)) (\<lambda>b. ret (if b then [m] else []))))"

text \<open>\<^verbatim>\<open>messages.sort(key=lambda m: m.timestamp, reverse=True)\<close>: stable, newest first; a list with
  naive and aware stamps cannot be sorted.\<close>

definition newest_first :: "coord_message list \<Rightarrow> exn + coord_message list" where
  "newest_first ms =
     (if \<exists>a \<in> set ms. \<exists>b \<in> set ms. aware (cm_timestamp a) \<noteq> aware (cm_timestamp b)
      then mixed_comparison
      else Inr (rev (sort_key (\<lambda>m. timestamp_us (cm_timestamp m)) (rev ms))))"

definition get_messages ::
  "'x cmd_env \<Rightarrow> coord_config \<Rightarrow> message_query option \<Rightarrow> ('x conn, coord_message list) io" where
  "get_messages E c q0 =
     (let q = (case q0 of None \<Rightarrow> default_query | Some q \<Rightarrow> q)
      in translating CoordinationError ''Failed to query messages: ''
           (bindE (candidate_ids E c q) (\<lambda>ids.
            bindE (collect (ce_iter E ids) (fetch_matching E c q)) (\<lambda>mss.
            bindE (lift_result (newest_first (concat mss))) (\<lambda>ms.
            ret (take (nat (mq_limit q)) ms))))))"

section \<open>Acknowledging\<close>

definition ack_commands :: "coord_config \<Rightarrow> string \<Rightarrow> string \<Rightarrow> string option \<Rightarrow> int \<Rightarrow> redis_cmd list" where
  "ack_commands c i by comment now =
     [Hset (message_key c i)
        ([(''acknowledged'', ''1''), (''ack_by'', by), (''ack_timestamp'', strftime_z (utc_datetime now))] @
         opt_field ''ack_comment'' comment),
      Srem (pending_key c) i]"

text \<open>The method checks and then writes; another instance may act between the two.\<close>

definition ack_check :: "'x cmd_env \<Rightarrow> coord_config \<Rightarrow> string \<Rightarrow> ('x conn, bool option) io" where
  "ack_check E c i =
     bindE (command E (\<lambda>r. int_of_reply r \<noteq> 0) (Exists (message_key c i))) (\<lambda>found.
       if \<not> found then ret (Some False)
       else bindE (command E text_of_reply (Hget (message_key c i) ''acknowledged'')) (\<lambda>cur.
            ret (if cur = Some ''1'' then Some True else None)))"

definition ack_write ::
  "'x cmd_env \<Rightarrow> coord_config \<Rightarrow> string \<Rightarrow> string \<Rightarrow> string option \<Rightarrow> int \<Rightarrow> ('x conn, bool) io" where
  "ack_write E c i by comment now = bindE (pipeline E (ack_commands c i by comment now)) (\<lambda>_. ret True)"

definition acknowledge_message ::
  "'x cmd_env \<Rightarrow> coord_config \<Rightarrow> string \<Rightarrow> string \<Rightarrow> string option \<Rightarrow> ('x conn, bool) io" where
  "acknowledge_message E c i by comment =
     bindE now_us (\<lambda>now.
     translating AcknowledgeError ''Failed to acknowledge message: ''
       (bindE (ack_check E c i) (\<lambda>r.
          case r of Some b \<Rightarrow> ret b | None \<Rightarrow> ack_write E c i by comment now)))"

section \<open>Subscriptions\<close>

definition subscribed_channels :: "coord_config \<Rightarrow> string \<Rightarrow> bool \<Rightarrow> string list" where
  "subscribed_channels c i bc = [instance_channel c i] @ (if bc then [broadcast_channel c] else [])"

text \<open>What the listener makes of the data of one message, and the events its callback gets for
  a sequence of publications; a text that does not parse is logged and dropped.\<close>

definition listener_event :: "string \<Rightarrow> exn + notification" where
  "listener_event s =
     (case loads s of
        Inl e \<Rightarrow> Inl e
      | Inr (JObj d) \<Rightarrow>
          bind_sum (item d ''message_id'') (\<lambda>i.
          bind_sum (bind_sum (item d ''type'') type_item) (\<lambda>ty.
          bind_sum (item d ''from'') (\<lambda>fr.
          bind_sum (item d ''to'') (\<lambda>t.
          bind_sum (item d ''requires_ack'') (\<lambda>ra.
          bind_sum (item d ''timestamp'') (\<lambda>ts.
            case ts of
              JStr s \<Rightarrow> bind_sum (parse_stamp_anywhere s)
                          (new_notification (dget d ''event'' (JStr ''message_published'')) i ty fr t ra)
            | _ \<Rightarrow> attribute_error))))))
      | Inr _ \<Rightarrow> attribute_error)"

definition delivered :: "coord_config \<Rightarrow> string \<Rightarrow> bool \<Rightarrow> (string \<times> string) list \<Rightarrow> notification list" where
  "delivered c i bc log =
     concat (map (\<lambda>p. case listener_event (snd p) of Inr n \<Rightarrow> [n] | Inl e \<Rightarrow> [])
       (filter (\<lambda>p. fst p \<in> set (subscribed_channels c i bc)) log))"

section \<open>What a stored hash reads as\<close>

lemma hash_to_message_cong:
  assumes "map_of h = map_of h'"
  shows "hash_to_message h = hash_to_message h'"
  unfolding hash_to_message_def Let_def dget_def assms by (rule refl)

text \<open>\<open>stored_as h m\<close>: the hash is not empty and reads as the message.\<close>

definition stored_as :: "(string \<Rightarrow> string option) \<Rightarrow> coord_message \<Rightarrow> bool" where
  "stored_as h m \<longleftrightarrow> h \<noteq> Map.empty \<and> (\<exists>ps. map_of ps = h \<and> hash_to_message ps = Inr m)"

definition message_in :: "coord_config \<Rightarrow> db \<Rightarrow> string \<Rightarrow> coord_message \<Rightarrow> bool" where
  "message_in c d i m \<longleftrightarrow> stored_as (db_hashes d (message_key c i)) m"

lemma stored_asD: "stored_as (map_of h) m \<Longrightarrow> h \<noteq> [] \<and> hash_to_message h = Inr m"
  unfolding stored_as_def by (metis hash_to_message_cong map_of.simps(1))

lemma stored_asI: "h \<noteq> [] \<Longrightarrow> hash_to_message h = Inr m \<Longrightarrow> stored_as (map_of h) m"
  unfolding stored_as_def map_of_eq_empty by blast

lemma stored_as_unique: "stored_as h m \<Longrightarrow> stored_as h m' \<Longrightarrow> m = m'"
  unfolding stored_as_def by (metis hash_to_message_cong sum.inject(2))

text \<open>A message as it is read back: the stamps are cut to the second.\<close>

definition cut_message :: "coord_message \<Rightarrow> coord_message" where
  "cut_message m = m\<lparr>cm_timestamp := utc_datetime (whole_seconds (wall (cm_timestamp m)))\<rparr>"

lemma hash_to_message_fields:
  assumes "map_of h ''id'' = Some i" "map_of h ''type'' = Some (message_type_value ty)"
    "map_of h ''from'' = Some fr" "map_of h ''to'' = Some t"
    "map_of h ''timestamp'' = Some (strftime_z (utc_datetime us))" "valid_datetime (utc_datetime us)"
    "map_of h ''requires_ack'' = Some (flag ra)" "map_of h ''acknowledged'' = Some (flag ack)"
    "map_of h ''subject'' = Some s" "map_of h ''description'' = Some de"
    "map_of h ''ack_by'' = by" "by \<noteq> Some []" "map_of h ''ack_comment'' = co" "co \<noteq> Some []"
    "map_of h ''ack_timestamp'' = map_option (\<lambda>u. strftime_z (utc_datetime u)) at"
    "\<And>u. at = Some u \<Longrightarrow> valid_datetime (utc_datetime u)"
  shows "hash_to_message h = Inr
    \<lparr>cm_id = i, cm_type = ty, cm_from = fr, cm_to = t, cm_timestamp = utc_datetime (whole_seconds us),
     cm_requires_ack = ra, cm_acknowledged = ack, cm_payload = \<lparr>mp_subject = s, mp_description = de\<rparr>,
     cm_ack_by = by, cm_ack_timestamp = map_option (\<lambda>u. utc_datetime (whole_seconds u)) at, cm_ack_comment = co\<rparr>"
proof -
  have ne: "strftime_z t \<noteq> []" for t using strftime_z_ends [of t] by (auto simp: ends_with_def)
  have f: "flag b = ''1'' \<longleftrightarrow> b" for b by (simp add: flag_def)
  let ?m = "\<lparr>cm_id = i, cm_type = ty, cm_from = fr, cm_to = t, cm_timestamp = utc_datetime us,
     cm_requires_ack = ra, cm_acknowledged = ack, cm_payload = \<lparr>mp_subject = s, mp_description = de\<rparr>,
     cm_ack_by = by, cm_ack_timestamp = map_option utc_datetime at, cm_ack_comment = co\<rparr>"
  have "hash_to_message h = message_of_dict (message_to_dict ?m)"
    using assms ne
    by (cases "at") (simp_all add: hash_to_message_def Let_def dget_def f message_to_dict_def payload_to_dict_def)
  also have "\<dots> = Inr (?m\<lparr>cm_timestamp := utc_datetime (whole_seconds (wall (cm_timestamp ?m))),
      cm_ack_timestamp := map_option (\<lambda>t. utc_datetime (whole_seconds (wall t))) (cm_ack_timestamp ?m)\<rparr>)"
    by (rule message_roundtrip) (use assms(6,12,14,16) in \<open>auto simp: utc_stamp_def\<close>)
  finally show ?thesis by (simp add: option.map_comp comp_def)
qed

lemma stored_as_published:
  assumes "cm_timestamp m = utc_datetime us" "valid_datetime (utc_datetime us)" "cm_acknowledged m = False"
    "cm_ack_by m = None" "cm_ack_timestamp m = None" "cm_ack_comment m = None"
  shows "stored_as (map_of (message_hash m)) (cut_message m)"
proof -
  have "hash_to_message (message_hash m) = Inr
    \<lparr>cm_id = cm_id m, cm_type = cm_type m, cm_from = cm_from m, cm_to = cm_to m,
     cm_timestamp = utc_datetime (whole_seconds us), cm_requires_ack = cm_requires_ack m,
     cm_acknowledged = False, cm_payload = \<lparr>mp_subject = mp_subject (cm_payload m), mp_description = mp_description (cm_payload m)\<rparr>,
     cm_ack_by = None, cm_ack_timestamp = map_option (\<lambda>u. utc_datetime (whole_seconds u)) None, cm_ack_comment = None\<rparr>"
    by (rule hash_to_message_fields) (use assms in \<open>simp_all add: message_hash_def flag_def\<close>)
  also have "\<dots> = Inr (cut_message m)"
    using assms by (cases m) (simp add: cut_message_def)
  finally show ?thesis by (intro stored_asI) (simp_all add: message_hash_def)
qed

text \<open>Acknowledging changes the four fields of the acknowledgement.\<close>

definition acked_by :: "string \<Rightarrow> int \<Rightarrow> string option \<Rightarrow> coord_message \<Rightarrow> coord_message" where
  "acked_by by now comment m =
     m\<lparr>cm_acknowledged := True, cm_ack_by := Some by,
       cm_ack_timestamp := Some (utc_datetime (whole_seconds now)),
       cm_ack_comment := (if truthy comment then comment else cm_ack_comment m)\<rparr>"

definition nonempty :: "string option \<Rightarrow> string option" where
  "nonempty s = (if truthy s then s else None)"

lemma bind_sum_Inr: "bind_sum r f = Inr y \<longleftrightarrow> (\<exists>x. r = Inr x \<and> f x = Inr y)"
  by (cases r) simp_all

lemma bind_sum_assoc: "bind_sum (bind_sum r f) g = bind_sum r (\<lambda>x. bind_sum (f x) g)"
  by (cases r) simp_all

lemma opt_field_nonempty:
  "opt_field k s = (case nonempty s of None \<Rightarrow> [] | Some v \<Rightarrow> [(k, v)])"
  by (cases s) (auto simp: nonempty_def)

definition stamp_field :: "string \<Rightarrow> string \<Rightarrow> exn + datetime" where
  "stamp_field k s = (case parse_stamp s of Inr t \<Rightarrow> Inr t | Inl e \<Rightarrow> invalid k)"

lemma parse_timestamp_str: "map_of d k = Some (JStr s) \<Longrightarrow>
    parse_timestamp k d = bind_sum (stamp_field k s) (\<lambda>t. Inr (Some t))"
  by (simp add: parse_timestamp_def stamp_field_def invalid_def split: sum.splits)

lemma message_of_texts:
  "message_of_dict
     ([(''id'', JStr i), (''type'', JStr ty), (''from'', JStr fr), (''to'', JStr t),
       (''timestamp'', JStr ts), (''requires_ack'', JBool ra), (''acknowledged'', JBool ack),
       (''payload'', JObj [(''subject'', JStr s), (''description'', JStr de)])] @
      map (\<lambda>p. (fst p, JStr (snd p)))
        (opt_field ''ack_by'' ab @ opt_field ''ack_timestamp'' at' @ opt_field ''ack_comment'' co)) =
   bind_sum (message_type_of ty) (\<lambda>ty'.
   bind_sum (stamp_field ''timestamp'' ts) (\<lambda>ts'.
   bind_sum (case nonempty at' of None \<Rightarrow> Inr None
             | Some a \<Rightarrow> bind_sum (stamp_field ''ack_timestamp'' a) (\<lambda>a'. Inr (Some a'))) (\<lambda>ats.
     Inr \<lparr>cm_id = i, cm_type = ty', cm_from = fr, cm_to = t, cm_timestamp = ts', cm_requires_ack = ra,
          cm_acknowledged = ack, cm_payload = \<lparr>mp_subject = s, mp_description = de\<rparr>,
          cm_ack_by = nonempty ab, cm_ack_timestamp = ats, cm_ack_comment = nonempty co\<rparr>)))"
proof -
  have none: "parse_timestamp k d = Inr None" if "map_of d k = None" for k d
    using that by (simp add: parse_timestamp_def)
  note fields = message_of_dict_def aliased_def dget_def Let_def payload_of_dict_def str_field_def
    bool_field_def opt_str_field_def opt_field_nonempty parse_timestamp_str none
  show ?thesis
    by (cases "nonempty ab"; cases "nonempty at'"; cases "nonempty co"; simp add: fields bind_sum_assoc)
qed

text \<open>Which hashes read as a message, and as which.\<close>

lemma hash_to_message_Inr:
  "hash_to_message h = Inr m \<longleftrightarrow>
     (\<exists>i ty ty' fr t ts ts' ats. map_of h ''id'' = Some i \<and> map_of h ''type'' = Some ty \<and>
        map_of h ''from'' = Some fr \<and> map_of h ''to'' = Some t \<and> map_of h ''timestamp'' = Some ts \<and>
        message_type_of ty = Inr ty' \<and> stamp_field ''timestamp'' ts = Inr ts' \<and>
        (case nonempty (map_of h ''ack_timestamp'') of None \<Rightarrow> Inr None
         | Some a \<Rightarrow> bind_sum (stamp_field ''ack_timestamp'' a) (\<lambda>a'. Inr (Some a'))) = Inr ats \<and>
        m = \<lparr>cm_id = i, cm_type = ty', cm_from = fr, cm_to = t, cm_timestamp = ts',
             cm_requires_ack = (dget h ''requires_ack'' ''1'' = ''1''),
             cm_acknowledged = (dget h ''acknowledged'' ''0'' = ''1''),
             cm_payload = \<lparr>mp_subject = dget h ''subject'' [], mp_description = dget h ''description'' []\<rparr>,
             cm_ack_by = nonempty (map_of h ''ack_by''), cm_ack_timestamp = ats,
             cm_ack_comment = nonempty (map_of h ''ack_comment'')\<rparr>)"
proof -
  have need: "(case x of None \<Rightarrow> Inl (Exn PyKeyError k) | Some v \<Rightarrow> Inr v) = Inr y \<longleftrightarrow> x = Some y"
    for x :: "string option" and k y
    by (cases x) simp_all
  show ?thesis
    unfolding hash_to_message_def Let_def message_of_texts bind_sum_Inr need by (auto; metis)
qed

lemma acked_reads:
  assumes "hash_to_message h = Inr m" "by' \<noteq> []" "valid_datetime (utc_datetime now)"
    and "map_of h' = map_of h ++ map_of ([(''acknowledged'', ''1''), (''ack_by'', by'),
      (''ack_timestamp'', strftime_z (utc_datetime now))] @ opt_field ''ack_comment'' comment)"
  shows "hash_to_message h' = Inr (acked_by by' now comment m)"
proof -
  have ne: "nonempty (Some (strftime_z t)) = Some (strftime_z t)" for t
    using strftime_z_ends [of t] by (auto simp: nonempty_def ends_with_def)
  have co: "nonempty (map_of h' ''ack_comment'') =
      (if truthy comment then comment else nonempty (map_of h ''ack_comment''))"
    by (simp add: assms(4) map_add_def nonempty_def split: option.splits)
  have look: "map_of h' k = map_of h k" if "k \<notin> {''acknowledged'', ''ack_by'', ''ack_timestamp'', ''ack_comment''}" for k
    using that by (simp add: assms(4) map_add_def)
  have ack: "map_of h' ''acknowledged'' = Some ''1''" "map_of h' ''ack_by'' = Some by'"
    "map_of h' ''ack_timestamp'' = Some (strftime_z (utc_datetime now))"
    by (simp_all add: assms(4) map_add_def)
  have st: "stamp_field k (strftime_z (utc_datetime now)) = Inr (utc_datetime (whole_seconds now))" for k
    using assms(3) by (simp add: stamp_field_def)
  have nb: "nonempty (Some by') = Some by'" using assms(2) by (simp add: nonempty_def)
  from assms(1) obtain i ty ty' fr t ts ts' ats where
    f: "map_of h ''id'' = Some i" "map_of h ''type'' = Some ty" "map_of h ''from'' = Some fr"
      "map_of h ''to'' = Some t" "map_of h ''timestamp'' = Some ts" "message_type_of ty = Inr ty'"
      "stamp_field ''timestamp'' ts = Inr ts'"
    and m: "m = \<lparr>cm_id = i, cm_type = ty', cm_from = fr, cm_to = t, cm_timestamp = ts',
             cm_requires_ack = (dget h ''requires_ack'' ''1'' = ''1''),
             cm_acknowledged = (dget h ''acknowledged'' ''0'' = ''1''),
             cm_payload = \<lparr>mp_subject = dget h ''subject'' [], mp_description = dget h ''description'' []\<rparr>,
             cm_ack_by = nonempty (map_of h ''ack_by''), cm_ack_timestamp = ats,
             cm_ack_comment = nonempty (map_of h ''ack_comment'')\<rparr>"
    unfolding hash_to_message_Inr by blast
  show ?thesis
    unfolding hash_to_message_Inr
    by (rule exI [of _ i], rule exI [of _ ty], rule exI [of _ ty'], rule exI [of _ fr], rule exI [of _ t],
        rule exI [of _ ts], rule exI [of _ ts'], rule exI [of _ "Some (utc_datetime (whole_seconds now))"])
      (simp add: f m look ack co ne nb st dget_def acked_by_def)
qed

end
