(* ===== verification/Coord_Effects.thy ===== *)
theory Coord_Effects
  imports Coordination
begin

text \<open>
  What the methods of the coordination client do to the data base of a connection that is up,
  proved once for every client that keeps the contract \<open>cmd_world\<close>, and the properties of the
  coordination that follow.  The witnesses run on the reference server.
\<close>

section \<open>Effects of publishing\<close>

lemma ttl_settled_simps [simp]:
  "db_hashes (ttl_settled k d) = db_hashes d" "db_sets (ttl_settled k d) = db_sets d"
  "db_zsets (ttl_settled k d) = db_zsets d" "db_lists (ttl_settled k d) = db_lists d"
  "db_published (ttl_settled k d) = db_published d"
  by (simp_all add: ttl_settled_def)

lemma ttl_settled_ttl: "k' \<noteq> k \<Longrightarrow> db_ttl (ttl_settled k d) k' = db_ttl d k'"
  by (simp add: ttl_settled_def)

definition published :: "coord_config \<Rightarrow> coord_message \<Rightarrow> db \<Rightarrow> db" where
  "published c m d = run_effects (publish_commands c m) d"

definition queued :: "coord_config \<Rightarrow> string \<Rightarrow> notification \<Rightarrow> db \<Rightarrow> db" where
  "queued c i n d = run_effects
     [Lpush (notification_queue_key c i) (notification_to_json n),
      Expire (notification_queue_key c i) (message_ttl_seconds c)] d"

lemma message_hash_not_Nil [simp]: "message_hash m \<noteq> []"
  by (simp add: message_hash_def)

text \<open>A time to live that is not positive deletes the message while it is published.\<close>

lemma published_simps:
  "db_hashes (published c m d) (message_key c (cm_id m)) =
     (if 0 < message_ttl_seconds c then db_hashes d (message_key c (cm_id m)) ++ map_of (message_hash m) else Map.empty)"
  "k \<noteq> message_key c (cm_id m) \<Longrightarrow> db_hashes (published c m d) k = db_hashes d k"
  "db_ttl (published c m d) (message_key c (cm_id m)) =
     (if 0 < message_ttl_seconds c then Some (message_ttl_seconds c) else None)"
  "db_sets (published c m d) (inbox_key c j) =
     (if j = cm_to m then insert (cm_id m) (db_sets d (inbox_key c j)) else db_sets d (inbox_key c j))"
  "db_sets (published c m d) (pending_key c) =
     (if cm_requires_ack m then insert (cm_id m) (db_sets d (pending_key c)) else db_sets d (pending_key c))"
  "db_zsets (published c m d) (timeline_key c) = out_of_range 0 (- cc_timeline_max_size c - 1)
     (zput (cm_id m) (timestamp_us (cm_timestamp m)) (db_zsets d (timeline_key c)))"
  "db_published (published c m d) =
     db_published d @ [(instance_channel c (cm_to m), notification_to_json (notification_of_message m)),
                       (broadcast_channel c, notification_to_json (notification_of_message m))]"
proof -
  let ?k = "message_key c (cm_id m)"
  let ?d = "d\<lparr>db_hashes := (db_hashes d)(?k := db_hashes d ?k ++ map_of (message_hash m))\<rparr>"
  have "present ?d ?k" by (simp add: present_def)
  then have e: "cmd_effect (Expire ?k (message_ttl_seconds c)) ?d =
      (if 0 < message_ttl_seconds c then ?d\<lparr>db_ttl := (db_ttl ?d)(?k \<mapsto> message_ttl_seconds c)\<rparr> else expired ?k ?d)"
    by simp
  note run = published_def publish_commands_def append.simps run_effects.simps(2) cmd_effect.simps(3) e
  show "db_hashes (published c m d) ?k =
      (if 0 < message_ttl_seconds c then db_hashes d ?k ++ map_of (message_hash m) else Map.empty)"
    "k \<noteq> ?k \<Longrightarrow> db_hashes (published c m d) k = db_hashes d k"
    "db_ttl (published c m d) ?k = (if 0 < message_ttl_seconds c then Some (message_ttl_seconds c) else None)"
    "db_sets (published c m d) (inbox_key c j) =
       (if j = cm_to m then insert (cm_id m) (db_sets d (inbox_key c j)) else db_sets d (inbox_key c j))"
    "db_sets (published c m d) (pending_key c) =
       (if cm_requires_ack m then insert (cm_id m) (db_sets d (pending_key c)) else db_sets d (pending_key c))"
    "db_zsets (published c m d) (timeline_key c) = out_of_range 0 (- cc_timeline_max_size c - 1)
       (zput (cm_id m) (timestamp_us (cm_timestamp m)) (db_zsets d (timeline_key c)))"
    "db_published (published c m d) =
       db_published d @ [(instance_channel c (cm_to m), notification_to_json (notification_of_message m)),
                         (broadcast_channel c, notification_to_json (notification_of_message m))]"
    unfolding run by (simp_all add: expired_def ttl_settled_ttl)
qed

lemma queued_same:
  "k \<noteq> notification_queue_key c i \<Longrightarrow> db_hashes (queued c i n d) k = db_hashes d k"
  "k \<noteq> notification_queue_key c i \<Longrightarrow> db_sets (queued c i n d) k = db_sets d k"
  "k \<noteq> notification_queue_key c i \<Longrightarrow> db_zsets (queued c i n d) k = db_zsets d k"
  "k \<noteq> notification_queue_key c i \<Longrightarrow> db_ttl (queued c i n d) k = db_ttl d k"
  "db_published (queued c i n d) = db_published d"
  by (simp_all add: queued_def expired_def)

text \<open>The data base after a publication: a receiver that looks offline is left a notification.\<close>

definition after_publish :: "coord_config \<Rightarrow> coord_message \<Rightarrow> db \<Rightarrow> db \<Rightarrow> bool" where
  "after_publish c m d d' \<longleftrightarrow>
     d' = published c m d \<or> d' = queued c (cm_to m) (notification_of_message m) (published c m d)"

lemma after_publish_same:
  assumes "after_publish c m d d'"
  shows "k \<noteq> notification_queue_key c (cm_to m) \<Longrightarrow> db_hashes d' k = db_hashes (published c m d) k"
    "k \<noteq> notification_queue_key c (cm_to m) \<Longrightarrow> db_sets d' k = db_sets (published c m d) k"
    "k \<noteq> notification_queue_key c (cm_to m) \<Longrightarrow> db_zsets d' k = db_zsets (published c m d) k"
    "k \<noteq> notification_queue_key c (cm_to m) \<Longrightarrow> db_ttl d' k = db_ttl (published c m d) k"
  using assms by (auto simp: after_publish_def queued_same)

lemma presence_infos_error:
  "presence_infos now tm gs = Inl e \<Longrightarrow> class_of e = PyValueError"
proof (induction gs)
  case (Cons g gs)
  then show ?case
    by (auto simp: bind_sum_def presence_of_fields_def Let_def parse_stamp_anywhere_def fromisoformat_def
        split: sum.splits if_splits option.splits)
qed simp

context cmd_world
begin

lemmas wp_pipe = wp_pipeline [OF refl]

lemmas wp_cmd = wp_command [OF refl]

lemma wp_translating:
  assumes "wp m w Q (\<lambda>e w'. if redis_error (class_of e) then F (Exn C (msg @ message_of e)) w' else F e w')"
  shows "wp (translating C msg m) w Q F"
  using assms unfolding translating_def wp_simps .

lemma connected_now: "connected up kv w d t n \<Longrightarrow> wp now_us w Q F \<longleftrightarrow> Q t w"
  by (simp add: wp_simps connected_def)

lemma wp_get_presence:
  assumes "connected up kv w d t n"
    and "\<And>ps w'. distinct (map fst ps) \<Longrightarrow> map_of ps = db_hashes d (presence_key c) \<Longrightarrow> connected up kv w' d t n \<Longrightarrow>
      (case presence_infos t (presence_timeout c tm) (group_fields ps []) of
         Inr r \<Rightarrow> Q r w' | Inl e \<Rightarrow> F e w')"
  shows "wp (get_presence E c tm) w Q F"
  unfolding get_presence_def
proof (rule wp_translating, simp only: wp_simps, rule wp_command [OF refl assms(1)])
  fix r w'
  assume r: "answers d (Hgetall (presence_key c)) r"
    and "connected up kv w' (cmd_effect (Hgetall (presence_key c)) d) t n"
  then have w': "connected up kv w' d t n" by simp
  from r obtain ps where ps: "r = RDict ps" "distinct (map fst ps)" "map_of ps = db_hashes d (presence_key c)"
    by (auto simp: lists_map_def)
  show "case presence_infos (cn_now w') (presence_timeout c tm) (group_fields (dict_of_reply r) []) of
      Inl e \<Rightarrow> if redis_error (class_of e) then F (Exn PresenceError (''Failed to get presence: '' @ message_of e)) w' else F e w'
    | Inr v \<Rightarrow> Q v w'"
    using assms(2) [OF ps(2,3) w'] connectedD(3) [OF w'] ps(1)
    by (auto dest: presence_infos_error split: sum.splits)
qed

lemma wp_queue_if_offline:
  assumes "connected up kv w d t n"
    and "\<And>w' d'. d' = d \<or> d' = queued c i nt d \<Longrightarrow> connected up kv w' d' t n \<Longrightarrow> Q () w'"
  shows "wp (queue_if_offline E c i nt) w Q F"
proof -
  have queue: "wp (queue_notification E c i nt) w' (\<lambda>_ w''. Q () w'') F'" if "connected up kv w' d t n" for w' F'
    unfolding queue_notification_def
    by (rule wp_translating, simp only: wp_simps, rule wp_pipeline [OF refl that])
      (rule assms(2), auto simp: queued_def)
  show ?thesis
    unfolding queue_if_offline_def
    apply (simp only: wp_simps any_exception_True if_True)
    apply (rule wp_get_presence [OF assms(1)])
    using assms(2) [of d]
    apply (auto simp: wp_simps queue split: sum.splits option.splits)
    done
qed

end

context cmd_world
begin

lemma wp_store_message:
  assumes "connected up kv w d t n" "\<not> present d (message_key c (cm_id m))"
    and "\<And>w' d'. after_publish c m d d' \<Longrightarrow> connected up kv w' d' t n \<Longrightarrow> Q m w'"
  shows "wp (store_message E c m) w Q F"
proof -
  have base: "Q m w'" if "connected up kv w' (published c m d) t n" for w'
    by (rule assms(3) [OF _ that]) (simp add: after_publish_def)
  have tail: "wp (queue_if_offline E c (cm_to m) (notification_of_message m)) w' (\<lambda>_. Q m) F'"
    if "connected up kv w' (published c m d) t n" for w' F'
    by (rule wp_queue_if_offline [OF that]) (use assms(3) in \<open>auto simp: after_publish_def\<close>)
  show ?thesis
    unfolding store_message_def wp_simps
    by (rule wp_command [OF refl assms(1)])
      (auto simp: assms(2) wp_simps published_def [symmetric] intro!: wp_pipeline [OF refl] tail base)
qed

lemma store_message_refuses:
  assumes "connected up kv w d t n" "present d (message_key c (cm_id m))"
  shows "wp (store_message E c m) w (\<lambda>_ _. False)
    (\<lambda>e w'. e = Exn PublishError (''Message ID already exists: '' @ cm_id m) \<and> connected up kv w' d t n)"
  unfolding store_message_def wp_simps
  by (rule wp_command [OF refl assms(1)])
    (simp add: assms(2) wp_simps publish_failed_def isinstance_exn_def eval_nat_numeral)

lemma wp_get_message:
  assumes "connected up kv w d t n" "message_in c d i m"
    and "\<And>w'. connected up kv w' d t n \<Longrightarrow> Q (Some m) w'"
  shows "wp (get_message E c i) w Q F"
  unfolding get_message_def
proof (rule wp_translating, simp only: wp_simps, rule wp_command [OF refl assms(1)])
  fix r w'
  assume r: "answers d (Hgetall (message_key c i)) r"
    and w': "connected up kv w' (cmd_effect (Hgetall (message_key c i)) d) t n"
  from r obtain ps where ps: "r = RDict ps" "map_of ps = db_hashes d (message_key c i)"
    by (auto simp: lists_map_def)
  with assms(2) have "ps \<noteq> [] \<and> hash_to_message ps = Inr m"
    using stored_asD [of ps m] by (simp add: message_in_def)
  with assms(3) w' ps(1) show "wp (if dict_of_reply r = [] then ret None
      else bindE (lift_result (hash_to_message (dict_of_reply r))) (\<lambda>m. ret (Some m))) w' Q
      (\<lambda>e w'. if redis_error (class_of e) then F (Exn CoordinationError (''Failed to get message: '' @ message_of e)) w' else F e w')"
    by (simp add: wp_simps)
qed

lemma wp_ack_check:
  assumes "connected up kv w d t n"
    and "\<And>w'. connected up kv w' d t n \<Longrightarrow>
      Q (if \<not> present d (message_key c i) then Some False
         else if db_hashes d (message_key c i) ''acknowledged'' = Some ''1'' then Some True else None) w'"
  shows "wp (ack_check E c i) w Q F"
  unfolding ack_check_def wp_simps
proof (rule wp_command [OF refl assms(1)])
  fix r w'
  assume r: "answers d (Exists (message_key c i)) r"
    and "connected up kv w' (cmd_effect (Exists (message_key c i)) d) t n"
  then have w': "connected up kv w' d t n" by simp
  show "wp (if \<not> int_of_reply r \<noteq> 0 then ret (Some False)
      else bindE (command E text_of_reply (Hget (message_key c i) ''acknowledged''))
             (\<lambda>cur. ret (if cur = Some ''1'' then Some True else None))) w' Q F"
  proof (cases "present d (message_key c i)")
    case True
    then have "int_of_reply r \<noteq> 0" using r by simp
    moreover have "wp (command E text_of_reply (Hget (message_key c i) ''acknowledged'')) w'
        (\<lambda>cur w''. Q (if cur = Some ''1'' then Some True else None) w'') F"
      by (rule wp_command [OF refl w']) (use True assms(2) in auto)
    ultimately show ?thesis by (simp add: wp_simps)
  qed (use r w' assms(2) in \<open>simp add: wp_simps\<close>)
qed

lemma wp_ack_write:
  assumes "connected up kv w d t n"
    and "\<And>w'. connected up kv w' (run_effects (ack_commands c i by' comment now) d) t n \<Longrightarrow> Q True w'"
  shows "wp (ack_write E c i by' comment now) w Q F"
  unfolding ack_write_def wp_simps by (rule wp_pipeline [OF refl assms(1)]) (rule assms(2))

lemma wp_acknowledge:
  assumes "connected up kv w d t n"
    and "\<And>w'. \<not> present d (message_key c i) \<Longrightarrow> connected up kv w' d t n \<Longrightarrow> Q False w'"
    and "\<And>w'. present d (message_key c i) \<Longrightarrow> db_hashes d (message_key c i) ''acknowledged'' = Some ''1'' \<Longrightarrow>
      connected up kv w' d t n \<Longrightarrow> Q True w'"
    and "\<And>w'. present d (message_key c i) \<Longrightarrow> db_hashes d (message_key c i) ''acknowledged'' \<noteq> Some ''1'' \<Longrightarrow>
      connected up kv w' (run_effects (ack_commands c i by' comment t) d) t n \<Longrightarrow> Q True w'"
  shows "wp (acknowledge_message E c i by' comment) w Q F"
  unfolding acknowledge_message_def wp_bindE connected_now [OF assms(1)]
  by (rule wp_translating, simp only: wp_simps, rule wp_ack_check [OF assms(1)])
    (auto simp: wp_simps assms(2-) intro!: wp_ack_write)

end

section \<open>Publishing and reading back\<close>

lemma present_hash: "db_hashes d k \<noteq> Map.empty \<Longrightarrow> present d k"
  by (simp add: present_def)

lemma not_present_hash: "\<not> present d k \<Longrightarrow> db_hashes d k = Map.empty"
  by (simp add: present_def)

lemma new_message_simps [simp]:
  "cm_id (new_message i ty s de fr t ra now) = i" "cm_to (new_message i ty s de fr t ra now) = t"
  "cm_requires_ack (new_message i ty s de fr t ra now) = ra"
  "cm_timestamp (new_message i ty s de fr t ra now) = utc_datetime now"
  by (simp_all add: new_message_def)

lemma published_message_in:
  assumes "after_publish c (new_message i ty s de fr t ra now) d d'" "\<not> present d (message_key c i)"
    and "valid_datetime (utc_datetime now)" "0 < message_ttl_seconds c"
  shows "message_in c d' i (cut_message (new_message i ty s de fr t ra now))"
proof -
  let ?m = "new_message i ty s de fr t ra now"
  have "stored_as (map_of (message_hash (new_message i ty s de fr t ra now)))
      (cut_message (new_message i ty s de fr t ra now))"
    by (rule stored_as_published) (use assms(3) in \<open>simp_all add: new_message_def\<close>)
  then show ?thesis
    using after_publish_same(1) [OF assms(1)] not_present_hash [OF assms(2)] published_simps(1) [of c ?m d] assms(4)
    by (simp add: message_in_def)
qed

definition demo_config :: coord_config where
  "demo_config = default_coord_config"

definition demo_conn :: "memdb conn" where
  "demo_conn = \<lparr>cn_redis = empty_memdb, cn_now = 1700000000500000, cn_uuids = 0\<rparr>"

lemma demo_connected: "connected (\<lambda>_. True) memdb_abs demo_conn (memdb_abs empty_memdb) 1700000000500000 0"
  by (simp add: connected_md demo_conn_def)

lemma demo_absent: "\<not> present (memdb_abs empty_memdb) k"
  by (simp add: md_present_def empty_memdb_def)

lemma demo_ttl: "0 < message_ttl_seconds demo_config"
  by (simp add: message_ttl_seconds_def demo_config_def default_coord_config_def)

lemma demo_time: "valid_datetime (utc_datetime 1700000000500000)"
  by (rule valid_utc_datetime) simp_all

context cmd_world
begin

lemma publish_eq:
  assumes "connected up kv w d t n" "i \<noteq> []"
  shows "publish_message E c ty s de fr to' ra (Some i) w = store_message E c (new_message i ty s de fr to' ra t) w"
  using assms(2) connectedD(3) [OF assms(1)]
  by (simp add: publish_message_def bindE_def now_us_def)

lemma publish_effect:
  assumes "connected up kv w d t n" "\<not> present d (message_key c i)" "i \<noteq> []"
  obtains w' d' where "publish_message E c ty s de fr to' ra (Some i) w = (Inr (new_message i ty s de fr to' ra t), w')"
    "after_publish c (new_message i ty s de fr to' ra t) d d'" "connected up kv w' d' t n"
proof -
  let ?m = "new_message i ty s de fr to' ra t"
  have "wp (store_message E c ?m) w
      (\<lambda>v w'. v = ?m \<and> (\<exists>d'. after_publish c ?m d d' \<and> connected up kv w' d' t n)) (\<lambda>_ _. False)"
    by (rule wp_store_message [OF assms(1)]) (use assms(2) in auto)
  from wp_succeeds [OF this] obtain d' where "fst (store_message E c ?m w) = Inr ?m"
    "after_publish c ?m d d'" "connected up kv (snd (store_message E c ?m w)) d' t n"
    by auto
  then show thesis
    by (intro that [of "snd (store_message E c ?m w)" d']) (simp_all add: publish_eq [OF assms(1,3)] prod_eq_iff)
qed

lemma get_message_reads:
  assumes "connected up kv w d t n" "message_in c d i m"
  shows "fst (get_message E c i w) = Inr (Some m)"
  using wp_succeeds [OF wp_get_message [OF assms, of "\<lambda>v _. v = Some m"]] by simp

lemma get_message_missing:
  assumes "connected up kv w d t n" "db_hashes d (message_key c i) = Map.empty"
  shows "fst (get_message E c i w) = Inr None"
proof -
  have "wp (get_message E c i) w (\<lambda>v _. v = None) (\<lambda>_ _. False)"
    unfolding get_message_def
    by (rule wp_translating, simp only: wp_simps, rule wp_command [OF refl assms(1)])
      (use assms(2) in \<open>auto simp: lists_map_def wp_simps fun_eq_iff map_of_eq_None_iff\<close>)
  from wp_succeeds [OF this] show ?thesis by auto
qed

lemma ack_effect:
  assumes "connected up kv w d t n" "present d (message_key c i)"
  obtains w' where "acknowledge_message E c i by' comment w = (Inr True, w')"
    "connected up kv w' (if db_hashes d (message_key c i) ''acknowledged'' = Some ''1'' then d
       else run_effects (ack_commands c i by' comment t) d) t n"
proof -
  have "wp (acknowledge_message E c i by' comment) w
      (\<lambda>v w'. v = True \<and> connected up kv w' (if db_hashes d (message_key c i) ''acknowledged'' = Some ''1'' then d
         else run_effects (ack_commands c i by' comment t) d) t n) (\<lambda>_ _. False)"
    by (rule wp_acknowledge [OF assms(1)]) (use assms(2) in auto)
  from wp_succeeds [OF this] show thesis
    by (intro that [of "snd (acknowledge_message E c i by' comment w)"]) (auto simp: prod_eq_iff)
qed

end

lemma after_ack:
  "db_hashes (run_effects (ack_commands c i by' comment now) d) =
     (db_hashes d)(message_key c i := db_hashes d (message_key c i) ++
        map_of ([(''acknowledged'', ''1''), (''ack_by'', by'), (''ack_timestamp'', strftime_z (utc_datetime now))] @
          opt_field ''ack_comment'' comment))"
  "db_sets (run_effects (ack_commands c i by' comment now) d) =
     (db_sets d)(pending_key c := db_sets d (pending_key c) - {i})"
  by (simp_all add: ack_commands_def)

lemma message_in_acknowledged:
  assumes "message_in c d i m"
  shows "cm_acknowledged m \<longleftrightarrow> db_hashes d (message_key c i) ''acknowledged'' = Some ''1''"
    "present d (message_key c i)"
proof -
  obtain h where h: "map_of h = db_hashes d (message_key c i)" "hash_to_message h = Inr m"
    and ne: "db_hashes d (message_key c i) \<noteq> Map.empty"
    using assms by (auto simp: message_in_def stored_as_def)
  have "cm_acknowledged m = (dget h ''acknowledged'' ''0'' = ''1'')"
    using h(2) by (auto simp: hash_to_message_Inr)
  then show "cm_acknowledged m \<longleftrightarrow> db_hashes d (message_key c i) ''acknowledged'' = Some ''1''"
    by (auto simp: dget_def h(1) split: option.splits)
  show "present d (message_key c i)" using ne by (simp add: present_def)
qed

lemma message_in_after_ack:
  assumes "message_in c d i m" "by' \<noteq> []" "valid_datetime (utc_datetime now)"
  shows "message_in c (run_effects (ack_commands c i by' comment now) d) i (acked_by by' now comment m)"
proof -
  obtain h where h: "map_of h = db_hashes d (message_key c i)" "hash_to_message h = Inr m"
    using assms(1) by (auto simp: message_in_def stored_as_def)
  let ?u = "[(''acknowledged'', ''1''), (''ack_by'', by'), (''ack_timestamp'', strftime_z (utc_datetime now))] @
    opt_field ''ack_comment'' comment"
  have u: "map_of (?u @ h) = map_of h ++ map_of ?u" by (rule map_of_append)
  then have "hash_to_message (?u @ h) = Inr (acked_by by' now comment m)"
    by (rule acked_reads [OF h(2) assms(2,3)])
  then have "stored_as (map_of (?u @ h)) (acked_by by' now comment m)" by (intro stored_asI) simp_all
  then show ?thesis by (simp only: message_in_def after_ack fun_upd_same u h(1))
qed

text \<open>C23: A message that was published reads back.  The receiver finds its identifier in the
  inbox, it is pending when an acknowledgement is wanted, it expires after the configured time,
  and what is read is the message sent with its stamp cut to the second.  This needs a configured
  time that is positive, which nothing checks: with any other the message is deleted as it is
  published, is read as missing, and only its identifiers stay behind.\<close>

theorem published_message_reads_back:
  fixes E :: "'x cmd_env" and w :: "'x conn" and s de fr t i :: string and ty :: message_type
  assumes "cmd_world E up kv" "connected up kv w d now n" "\<not> present d (message_key c i)" "i \<noteq> []"
    and "valid_datetime (utc_datetime now)"
  fixes ra :: bool
  defines "m \<equiv> new_message i ty s de fr t ra now"
  defines "r \<equiv> publish_message E c ty s de fr t ra (Some i) w"
  shows "fst r = Inr m \<and>
    fst (get_message E c i (snd r)) = Inr (if 0 < cc_message_ttl_days c then Some (cut_message m) else None) \<and>
    i \<in> db_sets (kv (cn_redis (snd r))) (inbox_key c t) \<and>
    (i \<in> db_sets (kv (cn_redis (snd r))) (pending_key c) \<longleftrightarrow> ra \<or> i \<in> db_sets d (pending_key c)) \<and>
    db_ttl (kv (cn_redis (snd r))) (message_key c i) =
      (if 0 < cc_message_ttl_days c then Some (message_ttl_seconds c) else None)"
proof -
  obtain w' d' where p: "publish_message E c ty s de fr t ra (Some i) w = (Inr m, w')"
    "after_publish c m d d'" "connected up kv w' d' now n"
    unfolding m_def by (rule cmd_world.publish_effect [OF assms(1-4)])
  have f: "cm_id m = i" "cm_to m = t" "cm_requires_ack m = ra" by (simp_all add: m_def)
  have days: "0 < message_ttl_seconds c \<longleftrightarrow> 0 < cc_message_ttl_days c" by (simp add: message_ttl_seconds_def)
  have "fst (get_message E c i w') = Inr (if 0 < cc_message_ttl_days c then Some (cut_message m) else None)"
  proof (cases "0 < cc_message_ttl_days c")
    case True
    have "message_in c d' i (cut_message m)"
      using published_message_in [OF p(2) [unfolded m_def] assms(3,5)] True days by (simp add: m_def)
    from cmd_world.get_message_reads [OF assms(1) p(3) this] True show ?thesis by simp
  next
    case False
    then have "db_hashes d' (message_key c i) = Map.empty"
      using after_publish_same(1) [OF p(2), of "message_key c i"] published_simps(1) [of c m d] days f by simp
    from cmd_world.get_message_missing [OF assms(1) p(3) this] False show ?thesis by simp
  qed
  with connectedD(2) [OF p(3)] after_publish_same(2,4) [OF p(2)] published_simps(3-5) [of c m d] f days show ?thesis
    by (auto simp: r_def p(1))
qed

theorem published_message_reads_back_witness:
  "fst (publish_message md_env demo_config GENERAL ''s'' ''d'' ''backend'' ''pm'' True (Some ''msg-1'') demo_conn) =
     Inr (new_message ''msg-1'' GENERAL ''s'' ''d'' ''backend'' ''pm'' True 1700000000500000) \<and>
   fst (get_message md_env (demo_config\<lparr>cc_message_ttl_days := 0\<rparr>) ''msg-1'' (snd (publish_message md_env
     (demo_config\<lparr>cc_message_ttl_days := 0\<rparr>) GENERAL ''s'' ''d'' ''backend'' ''pm'' True (Some ''msg-1'') demo_conn))) =
     Inr None"
  using published_message_reads_back [OF mdw.cmd_world_axioms demo_connected demo_absent _ demo_time,
      where i = "''msg-1''" and c = demo_config and ra = True]
    published_message_reads_back [OF mdw.cmd_world_axioms demo_connected demo_absent _ demo_time,
      where i = "''msg-1''" and c = "demo_config\<lparr>cc_message_ttl_days := 0\<rparr>" and ra = True]
  by simp

text \<open>The identifier of a stored message is not taken twice: publishing under it again is a
  \<^verbatim>\<open>PublishError\<close> and writes nothing.\<close>

theorem taken_identifier_is_refused:
  fixes E :: "'x cmd_env" and w :: "'x conn" and s de fr t i :: string
  assumes "cmd_world E up kv" "connected up kv w d now n" "present d (message_key c i)" "i \<noteq> []"
  shows "fst (publish_message E c ty s de fr t ra (Some i) w) =
      Inl (Exn PublishError (''Message ID already exists: '' @ i)) \<and>
    kv (cn_redis (snd (publish_message E c ty s de fr t ra (Some i) w))) = d"
proof -
  have "present d (message_key c (cm_id (new_message i ty s de fr t ra now)))" using assms(3) by simp
  from wp_fails [OF cmd_world.store_message_refuses [OF assms(1,2) this]] show ?thesis
    by (auto simp: cmd_world.publish_eq [OF assms(1,2,4)] connected_def)
qed

definition demo_stored :: memdb where
  "demo_stored = md_effect (Hset (message_key demo_config ''msg-1'') [(''id'', ''msg-1'')]) empty_memdb"

theorem taken_identifier_is_refused_witness:
  "\<exists>e. fst (publish_message md_env demo_config GENERAL ''s'' ''d'' ''a'' ''pm'' True (Some ''msg-1'')
     (demo_conn\<lparr>cn_redis := demo_stored\<rparr>)) = Inl e"
proof -
  have "connected (\<lambda>_. True) memdb_abs (demo_conn\<lparr>cn_redis := demo_stored\<rparr>) (memdb_abs demo_stored) 1700000000500000 0"
    by (simp add: connected_md demo_conn_def)
  moreover have "present (memdb_abs demo_stored) (message_key demo_config ''msg-1'')"
    by (simp add: demo_stored_def md_present_def empty_memdb_def)
  ultimately show ?thesis
    using taken_identifier_is_refused [OF mdw.cmd_world_axioms, where i = "''msg-1''" and c = demo_config] by blast
qed

text \<open>C24: Acknowledging a message marks it, with who and when, and takes it from the pending set; a
  second acknowledgement, by whomever and whenever, succeeds and changes nothing.\<close>

theorem acknowledged_once:
  fixes E :: "'x cmd_env" and w :: "'x conn" and i b1 b2 :: string and m :: coord_message
    and comment other :: "string option"
  assumes "cmd_world E up kv" "connected up kv w d now n" "message_in c d i m" "\<not> cm_acknowledged m"
    and "b1 \<noteq> []" "valid_datetime (utc_datetime now)"
  defines "r1 \<equiv> acknowledge_message E c i b1 comment w"
  shows "fst r1 = Inr True \<and>
    fst (get_message E c i (snd r1)) = Inr (Some (acked_by b1 now comment m)) \<and>
    i \<notin> db_sets (kv (cn_redis (snd r1))) (pending_key c) \<and>
    (\<forall>later. let w2 = (snd r1)\<lparr>cn_now := later\<rparr>; r2 = acknowledge_message E c i b2 other w2
      in fst r2 = Inr True \<and> kv (cn_redis (snd r2)) = kv (cn_redis (snd r1)))"
proof -
  have na: "db_hashes d (message_key c i) ''acknowledged'' \<noteq> Some ''1''"
    using message_in_acknowledged(1) [OF assms(3)] assms(4) by simp
  let ?d = "run_effects (ack_commands c i b1 comment now) d"
  obtain w' where r: "acknowledge_message E c i b1 comment w = (Inr True, w')" "connected up kv w' ?d now n"
    by (rule cmd_world.ack_effect [OF assms(1,2) message_in_acknowledged(2) [OF assms(3)], of b1 comment])
      (simp add: na)
  note read = message_in_after_ack [OF assms(3,5,6)]
  have ack: "db_hashes ?d (message_key c i) ''acknowledged'' = Some ''1''" "present ?d (message_key c i)"
    using message_in_acknowledged [OF read, of comment] by (simp_all add: acked_by_def)
  have "\<exists>w3. acknowledge_message E c i b2 other (w'\<lparr>cn_now := later\<rparr>) = (Inr True, w3) \<and> kv (cn_redis w3) = ?d"
    for later
  proof -
    have "connected up kv (w'\<lparr>cn_now := later\<rparr>) ?d later n" using r(2) by (simp add: connected_def)
    then show ?thesis
      by (rule cmd_world.ack_effect [OF assms(1) _ ack(2), of "w'\<lparr>cn_now := later\<rparr>" later n b2 other])
        (use ack(1) connectedD(2) in fastforce)
  qed
  then have "fst (acknowledge_message E c i b2 other (w'\<lparr>cn_now := later\<rparr>)) = Inr True \<and>
      kv (cn_redis (snd (acknowledge_message E c i b2 other (w'\<lparr>cn_now := later\<rparr>)))) = kv (cn_redis w')" for later
    using connectedD(2) [OF r(2)] by (metis fst_conv snd_conv)
  with cmd_world.get_message_reads [OF assms(1) r(2) read] connectedD(2) [OF r(2)] show ?thesis
    by (simp add: r1_def r(1) after_ack Let_def)
qed


definition demo_message :: coord_message where
  "demo_message = new_message ''msg-1'' GENERAL ''s'' ''d'' ''backend'' ''pm'' True 1700000000500000"

definition demo_sent :: "memdb conn" where
  "demo_sent =
     snd (publish_message md_env demo_config GENERAL ''s'' ''d'' ''backend'' ''pm'' True (Some ''msg-1'') demo_conn)"

lemma demo_sent:
  obtains d where "connected (\<lambda>_. True) memdb_abs demo_sent d 1700000000500000 0"
    "message_in demo_config d ''msg-1'' (cut_message demo_message)"
    "after_publish demo_config demo_message (memdb_abs empty_memdb) d"
proof -
  have "''msg-1'' \<noteq> []" by simp
  then obtain w' d' where p:
    "publish_message md_env demo_config GENERAL ''s'' ''d'' ''backend'' ''pm'' True (Some ''msg-1'') demo_conn =
       (Inr demo_message, w')"
    "after_publish demo_config demo_message (memdb_abs empty_memdb) d'"
    "connected (\<lambda>_. True) memdb_abs w' d' 1700000000500000 0"
    unfolding demo_message_def by (rule mdw.publish_effect [OF demo_connected demo_absent])
  from published_message_in [OF p(2) [unfolded demo_message_def] demo_absent demo_time demo_ttl]
  have "message_in demo_config d' ''msg-1'' (cut_message demo_message)" by (simp add: demo_message_def)
  with p that show thesis by (simp add: demo_sent_def)
qed

theorem acknowledged_once_witness:
  "fst (acknowledge_message md_env demo_config ''msg-1'' ''pm'' None demo_sent) = Inr True"
proof (rule demo_sent)
  fix d
  assume "connected (\<lambda>_. True) memdb_abs demo_sent d 1700000000500000 0"
    "message_in demo_config d ''msg-1'' (cut_message demo_message)"
  from acknowledged_once [OF mdw.cmd_world_axioms this _ _ demo_time, of "''pm''" None]
  show ?thesis
    by (simp add: cut_message_def demo_message_def new_message_def)
qed

lemma wp_fst: "wp m s (\<lambda>_ _. True) (\<lambda>e _. P e) \<longleftrightarrow> (\<forall>e. fst (m s) = Inl e \<longrightarrow> P e)"
  by (auto simp: wp_def split: sum.splits)

text \<open>The base of an exception class, for the classes the client raises.\<close>

lemma isinstance_PublishError: "isinstance_exn c PublishError \<longleftrightarrow> c = PublishError"
  by (cases c) (simp_all add: isinstance_exn_def eval_nat_numeral)

lemma wp_any: "wp m s (\<lambda>_ _. True) (\<lambda>_ _. True)"
  by (simp add: wp_def split: sum.splits)

context cmd_world
begin

lemma wp_pipeline_any:
  assumes "\<And>v w'. Q v w'" "\<And>e w'. redis_error (class_of e) \<Longrightarrow> F e w'"
  shows "wp (pipeline E cs) w Q F"
  using assms exec_error [of cs "cn_redis w"] by (auto simp: wp_def pipeline_def split: sum.splits prod.splits)

lemmas wp_command_any' = wp_command_any [OF refl]

lemma ack_check_any:
  assumes "\<And>v w'. Q v w'" "\<And>e w'. redis_error (class_of e) \<Longrightarrow> F e w'"
  shows "wp (ack_check E c i) w Q F"
  unfolding ack_check_def wp_simps
  by (rule wp_command_any') (auto simp: wp_simps assms intro!: wp_command_any')

text \<open>The clock is not moved by a command.\<close>

lemma get_presence_any:
  "wp (get_presence E c tm) w (\<lambda>_ _. True) (\<lambda>e _. class_of e = PresenceError \<or>
     class_of e = PyValueError \<and> (\<exists>h. presence_infos (cn_now w) (presence_timeout c tm) (group_fields h []) = Inl e))"
  using exec_error [of "[Hgetall (presence_key c)]" "cn_redis w"]
  by (auto simp: get_presence_def translating_def command_def pipeline_def now_us_def bindE_def try_except_def ret_def
      raise_def lift_result_def wp_def dest: presence_infos_error split: sum.splits prod.splits)

lemma translating_any:
  assumes "wp m w (\<lambda>_ _. True) (\<lambda>e _. redis_error (class_of e))"
  shows "wp (translating C msg m) w (\<lambda>_ _. True) (\<lambda>e _. class_of e = C)"
  by (rule wp_translating, rule wp_mono [OF assms]) auto

end

text \<open>C26: whatever the connection does, the methods that write fail with their documented exception
  and no other: publishing with a \<^verbatim>\<open>PublishError\<close>, acknowledging with an \<^verbatim>\<open>AcknowledgeError\<close>,
  registering, beating and unregistering with a \<^verbatim>\<open>PresenceError\<close>.  The query for the presence is
  documented to raise a \<^verbatim>\<open>PresenceError\<close> as well, and raises nothing else but the \<^verbatim>\<open>ValueError\<close> of a
  stored time stamp that does not parse.\<close>

theorem only_documented_errors:
  fixes E :: "'x cmd_env"
  assumes "cmd_world E up kv"
  shows "(\<forall>e. fst (publish_message E c ty s de fr t ra mid w) = Inl e \<longrightarrow> class_of e = PublishError) \<and>
    (\<forall>e. fst (acknowledge_message E c i b comment w) = Inl e \<longrightarrow> class_of e = AcknowledgeError) \<and>
    (\<forall>e. fst (register_instance E c i sess w) = Inl e \<longrightarrow> class_of e = PresenceError) \<and>
    (\<forall>e. fst (heartbeat E c i w) = Inl e \<longrightarrow> class_of e = PresenceError) \<and>
    (\<forall>e. fst (unregister_instance E c i w) = Inl e \<longrightarrow> class_of e = PresenceError) \<and>
    (\<forall>e. fst (get_presence E c tm w) = Inl e \<longrightarrow> class_of e = PresenceError \<or>
      class_of e = PyValueError \<and>
      (\<exists>h. presence_infos (cn_now w) (presence_timeout c tm) (group_fields h []) = Inl e))"
proof -
  note one = cmd_world.wp_command_any' [OF assms] and tr = cmd_world.translating_any [OF assms]
  have store: "wp (store_message E c m) w' (\<lambda>_ _. True) (\<lambda>e _. class_of e = PublishError)" for m w'
    unfolding store_message_def wp_try_except any_exception_True if_True
    by (rule wp_mono [OF wp_any]) (simp_all add: publish_failed_def isinstance_PublishError wp_simps)
  have "wp (publish_message E c ty s de fr t ra mid) w (\<lambda>_ _. True) (\<lambda>e _. class_of e = PublishError)"
    by (auto simp: publish_message_def generate_message_id_def wp_simps store)
  moreover have "wp (acknowledge_message E c i b comment) w (\<lambda>_ _. True) (\<lambda>e _. class_of e = AcknowledgeError)"
    unfolding acknowledge_message_def wp_simps
    by (rule tr, simp only: wp_simps, rule cmd_world.ack_check_any [OF assms])
      (auto simp: wp_simps ack_write_def intro!: cmd_world.wp_pipeline_any [OF assms] split: option.splits)
  moreover have "wp (register_instance E c i sess) w (\<lambda>_ _. True) (\<lambda>e _. class_of e = PresenceError)"
    "wp (heartbeat E c i) w (\<lambda>_ _. True) (\<lambda>e _. class_of e = PresenceError)"
    "wp (unregister_instance E c i) w (\<lambda>_ _. True) (\<lambda>e _. class_of e = PresenceError)"
    unfolding register_instance_def heartbeat_def unregister_instance_def wp_simps
    by (rule tr, rule one, simp, simp)+
  moreover have "wp (get_presence E c tm) w (\<lambda>_ _. True) (\<lambda>e _. class_of e = PresenceError \<or>
      class_of e = PyValueError \<and> (\<exists>h. presence_infos (cn_now w) (presence_timeout c tm) (group_fields h []) = Inl e))"
    by (rule cmd_world.get_presence_any [OF assms])
  ultimately show ?thesis unfolding wp_fst by blast
qed

text \<open>A connection that is lost.\<close>

definition down_env :: "memdb cmd_env" where
  "down_env = md_env\<lparr>ce_exec := (\<lambda>cs x. (Inl (Exn RedisRedisError ''connection lost''), x))\<rparr>"

interpretation down: cmd_world down_env "\<lambda>_. False" memdb_abs
  by unfold_locales (auto simp: down_env_def md_env_def)

theorem only_documented_errors_witness:
  "\<exists>e. fst (heartbeat down_env demo_config ''pm'' demo_conn) = Inl e \<and> class_of e = PresenceError"
proof -
  have "\<exists>e. fst (heartbeat down_env demo_config ''pm'' demo_conn) = Inl e"
    by (simp add: heartbeat_def bindE_def now_us_def translating_def try_except_def command_def pipeline_def down_env_def)
  with only_documented_errors [OF down.cmd_world_axioms] show ?thesis by blast
qed

section \<open>Acknowledging a message that expires\<close>

context cmd_world
begin

text \<open>A stored hash that does not read as a message makes reading it raise.\<close>

lemma get_message_raises:
  assumes "connected up kv w d t n" "db_hashes d (message_key c i) \<noteq> Map.empty"
    and "\<And>h. map_of h = db_hashes d (message_key c i) \<Longrightarrow> hash_to_message h = Inl e" "\<not> redis_error (class_of e)"
  shows "fst (get_message E c i w) = Inl e"
proof -
  have "wp (get_message E c i) w (\<lambda>_ _. False) (\<lambda>e' _. e' = e)"
    unfolding get_message_def
    by (rule wp_translating, simp only: wp_simps, rule wp_command [OF refl assms(1)])
      (use assms(2-4) in \<open>auto simp: lists_map_def wp_simps\<close>)
  from wp_fails [OF this] show ?thesis by auto
qed

lemma wp_fetch_matching:
  assumes "connected up kv w d t n"
    and "\<And>h w'. map_of h = db_hashes d (message_key c i) \<Longrightarrow> connected up kv w' d t n \<Longrightarrow>
      wp (if h = [] then ret [] else bindE (lift_result (hash_to_message h)) (\<lambda>m.
            bindE (lift_result (passes_filters q m)) (\<lambda>b. ret (if b then [m] else [])))) w' Q F"
  shows "wp (fetch_matching E c q i) w Q F"
  unfolding fetch_matching_def wp_bindE [of "command E dict_of_reply (Hgetall (message_key c i))"]
proof (rule wp_command [OF refl assms(1)])
  fix r w'
  assume "answers d (Hgetall (message_key c i)) r"
    and "connected up kv w' (cmd_effect (Hgetall (message_key c i)) d) t n"
  then obtain ps where ps: "r = RDict ps" "map_of ps = db_hashes d (message_key c i)" "connected up kv w' d t n"
    by (auto simp: lists_map_def)
  show "wp (if dict_of_reply r = [] then ret []
      else bindE (lift_result (hash_to_message (dict_of_reply r))) (\<lambda>m.
            bindE (lift_result (passes_filters q m)) (\<lambda>b. ret (if b then [m] else [])))) w' Q F"
    unfolding ps(1) dict_of_reply.simps by (rule assms(2) [OF ps(2,3)])
qed

end

lemma collect_raises:
  assumes "x \<in> set xs" "I s" "\<And>y s'. I s' \<Longrightarrow> wp (body y) s' (\<lambda>_ s''. I s'') (\<lambda>_ _. True)"
    and "\<And>s'. I s' \<Longrightarrow> wp (body x) s' (\<lambda>_ _. False) (\<lambda>_ _. True)"
  shows "wp (collect xs body) s (\<lambda>_ _. False) (\<lambda>_ _. True)"
  using assms(1,2)
proof (induction xs arbitrary: s)
  case (Cons y ys)
  show ?case
  proof (cases "y = x")
    case True
    then show ?thesis
      using assms(4) [OF Cons.prems(2)] by (auto simp: wp_simps elim: wp_mono)
  next
    case False
    then have "x \<in> set ys" using Cons.prems(1) by simp
    with Cons.IH have "wp (collect ys body) s' (\<lambda>_ _. False) (\<lambda>_ _. True)" if "I s'" for s' using that by blast
    then show ?thesis
      using assms(3) [OF Cons.prems(2), of y] by (auto simp: wp_simps elim!: wp_mono)
  qed
qed simp

context cmd_world
begin

lemma wp_candidates_inbox:
  assumes "connected up kv w d t n" "mq_to q = Some to'" "to' \<noteq> []"
    and "\<And>ids w'. distinct ids \<Longrightarrow>
      set ids = db_sets d (inbox_key c to') \<inter> (if mq_pending_only q then db_sets d (pending_key c) else UNIV) \<Longrightarrow>
      connected up kv w' d t n \<Longrightarrow> Q ids w'"
  shows "wp (candidate_ids E c q) w Q F"
proof -
  have "wp (command E (Some \<circ> texts_of_reply) (Smembers (inbox_key c to'))) w
      (\<lambda>inbox w'. wp (bindE (pending_among E c q inbox)
          (\<lambda>ids. case ids of None \<Rightarrow> bindE (timeline_ids E c q) (\<lambda>l. ret (remdups l)) | Some l \<Rightarrow> ret l)) w' Q F) F"
  proof (rule wp_command [OF refl assms(1)])
    fix r w'
    assume "answers d (Smembers (inbox_key c to')) r"
      and "connected up kv w' (cmd_effect (Smembers (inbox_key c to')) d) t n"
    then obtain ms where r: "r = RTexts ms" "distinct ms" "set ms = db_sets d (inbox_key c to')"
      and w': "connected up kv w' d t n"
      by (auto simp: lists_set_def)
    show "wp (bindE (pending_among E c q ((Some \<circ> texts_of_reply) r))
          (\<lambda>ids. case ids of None \<Rightarrow> bindE (timeline_ids E c q) (\<lambda>l. ret (remdups l)) | Some l \<Rightarrow> ret l)) w' Q F"
    proof (cases "mq_pending_only q")
      case True
      have "wp (command E texts_of_reply (Smembers (pending_key c))) w'
          (\<lambda>pending w''. Q (filter (\<lambda>i. i \<in> set pending) ms) w'') F"
        by (rule wp_command [OF refl w']) (auto simp: lists_set_def r(2,3) True intro!: assms(4))
      with True r(1) show ?thesis by (simp add: pending_among_def wp_simps)
    next
      case False
      then show ?thesis
        using assms(4) [OF r(2) _ w'] r by (simp add: pending_among_def wp_simps)
    qed
  qed
  with assms(2,3) show ?thesis by (simp add: candidate_ids_def wp_simps)
qed

lemma fetch_connected:
  assumes "connected up kv w d t n"
  shows "wp (fetch_matching E c q i) w (\<lambda>_ w'. connected up kv w' d t n) (\<lambda>_ _. True)"
  by (rule wp_fetch_matching [OF assms]) (auto simp: wp_simps split: sum.splits)

lemma inbox_query_raises:
  assumes "connected up kv w d t n" "mq_to q = Some to'" "to' \<noteq> []" "\<not> mq_pending_only q"
    and "i \<in> db_sets d (inbox_key c to')" "db_hashes d (message_key c i) \<noteq> Map.empty"
    and "\<And>h. map_of h = db_hashes d (message_key c i) \<Longrightarrow> hash_to_message h = Inl e"
  shows "\<exists>e'. fst (get_messages E c (Some q) w) = Inl e'"
proof -
  have bad: "wp (fetch_matching E c q i) w' (\<lambda>_ _. False) (\<lambda>_ _. True)" if "connected up kv w' d t n" for w'
    by (rule wp_fetch_matching [OF that]) (use assms(6,7) in \<open>auto simp: wp_simps\<close>)
  have "wp (get_messages E c (Some q)) w (\<lambda>_ _. False) (\<lambda>_ _. True)"
    unfolding get_messages_def Let_def option.case
  proof (rule wp_translating, simp only: wp_simps, rule wp_candidates_inbox [OF assms(1-3)])
    fix ids w'
    assume ids: "distinct ids" "set ids = db_sets d (inbox_key c to') \<inter>
        (if mq_pending_only q then db_sets d (pending_key c) else UNIV)" and w': "connected up kv w' d t n"
    then have "i \<in> set (ce_iter E ids)" using assms(4,5) iter [OF ids(1)] by simp
    then have "wp (collect (ce_iter E ids) (fetch_matching E c q)) w' (\<lambda>_ _. False) (\<lambda>_ _. True)"
      using w' fetch_connected bad by (rule collect_raises)
    then show "wp (collect (ce_iter E ids) (fetch_matching E c q)) w'
       (\<lambda>v s'. case newest_first (concat v) of
           Inl e \<Rightarrow> if redis_error (class_of e) then True else True
         | Inr v \<Rightarrow> False)
       (\<lambda>e w'. if redis_error (class_of e) then True else True)"
      by (rule wp_mono) simp_all
  qed
  from wp_fails [OF this] show ?thesis by blast
qed

end

text \<open>When a message expires between the check and the write of its acknowledgement, the write
  leaves a hash without the fields of a message, and without an expiry.  From then on reading the
  message is a \<^verbatim>\<open>KeyError\<close>, and so every query of its receiver's inbox raises.\<close>

theorem late_acknowledgement_breaks_inbox:
  fixes E :: "'x cmd_env" and w0 w :: "'x conn" and i b t :: string and comment :: "string option"
  assumes "cmd_world E up kv" "connected up kv w0 d now n" "message_in c d i m" "\<not> cm_acknowledged m"
    and "connected up kv w (expired (message_key c i) d) now' n"
    and "i \<in> db_sets d (inbox_key c t)" "t \<noteq> []" "mq_to q = Some t" "\<not> mq_pending_only q"
  defines "r \<equiv> ack_write E c i b comment now w"
  shows "fst (ack_check E c i w0) = Inr None \<and> fst r = Inr True \<and>
    db_ttl (kv (cn_redis (snd r))) (message_key c i) = None \<and>
    fst (get_message E c i (snd r)) = Inl (Exn PyKeyError ''id'') \<and>
    (\<exists>e. fst (get_messages E c (Some q) (snd r)) = Inl e)"
proof -
  let ?d = "run_effects (ack_commands c i b comment now) (expired (message_key c i) d)"
  have chk: "fst (ack_check E c i w0) = Inr None"
    using wp_succeeds [OF cmd_world.wp_ack_check [OF assms(1,2), where Q = "\<lambda>v _. v = None" and F = "\<lambda>_ _. False"]]
      message_in_acknowledged [OF assms(3)] assms(4) by fastforce
  have "wp (ack_write E c i b comment now) w (\<lambda>v w'. v = True \<and> connected up kv w' ?d now' n) (\<lambda>_ _. False)"
    by (rule cmd_world.wp_ack_write [OF assms(1,5)]) simp
  from wp_succeeds [OF this] have r: "fst r = Inr True" "connected up kv (snd r) ?d now' n"
    by (auto simp: r_def)
  have "db_hashes ?d (message_key c i) ''id'' = None" "db_hashes ?d (message_key c i) ''ack_by'' = Some b"
    by (simp_all add: after_ack expired_def)
  then have h: "db_hashes ?d (message_key c i) ''id'' = None" "db_hashes ?d (message_key c i) \<noteq> Map.empty"
    by auto
  then have bad: "hash_to_message hs = Inl (Exn PyKeyError ''id'')" if "map_of hs = db_hashes ?d (message_key c i)" for hs
    using that by (simp add: hash_to_message_def Let_def)
  have "db_ttl ?d (message_key c i) = None"
    by (simp add: ack_commands_def ttl_settled_ttl expired_def)
  moreover have "i \<in> db_sets ?d (inbox_key c t)"
    using assms(6) by (simp add: after_ack expired_def)
  ultimately show ?thesis
    using chk r connectedD(2) [OF r(2)] cmd_world.get_message_raises [OF assms(1) r(2) h(2) bad]
      cmd_world.inbox_query_raises [OF assms(1) r(2) assms(8,7,9) _ h(2) bad] by simp
qed

lemma demo_sent_inbox:
  assumes "after_publish demo_config demo_message (memdb_abs empty_memdb) d"
  shows "db_sets d (inbox_key demo_config ''pm'') = {''msg-1''}"
    "db_hashes d (message_key demo_config i) \<noteq> Map.empty \<Longrightarrow> i = ''msg-1''"
  using after_publish_same(1) [OF assms, of "message_key demo_config i"]
    after_publish_same(2) [OF assms, of "inbox_key demo_config ''pm''"]
    published_simps(2) [of "message_key demo_config i" demo_config demo_message "memdb_abs empty_memdb"]
  by (auto simp: published_simps(4) demo_message_def memdb_abs_def empty_memdb_def split: if_splits)

theorem late_acknowledgement_breaks_inbox_witness:
  "\<exists>e. fst (get_messages md_env demo_config (Some (default_query\<lparr>mq_to := Some ''pm''\<rparr>))
     (snd (ack_write md_env demo_config ''msg-1'' ''pm'' None 1700000000500000
       (demo_sent\<lparr>cn_redis := md_effect (Delete (message_key demo_config ''msg-1'')) (cn_redis demo_sent)\<rparr>)))) = Inl e"
proof (rule demo_sent)
  fix d
  assume d: "connected (\<lambda>_. True) memdb_abs demo_sent d 1700000000500000 0"
    "message_in demo_config d ''msg-1'' (cut_message demo_message)"
    "after_publish demo_config demo_message (memdb_abs empty_memdb) d"
  have "connected (\<lambda>_. True) memdb_abs
      (demo_sent\<lparr>cn_redis := md_effect (Delete (message_key demo_config ''msg-1'')) (cn_redis demo_sent)\<rparr>)
      (expired (message_key demo_config ''msg-1'') d) 1700000000500000 0"
    using d(1) md_effect_abs [of "Delete (message_key demo_config ''msg-1'')" "cn_redis demo_sent"]
    by (simp add: connected_md del: md_effect.simps)
  from late_acknowledgement_breaks_inbox [OF mdw.cmd_world_axioms d(1,2) _ this,
      where t = "''pm''" and q = "default_query\<lparr>mq_to := Some ''pm''\<rparr>" and b = "''pm''" and comment = None]
  show ?thesis
    using demo_sent_inbox(1) [OF d(3)]
    by (simp add: cut_message_def demo_message_def new_message_def default_query_def del: md_effect.simps)
qed

section \<open>Queries\<close>

definition matches :: "message_query \<Rightarrow> coord_message \<Rightarrow> bool" where
  "matches q m \<longleftrightarrow>
     (truthy (mq_from q) \<longrightarrow> cm_from m = the (mq_from q)) \<and>
     (mq_type q \<noteq> None \<longrightarrow> mq_type q = Some (cm_type m)) \<and>
     (\<forall>t. mq_since q = Some t \<longrightarrow> timestamp_us t \<le> timestamp_us (cm_timestamp m))"

lemma passes_filters_matches:
  assumes "aware (cm_timestamp m)" "\<And>t. mq_since q = Some t \<Longrightarrow> aware t"
  shows "passes_filters q m = Inr (matches q m)"
  using assms by (auto simp: passes_filters_def matches_def datetime_less_def split: option.splits)

lemma wp_collect_rel:
  assumes "I s" "\<And>x s'. x \<in> set xs \<Longrightarrow> I s' \<Longrightarrow> wp (body x) s' (\<lambda>v s''. P x v \<and> I s'') F"
    and "\<And>vs s'. list_all2 P xs vs \<Longrightarrow> I s' \<Longrightarrow> Q vs s'"
  shows "wp (collect xs body) s Q F"
  using assms
proof (induction xs arbitrary: s Q)
  case (Cons x xs)
  have "wp (collect xs body) s' (\<lambda>ys s''. Q (v # ys) s'') F" if "I s'" "P x v" for s' v
    by (rule Cons.IH) (use that Cons.prems in auto)
  moreover have "wp (body x) s (\<lambda>v s''. P x v \<and> I s'') F" using Cons.prems(1,2) by auto
  ultimately show ?case by (auto simp: wp_simps intro: wp_mono)
qed (simp add: wp_ret)

text \<open>What the loop appends for an identifier.\<close>

definition found :: "coord_config \<Rightarrow> db \<Rightarrow> message_query \<Rightarrow> string \<Rightarrow> coord_message list \<Rightarrow> bool" where
  "found c d q i v \<longleftrightarrow>
     db_hashes d (message_key c i) = Map.empty \<and> v = [] \<or>
     (\<exists>m. message_in c d i m \<and> v = (if matches q m then [m] else []))"

lemma found_set:
  assumes "list_all2 (found c d q) ids vs"
  shows "set (concat vs) = {m. \<exists>i \<in> set ids. message_in c d i m \<and> matches q m}"
    "distinct ids \<Longrightarrow> length (concat vs) = card {i \<in> set ids. \<exists>m. message_in c d i m \<and> matches q m}"
proof -
  have none: "\<not> message_in c d i m" if "db_hashes d (message_key c i) = Map.empty" for i m
    using that by (simp add: message_in_def stored_as_def)
  have uni: "message_in c d i m \<Longrightarrow> message_in c d i m' \<Longrightarrow> m = m'" for i m m'
    unfolding message_in_def by (rule stored_as_unique)
  show "set (concat vs) = {m. \<exists>i \<in> set ids. message_in c d i m \<and> matches q m}"
    using assms
    by (induction rule: list_all2_induct) (auto simp: found_def none dest: uni split: if_splits)
  show "length (concat vs) = card {i \<in> set ids. \<exists>m. message_in c d i m \<and> matches q m}" if "distinct ids"
    using assms that
  proof (induction rule: list_all2_induct)
    case (Cons i ids v vs)
    let ?S = "{j \<in> set ids. \<exists>m. message_in c d j m \<and> matches q m}"
    have "length v = (if \<exists>m. message_in c d i m \<and> matches q m then 1 else 0)"
      using Cons.hyps(1) by (auto simp: found_def none dest: uni)
    moreover have "{j \<in> set (i # ids). \<exists>m. message_in c d j m \<and> matches q m} =
        (if \<exists>m. message_in c d i m \<and> matches q m then insert i ?S else ?S)" by auto
    moreover have "i \<notin> ?S" "finite ?S" using Cons.prems by auto
    ultimately show ?case using Cons.IH Cons.prems by simp
  qed simp
qed

lemma newest_first_sorted:
  assumes "\<forall>m \<in> set ms. aware (cm_timestamp m)"
  obtains ms' where "newest_first ms = Inr ms'" "set ms' = set ms" "length ms' = length ms"
    "sorted_wrt (\<lambda>a b. timestamp_us (cm_timestamp b) \<le> timestamp_us (cm_timestamp a)) ms'"
proof -
  let ?f = "\<lambda>m. timestamp_us (cm_timestamp m)"
  have "newest_first ms = Inr (rev (sort_key ?f (rev ms)))" using assms by (auto simp: newest_first_def)
  moreover have "sorted_wrt (\<lambda>a b. ?f a \<le> ?f b) (sort_key ?f (rev ms))"
    using sorted_sort_key [of ?f "rev ms"] by (simp add: sorted_map)
  then have "sorted_wrt (\<lambda>a b. ?f b \<le> ?f a) (rev (sort_key ?f (rev ms)))" by (simp add: sorted_wrt_rev)
  ultimately show thesis by (intro that) simp_all
qed

text \<open>Every identifier in a set is that of an expired message or of one that reads, with an aware stamp.\<close>

definition readable :: "coord_config \<Rightarrow> db \<Rightarrow> string set \<Rightarrow> bool" where
  "readable c d I \<longleftrightarrow>
     (\<forall>i \<in> I. db_hashes d (message_key c i) = Map.empty \<or>
             (\<exists>m. message_in c d i m \<and> aware (cm_timestamp m)))"

definition newest_matching ::
  "coord_config \<Rightarrow> db \<Rightarrow> message_query \<Rightarrow> string set \<Rightarrow> coord_message list \<Rightarrow> bool" where
  "newest_matching c d q I ms \<longleftrightarrow>
     set ms = {m. \<exists>i \<in> I. message_in c d i m \<and> matches q m} \<and>
     length ms = card {i \<in> I. \<exists>m. message_in c d i m \<and> matches q m} \<and>
     sorted_wrt (\<lambda>a b. timestamp_us (cm_timestamp b) \<le> timestamp_us (cm_timestamp a)) ms"

context cmd_world
begin

lemma wp_fetch_found:
  assumes "connected up kv w d t n" "\<And>u. mq_since q = Some u \<Longrightarrow> aware u"
    and "db_hashes d (message_key c i) = Map.empty \<or> (\<exists>m. message_in c d i m \<and> aware (cm_timestamp m))"
  shows "wp (fetch_matching E c q i) w (\<lambda>v w'. found c d q i v \<and> connected up kv w' d t n) F"
proof (rule wp_fetch_matching [OF assms(1)])
  fix h w'
  assume h: "map_of h = db_hashes d (message_key c i)" and w': "connected up kv w' d t n"
  show "wp (if h = [] then ret [] else bindE (lift_result (hash_to_message h)) (\<lambda>m.
        bindE (lift_result (passes_filters q m)) (\<lambda>b. ret (if b then [m] else [])))) w'
      (\<lambda>v w'. found c d q i v \<and> connected up kv w' d t n) F"
  proof (cases "h = []")
    case True
    then show ?thesis using h w' by (simp add: wp_simps found_def flip: h)
  next
    case False
    then have "db_hashes d (message_key c i) \<noteq> Map.empty" by (simp flip: h)
    with assms(3) obtain m where m: "message_in c d i m" "aware (cm_timestamp m)" by blast
    then have "hash_to_message h = Inr m" using stored_asD [of h m] by (simp add: message_in_def h)
    moreover have "passes_filters q m = Inr (matches q m)"
      by (rule passes_filters_matches [OF m(2) assms(2)])
    ultimately show ?thesis using False m(1) w' by (auto simp: wp_simps found_def)
  qed
qed

lemma wp_query:
  assumes "connected up kv w d t n" "\<And>u. mq_since q = Some u \<Longrightarrow> aware u"
    and cand: "\<And>Q'. (\<And>ids w'. distinct ids \<Longrightarrow> set ids = I \<Longrightarrow> connected up kv w' d t n \<Longrightarrow> Q' ids w') \<Longrightarrow>
      wp (candidate_ids E c q) w Q' (\<lambda>_ _. False)"
    and "readable c d I"
  shows "\<exists>ms. fst (get_messages E c (Some q) w) = Inr (take (nat (mq_limit q)) ms) \<and> newest_matching c d q I ms"
proof -
  have loop: "wp (collect (ce_iter E ids) (fetch_matching E c q)) w'
      (\<lambda>vs s'. case newest_first (concat vs) of Inl e \<Rightarrow> False
         | Inr v \<Rightarrow> \<exists>ms. take (nat (mq_limit q)) v = take (nat (mq_limit q)) ms \<and> newest_matching c d q I ms)
      (\<lambda>_ _. False)"
    if ids: "distinct ids" "set ids = I" and w': "connected up kv w' d t n" for ids w'
  proof (rule wp_collect_rel [where I = "\<lambda>s. connected up kv s d t n" and P = "found c d q"], rule w')
    have it: "set (ce_iter E ids) = I" "distinct (ce_iter E ids)" using iter [OF ids(1)] ids(2) by simp_all
    show "wp (fetch_matching E c q x) s' (\<lambda>v s''. found c d q x v \<and> connected up kv s'' d t n) (\<lambda>_ _. False)"
      if "x \<in> set (ce_iter E ids)" "connected up kv s' d t n" for x s'
      by (rule wp_fetch_found [OF that(2) assms(2)]) (use assms(4) that(1) it(1) in \<open>auto simp: readable_def\<close>)
    fix vs s'
    assume vs: "list_all2 (found c d q) (ce_iter E ids) vs"
    note fs = found_set [OF vs]
    have "\<forall>m \<in> set (concat vs). aware (cm_timestamp m)"
    proof
      fix m
      assume "m \<in> set (concat vs)"
      then obtain i where i: "i \<in> I" "message_in c d i m" using fs(1) it(1) by blast
      then have "db_hashes d (message_key c i) \<noteq> Map.empty" by (auto simp: message_in_def stored_as_def)
      then obtain m' where "message_in c d i m'" "aware (cm_timestamp m')"
        using assms(4) i(1) by (auto simp: readable_def)
      with i(2) show "aware (cm_timestamp m)"
        using stored_as_unique by (metis message_in_def)
    qed
    then obtain ms where "newest_first (concat vs) = Inr ms" "set ms = set (concat vs)"
      "length ms = length (concat vs)"
      "sorted_wrt (\<lambda>a b. timestamp_us (cm_timestamp b) \<le> timestamp_us (cm_timestamp a)) ms"
      by (rule newest_first_sorted)
    with fs(1) fs(2) [OF it(2)] it(1)
    show "case newest_first (concat vs) of Inl e \<Rightarrow> False
         | Inr v \<Rightarrow> \<exists>ms. take (nat (mq_limit q)) v = take (nat (mq_limit q)) ms \<and> newest_matching c d q I ms"
      by (auto simp: newest_matching_def)
  qed
  have "wp (get_messages E c (Some q)) w
      (\<lambda>v _. \<exists>ms. v = take (nat (mq_limit q)) ms \<and> newest_matching c d q I ms) (\<lambda>_ _. False)"
    unfolding get_messages_def Let_def option.case
    by (rule wp_translating, simp only: wp_simps if_cancel, rule cand, rule loop)
  from wp_succeeds [OF this] show ?thesis by blast
qed

end

text \<open>C25: a query for an instance is exact.  When the messages of its inbox can be read, the answer
  is the first \<^verbatim>\<open>limit\<close> of a list that holds every message of the inbox which passes the filters
  (and is pending, if asked) once for its identifier, nothing else, and is ordered by time, newest
  first.\<close>

theorem inbox_query_is_exact:
  fixes E :: "'x cmd_env" and w :: "'x conn" and q :: message_query and c :: coord_config
  assumes "cmd_world E up kv" "connected up kv w d now n" "mq_to q = Some t" "t \<noteq> []"
    and "\<And>u. mq_since q = Some u \<Longrightarrow> aware u"
  defines "I \<equiv> db_sets d (inbox_key c t) \<inter> (if mq_pending_only q then db_sets d (pending_key c) else UNIV)"
  assumes "readable c d I"
  shows "\<exists>ms. fst (get_messages E c (Some q) w) = Inr (take (nat (mq_limit q)) ms) \<and>
    set ms = {m. \<exists>i \<in> I. message_in c d i m \<and> matches q m} \<and>
    length ms = card {i \<in> I. \<exists>m. message_in c d i m \<and> matches q m} \<and>
    sorted_wrt (\<lambda>a b. timestamp_us (cm_timestamp b) \<le> timestamp_us (cm_timestamp a)) ms"
proof -
  have "wp (candidate_ids E c q) w Q (\<lambda>_ _. False)"
    if "\<And>ids w'. distinct ids \<Longrightarrow> set ids = I \<Longrightarrow> connected up kv w' d now n \<Longrightarrow> Q ids w'" for Q
    by (rule cmd_world.wp_candidates_inbox [OF assms(1-4)]) (use that in \<open>simp add: I_def\<close>)
  from cmd_world.wp_query [OF assms(1,2,5) this assms(7)] show ?thesis
    unfolding newest_matching_def by blast
qed

definition demo_query :: message_query where
  "demo_query = default_query\<lparr>mq_to := Some ''pm'', mq_pending_only := True\<rparr>"

lemma demo_readable:
  assumes "after_publish demo_config demo_message (memdb_abs empty_memdb) d"
    "message_in demo_config d ''msg-1'' (cut_message demo_message)"
  shows "readable demo_config d I"
  unfolding readable_def
proof
  fix i
  have "aware (cm_timestamp (cut_message demo_message))" by (simp add: cut_message_def aware_def)
  with demo_sent_inbox(2) [OF assms(1), of i] assms(2)
  show "db_hashes d (message_key demo_config i) = Map.empty \<or>
      (\<exists>m. message_in demo_config d i m \<and> aware (cm_timestamp m))" by blast
qed

theorem inbox_query_is_exact_witness:
  "\<exists>ms. fst (get_messages md_env demo_config (Some demo_query) demo_sent) = Inr (take 100 ms)"
proof (rule demo_sent)
  fix d
  assume d: "connected (\<lambda>_. True) memdb_abs demo_sent d 1700000000500000 0"
    "message_in demo_config d ''msg-1'' (cut_message demo_message)"
    "after_publish demo_config demo_message (memdb_abs empty_memdb) d"
  from inbox_query_is_exact [OF mdw.cmd_world_axioms d(1) _ _ _ demo_readable [OF d(3,2)],
      of demo_query "''pm''"]
  show ?thesis by (auto simp: demo_query_def default_query_def)
qed

section \<open>Queries by time\<close>

context cmd_world
begin

lemma wp_candidates_since:
  assumes "connected up kv w d t n" "\<not> truthy (mq_to q)" "\<not> mq_pending_only q" "mq_since q = Some s"
    and "\<And>ids w'. distinct ids \<Longrightarrow> set ids = {i. \<exists>sc \<ge> since_score E s. (sc, i) \<in> set (db_zsets d (timeline_key c))} \<Longrightarrow>
      connected up kv w' d t n \<Longrightarrow> Q ids w'"
  shows "wp (candidate_ids E c q) w Q F"
proof -
  have "wp (timeline_ids E c q) w (\<lambda>l w'. Q (remdups l) w') F"
    unfolding timeline_ids_def assms(4) option.case
    by (rule wp_command [OF refl assms(1)]) (rule assms(5); force)
  with assms(2,3) show ?thesis by (simp add: candidate_ids_def pending_among_def wp_simps)
qed

end

lemma cut_message_stamp: "timestamp_us (cm_timestamp (cut_message m)) = whole_seconds (wall (cm_timestamp m))"
  by (simp add: cut_message_def timestamp_us_def)

text \<open>A query by time misses what was published in the second it starts in.  The timeline
  has the message with its exact stamp and returns it for the query, but the stored stamp is cut
  to the second, lies before the start, and the message is filtered out.\<close>

theorem recent_message_is_missed:
  fixes E :: "'x cmd_env" and w :: "'x conn" and q :: message_query and c :: coord_config and m :: coord_message
  assumes "cmd_world E up kv" "connected up kv w d now n" "\<not> truthy (mq_to q)" "\<not> mq_pending_only q"
    and "mq_since q = Some (utc_datetime s)"
    and "cm_timestamp m = utc_datetime sent" "s \<le> sent" "whole_seconds sent < s"
    and "(sent, i) \<in> set (db_zsets d (timeline_key c))" "message_in c d i (cut_message m)"
  defines "I \<equiv> {j. \<exists>sc \<ge> s. (sc, j) \<in> set (db_zsets d (timeline_key c))}"
  assumes "readable c d I"
  shows "i \<in> I \<and> (\<exists>ms. fst (get_messages E c (Some q) w) = Inr ms \<and> cut_message m \<notin> set ms)"
proof -
  have sc: "since_score E (utc_datetime s) = s" by (simp add: since_score_def aware_def timestamp_us_def)
  have "wp (candidate_ids E c q) w Q (\<lambda>_ _. False)"
    if "\<And>ids w'. distinct ids \<Longrightarrow> set ids = I \<Longrightarrow> connected up kv w' d now n \<Longrightarrow> Q ids w'" for Q
    by (rule cmd_world.wp_candidates_since [OF assms(1-5)]) (use that in \<open>simp add: I_def sc\<close>)
  moreover have "mq_since q = Some u \<Longrightarrow> aware u" for u using assms(5) by (auto simp: aware_def)
  ultimately obtain ms where ms: "fst (get_messages E c (Some q) w) = Inr (take (nat (mq_limit q)) ms)"
    "newest_matching c d q I ms"
    using cmd_world.wp_query [OF assms(1,2) _ _ assms(12)] by blast
  have "timestamp_us (cm_timestamp (cut_message m)) = whole_seconds sent"
    by (simp add: cut_message_stamp assms(6))
  then have "\<not> matches q (cut_message m)"
    using assms(5,8) by (simp add: matches_def timestamp_us_def)
  then have "cut_message m \<notin> set ms" using ms(2) by (auto simp: newest_matching_def)
  then have "cut_message m \<notin> set (take (nat (mq_limit q)) ms)" by (blast dest: in_set_takeD)
  with ms(1) assms(7,9) show ?thesis by (auto simp: I_def)
qed

definition demo_since :: message_query where
  "demo_since = default_query\<lparr>mq_since := Some (utc_datetime 1700000000400000)\<rparr>"

theorem recent_message_is_missed_witness:
  "\<exists>ms. fst (get_messages md_env demo_config (Some demo_since) demo_sent) = Inr ms \<and>
     cut_message demo_message \<notin> set ms"
proof (rule demo_sent)
  fix d
  assume d: "connected (\<lambda>_. True) memdb_abs demo_sent d 1700000000500000 0"
    "message_in demo_config d ''msg-1'' (cut_message demo_message)"
    "after_publish demo_config demo_message (memdb_abs empty_memdb) d"
  have "db_zsets d (timeline_key demo_config) = [(1700000000500000, ''msg-1'')]"
    using after_publish_same(3) [OF d(3), of "timeline_key demo_config"]
    by (simp add: published_simps(6) demo_message_def memdb_abs_def empty_memdb_def zput_def timestamp_us_def
        out_of_range_def range_start_def range_stop_def demo_config_def default_coord_config_def)
  then have tl: "(1700000000500000, ''msg-1'') \<in> set (db_zsets d (timeline_key demo_config))" by simp
  have st: "cm_timestamp demo_message = utc_datetime 1700000000500000"
    "whole_seconds 1700000000500000 < 1700000000400000"
    by (simp_all add: demo_message_def whole_seconds_def)
  have q: "\<not> truthy (mq_to demo_since)" "\<not> mq_pending_only demo_since"
    "mq_since demo_since = Some (utc_datetime 1700000000400000)"
    by (simp_all add: demo_since_def default_query_def)
  from recent_message_is_missed [OF mdw.cmd_world_axioms d(1) q st(1) _ st(2) tl d(2) demo_readable [OF d(3,2)]]
  show ?thesis by simp
qed

section \<open>Notifications\<close>

text \<open>Taking queued notifications returns the newest ones up to the limit and empties the queue:
  those beyond the limit are lost.\<close>

theorem notifications_beyond_limit_are_lost:
  fixes E :: "'x cmd_env" and w :: "'x conn" and i :: string and limit :: int
  assumes "cmd_world E up kv" "connected up kv w d now n" "1 \<le> limit"
    and "db_lists d (notification_queue_key c i) = map notification_to_json ns"
    and "\<forall>x \<in> set ns. utc_stamp (nt_timestamp x)"
  shows "fst (pop_notifications E c i limit w) = Inr (map cut (take (nat limit) ns)) \<and>
    db_lists (kv (cn_redis (snd (pop_notifications E c i limit w)))) (notification_queue_key c i) = []"
proof -
  have parse: "parse_notifications (map notification_to_json xs) = Inr (map cut xs)"
    if "\<forall>x \<in> set xs. utc_stamp (nt_timestamp x)" for xs
    using that by (induction xs) (simp_all add: notification_roundtrip)
  have "in_range 0 (limit - 1) (map notification_to_json ns) = map notification_to_json (take (nat limit) ns)"
    using assms(3) by (simp add: in_range_def range_start_def range_stop_def take_map)
  moreover have "\<forall>x \<in> set (take (nat limit) ns). utc_stamp (nt_timestamp x)"
    using assms(5) by (blast dest: in_set_takeD)
  ultimately have p: "parse_notifications (in_range 0 (limit - 1) (map notification_to_json ns)) =
      Inr (map cut (take (nat limit) ns))" using parse by simp
  have "wp (pop_notifications E c i limit) w
      (\<lambda>v w'. v = map cut (take (nat limit) ns) \<and> db_lists (kv (cn_redis w')) (notification_queue_key c i) = []) (\<lambda>_ _. False)"
    unfolding pop_notifications_def
    by (rule cmd_world.wp_translating [OF assms(1)], simp only: wp_simps,
        rule cmd_world.wp_pipe [OF assms(1,2)])
      (auto simp: reply_at_def assms(4) p expired_def connected_def split: list.splits)
  from wp_succeeds [OF this] show ?thesis by auto
qed

definition demo_queue :: "memdb conn" where
  "demo_queue = demo_conn\<lparr>cn_redis := empty_memdb\<lparr>md_lists := (\<lambda>_. [])(notification_queue_key demo_config ''pm'' :=
     map notification_to_json [notification_of_message demo_message, notification_of_message demo_message])\<rparr>\<rparr>"

theorem notifications_beyond_limit_are_lost_witness:
  "fst (pop_notifications md_env demo_config ''pm'' 1 demo_queue) = Inr [cut (notification_of_message demo_message)]"
proof -
  let ?n = "notification_of_message demo_message"
  have "connected (\<lambda>_. True) memdb_abs demo_queue (memdb_abs (cn_redis demo_queue)) 1700000000500000 0"
    by (simp add: connected_md demo_queue_def demo_conn_def)
  moreover have "db_lists (memdb_abs (cn_redis demo_queue)) (notification_queue_key demo_config ''pm'') =
      map notification_to_json [?n, ?n]"
    by (simp add: demo_queue_def memdb_abs_def)
  moreover have "utc_stamp (nt_timestamp ?n)"
    using demo_time by (simp add: utc_stamp_def notification_of_message_def demo_message_def)
  ultimately show ?thesis
    using notifications_beyond_limit_are_lost [OF mdw.cmd_world_axioms, where limit = 1 and ns = "[?n, ?n]"] by simp
qed

lemma listener_event_of_json:
  assumes "utc_stamp (nt_timestamp x)"
  shows "listener_event (notification_to_json x) = Inr (cut x)"
proof -
  obtain us where "nt_timestamp x = utc_datetime us" "valid_datetime (utc_datetime us)"
    using assms by (rule utc_stampE)
  then show ?thesis
    unfolding listener_event_def loads_notification
    by (simp add: notification_to_dict_def dget_def item_def type_item_def new_notification_def cut_def)
qed

text \<open>What subscribers hear of one publication.  The receiver of a direct message hears it
  twice, on its own channel and on the broadcast channel; every other instance that listens to
  broadcasts hears it once; and a broadcast message reaches every instance twice.\<close>

theorem publications_heard:
  fixes b :: string and c :: coord_config and d :: db and m :: coord_message
  assumes "utc_stamp (cm_timestamp m)"
  defines "news \<equiv> drop (length (db_published d)) (db_published (published c m d))"
    and "event \<equiv> cut (notification_of_message m)"
  shows "delivered c (cm_to m) True news = [event, event] \<and>
    (b \<notin> {cm_to m, ''all''} \<longrightarrow>
       delivered c b True news = (if cm_to m = ''all'' then [event, event] else [event]) \<and>
       delivered c b False news = [])"
proof -
  have "utc_stamp (nt_timestamp (notification_of_message m))" using assms(1) by (simp add: notification_of_message_def)
  note ev = listener_event_of_json [OF this]
  have ch: "instance_channel c x = instance_channel c y \<longleftrightarrow> x = y"
    "instance_channel c x = broadcast_channel c \<longleftrightarrow> x = ''all''"
    "broadcast_channel c = instance_channel c x \<longleftrightarrow> x = ''all''" for x y
    by (auto simp: instance_channel_def broadcast_channel_def)
  show ?thesis
    by (auto simp: delivered_def subscribed_channels_def news_def published_simps(7) event_def ev ch)
qed

theorem publications_heard_witness:
  "delivered demo_config ''qa'' True
     (drop (length (db_published (memdb_abs empty_memdb)))
       (db_published (published demo_config demo_message (memdb_abs empty_memdb)))) =
   [cut (notification_of_message demo_message)]"
proof -
  have "utc_stamp (cm_timestamp demo_message)" using demo_time by (simp add: utc_stamp_def demo_message_def)
  from publications_heard [OF this, where b = "''qa''"] show ?thesis by (simp add: demo_message_def)
qed

section \<open>The timeline\<close>

definition timeline_ok :: "(int \<times> string) list \<Rightarrow> bool" where
  "timeline_ok z \<longleftrightarrow> sorted z \<and> distinct (map snd z)"

lemma timeline_ok_zput: "timeline_ok z \<Longrightarrow> timeline_ok (zput i s z)"
proof -
  assume z: "timeline_ok z"
  have "distinct (map snd (insort x xs)) \<longleftrightarrow> distinct (map snd (x # xs))" for x and xs :: "(int \<times> string) list"
    by (induction xs) (auto simp: set_insort_key)
  with z show ?thesis
    by (auto simp: timeline_ok_def zput_def sorted_insort sorted_filter [of id, simplified] distinct_map_filter)
qed

lemma set_zput: "set (zput i s z) = insert (s, i) {p \<in> set z. snd p \<noteq> i}"
  by (auto simp: zput_def set_insort_key)

text \<open>Trimming keeps the last entries, those with the highest scores.\<close>

lemma out_of_range_trim:
  "0 \<le> k \<Longrightarrow> out_of_range 0 (- k - 1) xs = drop (length xs - nat k) xs"
  by (auto simp: out_of_range_def range_start_def range_stop_def nat_diff_distrib intro!: arg_cong [where f = "\<lambda>n. drop n xs"])

text \<open>C27: The timeline keeps its order, its members stay distinct, and it never exceeds the
  configured size; what a publication drops is older than all it keeps.\<close>

theorem timeline_keeps_newest:
  fixes c :: coord_config and d :: db and m :: coord_message
  assumes "timeline_ok (db_zsets d (timeline_key c))" "0 \<le> cc_timeline_max_size c"
  defines "z \<equiv> db_zsets (published c m d) (timeline_key c)"
    and "offered \<equiv> insert (timestamp_us (cm_timestamp m), cm_id m)
      {p \<in> set (db_zsets d (timeline_key c)). snd p \<noteq> cm_id m}"
  shows "timeline_ok z \<and> length z = min (nat (cc_timeline_max_size c)) (card offered) \<and> set z \<subseteq> offered \<and>
    (\<forall>old \<in> offered - set z. \<forall>kept \<in> set z. fst old \<le> fst kept)"
proof -
  let ?z = "zput (cm_id m) (timestamp_us (cm_timestamp m)) (db_zsets d (timeline_key c))"
  let ?k = "length ?z - nat (cc_timeline_max_size c)"
  have z: "z = drop ?k ?z"
    using out_of_range_trim [OF assms(2), of ?z] by (simp add: z_def published_simps(6))
  have ok: "timeline_ok ?z" by (rule timeline_ok_zput [OF assms(1)])
  have set: "set ?z = offered" by (simp add: set_zput offered_def)
  have "distinct ?z" using ok by (auto simp: timeline_ok_def distinct_map)
  then have card: "card offered = length ?z" using distinct_card set by metis
  have app: "?z = take ?k ?z @ z" by (simp add: z)
  have "fst old \<le> fst kept" if "old \<in> set (take ?k ?z)" "kept \<in> set z" for old kept
  proof -
    have "sorted (take ?k ?z @ z)" using ok by (simp add: z timeline_ok_def)
    then have "old \<le> kept" using that by (auto simp: sorted_append)
    then show ?thesis by (cases old; cases kept) auto
  qed
  moreover have "offered - set z \<subseteq> set (take ?k ?z)"
    using set app by (metis Diff_subset_conv Un_commute set_append subset_refl)
  moreover have "timeline_ok z"
    using ok unfolding z timeline_ok_def by (simp add: sorted_wrt_drop flip: drop_map)
  moreover have "set z \<subseteq> offered" unfolding z set [symmetric] by (rule set_drop_subset)
  moreover have "length z = min (nat (cc_timeline_max_size c)) (card offered)"
    unfolding z card by simp
  ultimately show ?thesis by blast
qed

theorem timeline_keeps_newest_witness:
  "length (db_zsets (published demo_config demo_message (memdb_abs empty_memdb)) (timeline_key demo_config)) = 1"
proof -
  have "timeline_ok (db_zsets (memdb_abs empty_memdb) (timeline_key demo_config))"
    "0 \<le> cc_timeline_max_size demo_config"
    by (simp_all add: timeline_ok_def memdb_abs_def empty_memdb_def demo_config_def default_coord_config_def)
  from timeline_keeps_newest [OF this, of demo_message] show ?thesis
    by (simp add: memdb_abs_def empty_memdb_def demo_config_def default_coord_config_def)
qed

section \<open>Presence\<close>

lemma rsplit_dot_join: "CHR ''.'' \<notin> set f \<Longrightarrow> rsplit_dot (i @ ''.'' @ f) = Some (i, f)"
proof -
  assume f: "CHR ''.'' \<notin> set f"
  then have "takeWhile (\<lambda>c. c \<noteq> CHR ''.'') (rev f @ CHR ''.'' # rev i) = rev f"
    "dropWhile (\<lambda>c. c \<noteq> CHR ''.'') (rev f @ CHR ''.'' # rev i) = CHR ''.'' # rev i"
    by (subst takeWhile_append2 dropWhile_append2; auto)+
  then show ?thesis by (simp add: rsplit_dot_def)
qed

lemma rsplit_dot_Some:
  assumes "rsplit_dot k = Some (i, f)"
  shows "k = i @ ''.'' @ f" "CHR ''.'' \<notin> set f"
proof -
  have dot: "CHR ''.'' \<in> set k" and i: "i = rev (tl (dropWhile (\<lambda>c. c \<noteq> CHR ''.'') (rev k)))"
    and f: "f = rev (takeWhile (\<lambda>c. c \<noteq> CHR ''.'') (rev k))"
    using assms by (auto simp: rsplit_dot_def split: if_splits)
  have "dropWhile (\<lambda>c. c \<noteq> CHR ''.'') (rev k) \<noteq> []" using dot by (simp add: dropWhile_eq_Nil_conv)
  then obtain xs where xs: "dropWhile (\<lambda>c. c \<noteq> CHR ''.'') (rev k) = CHR ''.'' # xs"
    using hd_dropWhile [of "\<lambda>c. c \<noteq> CHR ''.''" "rev k"]
    by (cases "dropWhile (\<lambda>c. c \<noteq> CHR ''.'') (rev k)") auto
  have "rev k = rev f @ CHR ''.'' # xs"
    using takeWhile_dropWhile_id [of "\<lambda>c. c \<noteq> CHR ''.''" "rev k"] by (simp add: f xs)
  then have "rev (rev k) = rev (rev f @ CHR ''.'' # xs)" by (rule arg_cong)
  moreover have "i = rev xs" by (simp only: i xs list.sel)
  ultimately show "k = i @ ''.'' @ f" by simp
  show "CHR ''.'' \<notin> set f" by (auto simp: f dest: set_takeWhileD)
qed

text \<open>Grouping puts the value of the key \<open>i.f\<close> under the field \<open>f\<close> of the instance \<open>i\<close>.\<close>

lemma group_fields_lookup:
  assumes "distinct (map fst ps)" "CHR ''.'' \<notin> set f"
  shows "map_of (dget (group_fields ps acc) i []) f =
    (case map_of ps (i @ ''.'' @ f) of Some v \<Rightarrow> Some v | None \<Rightarrow> map_of (dget acc i []) f)"
  using assms(1)
proof (induction ps arbitrary: acc)
  case (Cons p ps)
  obtain k v where p: "p = (k, v)" by (cases p)
  let ?acc = "case rsplit_dot k of None \<Rightarrow> acc | Some (j, g) \<Rightarrow> dset j (dset g v (dget acc j [])) acc"
  have "map_of (dget ?acc i []) f = (if k = i @ ''.'' @ f then Some v else map_of (dget acc i []) f)"
  proof (cases "k = i @ ''.'' @ f")
    case True
    then show ?thesis using rsplit_dot_join [OF assms(2), of i] by (simp add: dget_def)
  next
    case False
    show ?thesis
    proof (cases "rsplit_dot k")
      case (Some jg)
      then obtain j g where "rsplit_dot k = Some (j, g)" by (cases jg) simp
      with rsplit_dot_Some [OF this] False show ?thesis by (auto simp: dget_def)
    qed (use False in simp)
  qed
  moreover have "map_of ps (i @ ''.'' @ f) = None" if "k = i @ ''.'' @ f"
    using Cons.prems that by (simp add: p map_of_eq_None_iff)
  moreover have "map_of (dget (group_fields ps ?acc) i []) f =
      (case map_of ps (i @ ''.'' @ f) of Some v \<Rightarrow> Some v | None \<Rightarrow> map_of (dget ?acc i []) f)"
    by (rule Cons.IH) (use Cons.prems in simp)
  moreover have "group_fields (p # ps) acc = group_fields ps ?acc" by (simp only: p group_fields.simps fst_conv snd_conv)
  moreover have "map_of (p # ps) (i @ ''.'' @ f) = (if k = i @ ''.'' @ f then Some v else map_of ps (i @ ''.'' @ f))"
    by (simp add: p)
  ultimately show ?case by (simp only: split: if_split) simp
qed simp

lemma group_fields_keys:
  "map_of (group_fields ps acc) i \<noteq> None \<longleftrightarrow>
     map_of acc i \<noteq> None \<or> (\<exists>k f. k \<in> fst ` set ps \<and> rsplit_dot k = Some (i, f))"
proof (induction ps arbitrary: acc)
  case (Cons p ps)
  then show ?case by (cases "rsplit_dot (fst p)") (auto split: if_splits)
qed simp

lemma presence_infos_lookup:
  assumes "\<And>g. g \<in> set gs \<Longrightarrow> \<exists>p. presence_of_fields now tm (fst g) (snd g) = Inr p"
  shows "\<exists>r. presence_infos now tm gs = Inr r \<and> (\<forall>i. map_of r i =
    (case map_of gs i of None \<Rightarrow> None
     | Some fs \<Rightarrow> (case presence_of_fields now tm i fs of Inr p \<Rightarrow> Some p | Inl e \<Rightarrow> None)))"
  using assms
proof (induction gs)
  case (Cons g gs)
  obtain p where p: "presence_of_fields now tm (fst g) (snd g) = Inr p" using Cons.prems [of g] by auto
  obtain r where r: "presence_infos now tm gs = Inr r" "\<And>i. map_of r i =
    (case map_of gs i of None \<Rightarrow> None
     | Some fs \<Rightarrow> (case presence_of_fields now tm i fs of Inr p \<Rightarrow> Some p | Inl e \<Rightarrow> None))"
    using Cons.IH Cons.prems by fastforce
  have "presence_infos now tm (g # gs) = Inr ((fst g, p) # r)" by (simp add: p r(1))
  moreover have "map_of ((fst g, p) # r) i = (case map_of (g # gs) i of None \<Rightarrow> None
     | Some fs \<Rightarrow> (case presence_of_fields now tm i fs of Inr p \<Rightarrow> Some p | Inl e \<Rightarrow> None))" for i
    using p r(2) [of i] by (cases g) simp
  ultimately show ?case by blast
qed simp

text \<open>Every heart beat in the hash can be read.\<close>

definition stamps_ok :: "(string \<Rightarrow> string option) \<Rightarrow> bool" where
  "stamps_ok h \<longleftrightarrow>
     (\<forall>i s. h (i @ ''.last_heartbeat'') = Some s \<longrightarrow> s = [] \<or> (\<exists>t. parse_stamp_anywhere s = Inr t))"

lemma grouped_presence:
  assumes "distinct (map fst ps)" "map_of ps = h" "stamps_ok h"
  obtains r where "presence_infos now tm (group_fields ps []) = Inr r"
    "\<And>i f. CHR ''.'' \<notin> set f \<Longrightarrow> h (i @ ''.'' @ f) \<noteq> None \<Longrightarrow>
       \<exists>fs p. presence_of_fields now tm i fs = Inr p \<and> map_of r i = Some p \<and>
         (\<forall>g. CHR ''.'' \<notin> set g \<longrightarrow> map_of fs g = h (i @ ''.'' @ g))"
    "\<And>i. (\<forall>f. CHR ''.'' \<notin> set f \<longrightarrow> h (i @ ''.'' @ f) = None) \<Longrightarrow> map_of r i = None"
proof -
  let ?gs = "group_fields ps []"
  have dk: "distinct (map fst gs') \<Longrightarrow> distinct (map fst (group_fields qs gs'))" for qs and gs' :: "string pydict pydict"
    by (induction qs arbitrary: gs') (auto split: option.splits)
  have field: "map_of fs g = h (i @ ''.'' @ g)" if "map_of ?gs i = Some fs" "CHR ''.'' \<notin> set g" for i fs g
    using group_fields_lookup [OF assms(1) that(2), of "[]" i] that(1)
    by (simp add: assms(2) dget_def split: option.splits)
  have ok: "\<exists>p. presence_of_fields now tm i fs = Inr p" if "map_of ?gs i = Some fs" for i fs
  proof -
    have "dget fs ''last_heartbeat'' [] = (case h (i @ ''.last_heartbeat'') of None \<Rightarrow> [] | Some s \<Rightarrow> s)"
      using field [OF that, of "''last_heartbeat''"] by (simp add: dget_def)
    then have "dget fs ''last_heartbeat'' [] = [] \<or> (\<exists>t. parse_stamp_anywhere (dget fs ''last_heartbeat'' []) = Inr t)"
      using assms(3) by (auto simp: stamps_ok_def split: option.splits)
    then show ?thesis by (auto simp: presence_of_fields_def Let_def)
  qed
  have "\<exists>p. presence_of_fields now tm (fst g) (snd g) = Inr p" if "g \<in> set ?gs" for g
    by (rule ok, rule map_of_is_SomeI) (use that dk [of "[]" ps] in simp_all)
  then obtain r where r: "presence_infos now tm ?gs = Inr r" "\<And>i. map_of r i =
    (case map_of ?gs i of None \<Rightarrow> None
     | Some fs \<Rightarrow> (case presence_of_fields now tm i fs of Inr p \<Rightarrow> Some p | Inl e \<Rightarrow> None))"
    using presence_infos_lookup [of ?gs now tm] by blast
  show thesis
  proof (rule that [OF r(1)])
    fix i f
    assume f: "CHR ''.'' \<notin> set f" "h (i @ ''.'' @ f) \<noteq> None"
    then have "map_of (dget ?gs i []) f \<noteq> None"
      using group_fields_lookup [OF assms(1) f(1), of "[]" i] by (auto simp: assms(2) split: option.splits)
    then obtain fs where fs: "map_of ?gs i = Some fs" by (auto simp: dget_def split: option.splits)
    obtain p where "presence_of_fields now tm i fs = Inr p" using ok [OF fs] ..
    moreover from this have "map_of r i = Some p" using fs r(2) [of i] by simp
    moreover have "\<forall>g. CHR ''.'' \<notin> set g \<longrightarrow> map_of fs g = h (i @ ''.'' @ g)"
      using field [OF fs] by blast
    ultimately show "\<exists>fs p. presence_of_fields now tm i fs = Inr p \<and> map_of r i = Some p \<and>
         (\<forall>g. CHR ''.'' \<notin> set g \<longrightarrow> map_of fs g = h (i @ ''.'' @ g))" by blast
  next
    fix i
    assume none: "\<forall>f. CHR ''.'' \<notin> set f \<longrightarrow> h (i @ ''.'' @ f) = None"
    have "\<not> (\<exists>k f. k \<in> fst ` set ps \<and> rsplit_dot k = Some (i, f))"
    proof safe
      fix k v f
      assume kv: "(k, v) \<in> set ps" "rsplit_dot (fst (k, v)) = Some (i, f)"
      then have "k \<in> fst ` set ps" by force
      then have "h k \<noteq> None" by (simp add: map_of_eq_None_iff flip: assms(2))
      moreover have "k = i @ ''.'' @ f" "CHR ''.'' \<notin> set f" using kv(2) rsplit_dot_Some [of k i f] by simp_all
      ultimately show False using none by simp
    qed
    then have "map_of ?gs i = None" using group_fields_keys [of ps "[]" i] by simp
    then show "map_of r i = None" by (simp add: r(2))
  qed
qed

context cmd_world
begin

lemma presence_read:
  assumes "connected up kv w d t n" "stamps_ok (db_hashes d (presence_key c))"
  obtains r where "fst (get_presence E c tm w) = Inr r"
    "\<And>i f. CHR ''.'' \<notin> set f \<Longrightarrow> db_hashes d (presence_key c) (i @ ''.'' @ f) \<noteq> None \<Longrightarrow>
       \<exists>fs p. presence_of_fields t (presence_timeout c tm) i fs = Inr p \<and> map_of r i = Some p \<and>
         (\<forall>g. CHR ''.'' \<notin> set g \<longrightarrow> map_of fs g = db_hashes d (presence_key c) (i @ ''.'' @ g))"
    "\<And>i. (\<forall>f. CHR ''.'' \<notin> set f \<longrightarrow> db_hashes d (presence_key c) (i @ ''.'' @ f) = None) \<Longrightarrow> map_of r i = None"
proof -
  let ?P = "\<lambda>r. (\<forall>i f. CHR ''.'' \<notin> set f \<longrightarrow> db_hashes d (presence_key c) (i @ ''.'' @ f) \<noteq> None \<longrightarrow>
       (\<exists>fs p. presence_of_fields t (presence_timeout c tm) i fs = Inr p \<and> map_of r i = Some p \<and>
         (\<forall>g. CHR ''.'' \<notin> set g \<longrightarrow> map_of fs g = db_hashes d (presence_key c) (i @ ''.'' @ g)))) \<and>
     (\<forall>i. (\<forall>f. CHR ''.'' \<notin> set f \<longrightarrow> db_hashes d (presence_key c) (i @ ''.'' @ f) = None) \<longrightarrow> map_of r i = None)"
  have "wp (get_presence E c tm) w (\<lambda>r _. ?P r) (\<lambda>_ _. False)"
  proof (rule wp_get_presence [OF assms(1)])
    fix ps w'
    assume "distinct (map fst ps)" "map_of ps = db_hashes d (presence_key c)"
    then obtain r where "presence_infos t (presence_timeout c tm) (group_fields ps []) = Inr r" "?P r"
      using grouped_presence [OF _ _ assms(2), of ps] by metis
    then show "case presence_infos t (presence_timeout c tm) (group_fields ps []) of
         Inr r \<Rightarrow> ?P r | Inl e \<Rightarrow> False" by simp
  qed
  from wp_succeeds [OF this] that show thesis by blast
qed

end

text \<open>Presence lapses.  After an instance has registered, every later reading reports it, active
  as long as the time since its registration, counted from the full second, is within the
  timeout, with the session it registered or else had before.\<close>

theorem presence_lapses:
  fixes E :: "'x cmd_env" and w :: "'x conn" and i :: string and c :: coord_config and sess :: "string option"
  assumes "cmd_world E up kv" "connected up kv w d now n" "stamps_ok (db_hashes d (presence_key c))"
    and "valid_datetime (utc_datetime now)"
  defines "w1 \<equiv> snd (register_instance E c i sess w)"
  shows "fst (register_instance E c i sess w) = Inr () \<and>
    (\<exists>r. fst (get_presence E c None (w1\<lparr>cn_now := later\<rparr>)) = Inr r \<and>
      map_of r i = Some \<lparr>pi_instance = i,
        pi_active = (later - whole_seconds now \<le> cc_presence_timeout_minutes c * 60000000),
        pi_last_heartbeat = utc_datetime (whole_seconds now),
        pi_session = (if truthy sess then sess else db_hashes d (presence_key c) (i @ ''.session_id''))\<rparr>)"
proof -
  let ?k = "presence_key c"
  let ?new = "[(i @ ''.active'', ''1''), (i @ ''.last_heartbeat'', strftime_z (utc_datetime now))] @
    opt_field (i @ ''.session_id'') sess"
  let ?d = "cmd_effect (Hset ?k ?new) d"
  have "wp (register_instance E c i sess) w (\<lambda>v w'. v = () \<and> connected up kv w' ?d now n) (\<lambda>_ _. False)"
    unfolding register_instance_def wp_bindE cmd_world.connected_now [OF assms(1,2)]
    by (rule cmd_world.wp_translating [OF assms(1)], rule cmd_world.wp_cmd [OF assms(1,2)]) simp
  from wp_succeeds [OF this] have reg: "fst (register_instance E c i sess w) = Inr ()" "connected up kv w1 ?d now n"
    by (auto simp: w1_def)
  let ?h = "db_hashes ?d ?k"
  have stamp: "parse_stamp_anywhere (strftime_z (utc_datetime now)) = Inr (utc_datetime (whole_seconds now))"
    using assms(4) by simp
  have h: "?h (i @ ''.active'') = Some ''1''" "?h (i @ ''.last_heartbeat'') = Some (strftime_z (utc_datetime now))"
    "?h (i @ ''.session_id'') = (if truthy sess then sess else db_hashes d ?k (i @ ''.session_id''))"
    by (simp_all add: map_add_def split: option.splits)
  have "?h (j @ ''.last_heartbeat'') =
      (if j = i then Some (strftime_z (utc_datetime now)) else db_hashes d ?k (j @ ''.last_heartbeat''))" for j
    by (auto simp: map_add_def dest!: arg_cong [where f = rev] split: option.splits)
  then have ok: "stamps_ok ?h"
    using assms(3) stamp by (auto simp: stamps_ok_def split: if_splits)
  have w2: "connected up kv (w1\<lparr>cn_now := later\<rparr>) ?d later n" using reg(2) by (simp add: connected_def)
  have nodot: "CHR ''.'' \<notin> set ''active''" "CHR ''.'' \<notin> set ''last_heartbeat''" "CHR ''.'' \<notin> set ''session_id''"
    by simp_all
  obtain r where r: "fst (get_presence E c None (w1\<lparr>cn_now := later\<rparr>)) = Inr r"
    "\<And>i f. CHR ''.'' \<notin> set f \<Longrightarrow> ?h (i @ ''.'' @ f) \<noteq> None \<Longrightarrow>
       \<exists>fs p. presence_of_fields later (presence_timeout c None) i fs = Inr p \<and> map_of r i = Some p \<and>
         (\<forall>g. CHR ''.'' \<notin> set g \<longrightarrow> map_of fs g = ?h (i @ ''.'' @ g))"
    by (rule cmd_world.presence_read [OF assms(1) w2 ok, of None]) (blast intro: that)
  obtain fs p where p: "presence_of_fields later (presence_timeout c None) i fs = Inr p" "map_of r i = Some p"
    and fs: "\<And>g. CHR ''.'' \<notin> set g \<Longrightarrow> map_of fs g = ?h (i @ ''.'' @ g)"
    using r(2) [OF nodot(1), of i] h(1) by auto
  have f: "map_of fs ''active'' = Some ''1''" "map_of fs ''last_heartbeat'' = Some (strftime_z (utc_datetime now))"
    "map_of fs ''session_id'' = (if truthy sess then sess else db_hashes d ?k (i @ ''.session_id''))"
    using fs [OF nodot(1)] fs [OF nodot(2)] fs [OF nodot(3)] h by simp_all
  have "strftime_z (utc_datetime now) \<noteq> []" using strftime_z_ends [of "utc_datetime now"] by (auto simp: ends_with_def)
  with p(1) have "p = \<lparr>pi_instance = i,
        pi_active = (later - whole_seconds now \<le> cc_presence_timeout_minutes c * 60000000),
        pi_last_heartbeat = utc_datetime (whole_seconds now),
        pi_session = (if truthy sess then sess else db_hashes d ?k (i @ ''.session_id''))\<rparr>"
    by (simp add: presence_of_fields_def Let_def dget_def f stamp is_stale_def heartbeat_age_def timestamp_us_def
        presence_timeout_def split: if_splits)
  with reg(1) r(1) p(2) show ?thesis by auto
qed

theorem presence_lapses_witness:
  "\<exists>r p. fst (get_presence md_env demo_config None
       ((snd (register_instance md_env demo_config ''pm'' None demo_conn))\<lparr>cn_now := 1700000301000000\<rparr>)) = Inr r \<and>
     map_of r ''pm'' = Some p \<and> \<not> pi_active p"
proof -
  have "stamps_ok (db_hashes (memdb_abs empty_memdb) (presence_key demo_config))"
    by (simp add: stamps_ok_def memdb_abs_def empty_memdb_def)
  from presence_lapses [OF mdw.cmd_world_axioms demo_connected this demo_time, of "''pm''" None 1700000301000000]
  show ?thesis
    by (auto simp: demo_config_def default_coord_config_def whole_seconds_def)
qed

end
