(* ===== verification/Coord_Mcp.thy ===== *)
theory Coord_Mcp
  imports Coord_Effects
begin

text \<open>
  The tool server in front of the coordination client
  (\<^verbatim>\<open>src/infrastructure/coordination/mcp_server.py\<close>): the identity of the instance, the tools with
  their results as JSON objects, the dispatch of JSON-RPC requests and the loop over the lines of
  the input.  The connection method and the answer of \<^verbatim>\<open>git\<close> are parameters.  Arguments of a wrong
  type are errors here, also where pydantic would convert them.  The results: a tool never
  raises, every request is answered once, and what the presence tools promise and do.
\<close>

section \<open>Identity\<close>

text \<open>What became of \<^verbatim>\<open>git rev-parse --show-toplevel\<close>: its output, also when it failed with an exit
  code; a timeout; another \<^verbatim>\<open>SubprocessError\<close>; or no \<^verbatim>\<open>git\<close> at all, an \<^verbatim>\<open>OSError\<close>.\<close>

datatype git_probe = GitOutput string | GitTimeout | GitSubprocessError | GitMissing

definition path_join :: "string \<Rightarrow> string \<Rightarrow> string" where
  "path_join a b =
     (if starts_with b ''/'' then b else if a = [] \<or> ends_with a ''/'' then a @ b else a @ ''/'' @ b)"

definition no_identity :: "exn + string" where
  "no_identity = Inl (Exn PyRuntimeError ''Cannot determine instance identity. Set CLAUDE_INSTANCE_ID '')"

definition resolve_instance_id :: "os_environ \<Rightarrow> git_probe \<Rightarrow> (string \<Rightarrow> bool) \<Rightarrow> exn + string" where
  "resolve_instance_id env git isfile =
     (let env_id = map_of env ''CLAUDE_INSTANCE_ID''
      in if truthy env_id \<and> py_lower (the env_id) \<noteq> ''unknown'' then Inr (the env_id)
         else case git of
           GitOutput out \<Rightarrow>
             if isfile (path_join (py_strip out) ''.git'')
             then Inl (Exn PyRuntimeError ''Running in worktree without CLAUDE_INSTANCE_ID. '')
             else Inr ''pm''
         | GitTimeout \<Rightarrow> no_identity
         | GitSubprocessError \<Rightarrow> no_identity
         | GitMissing \<Rightarrow> Inl (Exn PyOSError ''No such file or directory: git''))"

section \<open>Tools\<close>

record 'x mcp_server =
  ms_env :: "'x cmd_env"
  ms_config :: coord_config
  ms_instance :: string
  ms_connect :: "('x conn, unit) io"

definition tool_error :: "string \<Rightarrow> json pydict" where
  "tool_error msg = [(''success'', JBool False), (''error'', JStr msg)]"

text \<open>\<^verbatim>\<open>except Exception as e: return {"success": False, "error": str(e)}\<close>\<close>

definition tool :: "('s, json pydict) io \<Rightarrow> ('s, json pydict) io" where
  "tool m = try_except m any_exception (\<lambda>e. ret (tool_error (message_of e)))"

definition wrong_type :: "exn + 'a" where
  "wrong_type = Inl (Exn PyTypeError ''argument of a wrong type'')"

fun str_arg :: "json \<Rightarrow> exn + string" where
  "str_arg (JStr s) = Inr s"
| "str_arg _ = wrong_type"

fun opt_str_arg :: "json \<Rightarrow> exn + string option" where
  "opt_str_arg JNull = Inr None"
| "opt_str_arg (JStr s) = Inr (Some s)"
| "opt_str_arg _ = wrong_type"

fun bool_arg :: "json \<Rightarrow> exn + bool" where
  "bool_arg (JBool b) = Inr b"
| "bool_arg _ = wrong_type"

fun int_arg :: "json \<Rightarrow> exn + int" where
  "int_arg (JInt i) = Inr i"
| "int_arg _ = wrong_type"

definition arg :: "(json \<Rightarrow> exn + 'a) \<Rightarrow> json \<Rightarrow> ('s, 'a) io" where
  "arg f j = lift_result (f j)"

definition type_texts :: json where
  "type_texts = JList (map (JStr \<circ> message_type_value) message_types)"

fun printed :: "json \<Rightarrow> string" where
  "printed (JStr s) = s"
| "printed j = dumps j"

definition invalid_type :: "json \<Rightarrow> json pydict" where
  "invalid_type ty =
     tool_error (''Invalid message type: '' @ printed ty) @ [(''valid_types'', type_texts)]"

definition coord_publish_message ::
  "'x mcp_server \<Rightarrow> json \<Rightarrow> json \<Rightarrow> json \<Rightarrow> json \<Rightarrow> json \<Rightarrow> ('x conn, json pydict) io" where
  "coord_publish_message S ty subj descr t ra =
     (if ms_instance S \<in> {[], ''unknown''}
      then ret (tool_error ''Invalid sender identity. Cannot publish messages with unknown sender.'' @
                [(''hint'', JStr ''Set CLAUDE_INSTANCE_ID environment variable'')])
      else tool
        (case bind_sum (str_arg ty) message_type_of of
           Inl e \<Rightarrow> ret (invalid_type ty)
         | Inr ty' \<Rightarrow>
             thenE (ms_connect S)
             (bindE (arg str_arg subj) (\<lambda>subj'.
              bindE (arg str_arg descr) (\<lambda>descr'.
              bindE (arg str_arg t) (\<lambda>t'.
              bindE (arg bool_arg ra) (\<lambda>ra'.
              bindE (publish_message (ms_env S) (ms_config S) ty' subj' descr' (ms_instance S) t' ra' None) (\<lambda>m.
              ret [(''success'', JBool True), (''message_id'', JStr (cm_id m)),
                   (''type'', JStr (message_type_value (cm_type m))), (''from'', JStr (cm_from m)),
                   (''to'', JStr (cm_to m)), (''timestamp'', JStr (strftime_z (cm_timestamp m))),
                   (''requires_ack'', JBool (cm_requires_ack m))]))))))))"

definition coord_check_messages ::
  "'x mcp_server \<Rightarrow> json \<Rightarrow> json \<Rightarrow> json \<Rightarrow> json \<Rightarrow> json \<Rightarrow> ('x conn, json pydict) io" where
  "coord_check_messages S t fr ty pending limit =
     tool
       (let run = (\<lambda>ty'.
          bindE (arg opt_str_arg t) (\<lambda>t'.
          bindE (arg opt_str_arg fr) (\<lambda>fr'.
          bindE (arg bool_arg pending) (\<lambda>po.
          bindE (arg int_arg limit) (\<lambda>n.
          bindE (lift_result (new_query t' fr' ty' po None (min n 1000))) (\<lambda>q.
          thenE (ms_connect S)
          (bindE (get_messages (ms_env S) (ms_config S) (Some q)) (\<lambda>ms.
          ret [(''success'', JBool True), (''count'', JInt (int (length ms))),
               (''messages'', JList (map (JObj \<circ> message_to_dict) ms))]))))))))
        in if json_truthy ty then
             (case bind_sum (str_arg ty) message_type_of of
                Inl e \<Rightarrow> ret (invalid_type ty)
              | Inr ty' \<Rightarrow> run (Some ty'))
           else run None)"

definition coord_ack_message :: "'x mcp_server \<Rightarrow> json \<Rightarrow> json \<Rightarrow> ('x conn, json pydict) io" where
  "coord_ack_message S i comment =
     tool
       (thenE (ms_connect S)
       (bindE (arg str_arg i) (\<lambda>i'.
        bindE (arg opt_str_arg comment) (\<lambda>co.
        bindE (acknowledge_message (ms_env S) (ms_config S) i' (ms_instance S) co) (\<lambda>ok.
        ret (if ok
             then [(''success'', JBool True), (''message_id'', JStr i'), (''acknowledged_by'', JStr (ms_instance S))]
             else tool_error (''Message not found: '' @ i')))))))"

text \<open>\<^verbatim>\<open>int(delta.total_seconds())\<close> rounds towards zero.\<close>

definition whole_age :: "int \<Rightarrow> int" where
  "whole_age us = (if us < 0 then - ((- us) div 1000000) else us div 1000000)"

definition presence_entry :: "int \<Rightarrow> presence_info \<Rightarrow> json pydict" where
  "presence_entry now p =
     (let age = whole_age (heartbeat_age now p)
      in presence_to_dict p @ [(''stale'', JBool (300 \<le> age)), (''seconds_since_heartbeat'', JInt age)])"

definition coord_get_presence :: "'x mcp_server \<Rightarrow> ('x conn, json pydict) io" where
  "coord_get_presence S =
     tool
       (thenE (ms_connect S)
       (bindE (get_presence (ms_env S) (ms_config S) None) (\<lambda>ps.
        bindE now_us (\<lambda>now.
        ret [(''success'', JBool True),
             (''instances'', JObj (map (\<lambda>p. (fst p, JObj (presence_entry now (snd p)))) ps))]))))"

definition opt_member :: "string \<Rightarrow> string option \<Rightarrow> json pydict" where
  "opt_member k s = map (\<lambda>p. (fst p, JStr (snd p))) (opt_field k s)"

definition coord_register_presence :: "'x mcp_server \<Rightarrow> json \<Rightarrow> json \<Rightarrow> json \<Rightarrow> ('x conn, json pydict) io" where
  "coord_register_presence S role path sess =
     tool
       (thenE (ms_connect S)
       (bindE (arg str_arg role) (\<lambda>role'.
        bindE (arg opt_str_arg path) (\<lambda>path'.
        bindE (arg opt_str_arg sess) (\<lambda>sess'.
        thenE (register_instance (ms_env S) (ms_config S) role' sess')
        (bindE now_us (\<lambda>now.
         ret ([(''success'', JBool True), (''role'', JStr role'),
               (''registered_at'', JStr (strftime_z (utc_datetime now)))] @
              opt_member ''worktree_path'' path' @ opt_member ''session_id'' sess'))))))))"

definition coord_deregister_presence :: "'x mcp_server \<Rightarrow> json \<Rightarrow> ('x conn, json pydict) io" where
  "coord_deregister_presence S role =
     tool
       (thenE (ms_connect S)
       (bindE (arg str_arg role) (\<lambda>role'.
        thenE (unregister_instance (ms_env S) (ms_config S) role')
        (ret [(''success'', JBool True), (''role'', JStr role')]))))"

definition coord_heartbeat :: "'x mcp_server \<Rightarrow> json \<Rightarrow> ('x conn, json pydict) io" where
  "coord_heartbeat S role =
     tool
       (thenE (ms_connect S)
       (bindE (arg str_arg role) (\<lambda>role'.
        thenE (heartbeat (ms_env S) (ms_config S) role')
        (bindE now_us (\<lambda>now.
         ret [(''success'', JBool True), (''role'', JStr role'),
              (''last_heartbeat'', JStr (strftime_z (utc_datetime now)))])))))"

definition coord_get_notifications :: "'x mcp_server \<Rightarrow> json \<Rightarrow> ('x conn, json pydict) io" where
  "coord_get_notifications S limit =
     tool
       (thenE (ms_connect S)
       (bindE (arg int_arg limit) (\<lambda>n.
        bindE (pop_notifications (ms_env S) (ms_config S) (ms_instance S) (min n 1000)) (\<lambda>ns.
        ret [(''success'', JBool True), (''count'', JInt (int (length ns))),
             (''notifications'', JList (map (JObj \<circ> notification_to_dict) ns))]))))"

section \<open>Requests\<close>

definition schema_property :: "string \<Rightarrow> string \<Rightarrow> string \<Rightarrow> json pydict \<Rightarrow> string \<times> json" where
  "schema_property name ty descr extra = (name, JObj ([(''type'', JStr ty), (''description'', JStr descr)] @ extra))"

definition tool_schema :: "string \<Rightarrow> string \<Rightarrow> json pydict \<Rightarrow> json pydict \<Rightarrow> json" where
  "tool_schema name descr props extra =
     JObj [(''name'', JStr name), (''description'', JStr descr),
           (''inputSchema'', JObj ([(''type'', JStr ''object''), (''properties'', JObj props)] @ extra))]"

definition get_tool_schemas :: "json list" where
  "get_tool_schemas = [
      tool_schema ''coord_publish_message'' ''Publish a coordination message to another CLI instance''
       [
        schema_property ''msg_type'' ''string'' ''Message type'' [(''enum'', type_texts)],
        schema_property ''subject'' ''string'' ''Brief subject line for the message'' [],
        schema_property ''description'' ''string'' ''Detailed message content'' [],
        schema_property ''to_instance'' ''string'' ''Target instance ID (default: orchestrator)'' [(''default'', JStr ''orchestrator'')],
        schema_property ''requires_ack'' ''boolean'' ''Whether acknowledgment is required'' [(''default'', JBool True)]]
       [(''required'', JList [JStr ''msg_type'', JStr ''subject'', JStr ''description''])],
      tool_schema ''coord_check_messages'' ''Query coordination messages with optional filters''
       [
        schema_property ''to_instance'' ''string'' ''Filter by target instance'' [],
        schema_property ''from_instance'' ''string'' ''Filter by sender instance'' [],
        schema_property ''msg_type'' ''string'' ''Filter by message type'' [(''enum'', type_texts)],
        schema_property ''pending_only'' ''boolean'' ''Only return unacknowledged messages'' [(''default'', JBool False)],
        schema_property ''limit'' ''integer'' ''Maximum number of results'' [(''default'', JInt 100)]]
       [],
      tool_schema ''coord_ack_message'' ''Acknowledge a coordination message''
       [
        schema_property ''message_id'' ''string'' ''The message ID to acknowledge'' [],
        schema_property ''comment'' ''string'' ''Optional comment for the acknowledgment'' []]
       [(''required'', JList [JStr ''message_id''])],
      tool_schema ''coord_get_presence'' ''Get presence info for CLI instances with stale detection''
       []
       [],
      tool_schema ''coord_get_notifications'' ''Get and clear pending notifications for this instance''
       [
        schema_property ''limit'' ''integer'' ''Maximum number of notifications to retrieve'' [(''default'', JInt 100)]]
       [],
      tool_schema ''coord_register_presence'' ''Register session as active with metadata. Call at session startup.''
       [
        schema_property ''role'' ''string'' ''Context/instance ID to register (e.g., p11-guardrails, pm)'' [],
        schema_property ''worktree_path'' ''string'' ''Optional path to git worktree for this session'' [],
        schema_property ''session_id'' ''string'' ''Optional unique session identifier'' []]
       [(''required'', JList [JStr ''role''])],
      tool_schema ''coord_deregister_presence'' ''Mark session as inactive. Call when session ends gracefully.''
       [
        schema_property ''role'' ''string'' ''Context/instance ID to deregister'' []]
       [(''required'', JList [JStr ''role''])],
      tool_schema ''coord_heartbeat'' ''Update heartbeat timestamp. Call every 60 seconds to stay active.''
       [
        schema_property ''role'' ''string'' ''Context/instance ID to heartbeat'' []]
       [(''required'', JList [JStr ''role''])]]"

text \<open>\<^verbatim>\<open>f(**arguments)\<close>: an unknown or a missing argument is a \<^verbatim>\<open>TypeError\<close>; the others have defaults.\<close>

definition bind_keywords :: "string list \<Rightarrow> json pydict \<Rightarrow> json \<Rightarrow> exn + json pydict" where
  "bind_keywords required defaults j =
     (case j of
        JObj d \<Rightarrow>
          if (\<exists>k \<in> fst ` set d. k \<notin> set required \<union> fst ` set defaults) then Inl (Exn PyTypeError ''got an unexpected keyword argument'')
          else if (\<exists>k \<in> set required. map_of d k = None) then Inl (Exn PyTypeError ''missing required argument'')
          else Inr (d @ defaults)
      | _ \<Rightarrow> Inl (Exn PyTypeError ''argument after ** must be a mapping''))"

definition call_tool :: "'x mcp_server \<Rightarrow> string \<Rightarrow> json \<Rightarrow> ('x conn, json pydict option) io" where
  "call_tool S name args =
     (let run = (\<lambda>req dflt f. bindE (lift_result (bind_keywords req dflt args)) (\<lambda>d.
                   bindE (f (\<lambda>k. dget d k JNull)) (\<lambda>r. ret (Some r))))
      in if name = ''coord_publish_message'' then
           run [''msg_type'', ''subject'', ''description'']
             [(''to_instance'', JStr ''orchestrator''), (''requires_ack'', JBool True)]
             (\<lambda>a. coord_publish_message S (a ''msg_type'') (a ''subject'') (a ''description'')
                    (a ''to_instance'') (a ''requires_ack''))
         else if name = ''coord_check_messages'' then
           run [] [(''to_instance'', JNull), (''from_instance'', JNull), (''msg_type'', JNull),
                   (''pending_only'', JBool False), (''limit'', JInt 100)]
             (\<lambda>a. coord_check_messages S (a ''to_instance'') (a ''from_instance'') (a ''msg_type'')
                    (a ''pending_only'') (a ''limit''))
         else if name = ''coord_ack_message'' then
           run [''message_id''] [(''comment'', JNull)] (\<lambda>a. coord_ack_message S (a ''message_id'') (a ''comment''))
         else if name = ''coord_get_presence'' then
           bindE (coord_get_presence S) (\<lambda>r. ret (Some r))
         else if name = ''coord_get_notifications'' then
           run [] [(''limit'', JInt 100)] (\<lambda>a. coord_get_notifications S (a ''limit''))
         else if name = ''coord_register_presence'' then
           run [''role''] [(''worktree_path'', JNull), (''session_id'', JNull)]
             (\<lambda>a. coord_register_presence S (a ''role'') (a ''worktree_path'') (a ''session_id''))
         else if name = ''coord_deregister_presence'' then
           run [''role''] [] (\<lambda>a. coord_deregister_presence S (a ''role''))
         else if name = ''coord_heartbeat'' then
           run [''role''] [] (\<lambda>a. coord_heartbeat S (a ''role''))
         else ret None)"

definition response :: "json \<Rightarrow> string \<Rightarrow> json \<Rightarrow> json" where
  "response i k v = JObj [(''jsonrpc'', JStr ''2.0''), (''id'', i), (k, v)]"

definition rpc_error :: "int \<Rightarrow> string \<Rightarrow> json" where
  "rpc_error code msg = JObj [(''code'', JInt code), (''message'', JStr msg)]"

text \<open>\<^verbatim>\<open>d.get(k, default)\<close> on a value that must be a dictionary.\<close>

definition json_get :: "json \<Rightarrow> string \<Rightarrow> json \<Rightarrow> exn + json" where
  "json_get j k dflt = (case j of JObj d \<Rightarrow> Inr (dget d k dflt) | _ \<Rightarrow> attribute_error)"

definition handle_call :: "'x mcp_server \<Rightarrow> json \<Rightarrow> json \<Rightarrow> ('x conn, json option) io" where
  "handle_call S params i =
     bindE (lift_result (json_get params ''name'' (JStr []))) (\<lambda>name.
     bindE (lift_result (json_get params ''arguments'' (JObj []))) (\<lambda>args.
     bindE (case name of JStr s \<Rightarrow> call_tool S s args | _ \<Rightarrow> ret None) (\<lambda>r.
     ret (Some (case r of
       None \<Rightarrow> response i ''error'' (rpc_error (- 32601) (''Unknown tool: '' @ printed name))
     | Some d \<Rightarrow> response i ''result''
         (JObj [(''content'', JList [JObj [(''type'', JStr ''text''), (''text'', JStr (dumps_indent 0 (JObj d)))]])]))))))"

definition initialize_result :: json where
  "initialize_result =
     JObj [(''protocolVersion'', JStr ''2024-11-05''),
           (''serverInfo'', JObj [(''name'', JStr ''coordination-mcp-server''), (''version'', JStr ''1.0.0'')]),
           (''capabilities'', JObj [(''tools'', JObj [])])]"

definition handle_request :: "'x mcp_server \<Rightarrow> json \<Rightarrow> ('x conn, json option) io" where
  "handle_request S request =
     bindE (lift_result (json_get request ''method'' (JStr []))) (\<lambda>meth.
     bindE (lift_result (json_get request ''params'' (JObj []))) (\<lambda>params.
     bindE (lift_result (json_get request ''id'' JNull)) (\<lambda>i.
     try_except
       (if meth = JStr ''initialize'' then ret (Some (response i ''result'' initialize_result))
        else if meth = JStr ''tools/list'' then
          ret (Some (response i ''result'' (JObj [(''tools'', JList get_tool_schemas)])))
        else if meth = JStr ''tools/call'' then handle_call S params i
        else if meth = JStr ''notifications/initialized'' then ret None
        else ret (Some (response i ''error'' (rpc_error (- 32601) (''Unknown method: '' @ printed meth)))))
       any_exception
       (\<lambda>e. ret (Some (response i ''error'' (rpc_error (- 32603) (message_of e))))))))"

text \<open>The loop over the lines of the input; the text printed is the list of responses.\<close>

definition serve_line :: "'x mcp_server \<Rightarrow> string \<Rightarrow> ('x conn, string list) io" where
  "serve_line S line =
     (if py_strip line = [] then ret []
      else case loads (py_strip line) of
        Inl e \<Rightarrow> ret []
      | Inr request \<Rightarrow>
          try_except
            (bindE (handle_request S request) (\<lambda>r.
               ret (case r of None \<Rightarrow> [] | Some j \<Rightarrow> [dumps j])))
            any_exception (\<lambda>e. ret []))"

definition run_stdio :: "'x mcp_server \<Rightarrow> string list \<Rightarrow> ('x conn, string list) io" where
  "run_stdio S lines = bindE (collect lines (serve_line S)) (\<lambda>outs. ret (concat outs))"

section \<open>Every request is answered once\<close>

lemma try_any_total: "(\<And>e s'. \<exists>v. fst (h e s') = Inr v) \<Longrightarrow> \<exists>v. fst (try_except m any_exception h s) = Inr v"
  by (auto simp: try_except_def split: sum.splits)

definition answers_request :: "json \<Rightarrow> json \<Rightarrow> bool" where
  "answers_request i j \<longleftrightarrow> (\<exists>k v. (k = ''result'' \<or> k = ''error'') \<and> j = response i k v)"

lemma answers_request_response:
  "answers_request i (case r of None \<Rightarrow> response i ''error'' x | Some d \<Rightarrow> response i ''result'' (f d))"
  by (cases r) (auto simp: answers_request_def)

lemma wp_handle_call:
  "wp (handle_call S params i) w (\<lambda>r _. \<exists>j. r = Some j \<and> answers_request i j) (\<lambda>_ _. True)"
  unfolding handle_call_def wp_simps
  by (auto simp: answers_request_response wp_simps wp_any split: sum.splits json.splits)

lemma request_answered:
  "\<exists>r. fst (handle_request S (JObj d) w) = Inr r \<and>
    (dget d ''method'' (JStr []) = JStr ''notifications/initialized'' \<longrightarrow> r = None) \<and>
    (dget d ''method'' (JStr []) \<noteq> JStr ''notifications/initialized'' \<longrightarrow>
       (\<exists>j. r = Some j \<and> answers_request (dget d ''id'' JNull) j))"
proof -
  let ?ok = "\<lambda>r. (dget d ''method'' (JStr []) = JStr ''notifications/initialized'' \<longrightarrow> r = None) \<and>
    (dget d ''method'' (JStr []) \<noteq> JStr ''notifications/initialized'' \<longrightarrow>
       (\<exists>j. r = Some j \<and> answers_request (dget d ''id'' JNull) j))"
  have "wp (handle_call S (dget d ''params'' (JObj [])) (dget d ''id'' JNull)) w
      (\<lambda>r _. ?ok r) (\<lambda>_ _. True)" if "dget d ''method'' (JStr []) = JStr ''tools/call''"
    by (rule wp_mono [OF wp_handle_call]) (use that in auto)
  then have "wp (handle_request S (JObj d)) w (\<lambda>r _. ?ok r) (\<lambda>_ _. False)"
    by (auto simp: handle_request_def json_get_def wp_simps answers_request_def intro: wp_mono)
  from wp_succeeds [OF this] show ?thesis by simp
qed

text \<open>C28: A request that is an object is answered, whatever it asks for and whatever the tool and the
  connection do: by nothing if it is the initialized notification, and otherwise by one
  response that carries its identifier and a result or an error.\<close>

theorem every_request_is_answered:
  "\<exists>r. fst (handle_request S (JObj d) w) = Inr r \<and>
    (if dget d ''method'' (JStr []) = JStr ''notifications/initialized'' then r = None
     else \<exists>j. r = Some j \<and> answers_request (dget d ''id'' JNull) j)"
  using request_answered [of S d w] by auto

text \<open>The requests among the lines that get a response.\<close>

definition wants_response :: "string \<Rightarrow> bool" where
  "wants_response line \<longleftrightarrow>
     (case loads (py_strip line) of
        Inr (JObj d) \<Rightarrow> py_strip line \<noteq> [] \<and> dget d ''method'' (JStr []) \<noteq> JStr ''notifications/initialized''
      | _ \<Rightarrow> False)"

lemma handle_request_total:
  assumes "json_get r ''method'' (JStr []) = Inl e"
  shows "fst (handle_request S r w) = Inl e"
  using assms by (simp add: handle_request_def)

lemma wp_serve_line:
  "wp (serve_line S line) w (\<lambda>outs _. length outs = (if wants_response line then 1 else 0)) (\<lambda>_ _. False)"
proof (cases "py_strip line = []")
  case False
  show ?thesis
  proof (cases "loads (py_strip line)")
    case (Inr r)
    show ?thesis
    proof (cases r)
      case (JObj d)
      have "wp (handle_request S r) w (\<lambda>x _. (x = None) = (dget d ''method'' (JStr []) = JStr ''notifications/initialized''))
          (\<lambda>_ _. False)"
        using request_answered [of S d w] by (auto simp: wp_def JObj)
      then show ?thesis
        using False Inr JObj
        by (auto simp: serve_line_def wants_response_def wp_simps elim!: wp_mono split: option.splits)
    qed (use False Inr in \<open>auto simp: serve_line_def wants_response_def handle_request_def json_get_def
           attribute_error_def wp_simps\<close>)
  qed (use False in \<open>simp add: serve_line_def wants_response_def wp_simps\<close>)
qed (auto simp: serve_line_def wants_response_def wp_simps split: sum.splits json.splits)

text \<open>The server reads its whole input.  It stops at no line, whether malformed, refused or
  failing, and prints one line for each request other than the initialized notification.\<close>

theorem server_outlives_its_input:
  "\<exists>outs. fst (run_stdio S lines w) = Inr outs \<and> length outs = length (filter wants_response lines)"
proof -
  have sum: "length (concat vs) = length (filter wants_response ls)"
    if "list_all2 (\<lambda>l v. length v = (if wants_response l then 1 else 0)) ls vs" for ls and vs :: "string list list"
    using that by (induction rule: list_all2_induct) auto
  have "wp (collect lines (serve_line S)) w
      (\<lambda>vs _. length (concat vs) = length (filter wants_response lines)) (\<lambda>_ _. False)"
    by (rule wp_collect_rel [where I = "\<lambda>_. True" and P = "\<lambda>l v. length v = (if wants_response l then 1 else 0)"])
      (auto simp: sum intro: wp_mono [OF wp_serve_line])
  then have "wp (run_stdio S lines) w (\<lambda>outs _. length outs = length (filter wants_response lines)) (\<lambda>_ _. False)"
    by (simp add: run_stdio_def wp_simps)
  from wp_succeeds [OF this] show ?thesis by blast
qed

section \<open>Presence tools\<close>

definition demo_server :: "memdb mcp_server" where
  "demo_server = \<lparr>ms_env = md_env, ms_config = demo_config, ms_instance = ''pm'', ms_connect = ret ()\<rparr>"

text \<open>Deregistering an instance forgets it.  The tool is documented to mark the instance inactive
  and to keep its last heart beat, but afterwards no reading of the presence lists the instance.\<close>

theorem deregistered_instance_vanishes:
  fixes S :: "'x mcp_server" and w :: "'x conn" and i :: string
  assumes "cmd_world (ms_env S) up kv" "connected up kv w d now n" "ms_connect S = ret ()"
    and "stamps_ok (db_hashes d (presence_key (ms_config S)))"
    and "\<And>f. CHR ''.'' \<notin> set f \<Longrightarrow> db_hashes d (presence_key (ms_config S)) (i @ ''.'' @ f) \<noteq> None \<Longrightarrow>
      f \<in> {''active'', ''last_heartbeat'', ''session_id''}"
  defines "w1 \<equiv> snd (coord_deregister_presence S (JStr i) w)"
  shows "fst (coord_deregister_presence S (JStr i) w) = Inr [(''success'', JBool True), (''role'', JStr i)] \<and>
    (\<exists>r. fst (get_presence (ms_env S) (ms_config S) tm (w1\<lparr>cn_now := later\<rparr>)) = Inr r \<and> map_of r i = None)"
proof -
  let ?k = "presence_key (ms_config S)" and ?E = "ms_env S"
  let ?fs = "[i @ ''.active'', i @ ''.last_heartbeat'', i @ ''.session_id'']"
  let ?d = "cmd_effect (Hdel ?k ?fs) d"
  have "wp (coord_deregister_presence S (JStr i)) w
      (\<lambda>v w'. v = [(''success'', JBool True), (''role'', JStr i)] \<and> connected up kv w' ?d now n) (\<lambda>_ _. False)"
    unfolding coord_deregister_presence_def tool_def assms(3) arg_def unregister_instance_def
    by (simp only: wp_simps str_arg.simps sum.case any_exception_True if_True thenE_ret,
        rule cmd_world.wp_translating [OF assms(1)], rule cmd_world.wp_cmd [OF assms(1,2)]) simp
  from wp_succeeds [OF this] have dereg:
    "fst (coord_deregister_presence S (JStr i) w) = Inr [(''success'', JBool True), (''role'', JStr i)]"
    "connected up kv w1 ?d now n"
    by (auto simp: w1_def)
  have h: "db_hashes ?d ?k = db_hashes d ?k |` (- set ?fs)" by simp
  have ok: "stamps_ok (db_hashes ?d ?k)"
    using assms(4) unfolding stamps_ok_def h by (auto simp: restrict_map_def split: if_splits)
  have gone: "\<forall>f. CHR ''.'' \<notin> set f \<longrightarrow> db_hashes ?d ?k (i @ ''.'' @ f) = None"
    using assms(5) unfolding h by (fastforce simp: restrict_map_def)
  have w2: "connected up kv (w1\<lparr>cn_now := later\<rparr>) ?d later n" using dereg(2) by (simp add: connected_def)
  obtain r where "fst (get_presence ?E (ms_config S) tm (w1\<lparr>cn_now := later\<rparr>)) = Inr r"
    "\<And>i. (\<forall>f. CHR ''.'' \<notin> set f \<longrightarrow> db_hashes ?d ?k (i @ ''.'' @ f) = None) \<Longrightarrow> map_of r i = None"
    by (rule cmd_world.presence_read [OF assms(1) w2 ok, of tm]) (blast intro: that)
  with gone dereg(1) show ?thesis by blast
qed

theorem deregistered_instance_vanishes_witness:
  "\<exists>r. fst (get_presence md_env demo_config None
     ((snd (coord_deregister_presence demo_server (JStr ''pm'') demo_conn))\<lparr>cn_now := 0\<rparr>)) = Inr r \<and>
     map_of r ''pm'' = None"
proof -
  have S: "ms_env demo_server = md_env" "ms_config demo_server = demo_config" "ms_connect demo_server = ret ()"
    by (simp_all add: demo_server_def)
  have h: "db_hashes (memdb_abs empty_memdb) k = Map.empty" for k by (simp add: memdb_abs_def empty_memdb_def)
  from deregistered_instance_vanishes [where S = demo_server and i = "''pm''" and tm = None and later = 0,
      unfolded S, OF mdw.cmd_world_axioms demo_connected refl]
  show ?thesis by (simp add: h stamps_ok_def)
qed

text \<open>Where there is no repository, \<^verbatim>\<open>git\<close> prints nothing and the instance becomes \<^verbatim>\<open>pm\<close>.\<close>

lemma identity_outside_repository:
  "\<not> isfile ''.git'' \<Longrightarrow> resolve_instance_id [] (GitOutput []) isfile = Inr ''pm''"
  by (simp add: resolve_instance_id_def path_join_def starts_with_def ends_with_def py_strip_def)

end
