(* ===== verification/Swarm_Session.thy ===== *)
theory Swarm_Session
  imports Review_Swarm Coord_Effects
begin

text \<open>
  The sessions of the review swarm (\<^verbatim>\<open>src/workers/swarm/config.py\<close>, \<^verbatim>\<open>models.py\<close>, \<^verbatim>\<open>redis_store.py\<close>,
  \<^verbatim>\<open>session.py\<close>, \<^verbatim>\<open>reviewers/base.py\<close>, \<^verbatim>\<open>dispatcher.py\<close>): configuration, the store of sessions,
  results and progress, the waiting loop, and the flow from dispatch to the final report.  The
  texts of results and reports are written and read by pydantic and are parameters, as are the
  reviews, the publisher, how long a sleep really lasts and what other tasks do meanwhile.  Waiting
  uses the default poll interval of one second, the only one the program uses.
\<close>

section \<open>Configuration\<close>

record swarm_config =
  sc_task_timeout :: int
  sc_aggregate_timeout :: int
  sc_max_concurrent :: int
  sc_default_reviewers :: "string list"
  sc_key_prefix :: string
  sc_result_ttl :: int
  sc_threshold :: rat
  sc_allowed_prefixes :: "string list"

definition default_swarm_config :: swarm_config where
  "default_swarm_config =
     \<lparr>sc_task_timeout = 300, sc_aggregate_timeout = 60, sc_max_concurrent = 5,
      sc_default_reviewers = [''security'', ''performance'', ''style''], sc_key_prefix = ''swarm'',
      sc_result_ttl = 86400, sc_threshold = 4 / 5,
      sc_allowed_prefixes = [''src/'', ''docker/'', ''tests/'']\<rparr>"

text \<open>The constraints of the model's fields: pydantic builds no other configuration.\<close>

definition valid_swarm_config :: "swarm_config \<Rightarrow> bool" where
  "valid_swarm_config c \<longleftrightarrow>
     0 < sc_task_timeout c \<and> 0 < sc_aggregate_timeout c \<and> 0 < sc_max_concurrent c \<and>
     0 < sc_result_ttl c \<and> 0 \<le> sc_threshold c \<and> sc_threshold c \<le> 1"

lemma valid_swarm_configD: "valid_swarm_config c \<Longrightarrow> 0 < sc_result_ttl c" "valid_swarm_config c \<Longrightarrow> 0 < sc_aggregate_timeout c"
  by (simp_all add: valid_swarm_config_def)

lemma default_swarm_config_valid [simp]: "valid_swarm_config default_swarm_config"
  by (simp add: valid_swarm_config_def default_swarm_config_def)

definition parse_list :: "string \<Rightarrow> string list" where
  "parse_list s = filter (\<lambda>x. x \<noteq> []) (map py_strip (split_on (CHR '','') s))"

definition int_var :: "os_environ \<Rightarrow> string \<Rightarrow> int \<Rightarrow> exn + int" where
  "int_var e k d =
     (case map_of e k of
        None \<Rightarrow> Inr d
      | Some v \<Rightarrow>
          (case py_int v of
             Inr i \<Rightarrow> Inr i
           | Inl x \<Rightarrow> Inl (Exn PyValueError (''Invalid integer value for '' @ k @ '': '' @ v))))"

definition float_var :: "(string \<Rightarrow> rat option) \<Rightarrow> os_environ \<Rightarrow> string \<Rightarrow> rat \<Rightarrow> exn + rat" where
  "float_var fl e k d =
     (case map_of e k of
        None \<Rightarrow> Inr d
      | Some v \<Rightarrow>
          (case fl v of
             Some r \<Rightarrow> Inr r
           | None \<Rightarrow> Inl (Exn PyValueError (''Invalid float value for '' @ k @ '': '' @ v))))"

definition list_var :: "os_environ \<Rightarrow> string \<Rightarrow> string list \<Rightarrow> string list" where
  "list_var e k d = (case map_of e k of None \<Rightarrow> d | Some v \<Rightarrow> parse_list v)"

definition get_swarm_config :: "(string \<Rightarrow> rat option) \<Rightarrow> os_environ \<Rightarrow> exn + swarm_config" where
  "get_swarm_config fl e =
     (let d = default_swarm_config
      in bind_sum (int_var e ''SWARM_TASK_TIMEOUT_SECONDS'' (sc_task_timeout d)) (\<lambda>tt.
         bind_sum (int_var e ''SWARM_AGGREGATE_TIMEOUT_SECONDS'' (sc_aggregate_timeout d)) (\<lambda>ag.
         bind_sum (int_var e ''SWARM_MAX_CONCURRENT_SWARMS'' (sc_max_concurrent d)) (\<lambda>mc.
         bind_sum (int_var e ''SWARM_RESULT_TTL_SECONDS'' (sc_result_ttl d)) (\<lambda>ttl.
         bind_sum (float_var fl e ''SWARM_DUPLICATE_SIMILARITY_THRESHOLD'' (sc_threshold d)) (\<lambda>th.
           let c = \<lparr>sc_task_timeout = tt, sc_aggregate_timeout = ag, sc_max_concurrent = mc,
                    sc_default_reviewers = list_var e ''SWARM_DEFAULT_REVIEWERS'' (sc_default_reviewers d),
                    sc_key_prefix = getenv e ''SWARM_KEY_PREFIX'' (sc_key_prefix d), sc_result_ttl = ttl,
                    sc_threshold = th,
                    sc_allowed_prefixes = list_var e ''SWARM_ALLOWED_PATH_PREFIXES'' (sc_allowed_prefixes d)\<rparr>
           in if valid_swarm_config c then Inr c else invalid ''SwarmConfig''))))))"

section \<open>Sessions\<close>

datatype swarm_status = Sw_PENDING | Sw_IN_PROGRESS | Sw_AGGREGATING | Sw_COMPLETE | Sw_FAILED

fun swarm_status_value :: "swarm_status \<Rightarrow> string" where
  "swarm_status_value Sw_PENDING = ''pending''"
| "swarm_status_value Sw_IN_PROGRESS = ''in_progress''"
| "swarm_status_value Sw_AGGREGATING = ''aggregating''"
| "swarm_status_value Sw_COMPLETE = ''complete''"
| "swarm_status_value Sw_FAILED = ''failed''"

definition swarm_status_of :: "string \<Rightarrow> exn + swarm_status" where
  "swarm_status_of s =
     (case filter (\<lambda>t. swarm_status_value t = s)
             [Sw_PENDING, Sw_IN_PROGRESS, Sw_AGGREGATING, Sw_COMPLETE, Sw_FAILED] of
        t # _ \<Rightarrow> Inr t
      | [] \<Rightarrow> Inl (Exn PyValueError ([CHR 0x27] @ s @ [CHR 0x27] @ '' is not a valid SwarmStatus'')))"

lemma swarm_status_of_value [simp]: "swarm_status_of (swarm_status_value t) = Inr t"
  by (cases t) (simp_all add: swarm_status_of_def)

record swarm_session =
  ss_id :: string
  ss_target_path :: string
  ss_reviewers :: "string list"
  ss_status :: swarm_status
  ss_created_at :: datetime
  ss_completed_at :: "datetime option"
  ss_results :: "(string \<times> reviewer_result) list"
  ss_report :: "unified_report option"

text \<open>
  The environment of the swarm: connection and identifiers, the texts of pydantic (results, maps of
  results, reports), how a list of strings prints, the types of the registered reviewers, the
  review, the publisher, and one sleep, in which other tasks run.
\<close>

record 'x swarm_env =
  se_cmds :: "'x cmd_env"
  se_dump_result :: "reviewer_result \<Rightarrow> string"
  se_read_result :: "string \<Rightarrow> exn + reviewer_result"
  se_dump_results :: "(string \<times> reviewer_result) list \<Rightarrow> string"
  se_read_results :: "string \<Rightarrow> exn + (string \<times> reviewer_result) list"
  se_dump_report :: "unified_report \<Rightarrow> string"
  se_read_report :: "string \<Rightarrow> unified_report option"
  se_repr_names :: "string list \<Rightarrow> string"
  se_registered :: "string list"
  se_review :: "string \<Rightarrow> string \<Rightarrow> string \<Rightarrow> ('x conn, reviewer_result) io"
  se_publish :: "string \<Rightarrow> string \<Rightarrow> string \<Rightarrow> ('x conn, unit) io"
  se_sleep :: "'x conn \<Rightarrow> 'x conn"

section \<open>The store\<close>

definition swarm_session_key :: "swarm_config \<Rightarrow> string \<Rightarrow> string" where
  "swarm_session_key c i = sc_key_prefix c @ '':session:'' @ i"

definition results_key :: "swarm_config \<Rightarrow> string \<Rightarrow> string" where
  "results_key c i = sc_key_prefix c @ '':results:'' @ i"

definition progress_key :: "swarm_config \<Rightarrow> string \<Rightarrow> string" where
  "progress_key c i = sc_key_prefix c @ '':progress:'' @ i"

definition names_json :: "string list \<Rightarrow> string" where
  "names_json xs = dumps (JList (map JStr xs))"

definition session_mapping :: "'x swarm_env \<Rightarrow> swarm_session \<Rightarrow> string pydict" where
  "session_mapping E s =
     [(''id'', ss_id s), (''target_path'', ss_target_path s), (''reviewers'', names_json (ss_reviewers s)),
      (''status'', swarm_status_value (ss_status s)), (''created_at'', isoformat (ss_created_at s)),
      (''completed_at'', case ss_completed_at s of None \<Rightarrow> [] | Some t \<Rightarrow> isoformat t),
      (''results'', se_dump_results E (ss_results s)),
      (''unified_report'', case ss_report s of None \<Rightarrow> [] | Some r \<Rightarrow> se_dump_report E r)]"

definition store_create_session :: "'x swarm_env \<Rightarrow> swarm_config \<Rightarrow> swarm_session \<Rightarrow> ('x conn, unit) io" where
  "store_create_session E c s =
     thenE (command (se_cmds E) (\<lambda>_. ()) (Hset (swarm_session_key c (ss_id s)) (session_mapping E s)))
       (command (se_cmds E) (\<lambda>_. ()) (Expire (swarm_session_key c (ss_id s)) (sc_result_ttl c)))"

definition deserialize_report :: "'x swarm_env \<Rightarrow> string \<Rightarrow> unified_report option" where
  "deserialize_report E s = (if s = [] then None else se_read_report E s)"

definition deserialize_results :: "'x swarm_env \<Rightarrow> string \<Rightarrow> exn + (string \<times> reviewer_result) list" where
  "deserialize_results E s = (if s = [] then Inr [] else se_read_results E s)"

text \<open>The model's list of reviewers must be a list of strings.\<close>

fun names_of_json :: "json list \<Rightarrow> exn + string list" where
  "names_of_json [] = Inr []"
| "names_of_json (j # js) =
     (case j of JStr s \<Rightarrow> bind_sum (names_of_json js) (\<lambda>xs. Inr (s # xs)) | _ \<Rightarrow> invalid ''reviewers'')"

definition session_of_hash :: "'x swarm_env \<Rightarrow> string pydict \<Rightarrow> exn + swarm_session" where
  "session_of_hash E h =
     (let need = (\<lambda>k. case map_of h k of None \<Rightarrow> Inl (Exn PyKeyError k) | Some v \<Rightarrow> Inr v)
      in bind_sum (need ''id'') (\<lambda>i.
         bind_sum (need ''target_path'') (\<lambda>t.
         bind_sum (bind_sum (need ''reviewers'') loads) (\<lambda>rj.
         bind_sum (bind_sum (need ''status'') swarm_status_of) (\<lambda>st.
         bind_sum (let s = dget h ''created_at'' []
                   in if s = [] then Inr None else bind_sum (fromisoformat s) (\<lambda>d. Inr (Some d))) (\<lambda>cr.
         bind_sum (let s = dget h ''completed_at'' []
                   in if s = [] \<or> s = ''None'' then Inr None else bind_sum (fromisoformat s) (\<lambda>d. Inr (Some d))) (\<lambda>co.
         bind_sum (deserialize_results E (dget h ''results'' ''{}'')) (\<lambda>rs.
         bind_sum (case rj of JList js \<Rightarrow> names_of_json js | _ \<Rightarrow> invalid ''reviewers'') (\<lambda>names.
           case cr of
             None \<Rightarrow> invalid ''created_at''
           | Some created \<Rightarrow>
               Inr \<lparr>ss_id = i, ss_target_path = t, ss_reviewers = names, ss_status = st,
                    ss_created_at = created, ss_completed_at = co, ss_results = rs,
                    ss_report = deserialize_report E (dget h ''unified_report'' [])\<rparr>)))))))))"

definition store_get_session :: "'x swarm_env \<Rightarrow> swarm_config \<Rightarrow> string \<Rightarrow> ('x conn, swarm_session option) io" where
  "store_get_session E c i =
     bindE (command (se_cmds E) dict_of_reply (Hgetall (swarm_session_key c i))) (\<lambda>h.
       if h = [] then ret None
       else bindE (lift_result (session_of_hash E h)) (\<lambda>s. ret (Some s)))"

definition update_session_status :: "'x swarm_env \<Rightarrow> swarm_config \<Rightarrow> string \<Rightarrow> swarm_status \<Rightarrow> ('x conn, unit) io" where
  "update_session_status E c i st =
     command (se_cmds E) (\<lambda>_. ()) (Hset (swarm_session_key c i) [(''status'', swarm_status_value st)])"

definition store_reviewer_result ::
  "'x swarm_env \<Rightarrow> swarm_config \<Rightarrow> string \<Rightarrow> string \<Rightarrow> reviewer_result \<Rightarrow> ('x conn, unit) io" where
  "store_reviewer_result E c i rt r =
     thenE (command (se_cmds E) (\<lambda>_. ()) (Hset (results_key c i) [(rt, se_dump_result E r)]))
     (thenE (command (se_cmds E) (\<lambda>_. ()) (Sadd (progress_key c i) rt))
     (thenE (command (se_cmds E) (\<lambda>_. ()) (Expire (results_key c i) (sc_result_ttl c)))
       (command (se_cmds E) (\<lambda>_. ()) (Expire (progress_key c i) (sc_result_ttl c)))))"

definition get_reviewer_result ::
  "'x swarm_env \<Rightarrow> swarm_config \<Rightarrow> string \<Rightarrow> string \<Rightarrow> ('x conn, reviewer_result option) io" where
  "get_reviewer_result E c i rt =
     bindE (command (se_cmds E) text_of_reply (Hget (results_key c i) rt)) (\<lambda>t.
       case t of None \<Rightarrow> ret None
       | Some s \<Rightarrow> bindE (lift_result (se_read_result E s)) (\<lambda>r. ret (Some r)))"

fun read_results :: "'x swarm_env \<Rightarrow> string pydict \<Rightarrow> exn + (string \<times> reviewer_result) list" where
  "read_results E [] = Inr []"
| "read_results E (p # ps) =
     bind_sum (se_read_result E (snd p)) (\<lambda>r.
     bind_sum (read_results E ps) (\<lambda>rs. Inr ((fst p, r) # rs)))"

definition get_all_results ::
  "'x swarm_env \<Rightarrow> swarm_config \<Rightarrow> string \<Rightarrow> ('x conn, (string \<times> reviewer_result) list) io" where
  "get_all_results E c i =
     bindE (command (se_cmds E) dict_of_reply (Hgetall (results_key c i))) (\<lambda>h. lift_result (read_results E h))"

definition get_completed_reviewers :: "'x swarm_env \<Rightarrow> swarm_config \<Rightarrow> string \<Rightarrow> ('x conn, string list) io" where
  "get_completed_reviewers E c i = command (se_cmds E) texts_of_reply (Smembers (progress_key c i))"

section \<open>Waiting\<close>

definition sleep_second :: "'x swarm_env \<Rightarrow> ('x conn, unit) io" where
  "sleep_second E w = (Inr (), se_sleep E w)"

text \<open>The loop counts a second for each of its sleeps, however long the sleep and the polls really
  take.  When the timeout is not positive it never polls, and the final log message reads a variable
  that is not bound.\<close>

function wait_from ::
  "'x swarm_env \<Rightarrow> swarm_config \<Rightarrow> string \<Rightarrow> string list \<Rightarrow> int \<Rightarrow> int \<Rightarrow> ('x conn, bool) io" where
  "wait_from E c i expected timeout elapsed =
     (if elapsed < timeout then
        bindE (get_completed_reviewers E c i) (\<lambda>done.
          if set expected \<subseteq> set done then ret True
          else thenE (sleep_second E) (wait_from E c i expected timeout (elapsed + 1)))
      else if elapsed = 0
      then raise (Exn PyNameError ''cannot access local variable completed'')
      else ret False)"
  by pat_completeness auto

termination
  by (relation "measure (\<lambda>(E, c, i, expected, timeout, elapsed). nat (timeout - elapsed))") auto

declare wait_from.simps [simp del]

definition wait_for_completion ::
  "'x swarm_env \<Rightarrow> swarm_config \<Rightarrow> string \<Rightarrow> string list \<Rightarrow> int \<Rightarrow> ('x conn, bool) io" where
  "wait_for_completion E c i expected timeout = wait_from E c i expected timeout 0"

section \<open>The session manager\<close>

definition new_swarm_id :: "'x swarm_env \<Rightarrow> ('x conn, string) io" where
  "new_swarm_id E = bindE (new_hex (se_cmds E)) (\<lambda>h. ret (''swarm-'' @ take 8 h))"

definition create_swarm_session ::
  "'x swarm_env \<Rightarrow> swarm_config \<Rightarrow> string \<Rightarrow> string list option \<Rightarrow> ('x conn, swarm_session) io" where
  "create_swarm_session E c target types =
     (let names = (case types of None \<Rightarrow> sc_default_reviewers c
                   | Some xs \<Rightarrow> if xs = [] then sc_default_reviewers c else xs)
      in bindE (new_swarm_id E) (\<lambda>i.
         bindE now_us (\<lambda>now.
         let s = \<lparr>ss_id = i, ss_target_path = target, ss_reviewers = names, ss_status = Sw_PENDING,
                  ss_created_at = utc_datetime now, ss_completed_at = None, ss_results = [], ss_report = None\<rparr>
         in thenE (store_create_session E c s) (ret s))))"

definition update_swarm_status ::
  "'x swarm_env \<Rightarrow> swarm_config \<Rightarrow> string \<Rightarrow> swarm_status \<Rightarrow> datetime option \<Rightarrow> ('x conn, unit) io" where
  "update_swarm_status E c i st completed =
     thenE (update_session_status E c i st)
       (case completed of
          None \<Rightarrow> ret ()
        | Some t \<Rightarrow> command (se_cmds E) (\<lambda>_. ()) (Hset (swarm_session_key c i) [(''completed_at'', isoformat t)]))"

section \<open>The dispatcher\<close>

text \<open>Dispatching returns the session's identifier and the reviewers a task was created for.\<close>

definition dispatch_swarm ::
  "'x swarm_env \<Rightarrow> swarm_config \<Rightarrow> string \<Rightarrow> string list option \<Rightarrow> ('x conn, string \<times> string list) io" where
  "dispatch_swarm E c target types =
     bindE (create_swarm_session E c target types) (\<lambda>s.
     thenE (update_swarm_status E c (ss_id s) Sw_IN_PROGRESS None)
     (thenE (se_publish E ''SWARM_STARTED'' (''Swarm started: '' @ ss_id s)
              (''Target: '' @ target @ '', Reviewers: '' @ se_repr_names E (ss_reviewers s)))
       (ret (ss_id s, filter (\<lambda>rt. rt \<in> set (se_registered E)) (ss_reviewers s)))))"

definition noop_publish :: "string \<Rightarrow> string \<Rightarrow> string \<Rightarrow> ('s, unit) io" where
  "noop_publish msg_type subject description = ret ()"

definition failed_result :: "string \<Rightarrow> exn \<Rightarrow> reviewer_result" where
  "failed_result rt e =
     \<lparr>rr_reviewer = rt, rr_status = ''failed'', rr_review_findings = [], rr_files = [],
      rr_error_message = Some (message_of e)\<rparr>"

definition run_reviewer :: "'x swarm_env \<Rightarrow> swarm_config \<Rightarrow> string \<Rightarrow> string \<Rightarrow> string \<Rightarrow> ('x conn, unit) io" where
  "run_reviewer E c i target rt =
     bindE (try_except (se_review E i target rt) any_exception (\<lambda>e. ret (failed_result rt e))) (\<lambda>r.
     thenE (store_reviewer_result E c i rt r)
       (se_publish E ''SWARM_REVIEWER_COMPLETE'' (''Reviewer complete: '' @ rt)
          (''Session: '' @ i @ '', Status: '' @ rr_status r)))"

definition default_executor :: "string \<Rightarrow> string \<Rightarrow> string \<Rightarrow> ('s, reviewer_result) io" where
  "default_executor i target rt =
     ret \<lparr>rr_reviewer = rt, rr_status = ''success'', rr_review_findings = [], rr_files = [target],
          rr_error_message = None\<rparr>"

definition collect_results ::
  "'x swarm_env \<Rightarrow> swarm_config \<Rightarrow> string \<Rightarrow> int option \<Rightarrow> ('x conn, (string \<times> reviewer_result) list) io" where
  "collect_results E c i timeout =
     bindE (store_get_session E c i) (\<lambda>s.
       case s of
         None \<Rightarrow> raise (Exn PyValueError (''Session not found: '' @ i))
       | Some s \<Rightarrow>
           bindE (wait_for_completion E c i (ss_reviewers s)
              (case timeout of None \<Rightarrow> sc_aggregate_timeout c
               | Some t \<Rightarrow> if t = 0 then sc_aggregate_timeout c else t)) (\<lambda>_.
           thenE (update_swarm_status E c i Sw_AGGREGATING None)
             (get_all_results E c i)))"

definition finalize_swarm :: "'x swarm_env \<Rightarrow> swarm_config \<Rightarrow> string \<Rightarrow> unified_report \<Rightarrow> ('x conn, unit) io" where
  "finalize_swarm E c i r =
     bindE now_us (\<lambda>now.
     thenE (update_swarm_status E c i Sw_COMPLETE (Some (utc_datetime now)))
     (thenE (command (se_cmds E) (\<lambda>_. ()) (Hset (swarm_session_key c i) [(''unified_report'', se_dump_report E r)]))
       (se_publish E ''SWARM_COMPLETE'' (''Swarm complete: '' @ i)
          (''Total findings: '' @ nat_str (ur_total r)))))"

definition fail_swarm :: "'x swarm_env \<Rightarrow> swarm_config \<Rightarrow> string \<Rightarrow> string \<Rightarrow> ('x conn, unit) io" where
  "fail_swarm E c i err =
     thenE (update_swarm_status E c i Sw_FAILED None)
       (se_publish E ''SWARM_FAILED'' (''Swarm failed: '' @ i) err)"

definition run_dispatched ::
  "'x swarm_env \<Rightarrow> swarm_config \<Rightarrow> string \<Rightarrow> ('x conn, unified_report) io" where
  "run_dispatched E c i =
     try_except
       (bindE (collect_results E c i None) (\<lambda>results.
        bindE (store_get_session E c i) (\<lambda>s.
          case s of
            None \<Rightarrow> raise (Exn PyValueError (''Session lost: '' @ i))
          | Some s \<Rightarrow>
              (let report = aggregate (sc_threshold c) (ss_id s) (ss_target_path s) results
               in thenE (finalize_swarm E c i report) (ret report)))))
       any_exception
       (\<lambda>e. thenE (fail_swarm E c i (message_of e)) (raise e))"

definition run_swarm ::
  "'x swarm_env \<Rightarrow> swarm_config \<Rightarrow> string \<Rightarrow> string list option \<Rightarrow> ('x conn, unified_report) io" where
  "run_swarm E c target types =
     bindE (dispatch_swarm E c target types) (\<lambda>(i, tasks). run_dispatched E c i)"

section \<open>What the store keeps\<close>

lemma valid_isoformat_parses:
  assumes "valid_datetime t"
  shows "isoformat t \<noteq> []" "isoformat t \<noteq> ''None''"
proof -
  have "fromisoformat (isoformat t) = Inr t" by (rule fromisoformat_isoformat [OF assms])
  moreover have "fromisoformat [] = Inl (Exn PyValueError ''Invalid isoformat string'')"
    "fromisoformat ''None'' = Inl (Exn PyValueError ''Invalid isoformat string'')"
    by code_simp+
  ultimately show "isoformat t \<noteq> []" "isoformat t \<noteq> ''None''" by auto
qed

lemma names_of_json_strings [simp]: "names_of_json (map JStr xs) = Inr xs"
  by (induction xs) (simp_all add: bind_sum_def)

lemma names_json_reads [simp]: "loads (names_json xs) = Inr (JList (map JStr xs))"
  unfolding names_json_def by (rule loads_dumps) simp

text \<open>What pydantic must do for the values of one session.\<close>

definition texts_read_back :: "'x swarm_env \<Rightarrow> swarm_session \<Rightarrow> bool" where
  "texts_read_back E s \<longleftrightarrow>
     se_dump_results E (ss_results s) \<noteq> [] \<and>
     se_read_results E (se_dump_results E (ss_results s)) = Inr (ss_results s) \<and>
     (case ss_report s of None \<Rightarrow> True
      | Some r \<Rightarrow> se_dump_report E r \<noteq> [] \<and> se_read_report E (se_dump_report E r) = Some r)"

definition valid_session_times :: "swarm_session \<Rightarrow> bool" where
  "valid_session_times s \<longleftrightarrow>
     valid_datetime (ss_created_at s) \<and> (case ss_completed_at s of None \<Rightarrow> True | Some t \<Rightarrow> valid_datetime t)"

lemma session_of_mapping:
  assumes "texts_read_back E s" "valid_session_times s" "map_of h = h0 ++ map_of (session_mapping E s)"
  shows "session_of_hash E h = Inr s"
proof -
  have h: "map_of h ''id'' = Some (ss_id s)" "map_of h ''target_path'' = Some (ss_target_path s)"
    "map_of h ''reviewers'' = Some (names_json (ss_reviewers s))"
    "map_of h ''status'' = Some (swarm_status_value (ss_status s))"
    "map_of h ''created_at'' = Some (isoformat (ss_created_at s))"
    "map_of h ''completed_at'' = Some (case ss_completed_at s of None \<Rightarrow> [] | Some t \<Rightarrow> isoformat t)"
    "map_of h ''results'' = Some (se_dump_results E (ss_results s))"
    "map_of h ''unified_report'' = Some (case ss_report s of None \<Rightarrow> [] | Some r \<Rightarrow> se_dump_report E r)"
    by (simp_all add: assms(3) session_mapping_def map_add_Some_iff)
  have report: "deserialize_report E (case ss_report s of None \<Rightarrow> [] | Some r \<Rightarrow> se_dump_report E r) = ss_report s"
    using assms(1) by (simp add: deserialize_report_def texts_read_back_def split: option.splits)
  show ?thesis
    using assms(1,2) valid_isoformat_parses [of "ss_created_at s"]
    by (cases "ss_completed_at s")
      (auto simp: session_of_hash_def h report dget_def bind_sum_def Let_def texts_read_back_def
        valid_session_times_def deserialize_results_def dest: valid_isoformat_parses)
qed

lemma swarm_keys_distinct [simp]:
  "swarm_session_key c i = swarm_session_key c j \<longleftrightarrow> i = j" "results_key c i = results_key c j \<longleftrightarrow> i = j"
  "progress_key c i = progress_key c j \<longleftrightarrow> i = j" "swarm_session_key c i \<noteq> results_key c j"
  "results_key c j \<noteq> swarm_session_key c i" "swarm_session_key c i \<noteq> progress_key c j"
  "progress_key c j \<noteq> swarm_session_key c i" "results_key c i \<noteq> progress_key c j"
  "progress_key c j \<noteq> results_key c i"
  by (simp_all add: swarm_session_key_def results_key_def progress_key_def)

text \<open>
  What a publication leaves alone: the swarm's keys.
\<close>

definition swarm_kept :: "swarm_config \<Rightarrow> db \<Rightarrow> db \<Rightarrow> bool" where
  "swarm_kept c d d' \<longleftrightarrow>
     (\<forall>i. db_hashes d' (swarm_session_key c i) = db_hashes d (swarm_session_key c i) \<and>
          db_hashes d' (results_key c i) = db_hashes d (results_key c i) \<and>
          db_sets d' (progress_key c i) = db_sets d (progress_key c i) \<and>
          db_ttl d' (swarm_session_key c i) = db_ttl d (swarm_session_key c i) \<and>
          db_ttl d' (results_key c i) = db_ttl d (results_key c i) \<and>
          db_ttl d' (progress_key c i) = db_ttl d (progress_key c i))"

lemma swarm_kept_refl [simp]: "swarm_kept c d d"
  by (simp add: swarm_kept_def)

definition status_in :: "swarm_config \<Rightarrow> string \<Rightarrow> db \<Rightarrow> swarm_status \<Rightarrow> bool" where
  "status_in c i d st \<longleftrightarrow> db_hashes d (swarm_session_key c i) ''status'' = Some (swarm_status_value st)"

definition with_field :: "swarm_config \<Rightarrow> string \<Rightarrow> string \<Rightarrow> string \<Rightarrow> db \<Rightarrow> db" where
  "with_field c i f v d = cmd_effect (Hset (swarm_session_key c i) [(f, v)]) d"

lemma with_field_simps [simp]:
  "db_hashes (with_field c i f v d) =
     (db_hashes d)(swarm_session_key c i := (db_hashes d (swarm_session_key c i))(f \<mapsto> v))"
  "db_sets (with_field c i f v d) = db_sets d" "db_ttl (with_field c i f v d) = db_ttl d"
  by (simp_all add: with_field_def)

context redis_exec
begin

lemma wp_read_session:
  assumes "ce_exec (se_cmds E) = exec" "connected up kv w d t n"
    and "\<And>w'. connected up kv w' d t n \<Longrightarrow> db_hashes d (swarm_session_key c i) = Map.empty \<Longrightarrow> Q None w'"
    and "\<And>w' s h. connected up kv w' d t n \<Longrightarrow> map_of h = db_hashes d (swarm_session_key c i) \<Longrightarrow>
      session_of_hash E h = Inr s \<Longrightarrow> Q (Some s) w'"
    and "\<And>w' e h. connected up kv w' d t n \<Longrightarrow> map_of h = db_hashes d (swarm_session_key c i) \<Longrightarrow> h \<noteq> [] \<Longrightarrow>
      session_of_hash E h = Inl e \<Longrightarrow> F e w'"
  shows "wp (store_get_session E c i) w Q F"
  unfolding store_get_session_def wp_simps
  by (rule wp_command [OF assms(1,2)])
    (use assms(3-5) in \<open>auto simp: lists_map_def wp_simps fun_eq_iff split: sum.splits\<close>)

lemma wp_store_session:
  assumes "ce_exec (se_cmds E) = exec" "connected up kv w d t n" "valid_swarm_config c"
    and "\<And>w' d'. connected up kv w' d' t n \<Longrightarrow>
      db_hashes d' = (db_hashes d)(swarm_session_key c (ss_id s) :=
        db_hashes d (swarm_session_key c (ss_id s)) ++ map_of (session_mapping E s)) \<Longrightarrow>
      db_ttl d' (swarm_session_key c (ss_id s)) = Some (sc_result_ttl c) \<Longrightarrow> Q () w'"
  shows "wp (store_create_session E c s) w Q F"
  unfolding store_create_session_def wp_simps
proof (rule wp_command [OF assms(1,2)], rule wp_command [OF assms(1)], assumption)
  fix r w' r' w''
  let ?k = "swarm_session_key c (ss_id s)"
  let ?d = "cmd_effect (Hset ?k (session_mapping E s)) d"
  assume w'': "connected up kv w'' (cmd_effect (Expire ?k (sc_result_ttl c)) ?d) t n"
  have "db_hashes ?d ?k ''id'' = Some (ss_id s)"
    by (simp add: session_mapping_def map_add_Some_iff)
  then have "db_hashes ?d ?k \<noteq> Map.empty" by (metis option.distinct(1))
  then have "present ?d ?k" by (rule present_hash)
  then show "Q () w''" using valid_swarm_configD(1) [OF assms(3)] by (intro assms(4) [OF w'']) simp_all
qed

lemma stored_session:
  assumes "ce_exec (se_cmds E) = exec" "connected up kv w d t n" "valid_swarm_config c"
    and "texts_read_back E s" "valid_session_times s"
  shows "wp (store_create_session E c s) w
    (\<lambda>_ w'. wp (store_get_session E c (ss_id s)) w' (\<lambda>v _. v = Some s) (\<lambda>_ _. False) \<and>
       db_ttl (kv (cn_redis w')) (swarm_session_key c (ss_id s)) = Some (sc_result_ttl c)) (\<lambda>_ _. False)"
proof (rule wp_store_session [OF assms(1-3)], intro conjI)
  fix w' d'
  let ?k = "swarm_session_key c (ss_id s)"
  assume w': "connected up kv w' d' t n"
    and h': "db_hashes d' = (db_hashes d)(?k := db_hashes d ?k ++ map_of (session_mapping E s))"
    and "db_ttl d' ?k = Some (sc_result_ttl c)"
  then show "db_ttl (kv (cn_redis w')) ?k = Some (sc_result_ttl c)" by (simp add: connectedD(2) [OF w'])
  have h: "db_hashes d' ?k = db_hashes d ?k ++ map_of (session_mapping E s)" by (simp add: h')
  have reads: "session_of_hash E h = Inr s" if "map_of h = db_hashes d' ?k" for h
    by (rule session_of_mapping [OF assms(4,5)]) (use that h in simp)
  have "(db_hashes d ?k ++ map_of (session_mapping E s)) ''id'' = Some (ss_id s)"
    by (simp add: session_mapping_def map_add_Some_iff)
  then have "db_hashes d' ?k \<noteq> Map.empty" by (simp only: h) (metis option.distinct(1))
  then show "wp (store_get_session E c (ss_id s)) w' (\<lambda>v _. v = Some s) (\<lambda>_ _. False)"
    by (intro wp_read_session [OF assms(1) w']) (auto dest: reads)
qed

end

text \<open>A sleep of one second is never shorter, and at most \<open>late\<close> microseconds longer.\<close>

definition nap :: "int \<Rightarrow> int \<Rightarrow> int \<Rightarrow> bool" where
  "nap late t t1 \<longleftrightarrow> t + 1000000 \<le> t1 \<and> t1 \<le> t + 1000000 + late"

lemma naps_last: "(nap late ^^ k) t t' \<Longrightarrow> t + 1000000 * int k \<le> t' \<and> t' \<le> t + (1000000 + late) * int k"
proof (induction k arbitrary: t')
  case (Suc k)
  then obtain t1 where t1: "(nap late ^^ k) t t1" "nap late t1 t'" by auto
  then show ?case using Suc(1) [OF t1(1)] by (simp add: nap_def algebra_simps)
qed simp

text \<open>
  Where a swarm runs: a valid configuration; a publication leaves the swarm's keys alone; in a sleep
  the data base moves by \<open>step\<close>, what the other tasks may do meanwhile.
\<close>

locale swarm_world = redis_exec "ce_exec (se_cmds E)" up kv
  for E :: "'x swarm_env" and up :: "'x \<Rightarrow> bool" and kv :: "'x \<Rightarrow> db" +
  fixes c :: swarm_config and step :: "db \<Rightarrow> db \<Rightarrow> bool" and late :: int
  assumes valid: "valid_swarm_config c"
    and lateness: "0 \<le> late"
    and publishes: "connected up kv w d t n \<Longrightarrow>
      \<exists>d' n'. connected up kv (snd (se_publish E ty subject descr w)) d' t n' \<and> swarm_kept c d d'"
    and sleeps: "connected up kv w d t n \<Longrightarrow>
      \<exists>d' t1 n'. connected up kv (se_sleep E w) d' t1 n' \<and> nap late t t1 \<and> step d d'"
begin

lemmas wp_swarm_cmd = wp_command [OF refl]

lemma wp_swarm_publish:
  assumes "connected up kv w d t n"
    and "\<And>w' d' n'. connected up kv w' d' t n' \<Longrightarrow> swarm_kept c d d' \<Longrightarrow> Q () w' \<and> (\<forall>e. F e w')"
  shows "wp (se_publish E ty subject descr) w Q F"
  using publishes [OF assms(1), of ty subject descr] assms(2)
  by (auto simp: wp_def split: sum.splits)

lemma wp_field:
  assumes "connected up kv w d t n"
    and "\<And>w'. connected up kv w' (with_field c i f v d) t n \<Longrightarrow> Q () w'"
  shows "wp (command (se_cmds E) (\<lambda>_. ()) (Hset (swarm_session_key c i) [(f, v)])) w Q F"
  by (rule wp_swarm_cmd [OF assms(1)]) (rule assms(2), simp add: with_field_def)

lemma wp_update_swarm_status:
  assumes "connected up kv w d t n"
    and "\<And>w'. connected up kv w' (with_field c i ''status'' (swarm_status_value st) d) t n \<Longrightarrow> Q () w'"
  shows "wp (update_swarm_status E c i st None) w Q F"
  unfolding update_swarm_status_def update_session_status_def
  by (simp only: wp_simps option.case) (rule wp_field [OF assms(1)], simp add: wp_simps assms(2))

lemma wp_completed:
  assumes "connected up kv w d t n"
    and "\<And>w'. connected up kv w' (with_field c i ''completed_at'' (isoformat ct)
       (with_field c i ''status'' (swarm_status_value st) d)) t n \<Longrightarrow> Q () w'"
  shows "wp (update_swarm_status E c i st (Some ct)) w Q F"
  unfolding update_swarm_status_def update_session_status_def
  by (simp only: wp_simps option.case)
    (rule wp_field [OF assms(1)], rule wp_field, assumption, rule assms(2))

lemmas wp_get_session = wp_read_session [OF refl]

end

section \<open>Waiting ends\<close>

lemma wp_sleep_second [wp_simps]: "wp (sleep_second E) w Q F \<longleftrightarrow> Q () (se_sleep E w)"
  by (simp add: wp_def sleep_second_def)

context swarm_world
begin

lemma wp_wait_from:
  assumes "connected up kv w d t n" "I d" "\<And>d d'. I d \<Longrightarrow> step d d' \<Longrightarrow> I d'" "0 \<le> elapsed"
    and "\<And>w' d' t' n' b. connected up kv w' d' t' n' \<Longrightarrow> I d' \<Longrightarrow>
      (if b then set expected \<subseteq> db_sets d' (progress_key c i) \<and> (\<exists>k. int k < timeout - elapsed \<and> (nap late ^^ k) t t')
       else (nap late ^^ nat (timeout - elapsed)) t t') \<Longrightarrow> Q b w'"
    and "\<And>e. timeout \<le> 0 \<Longrightarrow> elapsed = 0 \<Longrightarrow> F e w"
  shows "wp (wait_from E c i expected timeout elapsed) w Q F"
  using assms(1,2,4-)
proof (induction "nat (timeout - elapsed)" arbitrary: elapsed w d t n Q F)
  case 0
  then have "\<not> elapsed < timeout" by simp
  then show ?case
    using 0(2,3,6) 0(5) [of w d t n False] \<open>0 \<le> elapsed\<close>
    by (subst wait_from.simps) (auto simp: wp_simps)
next
  case (Suc k)
  then have lt: "elapsed < timeout" by simp
  have poll: "wp (thenE (sleep_second E) (wait_from E c i expected timeout (elapsed + 1))) w' Q F"
    if w': "connected up kv w' d t n" for w'
  proof -
    from sleeps [OF w'] obtain d' t1 n' where
      s: "connected up kv (se_sleep E w') d' t1 n'" "nap late t t1" "step d d'" by blast
    have sooner: "\<exists>k. int k < timeout - elapsed \<and> (nap late ^^ k) t t'"
      if "\<exists>k. int k < timeout - (elapsed + 1) \<and> (nap late ^^ k) t1 t'" for t'
    proof -
      from that obtain k where "int k < timeout - (elapsed + 1)" "(nap late ^^ k) t1 t'" by blast
      then show ?thesis by (intro exI [of _ "Suc k"]) (simp add: relpowp_Suc_I2 [of "nap late", OF s(2)] del: relpowp.simps)
    qed
    have left: "nat (timeout - elapsed) = Suc (nat (timeout - (elapsed + 1)))" using lt by simp
    have "wp (wait_from E c i expected timeout (elapsed + 1)) (se_sleep E w') Q F"
    proof (rule Suc(1) [OF _ s(1) assms(3) [OF Suc(4) s(3)]])
      show "k = nat (timeout - (elapsed + 1))" using Suc(2) by simp
      show "Q b w''" if "connected up kv w'' d'' t' n''" "I d''"
        "if b then set expected \<subseteq> db_sets d'' (progress_key c i) \<and> (\<exists>k. int k < timeout - (elapsed + 1) \<and> (nap late ^^ k) t1 t')
         else (nap late ^^ nat (timeout - (elapsed + 1))) t1 t'" for w'' d'' t' n'' b
        using that(3) relpowp_Suc_I2 [of "nap late", OF s(2)] sooner [of t']
        by (intro Suc(6) [OF that(1,2)]) (cases b; simp only: left if_True if_False; blast)
    qed (use lt Suc(5) in auto)
    then show ?thesis by (simp add: wp_simps)
  qed
  show ?case
    unfolding wait_from.simps [of E c i expected timeout elapsed] if_P [OF lt] get_completed_reviewers_def wp_bindE
  proof (rule wp_swarm_cmd [OF Suc(3)])
    fix r w'
    assume r: "answers d (Smembers (progress_key c i)) r"
      and "connected up kv w' (cmd_effect (Smembers (progress_key c i)) d) t n"
    then have w': "connected up kv w' d t n" by simp
    from r obtain ms where "r = RTexts ms" "set ms = db_sets d (progress_key c i)"
      unfolding answers.simps lists_set_def by blast
    then have texts: "set (texts_of_reply r) = db_sets d (progress_key c i)" by (simp only: texts_of_reply.simps)
    show "wp (if set expected \<subseteq> set (texts_of_reply r) then ret True
        else thenE (sleep_second E) (wait_from E c i expected timeout (elapsed + 1))) w' Q F"
    proof (cases "set expected \<subseteq> set (texts_of_reply r)")
      case True
      have "\<exists>k. int k < timeout - elapsed \<and> (nap late ^^ k) t t" by (rule exI [of _ 0]) (use lt in simp)
      then have "Q True w'" by (intro Suc(6) [OF w' Suc(4)]) (simp only: if_True True [unfolded texts] simp_thms)
      then show ?thesis by (simp only: True if_True wp_ret)
    next
      case False
      show ?thesis unfolding if_not_P [OF False] by (rule poll [OF w'])
    qed
  qed
qed

lemmas wp_wait = wp_wait_from [where elapsed = 0, folded wait_for_completion_def, simplified]

end

text \<open>What is known when the collection ends: the session that was read, the data base in which the
  wait ended, and the texts of the results there; either all reviewers were there before the last
  sleep, or the loop slept once for every second of its timeout.\<close>

definition collected ::
  "int \<Rightarrow> 'x swarm_env \<Rightarrow> swarm_config \<Rightarrow> string \<Rightarrow> (db \<Rightarrow> bool) \<Rightarrow> db \<Rightarrow> int \<Rightarrow> db \<Rightarrow> int \<Rightarrow>
   (string \<times> reviewer_result) list \<Rightarrow> bool" where
  "collected late E c i I d t dw t' rs \<longleftrightarrow>
     (\<exists>hs s h. map_of hs = db_hashes d (swarm_session_key c i) \<and> session_of_hash E hs = Inr s \<and>
        map_of h = db_hashes dw (results_key c i) \<and> read_results E h = Inr rs \<and> I dw \<and>
        (set (ss_reviewers s) \<subseteq> db_sets dw (progress_key c i) \<and>
           (\<exists>k. int k < sc_aggregate_timeout c \<and> (nap late ^^ k) t t') \<or>
         (nap late ^^ nat (sc_aggregate_timeout c)) t t'))"

text \<open>At most one sleep for every second of the timeout lies between two times.\<close>

definition in_time :: "int \<Rightarrow> swarm_config \<Rightarrow> int \<Rightarrow> int \<Rightarrow> bool" where
  "in_time late c t t' \<longleftrightarrow> (\<exists>k. int k \<le> sc_aggregate_timeout c \<and> (nap late ^^ k) t t')"

context swarm_world
begin

lemma in_time_bounds: "in_time late c t t' \<Longrightarrow> t \<le> t' \<and> t' \<le> t + (1000000 + late) * sc_aggregate_timeout c"
proof -
  assume "in_time late c t t'"
  then obtain k where k: "int k \<le> sc_aggregate_timeout c" "(nap late ^^ k) t t'" unfolding in_time_def by blast
  have "(1000000 + late) * int k \<le> (1000000 + late) * sc_aggregate_timeout c"
    using k(1) lateness by (intro mult_left_mono) auto
  with naps_last [OF k(2)] show ?thesis by linarith
qed

lemma in_time_now: "in_time late c t t"
  unfolding in_time_def by (rule exI [of _ 0]) (use valid_swarm_configD(2) [OF valid] in simp)

lemma in_time_waited: "in_time late c t t'"
  if "(\<exists>k. int k < sc_aggregate_timeout c \<and> (nap late ^^ k) t t') \<or> (nap late ^^ nat (sc_aggregate_timeout c)) t t'"
  using that
proof
  assume "(nap late ^^ nat (sc_aggregate_timeout c)) t t'"
  then show ?thesis
    unfolding in_time_def by (intro exI [of _ "nat (sc_aggregate_timeout c)"]) (use valid_swarm_configD(2) [OF valid] in simp)
qed (auto simp: in_time_def intro: less_imp_le)

lemma wp_get_all_results:
  assumes "connected up kv w d t n"
    and "\<And>w' h rs. connected up kv w' d t n \<Longrightarrow> map_of h = db_hashes d (results_key c i) \<Longrightarrow>
      read_results E h = Inr rs \<Longrightarrow> Q rs w'"
    and "\<And>w' e. connected up kv w' d t n \<Longrightarrow> F e w'"
  shows "wp (get_all_results E c i) w Q F"
  unfolding get_all_results_def wp_simps
  by (rule wp_swarm_cmd [OF assms(1)])
    (use assms(2,3) in \<open>auto simp: lists_map_def split: sum.splits\<close>)

lemma wp_collect_results:
  assumes "connected up kv w d t n" "I d" "\<And>d d'. I d \<Longrightarrow> step d d' \<Longrightarrow> I d'"
    and "\<And>w' dw t' n' rs. collected late E c i I d t dw t' rs \<Longrightarrow>
      connected up kv w' (with_field c i ''status'' (swarm_status_value Sw_AGGREGATING) dw) t' n' \<Longrightarrow> Q rs w'"
    and "\<And>w' d' t' n' e. connected up kv w' d' t' n' \<Longrightarrow> in_time late c t t' \<Longrightarrow> F e w'"
  shows "wp (collect_results E c i None) w Q F"
  unfolding collect_results_def wp_bindE [of "store_get_session E c i"]
proof (rule wp_get_session [OF assms(1)], goal_cases)
  case (1 w')
  then show ?case using assms(5) [OF 1(1) in_time_now] by (simp add: wp_simps)
next
  case (3 w' e h)
  then show ?case using assms(5) [OF 3(1) in_time_now] by simp
next
  case (2 w' s h)
  have "wp (wait_for_completion E c i (ss_reviewers s) (sc_aggregate_timeout c)) w'
     (\<lambda>_ w'. wp (thenE (update_swarm_status E c i Sw_AGGREGATING None) (get_all_results E c i)) w' Q F) F"
  proof (rule wp_wait [where I = I, OF 2(1) assms(2,3)], goal_cases)
    case (3 w' d' t' n' b)
    have time: "in_time late c t t'" by (rule in_time_waited) (use 3(3) in \<open>simp split: if_splits\<close>)
    show ?case
      unfolding wp_thenE
    proof (rule wp_update_swarm_status [OF 3(1)], rule wp_get_all_results, assumption)
      fix w'' w''' ha rs
      assume "connected up kv w''' (with_field c i ''status'' (swarm_status_value Sw_AGGREGATING) d') t' n'"
        and "map_of ha = db_hashes (with_field c i ''status'' (swarm_status_value Sw_AGGREGATING) d') (results_key c i)"
        and "read_results E ha = Inr rs"
      moreover have "collected late E c i I d t d' t' rs" if "map_of ha = db_hashes d' (results_key c i)" "read_results E ha = Inr rs"
        unfolding collected_def using 2(2,3) 3 that
        by (intro exI [of _ h] exI [of _ s] exI [of _ ha]) (auto split: if_splits)
      ultimately show "Q rs w'''" by (auto intro: assms(4))
    qed (rule assms(5) [OF _ time])
  next
    case (4 e)
    then show ?case using assms(5) [OF 2(1) in_time_now] by simp
  qed auto
  then show ?case by (simp add: wp_simps)
qed

end

section \<open>How a swarm ends\<close>

text \<open>The fields a completed swarm has: its status, the time and the text of the report.\<close>

definition completed_with :: "'x swarm_env \<Rightarrow> swarm_config \<Rightarrow> string \<Rightarrow> db \<Rightarrow> int \<Rightarrow> unified_report \<Rightarrow> bool" where
  "completed_with E c i d t r \<longleftrightarrow>
     status_in c i d Sw_COMPLETE \<and>
     db_hashes d (swarm_session_key c i) ''completed_at'' = Some (isoformat (utc_datetime t)) \<and>
     db_hashes d (swarm_session_key c i) ''unified_report'' = Some (se_dump_report E r)"

lemma completed_with_kept: "swarm_kept c d d' \<Longrightarrow> completed_with E c i d t r \<Longrightarrow> completed_with E c i d' t r"
  and status_in_kept: "swarm_kept c d d' \<Longrightarrow> status_in c i d st \<Longrightarrow> status_in c i d' st"
  by (auto simp: completed_with_def status_in_def swarm_kept_def)

context swarm_world
begin

lemma wp_fail_swarm:
  assumes "connected up kv w d t n"
    and "\<And>w' d' n'. connected up kv w' d' t n' \<Longrightarrow> status_in c i d' Sw_FAILED \<Longrightarrow> Q () w' \<and> (\<forall>e. F e w')"
  shows "wp (fail_swarm E c i err) w Q F"
  unfolding fail_swarm_def wp_thenE
proof (rule wp_update_swarm_status [OF assms(1)], rule wp_swarm_publish, assumption)
  fix w' d' n'
  let ?d = "with_field c i ''status'' (swarm_status_value Sw_FAILED) d"
  assume c': "connected up kv w' d' t n'" and k: "swarm_kept c ?d d'"
  have "status_in c i ?d Sw_FAILED" by (simp add: status_in_def)
  then show "Q () w' \<and> (\<forall>e. F e w')" by (rule assms(2) [OF c' status_in_kept [OF k]])
qed

lemma wp_finalize_swarm:
  assumes "connected up kv w d t n"
    and "\<And>w' d' n'. connected up kv w' d' t n' \<Longrightarrow> completed_with E c i d' t r \<Longrightarrow> Q () w' \<and> (\<forall>e. F e w')"
  shows "wp (finalize_swarm E c i r) w Q F"
  unfolding finalize_swarm_def wp_bindE wp_now_us wp_thenE connectedD(3) [OF assms(1)]
proof (rule wp_completed [OF assms(1)], rule wp_field, assumption, rule wp_swarm_publish, assumption)
  fix w' d' n'
  let ?d = "with_field c i ''unified_report'' (se_dump_report E r) (with_field c i ''completed_at''
    (isoformat (utc_datetime t)) (with_field c i ''status'' (swarm_status_value Sw_COMPLETE) d))"
  assume c': "connected up kv w' d' t n'" and k: "swarm_kept c ?d d'"
  have "completed_with E c i ?d t r" by (simp add: completed_with_def status_in_def)
  then show "Q () w' \<and> (\<forall>e. F e w')" by (rule assms(2) [OF c' completed_with_kept [OF k]])
qed

lemma wp_run_dispatched:
  assumes "connected up kv w d t n" "I d" "\<And>d d'. I d \<Longrightarrow> step d d' \<Longrightarrow> I d'"
    and "\<And>w' d' dw t' n' rs j target. collected late E c i I d t dw t' rs \<Longrightarrow> in_time late c t t' \<Longrightarrow>
      connected up kv w' d' t' n' \<Longrightarrow>
      completed_with E c i d' t' (aggregate (sc_threshold c) j target rs) \<Longrightarrow>
      Q (aggregate (sc_threshold c) j target rs) w'"
    and "\<And>w' d' t' n' e. connected up kv w' d' t' n' \<Longrightarrow> in_time late c t t' \<Longrightarrow> status_in c i d' Sw_FAILED \<Longrightarrow> F e w'"
  shows "wp (run_dispatched E c i) w Q F"
proof -
  let ?H = "\<lambda>e s'. wp (thenE (fail_swarm E c i (message_of e)) (raise e)) s' Q F"
  have fails: "?H e w'" if "connected up kv w' d' t' n'" "in_time late c t t'" for e w' d' t' n'
    unfolding wp_thenE
    by (rule wp_fail_swarm [OF that(1)]) (simp add: wp_raise assms(5) [OF _ that(2)])
  show ?thesis
    unfolding run_dispatched_def
  proof (simp only: wp_try_except any_exception_True if_True wp_bindE [of "collect_results E c i None"], rule wp_collect_results [where I = I, OF assms(1,2)])
    fix w' dw t' n' rs
    assume col: "collected late E c i I d t dw t' rs"
      and w': "connected up kv w' (with_field c i ''status'' (swarm_status_value Sw_AGGREGATING) dw) t' n'"
    have time: "in_time late c t t'" by (rule in_time_waited) (use col in \<open>auto simp: collected_def\<close>)
    show "wp (bindE (store_get_session E c i) (\<lambda>s. case s of
          None \<Rightarrow> raise (Exn PyValueError (''Session lost: '' @ i))
        | Some s \<Rightarrow> let report = aggregate (sc_threshold c) (ss_id s) (ss_target_path s) rs
            in thenE (finalize_swarm E c i report) (ret report))) w' Q ?H"
      unfolding wp_bindE [of "store_get_session E c i"]
    proof (rule wp_get_session [OF w'], goal_cases)
      case (2 w'' s h)
      then show ?case
        unfolding option.case Let_def wp_thenE [of "finalize_swarm E c i r" for r]
        by (intro wp_finalize_swarm) (auto simp: wp_ret intro: assms(4) [OF col time] fails [OF _ time])
    qed (simp_all only: option.case wp_raise fails [OF _ time])
  qed (rule assms(3), assumption+, rule fails, assumption+)
qed

end

section \<open>A swarm that can read its session makes a report\<close>

text \<open>The hash of a session holds at least the fields of \<open>s\<close>; all results stored for it are readable.\<close>

definition session_at :: "'x swarm_env \<Rightarrow> swarm_config \<Rightarrow> swarm_session \<Rightarrow> db \<Rightarrow> bool" where
  "session_at E c s d \<longleftrightarrow>
     map_of (session_mapping E s) \<subseteq>\<^sub>m db_hashes d (swarm_session_key c (ss_id s))"

definition results_readable :: "'x swarm_env \<Rightarrow> swarm_config \<Rightarrow> string \<Rightarrow> db \<Rightarrow> bool" where
  "results_readable E c i d \<longleftrightarrow>
     (\<forall>h. map_of h = db_hashes d (results_key c i) \<longrightarrow> (\<exists>rs. read_results E h = Inr rs))"

lemma session_at_reads:
  assumes "session_at E c s d" "texts_read_back E s" "valid_session_times s"
    and "map_of h = db_hashes d (swarm_session_key c (ss_id s))"
  shows "session_of_hash E h = Inr s"
proof (rule session_of_mapping [OF assms(2,3), of h "map_of h"], rule ext)
  fix k
  show "map_of h k = (map_of h ++ map_of (session_mapping E s)) k"
    using assms(1,4) by (auto simp: session_at_def map_le_def map_add_def dom_def split: option.splits)
qed

lemma session_at_present: "session_at E c s d \<Longrightarrow> db_hashes d (swarm_session_key c (ss_id s)) \<noteq> Map.empty"
proof
  assume "session_at E c s d" and e: "db_hashes d (swarm_session_key c (ss_id s)) = Map.empty"
  moreover have "map_of (session_mapping E s) ''id'' = Some (ss_id s)" by (simp add: session_mapping_def)
  ultimately show False by (auto simp: session_at_def map_le_def dom_def)
qed

lemma session_at_status:
  assumes "session_at E c s d"
  shows "session_at E c (s\<lparr>ss_status := st\<rparr>) (with_field c (ss_id s) ''status'' (swarm_status_value st) d)"
  using assms by (auto simp: session_at_def map_le_def session_mapping_def dom_def split: if_splits)

context swarm_world
begin

lemma wp_collect_ok:
  assumes "connected up kv w d t n" "session_at E c s d" "texts_read_back E s" "valid_session_times s"
    and "0 < sc_aggregate_timeout c" "results_readable E c (ss_id s) d"
    and "\<And>d d'. session_at E c s d \<Longrightarrow> results_readable E c (ss_id s) d \<Longrightarrow> step d d' \<Longrightarrow>
      session_at E c s d' \<and> results_readable E c (ss_id s) d'"
    and "\<And>w' dw t' n' rs. session_at E c s dw \<Longrightarrow>
      connected up kv w' (with_field c (ss_id s) ''status'' (swarm_status_value Sw_AGGREGATING) dw) t' n' \<Longrightarrow> Q rs w'"
  shows "wp (collect_results E c (ss_id s) None) w Q F"
  unfolding collect_results_def wp_bindE [of "store_get_session E c (ss_id s)"]
proof (rule wp_get_session [OF assms(1)], goal_cases)
  case (1 w')
  then show ?case using session_at_present [OF assms(2)] by simp
next
  case (3 w' e h)
  then show ?case using session_at_reads [OF assms(2-4) 3(2)] by simp
next
  case (2 w' s' h)
  let ?J = "\<lambda>d. session_at E c s d \<and> results_readable E c (ss_id s) d"
  have "wp (wait_for_completion E c (ss_id s) (ss_reviewers s') (sc_aggregate_timeout c)) w'
     (\<lambda>_ w'. wp (thenE (update_swarm_status E c (ss_id s) Sw_AGGREGATING None) (get_all_results E c (ss_id s))) w' Q F) F"
  proof (rule wp_wait [where I = ?J, OF 2(1)], goal_cases)
    case (3 w' d' t' n' b)
    show ?case
      unfolding wp_thenE get_all_results_def wp_bindE [of "command (se_cmds E) dict_of_reply c'" for c'] wp_lift_result
    proof (rule wp_update_swarm_status [OF 3(1)], rule wp_swarm_cmd, assumption)
      let ?d = "with_field c (ss_id s) ''status'' (swarm_status_value Sw_AGGREGATING) d'"
      fix w1 r w2
      assume r: "answers ?d (Hgetall (results_key c (ss_id s))) r"
        and w2: "connected up kv w2 (cmd_effect (Hgetall (results_key c (ss_id s))) ?d) t' n'"
      from r obtain h where h: "r = RDict h" "map_of h = db_hashes d' (results_key c (ss_id s))"
        by (auto simp: lists_map_def)
      with 3(2) obtain rs where "read_results E h = Inr rs" by (auto simp: results_readable_def)
      then show "case read_results E (dict_of_reply r) of Inl e \<Rightarrow> F e w2 | Inr v \<Rightarrow> Q v w2"
        using assms(8) [of d' w2 t' n' rs] 3(2) w2 h(1) by simp
    qed
  next
    case (2 d d')
    then show ?case by (elim conjE) (rule assms(7))
  qed (use assms(2,5,6) in simp_all)
  then show ?case by (simp add: wp_simps)
qed

lemma wp_run_ok:
  assumes "connected up kv w d t n" "session_at E c s d" "texts_read_back E s" "valid_session_times s"
    and "0 < sc_aggregate_timeout c" "results_readable E c (ss_id s) d"
    and "\<And>d d'. session_at E c s d \<Longrightarrow> results_readable E c (ss_id s) d \<Longrightarrow> step d d' \<Longrightarrow>
      session_at E c s d' \<and> results_readable E c (ss_id s) d'"
    and "\<And>a b m w. fst (se_publish E a b m w) = Inr ()"
  shows "wp (run_dispatched E c (ss_id s)) w
    (\<lambda>rep _. \<exists>rs. rep = aggregate (sc_threshold c) (ss_id s) (ss_target_path s) rs) (\<lambda>_ _. False)"
  unfolding run_dispatched_def
proof (simp only: wp_try_except any_exception_True if_True wp_bindE [of "collect_results E c (ss_id s) None"],
    rule wp_collect_ok [OF assms(1-6)])
  show "session_at E c s d' \<and> results_readable E c (ss_id s) d'"
    if "session_at E c s d" "results_readable E c (ss_id s) d" "step d d'" for d d'
    by (rule assms(7) [OF that])
next
  fix w' dw t' n' rs
  let ?H = "\<lambda>e s'. wp (thenE (fail_swarm E c (ss_id s) (message_of e)) (raise e)) s'
     (\<lambda>rep _. \<exists>rs. rep = aggregate (sc_threshold c) (ss_id s) (ss_target_path s) rs) (\<lambda>_ _. False)"
  let ?s = "s\<lparr>ss_status := Sw_AGGREGATING\<rparr>"
  assume at': "session_at E c s dw"
    and w': "connected up kv w' (with_field c (ss_id s) ''status'' (swarm_status_value Sw_AGGREGATING) dw) t' n'"
  have at2: "session_at E c ?s (with_field c (ss_id s) ''status'' (swarm_status_value Sw_AGGREGATING) dw)"
    by (rule session_at_status [OF at'])
  have fit: "texts_read_back E ?s" "valid_session_times ?s"
    using assms(3,4) by (simp_all add: texts_read_back_def valid_session_times_def)
  have fin: "wp (finalize_swarm E c (ss_id s) rep) w'' (\<lambda>_ _. True) (\<lambda>_ _. False)"
    if "connected up kv w'' d'' t' n'" for rep w'' d''
    unfolding finalize_swarm_def wp_bindE wp_now_us wp_thenE
    by (rule wp_completed [OF that], rule wp_field, assumption) (simp add: wp_def assms(8))
  show "wp (bindE (store_get_session E c (ss_id s)) (case_option
          (raise (Exn PyValueError (''Session lost: '' @ ss_id s)))
          (\<lambda>s'. let report = aggregate (sc_threshold c) (ss_id s') (ss_target_path s') rs
            in thenE (finalize_swarm E c (ss_id s) report) (ret report)))) w'
      (\<lambda>rep _. \<exists>rs. rep = aggregate (sc_threshold c) (ss_id s) (ss_target_path s) rs) ?H"
    unfolding wp_bindE [of "store_get_session E c (ss_id s)"]
  proof (rule wp_get_session [OF w'], goal_cases)
    case (1 w'')
    then show ?case using session_at_present [OF at2] by simp
  next
    case (3 w'' e h)
    then show ?case using session_at_reads [OF at2 fit, of h] by simp
  next
    case (2 w'' s' h)
    then have "s' = ?s" using session_at_reads [OF at2 fit, of h] by simp
    then show ?case
      unfolding option.case Let_def wp_thenE [of "finalize_swarm E c (ss_id s) r" for r]
      by (intro wp_mono [OF fin [OF 2(1)]]) (auto simp: wp_ret)
  qed
qed

end

text \<open>What a reviewer leaves.\<close>

definition left_result :: "swarm_config \<Rightarrow> string \<Rightarrow> string \<Rightarrow> string \<Rightarrow> db \<Rightarrow> db \<Rightarrow> bool" where
  "left_result c i rt v d d' \<longleftrightarrow>
     db_hashes d' (results_key c i) = (db_hashes d (results_key c i))(rt \<mapsto> v) \<and>
     db_sets d' (progress_key c i) = insert rt (db_sets d (progress_key c i)) \<and>
     db_ttl d' (results_key c i) = Some (sc_result_ttl c) \<and> db_ttl d' (progress_key c i) = Some (sc_result_ttl c)"

lemma left_result_kept: "left_result c i rt v d d' \<Longrightarrow> swarm_kept c d' d'' \<Longrightarrow> left_result c i rt v d d''"
  by (simp add: left_result_def swarm_kept_def)

lemma left_result_effects:
  assumes "valid_swarm_config c"
  shows "left_result c i rt v d (run_effects [Hset (results_key c i) [(rt, v)], Sadd (progress_key c i) rt,
     Expire (results_key c i) (sc_result_ttl c), Expire (progress_key c i) (sc_result_ttl c)] d)"
  using valid_swarm_configD(1) [OF assms] by (auto simp: left_result_def present_def fun_eq_iff)

context swarm_world
begin

lemma wp_store_reviewer_result:
  assumes "connected up kv w d t n"
    and "\<And>w' d'. connected up kv w' d' t n \<Longrightarrow> left_result c i rt (se_dump_result E r) d d' \<Longrightarrow> Q () w'"
  shows "wp (store_reviewer_result E c i rt r) w Q F"
  unfolding store_reviewer_result_def wp_thenE
  by (rule wp_swarm_cmd [OF assms(1)], rule wp_swarm_cmd, assumption, rule wp_swarm_cmd, assumption,
      rule wp_swarm_cmd, assumption, rule assms(2), assumption)
    (rule left_result_effects [OF valid, of i rt "se_dump_result E r" d, unfolded run_effects.simps])

lemma wp_run_reviewer:
  assumes "connected up kv (snd (se_review E i target rt w)) d t n"
  shows "wp (run_reviewer E c i target rt) w
    (\<lambda>_ w'. \<exists>d' n'. connected up kv w' d' t n' \<and> left_result c i rt
       (se_dump_result E (case fst (se_review E i target rt w) of Inr r \<Rightarrow> r | Inl e \<Rightarrow> failed_result rt e)) d d')
    (\<lambda>_ w'. \<exists>d' n'. connected up kv w' d' t n' \<and> left_result c i rt
       (se_dump_result E (case fst (se_review E i target rt w) of Inr r \<Rightarrow> r | Inl e \<Rightarrow> failed_result rt e)) d d')"
proof -
  let ?P = "\<lambda>r w'. \<exists>d' n'. connected up kv w' d' t n' \<and> left_result c i rt (se_dump_result E r) d d'"
  have rest: "wp (thenE (store_reviewer_result E c i rt r) (se_publish E a b e)) (snd (se_review E i target rt w))
      (\<lambda>_. ?P r) (\<lambda>_. ?P r)" for r a b e
    unfolding wp_thenE
  proof (rule wp_store_reviewer_result [OF assms], rule wp_swarm_publish, assumption)
    fix w' d' w'' d'' n''
    assume "left_result c i rt (se_dump_result E r) d d'" "connected up kv w'' d'' t n''" "swarm_kept c d' d''"
    then show "?P r w'' \<and> (\<forall>e. ?P r w'')" by (blast dest: left_result_kept)
  qed
  show ?thesis
    by (cases "se_review E i target rt w"; cases "fst (se_review E i target rt w)")
      (use rest in \<open>simp_all add: run_reviewer_def wp_def bindE_def thenE_def try_except_def ret_def\<close>)
qed

end

lemma read_results_keys: "read_results E h = Inr rs \<Longrightarrow> map fst rs = map fst h"
  by (induction h arbitrary: rs) (auto simp: bind_sum_def split: sum.splits)

lemma session_of_hash_cong:
  assumes "map_of h = map_of h'"
  shows "session_of_hash E h = session_of_hash E h'"
  unfolding session_of_hash_def dget_def assms by (rule refl)

lemma aggregate_reports:
  "set (ur_completed (aggregate th i target rs)) \<union> set (ur_failed (aggregate th i target rs)) \<subseteq> fst ` set rs"
  by (auto simp: aggregate_def successful_def Let_def split: prod.splits)

section \<open>An environment\<close>

text \<open>The reference server, the executor and the publisher the dispatcher uses by default, and a
  sleep of exactly a second in which no other task moves.\<close>

definition demo_swarm :: "memdb swarm_env" where
  "demo_swarm =
     \<lparr>se_cmds = md_env, se_dump_result = rr_reviewer,
      se_read_result = (\<lambda>s. fst (default_executor [] [] s ())),
      se_dump_results = (\<lambda>_. ''{}''), se_read_results = (\<lambda>_. Inr []), se_dump_report = ur_swarm_id,
      se_read_report = (\<lambda>s. None), se_repr_names = concat, se_registered = [''security'', ''style''],
      se_review = default_executor, se_publish = noop_publish, se_sleep = (\<lambda>w. w\<lparr>cn_now := cn_now w + 1000000\<rparr>)\<rparr>"

interpretation sw: swarm_world demo_swarm "\<lambda>_. True" memdb_abs default_swarm_config "(=)" 0
proof (unfold_locales, goal_cases)
  case (7 w d t n ty subject descr)
  then show ?case
    by (intro exI [of _ d] exI [of _ n]) (simp add: demo_swarm_def noop_publish_def ret_def)
next
  case (8 w d t n)
  then show ?case
    by (intro exI [of _ d] exI [of _ "t + 1000000"] exI [of _ n]) (simp add: demo_swarm_def connected_md nap_def)
qed (simp_all add: demo_swarm_def md_env_def md.exec_answers md.exec_effect md.exec_error)

definition demo_session :: swarm_session where
  "demo_session =
     \<lparr>ss_id = ''swarm-1'', ss_target_path = ''src/'', ss_reviewers = [''security'', ''licence''],
      ss_status = Sw_IN_PROGRESS, ss_created_at = utc_datetime 1700000000000000, ss_completed_at = None,
      ss_results = [], ss_report = None\<rparr>"

lemma demo_session_fits: "texts_read_back demo_swarm demo_session" "valid_session_times demo_session"
proof -
  have "valid_datetime (utc_datetime 1700000000000000)" by (rule valid_utc_datetime) simp_all
  then show "texts_read_back demo_swarm demo_session" "valid_session_times demo_session"
    by (simp_all add: texts_read_back_def valid_session_times_def demo_session_def demo_swarm_def)
qed

lemma collected_absent:
  assumes "collected late E c i (\<lambda>d. rt \<notin> db_sets d (progress_key c i) \<and> db_hashes d (results_key c i) rt = None) d t dw t' rs"
    and "map_of h = db_hashes d (swarm_session_key c i)" "session_of_hash E h = Inr s" "rt \<in> set (ss_reviewers s)"
  shows "(nap late ^^ nat (sc_aggregate_timeout c)) t t' \<and> rt \<notin> fst ` set rs"
proof -
  from assms(1) obtain hs s' hr where a: "map_of hs = db_hashes d (swarm_session_key c i)" "session_of_hash E hs = Inr s'"
    "map_of hr = db_hashes dw (results_key c i)" "read_results E hr = Inr rs"
    "rt \<notin> db_sets dw (progress_key c i)" "db_hashes dw (results_key c i) rt = None"
    "set (ss_reviewers s') \<subseteq> db_sets dw (progress_key c i) \<or> (nap late ^^ nat (sc_aggregate_timeout c)) t t'"
    unfolding collected_def by blast
  have "s' = s" using session_of_hash_cong [of hs h E] a(1,2) assms(2,3) by simp
  moreover have "rt \<notin> fst ` set hr" using a(3,6) by (metis map_of_eq_None_iff)
  then have "rt \<notin> fst ` set rs" using read_results_keys [OF a(4)] by (metis list.set_map)
  ultimately show ?thesis using a(5,7) assms(4) by blast
qed

section \<open>The properties\<close>

text \<open>A session that is stored under a valid configuration reads back as it was, and expires after
  the configured time, when pydantic reads back the texts it wrote.\<close>

theorem stored_session_reads_back:
  fixes E :: "'x swarm_env" and w :: "'x conn" and c :: swarm_config and s :: swarm_session
  assumes "redis_exec (ce_exec (se_cmds E)) up kv" "connected up kv w d t n"
    and "valid_swarm_config c" "texts_read_back E s" "valid_session_times s"
  defines "r \<equiv> store_create_session E c s w"
  shows "fst r = Inr () \<and> fst (store_get_session E c (ss_id s) (snd r)) = Inr (Some s) \<and>
    db_ttl (kv (cn_redis (snd r))) (swarm_session_key c (ss_id s)) = Some (sc_result_ttl c)"
  using wp_succeeds [OF redis_exec.stored_session [OF assms(1) refl assms(2-5)]]
  by (auto simp: r_def dest: wp_succeeds)

theorem stored_session_reads_back_witness:
  "fst (store_get_session demo_swarm default_swarm_config ''swarm-1''
     (snd (store_create_session demo_swarm default_swarm_config demo_session demo_conn))) = Inr (Some demo_session)"
  using stored_session_reads_back [OF _ demo_connected default_swarm_config_valid demo_session_fits]
    sw.redis_exec_axioms by (simp add: demo_session_def)

text \<open>A reviewer leaves a result whatever its review does: what the review returned, or a
  failed result with the message of what it raised, under its name in the results, with its name
  in the progress set and both keys expiring in time, even when the announcement of it fails; the
  results of the other reviewers stay.\<close>

theorem reviewer_leaves_result:
  fixes E :: "'x swarm_env" and w :: "'x conn" and c :: swarm_config and i target rt :: string
  assumes "swarm_world E up kv c step late" "connected up kv (snd (se_review E i target rt w)) d t n"
  defines "r \<equiv> (case fst (se_review E i target rt w) of Inr r \<Rightarrow> r | Inl e \<Rightarrow> failed_result rt e)"
    and "d' \<equiv> kv (cn_redis (snd (run_reviewer E c i target rt w)))"
  shows "db_hashes d' (results_key c i) = (db_hashes d (results_key c i))(rt \<mapsto> se_dump_result E r) \<and>
    db_sets d' (progress_key c i) = insert rt (db_sets d (progress_key c i)) \<and>
    db_ttl d' (results_key c i) = Some (sc_result_ttl c) \<and> db_ttl d' (progress_key c i) = Some (sc_result_ttl c)"
  using swarm_world.wp_run_reviewer [OF assms(1,2)] unfolding r_def d'_def
  by (auto simp: wp_def connected_def left_result_def split: sum.splits)

theorem reviewer_leaves_result_witness:
  "db_sets (memdb_abs (cn_redis (snd (run_reviewer demo_swarm default_swarm_config ''swarm-1'' ''src/'' ''style'' demo_conn))))
     (progress_key default_swarm_config ''swarm-1'') = {''style''}"
proof -
  have "snd (se_review demo_swarm ''swarm-1'' ''src/'' ''style'' demo_conn) = demo_conn"
    by (simp add: demo_swarm_def default_executor_def ret_def)
  with reviewer_leaves_result [OF sw.swarm_world_axioms, of "''swarm-1''" "''src/''" "''style''" demo_conn
      "memdb_abs empty_memdb" _ 0] demo_connected
  show ?thesis by (simp add: memdb_abs_def empty_memdb_def)
qed

text \<open>C29: While Redis answers, a dispatched swarm always ends, whatever the reviewers, the other
  tasks and the publisher do: either with a report, and the session is then complete, stamped and
  holds that report, or with an exception, and the session is then failed.  It sleeps at most once
  for every second of the aggregation timeout; as a sleep may last longer than the second asked for,
  the time this takes, the Redis calls and the publications not counted, is bounded by the timeout
  and the lateness of as many sleeps.\<close>

theorem swarm_ends_complete_or_failed:
  fixes E :: "'x swarm_env" and w :: "'x conn" and c :: swarm_config and i :: string
  assumes "swarm_world E up kv c step late" "connected up kv w d t n"
  defines "r \<equiv> run_dispatched E c i w"
  shows "\<exists>d' t' n'. connected up kv (snd r) d' t' n' \<and> t \<le> t' \<and>
    t' \<le> t + (1000000 + late) * sc_aggregate_timeout c \<and>
    (case fst r of Inr report \<Rightarrow> completed_with E c i d' t' report | Inl e \<Rightarrow> status_in c i d' Sw_FAILED)"
proof -
  have "wp (run_dispatched E c i) w
      (\<lambda>rep w'. \<exists>d' t' n'. connected up kv w' d' t' n' \<and> in_time late c t t' \<and> completed_with E c i d' t' rep)
      (\<lambda>_ w'. \<exists>d' t' n'. connected up kv w' d' t' n' \<and> in_time late c t t' \<and> status_in c i d' Sw_FAILED)"
    by (rule swarm_world.wp_run_dispatched [OF assms(1,2), where I = "\<lambda>_. True"]) blast+
  then show ?thesis
    by (auto simp: wp_def r_def split: sum.splits dest!: swarm_world.in_time_bounds [OF assms(1)])
qed

theorem swarm_ends_complete_or_failed_witness:
  "\<exists>d' t' n'. connected (\<lambda>_. True) memdb_abs
     (snd (run_dispatched demo_swarm default_swarm_config ''swarm-1'' demo_conn)) d' t' n' \<and> t' \<le> 1700000060500000"
  using swarm_ends_complete_or_failed [OF sw.swarm_world_axioms demo_connected, of "''swarm-1''"]
  by (auto simp: default_swarm_config_def)

text \<open>A reviewer that leaves no result, for instance one whose type is not registered, so that
  no task was created for it, makes the swarm sleep once for every second of the timeout, a second
  or more each: the session outlasts its maximum time as soon as one sleep is late.  A report is then
  made without that reviewer: it is neither among the completed nor the failed ones, and the session
  is complete.\<close>

theorem absent_reviewer_goes_unreported:
  fixes E :: "'x swarm_env" and w :: "'x conn" and c :: swarm_config and i rt :: string
  assumes "swarm_world E up kv c step late" "connected up kv w d t n"
    and "map_of h = db_hashes d (swarm_session_key c i)" "session_of_hash E h = Inr s" "rt \<in> set (ss_reviewers s)"
  defines "absent \<equiv> \<lambda>d. rt \<notin> db_sets d (progress_key c i) \<and> db_hashes d (results_key c i) rt = None"
  assumes "absent d" "\<And>d d'. absent d \<Longrightarrow> step d d' \<Longrightarrow> absent d'"
    and "fst (run_dispatched E c i w) = Inr report"
  shows "rt \<notin> set (ur_completed report) \<union> set (ur_failed report) \<and>
    (let x = cn_redis (snd (run_dispatched E c i w)) in status_in c i (kv x) Sw_COMPLETE) \<and>
    (nap late ^^ nat (sc_aggregate_timeout c)) t (cn_now (snd (run_dispatched E c i w)))"
proof -
  let ?waited = "\<lambda>t'. (nap late ^^ nat (sc_aggregate_timeout c)) t t'"
  have "wp (run_dispatched E c i) w (\<lambda>rep w'. rt \<notin> set (ur_completed rep) \<union> set (ur_failed rep) \<and>
      status_in c i (kv (cn_redis w')) Sw_COMPLETE \<and> ?waited (cn_now w')) (\<lambda>_ _. True)"
  proof (rule swarm_world.wp_run_dispatched [OF assms(1,2), where I = absent])
    fix w' d' dw t' n' rs j target
    let ?rep = "aggregate (sc_threshold c) j target rs"
    assume col: "collected late E c i absent d t dw t' rs" and w': "connected up kv w' d' t' n'"
      and "completed_with E c i d' t' ?rep"
    then have "status_in c i (kv (cn_redis w')) Sw_COMPLETE"
      by (simp add: completed_with_def connectedD(2) [OF w'])
    moreover have "?waited t'" "rt \<notin> fst ` set rs"
      using collected_absent [OF col [unfolded absent_def] assms(3,4,5)] by simp_all
    ultimately show "rt \<notin> set (ur_completed ?rep) \<union> set (ur_failed ?rep) \<and>
        status_in c i (kv (cn_redis w')) Sw_COMPLETE \<and> ?waited (cn_now w')"
      using aggregate_reports [of "sc_threshold c" j target rs] by (auto simp: connectedD(3) [OF w'])
  qed (use assms(7,8) in auto)
  then show ?thesis using assms(9) by (simp add: wp_def)
qed

definition demo_waiting :: "memdb conn" where
  "demo_waiting = snd (store_create_session demo_swarm default_swarm_config demo_session demo_conn)"

lemma demo_waiting_connected:
  "connected (\<lambda>_. True) memdb_abs demo_waiting (memdb_abs (cn_redis demo_waiting)) (cn_now demo_waiting) (cn_uuids demo_waiting)"
  by (simp add: connected_md)

lemma demo_simps: "se_cmds demo_swarm = md_env" "ss_id demo_session = ''swarm-1''"
  "ss_reviewers demo_session = [''security'', ''licence'']" "ce_exec md_env = md_exec"
  by (simp_all add: demo_swarm_def demo_session_def md_env_def)

lemma demo_waiting_redis:
  "cn_redis demo_waiting = md_effect (Expire (swarm_session_key default_swarm_config ''swarm-1'') 86400)
     (md_effect (Hset (swarm_session_key default_swarm_config ''swarm-1'') (session_mapping demo_swarm demo_session)) empty_memdb)"
  by (simp add: demo_waiting_def store_create_session_def command_def pipeline_def bindE_def thenE_def ret_def
      demo_simps demo_conn_def default_swarm_config_def del: md_effect.simps)

lemma demo_waiting_db:
  "db_hashes (memdb_abs (cn_redis demo_waiting)) =
     (\<lambda>_. Map.empty)(swarm_session_key default_swarm_config ''swarm-1'' := map_of (session_mapping demo_swarm demo_session))"
  "db_sets (memdb_abs (cn_redis demo_waiting)) k = {}"
  unfolding demo_waiting_redis md_effect_abs by (simp_all add: memdb_abs_def empty_memdb_def fun_eq_iff)

lemma demo_waiting_reads:
  "session_at demo_swarm default_swarm_config demo_session (memdb_abs (cn_redis demo_waiting))"
  "results_readable demo_swarm default_swarm_config ''swarm-1'' (memdb_abs (cn_redis demo_waiting))"
  by (simp_all add: session_at_def demo_simps demo_waiting_db results_readable_def)

theorem absent_reviewer_goes_unreported_witness:
  "\<exists>report. fst (run_dispatched demo_swarm default_swarm_config ''swarm-1'' demo_waiting) = Inr report \<and>
     ''licence'' \<notin> set (ur_completed report) \<union> set (ur_failed report) \<and>
     cn_now demo_waiting + 60000000 \<le> cn_now (snd (run_dispatched demo_swarm default_swarm_config ''swarm-1'' demo_waiting))"
proof -
  let ?h = "session_mapping demo_swarm demo_session"
  have "fst (se_publish demo_swarm a b m w) = Inr ()" for a b m w
    by (simp add: demo_swarm_def noop_publish_def)
  then obtain report where r: "fst (run_dispatched demo_swarm default_swarm_config ''swarm-1'' demo_waiting) = Inr report"
    using wp_succeeds [OF sw.wp_run_ok [OF demo_waiting_connected demo_waiting_reads(1) demo_session_fits, unfolded demo_simps]]
      demo_waiting_reads(2) by (auto simp: default_swarm_config_def)
  have s: "session_of_hash demo_swarm ?h = Inr demo_session"
    by (rule session_of_mapping [OF demo_session_fits, of _ Map.empty]) simp
  show ?thesis
    using absent_reviewer_goes_unreported [OF sw.swarm_world_axioms demo_waiting_connected _ s _ _ _ r, of "''licence''"] r
    by (auto simp: demo_waiting_db demo_simps default_swarm_config_def Let_def dest!: naps_last)
qed

end
