(* ===== verification/Json_Indent.thy ===== *)
theory Json_Indent
  imports Json
begin

text \<open>
  \<^verbatim>\<open>json.dumps(..., indent=2)\<close> reads back: the parser skips the line breaks and the indentation, so
  the round trip of \<open>Json\<close> holds for the indented text at every indentation.  The depth to which the
  interpreter follows nested containers is limited and a parameter of the functions at the end.
\<close>

lemma json_ws_nl [simp]: "json_ws (CHR 0x0A)"
  by (simp add: json_ws_def code_point_def)

lemma nl_eq: "nl = [CHR 0x0A]"
  by (rule nl_def)

lemma skip_ws_blanks [simp]: "skip_ws (replicate k (CHR '' '') @ s) = skip_ws s"
  by (induction k) simp_all

lemma parse_value_blanks [simp]: "parse_value n (replicate k (CHR '' '') @ s) = parse_value n s"
  by (cases n) simp_all

lemma parse_value_nl [simp]: "parse_value n (CHR 0x0A # s) = parse_value n s"
  by (cases n) simp_all

lemma parse_elems_nl [simp]: "parse_elems n (CHR 0x0A # s) = parse_elems n s"
  by (cases n) simp_all

lemma parse_members_nl [simp]: "parse_members n (CHR 0x0A # s) = parse_members n s"
  by (cases n) simp_all

lemma dumps_indent_head:
  obtains c cs where "dumps_indent k v = c # cs" "\<not> json_ws c" "c \<noteq> CHR '']''" "c \<noteq> CHR ''}''"
proof (cases "(\<exists>xs. v = JList xs) \<or> (\<exists>kvs. v = JObj kvs)")
  case True
  then have "\<exists>c cs. dumps_indent k v = c # cs \<and> c \<in> {CHR ''['', CHR ''{''}" by auto
  then show ?thesis using that by auto
next
  case False
  then have "dumps_indent k v = dumps v" by (cases v) auto
  then show ?thesis using that by (metis dumps_head)
qed

definition reads_back_at :: "nat \<Rightarrow> json \<Rightarrow> bool" where
  "reads_back_at k v \<longleftrightarrow>
     (\<forall>n r. after_value r \<longrightarrow> 2 * length (dumps_indent k v) + 1 \<le> n \<longrightarrow>
            parse_value n (dumps_indent k v @ r) = Some (v, r))"

lemma reads_back_atD:
  "reads_back_at k v \<Longrightarrow> after_value r \<Longrightarrow> 2 * length (dumps_indent k v) + 1 \<le> n \<Longrightarrow>
   parse_value n (dumps_indent k v @ r) = Some (v, r)"
  by (simp add: reads_back_at_def)

definition indented_item :: "nat \<Rightarrow> json \<Rightarrow> string" where
  "indented_item k x = replicate (k + 2) (CHR '' '') @ dumps_indent (k + 2) x"

definition indented_member :: "nat \<Rightarrow> string \<times> json \<Rightarrow> string" where
  "indented_member k p =
     replicate (k + 2) (CHR '' '') @ dump_str (fst p) @ '': '' @ dumps_indent (k + 2) (snd p)"

lemma dumps_indent_list:
  "xs \<noteq> [] \<Longrightarrow> dumps_indent k (JList xs) =
     CHR ''['' # CHR 0x0A # py_join ('','' @ nl) (map (indented_item k) xs) @
       CHR 0x0A # replicate k (CHR '' '') @ '']''"
  by (simp add: indented_item_def [abs_def] nl_eq)

lemma dumps_indent_obj:
  "kvs \<noteq> [] \<Longrightarrow> dumps_indent k (JObj kvs) =
     CHR ''{'' # CHR 0x0A # py_join ('','' @ nl) (map (indented_member k) kvs) @
       CHR 0x0A # replicate k (CHR '' '') @ ''}''"
  by (simp add: indented_member_def nl_eq cong: map_cong)

lemma parse_indented_elems:
  assumes "xs \<noteq> []" "\<forall>x \<in> set xs. reads_back_at (k + 2) x"
    and "2 * length (py_join ('','' @ nl) (map (indented_item k) xs)) + 2 \<le> n"
  shows "parse_elems n (py_join ('','' @ nl) (map (indented_item k) xs) @
    CHR 0x0A # replicate j (CHR '' '') @ CHR '']'' # r) = Some (xs, r)"
  using assms
proof (induction xs arbitrary: n)
  case (Cons x xs)
  from Cons.prems(3) obtain m where n: "n = Suc m" by (cases n) auto
  show ?case
  proof (cases xs)
    case Nil
    with Cons.prems n show ?thesis
      by (simp add: indented_item_def parse_value_space reads_back_atD del: dumps_indent.simps)
  next
    case (Cons y ys)
    define J where "J = py_join ('','' @ nl) (map (indented_item k) xs)"
    have j: "py_join ('','' @ nl) (map (indented_item k) (x # xs)) = indented_item k x @ CHR '','' # CHR 0x0A # J"
      by (simp add: J_def Cons nl_eq)
    have m: "2 * length J + 2 \<le> m" "2 * length (dumps_indent (k + 2) x) + 1 \<le> m"
      using Cons.prems(3) n unfolding j by (simp_all add: indented_item_def)
    have "parse_elems m (J @ CHR 0x0A # replicate j (CHR '' '') @ CHR '']'' # r) = Some (xs, r)"
      unfolding J_def by (rule Cons.IH) (use Cons Cons.prems m in \<open>auto simp: J_def\<close>)
    with Cons.prems(2) m(2) show ?thesis
      unfolding j n by (simp add: indented_item_def parse_value_space reads_back_atD del: dumps_indent.simps)
  qed
qed simp

lemma parse_members_blanks [simp]: "parse_members n (replicate k (CHR '' '') @ s) = parse_members n s"
  by (cases n) simp_all

lemma parse_indented_members:
  assumes "kvs \<noteq> []" "\<forall>p \<in> set kvs. reads_back_at (k + 2) (snd p)"
    and "2 * length (py_join ('','' @ nl) (map (indented_member k) kvs)) + 2 \<le> n"
  shows "parse_members n (py_join ('','' @ nl) (map (indented_member k) kvs) @
    CHR 0x0A # replicate j (CHR '' '') @ CHR ''}'' # r) = Some (kvs, r)"
  using assms
proof (induction kvs arbitrary: n)
  case (Cons p kvs)
  obtain key v where p: "p = (key, v)" by (cases p)
  from Cons.prems(3) obtain m where n: "n = Suc m" by (cases n) auto
  show ?case
  proof (cases kvs)
    case Nil
    with Cons.prems n show ?thesis
      by (simp add: p indented_member_def dump_str_def parse_str_escaped parse_value_space reads_back_atD
          del: dumps_indent.simps parse_members.simps(1))
  next
    case (Cons q qs)
    define J where "J = py_join ('','' @ nl) (map (indented_member k) kvs)"
    have j: "py_join ('','' @ nl) (map (indented_member k) (p # kvs)) =
        indented_member k p @ CHR '','' # CHR 0x0A # J"
      by (simp add: J_def Cons nl_eq)
    have m: "2 * length J + 2 \<le> m" "2 * length (dumps_indent (k + 2) v) + 1 \<le> m"
      using Cons.prems(3) n unfolding j by (simp_all add: p indented_member_def)
    have "parse_members m (J @ CHR 0x0A # replicate j (CHR '' '') @ CHR ''}'' # r) = Some (kvs, r)"
      unfolding J_def by (rule Cons.IH) (use Cons Cons.prems m in \<open>auto simp: J_def\<close>)
    with Cons.prems(2) m(2) show ?thesis
      unfolding j n
      by (simp add: p indented_member_def dump_str_def parse_str_escaped parse_value_space reads_back_atD
          del: dumps_indent.simps)
  qed
qed simp

lemma reads_back_at_flat:
  assumes "dumps_indent k v = dumps v" "json_wf v"
  shows "reads_back_at k v"
  using reads_back [OF assms(2)] by (simp only: reads_back_at_def reads_back_def assms(1))

lemma reads_back_at: "json_wf v \<Longrightarrow> reads_back_at k v"
proof (induction v arbitrary: k)
  case (JList xs)
  then have IH: "\<forall>x \<in> set xs. reads_back_at (k + 2) x" by simp
  show ?case
    unfolding reads_back_at_def
  proof (intro allI impI)
    fix n r
    assume len: "2 * length (dumps_indent k (JList xs)) + 1 \<le> n"
    then obtain m where n: "n = Suc m" by (cases n) auto
    show "parse_value n (dumps_indent k (JList xs) @ r) = Some (JList xs, r)"
    proof (cases "xs = []")
      case False
      then obtain x ys where xs: "xs = x # ys" by (cases xs) auto
      obtain c cs where c: "dumps_indent (k + 2) x = c # cs" "\<not> json_ws c" "c \<noteq> CHR '']''"
        by (rule dumps_indent_head [of "k + 2" x])
      then obtain ds where "py_join ('','' @ nl) (map (indented_item k) xs) =
          replicate (k + 2) (CHR '' '') @ c # ds"
        by (cases ys) (auto simp: xs indented_item_def simp del: dumps_indent.simps replicate.simps)
      with c parse_indented_elems [OF False IH, of m k r] len show ?thesis
        unfolding dumps_indent_list [OF False] by (simp add: n del: replicate.simps)
    qed (simp add: n)
  qed
next
  case (JObj kvs)
  then have IH: "\<forall>p \<in> set kvs. reads_back_at (k + 2) (snd p)" by (force simp: snds.simps)
  show ?case
    unfolding reads_back_at_def
  proof (intro allI impI)
    fix n r
    assume len: "2 * length (dumps_indent k (JObj kvs)) + 1 \<le> n"
    then obtain m where n: "n = Suc m" by (cases n) auto
    show "parse_value n (dumps_indent k (JObj kvs) @ r) = Some (JObj kvs, r)"
    proof (cases "kvs = []")
      case False
      then obtain p ps where kvs: "kvs = p # ps" by (cases kvs) auto
      then obtain ds where "py_join ('','' @ nl) (map (indented_member k) kvs) =
          replicate (k + 2) (CHR '' '') @ CHR 0x22 # ds"
        by (cases ps) (auto simp: indented_member_def dump_str_def simp del: dumps_indent.simps replicate.simps)
      moreover have "fold (\<lambda>(k, v). dset k v) kvs [] = kvs"
        using JObj.prems fold_dset_distinct [of "[]" kvs] by simp
      ultimately show ?thesis
        using parse_indented_members [OF False IH, of m k r] len
        unfolding dumps_indent_obj [OF False] by (simp add: n del: replicate.simps)
    qed (simp add: n)
  qed
qed (rule reads_back_at_flat; simp)+

theorem loads_dumps_indent [simp]:
  assumes "json_wf v"
  shows "loads (dumps_indent 0 v) = Inr v"
proof -
  have "parse_value (json_fuel (dumps_indent 0 v)) (dumps_indent 0 v @ []) = Some (v, [])"
    by (rule reads_back_atD [OF reads_back_at [OF assms]]) (simp_all add: json_fuel_def)
  then show ?thesis by (simp only: append_Nil2 loads_def option.case prod.case skip_ws_simps if_True simp_thms)
qed

section \<open>The recursion limit\<close>

text \<open>
  The indenting writer, the reader and the methods that convert nested objects recurse once for each
  level of the containers, and raise a \<^verbatim>\<open>RecursionError\<close> when the interpreter's stack is used up.
  How many levels it has room for depends on the interpreter and on its callers: a parameter.
\<close>

fun json_depth :: "json \<Rightarrow> nat" where
  "json_depth (JList xs) = Suc (foldr max (map json_depth xs) 0)"
| "json_depth (JObj kvs) = Suc (foldr max (map (\<lambda>p. json_depth (snd p)) kvs) 0)"
| "json_depth v = 0"

definition recursion_error :: exn where
  "recursion_error = Exn PyRecursionError ''maximum recursion depth exceeded''"

definition dumps_within :: "nat \<Rightarrow> json \<Rightarrow> exn + string" where
  "dumps_within limit v = (if json_depth v \<le> limit then Inr (dumps_indent 0 v) else Inl recursion_error)"

definition loads_within :: "nat \<Rightarrow> string \<Rightarrow> exn + json" where
  "loads_within limit s =
     (case loads s of
        Inl e \<Rightarrow> Inl e
      | Inr v \<Rightarrow> if json_depth v \<le> limit then Inr v else Inl recursion_error)"

lemma le_foldr_max: "x \<in> set xs \<Longrightarrow> (x :: nat) \<le> foldr max xs 0"
  by (induction xs) auto

lemma json_depth_member: "v \<in> set xs \<Longrightarrow> Suc (json_depth v) \<le> json_depth (JList xs)"
  using le_foldr_max [of "json_depth v" "map json_depth xs"] by simp

lemma json_depth_field: "(k, v) \<in> set kvs \<Longrightarrow> Suc (json_depth v) \<le> json_depth (JObj kvs)"
  using le_foldr_max [of "json_depth v" "map (\<lambda>p. json_depth (snd p)) kvs"] by force

text \<open>A value is written and read back, or not written at all.\<close>

lemma dumps_within_reads_back:
  "json_wf v \<Longrightarrow> (if json_depth v \<le> limit then \<exists>s. dumps_within limit v = Inr s \<and> loads_within limit s = Inr v
     else dumps_within limit v = Inl recursion_error)"
  by (simp add: dumps_within_def loads_within_def)

end
