(* ===== verification/Codecs.thy ===== *)
theory Codecs
  imports Evidence Json_Indent
begin

text \<open>
  Reading and writing the data classes the agents exchange: \<^verbatim>\<open>to_dict\<close>, \<^verbatim>\<open>from_dict\<close>, \<^verbatim>\<open>to_json\<close> and
  \<^verbatim>\<open>from_json\<close> all follow one pattern.  A class does not check its fields, so a field that is
  passed through is a JSON value; enumerations, time stamps and nested objects are decoded.  A
  float is represented by its integral value, as everywhere in JSON texts here.
\<close>

named_theorems codec \<open>decoders undo their encoders\<close>

definition as_dict :: "json \<Rightarrow> exn + json pydict" where
  "as_dict j = (case j of JObj d \<Rightarrow> Inr d | _ \<Rightarrow> Inl (Exn PyAttributeError ''object has no attribute get''))"

text \<open>The constructor of an enumeration looks its argument up among the values.\<close>

definition enum_of_json :: "string \<Rightarrow> ('a \<Rightarrow> string) \<Rightarrow> 'a list \<Rightarrow> json \<Rightarrow> exn + 'a" where
  "enum_of_json cls val xs j =
     (case filter (\<lambda>x. JStr (val x) = j) xs of
        x # _ \<Rightarrow> Inr x
      | [] \<Rightarrow> Inl (Exn PyValueError (''not a valid '' @ cls)))"

definition list_of_json :: "(json \<Rightarrow> exn + 'a) \<Rightarrow> json \<Rightarrow> exn + 'a list" where
  "list_of_json f v = bind_sum (json_iter v) (map_result f)"

text \<open>A missing time stamp is now.\<close>

definition stamp_of_json :: "datetime \<Rightarrow> json pydict \<Rightarrow> string \<Rightarrow> exn + datetime" where
  "stamp_of_json now d k =
     (case map_of d k of
        None \<Rightarrow> fromisoformat (isoformat now)
      | Some (JStr s) \<Rightarrow> fromisoformat s
      | Some _ \<Rightarrow> Inl (Exn PyTypeError ''fromisoformat: argument must be str''))"

lemma as_dict_JObj [codec]: "as_dict (JObj d) = Inr d"
  by (simp add: as_dict_def)

lemma dget_Cons [codec]: "dget ((k, v) # d) k' x = (if k' = k then v else dget d k' x)"
  by (auto simp: dget_def)

lemma list_of_json_map [codec]:
  "(\<And>x. x \<in> set xs \<Longrightarrow> f (g x) = Inr x) \<Longrightarrow> list_of_json f (JList (map g xs)) = Inr xs"
  by (simp add: list_of_json_def json_iter_def map_result_map)

lemma stamp_of_json_isoformat [codec]:
  "map_of d k = Some (JStr (isoformat t)) \<Longrightarrow> valid_datetime t \<Longrightarrow> stamp_of_json now d k = Inr t"
  by (simp add: stamp_of_json_def)

text \<open>The text of a value in a format string; the text of a container is a parameter.\<close>

definition json_text :: "(json \<Rightarrow> string) \<Rightarrow> json \<Rightarrow> string" where
  "json_text S v =
     (case v of
        JStr s \<Rightarrow> s
      | JInt i \<Rightarrow> int_str i
      | JBool b \<Rightarrow> if b then ''True'' else ''False''
      | JNull \<Rightarrow> ''None''
      | _ \<Rightarrow> S v)"

lemma json_text_JStr [simp]: "json_text S (JStr s) = s"
  by (simp add: json_text_def)

text \<open>\<^verbatim>\<open>sep.join(xs)\<close> raises unless all elements are strings.\<close>

definition join_values :: "string \<Rightarrow> json list \<Rightarrow> exn + string" where
  "join_values sep vs =
     (case map_result (\<lambda>v. case v of JStr s \<Rightarrow> Inr s
        | _ \<Rightarrow> Inl (Exn PyTypeError ''sequence item: expected str instance'')) vs of
        Inl e \<Rightarrow> Inl e
      | Inr ss \<Rightarrow> Inr (py_join sep ss))"

lemma join_values_strings [simp]: "join_values sep (map JStr ss) = Inr (py_join sep ss)"
  by (simp add: join_values_def map_result_map)

end
