(* ===== verification/Phases.thy ===== *)
theory Phases
  imports Hitl Worker_Pool Codecs
begin

text \<open>
  What the coordinators of the phases share (\<^verbatim>\<open>src/workers/agents/*/coordinator.py\<close> and the TDD
  orchestrator): the documents they take from the metadata of an agent's result, the texts they
  put into a summary, and the submission of evidence to a human gate.  The agents are values of
  the record of the worker pool.
\<close>

section \<open>Texts of decoded values\<close>

definition json_len :: "json \<Rightarrow> exn + nat" where
  "json_len v =
     (case v of
        JList xs \<Rightarrow> Inr (length xs)
      | JObj d \<Rightarrow> Inr (length d)
      | JStr s \<Rightarrow> Inr (length s)
      | _ \<Rightarrow> Inl (Exn PyTypeError ''object has no len()''))"

text \<open>\<^verbatim>\<open>v[:n]\<close>\<close>

definition json_take :: "nat \<Rightarrow> json \<Rightarrow> exn + json" where
  "json_take n v =
     (case v of
        JList xs \<Rightarrow> Inr (JList (take n xs))
      | JStr s \<Rightarrow> Inr (JStr (take n s))
      | _ \<Rightarrow> Inl (Exn PyTypeError ''object is not subscriptable''))"

text \<open>\<^verbatim>\<open>f"{v:.1f}"\<close>, where an integer also stands for the float of its value.\<close>

definition fixed1 :: "json \<Rightarrow> exn + string" where
  "fixed1 v =
     (case v of
        JInt i \<Rightarrow> Inr (int_str i @ ''.0'')
      | JBool b \<Rightarrow> Inr (if b then ''1.0'' else ''0.0'')
      | JStr s \<Rightarrow> Inl (Exn PyValueError ''Unknown format code f for object of type str'')
      | _ \<Rightarrow> Inl (Exn PyTypeError ''unsupported format string''))"

definition lines_of :: "string list \<Rightarrow> string" where
  "lines_of ls = py_join [CHR 0x0A] ls"

text \<open>The text of \<^verbatim>\<open>Path(p)\<close>\<close>

definition path_root :: "string \<Rightarrow> string" where
  "path_root p =
     (if starts_with p ''//'' \<and> \<not> starts_with p ''///'' then ''//''
      else if starts_with p ''/'' then ''/'' else [])"

definition path_parts :: "string \<Rightarrow> string list" where
  "path_parts p = filter (\<lambda>c. c \<noteq> [] \<and> c \<noteq> ''.'') (split_on (CHR ''/'') p)"

definition path_text :: "string \<Rightarrow> string" where
  "path_text p =
     (if path_root p = [] \<and> path_parts p = [] then ''.'' else path_root p @ py_join ''/'' (path_parts p))"

text \<open>The bundle the design and the deployment coordinator declare.\<close>

record phase_bundle =
  pb_gate_type :: string
  pb_artifacts :: "string list"
  pb_summary :: string
  pb_metadata :: "json pydict"

definition phase_bundle_to_dict :: "phase_bundle \<Rightarrow> json" where
  "phase_bundle_to_dict b =
     JObj [(''gate_type'', JStr (pb_gate_type b)), (''artifacts'', JList (map JStr (pb_artifacts b))),
           (''summary'', JStr (pb_summary b)), (''metadata'', JObj (pb_metadata b))]"

section \<open>Documents in results\<close>

text \<open>\<^verbatim>\<open>x.to_dict() if x else None\<close>\<close>

definition optional_dict :: "('a \<Rightarrow> json) \<Rightarrow> 'a option \<Rightarrow> json" where
  "optional_dict f x = (case x of None \<Rightarrow> JNull | Some y \<Rightarrow> f y)"

text \<open>The document under a key of the metadata; one that cannot be read is logged and counts as
  missing.\<close>

definition extract_document :: "(json \<Rightarrow> exn + 'a) \<Rightarrow> string \<Rightarrow> agent_result \<Rightarrow> 'a option" where
  "extract_document f k r =
     (let v = dget (ar_metadata r) k JNull
      in if \<not> json_truthy v then None
         else (case f v of Inl e \<Rightarrow> None | Inr x \<Rightarrow> Some x))"

text \<open>\<^verbatim>\<open>if x is None or not test(x)\<close>\<close>

definition lacks :: "('a \<Rightarrow> json) \<Rightarrow> 'a option \<Rightarrow> bool" where
  "lacks test x \<longleftrightarrow> (case x of None \<Rightarrow> True | Some d \<Rightarrow> \<not> json_truthy (test d))"

section \<open>Submission to a gate\<close>

definition context_sha :: "agent_context \<Rightarrow> json" where
  "context_sha ctx = dget (ac_metadata ctx) ''git_sha'' (JStr [])"

definition submit_evidence ::
  "('x, 'g) env \<Rightarrow> (asdlc_event \<Rightarrow> ('x, 'g, string) act) \<Rightarrow> agent_context \<Rightarrow> gate_type \<Rightarrow> json \<Rightarrow>
   evidence_item list \<Rightarrow> string \<Rightarrow> string \<Rightarrow> ('x, 'g, string) act" where
  "submit_evidence E pub ctx gate sha items summary agent =
     bindE (create_bundle E (ac_task_id ctx) gate sha items summary) (\<lambda>b.
     bindE (request_gate E pub (ac_task_id ctx) (ac_session_id ctx) gate b agent None) (\<lambda>q.
       ret (gq_request_id q)))"

text \<open>\<^verbatim>\<open>try: ... return request_id except Exception: return None\<close>\<close>

definition or_none :: "('x, 'g, string) act \<Rightarrow> ('x, 'g, string option) act" where
  "or_none m = try_except (bindE m (\<lambda>i. ret (Some i))) any_exception (\<lambda>_. ret None)"

section \<open>Effects\<close>

named_theorems phase_simps \<open>running the steps of a phase\<close>

lemma or_none_total: "\<exists>i. fst (or_none m w) = Inr i"
  by (auto simp: or_none_def try_except_def bindE_def ret_def split: sum.splits)

lemma or_none_Inl: "fst (m w) = Inl e \<Longrightarrow> or_none m w = (Inr None, snd (m w))"
  by (simp add: or_none_def try_except_def bindE_def ret_def)

lemma or_none_Inr: "fst (m w) = Inr i \<Longrightarrow> or_none m w = (Inr (Some i), snd (m w))"
  by (simp add: or_none_def try_except_def bindE_def ret_def)

lemma step_Inr [phase_simps]: "m w = (Inr x, w') \<Longrightarrow> bindE m f w = f x w'"
  by (simp add: bindE_def)

lemma extract_document_dict:
  "dget (ar_metadata r) k JNull = v \<Longrightarrow> json_truthy v \<Longrightarrow> f v = Inr x \<Longrightarrow> extract_document f k r = Some x"
  by (simp add: extract_document_def)

lemma create_bundle_run:
  "create_bundle E tid gate sha items summary w =
     (Inr \<lparr>eb_bundle_id = uuid_at E (uuid_no w), eb_task_id = tid, eb_gate_type = gate, eb_git_sha = sha,
           eb_items = items, eb_created_at = utc_datetime (clock_us w), eb_summary = summary\<rparr>,
      w\<lparr>uuid_no := Suc (uuid_no w)\<rparr>)"
  by (simp add: create_bundle_def ret_def)

text \<open>Evidence that is refused makes the submission raise.\<close>

lemma refused_evidence:
  assumes "\<And>i. validate_evidence_for_gate \<lparr>eb_bundle_id = i, eb_task_id = ac_task_id ctx, eb_gate_type = gate,
      eb_git_sha = sha, eb_items = items, eb_created_at = utc_datetime (clock_us w), eb_summary = summary\<rparr> = Inl e"
  shows "submit_evidence E pub ctx gate sha items summary agent w = (Inl e, w\<lparr>uuid_no := Suc (uuid_no w)\<rparr>)"
  by (simp add: submit_evidence_def bindE_def create_bundle_run request_gate_def assms raise_def)

lemma no_evidence:
  "submit_evidence E pub ctx gate sha [] summary agent w =
     (Inl (Exn EvidenceValidationError (''Evidence bundle has no items for '' @ gate_type_value gate)),
      w\<lparr>uuid_no := Suc (uuid_no w)\<rparr>)"
  by (rule refused_evidence) (simp add: validate_evidence_for_gate_def)

lemma new_event_blank:
  "is_blank sid \<Longrightarrow> bindE (new_event (requested_event sid tid gate rid bid now)) f =
     raise (Exn PyValueError ''session_id is required and cannot be empty'')"
  by (simp add: new_event_def post_init_def requested_event_def blank_event_def bindE_def raise_def lift_result_def
      fun_eq_iff)

text \<open>The request that a submission makes, whatever the evidence.\<close>

definition opened_request :: "('x, 'g) env \<Rightarrow> ('x, 'g) world \<Rightarrow> agent_context \<Rightarrow> gate_type \<Rightarrow> json \<Rightarrow>
    evidence_item list \<Rightarrow> string \<Rightarrow> string \<Rightarrow> gate_request" where
  "opened_request E w ctx gate sha items summary agent =
     \<lparr>gq_request_id = uuid_at E (Suc (uuid_no w)), gq_task_id = ac_task_id ctx,
      gq_session_id = ac_session_id ctx, gq_gate_type = gate, gq_status = GS_PENDING,
      gq_evidence_bundle =
        \<lparr>eb_bundle_id = uuid_at E (uuid_no w), eb_task_id = ac_task_id ctx, eb_gate_type = gate,
         eb_git_sha = sha, eb_items = items, eb_created_at = utc_datetime (clock_us w), eb_summary = summary\<rparr>,
      gq_requested_by = agent, gq_requested_at = utc_datetime (clock_us w), gq_expires_at = None\<rparr>"

lemma opened_dict:
  "request_to_dict (opened_request E w ctx gate sha items summary agent) =
   request_to_dict (opened_request E w ctx gate JNull [] [] agent)"
  by (simp add: request_to_dict_def opened_request_def)

section \<open>What a method returns\<close>

text \<open>\<open>returns P m\<close>: whenever \<open>m\<close> does not raise, its value has \<open>P\<close>.\<close>

definition returns :: "('a \<Rightarrow> bool) \<Rightarrow> ('s, 'a) io \<Rightarrow> bool" where
  "returns P m \<longleftrightarrow> (\<forall>w x. fst (m w) = Inr x \<longrightarrow> P x)"

lemma returns_ret: "P x \<Longrightarrow> returns P (ret x)"
  by (simp add: returns_def ret_def)

lemma returns_bindE: "(\<And>x. returns P (f x)) \<Longrightarrow> returns P (bindE m f)"
  by (auto simp: returns_def bindE_def split: sum.splits)

lemma returns_if: "(c \<Longrightarrow> returns P m) \<Longrightarrow> (\<not> c \<Longrightarrow> returns P n) \<Longrightarrow> returns P (if c then m else n)"
  by simp

lemma guarded_returns:
  assumes "returns P m" "\<And>e. P (h e)"
  shows "\<exists>x w'. try_except m any_exception (\<lambda>e. ret (h e)) w = (Inr x, w') \<and> P x"
proof (cases "fst (m w)")
  case (Inl e)
  then show ?thesis using assms(2) by (auto simp: try_except_def ret_def)
next
  case (Inr x)
  then have "P x" using assms(1) by (auto simp: returns_def)
  then show ?thesis using Inr by (auto simp: try_except_def)
qed

lemma returns_bindE_value:
  assumes "returns Q m" "\<And>x. Q x \<Longrightarrow> returns P (f x)"
  shows "returns P (bindE m f)"
  using assms unfolding returns_def bindE_def by (auto split: sum.splits) blast

lemma returns_thenE: "returns P n \<Longrightarrow> returns P (thenE m n)"
  unfolding thenE_def by (rule returns_bindE)

lemma returns_raise: "returns P (raise e)"
  by (simp add: returns_def raise_def)

lemma opened_pending: "returns (\<lambda>q. gq_status q = GS_PENDING) (request_gate E pub tid sid gate b agent ttl)"
  unfolding request_gate_def Let_def by (intro returns_bindE returns_thenE returns_ret) simp

text \<open>A commit that cannot be written and a session without a name make the request raise.\<close>

lemma request_gate_raises:
  assumes "redis_text (eb_git_sha b) = None \<or> is_blank sid"
  shows "\<exists>e. fst (request_gate E pub tid sid gate b agent ttl w) = Inl e"
proof -
  have "returns (\<lambda>_. False) (request_gate E pub tid sid gate b agent ttl)"
    using assms unfolding request_gate_def Let_def
    by (elim disjE; simp only: unwritable_bundle new_event_blank; intro returns_bindE returns_thenE returns_raise)
  then show ?thesis unfolding returns_def by (metis sum.exhaust)
qed

text \<open>Sufficient evidence: the request is stored; it is listed when the commit can be written, and
  the submission returns its identifier when also the session has a name.\<close>

lemma submit_effect:
  fixes E :: "('x, 'g) env" and w :: "('x, 'g) world"
  assumes "redis_server (redis_of E) kv"
    and "validate_evidence_for_gate (gq_evidence_bundle (opened_request E w ctx gate sha items summary agent)) = Inr True"
  defines "q \<equiv> opened_request E w ctx gate sha items summary agent"
    and "a0 \<equiv> absw kv w"
  shows "yields kv (submit_evidence E (stream_publisher E) ctx gate sha items summary agent) w (\<lambda>r a.
    (if redis_text sha \<noteq> None \<and> \<not> is_blank (ac_session_id ctx) then r = Inr (gq_request_id q) else \<exists>e. r = Inl e) \<and>
    gate_hash E a = (gate_hash E a0)(gq_request_id q := gate_hash E a0 (gq_request_id q) ++ map_of (request_to_dict q)) \<and>
    pending_gates E a =
      (if redis_text sha = None then pending_gates E a0 else (pending_gates E a0)(gq_request_id q \<mapsto> PosInf)))"
proof -
  let ?w = "w\<lparr>uuid_no := Suc (uuid_no w)\<rparr>"
  let ?b = "gq_evidence_bundle q"
  let ?m = "request_gate E (stream_publisher E) (ac_task_id ctx) (ac_session_id ctx) gate ?b agent None"
  have b: "redis_text (eb_git_sha ?b) = redis_text sha" by (simp add: q_def opened_request_def)
  have eq: "submit_evidence E (stream_publisher E) ctx gate sha items summary agent w =
      bindE ?m (\<lambda>q. ret (gq_request_id q)) ?w"
    by (simp add: submit_evidence_def bindE_def create_bundle_run q_def opened_request_def)
  have gates: "gate_hash E (absw kv (snd (?m ?w))) =
      (gate_hash E a0)(gq_request_id q := gate_hash E a0 (gq_request_id q) ++ map_of (request_to_dict q)) \<and>
    pending_gates E (absw kv (snd (?m ?w))) =
      (if redis_text sha = None then pending_gates E a0 else (pending_gates E a0)(gq_request_id q \<mapsto> PosInf))"
    using gate_world.request_gate_stored [OF gate_world_of [OF assms(1)] assms(2), of "ac_task_id ctx" "ac_session_id ctx"
        gate agent None ?w]
    unfolding yields_def b [unfolded q_def]
    by (simp add: q_def a0_def opened_request_def expiry_def expiry_score_def)
  show ?thesis
  proof (cases "redis_text sha \<noteq> None \<and> \<not> is_blank (ac_session_id ctx)")
    case True
    then obtain s where "redis_text (eb_git_sha ?b) = Some s" using b by auto
    from opening_effect [OF assms(1) assms(2) [folded q_def], of "ac_session_id ctx" s, OF _ this,
        where tid = "ac_task_id ctx" and gate = gate and agent = agent and ttl = None and w = ?w] True
    have "fst (?m ?w) = Inr q"
      by (simp add: yields_def q_def opened_request_def expiry_def)
    with gates True show ?thesis by (auto simp: yields_def eq bindE_def ret_def)
  next
    case False
    then have "redis_text (eb_git_sha ?b) = None \<or> is_blank (ac_session_id ctx)" using b by auto
    then obtain e where "fst (?m ?w) = Inl e" using request_gate_raises by blast
    with gates False show ?thesis by (auto simp: yields_def eq bindE_def)
  qed
qed

text \<open>\<open>costs c n m\<close>: \<open>m\<close> raises a count on what the agents act on by at most \<open>n\<close>.\<close>

definition costs :: "('g \<Rightarrow> nat) \<Rightarrow> nat \<Rightarrow> ('x, 'g, 'a) act \<Rightarrow> bool" where
  "costs c n m \<longleftrightarrow> (\<forall>w. c (repo (snd (m w))) \<le> c (repo w) + n)"

lemma costs_mono: "costs c k m \<Longrightarrow> k \<le> n \<Longrightarrow> costs c n m"
  unfolding costs_def by (meson add_left_mono order_trans)

lemma costs_pure: "costs c n (ret x)" "costs c n (raise e)" "costs c n (lift_result r)"
  by (simp_all add: costs_def)

lemma costs_bindE:
  assumes "costs c k m" "\<And>x. costs c n (f x)"
  shows "costs c (k + n) (bindE m f)"
  unfolding costs_def
proof
  fix w
  have m: "c (repo (snd (m w))) \<le> c (repo w) + k" using assms(1) by (simp add: costs_def)
  have f: "c (repo (snd (f x w'))) \<le> c (repo w') + n" for x w' using assms(2) by (simp add: costs_def)
  show "c (repo (snd (bindE m f w))) \<le> c (repo w) + (k + n)"
    using m f [of _ "snd (m w)"] by (auto simp: bindE_def split: sum.split intro: order_trans [OF f])
qed

lemma costs_bindE_0: "costs c 0 m \<Longrightarrow> (\<And>x. costs c n (f x)) \<Longrightarrow> costs c n (bindE m f)"
  using costs_bindE [of c 0 m n f] by simp

lemma costs_thenE_0: "costs c 0 m \<Longrightarrow> costs c n m' \<Longrightarrow> costs c n (thenE m m')"
  unfolding thenE_def by (rule costs_bindE_0)

lemma costs_services:
  "costs c 0 (on_redis m')" "costs c 0 now_utc" "costs c 0 (new_uuid E)" "costs c 0 (tenant_prefixed E base)"
  "costs c 0 (new_event ev)"
  by (simp_all add: costs_def new_event_def)

lemma costs_write_hash: "costs c 0 (write_hash E k d)"
  unfolding write_hash_def by (rule costs_services)

lemma costs_write_values: "costs c 0 (write_values E k d)"
  unfolding write_values_def by (auto intro: costs_write_hash costs_pure split: option.split)

lemma costs_create_bundle: "costs c 0 (create_bundle E tid gate sha items summary)"
  unfolding create_bundle_def by (intro costs_bindE_0 costs_services costs_pure)

lemma costs_request_gate:
  assumes "\<And>e. costs c 0 (pub e)"
  shows "costs c 0 (request_gate E pub tid sid gate b agent ttl)"
  unfolding request_gate_def log_request_def append_audit_def Let_def
  by (intro costs_bindE_0 costs_thenE_0 costs_services costs_write_hash costs_write_values costs_pure assms)

section \<open>Agents for the examples\<close>

definition fixed_agent :: "agent_result \<Rightarrow> ('x, 'g) agent" where
  "fixed_agent r =
     \<lparr>ag_type = ar_agent_type r, ag_execute = (\<lambda>ctx m. ret r), ag_validate = None, ag_cleanup = None\<rparr>"

definition demo_answer :: "string \<Rightarrow> string list \<Rightarrow> json pydict \<Rightarrow> agent_result" where
  "demo_answer atype paths d =
     \<lparr>ar_success = True, ar_agent_type = atype, ar_task_id = ''t1'', ar_error_message = None,
      ar_should_retry = False, ar_artifact_paths = paths, ar_metadata = d\<rparr>"

definition demo_ctx :: "json pydict \<Rightarrow> agent_context" where
  "demo_ctx d =
     \<lparr>ac_session_id = ''s1'', ac_task_id = ''t1'', ac_tenant_id = ''default'', ac_workspace_path = ''/w'',
      ac_metadata = d\<rparr>"

end
