(* ===== verification/Dev_Models.thy ===== *)
theory Dev_Models
  imports Codecs
begin

text \<open>
  The data of the development phase (\<^verbatim>\<open>src/workers/agents/development/models.py\<close>): test suites,
  implementations, test runs, reviews and debug analyses, with their dictionaries and JSON texts.
  The markdown of reviews is in \<open>Dev_Texts\<close>.
\<close>

section \<open>Tests\<close>

datatype test_type = TT_UNIT | TT_INTEGRATION | TT_E2E

fun test_type_value :: "test_type \<Rightarrow> string" where
  "test_type_value TT_UNIT = ''unit''"
| "test_type_value TT_INTEGRATION = ''integration''"
| "test_type_value TT_E2E = ''e2e''"

definition test_type_of :: "json \<Rightarrow> exn + test_type" where
  "test_type_of = enum_of_json ''TestType'' test_type_value [TT_UNIT, TT_INTEGRATION, TT_E2E]"

lemma test_type_of_value [codec]: "test_type_of (JStr (test_type_value v)) = Inr v"
  by (cases v) (simp_all add: test_type_of_def enum_of_json_def)

datatype issue_severity = IS_LOW | IS_MEDIUM | IS_HIGH | IS_CRITICAL

fun issue_severity_value :: "issue_severity \<Rightarrow> string" where
  "issue_severity_value IS_LOW = ''low''"
| "issue_severity_value IS_MEDIUM = ''medium''"
| "issue_severity_value IS_HIGH = ''high''"
| "issue_severity_value IS_CRITICAL = ''critical''"

definition issue_severity_of :: "json \<Rightarrow> exn + issue_severity" where
  "issue_severity_of = enum_of_json ''IssueSeverity'' issue_severity_value [IS_LOW, IS_MEDIUM,
     IS_HIGH, IS_CRITICAL]"

lemma issue_severity_of_value [codec]: "issue_severity_of (JStr (issue_severity_value v)) = Inr v"
  by (cases v) (simp_all add: issue_severity_of_def enum_of_json_def)

record test_case =
  tc_id :: json
  tc_name :: json
  tc_description :: json
  tc_test_type :: test_type
  tc_code :: json
  tc_requirement_ref :: json
  tc_metadata :: json

definition test_case_to_dict :: "test_case \<Rightarrow> json" where
  "test_case_to_dict r = JObj [(''id'', tc_id r), (''name'', tc_name r),
     (''description'', tc_description r),
     (''test_type'', JStr (test_type_value (tc_test_type r))), (''code'', tc_code r),
     (''requirement_ref'', tc_requirement_ref r), (''metadata'', tc_metadata r)]"

definition test_case_of_dict :: "json \<Rightarrow> exn + test_case" where
  "test_case_of_dict j =
     bind_sum (as_dict j) (\<lambda>d.
     bind_sum (test_type_of (dget d ''test_type'' (JStr ''unit''))) (\<lambda>x1.
       Inr \<lparr>tc_id = dget d ''id'' (JStr []), tc_name = dget d ''name'' (JStr []),
            tc_description = dget d ''description'' (JStr []), tc_test_type = x1,
            tc_code = dget d ''code'' (JStr []),
            tc_requirement_ref = dget d ''requirement_ref'' (JStr []),
            tc_metadata = dget d ''metadata'' (JObj [])\<rparr>))"

lemma test_case_reads_back [codec]: "test_case_of_dict (test_case_to_dict r) = Inr r"
  by (simp add: test_case_to_dict_def test_case_of_dict_def codec)

record test_suite =
  ts_task_id :: json
  ts_test_cases :: "test_case list"
  ts_setup_code :: json
  ts_teardown_code :: json
  ts_fixtures :: json
  ts_metadata :: json

definition test_suite_to_dict :: "test_suite \<Rightarrow> json" where
  "test_suite_to_dict r = JObj [(''task_id'', ts_task_id r),
     (''test_cases'', JList (map test_case_to_dict (ts_test_cases r))),
     (''setup_code'', ts_setup_code r), (''teardown_code'', ts_teardown_code r),
     (''fixtures'', ts_fixtures r), (''metadata'', ts_metadata r)]"

definition test_suite_of_dict :: "json \<Rightarrow> exn + test_suite" where
  "test_suite_of_dict j =
     bind_sum (as_dict j) (\<lambda>d.
     bind_sum (list_of_json test_case_of_dict (dget d ''test_cases'' (JList []))) (\<lambda>x1.
       Inr \<lparr>ts_task_id = dget d ''task_id'' (JStr []), ts_test_cases = x1,
            ts_setup_code = dget d ''setup_code'' (JStr []),
            ts_teardown_code = dget d ''teardown_code'' (JStr []),
            ts_fixtures = dget d ''fixtures'' (JList []),
            ts_metadata = dget d ''metadata'' (JObj [])\<rparr>))"

lemma test_suite_reads_back [codec]: "test_suite_of_dict (test_suite_to_dict r) = Inr r"
  by (simp add: test_suite_to_dict_def test_suite_of_dict_def codec)

definition test_suite_to_json :: "test_suite \<Rightarrow> string" where
  "test_suite_to_json r = dumps_indent 0 (test_suite_to_dict r)"

definition test_suite_of_json :: "string \<Rightarrow> exn + test_suite" where
  "test_suite_of_json s = bind_sum (loads s) (test_suite_of_dict)"

section \<open>Implementations\<close>

record code_file =
  cf_path :: json
  cf_content :: json
  cf_language :: json
  cf_metadata :: json

definition code_file_to_dict :: "code_file \<Rightarrow> json" where
  "code_file_to_dict r = JObj [(''path'', cf_path r), (''content'', cf_content r),
     (''language'', cf_language r), (''metadata'', cf_metadata r)]"

definition code_file_of_dict :: "json \<Rightarrow> exn + code_file" where
  "code_file_of_dict j =
     bind_sum (as_dict j) (\<lambda>d.
       Inr \<lparr>cf_path = dget d ''path'' (JStr []), cf_content = dget d ''content'' (JStr []),
            cf_language = dget d ''language'' (JStr ''python''),
            cf_metadata = dget d ''metadata'' (JObj [])\<rparr>)"

lemma code_file_reads_back [codec]: "code_file_of_dict (code_file_to_dict r) = Inr r"
  by (simp add: code_file_to_dict_def code_file_of_dict_def codec)

record implementation =
  im_task_id :: json
  im_files :: "code_file list"
  im_imports :: json
  im_dependencies :: json
  im_metadata :: json

definition implementation_to_dict :: "implementation \<Rightarrow> json" where
  "implementation_to_dict r = JObj [(''task_id'', im_task_id r),
     (''files'', JList (map code_file_to_dict (im_files r))), (''imports'', im_imports r),
     (''dependencies'', im_dependencies r), (''metadata'', im_metadata r)]"

definition implementation_of_dict :: "json \<Rightarrow> exn + implementation" where
  "implementation_of_dict j =
     bind_sum (as_dict j) (\<lambda>d.
     bind_sum (list_of_json code_file_of_dict (dget d ''files'' (JList []))) (\<lambda>x1.
       Inr \<lparr>im_task_id = dget d ''task_id'' (JStr []), im_files = x1,
            im_imports = dget d ''imports'' (JList []),
            im_dependencies = dget d ''dependencies'' (JList []),
            im_metadata = dget d ''metadata'' (JObj [])\<rparr>))"

lemma implementation_reads_back [codec]: "implementation_of_dict (implementation_to_dict r) = Inr r"
  by (simp add: implementation_to_dict_def implementation_of_dict_def codec)

definition implementation_to_json :: "implementation \<Rightarrow> string" where
  "implementation_to_json r = dumps_indent 0 (implementation_to_dict r)"

definition implementation_of_json :: "string \<Rightarrow> exn + implementation" where
  "implementation_of_json s = bind_sum (loads s) (implementation_of_dict)"

section \<open>Test runs\<close>

record test_result =
  tr_test_id :: json
  tr_passed :: json
  tr_output :: json
  tr_error :: json
  tr_duration_ms :: json
  tr_metadata :: json

definition test_result_to_dict :: "test_result \<Rightarrow> json" where
  "test_result_to_dict r = JObj [(''test_id'', tr_test_id r), (''passed'', tr_passed r),
     (''output'', tr_output r), (''error'', tr_error r), (''duration_ms'', tr_duration_ms r),
     (''metadata'', tr_metadata r)]"

definition test_result_of_dict :: "json \<Rightarrow> exn + test_result" where
  "test_result_of_dict j =
     bind_sum (as_dict j) (\<lambda>d.
       Inr \<lparr>tr_test_id = dget d ''test_id'' (JStr []),
            tr_passed = dget d ''passed'' (JBool False), tr_output = dget d ''output'' (JStr []),
            tr_error = dget d ''error'' JNull, tr_duration_ms = dget d ''duration_ms'' (JInt 0),
            tr_metadata = dget d ''metadata'' (JObj [])\<rparr>)"

lemma test_result_reads_back [codec]: "test_result_of_dict (test_result_to_dict r) = Inr r"
  by (simp add: test_result_to_dict_def test_result_of_dict_def codec)

record test_run =
  tn_suite_id :: json
  tn_results :: "test_result list"
  tn_passed :: json
  tn_failed :: json
  tn_coverage :: json
  tn_created_at :: datetime
  tn_metadata :: json

definition test_run_to_dict :: "test_run \<Rightarrow> json" where
  "test_run_to_dict r = JObj [(''suite_id'', tn_suite_id r),
     (''results'', JList (map test_result_to_dict (tn_results r))), (''passed'', tn_passed r),
     (''failed'', tn_failed r), (''coverage'', tn_coverage r),
     (''created_at'', JStr (isoformat (tn_created_at r))), (''metadata'', tn_metadata r)]"

definition test_run_of_dict :: "datetime \<Rightarrow> json \<Rightarrow> exn + test_run" where
  "test_run_of_dict now j =
     bind_sum (as_dict j) (\<lambda>d.
     bind_sum (list_of_json test_result_of_dict (dget d ''results'' (JList []))) (\<lambda>x1.
     bind_sum (stamp_of_json now d ''created_at'') (\<lambda>x2.
       Inr \<lparr>tn_suite_id = dget d ''suite_id'' (JStr []), tn_results = x1,
            tn_passed = dget d ''passed'' (JInt 0), tn_failed = dget d ''failed'' (JInt 0),
            tn_coverage = dget d ''coverage'' (JInt 0), tn_created_at = x2,
            tn_metadata = dget d ''metadata'' (JObj [])\<rparr>)))"

definition test_run_times :: "test_run \<Rightarrow> bool" where
  "test_run_times r \<longleftrightarrow> valid_datetime (tn_created_at r)"

lemma test_run_reads_back [codec]: "test_run_times r \<Longrightarrow> test_run_of_dict now (test_run_to_dict r) = Inr r"
  by (simp add: test_run_to_dict_def test_run_of_dict_def test_run_times_def codec)

section \<open>Reviews\<close>

record review_issue =
  ri_id :: json
  ri_description :: json
  ri_severity :: issue_severity
  ri_file_path :: json
  ri_line_number :: json
  ri_suggestion :: json
  ri_metadata :: json

definition review_issue_to_dict :: "review_issue \<Rightarrow> json" where
  "review_issue_to_dict r = JObj [(''id'', ri_id r), (''description'', ri_description r),
     (''severity'', JStr (issue_severity_value (ri_severity r))), (''file_path'', ri_file_path r),
     (''line_number'', ri_line_number r), (''suggestion'', ri_suggestion r),
     (''metadata'', ri_metadata r)]"

definition review_issue_of_dict :: "json \<Rightarrow> exn + review_issue" where
  "review_issue_of_dict j =
     bind_sum (as_dict j) (\<lambda>d.
     bind_sum (issue_severity_of (dget d ''severity'' (JStr ''medium''))) (\<lambda>x1.
       Inr \<lparr>ri_id = dget d ''id'' (JStr []),
            ri_description = dget d ''description'' (JStr []), ri_severity = x1,
            ri_file_path = dget d ''file_path'' (JStr []),
            ri_line_number = dget d ''line_number'' (JInt 0),
            ri_suggestion = dget d ''suggestion'' (JStr []),
            ri_metadata = dget d ''metadata'' (JObj [])\<rparr>))"

lemma review_issue_reads_back [codec]: "review_issue_of_dict (review_issue_to_dict r) = Inr r"
  by (simp add: review_issue_to_dict_def review_issue_of_dict_def codec)

record code_review =
  cr_implementation_id :: json
  cr_passed :: json
  cr_issues :: "review_issue list"
  cr_suggestions :: json
  cr_security_concerns :: json
  cr_created_at :: datetime
  cr_metadata :: json

definition code_review_to_dict :: "code_review \<Rightarrow> json" where
  "code_review_to_dict r = JObj [(''implementation_id'', cr_implementation_id r),
     (''passed'', cr_passed r), (''issues'', JList (map review_issue_to_dict (cr_issues r))),
     (''suggestions'', cr_suggestions r), (''security_concerns'', cr_security_concerns r),
     (''created_at'', JStr (isoformat (cr_created_at r))), (''metadata'', cr_metadata r)]"

definition code_review_of_dict :: "datetime \<Rightarrow> json \<Rightarrow> exn + code_review" where
  "code_review_of_dict now j =
     bind_sum (as_dict j) (\<lambda>d.
     bind_sum (list_of_json review_issue_of_dict (dget d ''issues'' (JList []))) (\<lambda>x1.
     bind_sum (stamp_of_json now d ''created_at'') (\<lambda>x2.
       Inr \<lparr>cr_implementation_id = dget d ''implementation_id'' (JStr []),
            cr_passed = dget d ''passed'' (JBool False), cr_issues = x1,
            cr_suggestions = dget d ''suggestions'' (JList []),
            cr_security_concerns = dget d ''security_concerns'' (JList []), cr_created_at = x2,
            cr_metadata = dget d ''metadata'' (JObj [])\<rparr>)))"

definition code_review_times :: "code_review \<Rightarrow> bool" where
  "code_review_times r \<longleftrightarrow> valid_datetime (cr_created_at r)"

lemma code_review_reads_back [codec]: "code_review_times r \<Longrightarrow> code_review_of_dict now (code_review_to_dict r) = Inr r"
  by (simp add: code_review_to_dict_def code_review_of_dict_def code_review_times_def codec)

definition code_review_to_json :: "code_review \<Rightarrow> string" where
  "code_review_to_json r = dumps_indent 0 (code_review_to_dict r)"

definition code_review_of_json :: "datetime \<Rightarrow> string \<Rightarrow> exn + code_review" where
  "code_review_of_json now s = bind_sum (loads s) (code_review_of_dict now)"

section \<open>Debug analyses\<close>

record code_change =
  cg_file_path :: json
  cg_original_code :: json
  cg_new_code :: json
  cg_description :: json
  cg_line_start :: json
  cg_line_end :: json
  cg_metadata :: json

definition code_change_to_dict :: "code_change \<Rightarrow> json" where
  "code_change_to_dict r = JObj [(''file_path'', cg_file_path r),
     (''original_code'', cg_original_code r), (''new_code'', cg_new_code r),
     (''description'', cg_description r), (''line_start'', cg_line_start r),
     (''line_end'', cg_line_end r), (''metadata'', cg_metadata r)]"

definition code_change_of_dict :: "json \<Rightarrow> exn + code_change" where
  "code_change_of_dict j =
     bind_sum (as_dict j) (\<lambda>d.
       Inr \<lparr>cg_file_path = dget d ''file_path'' (JStr []),
            cg_original_code = dget d ''original_code'' (JStr []),
            cg_new_code = dget d ''new_code'' (JStr []),
            cg_description = dget d ''description'' (JStr []),
            cg_line_start = dget d ''line_start'' (JInt 0),
            cg_line_end = dget d ''line_end'' (JInt 0),
            cg_metadata = dget d ''metadata'' (JObj [])\<rparr>)"

lemma code_change_reads_back [codec]: "code_change_of_dict (code_change_to_dict r) = Inr r"
  by (simp add: code_change_to_dict_def code_change_of_dict_def codec)

record debug_analysis =
  da_failure_id :: json
  da_root_cause :: json
  da_fix_suggestion :: json
  da_code_changes :: "code_change list"
  da_created_at :: datetime
  da_metadata :: json

definition debug_analysis_to_dict :: "debug_analysis \<Rightarrow> json" where
  "debug_analysis_to_dict r = JObj [(''failure_id'', da_failure_id r),
     (''root_cause'', da_root_cause r), (''fix_suggestion'', da_fix_suggestion r),
     (''code_changes'', JList (map code_change_to_dict (da_code_changes r))),
     (''created_at'', JStr (isoformat (da_created_at r))), (''metadata'', da_metadata r)]"

definition debug_analysis_of_dict :: "datetime \<Rightarrow> json \<Rightarrow> exn + debug_analysis" where
  "debug_analysis_of_dict now j =
     bind_sum (as_dict j) (\<lambda>d.
     bind_sum (list_of_json code_change_of_dict (dget d ''code_changes'' (JList []))) (\<lambda>x1.
     bind_sum (stamp_of_json now d ''created_at'') (\<lambda>x2.
       Inr \<lparr>da_failure_id = dget d ''failure_id'' (JStr []),
            da_root_cause = dget d ''root_cause'' (JStr []),
            da_fix_suggestion = dget d ''fix_suggestion'' (JStr []), da_code_changes = x1,
            da_created_at = x2, da_metadata = dget d ''metadata'' (JObj [])\<rparr>)))"

definition debug_analysis_times :: "debug_analysis \<Rightarrow> bool" where
  "debug_analysis_times r \<longleftrightarrow> valid_datetime (da_created_at r)"

lemma debug_analysis_reads_back [codec]: "debug_analysis_times r \<Longrightarrow> debug_analysis_of_dict now (debug_analysis_to_dict r) = Inr r"
  by (simp add: debug_analysis_to_dict_def debug_analysis_of_dict_def debug_analysis_times_def codec)

definition debug_analysis_to_json :: "debug_analysis \<Rightarrow> string" where
  "debug_analysis_to_json r = dumps_indent 0 (debug_analysis_to_dict r)"

definition debug_analysis_of_json :: "datetime \<Rightarrow> string \<Rightarrow> exn + debug_analysis" where
  "debug_analysis_of_json now s = bind_sum (loads s) (debug_analysis_of_dict now)"


end
