(* ===== verification/Validation_Models.thy ===== *)
theory Validation_Models
  imports Dev_Models
begin

text \<open>
  The data of the validation phase (\<^verbatim>\<open>src/workers/agents/validation/models.py\<close>): reports of the
  validation and of the security agent.  Their markdown is with the agents.
\<close>

datatype check_category = CC_FUNCTIONAL | CC_PERFORMANCE | CC_COMPATIBILITY

fun check_category_value :: "check_category \<Rightarrow> string" where
  "check_category_value CC_FUNCTIONAL = ''functional''"
| "check_category_value CC_PERFORMANCE = ''performance''"
| "check_category_value CC_COMPATIBILITY = ''compatibility''"

definition check_category_of :: "json \<Rightarrow> exn + check_category" where
  "check_category_of = enum_of_json ''CheckCategory'' check_category_value [CC_FUNCTIONAL,
     CC_PERFORMANCE, CC_COMPATIBILITY]"

lemma check_category_of_value [codec]: "check_category_of (JStr (check_category_value v)) = Inr v"
  by (cases v) (simp_all add: check_category_of_def enum_of_json_def)

datatype security_severity = SV_CRITICAL | SV_HIGH | SV_MEDIUM | SV_LOW | SV_INFO

fun security_severity_value :: "security_severity \<Rightarrow> string" where
  "security_severity_value SV_CRITICAL = ''critical''"
| "security_severity_value SV_HIGH = ''high''"
| "security_severity_value SV_MEDIUM = ''medium''"
| "security_severity_value SV_LOW = ''low''"
| "security_severity_value SV_INFO = ''info''"

definition security_severity_of :: "json \<Rightarrow> exn + security_severity" where
  "security_severity_of = enum_of_json ''Severity'' security_severity_value [SV_CRITICAL,
     SV_HIGH, SV_MEDIUM, SV_LOW, SV_INFO]"

lemma security_severity_of_value [codec]: "security_severity_of (JStr (security_severity_value v)) = Inr v"
  by (cases v) (simp_all add: security_severity_of_def enum_of_json_def)

datatype security_category = SG_INJECTION | SG_XSS | SG_SECRETS | SG_AUTH | SG_CRYPTO |
    SG_CONFIGURATION | SG_OTHER

fun security_category_value :: "security_category \<Rightarrow> string" where
  "security_category_value SG_INJECTION = ''injection''"
| "security_category_value SG_XSS = ''xss''"
| "security_category_value SG_SECRETS = ''secrets''"
| "security_category_value SG_AUTH = ''auth''"
| "security_category_value SG_CRYPTO = ''crypto''"
| "security_category_value SG_CONFIGURATION = ''configuration''"
| "security_category_value SG_OTHER = ''other''"

definition security_category_of :: "json \<Rightarrow> exn + security_category" where
  "security_category_of = enum_of_json ''SecurityCategory'' security_category_value
     [SG_INJECTION, SG_XSS, SG_SECRETS, SG_AUTH, SG_CRYPTO, SG_CONFIGURATION, SG_OTHER]"

lemma security_category_of_value [codec]: "security_category_of (JStr (security_category_value v)) = Inr v"
  by (cases v) (simp_all add: security_category_of_def enum_of_json_def)

record validation_check =
  vc_name :: json
  vc_category :: check_category
  vc_passed :: json
  vc_details :: json
  vc_evidence :: json

definition validation_check_to_dict :: "validation_check \<Rightarrow> json" where
  "validation_check_to_dict r = JObj [(''name'', vc_name r),
     (''category'', JStr (check_category_value (vc_category r))), (''passed'', vc_passed r),
     (''details'', vc_details r), (''evidence'', vc_evidence r)]"

definition validation_check_of_dict :: "json \<Rightarrow> exn + validation_check" where
  "validation_check_of_dict j =
     bind_sum (as_dict j) (\<lambda>d.
     bind_sum (check_category_of (dget d ''category'' (JStr ''functional''))) (\<lambda>x1.
       Inr \<lparr>vc_name = dget d ''name'' (JStr []), vc_category = x1,
            vc_passed = dget d ''passed'' (JBool False),
            vc_details = dget d ''details'' (JStr []),
            vc_evidence = dget d ''evidence'' JNull\<rparr>))"

lemma validation_check_reads_back [codec]: "validation_check_of_dict (validation_check_to_dict r) = Inr r"
  by (simp add: validation_check_to_dict_def validation_check_of_dict_def codec)

record validation_report =
  vr_feature_id :: json
  vr_checks :: "validation_check list"
  vr_e2e_results :: test_run
  vr_passed :: json
  vr_recommendations :: json

definition validation_report_to_dict :: "validation_report \<Rightarrow> json" where
  "validation_report_to_dict r = JObj [(''feature_id'', vr_feature_id r),
     (''checks'', JList (map validation_check_to_dict (vr_checks r))),
     (''e2e_results'', test_run_to_dict (vr_e2e_results r)), (''passed'', vr_passed r),
     (''recommendations'', vr_recommendations r)]"

definition validation_report_of_dict :: "datetime \<Rightarrow> json \<Rightarrow> exn + validation_report" where
  "validation_report_of_dict now j =
     bind_sum (as_dict j) (\<lambda>d.
     bind_sum (list_of_json validation_check_of_dict (dget d ''checks'' (JList []))) (\<lambda>x1.
     bind_sum (test_run_of_dict now (dget d ''e2e_results'' (JObj []))) (\<lambda>x2.
       Inr \<lparr>vr_feature_id = dget d ''feature_id'' (JStr []), vr_checks = x1,
            vr_e2e_results = x2, vr_passed = dget d ''passed'' (JBool False),
            vr_recommendations = dget d ''recommendations'' (JList [])\<rparr>)))"

definition validation_report_times :: "validation_report \<Rightarrow> bool" where
  "validation_report_times r \<longleftrightarrow> test_run_times (vr_e2e_results r)"

lemma validation_report_reads_back [codec]: "validation_report_times r \<Longrightarrow> validation_report_of_dict now (validation_report_to_dict r) = Inr r"
  by (simp add: validation_report_to_dict_def validation_report_of_dict_def validation_report_times_def codec)

definition validation_report_to_json :: "validation_report \<Rightarrow> string" where
  "validation_report_to_json r = dumps_indent 0 (validation_report_to_dict r)"

definition validation_report_of_json :: "datetime \<Rightarrow> string \<Rightarrow> exn + validation_report" where
  "validation_report_of_json now s = bind_sum (loads s) (validation_report_of_dict now)"

record security_finding =
  sf_id :: json
  sf_severity :: security_severity
  sf_category :: security_category
  sf_location :: json
  sf_description :: json
  sf_remediation :: json

definition security_finding_to_dict :: "security_finding \<Rightarrow> json" where
  "security_finding_to_dict r = JObj [(''id'', sf_id r),
     (''severity'', JStr (security_severity_value (sf_severity r))),
     (''category'', JStr (security_category_value (sf_category r))),
     (''location'', sf_location r), (''description'', sf_description r),
     (''remediation'', sf_remediation r)]"

definition security_finding_of_dict :: "json \<Rightarrow> exn + security_finding" where
  "security_finding_of_dict j =
     bind_sum (as_dict j) (\<lambda>d.
     bind_sum (security_severity_of (dget d ''severity'' (JStr ''info''))) (\<lambda>x1.
     bind_sum (security_category_of (dget d ''category'' (JStr ''other''))) (\<lambda>x2.
       Inr \<lparr>sf_id = dget d ''id'' (JStr []), sf_severity = x1, sf_category = x2,
            sf_location = dget d ''location'' (JStr []),
            sf_description = dget d ''description'' (JStr []),
            sf_remediation = dget d ''remediation'' (JStr [])\<rparr>)))"

lemma security_finding_reads_back [codec]: "security_finding_of_dict (security_finding_to_dict r) = Inr r"
  by (simp add: security_finding_to_dict_def security_finding_of_dict_def codec)

record security_report =
  sr_feature_id :: json
  sr_findings :: "security_finding list"
  sr_passed :: json
  sr_scan_coverage :: json
  sr_compliance_status :: json

definition security_report_to_dict :: "security_report \<Rightarrow> json" where
  "security_report_to_dict r = JObj [(''feature_id'', sr_feature_id r),
     (''findings'', JList (map security_finding_to_dict (sr_findings r))),
     (''passed'', sr_passed r), (''scan_coverage'', sr_scan_coverage r),
     (''compliance_status'', sr_compliance_status r)]"

definition security_report_of_dict :: "json \<Rightarrow> exn + security_report" where
  "security_report_of_dict j =
     bind_sum (as_dict j) (\<lambda>d.
     bind_sum (list_of_json security_finding_of_dict (dget d ''findings'' (JList []))) (\<lambda>x1.
       Inr \<lparr>sr_feature_id = dget d ''feature_id'' (JStr []), sr_findings = x1,
            sr_passed = dget d ''passed'' (JBool False),
            sr_scan_coverage = dget d ''scan_coverage'' (JInt 0),
            sr_compliance_status = dget d ''compliance_status'' (JObj [])\<rparr>))"

lemma security_report_reads_back [codec]: "security_report_of_dict (security_report_to_dict r) = Inr r"
  by (simp add: security_report_to_dict_def security_report_of_dict_def codec)

definition security_report_to_json :: "security_report \<Rightarrow> string" where
  "security_report_to_json r = dumps_indent 0 (security_report_to_dict r)"

definition security_report_of_json :: "string \<Rightarrow> exn + security_report" where
  "security_report_of_json s = bind_sum (loads s) (security_report_of_dict)"


end
