(* ===== verification/Deploy_Models.thy ===== *)
theory Deploy_Models
  imports Codecs
begin

text \<open>
  The data of the deployment phase (\<^verbatim>\<open>src/workers/agents/deployment/models.py\<close>): release manifests,
  deployment plans and monitoring configurations.  Their markdown is in \<open>Deploy_Agents\<close>.
\<close>

datatype deployment_strategy = DS_ROLLING | DS_BLUE_GREEN | DS_CANARY

fun deployment_strategy_value :: "deployment_strategy \<Rightarrow> string" where
  "deployment_strategy_value DS_ROLLING = ''rolling''"
| "deployment_strategy_value DS_BLUE_GREEN = ''blue-green''"
| "deployment_strategy_value DS_CANARY = ''canary''"

definition deployment_strategy_of :: "json \<Rightarrow> exn + deployment_strategy" where
  "deployment_strategy_of = enum_of_json ''DeploymentStrategy'' deployment_strategy_value
     [DS_ROLLING, DS_BLUE_GREEN, DS_CANARY]"

lemma deployment_strategy_of_value [codec]: "deployment_strategy_of (JStr (deployment_strategy_value v)) = Inr v"
  by (cases v) (simp_all add: deployment_strategy_of_def enum_of_json_def)

datatype artifact_type = AT_DOCKER_IMAGE | AT_HELM_CHART | AT_BINARY | AT_CONFIG |
    AT_DOCUMENTATION

fun artifact_type_value :: "artifact_type \<Rightarrow> string" where
  "artifact_type_value AT_DOCKER_IMAGE = ''docker_image''"
| "artifact_type_value AT_HELM_CHART = ''helm_chart''"
| "artifact_type_value AT_BINARY = ''binary''"
| "artifact_type_value AT_CONFIG = ''config''"
| "artifact_type_value AT_DOCUMENTATION = ''documentation''"

definition artifact_type_of :: "json \<Rightarrow> exn + artifact_type" where
  "artifact_type_of = enum_of_json ''ArtifactType'' artifact_type_value [AT_DOCKER_IMAGE,
     AT_HELM_CHART, AT_BINARY, AT_CONFIG, AT_DOCUMENTATION]"

lemma artifact_type_of_value [codec]: "artifact_type_of (JStr (artifact_type_value v)) = Inr v"
  by (cases v) (simp_all add: artifact_type_of_def enum_of_json_def)

record artifact_reference =
  af_name :: json
  af_artifact_type :: artifact_type
  af_location :: json
  af_checksum :: json

definition artifact_reference_to_dict :: "artifact_reference \<Rightarrow> json" where
  "artifact_reference_to_dict r = JObj [(''name'', af_name r),
     (''artifact_type'', JStr (artifact_type_value (af_artifact_type r))),
     (''location'', af_location r), (''checksum'', af_checksum r)]"

definition artifact_reference_of_dict :: "json \<Rightarrow> exn + artifact_reference" where
  "artifact_reference_of_dict j =
     bind_sum (as_dict j) (\<lambda>d.
     bind_sum (artifact_type_of (dget d ''artifact_type'' (JStr ''docker_image''))) (\<lambda>x1.
       Inr \<lparr>af_name = dget d ''name'' (JStr []), af_artifact_type = x1,
            af_location = dget d ''location'' (JStr []),
            af_checksum = dget d ''checksum'' JNull\<rparr>))"

lemma artifact_reference_reads_back [codec]: "artifact_reference_of_dict (artifact_reference_to_dict r) = Inr r"
  by (simp add: artifact_reference_to_dict_def artifact_reference_of_dict_def codec)

record release_manifest =
  rm_version :: json
  rm_features :: json
  rm_changelog :: json
  rm_artifacts :: "artifact_reference list"
  rm_rollback_plan :: json

definition release_manifest_to_dict :: "release_manifest \<Rightarrow> json" where
  "release_manifest_to_dict r = JObj [(''version'', rm_version r), (''features'', rm_features r),
     (''changelog'', rm_changelog r),
     (''artifacts'', JList (map artifact_reference_to_dict (rm_artifacts r))),
     (''rollback_plan'', rm_rollback_plan r)]"

definition release_manifest_of_dict :: "json \<Rightarrow> exn + release_manifest" where
  "release_manifest_of_dict j =
     bind_sum (as_dict j) (\<lambda>d.
     bind_sum (list_of_json artifact_reference_of_dict (dget d ''artifacts'' (JList []))) (\<lambda>x1.
       Inr \<lparr>rm_version = dget d ''version'' (JStr []),
            rm_features = dget d ''features'' (JList []),
            rm_changelog = dget d ''changelog'' (JStr []), rm_artifacts = x1,
            rm_rollback_plan = dget d ''rollback_plan'' (JStr [])\<rparr>))"

lemma release_manifest_reads_back [codec]: "release_manifest_of_dict (release_manifest_to_dict r) = Inr r"
  by (simp add: release_manifest_to_dict_def release_manifest_of_dict_def codec)

definition release_manifest_to_json :: "release_manifest \<Rightarrow> string" where
  "release_manifest_to_json r = dumps_indent 0 (release_manifest_to_dict r)"

definition release_manifest_of_json :: "string \<Rightarrow> exn + release_manifest" where
  "release_manifest_of_json s = bind_sum (loads s) (release_manifest_of_dict)"

datatype step_type = ST_PREPARE | ST_DEPLOY | ST_VERIFY | ST_PROMOTE | ST_CLEANUP

fun step_type_value :: "step_type \<Rightarrow> string" where
  "step_type_value ST_PREPARE = ''prepare''"
| "step_type_value ST_DEPLOY = ''deploy''"
| "step_type_value ST_VERIFY = ''verify''"
| "step_type_value ST_PROMOTE = ''promote''"
| "step_type_value ST_CLEANUP = ''cleanup''"

definition step_type_of :: "json \<Rightarrow> exn + step_type" where
  "step_type_of = enum_of_json ''StepType'' step_type_value [ST_PREPARE, ST_DEPLOY, ST_VERIFY,
     ST_PROMOTE, ST_CLEANUP]"

lemma step_type_of_value [codec]: "step_type_of (JStr (step_type_value v)) = Inr v"
  by (cases v) (simp_all add: step_type_of_def enum_of_json_def)

record deployment_step =
  ds_order :: json
  ds_name :: json
  ds_step_type :: step_type
  ds_command :: json
  ds_timeout_seconds :: json
  ds_rollback_command :: json

definition deployment_step_to_dict :: "deployment_step \<Rightarrow> json" where
  "deployment_step_to_dict r = JObj [(''order'', ds_order r), (''name'', ds_name r),
     (''step_type'', JStr (step_type_value (ds_step_type r))), (''command'', ds_command r),
     (''timeout_seconds'', ds_timeout_seconds r), (''rollback_command'', ds_rollback_command r)]"

definition deployment_step_of_dict :: "json \<Rightarrow> exn + deployment_step" where
  "deployment_step_of_dict j =
     bind_sum (as_dict j) (\<lambda>d.
     bind_sum (step_type_of (dget d ''step_type'' (JStr ''deploy''))) (\<lambda>x1.
       Inr \<lparr>ds_order = dget d ''order'' (JInt 0), ds_name = dget d ''name'' (JStr []),
            ds_step_type = x1, ds_command = dget d ''command'' (JStr []),
            ds_timeout_seconds = dget d ''timeout_seconds'' (JInt 300),
            ds_rollback_command = dget d ''rollback_command'' JNull\<rparr>))"

lemma deployment_step_reads_back [codec]: "deployment_step_of_dict (deployment_step_to_dict r) = Inr r"
  by (simp add: deployment_step_to_dict_def deployment_step_of_dict_def codec)

datatype health_check_type = HC_HTTP | HC_TCP | HC_COMMAND | HC_GRPC

fun health_check_type_value :: "health_check_type \<Rightarrow> string" where
  "health_check_type_value HC_HTTP = ''http''"
| "health_check_type_value HC_TCP = ''tcp''"
| "health_check_type_value HC_COMMAND = ''command''"
| "health_check_type_value HC_GRPC = ''grpc''"

definition health_check_type_of :: "json \<Rightarrow> exn + health_check_type" where
  "health_check_type_of = enum_of_json ''HealthCheckType'' health_check_type_value [HC_HTTP,
     HC_TCP, HC_COMMAND, HC_GRPC]"

lemma health_check_type_of_value [codec]: "health_check_type_of (JStr (health_check_type_value v)) = Inr v"
  by (cases v) (simp_all add: health_check_type_of_def enum_of_json_def)

record plan_health_check =
  hk_name :: json
  hk_check_type :: health_check_type
  hk_target :: json
  hk_interval_seconds :: json
  hk_timeout_seconds :: json
  hk_success_threshold :: json
  hk_failure_threshold :: json

definition plan_health_check_to_dict :: "plan_health_check \<Rightarrow> json" where
  "plan_health_check_to_dict r = JObj [(''name'', hk_name r),
     (''check_type'', JStr (health_check_type_value (hk_check_type r))),
     (''target'', hk_target r), (''interval_seconds'', hk_interval_seconds r),
     (''timeout_seconds'', hk_timeout_seconds r), (''success_threshold'', hk_success_threshold r),
     (''failure_threshold'', hk_failure_threshold r)]"

definition plan_health_check_of_dict :: "json \<Rightarrow> exn + plan_health_check" where
  "plan_health_check_of_dict j =
     bind_sum (as_dict j) (\<lambda>d.
     bind_sum (health_check_type_of (dget d ''check_type'' (JStr ''http''))) (\<lambda>x1.
       Inr \<lparr>hk_name = dget d ''name'' (JStr []), hk_check_type = x1,
            hk_target = dget d ''target'' (JStr []),
            hk_interval_seconds = dget d ''interval_seconds'' (JInt 30),
            hk_timeout_seconds = dget d ''timeout_seconds'' (JInt 5),
            hk_success_threshold = dget d ''success_threshold'' (JInt 1),
            hk_failure_threshold = dget d ''failure_threshold'' (JInt 3)\<rparr>))"

lemma plan_health_check_reads_back [codec]: "plan_health_check_of_dict (plan_health_check_to_dict r) = Inr r"
  by (simp add: plan_health_check_to_dict_def plan_health_check_of_dict_def codec)

record deployment_plan =
  dp_release_version :: json
  dp_target_environment :: json
  dp_strategy :: deployment_strategy
  dp_steps :: "deployment_step list"
  dp_rollback_triggers :: json
  dp_health_checks :: "plan_health_check list"

definition deployment_plan_to_dict :: "deployment_plan \<Rightarrow> json" where
  "deployment_plan_to_dict r = JObj [(''release_version'', dp_release_version r),
     (''target_environment'', dp_target_environment r),
     (''strategy'', JStr (deployment_strategy_value (dp_strategy r))),
     (''steps'', JList (map deployment_step_to_dict (dp_steps r))),
     (''rollback_triggers'', dp_rollback_triggers r),
     (''health_checks'', JList (map plan_health_check_to_dict (dp_health_checks r)))]"

definition deployment_plan_of_dict :: "json \<Rightarrow> exn + deployment_plan" where
  "deployment_plan_of_dict j =
     bind_sum (as_dict j) (\<lambda>d.
     bind_sum (deployment_strategy_of (dget d ''strategy'' (JStr ''rolling''))) (\<lambda>x1.
     bind_sum (list_of_json deployment_step_of_dict (dget d ''steps'' (JList []))) (\<lambda>x2.
     bind_sum (list_of_json plan_health_check_of_dict (dget d ''health_checks'' (JList []))) (\<lambda>x3.
       Inr \<lparr>dp_release_version = dget d ''release_version'' (JStr []),
            dp_target_environment = dget d ''target_environment'' (JStr []), dp_strategy = x1,
            dp_steps = x2, dp_rollback_triggers = dget d ''rollback_triggers'' (JList []),
            dp_health_checks = x3\<rparr>))))"

lemma deployment_plan_reads_back [codec]: "deployment_plan_of_dict (deployment_plan_to_dict r) = Inr r"
  by (simp add: deployment_plan_to_dict_def deployment_plan_of_dict_def codec)

definition deployment_plan_to_json :: "deployment_plan \<Rightarrow> string" where
  "deployment_plan_to_json r = dumps_indent 0 (deployment_plan_to_dict r)"

definition deployment_plan_of_json :: "string \<Rightarrow> exn + deployment_plan" where
  "deployment_plan_of_json s = bind_sum (loads s) (deployment_plan_of_dict)"

datatype metric_type = MT_COUNTER | MT_GAUGE | MT_HISTOGRAM | MT_SUMMARY

fun metric_type_value :: "metric_type \<Rightarrow> string" where
  "metric_type_value MT_COUNTER = ''counter''"
| "metric_type_value MT_GAUGE = ''gauge''"
| "metric_type_value MT_HISTOGRAM = ''histogram''"
| "metric_type_value MT_SUMMARY = ''summary''"

definition metric_type_of :: "json \<Rightarrow> exn + metric_type" where
  "metric_type_of = enum_of_json ''MetricType'' metric_type_value [MT_COUNTER, MT_GAUGE,
     MT_HISTOGRAM, MT_SUMMARY]"

lemma metric_type_of_value [codec]: "metric_type_of (JStr (metric_type_value v)) = Inr v"
  by (cases v) (simp_all add: metric_type_of_def enum_of_json_def)

record metric_definition =
  mx_name :: json
  mx_metric_type :: metric_type
  mx_description :: json
  mx_labels :: json

definition metric_definition_to_dict :: "metric_definition \<Rightarrow> json" where
  "metric_definition_to_dict r = JObj [(''name'', mx_name r),
     (''metric_type'', JStr (metric_type_value (mx_metric_type r))),
     (''description'', mx_description r), (''labels'', mx_labels r)]"

definition metric_definition_of_dict :: "json \<Rightarrow> exn + metric_definition" where
  "metric_definition_of_dict j =
     bind_sum (as_dict j) (\<lambda>d.
     bind_sum (metric_type_of (dget d ''metric_type'' (JStr ''counter''))) (\<lambda>x1.
       Inr \<lparr>mx_name = dget d ''name'' (JStr []), mx_metric_type = x1,
            mx_description = dget d ''description'' (JStr []),
            mx_labels = dget d ''labels'' (JList [])\<rparr>))"

lemma metric_definition_reads_back [codec]: "metric_definition_of_dict (metric_definition_to_dict r) = Inr r"
  by (simp add: metric_definition_to_dict_def metric_definition_of_dict_def codec)

datatype alert_severity = AS_CRITICAL | AS_WARNING | AS_INFO

fun alert_severity_value :: "alert_severity \<Rightarrow> string" where
  "alert_severity_value AS_CRITICAL = ''critical''"
| "alert_severity_value AS_WARNING = ''warning''"
| "alert_severity_value AS_INFO = ''info''"

definition alert_severity_of :: "json \<Rightarrow> exn + alert_severity" where
  "alert_severity_of = enum_of_json ''AlertSeverity'' alert_severity_value [AS_CRITICAL,
     AS_WARNING, AS_INFO]"

lemma alert_severity_of_value [codec]: "alert_severity_of (JStr (alert_severity_value v)) = Inr v"
  by (cases v) (simp_all add: alert_severity_of_def enum_of_json_def)

record alert_rule =
  al_name :: json
  al_condition :: json
  al_severity :: alert_severity
  al_description :: json
  al_runbook_url :: json

definition alert_rule_to_dict :: "alert_rule \<Rightarrow> json" where
  "alert_rule_to_dict r = JObj [(''name'', al_name r), (''condition'', al_condition r),
     (''severity'', JStr (alert_severity_value (al_severity r))),
     (''description'', al_description r), (''runbook_url'', al_runbook_url r)]"

definition alert_rule_of_dict :: "json \<Rightarrow> exn + alert_rule" where
  "alert_rule_of_dict j =
     bind_sum (as_dict j) (\<lambda>d.
     bind_sum (alert_severity_of (dget d ''severity'' (JStr ''warning''))) (\<lambda>x1.
       Inr \<lparr>al_name = dget d ''name'' (JStr []),
            al_condition = dget d ''condition'' (JStr []), al_severity = x1,
            al_description = dget d ''description'' (JStr []),
            al_runbook_url = dget d ''runbook_url'' JNull\<rparr>))"

lemma alert_rule_reads_back [codec]: "alert_rule_of_dict (alert_rule_to_dict r) = Inr r"
  by (simp add: alert_rule_to_dict_def alert_rule_of_dict_def codec)

record dashboard_config =
  dc_name :: json
  dc_title :: json
  dc_panels :: json
  dc_refresh_interval_seconds :: json

definition dashboard_config_to_dict :: "dashboard_config \<Rightarrow> json" where
  "dashboard_config_to_dict r = JObj [(''name'', dc_name r), (''title'', dc_title r),
     (''panels'', dc_panels r), (''refresh_interval_seconds'', dc_refresh_interval_seconds r)]"

definition dashboard_config_of_dict :: "json \<Rightarrow> exn + dashboard_config" where
  "dashboard_config_of_dict j =
     bind_sum (as_dict j) (\<lambda>d.
       Inr \<lparr>dc_name = dget d ''name'' (JStr []), dc_title = dget d ''title'' (JStr []),
            dc_panels = dget d ''panels'' (JList []),
            dc_refresh_interval_seconds = dget d ''refresh_interval_seconds'' (JInt 30)\<rparr>)"

lemma dashboard_config_reads_back [codec]: "dashboard_config_of_dict (dashboard_config_to_dict r) = Inr r"
  by (simp add: dashboard_config_to_dict_def dashboard_config_of_dict_def codec)

record monitoring_config =
  mo_deployment_id :: json
  mo_metrics :: "metric_definition list"
  mo_alerts :: "alert_rule list"
  mo_dashboards :: "dashboard_config list"

definition monitoring_config_to_dict :: "monitoring_config \<Rightarrow> json" where
  "monitoring_config_to_dict r = JObj [(''deployment_id'', mo_deployment_id r),
     (''metrics'', JList (map metric_definition_to_dict (mo_metrics r))),
     (''alerts'', JList (map alert_rule_to_dict (mo_alerts r))),
     (''dashboards'', JList (map dashboard_config_to_dict (mo_dashboards r)))]"

definition monitoring_config_of_dict :: "json \<Rightarrow> exn + monitoring_config" where
  "monitoring_config_of_dict j =
     bind_sum (as_dict j) (\<lambda>d.
     bind_sum (list_of_json metric_definition_of_dict (dget d ''metrics'' (JList []))) (\<lambda>x1.
     bind_sum (list_of_json alert_rule_of_dict (dget d ''alerts'' (JList []))) (\<lambda>x2.
     bind_sum (list_of_json dashboard_config_of_dict (dget d ''dashboards'' (JList []))) (\<lambda>x3.
       Inr \<lparr>mo_deployment_id = dget d ''deployment_id'' (JStr []), mo_metrics = x1,
            mo_alerts = x2, mo_dashboards = x3\<rparr>))))"

lemma monitoring_config_reads_back [codec]: "monitoring_config_of_dict (monitoring_config_to_dict r) = Inr r"
  by (simp add: monitoring_config_to_dict_def monitoring_config_of_dict_def codec)

definition monitoring_config_to_json :: "monitoring_config \<Rightarrow> string" where
  "monitoring_config_to_json r = dumps_indent 0 (monitoring_config_to_dict r)"

definition monitoring_config_of_json :: "string \<Rightarrow> exn + monitoring_config" where
  "monitoring_config_of_json s = bind_sum (loads s) (monitoring_config_of_dict)"


end
