(* ===== verification/Deploy_Phase.thy ===== *)
theory Deploy_Phase
  imports Phases Validation_Models Deploy_Models
begin

text \<open>
  \<^verbatim>\<open>src/workers/agents/deployment/coordinator.py\<close>: the validation phase runs the validation and
  the security agent and asks for HITL-5, the deployment phase runs the release and the
  deployment agent, asks for HITL-6 and runs the monitor agent.  The agents are parameters; the
  gates are those of the dispatcher.
\<close>

section \<open>Results\<close>

record validation_result =
  vd_success :: bool
  vd_validation_report :: "validation_report option"
  vd_security_report :: "security_report option"
  vd_pending_hitl5 :: bool
  vd_hitl5_request_id :: "string option"
  vd_failed_at :: "string option"
  vd_error :: "string option"

definition validation_failed :: "string \<Rightarrow> string \<Rightarrow> validation_result" where
  "validation_failed step err =
     \<lparr>vd_success = False, vd_validation_report = None, vd_security_report = None,
      vd_pending_hitl5 = False, vd_hitl5_request_id = None, vd_failed_at = Some step, vd_error = Some err\<rparr>"

definition validation_pending :: "validation_report \<Rightarrow> security_report \<Rightarrow> string \<Rightarrow> validation_result" where
  "validation_pending v s rid =
     \<lparr>vd_success = True, vd_validation_report = Some v, vd_security_report = Some s,
      vd_pending_hitl5 = True, vd_hitl5_request_id = Some rid, vd_failed_at = None, vd_error = None\<rparr>"

definition validation_succeeded :: "validation_report \<Rightarrow> security_report \<Rightarrow> validation_result" where
  "validation_succeeded v s =
     \<lparr>vd_success = True, vd_validation_report = Some v, vd_security_report = Some s,
      vd_pending_hitl5 = False, vd_hitl5_request_id = None, vd_failed_at = None, vd_error = None\<rparr>"

record deployment_result =
  dd_success :: bool
  dd_release_manifest :: "release_manifest option"
  dd_deployment_plan :: "deployment_plan option"
  dd_monitoring_config :: "monitoring_config option"
  dd_pending_hitl6 :: bool
  dd_hitl6_request_id :: "string option"
  dd_failed_at :: "string option"
  dd_error :: "string option"

definition deployment_failed :: "string \<Rightarrow> string \<Rightarrow> deployment_result" where
  "deployment_failed step err =
     \<lparr>dd_success = False, dd_release_manifest = None, dd_deployment_plan = None, dd_monitoring_config = None,
      dd_pending_hitl6 = False, dd_hitl6_request_id = None, dd_failed_at = Some step, dd_error = Some err\<rparr>"

definition deployment_pending :: "release_manifest \<Rightarrow> deployment_plan \<Rightarrow> string \<Rightarrow> deployment_result" where
  "deployment_pending m p rid =
     \<lparr>dd_success = True, dd_release_manifest = Some m, dd_deployment_plan = Some p, dd_monitoring_config = None,
      dd_pending_hitl6 = True, dd_hitl6_request_id = Some rid, dd_failed_at = None, dd_error = None\<rparr>"

definition deployment_succeeded ::
  "release_manifest \<Rightarrow> deployment_plan \<Rightarrow> monitoring_config option \<Rightarrow> deployment_result" where
  "deployment_succeeded m p c =
     \<lparr>dd_success = True, dd_release_manifest = Some m, dd_deployment_plan = Some p, dd_monitoring_config = c,
      dd_pending_hitl6 = False, dd_hitl6_request_id = None, dd_failed_at = None, dd_error = None\<rparr>"

record rejection_result =
  rj_success :: bool
  rj_rejection_reason :: string
  rj_feedback :: string

section \<open>Summaries\<close>

definition passed_text :: "json \<Rightarrow> string" where
  "passed_text v = (if json_truthy v then ''PASSED'' else ''FAILED'')"

definition is_blocking :: "security_severity \<Rightarrow> bool" where
  "is_blocking s \<longleftrightarrow> s \<in> {SV_CRITICAL, SV_HIGH}"

definition hitl5_summary :: "(json \<Rightarrow> string) \<Rightarrow> validation_report \<Rightarrow> security_report \<Rightarrow> exn + string" where
  "hitl5_summary S v s =
     bind_sum (fixed1 (tn_coverage (vr_e2e_results v))) (\<lambda>cov.
       Inr (lines_of
         [''## Validation & Security Review'',
          [],
          ''**Feature:** '' @ json_text S (vr_feature_id v),
          ''**Validation Status:** '' @ passed_text (vr_passed v),
          ''**Security Status:** '' @ passed_text (sr_passed s),
          [],
          ''### E2E Test Results'',
          ''- Passed: '' @ json_text S (tn_passed (vr_e2e_results v)),
          ''- Failed: '' @ json_text S (tn_failed (vr_e2e_results v)),
          ''- Coverage: '' @ cov @ ''%'',
          [],
          ''### Security Findings'',
          ''- Total: '' @ int_str (int (length (sr_findings s))),
          ''- Blocking: '' @ int_str (int (length (filter (is_blocking \<circ> sf_severity) (sr_findings s))))]))"

definition features_text :: "json \<Rightarrow> exn + string" where
  "features_text v =
     (if json_truthy v then bind_sum (json_iter v) (join_values '', '') else Inr ''N/A'')"

definition hitl6_summary :: "(json \<Rightarrow> string) \<Rightarrow> release_manifest \<Rightarrow> deployment_plan \<Rightarrow> exn + string" where
  "hitl6_summary S m p =
     bind_sum (features_text (rm_features m)) (\<lambda>features.
     bind_sum (json_take 5 (dp_rollback_triggers p)) (\<lambda>first.
     bind_sum (json_iter first) (\<lambda>triggers.
       Inr (lines_of
         ([''## Release & Deployment Review'',
           [],
           ''**Version:** '' @ json_text S (rm_version m),
           ''**Features:** '' @ features,
           ''**Target Environment:** '' @ json_text S (dp_target_environment p),
           ''**Strategy:** '' @ deployment_strategy_value (dp_strategy p),
           [],
           ''### Deployment Steps'',
           ''- Total Steps: '' @ int_str (int (length (dp_steps p))),
           [],
           ''### Health Checks'',
           ''- Total Checks: '' @ int_str (int (length (dp_health_checks p))),
           [],
           ''### Rollback Triggers''] @
          map (\<lambda>t. ''- '' @ json_text S t) triggers)))))"

section \<open>The coordinator\<close>

text \<open>The five agents, the dispatcher, if one is set, by the publisher it was given, and the text
  of a container in a format string.\<close>

record ('x, 'g) deploy_coordinator =
  dco_validation_agent :: "('x, 'g) agent"
  dco_security_agent :: "('x, 'g) agent"
  dco_release_agent :: "('x, 'g) agent"
  dco_deployment_agent :: "('x, 'g) agent"
  dco_monitor_agent :: "('x, 'g) agent"
  dco_hitl_dispatcher :: "(asdlc_event \<Rightarrow> ('x, 'g, string) act) option"
  dco_text :: "json \<Rightarrow> string"

definition feature_of :: "json pydict \<Rightarrow> agent_context \<Rightarrow> json" where
  "feature_of impl ctx = dget impl ''feature_id'' (JStr (ac_task_id ctx))"

definition run_validation_agent ::
  "('x, 'g) deploy_coordinator \<Rightarrow> agent_context \<Rightarrow> json pydict \<Rightarrow> json list \<Rightarrow> ('x, 'g, agent_result) act" where
  "run_validation_agent C ctx impl criteria =
     ag_execute (dco_validation_agent C) ctx
       (JObj [(''implementation'', JObj impl), (''acceptance_criteria'', JList criteria),
              (''feature_id'', feature_of impl ctx)])"

definition run_security_agent ::
  "('x, 'g) deploy_coordinator \<Rightarrow> agent_context \<Rightarrow> json pydict \<Rightarrow> ('x, 'g, agent_result) act" where
  "run_security_agent C ctx impl =
     ag_execute (dco_security_agent C) ctx
       (JObj [(''implementation'', JObj impl), (''feature_id'', feature_of impl ctx)])"

definition run_release_agent ::
  "('x, 'g) deploy_coordinator \<Rightarrow> agent_context \<Rightarrow> validation_report \<Rightarrow> security_report \<Rightarrow> ('x, 'g, agent_result) act" where
  "run_release_agent C ctx v s =
     ag_execute (dco_release_agent C) ctx
       (JObj [(''validation_report'', validation_report_to_dict v), (''security_report'', security_report_to_dict s)])"

definition run_deployment_agent ::
  "('x, 'g) deploy_coordinator \<Rightarrow> agent_context \<Rightarrow> release_manifest \<Rightarrow> string \<Rightarrow> ('x, 'g, agent_result) act" where
  "run_deployment_agent C ctx m target =
     ag_execute (dco_deployment_agent C) ctx
       (JObj [(''release_manifest'', release_manifest_to_dict m), (''target_environment'', JStr target)])"

definition run_monitor_agent ::
  "('x, 'g) deploy_coordinator \<Rightarrow> agent_context \<Rightarrow> deployment_plan \<Rightarrow> ('x, 'g, agent_result) act" where
  "run_monitor_agent C ctx p =
     ag_execute (dco_monitor_agent C) ctx (JObj [(''deployment_plan'', deployment_plan_to_dict p)])"

text \<open>One evidence item for each artifact, typed by a word in its path.\<close>

definition path_item :: "string \<Rightarrow> string \<Rightarrow> string \<Rightarrow> string \<Rightarrow> evidence_item" where
  "path_item word yes no p =
     \<lparr>ei_item_type = JStr (if is_infix word p then yes else no), ei_path = JStr p,
      ei_description = JStr (''Artifact: '' @ p), ei_content_hash = JStr [], ei_metadata = JObj []\<rparr>"

definition hitl5_items :: "string list \<Rightarrow> evidence_item list" where
  "hitl5_items = map (path_item ''validation'' ''integration_tests'' ''security_scan'')"

definition hitl6_items :: "string list \<Rightarrow> evidence_item list" where
  "hitl6_items = map (path_item ''release'' ''release_notes'' ''deployment_plan'')"

definition phase_agent :: string where
  "phase_agent = ''validation_deployment_coordinator''"

definition submit_hitl5 ::
  "('x, 'g) env \<Rightarrow> ('x, 'g) deploy_coordinator \<Rightarrow> agent_context \<Rightarrow> validation_report \<Rightarrow> security_report \<Rightarrow>
   string list \<Rightarrow> ('x, 'g, string option) act" where
  "submit_hitl5 E C ctx v s paths =
     (case dco_hitl_dispatcher C of
        None \<Rightarrow> ret None
      | Some pub \<Rightarrow>
          or_none (bindE (lift_result (hitl5_summary (dco_text C) v s)) (\<lambda>summary.
            submit_evidence E pub ctx HITL_5_VALIDATION (context_sha ctx) (hitl5_items paths) summary phase_agent)))"

definition submit_hitl6 ::
  "('x, 'g) env \<Rightarrow> ('x, 'g) deploy_coordinator \<Rightarrow> agent_context \<Rightarrow> release_manifest \<Rightarrow> deployment_plan \<Rightarrow>
   string list \<Rightarrow> ('x, 'g, string option) act" where
  "submit_hitl6 E C ctx m p paths =
     (case dco_hitl_dispatcher C of
        None \<Rightarrow> ret None
      | Some pub \<Rightarrow>
          or_none (bindE (lift_result (hitl6_summary (dco_text C) m p)) (\<lambda>summary.
            submit_evidence E pub ctx HITL_6_RELEASE (context_sha ctx) (hitl6_items paths) summary phase_agent)))"

section \<open>The validation phase\<close>

text \<open>The step of the gate, after both agents have passed.\<close>

definition validation_gate ::
  "('x, 'g) env \<Rightarrow> ('x, 'g) deploy_coordinator \<Rightarrow> agent_context \<Rightarrow> bool \<Rightarrow> validation_report \<Rightarrow> security_report \<Rightarrow>
   string list \<Rightarrow> ('x, 'g, validation_result) act" where
  "validation_gate E C ctx skip v s paths =
     (if \<not> skip \<and> dco_hitl_dispatcher C \<noteq> None then
        bindE (submit_hitl5 E C ctx v s paths) (\<lambda>rid.
          if truthy rid then ret (validation_pending v s (the rid)) else ret (validation_succeeded v s))
      else ret (validation_succeeded v s))"

definition security_step ::
  "('x, 'g) env \<Rightarrow> ('x, 'g) deploy_coordinator \<Rightarrow> agent_context \<Rightarrow> json pydict \<Rightarrow> bool \<Rightarrow> agent_result \<Rightarrow>
   validation_report \<Rightarrow> ('x, 'g, validation_result) act" where
  "security_step E C ctx impl skip r1 v =
     bindE (run_security_agent C ctx impl) (\<lambda>r2.
       if \<not> ar_success r2 then
         ret (validation_failed ''security'' (or_else (ar_error_message r2) ''Security scan failed''))
       else
         let sr = extract_document security_report_of_dict ''security_report'' r2
         in if lacks sr_passed sr then
              ret (validation_failed ''security'' ''Security scan found blocking findings'')
            else validation_gate E C ctx skip v (the sr) (ar_artifact_paths r1 @ ar_artifact_paths r2))"

definition validation_steps ::
  "('x, 'g) env \<Rightarrow> ('x, 'g) deploy_coordinator \<Rightarrow> agent_context \<Rightarrow> json pydict \<Rightarrow> json list \<Rightarrow> bool \<Rightarrow>
   ('x, 'g, validation_result) act" where
  "validation_steps E C ctx impl criteria skip =
     bindE (run_validation_agent C ctx impl criteria) (\<lambda>r1.
       if \<not> ar_success r1 then
         ret (validation_failed ''validation'' (or_else (ar_error_message r1) ''Validation failed''))
       else
         bindE now_utc (\<lambda>now.
         let vr = extract_document (validation_report_of_dict now) ''validation_report'' r1
         in if lacks vr_passed vr then
              ret (validation_failed ''validation'' ''Validation checks failed'')
            else security_step E C ctx impl skip r1 (the vr)))"

definition run_validation ::
  "('x, 'g) env \<Rightarrow> ('x, 'g) deploy_coordinator \<Rightarrow> agent_context \<Rightarrow> json pydict \<Rightarrow> json list \<Rightarrow> bool \<Rightarrow>
   ('x, 'g, validation_result) act" where
  "run_validation E C ctx impl criteria skip =
     try_except (validation_steps E C ctx impl criteria skip) any_exception
       (\<lambda>e. ret (validation_failed ''validation'' (message_of e)))"

section \<open>The deployment phase\<close>

text \<open>The monitor agent runs last; its failure does not block the deployment.\<close>

definition monitor_step ::
  "('x, 'g) deploy_coordinator \<Rightarrow> agent_context \<Rightarrow> release_manifest \<Rightarrow> deployment_plan \<Rightarrow>
   ('x, 'g, deployment_result) act" where
  "monitor_step C ctx m p =
     bindE (run_monitor_agent C ctx p) (\<lambda>r.
       ret (deployment_succeeded m p
         (if \<not> ar_success r then None
          else extract_document monitoring_config_of_dict ''monitoring_config'' r)))"

definition deployment_gate ::
  "('x, 'g) env \<Rightarrow> ('x, 'g) deploy_coordinator \<Rightarrow> agent_context \<Rightarrow> bool \<Rightarrow> release_manifest \<Rightarrow> deployment_plan \<Rightarrow>
   string list \<Rightarrow> ('x, 'g, deployment_result) act" where
  "deployment_gate E C ctx skip m p paths =
     (if \<not> skip \<and> dco_hitl_dispatcher C \<noteq> None then
        bindE (submit_hitl6 E C ctx m p paths) (\<lambda>rid.
          if truthy rid then ret (deployment_pending m p (the rid)) else monitor_step C ctx m p)
      else monitor_step C ctx m p)"

definition deployment_step_of ::
  "('x, 'g) env \<Rightarrow> ('x, 'g) deploy_coordinator \<Rightarrow> agent_context \<Rightarrow> string \<Rightarrow> bool \<Rightarrow> agent_result \<Rightarrow>
   release_manifest \<Rightarrow> ('x, 'g, deployment_result) act" where
  "deployment_step_of E C ctx target skip r1 m =
     bindE (run_deployment_agent C ctx m target) (\<lambda>r2.
       if \<not> ar_success r2 then
         ret (deployment_failed ''deployment'' (or_else (ar_error_message r2) ''Deployment planning failed''))
       else
         (case extract_document deployment_plan_of_dict ''deployment_plan'' r2 of
            None \<Rightarrow> ret (deployment_failed ''deployment'' ''Failed to generate deployment plan'')
          | Some p \<Rightarrow> deployment_gate E C ctx skip m p (ar_artifact_paths r1 @ ar_artifact_paths r2)))"

definition deployment_steps ::
  "('x, 'g) env \<Rightarrow> ('x, 'g) deploy_coordinator \<Rightarrow> agent_context \<Rightarrow> validation_report \<Rightarrow> security_report \<Rightarrow>
   string \<Rightarrow> bool \<Rightarrow> ('x, 'g, deployment_result) act" where
  "deployment_steps E C ctx v s target skip =
     bindE (run_release_agent C ctx v s) (\<lambda>r1.
       if \<not> ar_success r1 then
         ret (deployment_failed ''release'' (or_else (ar_error_message r1) ''Release generation failed''))
       else
         (case extract_document release_manifest_of_dict ''release_manifest'' r1 of
            None \<Rightarrow> ret (deployment_failed ''release'' ''Failed to generate release manifest'')
          | Some m \<Rightarrow> deployment_step_of E C ctx target skip r1 m))"

text \<open>The data of the approval is not read.\<close>

definition run_deployment ::
  "('x, 'g) env \<Rightarrow> ('x, 'g) deploy_coordinator \<Rightarrow> agent_context \<Rightarrow> json pydict \<Rightarrow> validation_report \<Rightarrow>
   security_report \<Rightarrow> string \<Rightarrow> bool \<Rightarrow> ('x, 'g, deployment_result) act" where
  "run_deployment E C ctx hitl5_approval v s target skip =
     try_except (deployment_steps E C ctx v s target skip) any_exception
       (\<lambda>e. ret (deployment_failed ''deployment'' (message_of e)))"

definition continue_from_hitl6_approval ::
  "('x, 'g) deploy_coordinator \<Rightarrow> agent_context \<Rightarrow> json pydict \<Rightarrow> release_manifest \<Rightarrow> deployment_plan \<Rightarrow>
   ('x, 'g, deployment_result) act" where
  "continue_from_hitl6_approval C ctx hitl6_approval m p =
     try_except (monitor_step C ctx m p) any_exception
       (\<lambda>e. ret (deployment_failed ''monitor'' (message_of e)))"

definition handle_gate_rejection :: "string \<Rightarrow> string \<Rightarrow> rejection_result" where
  "handle_gate_rejection gate feedback =
     \<lparr>rj_success = False, rj_rejection_reason = ''Rejected at '' @ gate, rj_feedback = feedback\<rparr>"

definition deploy_agent_statuses :: "string pydict" where
  "deploy_agent_statuses =
     [(''validation_agent'', ''ready''), (''security_agent'', ''ready''), (''release_agent'', ''ready''),
      (''deployment_agent'', ''ready''), (''monitor_agent'', ''ready'')]"

section \<open>Well-formed results\<close>

text \<open>What a caller may rely on: a result is a success with both documents, or a failure that names
  the step; only a success waits, and then under the identifier of a request.\<close>

definition wf_validation_result :: "validation_result \<Rightarrow> bool" where
  "wf_validation_result r \<longleftrightarrow>
     (if vd_success r then
        (\<exists>v s. vd_validation_report r = Some v \<and> json_truthy (vr_passed v) \<and>
               vd_security_report r = Some s \<and> json_truthy (sr_passed s)) \<and>
        vd_failed_at r = None \<and> vd_error r = None
      else
        vd_validation_report r = None \<and> vd_security_report r = None \<and>
        vd_failed_at r \<in> {Some ''validation'', Some ''security''} \<and> vd_error r \<noteq> None) \<and>
     (if vd_pending_hitl5 r then vd_success r \<and> truthy (vd_hitl5_request_id r) else vd_hitl5_request_id r = None)"

definition wf_deployment_result :: "string set \<Rightarrow> deployment_result \<Rightarrow> bool" where
  "wf_deployment_result steps r \<longleftrightarrow>
     (if dd_success r then
        dd_release_manifest r \<noteq> None \<and> dd_deployment_plan r \<noteq> None \<and> dd_failed_at r = None \<and> dd_error r = None
      else
        dd_release_manifest r = None \<and> dd_deployment_plan r = None \<and>
        dd_failed_at r \<in> Some ` steps \<and> dd_error r \<noteq> None) \<and>
     (if dd_pending_hitl6 r then dd_success r \<and> truthy (dd_hitl6_request_id r) \<and> dd_monitoring_config r = None
      else dd_hitl6_request_id r = None)"

lemma wf_validation_simps [simp]:
  "wf_validation_result (validation_failed step err) \<longleftrightarrow> step = ''validation'' \<or> step = ''security''"
  "wf_validation_result (validation_pending v s rid) \<longleftrightarrow>
     json_truthy (vr_passed v) \<and> json_truthy (sr_passed s) \<and> rid \<noteq> []"
  "wf_validation_result (validation_succeeded v s) \<longleftrightarrow> json_truthy (vr_passed v) \<and> json_truthy (sr_passed s)"
  by (auto simp: wf_validation_result_def validation_failed_def validation_pending_def validation_succeeded_def)

lemma wf_deployment_simps [simp]:
  "wf_deployment_result S (deployment_failed step err) \<longleftrightarrow> step \<in> S"
  "wf_deployment_result S (deployment_pending m p rid) \<longleftrightarrow> rid \<noteq> []"
  "wf_deployment_result S (deployment_succeeded m p c)"
  "\<not> dd_pending_hitl6 (deployment_succeeded m p c)" "\<not> dd_pending_hitl6 (deployment_failed step err)"
  by (auto simp: wf_deployment_result_def deployment_failed_def deployment_pending_def deployment_succeeded_def)

lemma lacks_cases: "\<not> lacks test x \<Longrightarrow> \<exists>d. x = Some d \<and> json_truthy (test d)"
  by (auto simp: lacks_def split: option.splits)

lemma validation_steps_wf: "returns wf_validation_result (validation_steps E C ctx impl criteria skip)"
  unfolding validation_steps_def security_step_def validation_gate_def Let_def
  by (intro returns_bindE returns_if returns_ret)
    (auto dest!: lacks_cases simp: truthy_def split: option.splits)

lemma deployment_steps_wf:
  "returns (wf_deployment_result {''release'', ''deployment''}) (deployment_steps E C ctx v s target skip)"
  unfolding deployment_steps_def deployment_step_of_def deployment_gate_def monitor_step_def
  by (auto intro!: returns_bindE returns_ret simp: truthy_def split: option.splits)

lemma monitor_step_wf: "returns (wf_deployment_result {''monitor''}) (monitor_step C ctx m p)"
  unfolding monitor_step_def by (auto intro!: returns_bindE returns_ret)

text \<open>C37: Whatever the agents and the gates do, the two phases and the continuation never raise, and
  their results are well formed: a successful validation carries two passed reports, a failed one
  names its step, and only a success can wait for a decision, under a non-empty identifier.\<close>

theorem phase_results_well_formed:
  "(\<exists>r w'. run_validation E C ctx impl criteria skip w = (Inr r, w') \<and> wf_validation_result r) \<and>
   (\<exists>r w'. run_deployment E C ctx h5 v s target skip w = (Inr r, w') \<and>
      wf_deployment_result {''release'', ''deployment''} r) \<and>
   (\<exists>r w'. continue_from_hitl6_approval C ctx h6 m p w = (Inr r, w') \<and>
      wf_deployment_result {''monitor''} r \<and> \<not> dd_pending_hitl6 r)"
proof (intro conjI)
  show "\<exists>r w'. run_validation E C ctx impl criteria skip w = (Inr r, w') \<and> wf_validation_result r"
    unfolding run_validation_def by (rule guarded_returns [OF validation_steps_wf]) simp
  show "\<exists>r w'. run_deployment E C ctx h5 v s target skip w = (Inr r, w') \<and>
      wf_deployment_result {''release'', ''deployment''} r"
    unfolding run_deployment_def by (rule guarded_returns [OF deployment_steps_wf]) simp
  have "returns (\<lambda>r. wf_deployment_result {''monitor''} r \<and> \<not> dd_pending_hitl6 r) (monitor_step C ctx m p)"
    unfolding monitor_step_def by (auto intro!: returns_bindE returns_ret)
  from guarded_returns [OF this] show "\<exists>r w'. continue_from_hitl6_approval C ctx h6 m p w = (Inr r, w') \<and>
      wf_deployment_result {''monitor''} r \<and> \<not> dd_pending_hitl6 r"
    unfolding continue_from_hitl6_approval_def by simp
qed

section \<open>The gates of the phases\<close>




lemma hitl6_evidence:
  "paths \<noteq> [] \<Longrightarrow> eb_items b = hitl6_items paths \<Longrightarrow> eb_gate_type b = HITL_6_RELEASE \<Longrightarrow>
   validate_evidence_for_gate b = Inr True"
  by (cases paths) (auto simp: validate_evidence_iff hitl6_items_def path_item_def hashable_def)









end
