(* ===== verification/Regex.thy ===== *)
theory Regex
  imports Prelude
begin

text \<open>
  The part of Python's module \<^verbatim>\<open>re\<close> the agents use: a backtracking matcher.  A state is what has
  been read, reversed, what is left, and the groups; \<open>ends r s\<close> lists the states in which a match of
  \<open>r\<close> can end, the one Python prefers first.
\<close>

datatype re =
    Eps
  | Sym "char \<Rightarrow> bool"
  | Seq re re
  | Alt re re
  | Star re
  | Lazy re
  | Grp nat re
  | Ahead re
  | WordB
  | LineStart
  | LineEnd
  | TextEnd

record re_state =
  rs_read :: string
  rs_left :: string
  rs_groups :: "(nat \<times> string) list"

text \<open>The ends of a repetition, greedy or lazy; an iteration that reads nothing ends it.\<close>

function greedy_ends :: "(re_state \<Rightarrow> re_state list) \<Rightarrow> re_state \<Rightarrow> re_state list" where
  "greedy_ends f s =
     concat (map (\<lambda>t. if length (rs_left t) < length (rs_left s) then greedy_ends f t else []) (f s)) @ [s]"
  by pat_completeness auto
termination
  by (relation "measure (\<lambda>(f, s). length (rs_left s))") auto

function lazy_ends :: "(re_state \<Rightarrow> re_state list) \<Rightarrow> re_state \<Rightarrow> re_state list" where
  "lazy_ends f s =
     s # concat (map (\<lambda>t. if length (rs_left t) < length (rs_left s) then lazy_ends f t else []) (f s))"
  by pat_completeness auto
termination
  by (relation "measure (\<lambda>(f, s). length (rs_left s))") auto

declare greedy_ends.simps [simp del] lazy_ends.simps [simp del]

text \<open>\<^verbatim>\<open>\w\<close>, for characters below 256.\<close>

definition is_word :: "char \<Rightarrow> bool" where
  "is_word c \<longleftrightarrow>
     (let n = code_point c
      in (48 \<le> n \<and> n \<le> 57) \<or> (65 \<le> n \<and> n \<le> 90) \<or> n = 95 \<or> (97 \<le> n \<and> n \<le> 122) \<or>
         n \<in> {170, 178, 179, 181, 185, 186, 188, 189, 190} \<or> (192 \<le> n \<and> n \<noteq> 215 \<and> n \<noteq> 247))"

definition newline :: char where
  "newline = CHR 0x0A"

definition word_at :: "string \<Rightarrow> bool" where
  "word_at s \<longleftrightarrow> (case s of [] \<Rightarrow> False | c # _ \<Rightarrow> is_word c)"

text \<open>A group keeps what it read last.\<close>

primrec ends :: "re \<Rightarrow> re_state \<Rightarrow> re_state list" where
  "ends Eps s = [s]"
| "ends (Sym P) s =
     (case rs_left s of
        [] \<Rightarrow> []
      | c # cs \<Rightarrow> if P c then [s\<lparr>rs_read := c # rs_read s, rs_left := cs\<rparr>] else [])"
| "ends (Seq q r) s = concat (map (ends r) (ends q s))"
| "ends (Alt q r) s = ends q s @ ends r s"
| "ends (Star r) s = greedy_ends (ends r) s"
| "ends (Lazy r) s = lazy_ends (ends r) s"
| "ends (Grp n r) s =
     map (\<lambda>t. t\<lparr>rs_groups := (n, rev (take (length (rs_left s) - length (rs_left t)) (rs_read t))) # rs_groups t\<rparr>)
       (ends r s)"
| "ends (Ahead r) s = (if ends r s = [] then [] else [s])"
| "ends WordB s = (if word_at (rs_read s) = word_at (rs_left s) then [] else [s])"
| "ends LineStart s = (if rs_read s = [] \<or> hd (rs_read s) = newline then [s] else [])"
| "ends LineEnd s = (if rs_left s = [] \<or> hd (rs_left s) = newline then [s] else [])"
| "ends TextEnd s = (if rs_left s = [] then [s] else [])"

text \<open>\<^verbatim>\<open>re.search\<close>: the first position with a match; the states before and after it.\<close>

function search_from :: "re \<Rightarrow> re_state \<Rightarrow> (re_state \<times> re_state) option" where
  "search_from r s =
     (case ends r s of
        t # _ \<Rightarrow> Some (s, t)
      | [] \<Rightarrow>
          (case rs_left s of
             [] \<Rightarrow> None
           | c # cs \<Rightarrow> search_from r (s\<lparr>rs_read := c # rs_read s, rs_left := cs, rs_groups := []\<rparr>)))"
  by pat_completeness auto
termination
  by (relation "measure (\<lambda>(r, s). length (rs_left s))") auto

declare search_from.simps [simp del]

definition start_of :: "string \<Rightarrow> re_state" where
  "start_of s = \<lparr>rs_read = [], rs_left = s, rs_groups = []\<rparr>"

definition re_search :: "re \<Rightarrow> string \<Rightarrow> (re_state \<times> re_state) option" where
  "re_search r s = search_from r (start_of s)"

definition re_found :: "re \<Rightarrow> string \<Rightarrow> bool" where
  "re_found r s \<longleftrightarrow> re_search r s \<noteq> None"

definition group :: "nat \<Rightarrow> re_state \<Rightarrow> string" where
  "group n t = (case map_of (rs_groups t) n of None \<Rightarrow> [] | Some g \<Rightarrow> g)"

text \<open>\<^verbatim>\<open>re.finditer\<close> for a pattern that matches no empty text: the search goes on behind a match.\<close>

function matches_from :: "re \<Rightarrow> re_state \<Rightarrow> re_state list" where
  "matches_from r s =
     (case search_from r s of
        None \<Rightarrow> []
      | Some (_, t) \<Rightarrow>
          t # (if length (rs_left t) < length (rs_left s) then matches_from r (t\<lparr>rs_groups := []\<rparr>) else []))"
  by pat_completeness auto
termination
  by (relation "measure (\<lambda>(r, s). length (rs_left s))") auto

declare matches_from.simps [simp del]

definition re_matches :: "re \<Rightarrow> string \<Rightarrow> re_state list" where
  "re_matches r s = matches_from r (start_of s)"

lemma re_matches_found: "re_matches r s = [] \<longleftrightarrow> \<not> re_found r s"
  by (auto simp: re_matches_def re_found_def re_search_def matches_from.simps [of r "start_of s"] split: option.split)

section \<open>Building blocks\<close>

definition same_letter :: "bool \<Rightarrow> char \<Rightarrow> char \<Rightarrow> bool" where
  "same_letter ci c d \<longleftrightarrow> (if ci then lower_char c = lower_char d else c = d)"

fun lit :: "bool \<Rightarrow> string \<Rightarrow> re" where
  "lit ci [] = Eps"
| "lit ci (c # cs) = Seq (Sym (same_letter ci c)) (lit ci cs)"

fun seqs :: "re list \<Rightarrow> re" where
  "seqs [] = Eps"
| "seqs (r # rs) = Seq r (seqs rs)"

fun alts :: "re list \<Rightarrow> re" where
  "alts [] = Sym (\<lambda>_. False)"
| "alts (r # rs) = Alt r (alts rs)"

definition one_of :: "string \<Rightarrow> re" where
  "one_of s = Sym (\<lambda>c. c \<in> set s)"

definition none_of :: "string \<Rightarrow> re" where
  "none_of s = Sym (\<lambda>c. c \<notin> set s)"

definition dot :: re where
  "dot = Sym (\<lambda>c. c \<noteq> newline)"

definition spaces :: re where
  "spaces = Star (Sym is_space)"

definition plus :: "re \<Rightarrow> re" where
  "plus r = Seq r (Star r)"

definition lazy_plus :: "re \<Rightarrow> re" where
  "lazy_plus r = Seq r (Lazy r)"

definition anything :: re where
  "anything = Sym (\<lambda>_. True)"

definition word_char :: re where
  "word_char = Sym is_word"

definition digits1 :: re where
  "digits1 = plus (Sym is_digit)"

definition opt :: "re \<Rightarrow> re" where
  "opt r = Alt r Eps"

fun times :: "nat \<Rightarrow> re \<Rightarrow> re" where
  "times 0 r = Eps"
| "times (Suc n) r = Seq r (times n r)"

section \<open>What is found\<close>

definition at :: "string \<Rightarrow> string \<Rightarrow> re_state" where
  "at u v = \<lparr>rs_read = rev u, rs_left = v, rs_groups = []\<rparr>"

lemma search_from_at: "search_from r (at u v) \<noteq> None \<longleftrightarrow> (\<exists>x y. v = x @ y \<and> ends r (at (u @ x) y) \<noteq> [])"
proof (induction v arbitrary: u)
  case Nil
  then show ?case by (subst search_from.simps) (auto simp: at_def split: list.split)
next
  case (Cons c v)
  have step: "at u (c # v)\<lparr>rs_read := c # rs_read (at u (c # v)), rs_left := v, rs_groups := []\<rparr> = at (u @ [c]) v"
    by (simp add: at_def)
  show ?case
  proof (cases "ends r (at u (c # v))")
    case Nil
    have "search_from r (at u (c # v)) = search_from r (at (u @ [c]) v)"
      by (subst search_from.simps) (simp add: Nil step [symmetric], simp add: at_def)
    moreover have "(\<exists>x y. c # v = x @ y \<and> ends r (at (u @ x) y) \<noteq> []) \<longleftrightarrow>
        (\<exists>x y. v = x @ y \<and> ends r (at ((u @ [c]) @ x) y) \<noteq> [])"
      using Nil by (auto simp: Cons_eq_append_conv)
    ultimately show ?thesis using Cons.IH [of "u @ [c]"] by simp
  next
    case (Cons t ts)
    then have "search_from r (at u (c # v)) \<noteq> None" by (subst search_from.simps) simp
    moreover have "ends r (at (u @ []) (c # v)) \<noteq> []" using Cons by simp
    ultimately show ?thesis by (metis append_Nil)
  qed
qed

text \<open>A pattern is found exactly when it matches somewhere.\<close>

lemma re_found_iff: "re_found r s \<longleftrightarrow> (\<exists>u v. s = u @ v \<and> ends r (at u v) \<noteq> [])"
  using search_from_at [of r "[]" s] by (simp add: re_found_def re_search_def start_of_def at_def)

lemma ends_lit:
  "ends (lit False p) (at u v) = (if starts_with v p then [at (u @ p) (drop (length p) v)] else [])"
proof (induction p arbitrary: u v)
  case (Cons c p)
  show ?case
  proof (cases v)
    case (Cons d w)
    have "ends (Sym (same_letter False c)) (at u (d # w)) = (if c = d then [at (u @ [d]) w] else [])"
      by (simp add: at_def same_letter_def)
    then show ?thesis using Cons Cons.IH [of "u @ [d]" w] by (auto simp: starts_with_def)
  qed (simp add: at_def starts_with_def)
qed (simp add: starts_with_def)

lemma re_found_lit: "re_found (lit False p) s \<longleftrightarrow> (\<exists>u v. s = u @ p @ v)"
  by (auto simp: re_found_iff ends_lit starts_with_def) (metis append_take_drop_id, metis append_eq_conv_conj)

end
