(* ===== verification/Test_Runner.thy ===== *)
theory Test_Runner
  imports World Regex Dev_Models
begin

text \<open>
  \<^verbatim>\<open>src/workers/agents/development/test_runner.py\<close>: running pytest and reading its output.  The
  process is a parameter; the output is read with regular expressions.  The errors
  of this module are subclasses of \<^verbatim>\<open>Exception\<close> that no handler names, and stand as that.
  The percentage of coverage is a float with an integral value and stands as the integer.
\<close>

section \<open>Running\<close>

record test_runner =
  tq_timeout_seconds :: int

datatype proc_outcome = TimedOut | Exited int string string

definition build_command :: "string \<Rightarrow> bool \<Rightarrow> string option \<Rightarrow> string list option \<Rightarrow> string list" where
  "build_command path with_coverage source extra =
     [''pytest'', ''-v'', path] @
     (if with_coverage then
        ''--cov'' # (case source of None \<Rightarrow> [] | Some s \<Rightarrow> [''--cov='' @ s])
      else []) @
     (case extra of None \<Rightarrow> [] | Some xs \<Rightarrow> xs)"

section \<open>Reading the results\<close>

text \<open>\<^verbatim>\<open>^(.+?)::(\w+)\s+(PASSED|FAILED|ERROR|SKIPPED)\<close>\<close>

definition test_pattern :: re where
  "test_pattern =
     seqs [LineStart, Grp 1 (lazy_plus dot), lit False ''::'', Grp 2 (plus word_char), plus (Sym is_space),
           Grp 3 (alts [lit False ''PASSED'', lit False ''FAILED'', lit False ''ERROR'', lit False ''SKIPPED''])]"

definition find_tests :: "string \<Rightarrow> (string \<times> string) list" where
  "find_tests out = map (\<lambda>t. (group 2 t, group 3 t)) (re_matches test_pattern out)"

text \<open>\<^verbatim>\<open>^TOTAL\s+\d+\s+\d+\s+(\d+)%\<close>\<close>

definition total_pattern :: re where
  "total_pattern =
     seqs [LineStart, lit False ''TOTAL'', plus (Sym is_space), digits1, plus (Sym is_space), digits1,
           plus (Sym is_space), Grp 1 digits1, lit False ''%'']"

text \<open>The texts of the failures: the section of the failures by its blocks, each cut to its error lines
  or to 500 characters, then the lines of the summary.  A later block of a name replaces an earlier
  one.\<close>

definition bar :: "string \<Rightarrow> re" where
  "bar c = plus (lit False c)"

definition failures_pattern :: re where
  "failures_pattern =
     seqs [bar ''='', lit False '' FAILURES '', bar ''='', Grp 1 (lazy_plus anything),
           alts [Seq (bar ''='') (lit False '' short test summary''),
                 seqs [bar ''='', lit False '' '', digits1, lit False '' '', alts [lit False ''failed'', lit False ''passed'']]]]"

definition block_head :: "nat \<Rightarrow> re" where
  "block_head n = seqs [bar ''_'', lit False '' '', Grp n (plus word_char), lit False '' '', bar ''_'']"

definition block_pattern :: re where
  "block_pattern =
     seqs [block_head 1, Grp 2 (lazy_plus anything), Ahead (Alt (Seq (lit False [newline]) (block_head 3)) TextEnd)]"

definition error_line_pattern :: re where
  "error_line_pattern = seqs [LineStart, lit False ''E'', plus (Sym is_space), Grp 1 (plus dot), LineEnd]"

definition summary_pattern :: re where
  "summary_pattern =
     seqs [lit False ''FAILED'', plus (Sym is_space), plus (Sym (Not \<circ> is_space)), lit False ''::'',
           Grp 1 (plus word_char), plus (Sym is_space), lit False ''-'', plus (Sym is_space), Grp 2 (plus dot)]"

definition block_text :: "string \<Rightarrow> string" where
  "block_text b =
     (let errs = map (group 1) (re_matches error_line_pattern b)
      in if errs \<noteq> [] then py_join [newline] errs else take 500 (py_strip b))"

definition extract_failure_details :: "string \<Rightarrow> string pydict" where
  "extract_failure_details out =
     (let blocks = (case re_search failures_pattern out of
                      None \<Rightarrow> []
                    | Some (_, t) \<Rightarrow> map (\<lambda>m. (group 1 m, block_text (group 2 m))) (re_matches block_pattern (group 1 t)))
      in fold (\<lambda>m d. if map_of d (group 1 m) = None then dset (group 1 m) (group 2 m) d else d)
           (re_matches summary_pattern out)
           (fold (\<lambda>(k, v) d. dset k v d) blocks []))"

definition parse_coverage :: "string \<Rightarrow> json" where
  "parse_coverage out =
     (case re_search total_pattern out of
        None \<Rightarrow> JInt 0
      | Some (_, t) \<Rightarrow> JInt (case digits_from 0 (group 1 t) of Some n \<Rightarrow> int n | None \<Rightarrow> 0))"

definition parse_test_results :: "string \<Rightarrow> test_result list" where
  "parse_test_results out =
     map (\<lambda>(name, st).
       \<lparr>tr_test_id = JStr name, tr_passed = JBool (st = ''PASSED''), tr_output = JStr out,
        tr_error = (if st = ''PASSED'' then JNull
                    else case map_of (extract_failure_details out) name of None \<Rightarrow> JNull | Some t \<Rightarrow> JStr t),
        tr_duration_ms = JInt 0, tr_metadata = JObj []\<rparr>)
       (find_tests out)"

definition count_tests :: "(test_result \<Rightarrow> bool) \<Rightarrow> test_result list \<Rightarrow> json" where
  "count_tests P rs = JInt (int (length (filter P rs)))"

definition parse_output ::
  "datetime \<Rightarrow> string \<Rightarrow> string \<Rightarrow> json \<Rightarrow> test_run" where
  "parse_output now out err suite =
     (let rs = parse_test_results out
      in \<lparr>tn_suite_id = suite, tn_results = rs,
          tn_passed = count_tests (json_truthy \<circ> tr_passed) rs,
          tn_failed = count_tests (Not \<circ> json_truthy \<circ> tr_passed) rs,
          tn_coverage = parse_coverage out, tn_created_at = now,
          tn_metadata = JObj [(''stdout'', JStr out), (''stderr'', JStr err)]\<rparr>)"

text \<open>\<^verbatim>\<open>run_tests(test_path, suite_id=...)\<close>, as the development loop calls it.\<close>

definition run_tests ::
  "(string list \<Rightarrow> int \<Rightarrow> ('x, 'g, proc_outcome) act) \<Rightarrow> test_runner \<Rightarrow>
   string \<Rightarrow> bool \<Rightarrow> string option \<Rightarrow> string list option \<Rightarrow> json \<Rightarrow> ('x, 'g, test_run) act" where
  "run_tests exec R path with_coverage source extra suite =
     bindE (exec (build_command path with_coverage source extra) (tq_timeout_seconds R)) (\<lambda>p.
       case p of
         TimedOut \<Rightarrow>
           raise (Exn PyException
             (''Test execution timed out after '' @ int_str (tq_timeout_seconds R) @ '' seconds''))
       | Exited rc out err \<Rightarrow>
           if 2 \<le> rc then
             raise (Exn PyException (''Pytest execution error: '' @
               (if err \<noteq> [] then err else if out \<noteq> [] then out else ''Unknown error'')))
           else
             bindE now_utc (\<lambda>now.
               ret (parse_output now out err (if json_truthy suite then suite else JStr path))))"

definition all_passed :: "test_run \<Rightarrow> bool" where
  "all_passed r \<longleftrightarrow> tn_failed r \<in> {JInt 0, JBool False}"

section \<open>What counts as passed\<close>

lemma parse_output_all_passed:
  "all_passed (parse_output now out err suite) \<longleftrightarrow> (\<forall>(n, st) \<in> set (find_tests out). st = ''PASSED'')"
  by (auto simp: all_passed_def parse_output_def count_tests_def parse_test_results_def filter_empty_conv Let_def)

text \<open>A run counts as passed exactly when no line that the pattern finds has another status; the
  exit code does not decide.  A run with failures none of which the pattern finds, as those of
  parametrised tests, has passed.\<close>

theorem run_passes_by_parsed_lines:
  assumes "exec (build_command path wc source extra) (tq_timeout_seconds R) w = (Inr (Exited rc out err), w')" "rc < 2"
  shows "\<exists>r. run_tests exec R path wc source extra suite w = (Inr r, w') \<and>
    (all_passed r \<longleftrightarrow> (\<forall>(n, st) \<in> set (find_tests out). st = ''PASSED''))"
  using assms by (simp add: run_tests_def bindE_def ret_def parse_output_all_passed)

lemma parametrised_failure_unseen:
  "find_tests ''tests/test_a.py::test_x[1] FAILED'' = []"
  by code_simp

theorem run_passes_by_parsed_lines_witness:
  "\<exists>r. run_tests (\<lambda>cmd t. ret (Exited 1 ''tests/test_a.py::test_x[1] FAILED'' [])) 
      \<lparr>tq_timeout_seconds = 300\<rparr> ''tests'' False None None (JStr ''s'') mem_world = (Inr r, mem_world) \<and> all_passed r"
proof -
  let ?out = "''tests/test_a.py::test_x[1] FAILED''"
  let ?exec = "\<lambda>cmd t. ret (Exited 1 ?out [])"
  have "?exec (build_command ''tests'' False None None) 300 mem_world = (Inr (Exited 1 ?out []), mem_world)"
    by (simp add: ret_def)
  then show ?thesis
    using run_passes_by_parsed_lines [of ?exec "''tests''" False None None "\<lparr>tq_timeout_seconds = 300\<rparr>" mem_world
        1 ?out "[]" mem_world "JStr ''s''"]
    unfolding parametrised_failure_unseen test_runner.select_convs by simp
qed

end
