(* ===== verification/Dev_Texts.thy ===== *)
theory Dev_Texts
  imports Phases Test_Runner
begin

text \<open>
  What goes into and comes out of the development loop: the texts \<^verbatim>\<open>tdd_orchestrator.py\<close> and
  \<^verbatim>\<open>development/models.py\<close> make of suites, implementations, runs and reviews, the results of the
  loop, and the test-writing agent (\<^verbatim>\<open>utest_agent.py\<close>) around the call of its language model.
\<close>

section \<open>Texts\<close>

definition quotes3 :: string where
  "quotes3 = [CHR 0x22, CHR 0x22, CHR 0x22]"

definition join_lines :: "json list \<Rightarrow> exn + string" where
  "join_lines = join_values [newline]"

text \<open>\<^verbatim>\<open>TestSuite.to_python_code\<close>\<close>

definition block_if :: "json \<Rightarrow> json list" where
  "block_if v = (if json_truthy v then [v, JStr []] else [])"

definition suite_code :: "(json \<Rightarrow> string) \<Rightarrow> test_suite \<Rightarrow> exn + string" where
  "suite_code S s =
     bind_sum
       (if json_truthy (ts_fixtures s) then
          bind_sum (bind_sum (json_iter (ts_fixtures s)) (join_values '', ''))
            (\<lambda>t. Inr [JStr (''# Fixtures used: '' @ t), JStr []])
        else Inr []) (\<lambda>fixtures.
     join_lines
       ([JStr (quotes3 @ ''Auto-generated tests for task: '' @ json_text S (ts_task_id s) @ quotes3), JStr []] @
        block_if (ts_setup_code s) @ fixtures @
        concat (map (\<lambda>c. [JStr (''# '' @ json_text S (tc_id c) @ '': '' @ json_text S (tc_description c)),
                          tc_code c, JStr []]) (ts_test_cases s)) @
        block_if (ts_teardown_code s)))"

definition implementation_text :: "(json \<Rightarrow> string) \<Rightarrow> implementation \<Rightarrow> exn + string" where
  "implementation_text S i =
     join_lines (concat (map (\<lambda>f. [JStr (''# File: '' @ json_text S (cf_path f)), cf_content f, JStr []]) (im_files i)))"

definition status_text :: "json \<Rightarrow> string" where
  "status_text v = (if json_truthy v then ''PASSED'' else ''FAILED'')"

text \<open>The text of a coverage, a float, is a parameter.\<close>

definition test_output :: "(json \<Rightarrow> string) \<Rightarrow> (json \<Rightarrow> string) \<Rightarrow> test_run \<Rightarrow> string" where
  "test_output S F r =
     lines_of
       ([''Test Suite: '' @ json_text S (tn_suite_id r),
         ''Passed: '' @ json_text S (tn_passed r),
         ''Failed: '' @ json_text S (tn_failed r),
         ''Coverage: '' @ F (tn_coverage r) @ ''%'',
         [],
         ''Results:''] @
        concat (map (\<lambda>t. (''  '' @ json_text S (tr_test_id t) @ '': '' @ status_text (tr_passed t)) #
            (if json_truthy (tr_error t) then [''    Error: '' @ json_text S (tr_error t)] else []))
          (tn_results r)))"

definition extract_test_errors :: "test_run \<Rightarrow> json list" where
  "extract_test_errors r =
     map tr_error (filter (\<lambda>t. \<not> json_truthy (tr_passed t) \<and> json_truthy (tr_error t)) (tn_results r))"

definition ascii_upper :: "string \<Rightarrow> string" where
  "ascii_upper = map (\<lambda>c. let n = code_point c in if 97 \<le> n \<and> n \<le> 122 then char_of (n - 32) else c)"

definition extract_review_issues :: "(json \<Rightarrow> string) \<Rightarrow> code_review option \<Rightarrow> json list" where
  "extract_review_issues S r =
     (case r of
        None \<Rightarrow> []
      | Some v \<Rightarrow>
          map (\<lambda>i. JStr (ascii_upper (issue_severity_value (ri_severity i)) @ '': '' @ json_text S (ri_description i)))
            (cr_issues v))"

text \<open>\<^verbatim>\<open>CodeReview.to_markdown\<close>; a year has four digits.\<close>

definition bullet_section :: "(json \<Rightarrow> string) \<Rightarrow> string \<Rightarrow> json \<Rightarrow> exn + string list" where
  "bullet_section S title v =
     (if json_truthy v then
        bind_sum (json_iter v) (\<lambda>xs. Inr ([title, []] @ map (\<lambda>x. ''- '' @ json_text S x) xs @ [[]]))
      else Inr [])"

definition issue_lines :: "(json \<Rightarrow> string) \<Rightarrow> review_issue \<Rightarrow> string list" where
  "issue_lines S i =
     [''### '' @ json_text S (ri_id i) @ '': '' @ json_text S (ri_description i),
      [],
      ''**Severity:** '' @ ascii_upper (issue_severity_value (ri_severity i)),
      ''**Location:** '' @ json_text S (ri_file_path i) @ '':'' @ json_text S (ri_line_number i),
      [],
      ''**Suggestion:** '' @ json_text S (ri_suggestion i),
      []]"

definition review_markdown :: "(json \<Rightarrow> string) \<Rightarrow> code_review \<Rightarrow> exn + string" where
  "review_markdown S r =
     bind_sum (bullet_section S ''## Suggestions'' (cr_suggestions r)) (\<lambda>suggestions.
     bind_sum (bullet_section S ''## Security Concerns'' (cr_security_concerns r)) (\<lambda>concerns.
       Inr (lines_of
         ([''# Code Review'',
           [],
           ''**Implementation:** '' @ json_text S (cr_implementation_id r),
           ''**Status:** '' @ status_text (cr_passed r),
           ''**Date:** '' @ take 10 (isoformat (cr_created_at r)),
           []] @
          (if cr_issues r = [] then [] else [''## Issues'', []] @ concat (map (issue_lines S) (cr_issues r))) @
          suggestions @ concerns))))"

text \<open>\<^verbatim>\<open>str(Path(workspace) / "tests")\<close>\<close>

definition tests_path :: "string \<Rightarrow> string" where
  "tests_path p = path_root p @ py_join ''/'' (path_parts p @ [''tests''])"

section \<open>Results\<close>

record development_result =
  dv_success :: bool
  dv_implementation :: "implementation option"
  dv_test_suite :: "test_suite option"
  dv_test_result :: "test_run option"
  dv_review :: "code_review option"
  dv_debug_analysis :: "debug_analysis option"
  dv_error_message :: "string option"
  dv_hitl4_request_id :: "string option"
  dv_retry_count :: int
  dv_metadata :: "json pydict"

definition dev_failed :: "string \<Rightarrow> int \<Rightarrow> development_result" where
  "dev_failed err n =
     \<lparr>dv_success = False, dv_implementation = None, dv_test_suite = None, dv_test_result = None, dv_review = None,
      dv_debug_analysis = None, dv_error_message = Some err, dv_hitl4_request_id = None, dv_retry_count = n,
      dv_metadata = []\<rparr>"

definition dev_succeeded ::
  "implementation \<Rightarrow> test_suite \<Rightarrow> test_run \<Rightarrow> code_review option \<Rightarrow> string option \<Rightarrow> int \<Rightarrow> development_result" where
  "dev_succeeded i s t r rid n =
     \<lparr>dv_success = True, dv_implementation = Some i, dv_test_suite = Some s, dv_test_result = Some t, dv_review = r,
      dv_debug_analysis = None, dv_error_message = None, dv_hitl4_request_id = rid, dv_retry_count = n,
      dv_metadata = []\<rparr>"

definition dev_rejected ::
  "implementation \<Rightarrow> test_suite \<Rightarrow> test_run \<Rightarrow> code_review option \<Rightarrow> string \<Rightarrow> int \<Rightarrow> development_result" where
  "dev_rejected i s t r rid n =
     (dev_succeeded i s t r (Some rid) n)
       \<lparr>dv_success := False,
        dv_metadata := [(''hitl4_status'', JStr ''rejected''), (''hitl4_reason'', JStr ''No reason provided'')]\<rparr>"

definition dev_pending_hitl4 :: "implementation \<Rightarrow> string \<Rightarrow> development_result" where
  "dev_pending_hitl4 i rid =
     \<lparr>dv_success = True, dv_implementation = Some i, dv_test_suite = None, dv_test_result = None, dv_review = None,
      dv_debug_analysis = None, dv_error_message = None, dv_hitl4_request_id = Some rid, dv_retry_count = 0,
      dv_metadata = [(''status'', JStr ''pending_hitl4'')]\<rparr>"

definition dev_result_to_dict :: "development_result \<Rightarrow> json" where
  "dev_result_to_dict r =
     JObj [(''success'', JBool (dv_success r)),
           (''implementation'', optional_dict implementation_to_dict (dv_implementation r)),
           (''test_suite'', optional_dict test_suite_to_dict (dv_test_suite r)),
           (''test_result'', optional_dict test_run_to_dict (dv_test_result r)),
           (''review'', optional_dict code_review_to_dict (dv_review r)),
           (''debug_analysis'', optional_dict debug_analysis_to_dict (dv_debug_analysis r)),
           (''error_message'', optional_dict JStr (dv_error_message r)),
           (''hitl4_request_id'', optional_dict JStr (dv_hitl4_request_id r)),
           (''retry_count'', JInt (dv_retry_count r)), (''metadata'', JObj (dv_metadata r))]"

section \<open>The test-writing agent\<close>

text \<open>Which tests name a criterion, by a search for its number in their reference.\<close>

definition criterion_id :: "nat \<Rightarrow> string" where
  "criterion_id n = (let s = nat_str n in ''AC-'' @ replicate (3 - length s) (CHR ''0'') @ s)"

definition references_criterion :: "nat \<Rightarrow> string \<Rightarrow> bool" where
  "references_criterion n ref \<longleftrightarrow>
     (let r = ascii_upper ref in is_infix (criterion_id n) r \<or> is_infix (''AC-'' @ nat_str n) r)"

definition tests_of_criterion :: "test_suite \<Rightarrow> nat \<Rightarrow> exn + json" where
  "tests_of_criterion s n =
     bind_sum (map_result (\<lambda>c. case tc_requirement_ref c of
          JStr ref \<Rightarrow> Inr (if references_criterion n ref then [tc_id c] else [])
        | _ \<Rightarrow> Inl (Exn PyAttributeError ''object has no attribute upper'')) (ts_test_cases s)) (\<lambda>ids.
       Inr (JList (concat ids)))"

definition criteria_coverage :: "test_suite \<Rightarrow> json \<Rightarrow> exn + json" where
  "criteria_coverage s criteria =
     bind_sum (json_iter criteria) (\<lambda>cs.
     bind_sum (map_result (\<lambda>n. bind_sum (tests_of_criterion s n) (\<lambda>v. Inr (criterion_id n, v))) [1..<Suc (length cs)]) (\<lambda>d.
       Inr (JObj d)))"

text \<open>The agent around its model and its writer: the generation of a suite from a description, the
  criteria and a context, and the writing of a file.\<close>

record ('x, 'g) utest_agent =
  ut_generate :: "json \<Rightarrow> json \<Rightarrow> agent_context \<Rightarrow> ('x, 'g, test_suite option) act"
  ut_write :: "string \<Rightarrow> string \<Rightarrow> string \<Rightarrow> string \<Rightarrow> ('x, 'g, string) act"
  ut_text :: "json \<Rightarrow> string"

definition utest_failed :: "agent_context \<Rightarrow> string \<Rightarrow> bool \<Rightarrow> agent_result" where
  "utest_failed ctx err retry =
     \<lparr>ar_success = False, ar_agent_type = ''utest'', ar_task_id = ac_task_id ctx, ar_error_message = Some err,
      ar_should_retry = retry, ar_artifact_paths = [], ar_metadata = []\<rparr>"

definition utest_write_artifacts ::
  "('x, 'g) utest_agent \<Rightarrow> agent_context \<Rightarrow> test_suite \<Rightarrow> ('x, 'g, string list) act" where
  "utest_write_artifacts U ctx s =
     bindE (ut_write U (ac_session_id ctx) (ac_task_id ctx) (test_suite_to_json s) (ac_task_id ctx @ ''_tests.json'')) (\<lambda>p.
     bindE (lift_result (suite_code (ut_text U) s)) (\<lambda>code.
     bindE (ut_write U (ac_session_id ctx) (ac_task_id ctx) code (''test_'' @ ac_task_id ctx @ ''.py'')) (\<lambda>q.
     ret [p, q])))"

definition utest_generate_and_write ::
  "('x, 'g) utest_agent \<Rightarrow> agent_context \<Rightarrow> json \<Rightarrow> json \<Rightarrow> ('x, 'g, agent_result) act" where
  "utest_generate_and_write U ctx desc criteria =
     bindE (ut_generate U desc criteria ctx) (\<lambda>suite.
       case suite of
         None \<Rightarrow> ret (utest_failed ctx ''Failed to generate test suite from acceptance criteria'' True)
       | Some s \<Rightarrow>
           bindE (utest_write_artifacts U ctx s) (\<lambda>paths.
           bindE (lift_result (criteria_coverage s criteria)) (\<lambda>coverage.
           ret \<lparr>ar_success = True, ar_agent_type = ''utest'', ar_task_id = ac_task_id ctx, ar_error_message = None,
                ar_should_retry = False, ar_artifact_paths = paths,
                ar_metadata = [(''test_count'', JInt (int (length (ts_test_cases s)))), (''fixtures'', ts_fixtures s),
                               (''criteria_coverage'', coverage), (''tdd_phase'', JStr ''red'')]\<rparr>)))"

definition utest_execute ::
  "('x, 'g) utest_agent \<Rightarrow> agent_context \<Rightarrow> json pydict \<Rightarrow> ('x, 'g, agent_result) act" where
  "utest_execute U ctx meta =
     try_except
       (let desc = dget meta ''task_description'' (JStr []); criteria = dget meta ''acceptance_criteria'' (JList [])
        in if \<not> json_truthy desc then
             ret (utest_failed ctx ''No task_description provided in event_metadata'' False)
           else if \<not> json_truthy criteria then
             ret (utest_failed ctx ''No acceptance_criteria provided in event_metadata'' False)
           else utest_generate_and_write U ctx desc criteria)
       any_exception
       (\<lambda>e. ret (utest_failed ctx (message_of e) True))"

definition utest_validate_context :: "agent_context \<Rightarrow> bool" where
  "utest_validate_context ctx \<longleftrightarrow>
     ac_session_id ctx \<noteq> [] \<and> ac_task_id ctx \<noteq> [] \<and> ac_workspace_path ctx \<noteq> []"

text \<open>The agent as a value of the record the orchestrator uses.\<close>

definition utest_as_agent :: "('x, 'g) utest_agent \<Rightarrow> ('x, 'g) agent" where
  "utest_as_agent U =
     \<lparr>ag_type = ''utest'',
      ag_execute = (\<lambda>ctx meta. utest_execute U ctx (case meta of JObj d \<Rightarrow> d | _ \<Rightarrow> [])),
      ag_validate = Some (\<lambda>ctx. ret (utest_validate_context ctx)), ag_cleanup = None\<rparr>"

end
