(* ===== verification/Tdd_Loop.thy ===== *)
theory Tdd_Loop
  imports Dev_Texts
begin

text \<open>
  The development loop, \<^verbatim>\<open>src/workers/agents/development/tdd_orchestrator.py\<close>: tests are generated, then
  code is generated, tested and reviewed until a review passes or the limit of failures is
  reached.  The agents and the pytest process are parameters, the HITL-4 gate is the dispatcher's.
\<close>

section \<open>The orchestrator\<close>

record ('x, 'g) tdd_orchestrator =
  td_utest_agent :: "('x, 'g) agent"
  td_coding_agent :: "('x, 'g) agent"
  td_debugger_agent :: "('x, 'g) agent"
  td_reviewer_agent :: "('x, 'g) agent"
  td_test_runner :: test_runner
  td_exec :: "string list \<Rightarrow> int \<Rightarrow> ('x, 'g, proc_outcome) act"
  td_max_coding_retries :: int
  td_hitl_dispatcher :: "(asdlc_event \<Rightarrow> ('x, 'g, string) act) option"
  td_text :: "json \<Rightarrow> string"
  td_float :: "json \<Rightarrow> string"

text \<open>Here a document that cannot be read is an error.\<close>

definition read_document :: "(json \<Rightarrow> exn + 'a) \<Rightarrow> string \<Rightarrow> agent_result \<Rightarrow> exn + 'a option" where
  "read_document f k r =
     (let v = dget (ar_metadata r) k JNull
      in if \<not> json_truthy v then Inr None else bind_sum (f v) (\<lambda>x. Inr (Some x)))"

definition run_utest_agent ::
  "('x, 'g) tdd_orchestrator \<Rightarrow> agent_context \<Rightarrow> string \<Rightarrow> json list \<Rightarrow> ('x, 'g, agent_result) act" where
  "run_utest_agent T ctx desc criteria =
     ag_execute (td_utest_agent T) ctx
       (JObj [(''task_description'', JStr desc), (''acceptance_criteria'', JList criteria)])"

definition run_coding_agent ::
  "('x, 'g) tdd_orchestrator \<Rightarrow> agent_context \<Rightarrow> string \<Rightarrow> test_suite \<Rightarrow> int \<Rightarrow> string \<Rightarrow> json list \<Rightarrow>
   debug_analysis option \<Rightarrow> ('x, 'g, agent_result) act" where
  "run_coding_agent T ctx desc suite fails prev errs dbg =
     bindE (lift_result (suite_code (td_text T) suite)) (\<lambda>code.
       ag_execute (td_coding_agent T) ctx
         (JObj ([(''task_description'', JStr desc), (''test_code'', JStr code), (''fail_count'', JInt fails)] @
           (if prev = [] then [] else [(''previous_implementation'', JStr prev)]) @
           (if errs = [] then [] else [(''test_errors'', JList errs)]) @
           (case dbg of None \<Rightarrow> [] | Some d \<Rightarrow> [(''debug_analysis'', debug_analysis_to_dict d)]))))"

definition run_tdd_tests ::
  "('x, 'g) tdd_orchestrator \<Rightarrow> agent_context \<Rightarrow> test_suite \<Rightarrow> ('x, 'g, test_run) act" where
  "run_tdd_tests T ctx suite =
     run_tests (td_exec T) (td_test_runner T) (tests_path (ac_workspace_path ctx)) False None None
       (ts_task_id suite)"

definition run_reviewer_agent ::
  "('x, 'g) tdd_orchestrator \<Rightarrow> agent_context \<Rightarrow> implementation \<Rightarrow> test_suite \<Rightarrow> test_run \<Rightarrow>
   ('x, 'g, agent_result) act" where
  "run_reviewer_agent T ctx i suite run =
     bindE (lift_result (implementation_text (td_text T) i)) (\<lambda>itext.
     bindE (lift_result (suite_code (td_text T) suite)) (\<lambda>code.
       ag_execute (td_reviewer_agent T) ctx
         (JObj [(''implementation'', JStr itext), (''test_suite'', JStr code),
                (''test_results'', JStr (test_output (td_text T) (td_float T) run))])))"

definition run_debugger_agent ::
  "('x, 'g) tdd_orchestrator \<Rightarrow> agent_context \<Rightarrow> test_suite \<Rightarrow> test_run \<Rightarrow> string \<Rightarrow> ('x, 'g, agent_result) act" where
  "run_debugger_agent T ctx suite run prev =
     bindE (lift_result (suite_code (td_text T) suite)) (\<lambda>code.
       ag_execute (td_debugger_agent T) ctx
         (JObj [(''test_output'', JStr (test_output (td_text T) (td_float T) run)), (''implementation'', JStr prev),
                (''test_code'', JStr code)]))"

section \<open>The HITL-4 gate\<close>

definition plain_item :: "string \<Rightarrow> json \<Rightarrow> string \<Rightarrow> string \<Rightarrow> json pydict \<Rightarrow> evidence_item" where
  "plain_item kind path desc hash meta =
     \<lparr>ei_item_type = JStr kind, ei_path = path, ei_description = JStr desc, ei_content_hash = JStr hash,
      ei_metadata = JObj meta\<rparr>"

definition count_text :: "'a list \<Rightarrow> string" where
  "count_text xs = int_str (int (length xs))"

definition hitl4_items ::
  "('x, 'g) env \<Rightarrow> ('x, 'g) tdd_orchestrator \<Rightarrow> implementation \<Rightarrow> test_suite \<Rightarrow> test_run \<Rightarrow> code_review option \<Rightarrow>
   exn + evidence_item list" where
  "hitl4_items E T i suite run review =
     bind_sum (implementation_text (td_text T) i) (\<lambda>itext.
     bind_sum (suite_code (td_text T) suite) (\<lambda>code.
     case review of
       None \<Rightarrow> Inl (Exn PyAttributeError ''NoneType object has no attribute to_dict'')
     | Some r \<Rightarrow>
         bind_sum (review_markdown (td_text T) r) (\<lambda>rtext.
         bind_sum (json_len (cr_security_concerns r)) (\<lambda>concerns.
         let S = td_text T; paths = map cf_path (im_files i)
         in Inr
           [plain_item ''artifact'' (case paths of [] \<Rightarrow> JStr ''implementation'' | p # _ \<Rightarrow> p)
              (''Implementation with '' @ count_text (im_files i) @ '' file(s)'') (sha256_hex E itext)
              [(''files'', JList paths), (''imports'', im_imports i), (''dependencies'', im_dependencies i)],
            plain_item ''test_suite'' (JStr (''tests/'' @ json_text S (ts_task_id suite) @ ''_test.py''))
              (''Test suite with '' @ count_text (ts_test_cases suite) @ '' test case(s)'') (sha256_hex E code)
              [(''test_count'', JInt (int (length (ts_test_cases suite)))), (''fixtures'', ts_fixtures suite)],
            plain_item ''test_result'' (JStr (''results/'' @ json_text S (tn_suite_id run)))
              (''Test results: '' @ json_text S (tn_passed run) @ '' passed, '' @ json_text S (tn_failed run) @ '' failed'')
              (sha256_hex E (test_output S (td_float T) run))
              [(''passed'', tn_passed run), (''failed'', tn_failed run), (''coverage'', tn_coverage run),
               (''all_passed'', JBool (all_passed run))],
            plain_item ''review'' (JStr (''reviews/'' @ json_text S (cr_implementation_id r)))
              (''Code review: '' @ status_text (cr_passed r)) (sha256_hex E rtext)
              [(''passed'', cr_passed r), (''issue_count'', JInt (int (length (cr_issues r)))),
               (''security_concerns'', JInt (int concerns)), (''suggestions'', cr_suggestions r)]]))))"

definition hitl4_summary ::
  "('x, 'g) tdd_orchestrator \<Rightarrow> string \<Rightarrow> implementation \<Rightarrow> test_suite \<Rightarrow> test_run \<Rightarrow> json \<Rightarrow> string" where
  "hitl4_summary T desc i suite run passed =
     ''TDD implementation for: '' @ desc @ [newline] @
     ''Files: '' @ count_text (im_files i) @ '' | '' @
     ''Tests: '' @ count_text (ts_test_cases suite) @ '' '' @
       (if length (ts_test_cases suite) = 1 then ''test'' else ''tests'') @ '' | '' @
     ''Coverage: '' @ td_float T (tn_coverage run) @ ''% | '' @
     ''Review: '' @ status_text passed"

definition submit_hitl4 ::
  "('x, 'g) env \<Rightarrow> ('x, 'g) tdd_orchestrator \<Rightarrow> (asdlc_event \<Rightarrow> ('x, 'g, string) act) \<Rightarrow> agent_context \<Rightarrow> string \<Rightarrow>
   implementation \<Rightarrow> test_suite \<Rightarrow> test_run \<Rightarrow> code_review option \<Rightarrow> ('x, 'g, gate_request) act" where
  "submit_hitl4 E T pub ctx desc i suite run review =
     bindE (lift_result (hitl4_items E T i suite run review)) (\<lambda>items.
     bindE (create_bundle E (ac_task_id ctx) HITL_4_CODE (JStr []) items
              (hitl4_summary T desc i suite run (case review of None \<Rightarrow> JNull | Some r \<Rightarrow> cr_passed r))) (\<lambda>b.
     request_gate E pub (ac_task_id ctx) (ac_session_id ctx) HITL_4_CODE b ''tdd_orchestrator'' None))"

section \<open>The loop\<close>

text \<open>What an iteration leaves for the next one: the implementation, the errors, the analysis.\<close>

type_synonym carry = "string \<times> json list \<times> debug_analysis option"

text \<open>\<^verbatim>\<open>try: x = m except Exception as e\<close>\<close>

definition attempt :: "('s, 'a) io \<Rightarrow> ('s, exn + 'a) io" where
  "attempt m s = (Inr (fst (m s)), snd (m s))"

text \<open>A passed review ends the loop, after the request of HITL-4 where there is a dispatcher.\<close>

definition approved_step ::
  "('x, 'g) env \<Rightarrow> ('x, 'g) tdd_orchestrator \<Rightarrow> agent_context \<Rightarrow> string \<Rightarrow> int \<Rightarrow> implementation \<Rightarrow> test_suite \<Rightarrow>
   test_run \<Rightarrow> code_review option \<Rightarrow> ('x, 'g, development_result) act" where
  "approved_step E T ctx desc fails i suite run review =
     (case td_hitl_dispatcher T of
        None \<Rightarrow> ret (dev_succeeded i suite run review None fails)
      | Some pub \<Rightarrow>
          bindE (submit_hitl4 E T pub ctx desc i suite run review) (\<lambda>q.
            if gq_status q = GS_REJECTED then ret (dev_rejected i suite run review (gq_request_id q) fails)
            else ret (dev_succeeded i suite run review (Some (gq_request_id q)) fails)))"

definition review_step ::
  "('x, 'g) env \<Rightarrow> ('x, 'g) tdd_orchestrator \<Rightarrow> agent_context \<Rightarrow> string \<Rightarrow> int \<Rightarrow> implementation \<Rightarrow> test_suite \<Rightarrow>
   test_run \<Rightarrow> string \<Rightarrow> ('x, 'g, development_result + carry) act" where
  "review_step E T ctx desc fails i suite run itext =
     bindE (run_reviewer_agent T ctx i suite run) (\<lambda>r.
       if \<not> ar_success r then ret (Inl (dev_failed (or_else (ar_error_message r) ''Review failed'') fails))
       else
         bindE now_utc (\<lambda>now.
         bindE (lift_result (read_document (code_review_of_dict now) ''review'' r)) (\<lambda>review.
           if json_truthy (dget (ar_metadata r) ''passed'' (JBool False)) then
             bindE (approved_step E T ctx desc fails i suite run review) (\<lambda>d. ret (Inl d))
           else ret (Inr (itext, extract_review_issues (td_text T) review, None)))))"

text \<open>Failed tests; beyond the retries the debugger is asked.\<close>

definition failure_step ::
  "('x, 'g) tdd_orchestrator \<Rightarrow> agent_context \<Rightarrow> int \<Rightarrow> test_suite \<Rightarrow> test_run \<Rightarrow> string \<Rightarrow> debug_analysis option \<Rightarrow>
   ('x, 'g, development_result + carry) act" where
  "failure_step T ctx fails suite run itext dbg =
     (if td_max_coding_retries T < fails + 1 then
        bindE (run_debugger_agent T ctx suite run itext) (\<lambda>r.
          if ar_success r then
            bindE now_utc (\<lambda>now.
            bindE (lift_result (read_document (debug_analysis_of_dict now) ''debug_analysis'' r)) (\<lambda>d.
              ret (Inr (itext, extract_test_errors run, d))))
          else ret (Inr (itext, extract_test_errors run, dbg)))
      else ret (Inr (itext, extract_test_errors run, dbg)))"

definition test_step ::
  "('x, 'g) env \<Rightarrow> ('x, 'g) tdd_orchestrator \<Rightarrow> agent_context \<Rightarrow> string \<Rightarrow> int \<Rightarrow> test_suite \<Rightarrow> implementation \<Rightarrow>
   debug_analysis option \<Rightarrow> ('x, 'g, development_result + carry) act" where
  "test_step E T ctx desc fails suite i dbg =
     bindE (lift_result (implementation_text (td_text T) i)) (\<lambda>itext.
     bindE (attempt (run_tdd_tests T ctx suite)) (\<lambda>t.
       case t of
         Inl e \<Rightarrow> ret (Inl (dev_failed (''Test execution failed: '' @ message_of e) fails))
       | Inr run \<Rightarrow>
           if all_passed run then review_step E T ctx desc fails i suite run itext
           else failure_step T ctx fails suite run itext dbg))"

text \<open>One iteration: a result, or what the next one starts with.  Every iteration that goes on has
  counted one failure.\<close>

definition tdd_iteration ::
  "('x, 'g) env \<Rightarrow> ('x, 'g) tdd_orchestrator \<Rightarrow> agent_context \<Rightarrow> string \<Rightarrow> test_suite \<Rightarrow> int \<Rightarrow> carry \<Rightarrow>
   ('x, 'g, development_result + carry) act" where
  "tdd_iteration E T ctx desc suite fails c =
     bindE (run_coding_agent T ctx desc suite fails (fst c) (fst (snd c)) (snd (snd c))) (\<lambda>r.
       if \<not> ar_success r then
         ret (Inl (dev_failed (or_else (ar_error_message r) ''Failed to generate implementation'') fails))
       else
         bindE (lift_result (read_document implementation_of_dict ''implementation'' r)) (\<lambda>impl.
           case impl of
             None \<Rightarrow> ret (Inl (dev_failed ''Failed to extract implementation from Coding result'' fails))
           | Some i \<Rightarrow> test_step E T ctx desc fails suite i (snd (snd c))))"

function tdd_loop ::
  "('x, 'g) env \<Rightarrow> ('x, 'g) tdd_orchestrator \<Rightarrow> agent_context \<Rightarrow> string \<Rightarrow> test_suite \<Rightarrow> int \<Rightarrow> carry \<Rightarrow>
   ('x, 'g, development_result) act" where
  "tdd_loop E T ctx desc suite fails c =
     bindE (tdd_iteration E T ctx desc suite fails c) (\<lambda>out.
       case out of
         Inl r \<Rightarrow> ret r
       | Inr c' \<Rightarrow>
           if td_max_coding_retries T + 5 < fails + 1 then
             ret (dev_failed ''Exceeded maximum TDD loop iterations'' (fails + 1))
           else tdd_loop E T ctx desc suite (fails + 1) c')"
  by pat_completeness auto

termination
  by (relation "measure (\<lambda>(E, T, ctx, desc, suite, fails, c). nat (td_max_coding_retries T + 6 - fails))") auto

declare tdd_loop.simps [simp del]

definition run_tdd_loop ::
  "('x, 'g) env \<Rightarrow> ('x, 'g) tdd_orchestrator \<Rightarrow> agent_context \<Rightarrow> string \<Rightarrow> json list \<Rightarrow>
   ('x, 'g, development_result) act" where
  "run_tdd_loop E T ctx desc criteria =
     bindE (run_utest_agent T ctx desc criteria) (\<lambda>r.
       if \<not> ar_success r then
         ret (dev_failed (or_else (ar_error_message r) ''Failed to generate tests'') 0)
       else
         bindE (lift_result (read_document test_suite_of_dict ''test_suite'' r)) (\<lambda>suite.
           case suite of
             None \<Rightarrow> ret (dev_failed ''Failed to extract test suite from UTest result'' 0)
           | Some s \<Rightarrow> tdd_loop E T ctx desc s 0 ([], [], None)))"

section \<open>How often code is generated\<close>

lemma costs_attempt: "costs c n m \<Longrightarrow> costs c n (attempt m)"
  by (simp add: costs_def attempt_def)

lemma costs_run_tests:
  "(\<And>cmd t. costs c 0 (exec cmd t)) \<Longrightarrow> costs c 0 (run_tests exec R path wc source extra suite)"
  unfolding run_tests_def
  by (intro costs_bindE_0) (auto intro!: costs_bindE_0 costs_services costs_pure split: proc_outcome.split)

text \<open>Only the coding agent is counted.\<close>

definition only_coding_counts :: "('g \<Rightarrow> nat) \<Rightarrow> ('x, 'g) tdd_orchestrator \<Rightarrow> bool" where
  "only_coding_counts c T \<longleftrightarrow>
     (\<forall>ctx meta. costs c 1 (ag_execute (td_coding_agent T) ctx meta) \<and>
        costs c 0 (ag_execute (td_utest_agent T) ctx meta) \<and>
        costs c 0 (ag_execute (td_reviewer_agent T) ctx meta) \<and>
        costs c 0 (ag_execute (td_debugger_agent T) ctx meta)) \<and>
     (\<forall>cmd t. costs c 0 (td_exec T cmd t)) \<and>
     (\<forall>pub e. td_hitl_dispatcher T = Some pub \<longrightarrow> costs c 0 (pub e))"

lemma costs_steps:
  assumes "only_coding_counts c T"
  shows "costs c 0 (test_step E T ctx desc fails suite i dbg)"
proof -
  have g: "costs c 0 (approved_step E T ctx desc fails i suite run review)" for run review
    using assms unfolding approved_step_def submit_hitl4_def only_coding_counts_def
    by (auto intro!: costs_bindE_0 costs_create_bundle costs_request_gate costs_pure split: option.split)
  have r: "costs c 0 (run_reviewer_agent T ctx i suite run)" for run
    using assms unfolding run_reviewer_agent_def only_coding_counts_def
    by (auto intro!: costs_bindE_0 costs_pure)
  have d: "costs c 0 (run_debugger_agent T ctx suite run t)" for run t
    using assms unfolding run_debugger_agent_def only_coding_counts_def
    by (auto intro!: costs_bindE_0 costs_pure)
  have t: "costs c 0 (attempt (run_tdd_tests T ctx suite))"
    unfolding run_tdd_tests_def using assms
    by (intro costs_attempt costs_run_tests) (simp add: only_coding_counts_def)
  have rs: "costs c 0 (review_step E T ctx desc fails i suite run t)" for run t
    unfolding review_step_def by (auto intro!: costs_bindE_0 costs_services costs_pure g r)
  have fs: "costs c 0 (failure_step T ctx fails suite run t dbg)" for run t
    unfolding failure_step_def by (auto intro!: costs_bindE_0 costs_services costs_pure d)
  show ?thesis
    unfolding test_step_def by (auto intro!: costs_bindE_0 costs_pure t rs fs split: sum.split)
qed

lemma costs_iteration:
  assumes "only_coding_counts c T"
  shows "costs c 1 (tdd_iteration E T ctx desc suite fails cr)"
proof -
  have "costs c 1 (run_coding_agent T ctx desc suite fails (fst cr) (fst (snd cr)) (snd (snd cr)))"
    unfolding run_coding_agent_def using assms
    by (intro costs_bindE_0 costs_pure) (simp add: only_coding_counts_def)
  then have "costs c (1 + 0) (tdd_iteration E T ctx desc suite fails cr)"
    unfolding tdd_iteration_def
    by (rule costs_bindE) (auto intro!: costs_bindE_0 costs_pure costs_steps [OF assms] split: option.split)
  then show ?thesis by simp
qed

lemma costs_tdd_loop:
  "only_coding_counts c T \<Longrightarrow>
   costs c (1 + nat (td_max_coding_retries T + 5 - fails)) (tdd_loop E T ctx desc suite fails cr)"
proof (induction E T ctx desc suite fails cr rule: tdd_loop.induct)
  case (1 E T ctx desc suite fails cr)
  let ?n = "nat (td_max_coding_retries T + 5 - fails)"
  have "costs c ?n (case out of Inl r \<Rightarrow> ret r | Inr c' \<Rightarrow>
      if td_max_coding_retries T + 5 < fails + 1 then
        ret (dev_failed ''Exceeded maximum TDD loop iterations'' (fails + 1))
      else tdd_loop E T ctx desc suite (fails + 1) c')" for out
  proof (cases "\<exists>c'. out = Inr c' \<and> \<not> td_max_coding_retries T + 5 < fails + 1")
    case True
    then obtain c' where c': "out = Inr c'" "\<not> td_max_coding_retries T + 5 < fails + 1" by blast
    have "costs c (1 + nat (td_max_coding_retries T + 5 - (fails + 1))) (tdd_loop E T ctx desc suite (fails + 1) c')"
      by (rule "1.IH" [OF c'(2) "1.prems"])
    moreover have "1 + nat (td_max_coding_retries T + 5 - (fails + 1)) \<le> ?n" using c'(2) by linarith
    ultimately show ?thesis using c' costs_mono by fastforce
  qed (auto intro!: costs_pure split: sum.split)
  then show ?case
    unfolding tdd_loop.simps [of E T ctx desc suite fails cr]
    by (rule costs_bindE [OF costs_iteration [OF "1.prems"]])
qed

text \<open>C35: The loop always ends, and however the agents and the tests behave it asks the coding agent for
  at most six implementations more than there are retries: ten with the default of four.\<close>

theorem tdd_loop_is_bounded:
  assumes "only_coding_counts c T" "0 \<le> td_max_coding_retries T"
  shows "c (repo (snd (run_tdd_loop E T ctx desc criteria w))) \<le> c (repo w) + nat (td_max_coding_retries T) + 6"
proof -
  have "costs c 0 (run_utest_agent T ctx desc criteria)"
    using assms(1) by (simp add: run_utest_agent_def only_coding_counts_def)
  moreover have "costs c (nat (td_max_coding_retries T) + 6) (tdd_loop E T ctx desc s 0 cr)" for s cr
    by (rule costs_mono [OF costs_tdd_loop [OF assms(1)]]) (use assms(2) in linarith)
  ultimately have "costs c (nat (td_max_coding_retries T) + 6) (run_tdd_loop E T ctx desc criteria)"
    unfolding run_tdd_loop_def by (auto intro!: costs_bindE_0 costs_pure split: option.split)
  then show ?thesis by (simp add: costs_def add.assoc)
qed

section \<open>What a success stands for\<close>

definition sound_development :: "('x, 'g) tdd_orchestrator \<Rightarrow> development_result \<Rightarrow> bool" where
  "sound_development T r \<longleftrightarrow>
     (if dv_success r then
        (\<exists>run. dv_test_result r = Some run \<and> all_passed run) \<and>
        dv_implementation r \<noteq> None \<and> dv_test_suite r \<noteq> None \<and>
        (dv_hitl4_request_id r \<noteq> None \<longleftrightarrow> td_hitl_dispatcher T \<noteq> None) \<and>
        0 \<le> dv_retry_count r \<and> dv_retry_count r \<le> td_max_coding_retries T + 5
      else dv_error_message r \<noteq> None \<and> dv_implementation r = None \<and> dv_hitl4_request_id r = None)"

lemma sound_simps [simp]:
  "sound_development T (dev_failed err n)"
  "sound_development T (dev_succeeded i s run review rid n) \<longleftrightarrow>
     all_passed run \<and> (rid \<noteq> None \<longleftrightarrow> td_hitl_dispatcher T \<noteq> None) \<and> 0 \<le> n \<and> n \<le> td_max_coding_retries T + 5"
  by (auto simp: sound_development_def dev_failed_def dev_succeeded_def)

lemma approved_sound:
  assumes "all_passed run" "0 \<le> fails" "fails \<le> td_max_coding_retries T + 5"
  shows "returns (sound_development T) (approved_step E T ctx desc fails i suite run review)"
proof (cases "td_hitl_dispatcher T")
  case None
  then show ?thesis using assms by (auto simp: approved_step_def intro!: returns_ret)
next
  case (Some pub)
  have "returns (\<lambda>q. gq_status q = GS_PENDING) (submit_hitl4 E T pub ctx desc i suite run review)"
    unfolding submit_hitl4_def by (intro returns_bindE opened_pending)
  then show ?thesis
    unfolding approved_step_def Some option.case
    by (rule returns_bindE_value) (use assms Some in \<open>auto intro!: returns_ret\<close>)
qed

lemma iteration_sound:
  assumes "0 \<le> fails" "fails \<le> td_max_coding_retries T + 5"
  shows "returns (\<lambda>out. \<forall>r. out = Inl r \<longrightarrow> sound_development T r) (tdd_iteration E T ctx desc suite fails cr)"
proof -
  let ?P = "\<lambda>out. \<forall>r. out = Inl r \<longrightarrow> sound_development T r"
  have rs: "returns ?P (review_step E T ctx desc fails i suite run t)" if "all_passed run" for i run t
    unfolding review_step_def
    by (auto intro!: returns_bindE returns_ret returns_bindE_value [OF approved_sound [OF that assms]])
  have fs: "returns ?P (failure_step T ctx fails suite run t dbg)" for run t dbg
    unfolding failure_step_def by (auto intro!: returns_bindE returns_ret)
  have ts: "returns ?P (test_step E T ctx desc fails suite i dbg)" for i dbg
    unfolding test_step_def by (auto intro!: returns_bindE returns_ret rs fs split: sum.split)
  show ?thesis
    unfolding tdd_iteration_def by (auto intro!: returns_bindE returns_ret ts split: option.split)
qed

lemma tdd_loop_sound:
  "0 \<le> fails \<Longrightarrow> fails \<le> td_max_coding_retries T + 5 \<Longrightarrow>
   returns (sound_development T) (tdd_loop E T ctx desc suite fails cr)"
proof (induction E T ctx desc suite fails cr rule: tdd_loop.induct)
  case (1 E T ctx desc suite fails cr)
  show ?case
    unfolding tdd_loop.simps [of E T ctx desc suite fails cr]
  proof (rule returns_bindE_value [OF iteration_sound [OF "1.prems"]], goal_cases)
    case (1 out)
    then show ?case
      using "1.IH" "1.prems" by (auto intro!: returns_ret split: sum.split)
  qed
qed

text \<open>C33: A success of the loop carries an implementation and a run of the tests of which none is
  counted as failed, has a HITL-4 request exactly when there is a dispatcher, and was reached within the limit of failures;
  a result that is no success names an error and carries no implementation.\<close>

theorem tdd_success_is_tested:
  assumes "0 \<le> td_max_coding_retries T" "fst (run_tdd_loop E T ctx desc criteria w) = Inr r"
  shows "sound_development T r"
proof -
  have "returns (sound_development T) (run_tdd_loop E T ctx desc criteria)"
    unfolding run_tdd_loop_def using assms(1)
    by (auto intro!: returns_bindE returns_ret tdd_loop_sound split: option.split)
  with assms(2) show ?thesis by (auto simp: returns_def)
qed

section \<open>The test-writing agent in the loop\<close>

lemma utest_metadata:
  "returns (\<lambda>r. ar_success r \<longrightarrow> dget (ar_metadata r) ''test_suite'' JNull = JNull) (utest_execute U ctx meta)"
proof -
  let ?P = "\<lambda>r :: agent_result. ar_success r \<longrightarrow> dget (ar_metadata r) ''test_suite'' JNull = JNull"
  have f: "?P (utest_failed ctx err retry)" for err retry
    by (simp add: utest_failed_def)
  have "returns ?P (utest_generate_and_write U ctx desc criteria)" for desc criteria
    unfolding utest_generate_and_write_def
    by (auto intro!: returns_bindE returns_ret simp: dget_def utest_failed_def split: option.split)
  then have "returns ?P (let desc = dget meta ''task_description'' (JStr []); criteria = dget meta ''acceptance_criteria'' (JList [])
        in if \<not> json_truthy desc then
             ret (utest_failed ctx ''No task_description provided in event_metadata'' False)
           else if \<not> json_truthy criteria then
             ret (utest_failed ctx ''No acceptance_criteria provided in event_metadata'' False)
           else utest_generate_and_write U ctx desc criteria)"
    unfolding Let_def by (intro returns_if returns_ret f)
  from guarded_returns [OF this, of "\<lambda>e. utest_failed ctx (message_of e) True"] f show ?thesis
    unfolding returns_def utest_execute_def by (metis Pair_inject prod.collapse sum.inject(2))
qed

lemma utest_total: "\<exists>r. fst (utest_execute U ctx meta w) = Inr r"
  unfolding utest_execute_def by (auto simp: try_except_def ret_def split: sum.split)

text \<open>C34: With the program's own test-writing agent the loop never gets to code: that agent reports the
  tests it wrote by their paths and counts, the loop looks for the suite itself in the metadata.
  Whatever the language model answers, the result is a failure and nothing runs after the agent.\<close>

theorem own_tests_never_reach_loop:
  "\<exists>err. run_tdd_loop E (T\<lparr>td_utest_agent := utest_as_agent U\<rparr>) ctx desc criteria w =
    (Inr (dev_failed err 0),
     snd (utest_execute U ctx [(''task_description'', JStr desc), (''acceptance_criteria'', JList criteria)] w))"
proof -
  let ?meta = "[(''task_description'', JStr desc), (''acceptance_criteria'', JList criteria)]"
  obtain r where r: "fst (utest_execute U ctx ?meta w) = Inr r" using utest_total by blast
  have "ar_success r \<longrightarrow> dget (ar_metadata r) ''test_suite'' JNull = JNull"
    using utest_metadata [of U ctx ?meta] r unfolding returns_def by blast
  then show ?thesis
    by (auto simp: run_tdd_loop_def run_utest_agent_def utest_as_agent_def bindE_def r read_document_def ret_def)
qed

text \<open>A passed review without a document ends in an exception where there is a dispatcher, with the
  gate never opened.\<close>

theorem undocumented_review_raises:
  assumes "td_hitl_dispatcher T = Some pub" "run_reviewer_agent T ctx i suite run w = (Inr r, w')"
    and "ar_success r" "dget (ar_metadata r) ''review'' JNull = JNull"
    and "json_truthy (dget (ar_metadata r) ''passed'' (JBool False))"
  shows "\<exists>e. review_step E T ctx desc fails i suite run itext w = (Inl e, w')"
proof -
  obtain e where "hitl4_items E T i suite run None = Inl e"
    by (cases "implementation_text (td_text T) i"; cases "suite_code (td_text T) suite")
      (auto simp: hitl4_items_def)
  then show ?thesis
    using assms by (simp add: review_step_def bindE_def read_document_def approved_step_def submit_hitl4_def
        now_utc_def raise_def)
qed

section \<open>Examples\<close>

definition demo_suite :: test_suite where
  "demo_suite =
     \<lparr>ts_task_id = JStr ''t1'', ts_test_cases = [], ts_setup_code = JStr [], ts_teardown_code = JStr [],
      ts_fixtures = JList [], ts_metadata = JObj []\<rparr>"

definition demo_impl :: implementation where
  "demo_impl =
     \<lparr>im_task_id = JStr ''t1'', im_files = [], im_imports = JList [], im_dependencies = JList [], im_metadata = JObj []\<rparr>"

definition pass_line :: string where
  "pass_line = ''tests/test_a.py::test_x PASSED''"

text \<open>A coding agent that leaves a mark each time it is asked.\<close>

definition demo_tdd :: "(memstore, string list list) tdd_orchestrator" where
  "demo_tdd =
     \<lparr>td_utest_agent = fixed_agent (demo_answer ''utest'' [] [(''test_suite'', test_suite_to_dict demo_suite)]),
      td_coding_agent =
        \<lparr>ag_type = ''coding'',
         ag_execute = (\<lambda>ctx m w. (Inr (demo_answer ''coding'' [] [(''implementation'', implementation_to_dict demo_impl)]),
           w\<lparr>repo := [''coding''] # repo w\<rparr>)), ag_validate = None, ag_cleanup = None\<rparr>,
      td_debugger_agent = fixed_agent (demo_answer ''debugger'' [] []),
      td_reviewer_agent = fixed_agent (demo_answer ''reviewer'' [] [(''passed'', JBool True)]),
      td_test_runner = \<lparr>tq_timeout_seconds = 300\<rparr>, td_exec = (\<lambda>cmd t. ret (Exited 0 pass_line [])),
      td_max_coding_retries = 4, td_hitl_dispatcher = None,
      td_text = (\<lambda>_. []), td_float = (\<lambda>_. [])\<rparr>"

lemma demo_tdd_counts: "only_coding_counts length demo_tdd"
  by (simp add: only_coding_counts_def demo_tdd_def costs_def fixed_agent_def ret_def)

lemma tdd_loop_is_bounded_witness:
  "length (repo (snd (run_tdd_loop demo_env demo_tdd (demo_ctx []) ''do'' [JStr ''c''] mem_world))) \<le>
   length (repo mem_world) + nat 4 + 6"
  using tdd_loop_is_bounded [OF demo_tdd_counts, of demo_env "demo_ctx []" "''do''" "[JStr ''c'']" mem_world]
  by (simp add: demo_tdd_def)

definition demo_run :: test_run where
  "demo_run = parse_output (utc_datetime 0) pass_line [] (JStr ''t1'')"

lemma demo_run_passes: "all_passed demo_run"
proof -
  have "find_tests pass_line = [(''test_x'', ''PASSED'')]" by (simp add: pass_line_def) code_simp
  then show ?thesis by (simp add: demo_run_def parse_output_all_passed)
qed

lemma demo_tdd_run:
  "fst (run_tdd_loop demo_env demo_tdd (demo_ctx []) ''do'' [JStr ''c''] mem_world) =
   Inr (dev_succeeded demo_impl demo_suite demo_run None None 0)"
proof -
  obtain code where code: "suite_code (\<lambda>_. []) demo_suite = Inr code"
    by (simp add: suite_code_def demo_suite_def block_if_def join_lines_def join_values_def)
  obtain itext where itext: "implementation_text (\<lambda>_. []) demo_impl = Inr itext"
    by (simp add: implementation_text_def demo_impl_def join_lines_def join_values_def)
  have "clock_us mem_world = 0" by (simp add: mem_world_def)
  moreover have "json_truthy (test_suite_to_dict demo_suite)" "json_truthy (implementation_to_dict demo_impl)"
    by (simp_all add: test_suite_to_dict_def implementation_to_dict_def)
  ultimately show ?thesis
    by (simp add: run_tdd_loop_def run_utest_agent_def demo_tdd_def fixed_agent_def demo_answer_def bindE_def ret_def
        read_document_def dget_def test_suite_reads_back implementation_reads_back tdd_loop.simps tdd_iteration_def
        run_coding_agent_def code test_step_def itext attempt_def run_tdd_tests_def run_tests_def now_utc_def
        demo_run_passes [unfolded demo_run_def] demo_suite_def [THEN arg_cong [where f = ts_task_id]]
        review_step_def run_reviewer_agent_def approved_step_def demo_run_def)
qed

lemma tdd_success_is_tested_witness:
  "sound_development demo_tdd (dev_succeeded demo_impl demo_suite demo_run None None 0)"
  by (rule tdd_success_is_tested [OF _ demo_tdd_run]) (simp add: demo_tdd_def)

end
