(* ===== verification/Design_Models.thy ===== *)
theory Design_Models
  imports Codecs
begin

text \<open>
  The data of the design phase (\<^verbatim>\<open>src/workers/agents/design/models.py\<close>): technology surveys,
  architectures and implementation plans.  The markdown renderings are not modelled.
\<close>

datatype risk_level = RL_LOW | RL_MEDIUM | RL_HIGH | RL_CRITICAL

fun risk_level_value :: "risk_level \<Rightarrow> string" where
  "risk_level_value RL_LOW = ''low''"
| "risk_level_value RL_MEDIUM = ''medium''"
| "risk_level_value RL_HIGH = ''high''"
| "risk_level_value RL_CRITICAL = ''critical''"

definition risk_level_of :: "json \<Rightarrow> exn + risk_level" where
  "risk_level_of = enum_of_json ''RiskLevel'' risk_level_value [RL_LOW, RL_MEDIUM, RL_HIGH,
     RL_CRITICAL]"

lemma risk_level_of_value [codec]: "risk_level_of (JStr (risk_level_value v)) = Inr v"
  by (cases v) (simp_all add: risk_level_of_def enum_of_json_def)

datatype complexity_level = CX_SMALL | CX_MEDIUM | CX_LARGE | CX_EXTRA_LARGE

fun complexity_level_value :: "complexity_level \<Rightarrow> string" where
  "complexity_level_value CX_SMALL = ''S''"
| "complexity_level_value CX_MEDIUM = ''M''"
| "complexity_level_value CX_LARGE = ''L''"
| "complexity_level_value CX_EXTRA_LARGE = ''XL''"

definition complexity_level_of :: "json \<Rightarrow> exn + complexity_level" where
  "complexity_level_of = enum_of_json ''ComplexityLevel'' complexity_level_value [CX_SMALL,
     CX_MEDIUM, CX_LARGE, CX_EXTRA_LARGE]"

lemma complexity_level_of_value [codec]: "complexity_level_of (JStr (complexity_level_value v)) = Inr v"
  by (cases v) (simp_all add: complexity_level_of_def enum_of_json_def)

datatype architecture_style = AY_MONOLITH | AY_MICROSERVICES | AY_EVENT_DRIVEN | AY_SERVERLESS |
    AY_LAYERED | AY_MODULAR_MONOLITH

fun architecture_style_value :: "architecture_style \<Rightarrow> string" where
  "architecture_style_value AY_MONOLITH = ''monolith''"
| "architecture_style_value AY_MICROSERVICES = ''microservices''"
| "architecture_style_value AY_EVENT_DRIVEN = ''event_driven''"
| "architecture_style_value AY_SERVERLESS = ''serverless''"
| "architecture_style_value AY_LAYERED = ''layered''"
| "architecture_style_value AY_MODULAR_MONOLITH = ''modular_monolith''"

definition architecture_style_of :: "json \<Rightarrow> exn + architecture_style" where
  "architecture_style_of = enum_of_json ''ArchitectureStyle'' architecture_style_value
     [AY_MONOLITH, AY_MICROSERVICES, AY_EVENT_DRIVEN, AY_SERVERLESS, AY_LAYERED,
     AY_MODULAR_MONOLITH]"

lemma architecture_style_of_value [codec]: "architecture_style_of (JStr (architecture_style_value v)) = Inr v"
  by (cases v) (simp_all add: architecture_style_of_def enum_of_json_def)

datatype diagram_type = DT_COMPONENT | DT_SEQUENCE | DT_FLOW | DT_ERD | DT_DEPLOYMENT | DT_CLASS

fun diagram_type_value :: "diagram_type \<Rightarrow> string" where
  "diagram_type_value DT_COMPONENT = ''component''"
| "diagram_type_value DT_SEQUENCE = ''sequence''"
| "diagram_type_value DT_FLOW = ''flow''"
| "diagram_type_value DT_ERD = ''erd''"
| "diagram_type_value DT_DEPLOYMENT = ''deployment''"
| "diagram_type_value DT_CLASS = ''class''"

definition diagram_type_of :: "json \<Rightarrow> exn + diagram_type" where
  "diagram_type_of = enum_of_json ''DiagramType'' diagram_type_value [DT_COMPONENT, DT_SEQUENCE,
     DT_FLOW, DT_ERD, DT_DEPLOYMENT, DT_CLASS]"

lemma diagram_type_of_value [codec]: "diagram_type_of (JStr (diagram_type_value v)) = Inr v"
  by (cases v) (simp_all add: diagram_type_of_def enum_of_json_def)

section \<open>Technology surveys\<close>

record risk =
  rk_id :: json
  rk_description :: json
  rk_level :: risk_level
  rk_mitigation :: json
  rk_impact :: json

definition risk_to_dict :: "risk \<Rightarrow> json" where
  "risk_to_dict r = JObj [(''id'', rk_id r), (''description'', rk_description r),
     (''level'', JStr (risk_level_value (rk_level r))), (''mitigation'', rk_mitigation r),
     (''impact'', rk_impact r)]"

definition risk_of_dict :: "json \<Rightarrow> exn + risk" where
  "risk_of_dict j =
     bind_sum (as_dict j) (\<lambda>d.
     bind_sum (risk_level_of (dget d ''level'' (JStr ''medium''))) (\<lambda>x1.
       Inr \<lparr>rk_id = dget d ''id'' (JStr []),
            rk_description = dget d ''description'' (JStr []), rk_level = x1,
            rk_mitigation = dget d ''mitigation'' (JStr []),
            rk_impact = dget d ''impact'' (JStr [])\<rparr>))"

lemma risk_reads_back [codec]: "risk_of_dict (risk_to_dict r) = Inr r"
  by (simp add: risk_to_dict_def risk_of_dict_def codec)

record technology_choice =
  th_category :: json
  th_selected :: json
  th_alternatives :: json
  th_rationale :: json
  th_constraints :: json

definition technology_choice_to_dict :: "technology_choice \<Rightarrow> json" where
  "technology_choice_to_dict r = JObj [(''category'', th_category r),
     (''selected'', th_selected r), (''alternatives'', th_alternatives r),
     (''rationale'', th_rationale r), (''constraints'', th_constraints r)]"

definition technology_choice_of_dict :: "json \<Rightarrow> exn + technology_choice" where
  "technology_choice_of_dict j =
     bind_sum (as_dict j) (\<lambda>d.
       Inr \<lparr>th_category = dget d ''category'' (JStr []),
            th_selected = dget d ''selected'' (JStr []),
            th_alternatives = dget d ''alternatives'' (JList []),
            th_rationale = dget d ''rationale'' (JStr []),
            th_constraints = dget d ''constraints'' (JList [])\<rparr>)"

lemma technology_choice_reads_back [codec]: "technology_choice_of_dict (technology_choice_to_dict r) = Inr r"
  by (simp add: technology_choice_to_dict_def technology_choice_of_dict_def codec)

record tech_survey =
  sv_prd_reference :: json
  sv_created_at :: datetime
  sv_technologies :: "technology_choice list"
  sv_constraints_analysis :: json
  sv_risk_assessment :: "risk list"
  sv_recommendations :: json
  sv_metadata :: json

definition tech_survey_to_dict :: "tech_survey \<Rightarrow> json" where
  "tech_survey_to_dict r = JObj [(''prd_reference'', sv_prd_reference r),
     (''created_at'', JStr (isoformat (sv_created_at r))),
     (''technologies'', JList (map technology_choice_to_dict (sv_technologies r))),
     (''constraints_analysis'', sv_constraints_analysis r),
     (''risk_assessment'', JList (map risk_to_dict (sv_risk_assessment r))),
     (''recommendations'', sv_recommendations r), (''metadata'', sv_metadata r)]"

definition tech_survey_of_dict :: "datetime \<Rightarrow> json \<Rightarrow> exn + tech_survey" where
  "tech_survey_of_dict now j =
     bind_sum (as_dict j) (\<lambda>d.
     bind_sum (stamp_of_json now d ''created_at'') (\<lambda>x1.
     bind_sum (list_of_json technology_choice_of_dict (dget d ''technologies'' (JList []))) (\<lambda>x2.
     bind_sum (list_of_json risk_of_dict (dget d ''risk_assessment'' (JList []))) (\<lambda>x3.
       Inr \<lparr>sv_prd_reference = dget d ''prd_reference'' (JStr []), sv_created_at = x1,
            sv_technologies = x2,
            sv_constraints_analysis = dget d ''constraints_analysis'' (JObj []),
            sv_risk_assessment = x3, sv_recommendations = dget d ''recommendations'' (JList []),
            sv_metadata = dget d ''metadata'' (JObj [])\<rparr>))))"

definition tech_survey_times :: "tech_survey \<Rightarrow> bool" where
  "tech_survey_times r \<longleftrightarrow> valid_datetime (sv_created_at r)"

lemma tech_survey_reads_back [codec]: "tech_survey_times r \<Longrightarrow> tech_survey_of_dict now (tech_survey_to_dict r) = Inr r"
  by (simp add: tech_survey_to_dict_def tech_survey_of_dict_def tech_survey_times_def codec)

definition tech_survey_to_json :: "tech_survey \<Rightarrow> string" where
  "tech_survey_to_json r = dumps_indent 0 (tech_survey_to_dict r)"

definition tech_survey_of_json :: "datetime \<Rightarrow> string \<Rightarrow> exn + tech_survey" where
  "tech_survey_of_json now s = bind_sum (loads s) (tech_survey_of_dict now)"

section \<open>Architectures\<close>

record interface =
  if_name :: json
  if_description :: json
  if_methods :: json
  if_data_types :: json

definition interface_to_dict :: "interface \<Rightarrow> json" where
  "interface_to_dict r = JObj [(''name'', if_name r), (''description'', if_description r),
     (''methods'', if_methods r), (''data_types'', if_data_types r)]"

definition interface_of_dict :: "json \<Rightarrow> exn + interface" where
  "interface_of_dict j =
     bind_sum (as_dict j) (\<lambda>d.
       Inr \<lparr>if_name = dget d ''name'' (JStr []),
            if_description = dget d ''description'' (JStr []),
            if_methods = dget d ''methods'' (JList []),
            if_data_types = dget d ''data_types'' (JList [])\<rparr>)"

lemma interface_reads_back [codec]: "interface_of_dict (interface_to_dict r) = Inr r"
  by (simp add: interface_to_dict_def interface_of_dict_def codec)

record data_flow =
  df_source :: json
  df_target :: json
  df_data_type :: json
  df_description :: json
  df_protocol :: json

definition data_flow_to_dict :: "data_flow \<Rightarrow> json" where
  "data_flow_to_dict r = JObj [(''source'', df_source r), (''target'', df_target r),
     (''data_type'', df_data_type r), (''description'', df_description r),
     (''protocol'', df_protocol r)]"

definition data_flow_of_dict :: "json \<Rightarrow> exn + data_flow" where
  "data_flow_of_dict j =
     bind_sum (as_dict j) (\<lambda>d.
       Inr \<lparr>df_source = dget d ''source'' (JStr []),
            df_target = dget d ''target'' (JStr []),
            df_data_type = dget d ''data_type'' (JStr []),
            df_description = dget d ''description'' (JStr []),
            df_protocol = dget d ''protocol'' (JStr [])\<rparr>)"

lemma data_flow_reads_back [codec]: "data_flow_of_dict (data_flow_to_dict r) = Inr r"
  by (simp add: data_flow_to_dict_def data_flow_of_dict_def codec)

record diagram_reference =
  dr_diagram_type :: diagram_type
  dr_title :: json
  dr_mermaid_code :: json
  dr_description :: json

definition diagram_reference_to_dict :: "diagram_reference \<Rightarrow> json" where
  "diagram_reference_to_dict r = JObj
     [(''diagram_type'', JStr (diagram_type_value (dr_diagram_type r))), (''title'', dr_title r),
     (''mermaid_code'', dr_mermaid_code r), (''description'', dr_description r)]"

definition diagram_reference_of_dict :: "json \<Rightarrow> exn + diagram_reference" where
  "diagram_reference_of_dict j =
     bind_sum (as_dict j) (\<lambda>d.
     bind_sum (diagram_type_of (dget d ''diagram_type'' (JStr ''component''))) (\<lambda>x1.
       Inr \<lparr>dr_diagram_type = x1, dr_title = dget d ''title'' (JStr []),
            dr_mermaid_code = dget d ''mermaid_code'' (JStr []),
            dr_description = dget d ''description'' (JStr [])\<rparr>))"

lemma diagram_reference_reads_back [codec]: "diagram_reference_of_dict (diagram_reference_to_dict r) = Inr r"
  by (simp add: diagram_reference_to_dict_def diagram_reference_of_dict_def codec)

record component =
  co_name :: json
  co_responsibility :: json
  co_interfaces :: "interface list"
  co_dependencies :: json
  co_technology :: json
  co_notes :: json

definition component_to_dict :: "component \<Rightarrow> json" where
  "component_to_dict r = JObj [(''name'', co_name r), (''responsibility'', co_responsibility r),
     (''interfaces'', JList (map interface_to_dict (co_interfaces r))),
     (''dependencies'', co_dependencies r), (''technology'', co_technology r),
     (''notes'', co_notes r)]"

definition component_of_dict :: "json \<Rightarrow> exn + component" where
  "component_of_dict j =
     bind_sum (as_dict j) (\<lambda>d.
     bind_sum (list_of_json interface_of_dict (dget d ''interfaces'' (JList []))) (\<lambda>x1.
       Inr \<lparr>co_name = dget d ''name'' (JStr []),
            co_responsibility = dget d ''responsibility'' (JStr []), co_interfaces = x1,
            co_dependencies = dget d ''dependencies'' (JList []),
            co_technology = dget d ''technology'' (JStr []),
            co_notes = dget d ''notes'' (JStr [])\<rparr>))"

lemma component_reads_back [codec]: "component_of_dict (component_to_dict r) = Inr r"
  by (simp add: component_to_dict_def component_of_dict_def codec)

record architecture =
  ah_style :: architecture_style
  ah_components :: "component list"
  ah_data_flows :: "data_flow list"
  ah_deployment_model :: json
  ah_diagrams :: "diagram_reference list"
  ah_nfr_considerations :: json
  ah_security_considerations :: json
  ah_created_at :: datetime
  ah_tech_survey_reference :: json
  ah_metadata :: json

definition architecture_to_dict :: "architecture \<Rightarrow> json" where
  "architecture_to_dict r = JObj [(''style'', JStr (architecture_style_value (ah_style r))),
     (''components'', JList (map component_to_dict (ah_components r))),
     (''data_flows'', JList (map data_flow_to_dict (ah_data_flows r))),
     (''deployment_model'', ah_deployment_model r),
     (''diagrams'', JList (map diagram_reference_to_dict (ah_diagrams r))),
     (''nfr_considerations'', ah_nfr_considerations r),
     (''security_considerations'', ah_security_considerations r),
     (''created_at'', JStr (isoformat (ah_created_at r))),
     (''tech_survey_reference'', ah_tech_survey_reference r), (''metadata'', ah_metadata r)]"

definition architecture_of_dict :: "datetime \<Rightarrow> json \<Rightarrow> exn + architecture" where
  "architecture_of_dict now j =
     bind_sum (as_dict j) (\<lambda>d.
     bind_sum (architecture_style_of (dget d ''style'' (JStr ''layered''))) (\<lambda>x1.
     bind_sum (list_of_json component_of_dict (dget d ''components'' (JList []))) (\<lambda>x2.
     bind_sum (list_of_json data_flow_of_dict (dget d ''data_flows'' (JList []))) (\<lambda>x3.
     bind_sum (list_of_json diagram_reference_of_dict (dget d ''diagrams'' (JList []))) (\<lambda>x4.
     bind_sum (stamp_of_json now d ''created_at'') (\<lambda>x5.
       Inr \<lparr>ah_style = x1, ah_components = x2, ah_data_flows = x3,
            ah_deployment_model = dget d ''deployment_model'' (JStr []), ah_diagrams = x4,
            ah_nfr_considerations = dget d ''nfr_considerations'' (JObj []),
            ah_security_considerations = dget d ''security_considerations'' (JList []),
            ah_created_at = x5,
            ah_tech_survey_reference = dget d ''tech_survey_reference'' (JStr []),
            ah_metadata = dget d ''metadata'' (JObj [])\<rparr>))))))"

definition architecture_times :: "architecture \<Rightarrow> bool" where
  "architecture_times r \<longleftrightarrow> valid_datetime (ah_created_at r)"

lemma architecture_reads_back [codec]: "architecture_times r \<Longrightarrow> architecture_of_dict now (architecture_to_dict r) = Inr r"
  by (simp add: architecture_to_dict_def architecture_of_dict_def architecture_times_def codec)

definition architecture_to_json :: "architecture \<Rightarrow> string" where
  "architecture_to_json r = dumps_indent 0 (architecture_to_dict r)"

definition architecture_of_json :: "datetime \<Rightarrow> string \<Rightarrow> exn + architecture" where
  "architecture_of_json now s = bind_sum (loads s) (architecture_of_dict now)"

section \<open>Implementation plans\<close>

record implementation_task =
  it_id :: json
  it_title :: json
  it_description :: json
  it_component :: json
  it_dependencies :: json
  it_acceptance_criteria :: json
  it_estimated_complexity :: complexity_level
  it_metadata :: json

definition implementation_task_to_dict :: "implementation_task \<Rightarrow> json" where
  "implementation_task_to_dict r = JObj [(''id'', it_id r), (''title'', it_title r),
     (''description'', it_description r), (''component'', it_component r),
     (''dependencies'', it_dependencies r), (''acceptance_criteria'', it_acceptance_criteria r),
     (''estimated_complexity'', JStr (complexity_level_value (it_estimated_complexity r))),
     (''metadata'', it_metadata r)]"

definition implementation_task_of_dict :: "json \<Rightarrow> exn + implementation_task" where
  "implementation_task_of_dict j =
     bind_sum (as_dict j) (\<lambda>d.
     bind_sum (complexity_level_of (dget d ''estimated_complexity'' (JStr ''M''))) (\<lambda>x1.
       Inr \<lparr>it_id = dget d ''id'' (JStr []), it_title = dget d ''title'' (JStr []),
            it_description = dget d ''description'' (JStr []),
            it_component = dget d ''component'' (JStr []),
            it_dependencies = dget d ''dependencies'' (JList []),
            it_acceptance_criteria = dget d ''acceptance_criteria'' (JList []),
            it_estimated_complexity = x1, it_metadata = dget d ''metadata'' (JObj [])\<rparr>))"

lemma implementation_task_reads_back [codec]: "implementation_task_of_dict (implementation_task_to_dict r) = Inr r"
  by (simp add: implementation_task_to_dict_def implementation_task_of_dict_def codec)

record phase =
  ph_name :: json
  ph_description :: json
  ph_task_ids :: json
  ph_order :: json

definition phase_to_dict :: "phase \<Rightarrow> json" where
  "phase_to_dict r = JObj [(''name'', ph_name r), (''description'', ph_description r),
     (''task_ids'', ph_task_ids r), (''order'', ph_order r)]"

definition phase_of_dict :: "json \<Rightarrow> exn + phase" where
  "phase_of_dict j =
     bind_sum (as_dict j) (\<lambda>d.
       Inr \<lparr>ph_name = dget d ''name'' (JStr []),
            ph_description = dget d ''description'' (JStr []),
            ph_task_ids = dget d ''task_ids'' (JList []),
            ph_order = dget d ''order'' (JInt 0)\<rparr>)"

lemma phase_reads_back [codec]: "phase_of_dict (phase_to_dict r) = Inr r"
  by (simp add: phase_to_dict_def phase_of_dict_def codec)

record implementation_plan =
  ip_architecture_reference :: json
  ip_created_at :: datetime
  ip_phases :: "phase list"
  ip_tasks :: "implementation_task list"
  ip_critical_path :: json
  ip_total_estimated_effort :: json
  ip_metadata :: json

definition implementation_plan_to_dict :: "implementation_plan \<Rightarrow> json" where
  "implementation_plan_to_dict r = JObj
     [(''architecture_reference'', ip_architecture_reference r),
     (''created_at'', JStr (isoformat (ip_created_at r))),
     (''phases'', JList (map phase_to_dict (ip_phases r))),
     (''tasks'', JList (map implementation_task_to_dict (ip_tasks r))),
     (''critical_path'', ip_critical_path r),
     (''total_estimated_effort'', ip_total_estimated_effort r), (''metadata'', ip_metadata r)]"

definition implementation_plan_of_dict :: "datetime \<Rightarrow> json \<Rightarrow> exn + implementation_plan" where
  "implementation_plan_of_dict now j =
     bind_sum (as_dict j) (\<lambda>d.
     bind_sum (stamp_of_json now d ''created_at'') (\<lambda>x1.
     bind_sum (list_of_json phase_of_dict (dget d ''phases'' (JList []))) (\<lambda>x2.
     bind_sum (list_of_json implementation_task_of_dict (dget d ''tasks'' (JList []))) (\<lambda>x3.
       Inr \<lparr>ip_architecture_reference = dget d ''architecture_reference'' (JStr []),
            ip_created_at = x1, ip_phases = x2, ip_tasks = x3,
            ip_critical_path = dget d ''critical_path'' (JList []),
            ip_total_estimated_effort = dget d ''total_estimated_effort'' (JStr []),
            ip_metadata = dget d ''metadata'' (JObj [])\<rparr>))))"

definition implementation_plan_times :: "implementation_plan \<Rightarrow> bool" where
  "implementation_plan_times r \<longleftrightarrow> valid_datetime (ip_created_at r)"

lemma implementation_plan_reads_back [codec]: "implementation_plan_times r \<Longrightarrow> implementation_plan_of_dict now (implementation_plan_to_dict r) = Inr r"
  by (simp add: implementation_plan_to_dict_def implementation_plan_of_dict_def implementation_plan_times_def codec)

definition implementation_plan_to_json :: "implementation_plan \<Rightarrow> string" where
  "implementation_plan_to_json r = dumps_indent 0 (implementation_plan_to_dict r)"

definition implementation_plan_of_json :: "datetime \<Rightarrow> string \<Rightarrow> exn + implementation_plan" where
  "implementation_plan_of_json now s = bind_sum (loads s) (implementation_plan_of_dict now)"


end
