(* ===== verification/Design_Phase.thy ===== *)
theory Design_Phase
  imports Phases Design_Models
begin

text \<open>
  \<^verbatim>\<open>src/workers/agents/design/coordinator.py\<close>: surveyor, architect and planner run in turn, with HITL-2
  after the architecture and HITL-3 after the plan.  The agents and the reading of files are
  parameters.  The coordinator calls a method \<^verbatim>\<open>submit\<close> of its dispatcher; the class of the program has
  no such method.
\<close>

section \<open>Results\<close>

record design_result =
  dz_success :: bool
  dz_tech_survey :: "tech_survey option"
  dz_architecture :: "architecture option"
  dz_implementation_plan :: "implementation_plan option"
  dz_error_message :: "string option"
  dz_hitl2_request_id :: "string option"
  dz_hitl3_request_id :: "string option"
  dz_metadata :: "json pydict"

definition design_succeeded ::
  "tech_survey \<Rightarrow> architecture \<Rightarrow> implementation_plan \<Rightarrow> string option \<Rightarrow> string option \<Rightarrow> design_result" where
  "design_succeeded t a p h2 h3 =
     \<lparr>dz_success = True, dz_tech_survey = Some t, dz_architecture = Some a, dz_implementation_plan = Some p,
      dz_error_message = None, dz_hitl2_request_id = h2, dz_hitl3_request_id = h3, dz_metadata = []\<rparr>"

definition design_failed :: "string \<Rightarrow> design_result" where
  "design_failed err =
     \<lparr>dz_success = False, dz_tech_survey = None, dz_architecture = None, dz_implementation_plan = None,
      dz_error_message = Some err, dz_hitl2_request_id = None, dz_hitl3_request_id = None, dz_metadata = []\<rparr>"

definition design_pending_hitl2 :: "string \<Rightarrow> design_result" where
  "design_pending_hitl2 rid =
     \<lparr>dz_success = True, dz_tech_survey = None, dz_architecture = None, dz_implementation_plan = None,
      dz_error_message = None, dz_hitl2_request_id = Some rid, dz_hitl3_request_id = None,
      dz_metadata = [(''status'', JStr ''pending_hitl2'')]\<rparr>"

definition design_pending_hitl3 :: "tech_survey \<Rightarrow> architecture \<Rightarrow> string \<Rightarrow> design_result" where
  "design_pending_hitl3 t a rid =
     \<lparr>dz_success = True, dz_tech_survey = Some t, dz_architecture = Some a, dz_implementation_plan = None,
      dz_error_message = None, dz_hitl2_request_id = None, dz_hitl3_request_id = Some rid,
      dz_metadata = [(''status'', JStr ''pending_hitl3'')]\<rparr>"

definition design_result_to_dict :: "design_result \<Rightarrow> json" where
  "design_result_to_dict r =
     JObj [(''success'', JBool (dz_success r)),
           (''tech_survey'', optional_dict tech_survey_to_dict (dz_tech_survey r)),
           (''architecture'', optional_dict architecture_to_dict (dz_architecture r)),
           (''implementation_plan'', optional_dict implementation_plan_to_dict (dz_implementation_plan r)),
           (''error_message'', optional_dict JStr (dz_error_message r)),
           (''hitl2_request_id'', optional_dict JStr (dz_hitl2_request_id r)),
           (''hitl3_request_id'', optional_dict JStr (dz_hitl3_request_id r)),
           (''metadata'', JObj (dz_metadata r))]"

section \<open>The coordinator\<close>

text \<open>A dispatcher is given by its method \<^verbatim>\<open>submit\<close>: the gate, the context and the evidence.\<close>

type_synonym ('x, 'g) submit_method = "string \<Rightarrow> agent_context \<Rightarrow> json \<Rightarrow> ('x, 'g, string) act"

record ('x, 'g) design_coordinator =
  dsn_surveyor :: "('x, 'g) agent"
  dsn_architect :: "('x, 'g) agent"
  dsn_planner :: "('x, 'g) agent"
  dsn_hitl_dispatcher :: "('x, 'g) submit_method option"
  dsn_read_file :: "string \<Rightarrow> ('x, 'g, string) act"
  dsn_text :: "json \<Rightarrow> string"

text \<open>The dispatcher of the program: looking up the method fails.\<close>

definition hitl_dispatcher_submit :: "('x, 'g) submit_method" where
  "hitl_dispatcher_submit gate ctx evidence =
     raise (Exn PyAttributeError ''HITLDispatcher object has no attribute submit'')"

definition count_line :: "string \<Rightarrow> 'a list \<Rightarrow> string" where
  "count_line label xs = ''**'' @ label @ '':** '' @ int_str (int (length xs))"

definition security_lines :: "(json \<Rightarrow> string) \<Rightarrow> json \<Rightarrow> exn + string list" where
  "security_lines S v =
     (if json_truthy v then
        bind_sum (bind_sum (json_take 3 v) json_iter) (\<lambda>xs.
          Inr ([[], ''### Security Considerations''] @ map (\<lambda>x. ''- '' @ json_text S x) xs))
      else Inr [])"

definition create_hitl2_bundle ::
  "(json \<Rightarrow> string) \<Rightarrow> tech_survey \<Rightarrow> architecture \<Rightarrow> string list \<Rightarrow> exn + phase_bundle" where
  "create_hitl2_bundle S t a paths =
     bind_sum (security_lines S (ah_security_considerations a)) (\<lambda>security.
       Inr \<lparr>pb_gate_type = ''hitl-2'', pb_artifacts = paths,
            pb_summary = lines_of
              ([''## Architecture Design Review'',
                [],
                ''**Architecture Style:** '' @ architecture_style_value (ah_style a),
                count_line ''Components'' (ah_components a),
                count_line ''Data Flows'' (ah_data_flows a),
                count_line ''Diagrams'' (ah_diagrams a),
                [],
                ''### Technology Choices''] @
               map (\<lambda>c. ''- **'' @ json_text S (th_category c) @ '':** '' @ json_text S (th_selected c))
                 (take 5 (sv_technologies t)) @
               security),
            pb_metadata =
              [(''component_count'', JInt (int (length (ah_components a)))),
               (''technology_count'', JInt (int (length (sv_technologies t)))),
               (''risk_count'', JInt (int (length (sv_risk_assessment t))))]\<rparr>)"

definition phase_line :: "(json \<Rightarrow> string) \<Rightarrow> phase \<Rightarrow> exn + string" where
  "phase_line S p =
     bind_sum (json_len (ph_task_ids p)) (\<lambda>n.
       Inr (''- **'' @ json_text S (ph_name p) @ '':** '' @ int_str (int n) @ '' tasks''))"

definition create_hitl3_bundle ::
  "(json \<Rightarrow> string) \<Rightarrow> implementation_plan \<Rightarrow> string list \<Rightarrow> exn + phase_bundle" where
  "create_hitl3_bundle S p paths =
     bind_sum (bind_sum (bind_sum (json_take 5 (ip_critical_path p)) json_iter) (join_values '' -> '')) (\<lambda>path.
     bind_sum (json_len (ip_critical_path p)) (\<lambda>n.
     bind_sum (map_result (phase_line S) (ip_phases p)) (\<lambda>phases.
       Inr \<lparr>pb_gate_type = ''hitl-3'', pb_artifacts = paths,
            pb_summary = lines_of
              ([''## Implementation Plan Review'',
                [],
                count_line ''Total Tasks'' (ip_tasks p),
                count_line ''Phases'' (ip_phases p),
                ''**Estimated Effort:** '' @ json_text S (ip_total_estimated_effort p),
                [],
                ''### Critical Path'',
                path] @
               (if json_truthy (ip_critical_path p) then [''... ('' @ int_str (int n) @ '' tasks)''] else []) @
               [[], ''### Phases''] @ phases),
            pb_metadata =
              [(''task_count'', JInt (int (length (ip_tasks p)))),
               (''phase_count'', JInt (int (length (ip_phases p)))),
               (''critical_path_length'', JInt (int n)),
               (''total_effort'', ip_total_estimated_effort p)]\<rparr>)))"

definition submit_bundle ::
  "('x, 'g) design_coordinator \<Rightarrow> string \<Rightarrow> agent_context \<Rightarrow> exn + phase_bundle \<Rightarrow> ('x, 'g, string option) act" where
  "submit_bundle C gate ctx bundle =
     (case dsn_hitl_dispatcher C of
        None \<Rightarrow> ret None
      | Some submit \<Rightarrow>
          or_none (bindE (lift_result bundle) (\<lambda>b. submit gate ctx (phase_bundle_to_dict b))))"

definition submit_hitl2 ::
  "('x, 'g) design_coordinator \<Rightarrow> agent_context \<Rightarrow> tech_survey \<Rightarrow> architecture \<Rightarrow> string list \<Rightarrow>
   ('x, 'g, string option) act" where
  "submit_hitl2 C ctx t a paths = submit_bundle C ''hitl-2'' ctx (create_hitl2_bundle (dsn_text C) t a paths)"

definition submit_hitl3 ::
  "('x, 'g) design_coordinator \<Rightarrow> agent_context \<Rightarrow> implementation_plan \<Rightarrow> string list \<Rightarrow> ('x, 'g, string option) act" where
  "submit_hitl3 C ctx p paths = submit_bundle C ''hitl-3'' ctx (create_hitl3_bundle (dsn_text C) p paths)"

text \<open>The document an agent left in its first artifact, with the path.\<close>

definition load_first ::
  "('x, 'g) design_coordinator \<Rightarrow> (datetime \<Rightarrow> string \<Rightarrow> exn + 'a) \<Rightarrow> agent_result \<Rightarrow> ('x, 'g, 'a option \<times> string) act" where
  "load_first C parse r =
     (if \<not> ar_success r then ret (None, [])
      else
        let path = (case ar_artifact_paths r of [] \<Rightarrow> [] | p # _ \<Rightarrow> p)
        in if path = [] then ret (None, path)
           else
             try_except
               (bindE (dsn_read_file C path) (\<lambda>content.
                bindE now_utc (\<lambda>now.
                bindE (lift_result (parse now content)) (\<lambda>d. ret (Some d, path)))))
               any_exception (\<lambda>_. ret (None, path)))"

definition run_surveyor ::
  "('x, 'g) design_coordinator \<Rightarrow> agent_context \<Rightarrow> string \<Rightarrow> string \<Rightarrow> ('x, 'g, tech_survey option \<times> string) act" where
  "run_surveyor C ctx prd ref =
     bindE (ag_execute (dsn_surveyor C) ctx
       (JObj [(''prd_content'', JStr prd), (''prd_reference'', JStr ref)])) (load_first C tech_survey_of_json)"

definition run_architect ::
  "('x, 'g) design_coordinator \<Rightarrow> agent_context \<Rightarrow> tech_survey \<Rightarrow> string \<Rightarrow> string \<Rightarrow>
   ('x, 'g, architecture option \<times> string) act" where
  "run_architect C ctx t prd nfr =
     bindE (ag_execute (dsn_architect C) ctx
       (JObj [(''tech_survey'', JStr (tech_survey_to_json t)), (''prd_content'', JStr prd),
              (''tech_survey_reference'', sv_prd_reference t), (''nfr_requirements'', JStr nfr)]))
       (load_first C architecture_of_json)"

definition run_planner ::
  "('x, 'g) design_coordinator \<Rightarrow> agent_context \<Rightarrow> architecture \<Rightarrow> string \<Rightarrow> tech_survey \<Rightarrow> string \<Rightarrow>
   ('x, 'g, implementation_plan option \<times> string) act" where
  "run_planner C ctx a prd t acc =
     bindE (ag_execute (dsn_planner C) ctx
       (JObj [(''architecture'', JStr (architecture_to_json a)), (''prd_content'', JStr prd),
              (''architecture_reference'', ah_tech_survey_reference a),
              (''tech_survey'', JStr (tech_survey_to_json t)), (''acceptance_criteria'', JStr acc)]))
       (load_first C implementation_plan_of_json)"

section \<open>The phase\<close>

text \<open>From the planner on, which is also where an approved HITL-2 continues.\<close>

definition plan_steps ::
  "('x, 'g) design_coordinator \<Rightarrow> agent_context \<Rightarrow> tech_survey \<Rightarrow> architecture \<Rightarrow> string \<Rightarrow> string \<Rightarrow> bool \<Rightarrow>
   string option \<Rightarrow> ('x, 'g, design_result) act" where
  "plan_steps C ctx t a prd acc skip h2 =
     bindE (run_planner C ctx a prd t acc) (\<lambda>out.
       case fst out of
         None \<Rightarrow> ret (design_failed ''Planner Agent failed to produce implementation plan'')
       | Some p \<Rightarrow>
           if \<not> skip \<and> dsn_hitl_dispatcher C \<noteq> None then
             bindE (submit_hitl3 C ctx p [snd out]) (\<lambda>h3.
               if truthy h3 then ret (design_pending_hitl3 t a (the h3))
               else ret (design_succeeded t a p h2 h3))
           else ret (design_succeeded t a p h2 None))"

definition architecture_steps ::
  "('x, 'g) design_coordinator \<Rightarrow> agent_context \<Rightarrow> tech_survey \<Rightarrow> string \<Rightarrow> string \<Rightarrow> string \<Rightarrow> string \<Rightarrow> bool \<Rightarrow>
   ('x, 'g, design_result) act" where
  "architecture_steps C ctx t survey_path prd nfr acc skip =
     bindE (run_architect C ctx t prd nfr) (\<lambda>out.
       case fst out of
         None \<Rightarrow> ret (design_failed ''Architect Agent failed to produce architecture'')
       | Some a \<Rightarrow>
           if \<not> skip \<and> dsn_hitl_dispatcher C \<noteq> None then
             bindE (submit_hitl2 C ctx t a [survey_path, snd out]) (\<lambda>h2.
               if truthy h2 then ret (design_pending_hitl2 (the h2))
               else plan_steps C ctx t a prd acc skip h2)
           else plan_steps C ctx t a prd acc skip None)"

definition design_steps ::
  "('x, 'g) design_coordinator \<Rightarrow> agent_context \<Rightarrow> string \<Rightarrow> string \<Rightarrow> string \<Rightarrow> string \<Rightarrow> bool \<Rightarrow>
   ('x, 'g, design_result) act" where
  "design_steps C ctx prd ref nfr acc skip =
     bindE (run_surveyor C ctx prd ref) (\<lambda>out.
       case fst out of
         None \<Rightarrow> ret (design_failed ''Surveyor Agent failed to produce tech survey'')
       | Some t \<Rightarrow> architecture_steps C ctx t (snd out) prd nfr acc skip)"

definition run_design ::
  "('x, 'g) design_coordinator \<Rightarrow> agent_context \<Rightarrow> string \<Rightarrow> string \<Rightarrow> string \<Rightarrow> string \<Rightarrow> bool \<Rightarrow>
   ('x, 'g, design_result) act" where
  "run_design C ctx prd ref nfr acc skip =
     try_except
       (design_steps C ctx prd (if ref = [] then ''PRD-'' @ ac_task_id ctx else ref) nfr acc skip)
       any_exception (\<lambda>e. ret (design_failed (message_of e)))"

definition run_from_hitl2_approval ::
  "('x, 'g) design_coordinator \<Rightarrow> agent_context \<Rightarrow> tech_survey \<Rightarrow> architecture \<Rightarrow> string \<Rightarrow> string \<Rightarrow> bool \<Rightarrow>
   ('x, 'g, design_result) act" where
  "run_from_hitl2_approval C ctx t a prd acc skip =
     try_except (plan_steps C ctx t a prd acc skip None) any_exception (\<lambda>e. ret (design_failed (message_of e)))"

definition handle_design_rejection :: "string \<Rightarrow> string \<Rightarrow> design_result" where
  "handle_design_rejection gate feedback = design_failed (''Rejected at '' @ gate @ '': '' @ feedback)"

definition design_agent_statuses :: "string pydict" where
  "design_agent_statuses =
     [(''surveyor_agent'', ''ready''), (''architect_agent'', ''ready''), (''planner_agent'', ''ready'')]"

section \<open>Results of the phase\<close>

text \<open>A result is a failure with a message, waits for one of the gates, or carries all three documents.\<close>

definition wf_design_result :: "design_result \<Rightarrow> bool" where
  "wf_design_result r \<longleftrightarrow>
     (if \<not> dz_success r then dz_error_message r \<noteq> None \<and> dz_hitl2_request_id r = None \<and> dz_hitl3_request_id r = None
      else dz_error_message r = None \<and>
        (truthy (dz_hitl2_request_id r) \<or> truthy (dz_hitl3_request_id r) \<or>
         dz_tech_survey r \<noteq> None \<and> dz_architecture r \<noteq> None \<and> dz_implementation_plan r \<noteq> None))"

definition waits :: "design_result \<Rightarrow> bool" where
  "waits r \<longleftrightarrow> dz_hitl2_request_id r \<noteq> None \<or> dz_hitl3_request_id r \<noteq> None"

lemma wf_design_simps [simp]:
  "wf_design_result (design_failed err)" "wf_design_result (design_succeeded t a p h2 h3)"
  "wf_design_result (design_pending_hitl2 rid) \<longleftrightarrow> rid \<noteq> []"
  "wf_design_result (design_pending_hitl3 t a rid) \<longleftrightarrow> rid \<noteq> []"
  "\<not> waits (design_failed err)" "waits (design_succeeded t a p h2 h3) \<longleftrightarrow> h2 \<noteq> None \<or> h3 \<noteq> None"
  by (auto simp: wf_design_result_def waits_def design_failed_def design_succeeded_def design_pending_hitl2_def
      design_pending_hitl3_def)

lemma design_steps_wf:
  "returns wf_design_result (design_steps C ctx prd ref nfr acc skip)"
  "returns wf_design_result (plan_steps C ctx t a prd acc skip h2)"
proof -
  have p: "returns wf_design_result (plan_steps C ctx t a prd acc skip h2)" for t a skip h2
    unfolding plan_steps_def by (auto intro!: returns_bindE returns_ret simp: truthy_def split: option.split)
  then show "returns wf_design_result (plan_steps C ctx t a prd acc skip h2)" .
  show "returns wf_design_result (design_steps C ctx prd ref nfr acc skip)"
    unfolding design_steps_def architecture_steps_def
    by (auto intro!: returns_bindE returns_ret p simp: truthy_def split: option.split)
qed

lemma no_submission:
  "dsn_hitl_dispatcher C = Some hitl_dispatcher_submit \<Longrightarrow> returns (\<lambda>h. h = None) (submit_bundle C gate ctx bundle)"
  by (cases "bundle") (auto simp: submit_bundle_def returns_def or_none_def try_except_def bindE_def ret_def
      hitl_dispatcher_submit_def raise_def lift_result_def)

text \<open>C36: The design phase never raises and its results are well formed.  With the dispatcher of the
  program neither gate is ever opened: the phase runs to its end and no result waits for a decision.\<close>

theorem design_gates_stay_closed:
  fixes C :: "('x, 'g) design_coordinator"
  defines "D \<equiv> C\<lparr>dsn_hitl_dispatcher := Some hitl_dispatcher_submit\<rparr>"
  shows "(\<exists>r w'. run_design C ctx prd ref nfr acc skip w = (Inr r, w') \<and> wf_design_result r) \<and>
    (\<exists>r w'. run_design D ctx prd ref nfr acc skip w = (Inr r, w') \<and> wf_design_result r \<and> \<not> waits r) \<and>
    (\<exists>r w'. run_from_hitl2_approval D ctx t a prd acc skip w = (Inr r, w') \<and> wf_design_result r \<and> \<not> waits r)"
proof (intro conjI)
  have d: "dsn_hitl_dispatcher D = Some hitl_dispatcher_submit" by (simp add: D_def)
  let ?P = "\<lambda>r. wf_design_result r \<and> \<not> waits r"
  have p: "returns ?P (plan_steps D ctx t a prd acc skip None)" for t a skip
    unfolding plan_steps_def submit_hitl3_def
    by (auto intro!: returns_bindE returns_ret returns_bindE_value [OF no_submission [OF d]] split: option.split)
  have s: "returns ?P (design_steps D ctx prd r nfr acc skip)" for r
    unfolding design_steps_def architecture_steps_def submit_hitl2_def
    by (auto intro!: returns_bindE returns_ret returns_bindE_value [OF no_submission [OF d]] p split: option.split)
  show "\<exists>r w'. run_design C ctx prd ref nfr acc skip w = (Inr r, w') \<and> wf_design_result r"
    unfolding run_design_def by (rule guarded_returns [OF design_steps_wf(1)]) simp
  show "\<exists>r w'. run_design D ctx prd ref nfr acc skip w = (Inr r, w') \<and> wf_design_result r \<and> \<not> waits r"
    unfolding run_design_def by (rule guarded_returns [OF s]) simp
  show "\<exists>r w'. run_from_hitl2_approval D ctx t a prd acc skip w = (Inr r, w') \<and> wf_design_result r \<and> \<not> waits r"
    unfolding run_from_hitl2_approval_def by (rule guarded_returns [OF p]) simp
qed

end
