(* ===== verification/Discovery_Models.thy ===== *)
theory Discovery_Models
  imports Codecs Complex_Main
begin

text \<open>
  The data of the discovery phase (\<^verbatim>\<open>src/workers/agents/discovery/models.py\<close>): requirements
  documents with nested sections, acceptance criteria and the coverage of requirements by
  criteria.  The markdown renderings are not modelled.
\<close>

datatype requirement_priority = RP_MUST_HAVE | RP_SHOULD_HAVE | RP_COULD_HAVE | RP_WONT_HAVE

fun requirement_priority_value :: "requirement_priority \<Rightarrow> string" where
  "requirement_priority_value RP_MUST_HAVE = ''must_have''"
| "requirement_priority_value RP_SHOULD_HAVE = ''should_have''"
| "requirement_priority_value RP_COULD_HAVE = ''could_have''"
| "requirement_priority_value RP_WONT_HAVE = ''wont_have''"

definition requirement_priority_of :: "json \<Rightarrow> exn + requirement_priority" where
  "requirement_priority_of = enum_of_json ''RequirementPriority'' requirement_priority_value
     [RP_MUST_HAVE, RP_SHOULD_HAVE, RP_COULD_HAVE, RP_WONT_HAVE]"

lemma requirement_priority_of_value [codec]: "requirement_priority_of (JStr (requirement_priority_value v)) = Inr v"
  by (cases v) (simp_all add: requirement_priority_of_def enum_of_json_def)

datatype requirement_type = RT_FUNCTIONAL | RT_NON_FUNCTIONAL | RT_CONSTRAINT | RT_ASSUMPTION

fun requirement_type_value :: "requirement_type \<Rightarrow> string" where
  "requirement_type_value RT_FUNCTIONAL = ''functional''"
| "requirement_type_value RT_NON_FUNCTIONAL = ''non_functional''"
| "requirement_type_value RT_CONSTRAINT = ''constraint''"
| "requirement_type_value RT_ASSUMPTION = ''assumption''"

definition requirement_type_of :: "json \<Rightarrow> exn + requirement_type" where
  "requirement_type_of = enum_of_json ''RequirementType'' requirement_type_value [RT_FUNCTIONAL,
     RT_NON_FUNCTIONAL, RT_CONSTRAINT, RT_ASSUMPTION]"

lemma requirement_type_of_value [codec]: "requirement_type_of (JStr (requirement_type_value v)) = Inr v"
  by (cases v) (simp_all add: requirement_type_of_def enum_of_json_def)

record requirement =
  rq_id :: json
  rq_description :: json
  rq_priority :: requirement_priority
  rq_type :: requirement_type
  rq_rationale :: json
  rq_source :: json
  rq_metadata :: json

definition requirement_to_dict :: "requirement \<Rightarrow> json" where
  "requirement_to_dict r = JObj [(''id'', rq_id r), (''description'', rq_description r),
     (''priority'', JStr (requirement_priority_value (rq_priority r))),
     (''type'', JStr (requirement_type_value (rq_type r))), (''rationale'', rq_rationale r),
     (''source'', rq_source r), (''metadata'', rq_metadata r)]"

definition requirement_of_dict :: "json \<Rightarrow> exn + requirement" where
  "requirement_of_dict j =
     bind_sum (as_dict j) (\<lambda>d.
     bind_sum (requirement_priority_of (dget d ''priority'' (JStr ''should_have''))) (\<lambda>x1.
     bind_sum (requirement_type_of (dget d ''type'' (JStr ''functional''))) (\<lambda>x2.
       Inr \<lparr>rq_id = dget d ''id'' (JStr []),
            rq_description = dget d ''description'' (JStr []), rq_priority = x1, rq_type = x2,
            rq_rationale = dget d ''rationale'' (JStr []),
            rq_source = dget d ''source'' (JStr []),
            rq_metadata = dget d ''metadata'' (JObj [])\<rparr>)))"

lemma requirement_reads_back [codec]: "requirement_of_dict (requirement_to_dict r) = Inr r"
  by (simp add: requirement_to_dict_def requirement_of_dict_def codec)

text \<open>A section holds its requirements and its subsections.\<close>

datatype prd_section =
  PRD_Section (pd_title: json) (pd_content: json) (pd_requirements: "requirement list")
    (pd_subsections: "prd_section list")

fun prd_section_to_dict :: "prd_section \<Rightarrow> json" where
  "prd_section_to_dict (PRD_Section t c rs ss) =
     JObj [(''title'', t), (''content'', c), (''requirements'', JList (map requirement_to_dict rs)),
           (''subsections'', JList (map prd_section_to_dict ss))]"

lemma map_result_cong [fundef_cong]:
  "xs = ys \<Longrightarrow> (\<And>x. x \<in> set ys \<Longrightarrow> f x = g x) \<Longrightarrow> map_result f xs = map_result g ys"
proof (induction ys arbitrary: xs)
  case (Cons y ys)
  have "map_result f ys = map_result g ys" using Cons.prems(2) by (intro Cons.IH) simp_all
  moreover have "f y = g y" using Cons.prems(2) by simp
  ultimately show ?case unfolding Cons.prems(1) by (simp only: map_result.simps)
qed simp

lemma json_size_member: "(k, v) \<in> set d \<Longrightarrow> size v < size (JObj d)"
  by (induction d) (auto simp: less_Suc_eq)

lemma json_size_dget:
  assumes "dget d k (JList []) = JList xs" "x \<in> set xs"
  shows "size x < size (JObj d)"
proof -
  from assms have "map_of d k = Some (JList xs)"
    by (auto simp: dget_def split: option.splits)
  then have "size (JList xs) < size (JObj d)" by (blast dest: map_of_SomeD json_size_member)
  moreover have "size x < size (JList xs)"
    using assms(2) by (simp add: less_Suc_eq_le size_list_estimation')
  ultimately show ?thesis by simp
qed

text \<open>Subsections that are no list are the keys of a dictionary or the characters of a string, which
  are no dictionaries.\<close>

function prd_section_of_dict :: "json \<Rightarrow> exn + prd_section" where
  "prd_section_of_dict j =
     (case j of
        JObj d \<Rightarrow>
          bind_sum (list_of_json requirement_of_dict (dget d ''requirements'' (JList []))) (\<lambda>rs.
          bind_sum
            (case dget d ''subsections'' (JList []) of
               JList xs \<Rightarrow> map_result prd_section_of_dict xs
             | v \<Rightarrow>
                 (case json_iter v of
                    Inl e \<Rightarrow> Inl e
                  | Inr vs \<Rightarrow> if vs = [] then Inr [] else Inl (Exn PyAttributeError ''object has no attribute get''))) (\<lambda>ss.
            Inr (PRD_Section (dget d ''title'' (JStr [])) (dget d ''content'' (JStr [])) rs ss)))
      | _ \<Rightarrow> Inl (Exn PyAttributeError ''object has no attribute get''))"
  by pat_completeness auto

termination
  by (relation "measure size") (auto dest: json_size_dget)

declare prd_section_of_dict.simps [simp del]

lemma prd_section_reads_back [codec]: "prd_section_of_dict (prd_section_to_dict s) = Inr s"
proof (induction s)
  case (PRD_Section t c rs ss)
  then show ?case
    by (subst prd_section_of_dict.simps) (simp add: codec map_result_map)
qed

record prd_document =
  pr_title :: json
  pr_version :: json
  pr_created_at :: datetime
  pr_executive_summary :: json
  pr_objectives :: prd_section
  pr_scope :: prd_section
  pr_sections :: "prd_section list"
  pr_all_requirements :: "requirement list"
  pr_metadata :: json

definition prd_document_to_dict :: "prd_document \<Rightarrow> json" where
  "prd_document_to_dict r = JObj [(''title'', pr_title r), (''version'', pr_version r),
     (''created_at'', JStr (isoformat (pr_created_at r))),
     (''executive_summary'', pr_executive_summary r),
     (''objectives'', prd_section_to_dict (pr_objectives r)),
     (''scope'', prd_section_to_dict (pr_scope r)),
     (''sections'', JList (map prd_section_to_dict (pr_sections r))),
     (''all_requirements'', JList (map requirement_to_dict (pr_all_requirements r))),
     (''metadata'', pr_metadata r)]"

definition prd_document_of_dict :: "datetime \<Rightarrow> json \<Rightarrow> exn + prd_document" where
  "prd_document_of_dict now j =
     bind_sum (as_dict j) (\<lambda>d.
     bind_sum (stamp_of_json now d ''created_at'') (\<lambda>x1.
     bind_sum (prd_section_of_dict (dget d ''objectives'' (JObj []))) (\<lambda>x2.
     bind_sum (prd_section_of_dict (dget d ''scope'' (JObj []))) (\<lambda>x3.
     bind_sum (list_of_json prd_section_of_dict (dget d ''sections'' (JList []))) (\<lambda>x4.
     bind_sum (list_of_json requirement_of_dict (dget d ''all_requirements'' (JList []))) (\<lambda>x5.
       Inr \<lparr>pr_title = dget d ''title'' (JStr []),
            pr_version = dget d ''version'' (JStr ''1.0.0''), pr_created_at = x1,
            pr_executive_summary = dget d ''executive_summary'' (JStr []), pr_objectives = x2,
            pr_scope = x3, pr_sections = x4, pr_all_requirements = x5,
            pr_metadata = dget d ''metadata'' (JObj [])\<rparr>))))))"

definition prd_document_times :: "prd_document \<Rightarrow> bool" where
  "prd_document_times r \<longleftrightarrow> valid_datetime (pr_created_at r)"

lemma prd_document_reads_back [codec]: "prd_document_times r \<Longrightarrow> prd_document_of_dict now (prd_document_to_dict r) = Inr r"
  by (simp add: prd_document_to_dict_def prd_document_of_dict_def prd_document_times_def codec)

definition prd_document_to_json :: "nat \<Rightarrow> prd_document \<Rightarrow> exn + string" where
  "prd_document_to_json limit r = dumps_within limit (prd_document_to_dict r)"

definition prd_document_of_json :: "nat \<Rightarrow> datetime \<Rightarrow> string \<Rightarrow> exn + prd_document" where
  "prd_document_of_json limit now s = bind_sum (loads_within limit s) (prd_document_of_dict now)"

fun collect_requirements :: "prd_section \<Rightarrow> requirement list" where
  "collect_requirements (PRD_Section t c rs ss) = rs @ concat (map collect_requirements ss)"

definition create_prd ::
  "datetime \<Rightarrow> json \<Rightarrow> json \<Rightarrow> prd_section \<Rightarrow> prd_section \<Rightarrow> prd_section list \<Rightarrow> json \<Rightarrow> prd_document" where
  "create_prd now title summary objectives scope sections version =
     \<lparr>pr_title = title, pr_version = version, pr_created_at = now, pr_executive_summary = summary,
      pr_objectives = objectives, pr_scope = scope, pr_sections = sections,
      pr_all_requirements = concat (map collect_requirements (objectives # scope # sections)),
      pr_metadata = JObj []\<rparr>"

definition get_requirement_by_id :: "prd_document \<Rightarrow> json \<Rightarrow> requirement option" where
  "get_requirement_by_id p i = find (\<lambda>r. rq_id r = i) (pr_all_requirements p)"

section \<open>Acceptance criteria\<close>

record acceptance_criterion =
  cn_id :: json
  cn_requirement_ids :: json
  cn_given :: json
  cn_when :: json
  cn_then :: json
  cn_notes :: json
  cn_metadata :: json

definition acceptance_criterion_to_dict :: "acceptance_criterion \<Rightarrow> json" where
  "acceptance_criterion_to_dict r = JObj [(''id'', cn_id r),
     (''requirement_ids'', cn_requirement_ids r), (''given'', cn_given r), (''when'', cn_when r),
     (''then'', cn_then r), (''notes'', cn_notes r), (''metadata'', cn_metadata r)]"

definition acceptance_criterion_of_dict :: "json \<Rightarrow> exn + acceptance_criterion" where
  "acceptance_criterion_of_dict j =
     bind_sum (as_dict j) (\<lambda>d.
       Inr \<lparr>cn_id = dget d ''id'' (JStr []),
            cn_requirement_ids = dget d ''requirement_ids'' (JList []),
            cn_given = dget d ''given'' (JStr []), cn_when = dget d ''when'' (JStr []),
            cn_then = dget d ''then'' (JStr []), cn_notes = dget d ''notes'' (JStr []),
            cn_metadata = dget d ''metadata'' (JObj [])\<rparr>)"

lemma acceptance_criterion_reads_back [codec]: "acceptance_criterion_of_dict (acceptance_criterion_to_dict r) = Inr r"
  by (simp add: acceptance_criterion_to_dict_def acceptance_criterion_of_dict_def codec)

record coverage_entry =
  ce_requirement_id :: json
  ce_criterion_ids :: json
  ce_coverage_level :: json

definition coverage_entry_to_dict :: "coverage_entry \<Rightarrow> json" where
  "coverage_entry_to_dict r = JObj [(''requirement_id'', ce_requirement_id r),
     (''criterion_ids'', ce_criterion_ids r), (''coverage_level'', ce_coverage_level r)]"

definition coverage_entry_of_dict :: "json \<Rightarrow> exn + coverage_entry" where
  "coverage_entry_of_dict j =
     bind_sum (as_dict j) (\<lambda>d.
       Inr \<lparr>ce_requirement_id = dget d ''requirement_id'' (JStr []),
            ce_criterion_ids = dget d ''criterion_ids'' (JList []),
            ce_coverage_level = dget d ''coverage_level'' (JStr ''full'')\<rparr>)"

lemma coverage_entry_reads_back [codec]: "coverage_entry_of_dict (coverage_entry_to_dict r) = Inr r"
  by (simp add: coverage_entry_to_dict_def coverage_entry_of_dict_def codec)

record acceptance_criteria =
  aa_prd_version :: json
  aa_created_at :: datetime
  aa_criteria :: "acceptance_criterion list"
  aa_coverage_matrix :: "coverage_entry list"
  aa_metadata :: json

definition acceptance_criteria_to_dict :: "acceptance_criteria \<Rightarrow> json" where
  "acceptance_criteria_to_dict r = JObj [(''prd_version'', aa_prd_version r),
     (''created_at'', JStr (isoformat (aa_created_at r))),
     (''criteria'', JList (map acceptance_criterion_to_dict (aa_criteria r))),
     (''coverage_matrix'', JList (map coverage_entry_to_dict (aa_coverage_matrix r))),
     (''metadata'', aa_metadata r)]"

definition acceptance_criteria_of_dict :: "datetime \<Rightarrow> json \<Rightarrow> exn + acceptance_criteria" where
  "acceptance_criteria_of_dict now j =
     bind_sum (as_dict j) (\<lambda>d.
     bind_sum (stamp_of_json now d ''created_at'') (\<lambda>x1.
     bind_sum (list_of_json acceptance_criterion_of_dict (dget d ''criteria'' (JList []))) (\<lambda>x2.
     bind_sum (list_of_json coverage_entry_of_dict (dget d ''coverage_matrix'' (JList []))) (\<lambda>x3.
       Inr \<lparr>aa_prd_version = dget d ''prd_version'' (JStr []), aa_created_at = x1,
            aa_criteria = x2, aa_coverage_matrix = x3,
            aa_metadata = dget d ''metadata'' (JObj [])\<rparr>))))"

definition acceptance_criteria_times :: "acceptance_criteria \<Rightarrow> bool" where
  "acceptance_criteria_times r \<longleftrightarrow> valid_datetime (aa_created_at r)"

lemma acceptance_criteria_reads_back [codec]: "acceptance_criteria_times r \<Longrightarrow> acceptance_criteria_of_dict now (acceptance_criteria_to_dict r) = Inr r"
  by (simp add: acceptance_criteria_to_dict_def acceptance_criteria_of_dict_def acceptance_criteria_times_def codec)

definition acceptance_criteria_to_json :: "nat \<Rightarrow> acceptance_criteria \<Rightarrow> exn + string" where
  "acceptance_criteria_to_json limit r = dumps_within limit (acceptance_criteria_to_dict r)"

definition acceptance_criteria_of_json :: "nat \<Rightarrow> datetime \<Rightarrow> string \<Rightarrow> exn + acceptance_criteria" where
  "acceptance_criteria_of_json limit now s = bind_sum (loads_within limit s) (acceptance_criteria_of_dict now)"

text \<open>The identifiers of one criterion are added to the requirements it names; a name that is no
  string is no key, and one that cannot be hashed is an error.\<close>

fun cover_ids :: "json \<Rightarrow> json list \<Rightarrow> json list pydict \<Rightarrow> exn + json list pydict" where
  "cover_ids i [] cov = Inr cov"
| "cover_ids i (v # vs) cov =
     (if \<not> hashable v then Inl (Exn PyTypeError ''unhashable type'')
      else
        cover_ids i vs
          (case v of
             JStr s \<Rightarrow> (case map_of cov s of None \<Rightarrow> cov | Some is \<Rightarrow> dset s (is @ [i]) cov)
           | _ \<Rightarrow> cov))"

fun cover_all :: "acceptance_criterion list \<Rightarrow> json list pydict \<Rightarrow> exn + json list pydict" where
  "cover_all [] cov = Inr cov"
| "cover_all (c # cs) cov =
     bind_sum (json_iter (cn_requirement_ids c)) (\<lambda>vs.
     bind_sum (cover_ids (cn_id c) vs cov) (\<lambda>cov'. cover_all cs cov'))"

definition coverage_level :: "json list \<Rightarrow> string" where
  "coverage_level is = (if is = [] then ''none'' else if 2 \<le> length is then ''full'' else ''partial'')"

definition create_acceptance ::
  "datetime \<Rightarrow> json \<Rightarrow> acceptance_criterion list \<Rightarrow> string list \<Rightarrow> exn + acceptance_criteria" where
  "create_acceptance now version criteria ids =
     bind_sum (cover_all criteria (fold (\<lambda>r d. dset r [] d) ids [])) (\<lambda>cov.
       Inr \<lparr>aa_prd_version = version, aa_created_at = now, aa_criteria = criteria,
            aa_coverage_matrix =
              map (\<lambda>(r, is). \<lparr>ce_requirement_id = JStr r, ce_criterion_ids = JList is,
                             ce_coverage_level = JStr (coverage_level is)\<rparr>) cov,
            aa_metadata = JObj []\<rparr>)"

definition get_uncovered_requirements :: "acceptance_criteria \<Rightarrow> json list" where
  "get_uncovered_requirements a =
     map ce_requirement_id (filter (\<lambda>e. ce_coverage_level e = JStr ''none'') (aa_coverage_matrix a))"

definition get_coverage_percentage :: "acceptance_criteria \<Rightarrow> rat" where
  "get_coverage_percentage a =
     (if aa_coverage_matrix a = [] then 0
      else of_nat (length (filter (\<lambda>e. ce_coverage_level e \<in> {JStr ''full'', JStr ''partial''})
             (aa_coverage_matrix a))) / of_nat (length (aa_coverage_matrix a)) * 100)"


section \<open>Documents read back\<close>

text \<open>How deep the sections of a document are nested, and what that means for its JSON: a section is an
  object with a list of subsections.\<close>

fun section_levels :: "prd_section \<Rightarrow> nat" where
  "section_levels (PRD_Section t c rs ss) = Suc (foldr max (map section_levels ss) 0)"

lemma foldr_max_in: "xs \<noteq> [] \<Longrightarrow> foldr max xs 0 \<in> set xs" for xs :: "nat list"
  by (induction xs rule: list_nonempty_induct) (auto simp: max_def)

lemma section_depth: "2 * section_levels s \<le> json_depth (prd_section_to_dict s)"
proof (induction s)
  case (PRD_Section t c rs ss)
  let ?subs = "JList (map prd_section_to_dict ss)"
  have "2 * foldr max (map section_levels ss) 0 + 1 \<le> json_depth ?subs"
  proof (cases "ss = []")
    case False
    then obtain s where s: "s \<in> set ss" "foldr max (map section_levels ss) 0 = section_levels s"
      using foldr_max_in [of "map section_levels ss"] by auto
    then have "Suc (json_depth (prd_section_to_dict s)) \<le> json_depth ?subs"
      by (intro json_depth_member) simp
    with PRD_Section.IH [OF s(1)] s(2) show ?thesis by simp
  qed simp
  moreover have "Suc (json_depth ?subs) \<le> json_depth (prd_section_to_dict (PRD_Section t c rs ss))"
    unfolding prd_section_to_dict.simps by (rule json_depth_field [of "''subsections''"]) simp
  ultimately show ?case by simp
qed

lemma document_depth:
  assumes "s \<in> set (pr_sections p)"
  shows "2 * section_levels s + 2 \<le> json_depth (prd_document_to_dict p)"
proof -
  have "Suc (json_depth (prd_section_to_dict s)) \<le> json_depth (JList (map prd_section_to_dict (pr_sections p)))"
    by (rule json_depth_member) (use assms in simp)
  moreover have "Suc (json_depth (JList (map prd_section_to_dict (pr_sections p)))) \<le> json_depth (prd_document_to_dict p)"
    unfolding prd_document_to_dict_def by (rule json_depth_field [of "''sections''"]) simp
  ultimately show ?thesis using section_depth [of s] by simp
qed

text \<open>C40: What the discovery phase stores as JSON reads back as it was, when its free fields are JSON
  values and its time stamps are representable, and when it is not nested deeper than the
  interpreter's stack allows; otherwise it is not written but a \<^verbatim>\<open>RecursionError\<close> is raised, in
  particular when twice the levels of a section, and two for the document, exceed the limit.\<close>

theorem discovery_documents_read_back:
  assumes "json_wf (prd_document_to_dict p)" "prd_document_times p"
    and "json_wf (acceptance_criteria_to_dict a)" "acceptance_criteria_times a"
  shows "(if json_depth (prd_document_to_dict p) \<le> limit
      then \<exists>t. prd_document_to_json limit p = Inr t \<and> prd_document_of_json limit now t = Inr p
      else prd_document_to_json limit p = Inl recursion_error) \<and>
    ((\<exists>s \<in> set (pr_sections p). limit < 2 * section_levels s + 2) \<longrightarrow>
      prd_document_to_json limit p = Inl recursion_error) \<and>
    (if json_depth (acceptance_criteria_to_dict a) \<le> limit
      then \<exists>t. acceptance_criteria_to_json limit a = Inr t \<and> acceptance_criteria_of_json limit now t = Inr a
      else acceptance_criteria_to_json limit a = Inl recursion_error)"
proof -
  have "limit < json_depth (prd_document_to_dict p)" if "s \<in> set (pr_sections p)" "limit < 2 * section_levels s + 2" for s
    using document_depth [OF that(1)] that(2) by linarith
  then show ?thesis
    using dumps_within_reads_back [OF assms(1), of limit] dumps_within_reads_back [OF assms(3), of limit] assms(2,4)
    by (auto simp: prd_document_of_json_def prd_document_to_json_def acceptance_criteria_of_json_def
        acceptance_criteria_to_json_def codec split: if_splits)
qed

definition demo_requirement :: requirement where
  "demo_requirement =
     \<lparr>rq_id = JStr ''R1'', rq_description = JStr ''d'', rq_priority = RP_MUST_HAVE, rq_type = RT_FUNCTIONAL,
      rq_rationale = JStr [], rq_source = JStr [], rq_metadata = JObj []\<rparr>"

definition demo_section :: prd_section where
  "demo_section = PRD_Section (JStr ''t'') (JStr ''c'') [demo_requirement] [PRD_Section (JStr ''u'') (JStr []) [] []]"

definition demo_prd :: prd_document where
  "demo_prd = create_prd (utc_datetime 5) (JStr ''Title'') (JStr ''s'') demo_section demo_section [demo_section] (JStr ''1.0.0'')"

definition demo_criterion :: acceptance_criterion where
  "demo_criterion =
     \<lparr>cn_id = JStr ''A1'', cn_requirement_ids = JList [JStr ''R1'', JStr ''R1''], cn_given = JStr [], cn_when = JStr [],
      cn_then = JStr [], cn_notes = JStr [], cn_metadata = JObj []\<rparr>"

definition demo_acceptance :: acceptance_criteria where
  "demo_acceptance =
     \<lparr>aa_prd_version = JStr ''1.0.0'', aa_created_at = utc_datetime 5, aa_criteria = [demo_criterion],
      aa_coverage_matrix =
        [\<lparr>ce_requirement_id = JStr ''R1'', ce_criterion_ids = JList [JStr ''A1'', JStr ''A1''], ce_coverage_level = JStr ''full''\<rparr>,
         \<lparr>ce_requirement_id = JStr ''R2'', ce_criterion_ids = JList [], ce_coverage_level = JStr ''none''\<rparr>],
      aa_metadata = JObj []\<rparr>"

lemma demo_acceptance_created:
  "create_acceptance (utc_datetime 5) (JStr ''1.0.0'') [demo_criterion] [''R1'', ''R2''] = Inr demo_acceptance"
  by (simp add: create_acceptance_def demo_criterion_def demo_acceptance_def json_iter_def hashable_def coverage_level_def)

theorem discovery_documents_read_back_witness:
  "(\<exists>t. prd_document_to_json 900 demo_prd = Inr t \<and> prd_document_of_json 900 (utc_datetime 0) t = Inr demo_prd) \<and>
   prd_document_to_json 5 demo_prd = Inl recursion_error"
proof -
  have t: "valid_datetime (utc_datetime 5)" by (rule valid_utc_datetime) simp_all
  have "json_wf (prd_document_to_dict demo_prd)" "json_wf (acceptance_criteria_to_dict demo_acceptance)"
    by (simp_all add: prd_document_to_dict_def demo_prd_def create_prd_def demo_section_def demo_requirement_def
        requirement_to_dict_def acceptance_criteria_to_dict_def demo_acceptance_def demo_criterion_def
        acceptance_criterion_to_dict_def coverage_entry_to_dict_def)
  moreover have "prd_document_times demo_prd" "acceptance_criteria_times demo_acceptance"
    using t by (simp_all add: prd_document_times_def demo_prd_def create_prd_def acceptance_criteria_times_def demo_acceptance_def)
  moreover have "json_depth (prd_document_to_dict demo_prd) \<le> 900" "\<exists>s \<in> set (pr_sections demo_prd). 5 < 2 * section_levels s + 2"
    by (simp_all add: prd_document_to_dict_def demo_prd_def create_prd_def demo_section_def demo_requirement_def
        requirement_to_dict_def)
  ultimately show ?thesis
    using discovery_documents_read_back [of demo_prd demo_acceptance 900 "utc_datetime 0"]
      discovery_documents_read_back [of demo_prd demo_acceptance 5 "utc_datetime 0"] by presburger
qed

section \<open>The coverage matrix\<close>

text \<open>The requirements a criterion names, and the criteria that name a requirement, once for each
  time they do.\<close>

definition criterion_names :: "acceptance_criterion \<Rightarrow> json list" where
  "criterion_names c = (case json_iter (cn_requirement_ids c) of Inr vs \<Rightarrow> vs | Inl e \<Rightarrow> [])"

definition mentions :: "acceptance_criterion list \<Rightarrow> string \<Rightarrow> json list" where
  "mentions cs r = concat (map (\<lambda>c. replicate (count_list (criterion_names c) (JStr r)) (cn_id c)) cs)"

definition coverage_of :: "acceptance_criterion list \<Rightarrow> string \<Rightarrow> coverage_entry" where
  "coverage_of cs r =
     \<lparr>ce_requirement_id = JStr r, ce_criterion_ids = JList (mentions cs r),
      ce_coverage_level = JStr (coverage_level (mentions cs r))\<rparr>"

lemma map_fst_dset_present: "map_of d k = Some w \<Longrightarrow> map fst (dset k v d) = map fst d"
  by (induction d) (auto split: if_splits)

lemma cover_ids_effect:
  assumes "cover_ids i vs cov = Inr cov'"
  shows "map fst cov' = map fst cov \<and>
    (\<forall>r is. map_of cov r = Some is \<longrightarrow> map_of cov' r = Some (is @ replicate (count_list vs (JStr r)) i))"
  using assms
proof (induction vs arbitrary: cov)
  case (Cons v vs)
  define cov1 where "cov1 = (case v of
      JStr s \<Rightarrow> (case map_of cov s of None \<Rightarrow> cov | Some is \<Rightarrow> dset s (is @ [i]) cov) | _ \<Rightarrow> cov)"
  have step: "cover_ids i vs cov1 = Inr cov'"
    using Cons.prems by (simp add: cov1_def split: if_splits)
  have keys: "map fst cov1 = map fst cov"
    by (auto simp: cov1_def map_fst_dset_present split: json.splits option.splits)
  have vals: "map_of cov1 r = Some (is @ replicate (if v = JStr r then 1 else 0) i)" if "map_of cov r = Some is" for r "is"
    using that by (auto simp: cov1_def split: json.splits option.splits)
  show ?case
    using Cons.IH [OF step] keys vals by (fastforce simp: replicate_append_same)
qed simp

lemma cover_all_effect:
  assumes "cover_all cs cov = Inr cov'"
  shows "map fst cov' = map fst cov \<and>
    (\<forall>r is. map_of cov r = Some is \<longrightarrow> map_of cov' r = Some (is @ mentions cs r))"
  using assms
proof (induction cs arbitrary: cov)
  case (Cons c cs)
  then obtain vs cov1 where s: "json_iter (cn_requirement_ids c) = Inr vs" "cover_ids (cn_id c) vs cov = Inr cov1"
    "cover_all cs cov1 = Inr cov'"
    by (auto simp: bind_sum_def split: sum.splits)
  have "criterion_names c = vs" by (simp add: criterion_names_def s(1))
  then show ?case
    using cover_ids_effect [OF s(2)] Cons.IH [OF s(3)] by (simp add: mentions_def)
qed (simp add: mentions_def)

lemma initial_coverage:
  "distinct (map fst cov) \<Longrightarrow> distinct (map fst (fold (\<lambda>r d. dset r v d) ids cov)) \<and>
   set (map fst (fold (\<lambda>r d. dset r v d) ids cov)) = set (map fst cov) \<union> set ids"
proof (induction ids arbitrary: cov)
  case (Cons r ids)
  have "distinct (map fst (dset r v cov))" "set (map fst (dset r v cov)) = insert r (set (map fst cov))"
    using Cons.prems by (auto simp: distinct_dset keys_dset)
  with Cons.IH [of "dset r v cov"] show ?case by auto
qed simp

lemma initial_values: "map_of (fold (\<lambda>r d. dset r v d) ids cov) k =
    (if k \<in> set ids then Some v else map_of cov k)"
  by (induction ids arbitrary: cov) auto

text \<open>C38: The coverage matrix has one entry for each requirement identifier, with the criteria that
  name it in their order, and the uncovered requirements are the ones no criterion names.\<close>

theorem coverage_matrix_is_exact:
  assumes "create_acceptance now version cs ids = Inr a"
  shows "distinct (map ce_requirement_id (aa_coverage_matrix a)) \<and>
    set (aa_coverage_matrix a) = coverage_of cs ` set ids \<and>
    set (get_uncovered_requirements a) = JStr ` {r \<in> set ids. mentions cs r = []}"
proof -
  define cov0 where "cov0 = fold (\<lambda>r d. dset r ([] :: json list) d) ids []"
  obtain cov where cov: "cover_all cs cov0 = Inr cov"
    and m: "aa_coverage_matrix a = map (\<lambda>(r, is). \<lparr>ce_requirement_id = JStr r, ce_criterion_ids = JList is,
      ce_coverage_level = JStr (coverage_level is)\<rparr>) cov"
    using assms by (auto simp: create_acceptance_def cov0_def bind_sum_def split: sum.splits)
  have keys: "map fst cov = map fst cov0" using cover_all_effect [OF cov] by simp
  have i: "distinct (map fst cov0)" "set (map fst cov0) = set ids"
    using initial_coverage [of "[] :: (string \<times> json list) list" "[]" ids] unfolding cov0_def by simp_all
  have d: "distinct (map fst cov)" using i(1) keys by simp
  have k: "fst ` set cov = set ids" using i(2) by (simp only: keys [symmetric] set_map)
  have v: "is = mentions cs r" if "(r, is) \<in> set cov" for r "is"
  proof -
    have "r \<in> set ids" using that k by force
    then have "map_of cov0 r = Some []" by (simp add: cov0_def initial_values)
    with cover_all_effect [OF cov] have "map_of cov r = Some (mentions cs r)" by simp
    with that d show ?thesis by simp
  qed
  have m': "aa_coverage_matrix a = map (coverage_of cs) (map fst cov)"
    unfolding m by (auto simp: coverage_of_def dest: v)
  have "map ce_requirement_id (aa_coverage_matrix a) = map JStr (map fst cov)"
    by (simp add: m' coverage_of_def)
  then have "distinct (map ce_requirement_id (aa_coverage_matrix a))"
    using d by (simp only: distinct_map) (simp add: inj_on_def)
  moreover have s: "set (aa_coverage_matrix a) = coverage_of cs ` set ids"
    using k by (simp add: m' image_image [symmetric])
  moreover have "set (get_uncovered_requirements a) = JStr ` {r \<in> set ids. mentions cs r = []}"
  proof -
    have "ce_coverage_level (coverage_of cs r) = JStr ''none'' \<longleftrightarrow> mentions cs r = []"
      "ce_requirement_id (coverage_of cs r) = JStr r" for r
      by (simp_all add: coverage_of_def coverage_level_def)
    then show ?thesis
      unfolding get_uncovered_requirements_def set_map set_filter s by (auto simp: image_def)
  qed
  ultimately show ?thesis by blast
qed

theorem coverage_matrix_is_exact_witness:
  "set (get_uncovered_requirements demo_acceptance) = {JStr ''R2''}"
proof -
  have m: "mentions [demo_criterion] ''R1'' = [JStr ''A1'', JStr ''A1'']" "mentions [demo_criterion] ''R2'' = []"
    by (simp_all add: mentions_def criterion_names_def demo_criterion_def json_iter_def numeral_2_eq_2)
  have "{r \<in> set [''R1'', ''R2'']. mentions [demo_criterion] r = []} = {''R2''}" using m by auto
  with coverage_matrix_is_exact [OF demo_acceptance_created] show ?thesis by simp
qed

end
