(* ===== verification/Discovery_Phase.thy ===== *)
theory Discovery_Phase
  imports Phases Discovery_Models
begin

text \<open>
  \<^verbatim>\<open>src/workers/agents/discovery/coordinator.py\<close>: the PRD agent, then the acceptance agent, each
  document read back from its artifact, then HITL-1.  The agents, the files, the two ways a float
  is written and the depth of the interpreter's stack are parameters.
\<close>

section \<open>Results\<close>

record discovery_result =
  dq_success :: bool
  dq_prd :: "prd_document option"
  dq_acceptance :: "acceptance_criteria option"
  dq_error_message :: "string option"
  dq_gate_request_id :: "string option"
  dq_metadata :: "json pydict"

definition discovery_succeeded ::
  "prd_document \<Rightarrow> acceptance_criteria \<Rightarrow> string option \<Rightarrow> discovery_result" where
  "discovery_succeeded p a rid =
     \<lparr>dq_success = True, dq_prd = Some p, dq_acceptance = Some a, dq_error_message = None,
      dq_gate_request_id = rid, dq_metadata = []\<rparr>"

definition discovery_failed :: "string \<Rightarrow> discovery_result" where
  "discovery_failed err =
     \<lparr>dq_success = False, dq_prd = None, dq_acceptance = None, dq_error_message = Some err,
      dq_gate_request_id = None, dq_metadata = []\<rparr>"

definition discovery_pending :: "string \<Rightarrow> discovery_result" where
  "discovery_pending rid =
     \<lparr>dq_success = True, dq_prd = None, dq_acceptance = None, dq_error_message = None,
      dq_gate_request_id = Some rid, dq_metadata = [(''status'', JStr ''pending_approval'')]\<rparr>"

definition discovery_result_to_dict :: "discovery_result \<Rightarrow> json" where
  "discovery_result_to_dict r =
     JObj [(''success'', JBool (dq_success r)), (''prd'', optional_dict prd_document_to_dict (dq_prd r)),
           (''acceptance_criteria'', optional_dict acceptance_criteria_to_dict (dq_acceptance r)),
           (''error_message'', optional_dict JStr (dq_error_message r)),
           (''gate_request_id'', optional_dict JStr (dq_gate_request_id r)), (''metadata'', JObj (dq_metadata r))]"

record project_context =
  pj_name :: string
  pj_description :: string
  pj_existing_docs_path :: string
  pj_git_sha :: string
  pj_metadata :: "json pydict option"

section \<open>The coordinator\<close>

record ('x, 'g) discovery_coordinator =
  dsc_prd_agent :: "('x, 'g) agent"
  dsc_acceptance_agent :: "('x, 'g) agent"
  dsc_hitl_dispatcher :: "(asdlc_event \<Rightarrow> ('x, 'g, string) act) option"
  dsc_read_text :: "string \<Rightarrow> ('x, 'g, string) act"
  dsc_read_bytes :: "string \<Rightarrow> ('x, 'g, string) act"
  dsc_float :: "rat \<Rightarrow> json"
  dsc_fixed1 :: "rat \<Rightarrow> string"
  dsc_stack :: nat

definition run_prd_agent ::
  "('x, 'g) discovery_coordinator \<Rightarrow> string \<Rightarrow> project_context \<Rightarrow> agent_context \<Rightarrow> ('x, 'g, agent_result) act" where
  "run_prd_agent C input proj ctx =
     ag_execute (dsc_prd_agent C) ctx
       (JObj [(''raw_requirements'', JStr input), (''project_title'', JStr (pj_name proj)),
              (''project_context'', JStr (pj_description proj))])"

text \<open>The acceptance agent is handed the document itself, written here as its dictionary.\<close>

definition run_acceptance_agent ::
  "('x, 'g) discovery_coordinator \<Rightarrow> prd_document \<Rightarrow> agent_context \<Rightarrow> ('x, 'g, agent_result) act" where
  "run_acceptance_agent C p ctx =
     ag_execute (dsc_acceptance_agent C) ctx (JObj [(''prd_document'', prd_document_to_dict p)])"

definition artifact_exists :: "('x, 'g) env \<Rightarrow> string \<Rightarrow> ('x, 'g, bool) act" where
  "artifact_exists E p w = (Inr (path_exists E (path_text p) (repo w)), w)"

definition load_artifact ::
  "('x, 'g) env \<Rightarrow> ('x, 'g) discovery_coordinator \<Rightarrow> (datetime \<Rightarrow> string \<Rightarrow> exn + 'a) \<Rightarrow> string \<Rightarrow>
   ('x, 'g, 'a option) act" where
  "load_artifact E C parse p =
     try_except
       (bindE (artifact_exists E p) (\<lambda>there.
          if \<not> there then ret None
          else
            bindE (dsc_read_text C (path_text p)) (\<lambda>content.
            bindE now_utc (\<lambda>now.
            bindE (lift_result (parse now content)) (\<lambda>d. ret (Some d))))))
       any_exception (\<lambda>_. ret None)"

definition first_path :: "agent_result \<Rightarrow> exn + string" where
  "first_path r =
     (case ar_artifact_paths r of
        [] \<Rightarrow> Inl (Exn PyIndexError ''list index out of range'')
      | p # _ \<Rightarrow> Inr p)"

definition compute_file_hash ::
  "('x, 'g) env \<Rightarrow> ('x, 'g) discovery_coordinator \<Rightarrow> string \<Rightarrow> ('x, 'g, string) act" where
  "compute_file_hash E C p =
     bindE (artifact_exists E p) (\<lambda>there.
       if \<not> there then ret []
       else bindE (dsc_read_bytes C (path_text p)) (\<lambda>b. ret (sha256_hex E b)))"

definition prd_item ::
  "string \<Rightarrow> string \<Rightarrow> prd_document \<Rightarrow> evidence_item" where
  "prd_item p hash d =
     \<lparr>ei_item_type = JStr ''prd'', ei_path = JStr (path_text p),
      ei_description = JStr ''Product Requirements Document'', ei_content_hash = JStr hash,
      ei_metadata = JObj [(''version'', pr_version d), (''title'', pr_title d),
        (''requirement_count'', JInt (int (length (pr_all_requirements d))))]\<rparr>"

definition acceptance_item ::
  "('x, 'g) discovery_coordinator \<Rightarrow> string \<Rightarrow> string \<Rightarrow> acceptance_criteria \<Rightarrow> evidence_item" where
  "acceptance_item C p hash a =
     \<lparr>ei_item_type = JStr ''acceptance_criteria'', ei_path = JStr (path_text p),
      ei_description = JStr ''Acceptance Criteria with Coverage Matrix'', ei_content_hash = JStr hash,
      ei_metadata = JObj [(''prd_version'', aa_prd_version a),
        (''criteria_count'', JInt (int (length (aa_criteria a)))),
        (''coverage_percentage'', dsc_float C (get_coverage_percentage a)),
        (''uncovered_requirements'', JList (get_uncovered_requirements a))]\<rparr>"

definition discovery_summary ::
  "('x, 'g) discovery_coordinator \<Rightarrow> project_context \<Rightarrow> prd_document \<Rightarrow> acceptance_criteria \<Rightarrow> string" where
  "discovery_summary C proj d a =
     py_join '' ''
       ([''Discovery phase complete for '' @ [CHR 0x27] @ pj_name proj @ [CHR 0x27] @ ''.'',
         ''Generated PRD with '' @ int_str (int (length (pr_all_requirements d))) @ '' requirements.'',
         ''Created '' @ int_str (int (length (aa_criteria a))) @ '' acceptance criteria.'',
         ''Coverage: '' @ dsc_fixed1 C (get_coverage_percentage a) @ ''%.''] @
        (let u = get_uncovered_requirements a
         in if u = [] then []
            else [''Warning: '' @ int_str (int (length u)) @ '' requirements have no coverage.'']))"

definition discovery_sha :: "project_context \<Rightarrow> agent_context \<Rightarrow> json" where
  "discovery_sha proj ctx = (if pj_git_sha proj \<noteq> [] then JStr (pj_git_sha proj) else context_sha ctx)"

definition submit_hitl1 ::
  "('x, 'g) env \<Rightarrow> ('x, 'g) discovery_coordinator \<Rightarrow> (asdlc_event \<Rightarrow> ('x, 'g, string) act) \<Rightarrow> project_context \<Rightarrow>
   agent_context \<Rightarrow> agent_result \<Rightarrow> agent_result \<Rightarrow> prd_document \<Rightarrow> acceptance_criteria \<Rightarrow> ('x, 'g, string) act" where
  "submit_hitl1 E C pub proj ctx r1 r2 d a =
     bindE (lift_result (first_path r1)) (\<lambda>p1.
     bindE (compute_file_hash E C p1) (\<lambda>h1.
     bindE (lift_result (first_path r2)) (\<lambda>p2.
     bindE (compute_file_hash E C p2) (\<lambda>h2.
       submit_evidence E pub ctx HITL_1_BACKLOG (discovery_sha proj ctx)
         [prd_item p1 h1 d, acceptance_item C p2 h2 a] (discovery_summary C proj d a) ''discovery_coordinator''))))"

definition discovery_gate ::
  "('x, 'g) env \<Rightarrow> ('x, 'g) discovery_coordinator \<Rightarrow> project_context \<Rightarrow> agent_context \<Rightarrow> bool \<Rightarrow> agent_result \<Rightarrow>
   agent_result \<Rightarrow> prd_document \<Rightarrow> acceptance_criteria \<Rightarrow> ('x, 'g, string option) act" where
  "discovery_gate E C proj ctx submit r1 r2 d a =
     (case dsc_hitl_dispatcher C of
        Some pub \<Rightarrow> if submit then or_none (submit_hitl1 E C pub proj ctx r1 r2 d a) else ret None
      | None \<Rightarrow> ret None)"

definition discovery_done ::
  "('x, 'g) discovery_coordinator \<Rightarrow> string \<Rightarrow> string \<Rightarrow> prd_document \<Rightarrow> acceptance_criteria \<Rightarrow> string option \<Rightarrow>
   discovery_result" where
  "discovery_done C p1 p2 d a rid =
     (discovery_succeeded d a rid)
       \<lparr>dq_metadata :=
          [(''prd_artifact_path'', JStr p1), (''acceptance_artifact_path'', JStr p2),
           (''requirement_count'', JInt (int (length (pr_all_requirements d)))),
           (''criteria_count'', JInt (int (length (aa_criteria a)))),
           (''coverage_percentage'', dsc_float C (get_coverage_percentage a))]\<rparr>"

definition or_text_none :: "string option \<Rightarrow> string" where
  "or_text_none s = (case s of None \<Rightarrow> ''None'' | Some t \<Rightarrow> t)"

definition acceptance_steps ::
  "('x, 'g) env \<Rightarrow> ('x, 'g) discovery_coordinator \<Rightarrow> project_context \<Rightarrow> agent_context \<Rightarrow> bool \<Rightarrow> agent_result \<Rightarrow>
   string \<Rightarrow> prd_document \<Rightarrow> ('x, 'g, discovery_result) act" where
  "acceptance_steps E C proj ctx submit r1 p1 d =
     bindE (run_acceptance_agent C d ctx) (\<lambda>r2.
       if \<not> ar_success r2 then
         ret (discovery_failed (''Acceptance criteria generation failed: '' @ or_text_none (ar_error_message r2)))
       else
         bindE (lift_result (first_path r2)) (\<lambda>p2.
         bindE (load_artifact E C (acceptance_criteria_of_json (dsc_stack C)) p2) (\<lambda>a.
           case a of
             None \<Rightarrow> ret (discovery_failed ''Failed to load generated acceptance criteria artifact'')
           | Some acc \<Rightarrow>
               bindE (discovery_gate E C proj ctx submit r1 r2 d acc) (\<lambda>rid.
                 ret (discovery_done C p1 p2 d acc rid)))))"

definition run_discovery ::
  "('x, 'g) env \<Rightarrow> ('x, 'g) discovery_coordinator \<Rightarrow> string \<Rightarrow> project_context \<Rightarrow> agent_context \<Rightarrow> bool \<Rightarrow>
   ('x, 'g, discovery_result) act" where
  "run_discovery E C input proj ctx submit =
     bindE (run_prd_agent C input proj ctx) (\<lambda>r1.
       if \<not> ar_success r1 then
         ret (discovery_failed (''PRD generation failed: '' @ or_text_none (ar_error_message r1)))
       else
         bindE (lift_result (first_path r1)) (\<lambda>p1.
         bindE (load_artifact E C (prd_document_of_json (dsc_stack C)) p1) (\<lambda>p.
           case p of
             None \<Rightarrow> ret (discovery_failed ''Failed to load generated PRD artifact'')
           | Some d \<Rightarrow> acceptance_steps E C proj ctx submit r1 p1 d)))"

definition run_discovery_workflow ::
  "('x, 'g) env \<Rightarrow> ('x, 'g) discovery_coordinator \<Rightarrow> string \<Rightarrow> string \<Rightarrow> string \<Rightarrow> string \<Rightarrow> string \<Rightarrow> string \<Rightarrow>
   string \<Rightarrow> bool \<Rightarrow> ('x, 'g, discovery_result) act" where
  "run_discovery_workflow E C input name session task workspace desc sha submit =
     run_discovery E C input
       \<lparr>pj_name = name, pj_description = desc, pj_existing_docs_path = [], pj_git_sha = sha, pj_metadata = None\<rparr>
       \<lparr>ac_session_id = session, ac_task_id = task, ac_tenant_id = ''default'', ac_workspace_path = workspace,
        ac_metadata = [(''git_sha'', JStr sha)]\<rparr> submit"

section \<open>Results of the phase\<close>

definition wf_discovery_result :: "discovery_result \<Rightarrow> bool" where
  "wf_discovery_result r \<longleftrightarrow>
     (if dq_success r then
        (\<exists>d a. dq_prd r = Some d \<and> dq_acceptance r = Some a \<and>
           map_of (dq_metadata r) ''requirement_count'' = Some (JInt (int (length (pr_all_requirements d)))) \<and>
           map_of (dq_metadata r) ''criteria_count'' = Some (JInt (int (length (aa_criteria a))))) \<and>
        dq_error_message r = None
      else dq_prd r = None \<and> dq_acceptance r = None \<and> dq_gate_request_id r = None \<and> dq_error_message r \<noteq> None)"

lemma wf_discovery_simps [simp]:
  "wf_discovery_result (discovery_failed err)" "wf_discovery_result (discovery_done C p1 p2 d a rid)"
  by (simp_all add: wf_discovery_result_def discovery_failed_def discovery_done_def discovery_succeeded_def)

lemma acceptance_steps_wf: "returns wf_discovery_result (acceptance_steps E C proj ctx submit r1 p1 d)"
  unfolding acceptance_steps_def by (auto intro!: returns_bindE returns_ret split: option.split)

lemma run_discovery_wf: "returns wf_discovery_result (run_discovery E C input proj ctx submit)"
  unfolding run_discovery_def by (auto intro!: returns_bindE returns_ret acceptance_steps_wf split: option.split)

text \<open>\<open>safe m\<close>: the method does not raise.\<close>

definition safe :: "('s, 'a) io \<Rightarrow> bool" where
  "safe m \<longleftrightarrow> (\<forall>w. \<exists>x. fst (m w) = Inr x)"

lemma safe_pure: "safe (ret x)" "safe (lift_result (Inr x))"
  by (simp_all add: safe_def ret_def lift_result_def)

lemma safe_bindE: "safe m \<Longrightarrow> (\<And>x. safe (f x)) \<Longrightarrow> safe (bindE m f)"
  unfolding safe_def bindE_def by (auto split: sum.split) (metis Inl_Inr_False)

lemma safe_bindE_value: "safe m \<Longrightarrow> returns Q m \<Longrightarrow> (\<And>x. Q x \<Longrightarrow> safe (f x)) \<Longrightarrow> safe (bindE m f)"
  unfolding safe_def returns_def bindE_def by (auto split: sum.split) (metis Inl_Inr_False)

lemma safe_guarded: "safe (try_except m any_exception (\<lambda>e. ret (h e)))"
  by (auto simp: safe_def try_except_def ret_def split: sum.split)

lemma safe_load: "safe (load_artifact E C parse p)"
  unfolding load_artifact_def by (rule safe_guarded)

lemma safe_gate: "safe (discovery_gate E C proj ctx submit r1 r2 d a)"
  using or_none_total by (auto simp: discovery_gate_def safe_def ret_def split: option.split)

text \<open>An agent that does not raise and leaves an artifact when it succeeds.\<close>

definition leaves_artifact :: "('x, 'g) agent \<Rightarrow> bool" where
  "leaves_artifact g \<longleftrightarrow>
     (\<forall>ctx meta. safe (ag_execute g ctx meta) \<and>
        returns (\<lambda>r. ar_success r \<longrightarrow> ar_artifact_paths r \<noteq> []) (ag_execute g ctx meta))"

text \<open>C39: When its agents do not raise and leave an artifact on success, the discovery phase does not
  raise either, whatever the files, the dispatcher and the server do: it ends with both documents
  and their counts, or with an error.\<close>

theorem discovery_does_not_raise:
  assumes "leaves_artifact (dsc_prd_agent C)" "leaves_artifact (dsc_acceptance_agent C)"
  shows "\<exists>r w'. run_discovery E C input proj ctx submit w = (Inr r, w') \<and> wf_discovery_result r"
proof -
  have acc: "safe (acceptance_steps E C proj ctx submit r1 p1 d)" for r1 p1 d
    unfolding acceptance_steps_def
  proof (rule safe_bindE_value)
    show "safe (run_acceptance_agent C d ctx)"
      "returns (\<lambda>r. ar_success r \<longrightarrow> ar_artifact_paths r \<noteq> []) (run_acceptance_agent C d ctx)"
      using assms(2) by (simp_all add: run_acceptance_agent_def leaves_artifact_def)
  qed (auto simp: first_path_def intro!: safe_pure safe_bindE safe_load safe_gate split: list.split option.split)
  have "safe (run_discovery E C input proj ctx submit)"
    unfolding run_discovery_def
  proof (rule safe_bindE_value)
    show "safe (run_prd_agent C input proj ctx)"
      "returns (\<lambda>r. ar_success r \<longrightarrow> ar_artifact_paths r \<noteq> []) (run_prd_agent C input proj ctx)"
      using assms(1) by (simp_all add: run_prd_agent_def leaves_artifact_def)
  qed (auto simp: first_path_def intro!: safe_pure safe_bindE safe_load acc split: list.split option.split)
  then obtain r where "fst (run_discovery E C input proj ctx submit w) = Inr r" unfolding safe_def by blast
  with run_discovery_wf show ?thesis
    unfolding returns_def by (metis prod.collapse)
qed

lemma artifact_missing_raises:
  assumes "run_prd_agent C input proj ctx w = (Inr r, w')" "ar_success r" "ar_artifact_paths r = []"
  shows "run_discovery E C input proj ctx submit w = (Inl (Exn PyIndexError ''list index out of range''), w')"
  using assms by (simp add: run_discovery_def bindE_def first_path_def raise_def)

definition demo_discovery :: "(memstore, string list list) discovery_coordinator" where
  "demo_discovery =
     \<lparr>dsc_prd_agent = fixed_agent (demo_answer ''prd_agent'' [''/w/prd.json''] []),
      dsc_acceptance_agent = fixed_agent (demo_answer ''acceptance_agent'' [''/w/acc.json''] []),
      dsc_hitl_dispatcher = Some (stream_publisher demo_env), dsc_read_text = (\<lambda>_. ret ''{}''),
      dsc_read_bytes = (\<lambda>_. ret ''{}''), dsc_float = (\<lambda>_. JInt 0), dsc_fixed1 = (\<lambda>_. []), dsc_stack = 900\<rparr>"

lemma discovery_does_not_raise_witness:
  "\<exists>r w'. run_discovery demo_env demo_discovery ''build it''
      \<lparr>pj_name = ''p'', pj_description = [], pj_existing_docs_path = [], pj_git_sha = ''abc'', pj_metadata = None\<rparr>
      (demo_ctx []) True mem_world = (Inr r, w') \<and> wf_discovery_result r"
  by (rule discovery_does_not_raise)
    (simp_all add: demo_discovery_def leaves_artifact_def fixed_agent_def demo_answer_def safe_pure returns_def ret_def)

end
