(* ===== verification/Llm_Answers.thy ===== *)
theory Llm_Answers
  imports Phases Regex
begin

text \<open>
  What the agents around a language model share: the artifacts they write
  (\<^verbatim>\<open>src/workers/artifacts/writer.py\<close>), the JSON they look for in an answer (the method
  \<^verbatim>\<open>_parse_json_from_response\<close> of every agent, and \<^verbatim>\<open>ideation/utils.py\<close>), and the results they
  return.  The file system and the model are parameters.
\<close>

section \<open>Paths\<close>

text \<open>A pure path: its root and its components; an absolute right operand of \<^verbatim>\<open>/\<close> replaces the left.\<close>

type_synonym path = "string \<times> string list"

definition path_of :: "string \<Rightarrow> path" where
  "path_of s = (path_root s, path_parts s)"

definition path_div :: "path \<Rightarrow> string \<Rightarrow> path" where
  "path_div p s = (if path_root s \<noteq> [] then path_of s else (fst p, snd p @ path_parts s))"

definition path_as_str :: "path \<Rightarrow> string" where
  "path_as_str p = (if p = ([], []) then ''.'' else fst p @ py_join ''/'' (snd p))"

definition relative_to :: "path \<Rightarrow> path \<Rightarrow> exn + path" where
  "relative_to p q =
     (if fst p = fst q \<and> take (length (snd q)) (snd p) = snd q then Inr ([], drop (length (snd q)) (snd p))
      else Inl (Exn PyValueError (path_as_str p @ '' is not in the subpath of '' @ path_as_str q)))"

section \<open>Artifacts\<close>

datatype writer_type = WT_PATCH | WT_REPORT | WT_TEXT | WT_BINARY | WT_LOG

fun writer_type_name :: "writer_type \<Rightarrow> string" where
  "writer_type_name WT_PATCH = ''patch''"
| "writer_type_name WT_REPORT = ''report''"
| "writer_type_name WT_TEXT = ''text''"
| "writer_type_name WT_BINARY = ''binary''"
| "writer_type_name WT_LOG = ''log''"

fun writer_extension :: "writer_type \<Rightarrow> string" where
  "writer_extension WT_PATCH = ''.patch''"
| "writer_extension WT_REPORT = ''.json''"
| "writer_extension WT_TEXT = ''.txt''"
| "writer_extension WT_BINARY = ''.bin''"
| "writer_extension WT_LOG = ''.log''"

datatype artifact_content = ContentText string | ContentBytes string | ContentDict "json pydict"

record ('x, 'g) artifact_writer =
  aw_workspace :: string
  aw_mkdir :: "string \<Rightarrow> ('x, 'g, unit) act"
  aw_put :: "string \<Rightarrow> string \<Rightarrow> ('x, 'g, unit) act"
  aw_entries :: "string \<Rightarrow> ('x, 'g, (string \<times> bool) list option) act"

definition artifact_dir :: "('x, 'g) artifact_writer \<Rightarrow> string \<Rightarrow> path" where
  "artifact_dir W sid = path_div (path_div (path_of (aw_workspace W)) ''artifacts'') sid"

definition get_artifact_directory :: "('x, 'g) artifact_writer \<Rightarrow> string \<Rightarrow> string" where
  "get_artifact_directory W sid = path_as_str (artifact_dir W sid)"

definition ensure_directory :: "('x, 'g) artifact_writer \<Rightarrow> string \<Rightarrow> ('x, 'g, path) act" where
  "ensure_directory W sid = thenE (aw_mkdir W (get_artifact_directory W sid)) (ret (artifact_dir W sid))"

text \<open>\<^verbatim>\<open>strftime("%Y%m%d_%H%M%S")\<close>, from the fields of the ISO format\<close>

definition compact_stamp :: "datetime \<Rightarrow> string" where
  "compact_stamp t =
     (let s = isoformat t; field = (\<lambda>i n. take n (drop i s))
      in field 0 4 @ field 5 2 @ field 8 2 @ ''_'' @ field 11 2 @ field 14 2 @ field 17 2)"

definition generate_filename :: "string \<Rightarrow> writer_type \<Rightarrow> string option \<Rightarrow> ('x, 'g, string) act" where
  "generate_filename tid ty custom =
     (if truthy custom then ret (the custom)
      else bindE now_utc (\<lambda>now.
        ret (tid @ ''_'' @ writer_type_name ty @ ''_'' @ compact_stamp now @ writer_extension ty)))"

definition content_text :: "artifact_content \<Rightarrow> string" where
  "content_text c = (case c of ContentText s \<Rightarrow> s | ContentBytes s \<Rightarrow> s | ContentDict d \<Rightarrow> dumps_indent 0 (JObj d))"

definition write_artifact ::
  "('x, 'g) artifact_writer \<Rightarrow> string \<Rightarrow> string \<Rightarrow> artifact_content \<Rightarrow> writer_type \<Rightarrow> string option \<Rightarrow> bool \<Rightarrow>
   ('x, 'g, string) act" where
  "write_artifact W sid tid content ty filename relative =
     bindE (ensure_directory W sid) (\<lambda>dir.
     bindE (generate_filename tid ty filename) (\<lambda>name.
     (let p = path_div dir name
      in thenE (aw_put W (path_as_str p) (content_text content))
           (if relative then bindE (lift_result (relative_to p (path_of (aw_workspace W)))) (\<lambda>q. ret (path_as_str q))
            else ret (path_as_str p)))))"

definition write_patch ::
  "('x, 'g) artifact_writer \<Rightarrow> string \<Rightarrow> string \<Rightarrow> string \<Rightarrow> string option \<Rightarrow> bool \<Rightarrow> ('x, 'g, string) act" where
  "write_patch W sid tid s filename relative = write_artifact W sid tid (ContentText s) WT_PATCH filename relative"

definition write_report ::
  "('x, 'g) artifact_writer \<Rightarrow> string \<Rightarrow> string \<Rightarrow> json pydict \<Rightarrow> string option \<Rightarrow> bool \<Rightarrow> ('x, 'g, string) act" where
  "write_report W sid tid d filename relative = write_artifact W sid tid (ContentDict d) WT_REPORT filename relative"

definition list_artifacts :: "('x, 'g) artifact_writer \<Rightarrow> string \<Rightarrow> ('x, 'g, string list) act" where
  "list_artifacts W sid =
     bindE (aw_entries W (get_artifact_directory W sid)) (\<lambda>es.
       ret (case es of
              None \<Rightarrow> []
            | Some xs \<Rightarrow> map (\<lambda>(name, _). path_as_str (path_div (artifact_dir W sid) name)) (filter snd xs)))"

section \<open>JSON in an answer\<close>

definition backticks :: string where
  "backticks = replicate 3 (CHR 0x60)"

text \<open>\<^verbatim>\<open>```json\s*\n?(.*?)\n?```\<close> and the same without the language\<close>

definition block_of :: "re \<Rightarrow> re" where
  "block_of start =
     seqs [start, spaces, opt (lit False [newline]), Grp 1 (Lazy anything), opt (lit False [newline]),
           lit False backticks]"

definition answer_patterns :: "re list" where
  "answer_patterns = [block_of (lit False (backticks @ ''json'')), block_of (lit False backticks)]"

text \<open>From the first opening to the last closing brace\<close>

definition until_last :: "char \<Rightarrow> string \<Rightarrow> string" where
  "until_last c s = rev (dropWhile (\<lambda>d. d \<noteq> c) (rev s))"

definition braces :: "string \<Rightarrow> string option" where
  "braces s =
     (let t = until_last (CHR ''}'') (dropWhile (\<lambda>c. c \<noteq> CHR ''{'') s)
      in if t = [] then None else Some t)"

fun first_some :: "('a \<Rightarrow> 'b option) \<Rightarrow> 'a list \<Rightarrow> 'b option" where
  "first_some f [] = None"
| "first_some f (x # xs) = (case f x of None \<Rightarrow> first_some f xs | Some y \<Rightarrow> Some y)"

text \<open>The decoder is a parameter, as an answer may hold numbers that are no integers.\<close>

definition parse_json_from_response :: "(string \<Rightarrow> json option) \<Rightarrow> string \<Rightarrow> json option" where
  "parse_json_from_response dec s =
     (case dec s of
        Some v \<Rightarrow> Some v
      | None \<Rightarrow>
          (case first_some (\<lambda>p. case re_search p s of
                                  None \<Rightarrow> None
                                | Some (_, t) \<Rightarrow> dec (py_strip (group 1 t))) answer_patterns of
             Some v \<Rightarrow> Some v
           | None \<Rightarrow> (case braces s of None \<Rightarrow> None | Some t \<Rightarrow> dec t)))"

definition loads_opt :: "string \<Rightarrow> json option" where
  "loads_opt s = (case loads s of Inl e \<Rightarrow> None | Inr v \<Rightarrow> Some v)"

lemma fenced_answer_found:
  "parse_json_from_response loads_opt
     (''Sure:'' @ [newline] @ backticks @ ''json'' @ [newline] @ ''{'' @ [CHR 0x22] @ ''a'' @ [CHR 0x22] @ '': 1}'' @
      [newline] @ backticks) = Some (JObj [(''a'', JInt 1)])"
  by code_simp

section \<open>Texts\<close>

text \<open>In the texts of prompts a caret stands for a double quote.\<close>

definition dq :: "string \<Rightarrow> string" where
  "dq = map (\<lambda>c. if c = CHR 0x5E then CHR 0x22 else c)"

text \<open>\<^verbatim>\<open>f"{n:03d}"\<close>\<close>

definition fmt03 :: "nat \<Rightarrow> string" where
  "fmt03 n = (let s = nat_str n in replicate (3 - length s) (CHR ''0'') @ s)"

text \<open>\<^verbatim>\<open>s.title()\<close> of an ASCII text\<close>

fun title_from :: "bool \<Rightarrow> string \<Rightarrow> string" where
  "title_from inside [] = []"
| "title_from inside (c # cs) =
     (let n = code_point (lower_char c); letter = (97 \<le> n \<and> n \<le> 122)
      in (if letter \<and> \<not> inside then char_of (n - 32) else lower_char c) # title_from letter cs)"

definition py_title :: "string \<Rightarrow> string" where
  "py_title = title_from False"

section \<open>Agents\<close>

text \<open>The model as a function from a prompt to the text of its answer, the writer, the decoder, and the
  texts of containers and of floats.\<close>

record ('x, 'g) llm_services =
  ll_generate :: "string \<Rightarrow> ('x, 'g, string) act"
  ll_writer :: "('x, 'g) artifact_writer"
  ll_loads :: "string \<Rightarrow> json option"
  ll_text :: "json \<Rightarrow> string"
  ll_number :: "json \<Rightarrow> string"

definition ask_json :: "('x, 'g) llm_services \<Rightarrow> string \<Rightarrow> ('x, 'g, json option) act" where
  "ask_json L prompt =
     bindE (ll_generate L prompt) (\<lambda>s. ret (parse_json_from_response (ll_loads L) s))"

text \<open>A file under a name of its own, as all agents write theirs\<close>

definition write_named :: "('x, 'g) llm_services \<Rightarrow> agent_context \<Rightarrow> string \<Rightarrow> string \<Rightarrow> ('x, 'g, string) act" where
  "write_named L ctx content suffix =
     write_artifact (ll_writer L) (ac_session_id ctx) (ac_task_id ctx) (ContentText content) WT_REPORT
       (Some (ac_task_id ctx @ suffix)) False"

text \<open>Both forms of a document: its JSON, then its markdown, whose rendering may raise.\<close>

definition write_documents ::
  "('x, 'g) llm_services \<Rightarrow> agent_context \<Rightarrow> string \<Rightarrow> exn + string \<Rightarrow> string \<Rightarrow> ('x, 'g, string list) act" where
  "write_documents L ctx js md base =
     bindE (write_named L ctx js (base @ ''.json'')) (\<lambda>p.
     bindE (lift_result md) (\<lambda>m.
     bindE (write_named L ctx m (base @ ''.md'')) (\<lambda>q.
     ret [p, q])))"

text \<open>The objects of a list in an answer; one with a value that is not known is skipped.\<close>

definition model_items :: "(json \<Rightarrow> exn + 'a) \<Rightarrow> json \<Rightarrow> exn + 'a list" where
  "model_items f v =
     bind_sum (json_iter v) (\<lambda>vs.
     bind_sum (map_result (\<lambda>x.
         case f x of
           Inr y \<Rightarrow> Inr [y]
         | Inl e \<Rightarrow> if class_of e \<in> {PyValueError, PyKeyError} then Inr [] else Inl e) vs) (\<lambda>yss.
       Inr (concat yss)))"

definition agent_failed :: "string \<Rightarrow> agent_context \<Rightarrow> string \<Rightarrow> bool \<Rightarrow> agent_result" where
  "agent_failed ty ctx err retry =
     \<lparr>ar_success = False, ar_agent_type = ty, ar_task_id = ac_task_id ctx, ar_error_message = Some err,
      ar_should_retry = retry, ar_artifact_paths = [], ar_metadata = []\<rparr>"

definition agent_done :: "string \<Rightarrow> agent_context \<Rightarrow> bool \<Rightarrow> string list \<Rightarrow> json pydict \<Rightarrow> agent_result" where
  "agent_done ty ctx ok paths meta =
     \<lparr>ar_success = ok, ar_agent_type = ty, ar_task_id = ac_task_id ctx, ar_error_message = None,
      ar_should_retry = False, ar_artifact_paths = paths, ar_metadata = meta\<rparr>"

text \<open>\<^verbatim>\<open>try: ... except Exception as e: return AgentResult(success=False, ..., should_retry=True)\<close>\<close>

definition guarded_agent :: "string \<Rightarrow> agent_context \<Rightarrow> ('x, 'g, agent_result) act \<Rightarrow> ('x, 'g, agent_result) act" where
  "guarded_agent ty ctx m = try_except m any_exception (\<lambda>e. ret (agent_failed ty ctx (message_of e) True))"

text \<open>The context is valid if it names session, task and workspace.\<close>

definition context_complete :: "agent_context \<Rightarrow> bool" where
  "context_complete ctx \<longleftrightarrow>
     ac_session_id ctx \<noteq> [] \<and> ac_task_id ctx \<noteq> [] \<and> ac_workspace_path ctx \<noteq> []"

text \<open>The agent as a value of the worker pool's record\<close>

definition llm_agent ::
  "string \<Rightarrow> (agent_context \<Rightarrow> json pydict \<Rightarrow> ('x, 'g, agent_result) act) \<Rightarrow> ('x, 'g) agent" where
  "llm_agent ty run =
     \<lparr>ag_type = ty, ag_execute = (\<lambda>ctx meta. run ctx (case meta of JObj d \<Rightarrow> d | _ \<Rightarrow> [])),
      ag_validate = Some (\<lambda>ctx. ret (context_complete ctx)), ag_cleanup = None\<rparr>"

section \<open>Facts\<close>

lemma agent_result_sels [simp]:
  "ar_success (agent_failed ty ctx err retry) = False" "ar_success (agent_done ty ctx ok paths meta) = ok"
  "ar_metadata (agent_done ty ctx ok paths meta) = meta"
  "ar_artifact_paths (agent_done ty ctx ok paths meta) = paths"
  by (simp_all add: agent_failed_def agent_done_def)

text \<open>Whatever holds of all results a method returns and of all failures, a guarded agent returns.\<close>

lemma guarded_agent_returns:
  assumes "returns P m" "\<And>err retry. P (agent_failed ty ctx err retry)"
  shows "\<exists>r w'. guarded_agent ty ctx m w = (Inr r, w') \<and> P r"
  unfolding guarded_agent_def using guarded_returns [OF assms(1), where h = "\<lambda>e. agent_failed ty ctx (message_of e) True"]
    assms(2) by simp

lemma returns_match_option:
  "(v = None \<Longrightarrow> returns P m) \<Longrightarrow> (\<And>x. v = Some x \<Longrightarrow> returns P (f x)) \<Longrightarrow>
   returns P (case v of None \<Rightarrow> m | Some x \<Rightarrow> f x)"
  by (cases v) simp_all

lemma returns_lift:
  "(\<And>x. v = Inr x \<Longrightarrow> returns P (f x)) \<Longrightarrow> returns P (bindE (lift_result v) f)"
  by (cases v) (simp_all add: returns_def bindE_def lift_result_def)

text \<open>An artifact of a session with a plain name lies in the directory of the session.\<close>

definition plain_name :: "string \<Rightarrow> bool" where
  "plain_name s \<longleftrightarrow> CHR ''/'' \<notin> set s \<and> s \<noteq> [] \<and> s \<noteq> ''.''"

lemma path_div_plain: "plain_name s \<Longrightarrow> path_div p s = (fst p, snd p @ [s])"
  by (cases s) (auto simp: plain_name_def path_div_def path_root_def starts_with_def path_parts_def split_on_no_sep)

theorem artifact_lies_in_session:
  assumes "plain_name sid" "plain_name name"
    and "write_artifact W sid tid content ty (Some name) False w = (Inr p, w')"
  shows "p = path_as_str (path_root (aw_workspace W), path_parts (aw_workspace W) @ [''artifacts'', sid, name])"
proof -
  have "plain_name ''artifacts''" by (simp add: plain_name_def)
  moreover have "truthy (Some name)" using assms(2) by (simp add: plain_name_def truthy_def)
  ultimately show ?thesis
    using assms
    by (auto simp: write_artifact_def ensure_directory_def generate_filename_def artifact_dir_def path_div_plain
        path_of_def bindE_def thenE_def ret_def Let_def split: sum.splits)
qed

text \<open>The identifier of a session is not checked: an absolute one leaves the workspace.\<close>

lemma absolute_session_escapes:
  "get_artifact_directory W ''/etc'' = ''/etc''"
proof -
  have "path_of ''/etc'' = (''/'', [''etc''])" by code_simp
  moreover have "path_root ''/etc'' \<noteq> []" by code_simp
  moreover have "path_as_str (''/'', [''etc'']) = ''/etc''" by code_simp
  ultimately show ?thesis by (simp add: get_artifact_directory_def artifact_dir_def path_div_def)
qed

section \<open>Services for the examples\<close>

definition silent_writer :: "('x, 'g) artifact_writer" where
  "silent_writer =
     \<lparr>aw_workspace = ''/w'', aw_mkdir = (\<lambda>_. ret ()), aw_put = (\<lambda>_ _. ret ()), aw_entries = (\<lambda>_. ret None)\<rparr>"

definition demo_llm :: "string \<Rightarrow> ('x, 'g) llm_services" where
  "demo_llm answer =
     \<lparr>ll_generate = (\<lambda>_. ret answer), ll_writer = silent_writer, ll_loads = loads_opt, ll_text = dumps,
      ll_number = dumps\<rparr>"

lemma demo_write:
  "write_named (demo_llm answer) (demo_ctx []) content suffix w =
     (Inr (path_as_str (path_div (path_div (path_div (path_of ''/w'') ''artifacts'') ''s1'') (''t1'' @ suffix))), w)"
  by (simp add: write_named_def write_artifact_def ensure_directory_def generate_filename_def artifact_dir_def
      demo_llm_def silent_writer_def demo_ctx_def truthy_def bindE_def thenE_def ret_def)

end
