(* ===== verification/Security_Agent.thy ===== *)
theory Security_Agent
  imports Llm_Answers Dev_Texts Validation_Models
begin

text \<open>
  \<^verbatim>\<open>src/workers/agents/validation/security_agent.py\<close>: the scan of an implementation by patterns,
  line by line, the findings of the language model, and the report that decides.
\<close>

section \<open>Patterns\<close>

definition quote :: re where
  "quote = one_of [CHR 0x22, CHR 0x27]"

definition non_quote :: re where
  "non_quote = none_of [CHR 0x22, CHR 0x27]"

definition among :: "(char \<times> char) list \<Rightarrow> string \<Rightarrow> re" where
  "among ranges cs =
     Sym (\<lambda>c. c \<in> set cs \<or>
       (\<exists>(a, b) \<in> set ranges. code_point a \<le> code_point c \<and> code_point c \<le> code_point b))"

definition token_char :: re where
  "token_char = among [(CHR ''a'', CHR ''z''), (CHR ''A'', CHR ''Z''), (CHR ''0'', CHR ''9'')] ''_-''"

definition alnum :: re where
  "alnum = among [(CHR ''a'', CHR ''z''), (CHR ''A'', CHR ''Z''), (CHR ''0'', CHR ''9'')] []"

definition spaces1 :: re where
  "spaces1 = plus (Sym is_space)"

text \<open>A name that gets a literal\<close>

definition assigned :: "re \<Rightarrow> re" where
  "assigned name = seqs [name, spaces, one_of ''=:'', spaces, quote, plus non_quote, quote]"

text \<open>The flag of a literal says whether letters match in either case.\<close>

definition secret_patterns :: "(re \<times> string) list" where
  "secret_patterns =
     [(assigned (alts [seqs [lit True ''api'', opt (one_of ''_-''), lit True ''key''], lit True ''apikey'']),
       ''Hardcoded API key detected''),
      (seqs [lit True ''AKIA'', times 16 (among [(CHR ''0'', CHR ''9''), (CHR ''A'', CHR ''Z''), (CHR ''a'', CHR ''z'')] [])],
       ''AWS Access Key ID detected''),
      (seqs [lit False ''sk-'', times 20 alnum, Star alnum],
       ''OpenAI/Stripe API key detected''),
      (assigned (alts [lit True ''password'', lit True ''passwd'', lit True ''pwd'']),
       ''Hardcoded password detected''),
      (assigned (alts [lit True ''db_password'', lit True ''database_password'', lit True ''mysql_password'']),
       ''Hardcoded database password detected''),
      (assigned (alts [lit True ''token'', lit True ''auth_token'', lit True ''access_token'', lit True ''bearer'']),
       ''Hardcoded token detected''),
      (seqs [lit False ''ghp_'', times 36 alnum, Star alnum],
       ''GitHub Personal Access Token detected''),
      (seqs [lit True ''eyJ'', plus token_char, lit True ''.eyJ'', plus token_char],
       ''JWT token detected''),
      (assigned (alts [lit True ''secret'', lit True ''private_key'', lit True ''secret_key'']),
       ''Hardcoded secret detected'')]"

definition safe_patterns :: "re list" where
  "safe_patterns =
     [seqs [lit False ''os.environ.get'', spaces, lit False ''(''],
      seqs [lit False ''os.getenv'', spaces, lit False ''(''],
      seqs [lit False ''config.get'', spaces, lit False ''(''],
      lit False ''settings.'',
      lit False ''env.'',
      seqs [lit False ''#'', Star dot]]"

definition injection_patterns :: "(re \<times> string) list" where
  "injection_patterns =
     [(seqs [lit True ''f'', quote, lit True ''SELECT'', spaces1, Star dot, lit False ''{''],
       ''Potential SQL injection via f-string''),
      (seqs [lit True ''f'', quote, lit True ''INSERT'', spaces1, Star dot, lit False ''{''],
       ''Potential SQL injection via f-string''),
      (seqs [lit True ''f'', quote, lit True ''UPDATE'', spaces1, Star dot, lit False ''{''],
       ''Potential SQL injection via f-string''),
      (seqs [lit True ''f'', quote, lit True ''DELETE'', spaces1, Star dot, lit False ''{''],
       ''Potential SQL injection via f-string''),
      (seqs [quote, lit True ''SELECT'', spaces1, Star dot, quote, spaces, lit False ''+'', spaces],
       ''Potential SQL injection via string concatenation''),
      (seqs [quote, lit True ''INSERT'', spaces1, Star dot, quote, spaces, lit False ''+'', spaces],
       ''Potential SQL injection via string concatenation''),
      (seqs [lit True ''.format('', Star dot, lit False '')'', Star dot, lit True ''SELECT''],
       ''Potential SQL injection via format()''),
      (seqs [lit False ''%'', spaces, lit False ''('', Star dot, lit False '')'', Star dot, lit True ''SELECT''],
       ''Potential SQL injection via % formatting''),
      (seqs [lit True ''os.system'', spaces, lit False ''('', spaces, lit True ''f'', quote],
       ''Command injection via os.system with f-string''),
      (seqs [lit True ''os.system'', spaces, lit False ''('', Star (none_of '')''), lit False ''+''],
       ''Command injection via os.system with concatenation''),
      (seqs [lit True ''subprocess.'', plus word_char, spaces, lit False ''('', Star (none_of '')''), lit True ''shell'', spaces, lit False ''='', spaces, lit True ''True''],
       ''Shell injection via subprocess with shell=True''),
      (seqs [lit True ''subprocess.call'', spaces, lit False ''('', Star (none_of '')''), lit False ''+''],
       ''Command injection via subprocess.call with concatenation'')]"

definition xss_patterns :: "(re \<times> string) list" where
  "xss_patterns =
     [(seqs [lit True ''f'', quote, lit False ''<'', Star (none_of ''>''), lit False ''{'', plus (none_of ''}''), lit False ''}'', Star (none_of ''>''), lit False ''>''],
       ''Potential XSS via unescaped HTML in f-string''),
      (seqs [quote, lit False ''<'', Star (none_of ''>''), quote, spaces, lit False ''+'', spaces, plus word_char, spaces, lit False ''+'', spaces, quote],
       ''Potential XSS via HTML concatenation''),
      (seqs [lit True (''f'' @ [CHR 0x22, CHR ''<'']), plus word_char, lit False ''>{'', plus (none_of ''}''), lit False ''}</'', plus word_char, lit False (''>'' @ [CHR 0x22])],
       ''Potential XSS via unescaped user content in HTML f-string''),
      (seqs [lit True (''f'' @ [CHR 0x27, CHR ''<'']), plus word_char, lit False ''>{'', plus (none_of ''}''), lit False ''}</'', plus word_char, lit False (''>'' @ [CHR 0x27])],
       ''Potential XSS via unescaped user content in HTML f-string'')]"

definition owasp_patterns :: "(re \<times> string) list" where
  "owasp_patterns =
     [(seqs [lit True ''pickle.load'', opt (lit True ''s''), spaces, lit False ''(''],
       ''Insecure deserialization with pickle.loads()''),
      (seqs [lit True ''yaml.load'', spaces, lit False ''('', Star (none_of '')''), lit False '')''],
       ''Potentially unsafe YAML loading (use safe_load)''),
      (seqs [lit True ''marshal.load'', opt (lit True ''s''), spaces, lit False ''(''],
       ''Insecure deserialization with marshal''),
      (seqs [WordB, lit True ''eval'', spaces, lit False ''(''],
       ''Dangerous use of eval()''),
      (seqs [WordB, lit True ''exec'', spaces, lit False ''(''],
       ''Dangerous use of exec()''),
      (seqs [lit True ''__import__'', spaces, lit False ''(''],
       ''Dynamic import can be dangerous''),
      (seqs [lit True ''open'', spaces, lit False ''('', Star (none_of '')''), lit False ''+'', Star (none_of '')''), lit False '')''],
       ''Potential path traversal via string concatenation in open()''),
      (seqs [lit True ''with'', spaces1, lit True ''open'', spaces, lit False ''('', Star (none_of '')''), lit False ''+'', Star (none_of '')''), lit True ''filename''],
       ''Potential path traversal vulnerability''),
      (seqs [lit True ''/data/'', Star dot, lit False ''+'', spaces, plus word_char],
       ''Potential path traversal in file path construction''),
      (seqs [lit True ''hashlib.md5'', spaces, lit False ''(''],
       ''Weak cryptography: MD5 should not be used for security''),
      (seqs [lit True ''hashlib.sha1'', spaces, lit False ''(''],
       ''Weak cryptography: SHA1 should not be used for security''),
      (seqs [lit True ''admin'', Star dot, lit True ''password''],
       ''Possible hardcoded admin credentials'')]"

section \<open>Scanning\<close>

text \<open>A hit is the number of a line and the description of a pattern; a scan numbers its hits.\<close>

type_synonym hit = "nat \<times> string"

definition source_lines :: "string \<Rightarrow> (nat \<times> string) list" where
  "source_lines code = enumerate 1 (split_on newline code)"

definition is_safe_line :: "string \<Rightarrow> bool" where
  "is_safe_line l \<longleftrightarrow> (\<exists>p \<in> set safe_patterns. re_found p l)"

definition line_hits :: "(re \<times> string) list \<Rightarrow> string \<Rightarrow> hit list" where
  "line_hits pats code =
     concat (map (\<lambda>(n, l). map (\<lambda>(p, d). (n, d)) (filter (\<lambda>(p, d). re_found p l) pats)) (source_lines code))"

definition secret_hits :: "string \<Rightarrow> hit list" where
  "secret_hits code =
     concat (map (\<lambda>(n, l). if is_safe_line l then []
          else concat (map (\<lambda>(p, d). map (\<lambda>_. (n, d)) (re_matches p l)) secret_patterns)) (source_lines code))"

definition findings_of ::
  "string \<Rightarrow> security_category \<Rightarrow> (string \<Rightarrow> security_severity \<times> string) \<Rightarrow> hit list \<Rightarrow> security_finding list" where
  "findings_of prefix cat judge hits =
     map (\<lambda>(i, n, d).
       \<lparr>sf_id = JStr (prefix @ ''-'' @ fmt03 i), sf_severity = fst (judge d), sf_category = cat,
        sf_location = JStr (''line '' @ nat_str n), sf_description = JStr d, sf_remediation = JStr (snd (judge d))\<rparr>)
       (enumerate 1 hits)"

definition scan_for_secrets :: "string \<Rightarrow> security_finding list" where
  "scan_for_secrets code =
     findings_of ''SEC'' SG_SECRETS
       (\<lambda>_. (SV_CRITICAL,
          ''Use environment variables or a secrets manager instead of hardcoding credentials''))
       (secret_hits code)"

definition scan_for_injection_vulnerabilities :: "string \<Rightarrow> security_finding list" where
  "scan_for_injection_vulnerabilities code =
     findings_of ''INJ'' SG_INJECTION
       (\<lambda>_. (SV_CRITICAL,
          ''Use parameterized queries for SQL, subprocess with list arguments for commands''))
       (line_hits injection_patterns code)"

definition scan_for_xss_vulnerabilities :: "string \<Rightarrow> security_finding list" where
  "scan_for_xss_vulnerabilities code =
     findings_of ''XSS'' SG_XSS
       (\<lambda>_. (SV_CRITICAL, ''Use proper HTML escaping or a templating engine with auto-escaping''))
       (line_hits xss_patterns code)"

definition owasp_judgement :: "string \<Rightarrow> security_severity \<times> string" where
  "owasp_judgement d =
     (let has = (\<lambda>s. is_infix s (py_lower d))
      in if has ''pickle'' \<or> has ''eval'' then
           (SV_CRITICAL, ''Use JSON or other safe serialization formats; avoid eval/exec'')
         else if has ''path'' then
           (SV_HIGH, ''Validate and sanitize file paths; use os.path.join with basename'')
         else if has ''yaml'' then (SV_CRITICAL, ''Use yaml.safe_load() instead of yaml.load()'')
         else if has ''md5'' \<or> has ''sha1'' then
           (SV_HIGH, ''Use SHA-256 or stronger hashing algorithms for security purposes'')
         else (SV_CRITICAL, ''Review and replace with a secure alternative''))"

definition scan_for_owasp_vulnerabilities :: "string \<Rightarrow> security_finding list" where
  "scan_for_owasp_vulnerabilities code =
     findings_of ''OWASP'' SG_OTHER owasp_judgement (line_hits owasp_patterns code)"

definition run_security_scans :: "string \<Rightarrow> security_finding list" where
  "run_security_scans code =
     scan_for_secrets code @ scan_for_injection_vulnerabilities code @
     scan_for_xss_vulnerabilities code @ scan_for_owasp_vulnerabilities code"

text \<open>The text that is scanned: all files, each under a comment with its path.\<close>

definition file_text :: "(json \<Rightarrow> string) \<Rightarrow> json \<Rightarrow> exn + string" where
  "file_text S v =
     bind_sum (as_dict v) (\<lambda>d.
       Inr (''# File: '' @ json_text S (dget d ''path'' (JStr ''unknown'')) @ [newline] @
            json_text S (dget d ''content'' (JStr []))))"

definition extract_code_content :: "(json \<Rightarrow> string) \<Rightarrow> json \<Rightarrow> exn + string" where
  "extract_code_content S impl =
     bind_sum (as_dict impl) (\<lambda>d.
     bind_sum (json_iter (dget d ''files'' (JList []))) (\<lambda>fs.
     bind_sum (map_result (file_text S) fs) (\<lambda>parts.
       Inr (py_join [newline, newline] parts))))"

section \<open>The language model\<close>

definition compliance_prompt :: "string \<Rightarrow> string \<Rightarrow> string" where
  "compliance_prompt code frameworks = lines_of
     [''You are a security analyst reviewing code for compliance and vulnerabilities.'',
      [],
      ''## Code to Analyze'',
      [],
      ''```python'',
      code,
      ''```'',
      [],
      ''## Compliance Frameworks to Check'',
      [],
      frameworks,
      [],
      ''## Instructions'',
      [],
      ''Analyze the code for:'',
      ''1. Compliance with the specified frameworks'',
      ''2. Additional security vulnerabilities not covered by pattern scanning'',
      ''3. Overall security posture'',
      [],
      ''## Output Format'',
      [],
      ''Respond with a JSON object:'',
      ''```json'',
      ''{'',
      dq ''    ^findings^: ['',
      ''        {'',
      dq ''            ^id^: ^LLM-001^,'',
      dq ''            ^severity^: ^critical|high|medium|low|info^,'',
      dq ''            ^category^: ^injection|xss|secrets|auth|crypto|configuration|other^,'',
      dq ''            ^location^: ^description of location^,'',
      dq ''            ^description^: ^What was found^,'',
      dq ''            ^remediation^: ^How to fix it^'',
      ''        }'',
      ''    ],'',
      dq ''    ^compliance_status^: {'',
      dq ''        ^FRAMEWORK_NAME^: true/false'',
      ''    },'',
      dq ''    ^scan_coverage^: 95.0'',
      ''}'',
      ''```'',
      [],
      ''Set compliance status to true if the code meets the framework requirements, false otherwise.'',
      ''Only include findings not covered by standard pattern detection.'',
      []]"

definition truncated_code :: "string \<Rightarrow> string" where
  "truncated_code code =
     (if 10000 < length code then take 10000 code @ [newline] @ ''... (truncated)'' else code)"

definition format_compliance_prompt :: "string \<Rightarrow> json \<Rightarrow> exn + string" where
  "format_compliance_prompt code frameworks =
     bind_sum (bind_sum (json_iter frameworks) (join_values '', '')) (\<lambda>names.
       Inr (compliance_prompt (truncated_code code) names))"

definition run_compliance_analysis ::
  "('x, 'g) llm_services \<Rightarrow> string \<Rightarrow> json \<Rightarrow> ('x, 'g, json) act" where
  "run_compliance_analysis L code frameworks =
     bindE (lift_result (format_compliance_prompt code frameworks)) (\<lambda>prompt.
     bindE (ask_json L prompt) (\<lambda>a.
       ret (case a of
              Some v \<Rightarrow> if json_truthy v then v
                else JObj [(''findings'', JList []), (''compliance_status'', JObj []), (''scan_coverage'', JInt 80)]
            | None \<Rightarrow> JObj [(''findings'', JList []), (''compliance_status'', JObj []), (''scan_coverage'', JInt 80)])))"

text \<open>The tables of severities and categories list the values of the enumerations.\<close>

definition lower_of :: "json \<Rightarrow> exn + string" where
  "lower_of v =
     (case v of JStr s \<Rightarrow> Inr (py_lower s) | _ \<Rightarrow> Inl (Exn PyAttributeError ''object has no attribute lower''))"

definition model_finding :: "nat \<Rightarrow> json \<Rightarrow> exn + security_finding" where
  "model_finding n v =
     bind_sum (as_dict v) (\<lambda>d.
     bind_sum (lower_of (dget d ''severity'' (JStr ''medium''))) (\<lambda>sev.
     bind_sum (lower_of (dget d ''category'' (JStr ''other''))) (\<lambda>cat.
       Inr \<lparr>sf_id = dget d ''id'' (JStr (''LLM-'' @ fmt03 (n + 1))),
            sf_severity = (case security_severity_of (JStr sev) of Inr s \<Rightarrow> s | Inl _ \<Rightarrow> SV_MEDIUM),
            sf_category = (case security_category_of (JStr cat) of Inr c \<Rightarrow> c | Inl _ \<Rightarrow> SG_OTHER),
            sf_location = dget d ''location'' (JStr ''unknown''),
            sf_description = dget d ''description'' (JStr []),
            sf_remediation = dget d ''remediation'' (JStr [])\<rparr>)))"

fun add_model_findings :: "security_finding list \<Rightarrow> json list \<Rightarrow> exn + security_finding list" where
  "add_model_findings acc [] = Inr acc"
| "add_model_findings acc (v # vs) =
     bind_sum (model_finding (length acc) v) (\<lambda>f. add_model_findings (acc @ [f]) vs)"

definition merge_security_findings :: "security_finding list \<Rightarrow> json pydict \<Rightarrow> exn + security_finding list" where
  "merge_security_findings fs analysis =
     bind_sum (json_iter (dget analysis ''findings'' (JList []))) (add_model_findings fs)"

section \<open>The report\<close>

definition finding_lines :: "(json \<Rightarrow> string) \<Rightarrow> security_finding \<Rightarrow> string list" where
  "finding_lines S f =
     [''### '' @ json_text S (sf_id f) @ '': '' @ json_text S (sf_description f),
      [],
      ''**Severity:** '' @ ascii_upper (security_severity_value (sf_severity f)),
      ''**Category:** '' @ py_title (security_category_value (sf_category f)),
      ''**Location:** '' @ json_text S (sf_location f),
      [],
      ''**Remediation:** '' @ json_text S (sf_remediation f),
      []]"

definition compliance_lines :: "json \<Rightarrow> exn + string list" where
  "compliance_lines v =
     (if \<not> json_truthy v then Inr []
      else bind_sum (as_dict v) (\<lambda>d.
        Inr ([''## Compliance Status'', []] @
             map (\<lambda>(k, b). ''- **'' @ k @ '':** '' @ (if json_truthy b then ''PASS'' else ''FAIL'')) d @ [[]])))"

definition security_report_markdown :: "(json \<Rightarrow> string) \<Rightarrow> security_report \<Rightarrow> exn + string" where
  "security_report_markdown S r =
     bind_sum (fixed1 (sr_scan_coverage r)) (\<lambda>coverage.
     bind_sum (compliance_lines (sr_compliance_status r)) (\<lambda>compliance.
       Inr (lines_of
         ([''# Security Report'',
           [],
           ''**Feature:** '' @ json_text S (sr_feature_id r),
           ''**Status:** '' @ status_text (sr_passed r),
           ''**Scan Coverage:** '' @ coverage @ ''%'',
           []] @
          (if sr_findings r \<noteq> [] then [''## Findings'', []] @ concat (map (finding_lines S) (sr_findings r))
           else [''## Findings'', [], ''No security findings.'', []]) @
          compliance))))"

definition severe :: "security_severity \<Rightarrow> bool" where
  "severe s \<longleftrightarrow> s \<in> {SV_CRITICAL, SV_HIGH}"

definition blocks :: "security_finding list \<Rightarrow> bool" where
  "blocks fs \<longleftrightarrow> (\<exists>f \<in> set fs. severe (sf_severity f))"

definition security_report_for :: "json \<Rightarrow> security_finding list \<Rightarrow> json pydict \<Rightarrow> security_report" where
  "security_report_for feature fs analysis =
     \<lparr>sr_feature_id = feature, sr_findings = fs, sr_passed = JBool (\<not> blocks fs),
      sr_scan_coverage = dget analysis ''scan_coverage'' (JInt 85),
      sr_compliance_status = dget analysis ''compliance_status'' (JObj [])\<rparr>"

definition write_security_report ::
  "('x, 'g) llm_services \<Rightarrow> agent_context \<Rightarrow> security_report \<Rightarrow> ('x, 'g, string list) act" where
  "write_security_report L ctx r =
     write_documents L ctx (security_report_to_json r) (security_report_markdown (ll_text L) r) ''_security_report''"

definition security_steps ::
  "('x, 'g) llm_services \<Rightarrow> agent_context \<Rightarrow> json pydict \<Rightarrow> ('x, 'g, agent_result) act" where
  "security_steps L ctx meta =
     (let impl = dget meta ''implementation'' JNull
      in if \<not> json_truthy impl then
           ret (agent_failed ''security_agent'' ctx ''No implementation provided in event_metadata'' False)
         else
           bindE (lift_result (extract_code_content (ll_text L) impl)) (\<lambda>code.
           bindE (run_compliance_analysis L code
             (dget meta ''compliance_frameworks'' (JList [JStr ''OWASP_TOP_10'']))) (\<lambda>v.
           bindE (lift_result (as_dict v)) (\<lambda>analysis.
           bindE (lift_result (merge_security_findings (run_security_scans code) analysis)) (\<lambda>fs.
           (let r = security_report_for (dget meta ''feature_id'' (JStr (ac_task_id ctx))) fs analysis
            in bindE (write_security_report L ctx r) (\<lambda>paths.
               ret (agent_done ''security_agent'' ctx (\<not> blocks fs) paths
                 [(''security_report'', security_report_to_dict r),
                  (''hitl_gate'', if \<not> blocks fs then JStr ''HITL-5'' else JNull)]))))))))"

definition security_execute ::
  "('x, 'g) llm_services \<Rightarrow> agent_context \<Rightarrow> json pydict \<Rightarrow> ('x, 'g, agent_result) act" where
  "security_execute L ctx meta = guarded_agent ''security_agent'' ctx (security_steps L ctx meta)"

section \<open>What a passed scan says\<close>

lemma enumerate_snd: "x \<in> set (enumerate n xs) \<Longrightarrow> snd x \<in> set xs"
  by (metis map_snd_enumerate image_eqI set_map)

lemma line_numbered: "l \<in> set (split_on newline code) \<Longrightarrow> \<exists>n. (n, l) \<in> set (source_lines code)"
  unfolding source_lines_def by (metis (no_types, lifting) imageE map_snd_enumerate prod.collapse set_map)

text \<open>Every hit of a scan becomes a blocking finding.\<close>

lemma blocks_append [simp]: "blocks (fs @ gs) \<longleftrightarrow> blocks fs \<or> blocks gs"
  by (auto simp: blocks_def)

lemma findings_block:
  assumes "\<And>d. severe (fst (judge d))"
  shows "blocks (findings_of prefix cat judge hits) \<longleftrightarrow> hits \<noteq> []"
proof -
  have "blocks (findings_of prefix cat judge hits) \<longleftrightarrow> enumerate 1 hits \<noteq> []"
    using assms by (cases "enumerate 1 hits") (auto simp: findings_of_def blocks_def)
  then show ?thesis by (metis length_0_conv length_enumerate)
qed

lemma owasp_severe: "severe (fst (owasp_judgement d))"
  by (simp add: owasp_judgement_def severe_def Let_def)

lemma critical_severe: "severe (fst (SV_CRITICAL, t))"
  by (simp add: severe_def)

lemma scans_block:
  "blocks (run_security_scans code) \<longleftrightarrow>
     secret_hits code \<noteq> [] \<or> line_hits injection_patterns code \<noteq> [] \<or> line_hits xss_patterns code \<noteq> [] \<or>
     line_hits owasp_patterns code \<noteq> []"
  by (simp add: run_security_scans_def scan_for_secrets_def scan_for_injection_vulnerabilities_def
      scan_for_xss_vulnerabilities_def scan_for_owasp_vulnerabilities_def
      findings_block [OF owasp_severe] findings_block [OF critical_severe])

lemma no_line_hits:
  "line_hits pats code = [] \<longleftrightarrow> (\<forall>l \<in> set (split_on newline code). \<forall>(p, d) \<in> set pats. \<not> re_found p l)"
  using line_numbered [of _ code] enumerate_snd [of _ 1 "split_on newline code"]
  by (fastforce simp: line_hits_def filter_empty_conv source_lines_def)

lemma no_secret_hits:
  "secret_hits code = [] \<longleftrightarrow>
     (\<forall>l \<in> set (split_on newline code). is_safe_line l \<or> (\<forall>(p, d) \<in> set secret_patterns. \<not> re_found p l))"
  using line_numbered [of _ code] enumerate_snd [of _ 1 "split_on newline code"]
  by (fastforce simp: secret_hits_def re_matches_found source_lines_def)

text \<open>A text is clean if no pattern is found in any of its lines, secrets in safe lines aside.\<close>

definition clean_line :: "string \<Rightarrow> bool" where
  "clean_line l \<longleftrightarrow>
     (is_safe_line l \<or> (\<forall>(p, d) \<in> set secret_patterns. \<not> re_found p l)) \<and>
     (\<forall>(p, d) \<in> set (injection_patterns @ xss_patterns @ owasp_patterns). \<not> re_found p l)"

definition clean_code :: "string \<Rightarrow> bool" where
  "clean_code code \<longleftrightarrow> (\<forall>l \<in> set (split_on newline code). clean_line l)"

lemma scans_clean: "\<not> blocks (run_security_scans code) \<longleftrightarrow> clean_code code"
  unfolding scans_block de_Morgan_disj not_not no_line_hits no_secret_hits clean_code_def clean_line_def
  by (simp add: ball_Un) blast

lemma merged_contains: "add_model_findings fs vs = Inr gs \<Longrightarrow> \<exists>hs. gs = fs @ hs"
  by (induction fs vs rule: add_model_findings.induct) (auto simp: bind_sum_def split: sum.splits)

text \<open>The agent returns a failure, or a done result whose verdict is that of its report; the report
  passes only clean code.\<close>

definition security_verdict :: "(json \<Rightarrow> string) \<Rightarrow> json pydict \<Rightarrow> agent_result \<Rightarrow> bool" where
  "security_verdict S meta r \<longleftrightarrow>
     (ar_success r \<longrightarrow>
       (\<exists>code sr. extract_code_content S (dget meta ''implementation'' JNull) = Inr code \<and> clean_code code \<and>
          dget (ar_metadata r) ''security_report'' JNull = security_report_to_dict sr \<and>
          sr_passed sr = JBool True \<and> \<not> blocks (sr_findings sr)))"

lemma security_steps_verdict: "returns (security_verdict (ll_text L) meta) (security_steps L ctx meta)"
  unfolding security_steps_def Let_def
proof (intro returns_if returns_ret returns_lift returns_bindE)
  show "security_verdict (ll_text L) meta (agent_failed ''security_agent'' ctx err False)" for err
    by (simp add: security_verdict_def)
next
  fix code v analysis fs paths
  assume code: "extract_code_content (ll_text L) (dget meta ''implementation'' JNull) = Inr code"
    and fs: "merge_security_findings (run_security_scans code) analysis = Inr fs"
  obtain hs where hs: "fs = run_security_scans code @ hs"
    using fs merged_contains by (auto simp: merge_security_findings_def bind_sum_def split: sum.splits)
  let ?sr = "security_report_for (dget meta ''feature_id'' (JStr (ac_task_id ctx))) fs analysis"
  show "security_verdict (ll_text L) meta (agent_done ''security_agent'' ctx (\<not> blocks fs) paths
      [(''security_report'', security_report_to_dict ?sr), (''hitl_gate'', if \<not> blocks fs then JStr ''HITL-5'' else JNull)])"
    unfolding security_verdict_def
    using code hs scans_clean [of code] by (auto simp: security_report_for_def dget_def)
qed

text \<open>The agent never raises, and whatever the model answers it succeeds only with a clean text.\<close>

theorem passed_scan_is_clean:
  "\<exists>r w'. security_execute L ctx meta w = (Inr r, w') \<and> security_verdict (ll_text L) meta r"
  unfolding security_execute_def
  by (rule guarded_agent_returns [OF security_steps_verdict]) (simp add: security_verdict_def)

text \<open>Any safe pattern in a line hides the secrets of that line, so a comment behind a password does.\<close>

lemma comment_hides_secret:
  "\<not> clean_line (''pwd='' @ [CHR 0x22] @ ''x'' @ [CHR 0x22])"
  "clean_line (''pwd='' @ [CHR 0x22] @ ''x'' @ [CHR 0x22] @ ''#'')"
  by code_simp+

definition demo_code :: string where
  "demo_code = ''# File: a'' @ [newline] @ ''x''"

definition demo_implementation :: json where
  "demo_implementation =
     JObj [(''files'', JList [JObj [(''path'', JStr ''a''), (''content'', JStr ''x'')]])]"

definition demo_answer_text :: string where
  "demo_answer_text = dq ''{^checks^: []}''"

lemma demo_scan:
  "extract_code_content dumps demo_implementation = Inr demo_code"
  "run_security_scans demo_code = []"
  "parse_json_from_response loads_opt demo_answer_text = Some (JObj [(''checks'', JList [])])"
  "format_compliance_prompt code (JList [JStr ''OWASP_TOP_10'']) =
     Inr (compliance_prompt (truncated_code code) ''OWASP_TOP_10'')"
  by (code_simp, code_simp, code_simp) (simp add: format_compliance_prompt_def bind_sum_def json_iter_def
      join_values_def)

text \<open>The agent succeeds with a clean file.\<close>

lemma clean_scan_succeeds:
  "\<exists>r. security_execute (demo_llm demo_answer_text) (demo_ctx [])
       [(''implementation'', demo_implementation), (''feature_id'', f)] w = (Inr r, w) \<and> ar_success r \<and>
     dget (ar_metadata r) ''security_report'' JNull =
       security_report_to_dict (security_report_for f [] [(''checks'', JList [])])"
proof -
  let ?L = "demo_llm demo_answer_text"
  let ?a = "[(''checks'', JList [])]"
  have L: "ll_text ?L = dumps" "ll_loads ?L = loads_opt" "ll_generate ?L p = ret demo_answer_text" for p
    by (simp_all add: demo_llm_def)
  have analysis: "run_compliance_analysis ?L demo_code (JList [JStr ''OWASP_TOP_10'']) w = (Inr (JObj ?a), w)"
    by (simp add: run_compliance_analysis_def ask_json_def L demo_scan lift_result_def bindE_def ret_def)
  have merged: "merge_security_findings [] ?a = Inr []"
    by (simp add: merge_security_findings_def dget_def json_iter_def bind_sum_def)
  have written: "\<exists>paths. write_security_report ?L (demo_ctx []) (security_report_for f [] ?a) w = (Inr paths, w)"
    by (simp add: write_security_report_def write_documents_def demo_write L security_report_markdown_def security_report_for_def
        compliance_lines_def fixed1_def dget_def bind_sum_def lift_result_def bindE_def ret_def)
  have impl: "json_truthy demo_implementation" by (simp add: demo_implementation_def)
  show ?thesis
    using written
    by (auto simp: security_execute_def guarded_agent_def try_except_def security_steps_def dget_def impl L
        demo_scan analysis merged blocks_def as_dict_def lift_result_def bindE_def ret_def Let_def)
qed

end
