(* ===== verification/Validation_Agent.thy ===== *)
theory Validation_Agent
  imports Llm_Answers Dev_Texts Validation_Models
begin

text \<open>
  \<^verbatim>\<open>src/workers/agents/validation/validation_agent.py\<close>: the run of the end-to-end tests, the
  exploration of complex failures, and the report that the tests and the checks of the language
  model decide.  The exploration itself is a parameter; it gets the query and the context, whose
  pack the hints are taken from.
\<close>

record ('x, 'g) validation_agent =
  va_llm :: "('x, 'g) llm_services"
  va_exec :: "string list \<Rightarrow> int \<Rightarrow> ('x, 'g, proc_outcome) act"
  va_test_runner :: test_runner
  va_explore :: "(string \<Rightarrow> agent_context \<Rightarrow> ('x, 'g, string \<times> json) act) option"
  va_enable_rlm :: bool
  va_e2e_test_timeout :: int

section \<open>The tests\<close>

text \<open>\<^verbatim>\<open>Path(workspace) / test_path\<close>\<close>

definition run_e2e_tests ::
  "('x, 'g) validation_agent \<Rightarrow> json \<Rightarrow> agent_context \<Rightarrow> ('x, 'g, test_run) act" where
  "run_e2e_tests V path ctx =
     bindE (lift_result (case path of
              JStr s \<Rightarrow> Inr (path_as_str (path_div (path_of (ac_workspace_path ctx)) s))
            | _ \<Rightarrow> Inl (Exn PyTypeError ''unsupported operand type(s) for /''))) (\<lambda>p.
       run_tests (va_exec V) ((va_test_runner V)\<lparr>tq_timeout_seconds := va_e2e_test_timeout V\<rparr>) p True None None
         (JStr (ac_task_id ctx @ ''-e2e'')))"

text \<open>Whether a failure calls for an exploration\<close>

definition number_of :: "json \<Rightarrow> exn + int" where
  "number_of v =
     (case v of JInt i \<Rightarrow> Inr i | JBool b \<Rightarrow> Inr (if b then 1 else 0)
      | _ \<Rightarrow> Inl (Exn PyTypeError ''not supported between instances''))"

definition intermittent :: "json pydict \<Rightarrow> exn + bool" where
  "intermittent d =
     bind_sum (number_of (dget d ''run_count'' (JInt 1))) (\<lambda>runs.
       if runs \<le> 1 then Inr False
       else bind_sum (number_of (dget d ''pass_count'' (JInt 0))) (\<lambda>passes.
         Inr (0 < passes \<and> passes < runs)))"

definition unstable_terms :: "string list" where
  "unstable_terms =
     [''timeout'', ''connection'', ''intermittent'', ''integration'', ''external'', ''service'',
      ''performance'', ''slow'', ''threshold'', ''latency'']"

definition suspicious_error :: "test_result \<Rightarrow> exn + bool" where
  "suspicious_error t =
     (if \<not> json_truthy (tr_passed t) \<and> json_truthy (tr_error t) then
        (case tr_error t of
           JStr e \<Rightarrow> Inr (\<exists>s \<in> set unstable_terms. is_infix s (py_lower e))
         | _ \<Rightarrow> Inl (Exn PyAttributeError ''object has no attribute lower''))
      else Inr False)"

fun any_result :: "('a \<Rightarrow> exn + bool) \<Rightarrow> 'a list \<Rightarrow> exn + bool" where
  "any_result f [] = Inr False"
| "any_result f (x # xs) = bind_sum (f x) (\<lambda>b. if b then Inr True else any_result f xs)"

definition needs_rlm_validation :: "test_run \<Rightarrow> exn + bool" where
  "needs_rlm_validation run =
     bind_sum (as_dict (if json_truthy (tn_metadata run) then tn_metadata run else JObj [])) (\<lambda>d.
     bind_sum (intermittent d) (\<lambda>flaky.
       if flaky \<or> json_truthy (dget d ''performance_regression'' JNull) \<or>
          json_truthy (dget d ''integration_failure'' JNull) then Inr True
       else any_result suspicious_error (tn_results run)))"

section \<open>The exploration\<close>

definition summarize_failures :: "(json \<Rightarrow> string) \<Rightarrow> test_run \<Rightarrow> string" where
  "summarize_failures S run =
     (let ls = map (\<lambda>t. ''- '' @ json_text S (tr_test_id t) @ '': '' @
            (if json_truthy (tr_error t) then json_text S (tr_error t) else ''Unknown error''))
          (filter (\<lambda>t. \<not> json_truthy (tr_passed t)) (tn_results run))
      in if ls \<noteq> [] then lines_of ls else ''No specific failures recorded'')"

definition exploration_query :: "string \<Rightarrow> string" where
  "exploration_query failures = lines_of
     [[],
      ''Analyze these E2E test failures and find relevant context in the codebase:'',
      [],
      ''Test Failures:'',
      failures,
      [],
      ''Look for:'',
      ''1. Similar code patterns that handle these scenarios correctly'',
      ''2. Service dependencies and their expected behavior'',
      ''3. Integration patterns with external systems'',
      ''4. Retry/resilience patterns for transient failures'',
      ''5. Performance optimization patterns'',
      []]"

text \<open>The formatted output and the error; an exception becomes the error.\<close>

definition run_rlm_exploration ::
  "('x, 'g) validation_agent \<Rightarrow> test_run \<Rightarrow> agent_context \<Rightarrow> ('x, 'g, (string \<times> json) option) act" where
  "run_rlm_exploration V run ctx =
     (case va_explore V of
        None \<Rightarrow> ret None
      | Some explore \<Rightarrow>
          try_except
            (bindE (explore (exploration_query (summarize_failures (ll_text (va_llm V)) run)) ctx) (\<lambda>r. ret (Some r)))
            any_exception
            (\<lambda>e. ret (Some ([], JStr (message_of e)))))"

section \<open>The prompt\<close>

definition prompt_file :: "(json \<Rightarrow> string) \<Rightarrow> json \<Rightarrow> exn + string" where
  "prompt_file S v =
     bind_sum (as_dict v) (\<lambda>d.
     bind_sum (json_take 1000 (dget d ''content'' (JStr []))) (\<lambda>content.
       Inr (lines_of
         [[],
          ''### '' @ json_text S (dget d ''path'' (JStr ''unknown'')),
          backticks,
          json_text S content @ ''...'',
          backticks,
          []])))"

definition prompt_files :: "(json \<Rightarrow> string) \<Rightarrow> json \<Rightarrow> exn + string" where
  "prompt_files S impl =
     bind_sum (as_dict impl) (\<lambda>d.
     bind_sum (json_take 5 (dget d ''files'' (JList []))) (\<lambda>first.
     bind_sum (json_iter first) (\<lambda>fs.
     bind_sum (map_result (prompt_file S) fs) (\<lambda>ts. Inr (concat ts)))))"

definition prompt_result :: "(json \<Rightarrow> string) \<Rightarrow> test_result \<Rightarrow> exn + string" where
  "prompt_result S t =
     bind_sum
       (if json_truthy (tr_error t) then
          bind_sum (json_take 200 (tr_error t)) (\<lambda>e. Inr ('' - '' @ json_text S e))
        else Inr []) (\<lambda>err.
       Inr (''- '' @ json_text S (tr_test_id t) @ '': '' @ (if json_truthy (tr_passed t) then ''PASS'' else ''FAIL'') @
            err @ [newline]))"

definition prompt_results :: "(json \<Rightarrow> string) \<Rightarrow> (json \<Rightarrow> string) \<Rightarrow> test_run \<Rightarrow> exn + string" where
  "prompt_results S F run =
     bind_sum (map_result (prompt_result S) (take 10 (tn_results run))) (\<lambda>ts.
       Inr (lines_of
         [[],
          ''E2E Test Results:'',
          ''- Passed: '' @ json_text S (tn_passed run),
          ''- Failed: '' @ json_text S (tn_failed run),
          ''- Coverage: '' @ F (tn_coverage run) @ ''%'',
          [],
          ''Test Details:'',
          concat ts]))"

definition validation_prompt :: "string \<Rightarrow> string \<Rightarrow> string \<Rightarrow> string \<Rightarrow> string" where
  "validation_prompt files criteria tests rlm =
     (lines_of
     [''Analyze this implementation against the acceptance criteria and E2E test results.'',
      [],
      ''## Implementation'',
      files,
      [],
      ''## Acceptance Criteria'',
      criteria,
      [],
      ''## E2E Test Results'',
      tests,
      []]) @
     (if rlm = [] then []
      else lines_of
        [[],
         ''## Additional Context from RLM Analysis'',
         rlm,
         []]) @
     (lines_of
        [[],
         ''## Output Format'',
         [],
         ''Respond with a JSON object containing:'',
         ''```json'',
         ''{'',
         dq ''    ^checks^: ['',
         ''        {'',
         dq ''            ^name^: ^Check name^,'',
         dq ''            ^category^: ^functional|performance|compatibility^,'',
         dq ''            ^passed^: true,'',
         dq ''            ^details^: ^Detailed description of the check result^,'',
         dq ''            ^evidence^: ^Reference to evidence file or null^'',
         ''        }'',
         ''    ],'',
         dq ''    ^recommendations^: [^List of recommendations for improvement^]'',
         ''}'',
         ''```'',
         [],
         ''Include checks for:'',
         ''1. E2E test coverage of acceptance criteria'',
         ''2. Integration point verification'',
         ''3. Performance baseline compliance (if applicable)'',
         ''4. Compatibility requirements (if applicable)'',
         []])"

definition format_validation_prompt ::
  "('x, 'g) llm_services \<Rightarrow> json \<Rightarrow> json \<Rightarrow> test_run \<Rightarrow> string \<Rightarrow> exn + string" where
  "format_validation_prompt L impl criteria run rlm =
     bind_sum (prompt_files (ll_text L) impl) (\<lambda>files.
     bind_sum (json_iter criteria) (\<lambda>cs.
     bind_sum (prompt_results (ll_text L) (ll_number L) run) (\<lambda>tests.
       Inr (validation_prompt files (lines_of (map (\<lambda>c. ''- '' @ json_text (ll_text L) c) cs)) tests rlm))))"

section \<open>The report\<close>

text \<open>A check of an unknown category is skipped.\<close>

definition model_checks :: "json pydict \<Rightarrow> exn + validation_check list" where
  "model_checks analysis = model_items validation_check_of_dict (dget analysis ''checks'' (JList []))"

definition validation_report_for ::
  "json \<Rightarrow> test_run \<Rightarrow> json pydict \<Rightarrow> validation_check list \<Rightarrow> validation_report" where
  "validation_report_for feature run analysis cs =
     \<lparr>vr_feature_id = feature, vr_checks = cs, vr_e2e_results = run,
      vr_passed = JBool ((\<forall>c \<in> set cs. json_truthy (vc_passed c)) \<and> all_passed run),
      vr_recommendations = dget analysis ''recommendations'' (JList [])\<rparr>"

definition generate_validation_report ::
  "('x, 'g) llm_services \<Rightarrow> json \<Rightarrow> json \<Rightarrow> test_run \<Rightarrow> string \<Rightarrow> json \<Rightarrow> ('x, 'g, validation_report option) act" where
  "generate_validation_report L impl criteria run rlm feature =
     bindE (lift_result (format_validation_prompt L impl criteria run rlm)) (\<lambda>prompt.
     bindE (ask_json L prompt) (\<lambda>a.
       case a of
         None \<Rightarrow> ret None
       | Some v \<Rightarrow>
           if \<not> json_truthy v then ret None
           else
             bindE (lift_result (as_dict v)) (\<lambda>analysis.
             bindE (lift_result (model_checks analysis)) (\<lambda>cs.
               ret (Some (validation_report_for feature run analysis cs))))))"

definition check_lines :: "(json \<Rightarrow> string) \<Rightarrow> validation_check \<Rightarrow> json list" where
  "check_lines S c =
     [JStr (''### '' @ json_text S (vc_name c)),
      JStr [],
      JStr (''**Category:** '' @ py_title (check_category_value (vc_category c))),
      JStr (''**Status:** '' @ status_text (vc_passed c)),
      JStr [],
      vc_details c,
      JStr []] @
     (if json_truthy (vc_evidence c) then [JStr (''**Evidence:** '' @ json_text S (vc_evidence c)), JStr []] else [])"

definition validation_report_markdown :: "(json \<Rightarrow> string) \<Rightarrow> validation_report \<Rightarrow> exn + string" where
  "validation_report_markdown S r =
     bind_sum (fixed1 (tn_coverage (vr_e2e_results r))) (\<lambda>coverage.
     bind_sum (bullet_section S ''## Recommendations'' (vr_recommendations r)) (\<lambda>recs.
       join_lines
         ([JStr ''# Validation Report'',
           JStr [],
           JStr (''**Feature:** '' @ json_text S (vr_feature_id r)),
           JStr (''**Status:** '' @ status_text (vr_passed r)),
           JStr [],
           JStr ''## E2E Test Results'',
           JStr [],
           JStr (''- **Passed:** '' @ json_text S (tn_passed (vr_e2e_results r))),
           JStr (''- **Failed:** '' @ json_text S (tn_failed (vr_e2e_results r))),
           JStr (''- **Coverage:** '' @ coverage @ ''%''),
           JStr []] @
          (if vr_checks r = [] then []
           else [JStr ''## Validation Checks'', JStr []] @ concat (map (check_lines S) (vr_checks r))) @
          map JStr recs)))"

definition write_validation_report ::
  "('x, 'g) llm_services \<Rightarrow> agent_context \<Rightarrow> validation_report \<Rightarrow> ('x, 'g, string list) act" where
  "write_validation_report L ctx r =
     write_documents L ctx (validation_report_to_json r) (validation_report_markdown (ll_text L) r) ''_validation_report''"

section \<open>The agent\<close>

text \<open>Whether an exploration ran, its output and its error\<close>

definition validation_exploration ::
  "('x, 'g) validation_agent \<Rightarrow> test_run \<Rightarrow> agent_context \<Rightarrow> ('x, 'g, bool \<times> string \<times> json) act" where
  "validation_exploration V run ctx =
     (if va_enable_rlm V \<and> va_explore V \<noteq> None then
        bindE (lift_result (needs_rlm_validation run)) (\<lambda>needed.
          if needed then
            bindE (run_rlm_exploration V run ctx) (\<lambda>x.
              ret (case x of None \<Rightarrow> (True, [], JNull) | Some (out, err) \<Rightarrow> (True, out, err)))
          else ret (False, [], JNull))
      else ret (False, [], JNull))"

definition validation_answer ::
  "agent_context \<Rightarrow> validation_report \<Rightarrow> bool \<Rightarrow> json \<Rightarrow> string list \<Rightarrow> agent_result" where
  "validation_answer ctx r used err paths =
     (let ok = json_truthy (vr_passed r)
      in agent_done ''validation_agent'' ctx ok paths
           ([(''validation_report'', validation_report_to_dict r), (''used_rlm'', JBool used),
             (''next_agent'', if ok then JStr ''security_agent'' else JNull)] @
            (if json_truthy err then [(''rlm_error'', err)] else [])))"

definition report_step ::
  "('x, 'g) validation_agent \<Rightarrow> agent_context \<Rightarrow> json pydict \<Rightarrow> test_run \<Rightarrow> bool \<times> string \<times> json \<Rightarrow>
   ('x, 'g, agent_result) act" where
  "report_step V ctx meta run x =
     bindE (generate_validation_report (va_llm V) (dget meta ''implementation'' JNull)
         (dget meta ''acceptance_criteria'' (JList [])) run (fst (snd x))
         (dget meta ''feature_id'' (JStr (ac_task_id ctx)))) (\<lambda>report.
       case report of
         None \<Rightarrow> ret (agent_failed ''validation_agent'' ctx ''Failed to generate validation report'' True)
       | Some r \<Rightarrow>
           bindE (write_validation_report (va_llm V) ctx r) (\<lambda>paths.
             ret (validation_answer ctx r (fst x) (snd (snd x)) paths)))"

definition validation_agent_steps ::
  "('x, 'g) validation_agent \<Rightarrow> agent_context \<Rightarrow> json pydict \<Rightarrow> ('x, 'g, agent_result) act" where
  "validation_agent_steps V ctx meta =
     (if \<not> json_truthy (dget meta ''implementation'' JNull) then
        ret (agent_failed ''validation_agent'' ctx ''No implementation provided in event_metadata'' False)
      else if \<not> json_truthy (dget meta ''acceptance_criteria'' (JList [])) then
        ret (agent_failed ''validation_agent'' ctx ''No acceptance_criteria provided in event_metadata'' False)
      else
        bindE (run_e2e_tests V (dget meta ''test_path'' (JStr ''tests/e2e'')) ctx) (\<lambda>run.
        bindE (validation_exploration V run ctx) (\<lambda>x. report_step V ctx meta run x)))"

definition validation_execute ::
  "('x, 'g) validation_agent \<Rightarrow> agent_context \<Rightarrow> json pydict \<Rightarrow> ('x, 'g, agent_result) act" where
  "validation_execute V ctx meta = guarded_agent ''validation_agent'' ctx (validation_agent_steps V ctx meta)"

section \<open>What a passed validation says\<close>

text \<open>A run read from an output: whether it passed is decided by the lines of that output.\<close>

definition run_of_output :: "test_run \<Rightarrow> bool" where
  "run_of_output run \<longleftrightarrow>
     (\<exists>out err. tn_metadata run = JObj [(''stdout'', JStr out), (''stderr'', JStr err)] \<and>
        (all_passed run \<longleftrightarrow> (\<forall>(n, st) \<in> set (find_tests out). st = ''PASSED'')))"

lemma run_tests_output: "returns run_of_output (run_tests exec R path wc source extra suite)"
proof -
  have "run_of_output (parse_output now out err s)" for now out err s
    unfolding run_of_output_def parse_output_all_passed by (auto simp: parse_output_def Let_def)
  then have "returns run_of_output (case p of
      TimedOut \<Rightarrow> raise e
    | Exited rc out err \<Rightarrow> if 2 \<le> rc then raise (e' rc out err)
        else bindE now_utc (\<lambda>now. ret (parse_output now out err suite')))" for p e e' suite'
    by (cases p) (auto intro!: returns_raise returns_bindE returns_ret)
  then show ?thesis unfolding run_tests_def by (rule returns_bindE)
qed

definition passed_report :: "validation_report \<Rightarrow> bool" where
  "passed_report r \<longleftrightarrow>
     (\<forall>c \<in> set (vr_checks r). json_truthy (vc_passed c)) \<and> all_passed (vr_e2e_results r) \<and>
     run_of_output (vr_e2e_results r)"

definition validation_verdict :: "agent_result \<Rightarrow> bool" where
  "validation_verdict a \<longleftrightarrow>
     (ar_success a \<longrightarrow>
       (\<exists>r. dget (ar_metadata a) ''validation_report'' JNull = validation_report_to_dict r \<and> passed_report r))"

lemma report_verdict:
  assumes "run_of_output run" "vr_e2e_results r = run"
    and "vr_passed r = JBool ((\<forall>c \<in> set (vr_checks r). json_truthy (vc_passed c)) \<and> all_passed run)"
  shows "validation_verdict (validation_answer ctx r used err paths)"
  using assms by (auto simp: validation_verdict_def validation_answer_def passed_report_def dget_def Let_def)

lemma generated_report:
  "returns (\<lambda>r. \<forall>v. r = Some v \<longrightarrow> vr_e2e_results v = run \<and>
      vr_passed v = JBool ((\<forall>c \<in> set (vr_checks v). json_truthy (vc_passed c)) \<and> all_passed run))
     (generate_validation_report L impl criteria run rlm feature)"
  unfolding generate_validation_report_def
  by (intro returns_bindE returns_match_option returns_if returns_ret) (simp_all add: validation_report_for_def)

lemma validation_agent_verdict: "returns validation_verdict (validation_agent_steps V ctx meta)"
proof -
  have failed: "validation_verdict (agent_failed ''validation_agent'' ctx err retry)" for err retry
    by (simp add: validation_verdict_def)
  have step: "returns validation_verdict (report_step V ctx meta run x)" if "run_of_output run" for run x
    unfolding report_step_def
  proof (rule returns_bindE_value [OF generated_report])
    fix report :: "validation_report option"
    assume "\<forall>v. report = Some v \<longrightarrow> vr_e2e_results v = run \<and>
      vr_passed v = JBool ((\<forall>c \<in> set (vr_checks v). json_truthy (vc_passed c)) \<and> all_passed run)"
    then show "returns validation_verdict (case report of
        None \<Rightarrow> ret (agent_failed ''validation_agent'' ctx ''Failed to generate validation report'' True)
      | Some r \<Rightarrow> bindE (write_validation_report (va_llm V) ctx r) (\<lambda>paths.
             ret (validation_answer ctx r (fst x) (snd (snd x)) paths)))"
      using that failed by (intro returns_match_option returns_bindE returns_ret report_verdict) auto
  qed
  have run: "returns run_of_output (run_e2e_tests V path ctx)" for path
    unfolding run_e2e_tests_def by (intro returns_bindE run_tests_output)
  show ?thesis
    unfolding validation_agent_steps_def
    by (intro returns_if returns_ret failed returns_bindE_value [OF run] returns_bindE step)
qed

text \<open>The agent never raises, and succeeds only if the parsed tests and the checks passed.\<close>

theorem passed_validation_is_tested:
  "\<exists>r w'. validation_execute V ctx meta w = (Inr r, w') \<and> validation_verdict r"
  unfolding validation_execute_def
  by (rule guarded_agent_returns [OF validation_agent_verdict]) (simp add: validation_verdict_def)

end
