(* ===== verification/Validation_Flow.thy ===== *)
theory Validation_Flow
  imports Deploy_Phase Security_Agent Validation_Agent
begin

text \<open>
  The validation phase with the program's own agents: what a success of \<^verbatim>\<open>run_validation\<close> says about
  the tests and about the code, whatever the language model answers.
\<close>

definition own_validators ::
  "('x, 'g) validation_agent \<Rightarrow> ('x, 'g) llm_services \<Rightarrow> ('x, 'g) deploy_coordinator \<Rightarrow> ('x, 'g) deploy_coordinator" where
  "own_validators V L C =
     C\<lparr>dco_validation_agent := llm_agent ''validation_agent'' (validation_execute V),
       dco_security_agent := llm_agent ''security_agent'' (security_execute L)\<rparr>"

section \<open>Reports that come back\<close>

text \<open>A report read back from its dictionary differs at most in the time of the test run.\<close>

lemma run_read_back:
  "test_run_of_dict now (test_run_to_dict t) = Inr t' \<Longrightarrow> \<exists>c. t' = t\<lparr>tn_created_at := c\<rparr>"
  by (cases t) (auto simp: test_run_to_dict_def test_run_of_dict_def codec bind_sum_def split: sum.splits)

lemma report_read_back:
  assumes "validation_report_of_dict now (validation_report_to_dict r) = Inr r'"
  shows "\<exists>c. r' = r\<lparr>vr_e2e_results := (vr_e2e_results r)\<lparr>tn_created_at := c\<rparr>\<rparr>"
  using assms
  by (cases r) (auto simp: validation_report_to_dict_def validation_report_of_dict_def codec bind_sum_def
      split: sum.splits dest!: run_read_back)

lemma passed_report_time:
  "passed_report (r\<lparr>vr_e2e_results := (vr_e2e_results r)\<lparr>tn_created_at := c\<rparr>\<rparr>) \<longleftrightarrow> passed_report r"
  by (simp add: passed_report_def run_of_output_def all_passed_def)

lemma extracted: "extract_document f k a = Some x \<Longrightarrow> f (dget (ar_metadata a) k JNull) = Inr x"
  by (auto simp: extract_document_def Let_def split: if_splits sum.splits)

lemma validated_report:
  assumes "validation_verdict a" "ar_success a"
    and "extract_document (validation_report_of_dict now) ''validation_report'' a = Some v"
  shows "passed_report v"
proof -
  obtain r where r: "dget (ar_metadata a) ''validation_report'' JNull = validation_report_to_dict r" "passed_report r"
    using assms(1, 2) by (auto simp: validation_verdict_def)
  then have "validation_report_of_dict now (validation_report_to_dict r) = Inr v"
    using extracted [OF assms(3)] by simp
  from report_read_back [OF this] show ?thesis using r(2) by (auto simp: passed_report_time)
qed

lemma secured_report:
  assumes "security_verdict S meta a" "ar_success a"
    and "extract_document security_report_of_dict ''security_report'' a = Some s"
  shows "\<not> blocks (sr_findings s)"
proof -
  obtain r where r: "dget (ar_metadata a) ''security_report'' JNull = security_report_to_dict r" "\<not> blocks (sr_findings r)"
    using assms(1, 2) by (auto simp: security_verdict_def)
  then show ?thesis using extracted [OF assms(3)] by (simp add: security_report_reads_back)
qed

section \<open>The phase\<close>

definition sound_validation :: "(json \<Rightarrow> string) \<Rightarrow> json pydict \<Rightarrow> validation_result \<Rightarrow> bool" where
  "sound_validation S impl r \<longleftrightarrow>
     (vd_success r \<longrightarrow>
       (\<exists>v s code. vd_validation_report r = Some v \<and> passed_report v \<and>
          vd_security_report r = Some s \<and> \<not> blocks (sr_findings s) \<and>
          extract_code_content S (JObj impl) = Inr code \<and> clean_code code))"

lemma sound_failed [simp]: "sound_validation S impl (validation_failed step err)"
  by (simp add: sound_validation_def validation_failed_def)

lemma gate_sound:
  assumes "passed_report v" "\<not> blocks (sr_findings s)" "extract_code_content S (JObj impl) = Inr code" "clean_code code"
  shows "returns (sound_validation S impl) (validation_gate E C ctx skip v s paths)"
proof -
  have "sound_validation S impl (validation_succeeded v s)" "sound_validation S impl (validation_pending v s rid)" for rid
    using assms by (auto simp: sound_validation_def validation_succeeded_def validation_pending_def)
  then show ?thesis unfolding validation_gate_def by (intro returns_if returns_bindE returns_ret)
qed

lemma execute_verdicts:
  "returns validation_verdict (validation_execute V ctx meta)"
  "returns (security_verdict (ll_text L) meta) (security_execute L ctx meta)"
  unfolding returns_def
  by (metis passed_validation_is_tested fst_conv Inr_inject) (metis passed_scan_is_clean fst_conv Inr_inject)

definition meta_of :: "agent_context \<Rightarrow> json pydict \<Rightarrow> json pydict" where
  "meta_of ctx impl = [(''implementation'', JObj impl), (''feature_id'', feature_of impl ctx)]"

lemma own_steps_sound:
  "returns (sound_validation (ll_text L) impl) (validation_steps E (own_validators V L C) ctx impl criteria skip)"
proof -
  let ?C = "own_validators V L C"
  have v: "returns validation_verdict (run_validation_agent ?C ctx impl criteria)"
    by (simp add: run_validation_agent_def own_validators_def llm_agent_def execute_verdicts)
  have s: "returns (security_verdict (ll_text L) (meta_of ctx impl)) (run_security_agent ?C ctx impl)"
    by (simp add: run_security_agent_def own_validators_def llm_agent_def meta_of_def execute_verdicts)
  have code: "\<exists>code. extract_code_content (ll_text L) (JObj impl) = Inr code \<and> clean_code code"
    if "security_verdict (ll_text L) (meta_of ctx impl) a" "ar_success a" for a
    using that by (auto simp: security_verdict_def meta_of_def dget_def)
  have step: "returns (sound_validation (ll_text L) impl) (security_step E ?C ctx impl skip r1 v)"
    if "passed_report v" for r1 v
    unfolding security_step_def Let_def
  proof (rule returns_bindE_value [OF s], intro returns_if returns_ret)
    fix a
    let ?s = "extract_document security_report_of_dict ''security_report'' a"
    assume a: "security_verdict (ll_text L) (meta_of ctx impl) a" "\<not> \<not> ar_success a" "\<not> lacks sr_passed ?s"
    then obtain r where "?s = Some r" "\<not> blocks (sr_findings r)"
      using secured_report lacks_cases by blast
    then show "returns (sound_validation (ll_text L) impl)
        (validation_gate E ?C ctx skip v (the ?s) (ar_artifact_paths r1 @ ar_artifact_paths a))"
      using that code [OF a(1)] a(2) by (auto intro: gate_sound)
  qed simp_all
  show ?thesis
    unfolding validation_steps_def Let_def
  proof (rule returns_bindE_value [OF v], intro returns_if returns_bindE returns_ret)
    fix r1 now
    assume "validation_verdict r1" "\<not> \<not> ar_success r1"
      "\<not> lacks vr_passed (extract_document (validation_report_of_dict now) ''validation_report'' r1)"
    then have "passed_report (the (extract_document (validation_report_of_dict now) ''validation_report'' r1))"
      using validated_report lacks_cases by fastforce
    then show "returns (sound_validation (ll_text L) impl)
      (security_step E ?C ctx impl skip r1 (the (extract_document (validation_report_of_dict now) ''validation_report'' r1)))"
      by (rule step)
  qed simp_all
qed

text \<open>C30: With the program's own agents the validation phase never raises, and if it succeeds, whatever
  the language model, the exploration and the files answer, the report it carries is that of a test
  run in whose output every test line that the parser recognises says PASSED, which is also true of
  an output without such lines, and of checks that passed; no finding of the security report is
  critical or high; and in the code scanned no line matches an injection, cross-site scripting or
  OWASP pattern, and none matches a pattern of secrets unless it counts as safe, by a comment sign or
  a look-up of the configuration anywhere in it.\<close>

theorem validated_is_tested_and_clean:
  "\<exists>r w'. run_validation E (own_validators V L C) ctx impl criteria skip w = (Inr r, w') \<and>
     sound_validation (ll_text L) impl r"
  unfolding run_validation_def by (rule guarded_returns [OF own_steps_sound]) simp

section \<open>A run of the phase\<close>

text \<open>The own agents do let a clean and tested implementation pass.\<close>

definition demo_validator :: "('x, 'g) validation_agent" where
  "demo_validator =
     \<lparr>va_llm = demo_llm demo_answer_text, va_exec = (\<lambda>_ _. ret (Exited 0 ''a::t PASSED'' [])),
      va_test_runner = \<lparr>tq_timeout_seconds = 300\<rparr>, va_explore = None, va_enable_rlm = True,
      va_e2e_test_timeout = 600\<rparr>"

definition demo_files :: "json pydict" where
  "demo_files = [(''files'', JList [JObj [(''path'', JStr ''a''), (''content'', JStr ''x'')]])]"

lemma demo_output:
  "find_tests ''a::t PASSED'' = [(''t'', ''PASSED'')]" "parse_coverage ''a::t PASSED'' = JInt 0"
  by code_simp+

lemma demo_passed: "all_passed (parse_output now ''a::t PASSED'' [] suite)"
  unfolding parse_output_all_passed by code_simp

lemma demo_validates:
  fixes w :: "('x, 'g) world"
  defines "now \<equiv> utc_datetime (clock_us w)"
  shows "\<exists>a. validation_execute (demo_validator :: ('x, 'g) validation_agent) (demo_ctx [])
      [(''implementation'', JObj demo_files), (''acceptance_criteria'', JList [JStr ''c'']), (''feature_id'', f)] w = (Inr a, w) \<and>
    ar_success a \<and>
    dget (ar_metadata a) ''validation_report'' JNull = validation_report_to_dict
      (validation_report_for f (parse_output now ''a::t PASSED'' [] (JStr ''t1-e2e'')) [(''checks'', JList [])] [])"
proof -
  let ?V = "demo_validator :: ('x, 'g) validation_agent"
  let ?L = "demo_llm demo_answer_text :: ('x, 'g) llm_services"
  let ?run = "parse_output now ''a::t PASSED'' [] (JStr ''t1-e2e'')"
  let ?r = "validation_report_for f ?run [(''checks'', JList [])] []"
  have V: "va_llm ?V = ?L" "va_explore ?V = None" by (simp_all add: demo_validator_def)
  have L: "ll_text ?L = dumps" "ll_loads ?L = loads_opt"
    "ll_generate ?L p = ret demo_answer_text" for p
    by (simp_all add: demo_llm_def)
  have run: "run_e2e_tests ?V (JStr ''tests/e2e'') (demo_ctx []) w = (Inr ?run, w)"
    by (simp add: run_e2e_tests_def run_tests_def demo_validator_def demo_ctx_def now_utc_def now_def lift_result_def
        bindE_def ret_def)
  have report: "generate_validation_report ?L (JObj demo_files) (JList [JStr ''c'']) ?run [] f w =
      (Inr (Some ?r), w)"
  proof -
    have "\<exists>p. format_validation_prompt ?L (JObj demo_files) (JList [JStr ''c'']) ?run [] = Inr p"
      by (simp add: format_validation_prompt_def prompt_files_def demo_files_def json_take_def json_iter_def prompt_file_def
          prompt_results_def prompt_result_def parse_output_def parse_test_results_def demo_output as_dict_def dget_def
          bind_sum_def Let_def)
    then show ?thesis
      by (auto simp: generate_validation_report_def ask_json_def L demo_scan model_checks_def model_items_def json_iter_def dget_def
          as_dict_def bind_sum_def lift_result_def bindE_def ret_def)
  qed
  have written: "\<exists>paths. write_validation_report ?L (demo_ctx []) ?r w = (Inr paths, w)"
    by (simp add: write_validation_report_def write_documents_def demo_write L validation_report_markdown_def validation_report_for_def
        parse_output_def demo_output fixed1_def bullet_section_def join_lines_def join_values_def dget_def bind_sum_def
        lift_result_def bindE_def ret_def Let_def)
  have ok: "vr_passed ?r = JBool True" using demo_passed [of now] by (simp add: validation_report_for_def)
  show ?thesis
    using written
    by (auto simp: validation_execute_def guarded_agent_def try_except_def validation_agent_steps_def dget_def demo_files_def
        run [unfolded demo_files_def] validation_exploration_def V report_step_def report [unfolded demo_files_def]
        validation_answer_def ok bindE_def ret_def Let_def)
qed

text \<open>So the phase is not just never successful: a clean file and a passed run pass.\<close>

theorem own_agents_validate:
  fixes E :: "('x, 'g) env" and w :: "('x, 'g) world"
  assumes "valid_datetime (utc_datetime (clock_us w))"
  shows "\<exists>r. run_validation E (own_validators demo_validator (demo_llm demo_answer_text) C) (demo_ctx []) demo_files
     [JStr ''c''] True w = (Inr r, w) \<and> vd_success r"
proof -
  let ?C = "own_validators demo_validator (demo_llm demo_answer_text) C"
  let ?f = "feature_of demo_files (demo_ctx [])"
  let ?v = "validation_report_for ?f (parse_output (utc_datetime (clock_us w)) ''a::t PASSED'' [] (JStr ''t1-e2e''))
    [(''checks'', JList [])] []"
  let ?s = "security_report_for ?f [] [(''checks'', JList [])]"
  obtain a where a: "run_validation_agent ?C (demo_ctx []) demo_files [JStr ''c''] w = (Inr a, w)" "ar_success a"
      "dget (ar_metadata a) ''validation_report'' JNull = validation_report_to_dict ?v"
    using demo_validates [of ?f w] by (auto simp: run_validation_agent_def own_validators_def llm_agent_def)
  obtain b where b: "run_security_agent ?C (demo_ctx []) demo_files w = (Inr b, w)" "ar_success b"
      "dget (ar_metadata b) ''security_report'' JNull = security_report_to_dict ?s"
    using clean_scan_succeeds [of ?f w]
    by (auto simp: run_security_agent_def own_validators_def llm_agent_def demo_files_def demo_implementation_def)
  have v: "extract_document (validation_report_of_dict now) ''validation_report'' a = Some ?v" for now
    using assms
    by (intro extract_document_dict [OF a(3)] validation_report_reads_back)
      (simp_all add: validation_report_to_dict_def validation_report_times_def validation_report_for_def
        parse_output_def test_run_times_def Let_def)
  have s: "extract_document security_report_of_dict ''security_report'' b = Some ?s"
    by (intro extract_document_dict [OF b(3)] security_report_reads_back) (simp add: security_report_to_dict_def)
  have ok: "vr_passed ?v = JBool True" "sr_passed ?s = JBool True"
    using demo_passed by (simp_all add: validation_report_for_def security_report_for_def blocks_def)
  show ?thesis
    by (simp add: run_validation_def try_except_def validation_steps_def security_step_def validation_gate_def a(1)
        b(1) a(2) b(2) v s ok lacks_def validation_succeeded_def now_utc_def bindE_def ret_def Let_def)
qed

end
