(* ===== verification/Phase_Configs.thy ===== *)
theory Phase_Configs
  imports Complex_Main Phases Deploy_Models
begin

text \<open>
  The configurations of the five groups of agents (\<^verbatim>\<open>src/workers/agents/*/config.py\<close>).  The classes
  differ in their fields, defaults, environment variables and checks, which are tables here; the
  methods are the same in all.  Python does not check the types of fields, so a value carries
  its own type.
\<close>

section \<open>Values\<close>

text \<open>A float: a finite one stands for the number it is written as.\<close>

datatype py_float = Fin rat | PosInf | NegInf | NotANumber

fun float_le :: "py_float \<Rightarrow> py_float \<Rightarrow> bool" where
  "float_le NotANumber y = False"
| "float_le x NotANumber = False"
| "float_le NegInf y = True"
| "float_le x PosInf = True"
| "float_le (Fin a) (Fin b) = (a \<le> b)"
| "float_le x y = False"

definition float_less :: "py_float \<Rightarrow> py_float \<Rightarrow> bool" where
  "float_less x y \<longleftrightarrow> float_le x y \<and> \<not> float_le y x"

datatype cfg_value =
    VStr string
  | VInt int
  | VFloat py_float
  | VBool bool
  | VPath string
  | VStrategy deployment_strategy

type_synonym config = "cfg_value pydict"

text \<open>The number a value is compared as\<close>

definition cfg_number :: "cfg_value \<Rightarrow> exn + py_float" where
  "cfg_number v =
     (case v of
        VInt i \<Rightarrow> Inr (Fin (of_int i))
      | VFloat f \<Rightarrow> Inr f
      | VBool b \<Rightarrow> Inr (Fin (if b then 1 else 0))
      | _ \<Rightarrow> Inl (Exn PyTypeError ''not supported between instances''))"

section \<open>Checks\<close>

text \<open>A field, its test and the message for the text of a value; a test passes where the code does not
  raise.\<close>

type_synonym config_check = "string \<times> (cfg_value \<Rightarrow> exn + bool) \<times> (string \<Rightarrow> string)"

definition got :: "string \<Rightarrow> string \<Rightarrow> string" where
  "got msg t = msg @ '', got '' @ t"

definition apostrophes :: "string \<Rightarrow> string" where
  "apostrophes = map (\<lambda>c. if c = CHR 0x5E then CHR 0x27 else c)"

definition got_quoted :: "string \<Rightarrow> string \<Rightarrow> string" where
  "got_quoted msg t = msg @ '', got '' @ [CHR 0x27] @ t @ [CHR 0x27]"

definition at_least :: "int \<Rightarrow> cfg_value \<Rightarrow> exn + bool" where
  "at_least n v = bind_sum (cfg_number v) (\<lambda>x. Inr (\<not> float_less x (Fin (of_int n))))"

definition above :: "int \<Rightarrow> cfg_value \<Rightarrow> exn + bool" where
  "above n v = bind_sum (cfg_number v) (\<lambda>x. Inr (\<not> float_le x (Fin (of_int n))))"

definition between :: "int \<Rightarrow> int \<Rightarrow> cfg_value \<Rightarrow> exn + bool" where
  "between m n v =
     bind_sum (cfg_number v) (\<lambda>x. Inr (float_le (Fin (of_int m)) x \<and> float_le x (Fin (of_int n))))"

definition one_of_strings :: "string list \<Rightarrow> cfg_value \<Rightarrow> exn + bool" where
  "one_of_strings ss v = Inr (v \<in> VStr ` set ss)"

datatype env_kind = EnvStr | EnvInt | EnvFloat | EnvBool | EnvPath | EnvStrategy

record config_class =
  cc_defaults :: config
  cc_env :: "(string \<times> string \<times> env_kind) list"
  cc_checks :: "config_check list"

section \<open>The classes\<close>

definition validation_config_defaults :: config where
  "validation_config_defaults =
     [(''validation_model'', VStr ''claude-sonnet-4-20250514''),
      (''security_model'', VStr ''claude-sonnet-4-20250514''),
      (''max_tokens'', VInt 8192),
      (''temperature'', VFloat (Fin (1 / 10))),
      (''artifact_base_path'', VPath ''artifacts/validation''),
      (''enable_rlm'', VBool True),
      (''e2e_test_timeout'', VInt 600),
      (''security_scan_level'', VStr ''standard'')]"

definition validation_config_checks :: "config_check list" where
  "validation_config_checks =
     [(''max_tokens'', at_least 100, got ''max_tokens must be at least 100''),
      (''temperature'', between 0 2, got ''temperature must be between 0 and 2''),
      (''e2e_test_timeout'', above 0, got ''e2e_test_timeout must be positive''),
      (''security_scan_level'', one_of_strings [''minimal'', ''standard'', ''thorough''],
       got_quoted (''security_scan_level must be one of '' @ apostrophes ''[^minimal^, ^standard^, ^thorough^]''))]"

definition validation_config_env :: "(string \<times> string \<times> env_kind) list" where
  "validation_config_env =
     [(''validation_model'', ''VALIDATION_MODEL'', EnvStr),
      (''security_model'', ''VALIDATION_SECURITY_MODEL'', EnvStr),
      (''max_tokens'', ''VALIDATION_MAX_TOKENS'', EnvInt),
      (''temperature'', ''VALIDATION_TEMPERATURE'', EnvFloat),
      (''artifact_base_path'', ''VALIDATION_ARTIFACT_PATH'', EnvPath),
      (''enable_rlm'', ''VALIDATION_ENABLE_RLM'', EnvBool),
      (''e2e_test_timeout'', ''VALIDATION_E2E_TIMEOUT'', EnvInt),
      (''security_scan_level'', ''VALIDATION_SECURITY_SCAN_LEVEL'', EnvStr)]"

definition validation_config_class :: config_class where
  "validation_config_class =
     \<lparr>cc_defaults = validation_config_defaults, cc_env = validation_config_env, cc_checks = validation_config_checks\<rparr>"

definition deployment_config_defaults :: config where
  "deployment_config_defaults =
     [(''release_model'', VStr ''claude-sonnet-4-20250514''),
      (''deployment_model'', VStr ''claude-sonnet-4-20250514''),
      (''monitor_model'', VStr ''claude-sonnet-4-20250514''),
      (''max_tokens'', VInt 8192),
      (''temperature'', VFloat (Fin (1 / 10))),
      (''artifact_base_path'', VPath ''artifacts/deployment''),
      (''rollback_enabled'', VBool True),
      (''canary_percentage'', VInt 10),
      (''health_check_interval'', VInt 30),
      (''deployment_strategy'', VStrategy DS_ROLLING)]"

definition deployment_config_checks :: "config_check list" where
  "deployment_config_checks =
     [(''max_tokens'', at_least 100, got ''max_tokens must be at least 100''),
      (''temperature'', between 0 2, got ''temperature must be between 0 and 2''),
      (''canary_percentage'', between 1 100, got ''canary_percentage must be between 1 and 100''),
      (''health_check_interval'', above 0, got ''health_check_interval must be positive'')]"

definition deployment_config_env :: "(string \<times> string \<times> env_kind) list" where
  "deployment_config_env =
     [(''release_model'', ''DEPLOYMENT_RELEASE_MODEL'', EnvStr),
      (''deployment_model'', ''DEPLOYMENT_DEPLOY_MODEL'', EnvStr),
      (''monitor_model'', ''DEPLOYMENT_MONITOR_MODEL'', EnvStr),
      (''max_tokens'', ''DEPLOYMENT_MAX_TOKENS'', EnvInt),
      (''temperature'', ''DEPLOYMENT_TEMPERATURE'', EnvFloat),
      (''artifact_base_path'', ''DEPLOYMENT_ARTIFACT_PATH'', EnvPath),
      (''rollback_enabled'', ''DEPLOYMENT_ROLLBACK_ENABLED'', EnvBool),
      (''canary_percentage'', ''DEPLOYMENT_CANARY_PERCENTAGE'', EnvInt),
      (''health_check_interval'', ''DEPLOYMENT_HEALTH_CHECK_INTERVAL'', EnvInt),
      (''deployment_strategy'', ''DEPLOYMENT_STRATEGY'', EnvStrategy)]"

definition deployment_config_class :: config_class where
  "deployment_config_class =
     \<lparr>cc_defaults = deployment_config_defaults, cc_env = deployment_config_env, cc_checks = deployment_config_checks\<rparr>"

definition design_config_defaults :: config where
  "design_config_defaults =
     [(''surveyor_model'', VStr ''claude-sonnet-4-20250514''),
      (''architect_model'', VStr ''claude-sonnet-4-20250514''),
      (''planner_model'', VStr ''claude-sonnet-4-20250514''),
      (''max_tokens'', VInt 16384),
      (''temperature'', VFloat (Fin (1 / 5))),
      (''artifact_base_path'', VPath ''artifacts/design''),
      (''enable_rlm'', VBool True),
      (''rlm_context_threshold'', VInt 100000),
      (''context_pack_required'', VBool True),
      (''max_retries'', VInt 3),
      (''retry_delay_seconds'', VFloat (Fin 1))]"

definition design_config_checks :: "config_check list" where
  "design_config_checks =
     [(''max_tokens'', at_least 100, got ''max_tokens must be at least 100''),
      (''temperature'', between 0 2, got ''temperature must be between 0 and 2''),
      (''max_retries'', at_least 0, got ''max_retries must be non-negative''),
      (''rlm_context_threshold'', at_least 1000, got ''rlm_context_threshold must be at least 1000''),
      (''retry_delay_seconds'', at_least 0, got ''retry_delay_seconds must be non-negative'')]"

definition design_config_env :: "(string \<times> string \<times> env_kind) list" where
  "design_config_env =
     [(''surveyor_model'', ''DESIGN_SURVEYOR_MODEL'', EnvStr),
      (''architect_model'', ''DESIGN_ARCHITECT_MODEL'', EnvStr),
      (''planner_model'', ''DESIGN_PLANNER_MODEL'', EnvStr),
      (''max_tokens'', ''DESIGN_MAX_TOKENS'', EnvInt),
      (''temperature'', ''DESIGN_TEMPERATURE'', EnvFloat),
      (''artifact_base_path'', ''DESIGN_ARTIFACT_PATH'', EnvPath),
      (''enable_rlm'', ''DESIGN_ENABLE_RLM'', EnvBool),
      (''rlm_context_threshold'', ''DESIGN_RLM_THRESHOLD'', EnvInt),
      (''context_pack_required'', ''DESIGN_CONTEXT_PACK_REQUIRED'', EnvBool),
      (''max_retries'', ''DESIGN_MAX_RETRIES'', EnvInt),
      (''retry_delay_seconds'', ''DESIGN_RETRY_DELAY'', EnvFloat)]"

definition design_config_class :: config_class where
  "design_config_class =
     \<lparr>cc_defaults = design_config_defaults, cc_env = design_config_env, cc_checks = design_config_checks\<rparr>"

definition discovery_config_defaults :: config where
  "discovery_config_defaults =
     [(''prd_model'', VStr ''claude-sonnet-4-20250514''),
      (''acceptance_model'', VStr ''claude-sonnet-4-20250514''),
      (''max_tokens'', VInt 8192),
      (''temperature'', VFloat (Fin (3 / 10))),
      (''artifact_base_path'', VPath ''artifacts/discovery''),
      (''enable_rlm'', VBool True),
      (''rlm_context_threshold'', VInt 100000),
      (''max_retries'', VInt 3),
      (''retry_delay_seconds'', VFloat (Fin 1))]"

definition discovery_config_checks :: "config_check list" where
  "discovery_config_checks =
     [(''max_tokens'', at_least 100, got ''max_tokens must be at least 100''),
      (''temperature'', between 0 2, got ''temperature must be between 0 and 2''),
      (''max_retries'', at_least 0, got ''max_retries must be non-negative''),
      (''rlm_context_threshold'', at_least 1000, got ''rlm_context_threshold must be at least 1000''),
      (''retry_delay_seconds'', at_least 0, got ''retry_delay_seconds must be non-negative'')]"

definition discovery_config_env :: "(string \<times> string \<times> env_kind) list" where
  "discovery_config_env =
     [(''prd_model'', ''DISCOVERY_PRD_MODEL'', EnvStr),
      (''acceptance_model'', ''DISCOVERY_ACCEPTANCE_MODEL'', EnvStr),
      (''max_tokens'', ''DISCOVERY_MAX_TOKENS'', EnvInt),
      (''temperature'', ''DISCOVERY_TEMPERATURE'', EnvFloat),
      (''artifact_base_path'', ''DISCOVERY_ARTIFACT_PATH'', EnvPath),
      (''enable_rlm'', ''DISCOVERY_ENABLE_RLM'', EnvBool),
      (''rlm_context_threshold'', ''DISCOVERY_RLM_THRESHOLD'', EnvInt),
      (''max_retries'', ''DISCOVERY_MAX_RETRIES'', EnvInt),
      (''retry_delay_seconds'', ''DISCOVERY_RETRY_DELAY'', EnvFloat)]"

definition discovery_config_class :: config_class where
  "discovery_config_class =
     \<lparr>cc_defaults = discovery_config_defaults, cc_env = discovery_config_env, cc_checks = discovery_config_checks\<rparr>"

definition development_config_defaults :: config where
  "development_config_defaults =
     [(''utest_model'', VStr ''claude-sonnet-4-20250514''),
      (''coding_model'', VStr ''claude-sonnet-4-20250514''),
      (''debugger_model'', VStr ''claude-sonnet-4-20250514''),
      (''reviewer_model'', VStr ''claude-opus-4-20250514''),
      (''max_tokens'', VInt 16384),
      (''temperature'', VFloat (Fin (1 / 5))),
      (''artifact_base_path'', VPath ''artifacts/development''),
      (''enable_rlm'', VBool True),
      (''max_coding_retries'', VInt 4),
      (''test_timeout_seconds'', VInt 300),
      (''coverage_threshold'', VFloat (Fin 80))]"

definition development_config_checks :: "config_check list" where
  "development_config_checks =
     [(''max_tokens'', at_least 100, got ''max_tokens must be at least 100''),
      (''temperature'', between 0 2, got ''temperature must be between 0 and 2''),
      (''max_coding_retries'', at_least 0, got ''max_coding_retries must be non-negative''),
      (''test_timeout_seconds'', above 0, got ''test_timeout_seconds must be positive''),
      (''coverage_threshold'', between 0 100, got ''coverage_threshold must be between 0 and 100'')]"

definition development_config_env :: "(string \<times> string \<times> env_kind) list" where
  "development_config_env =
     [(''utest_model'', ''DEVELOPMENT_UTEST_MODEL'', EnvStr),
      (''coding_model'', ''DEVELOPMENT_CODING_MODEL'', EnvStr),
      (''debugger_model'', ''DEVELOPMENT_DEBUGGER_MODEL'', EnvStr),
      (''reviewer_model'', ''DEVELOPMENT_REVIEWER_MODEL'', EnvStr),
      (''max_tokens'', ''DEVELOPMENT_MAX_TOKENS'', EnvInt),
      (''temperature'', ''DEVELOPMENT_TEMPERATURE'', EnvFloat),
      (''artifact_base_path'', ''DEVELOPMENT_ARTIFACT_PATH'', EnvPath),
      (''enable_rlm'', ''DEVELOPMENT_ENABLE_RLM'', EnvBool),
      (''max_coding_retries'', ''DEVELOPMENT_MAX_CODING_RETRIES'', EnvInt),
      (''test_timeout_seconds'', ''DEVELOPMENT_TEST_TIMEOUT'', EnvInt),
      (''coverage_threshold'', ''DEVELOPMENT_COVERAGE_THRESHOLD'', EnvFloat)]"

definition development_config_class :: config_class where
  "development_config_class =
     \<lparr>cc_defaults = development_config_defaults, cc_env = development_config_env, cc_checks = development_config_checks\<rparr>"

section \<open>Construction\<close>

text \<open>\<^verbatim>\<open>T\<close> is the text of a value in a message.\<close>

fun run_checks :: "(cfg_value \<Rightarrow> string) \<Rightarrow> config_check list \<Rightarrow> config \<Rightarrow> exn + unit" where
  "run_checks T [] c = Inr ()"
| "run_checks T ((k, test, msg) # cs) c =
     (let v = dget c k (VBool False)
      in bind_sum (test v) (\<lambda>ok. if ok then run_checks T cs c else Inl (Exn PyException (msg (T v)))))"

definition new_config :: "(cfg_value \<Rightarrow> string) \<Rightarrow> config_class \<Rightarrow> config \<Rightarrow> exn + config" where
  "new_config T K kw =
     (if fst ` set kw \<subseteq> fst ` set (cc_defaults K) then
        let c = map (\<lambda>(k, d). (k, dget kw k d)) (cc_defaults K)
        in bind_sum (run_checks T (cc_checks K) c) (\<lambda>_. Inr c)
      else Inl (Exn PyTypeError ''got an unexpected keyword argument''))"

text \<open>\<^verbatim>\<open>float(s)\<close> is a parameter.\<close>

definition env_value :: "(string \<Rightarrow> exn + py_float) \<Rightarrow> os_environ \<Rightarrow> string \<Rightarrow> env_kind \<Rightarrow> cfg_value \<Rightarrow> exn + cfg_value" where
  "env_value flt e var kind d =
     (case map_of e var of
        None \<Rightarrow> Inr d
      | Some s \<Rightarrow>
          (case kind of
             EnvStr \<Rightarrow> Inr (VStr s)
           | EnvInt \<Rightarrow> bind_sum (py_int s) (\<lambda>i. Inr (VInt i))
           | EnvFloat \<Rightarrow> bind_sum (flt s) (\<lambda>x. Inr (VFloat x))
           | EnvBool \<Rightarrow> Inr (VBool (env_flag s))
           | EnvPath \<Rightarrow> Inr (if s \<noteq> [] then VPath (path_text s) else d)
           | EnvStrategy \<Rightarrow> bind_sum (deployment_strategy_of (JStr s)) (\<lambda>x. Inr (VStrategy x))))"

definition config_from_env ::
  "(cfg_value \<Rightarrow> string) \<Rightarrow> (string \<Rightarrow> exn + py_float) \<Rightarrow> config_class \<Rightarrow> os_environ \<Rightarrow> exn + config" where
  "config_from_env T flt K e =
     bind_sum (map_result (\<lambda>(k, var, kind).
         bind_sum (env_value flt e var kind (dget (cc_defaults K) k (VBool False))) (\<lambda>v. Inr (k, v))) (cc_env K)) (\<lambda>kw.
       new_config T K kw)"

definition plain_value :: "(cfg_value \<Rightarrow> string) \<Rightarrow> string \<Rightarrow> cfg_value \<Rightarrow> exn + cfg_value" where
  "plain_value T k v =
     (if k = ''artifact_base_path'' then Inr (VStr (case v of VPath p \<Rightarrow> p | _ \<Rightarrow> T v))
      else if k = ''deployment_strategy'' then
        (case v of VStrategy s \<Rightarrow> Inr (VStr (deployment_strategy_value s))
         | _ \<Rightarrow> Inl (Exn PyAttributeError ''object has no attribute value''))
      else Inr v)"

definition config_to_dict :: "(cfg_value \<Rightarrow> string) \<Rightarrow> config \<Rightarrow> exn + config" where
  "config_to_dict T c = map_result (\<lambda>(k, v). bind_sum (plain_value T k v) (\<lambda>x. Inr (k, x))) c"

text \<open>A text becomes a path again, and a strategy.\<close>

definition typed_value :: "string \<Rightarrow> cfg_value \<Rightarrow> exn + cfg_value" where
  "typed_value k v =
     (case v of
        VStr s \<Rightarrow>
          if k = ''artifact_base_path'' then Inr (VPath (path_text s))
          else if k = ''deployment_strategy'' then bind_sum (deployment_strategy_of (JStr s)) (\<lambda>x. Inr (VStrategy x))
          else Inr v
      | _ \<Rightarrow> Inr v)"

definition with_overrides ::
  "(cfg_value \<Rightarrow> string) \<Rightarrow> config_class \<Rightarrow> config \<Rightarrow> config \<Rightarrow> exn + config" where
  "with_overrides T K c kw =
     bind_sum (config_to_dict T c) (\<lambda>d.
     bind_sum (map_result (\<lambda>(k, v). bind_sum (typed_value k v) (\<lambda>x. Inr (k, x)))
         (fold (\<lambda>(k, v) d. dset k v d) kw d)) (\<lambda>kw'.
       new_config T K kw'))"

section \<open>The models of the administration\<close>

text \<open>\<^verbatim>\<open>DevelopmentConfig.from_llm_config\<close>: the service, if there is one, gives the model of a role; a
  role it has none for, or fails on, keeps its default.\<close>

definition model_of_role :: "(string \<Rightarrow> ('s, string option) io) \<Rightarrow> string \<times> string \<Rightarrow> ('s, config) io" where
  "model_of_role svc rf =
     try_except
       (bindE (svc (fst rf)) (\<lambda>m. ret (if truthy m then [(snd rf, VStr (the m))] else [])))
       any_exception (\<lambda>_. ret [])"

definition role_fields :: "(string \<times> string) list" where
  "role_fields =
     [(''utest'', ''utest_model''), (''coding'', ''coding_model''), (''debugger'', ''debugger_model''),
      (''reviewer'', ''reviewer_model'')]"

definition config_from_llm_config ::
  "(cfg_value \<Rightarrow> string) \<Rightarrow> (string \<Rightarrow> ('s, string option) io) option \<Rightarrow> ('s, config) io" where
  "config_from_llm_config T svc =
     (case svc of
        None \<Rightarrow> lift_result (new_config T development_config_class [])
      | Some f \<Rightarrow>
          bindE (collect role_fields (model_of_role f)) (\<lambda>kws.
            lift_result (new_config T development_config_class (concat kws))))"

section \<open>Validity\<close>

text \<open>A configuration has exactly the fields of its class and passes its checks.\<close>

definition config_ok :: "config_class \<Rightarrow> config \<Rightarrow> bool" where
  "config_ok K c \<longleftrightarrow>
     map fst c = map fst (cc_defaults K) \<and>
     (\<forall>(k, test, msg) \<in> set (cc_checks K). test (dget c k (VBool False)) = Inr True)"

lemma run_checks_ok:
  "run_checks T cs c = Inr () \<longleftrightarrow> (\<forall>(k, test, msg) \<in> set cs. test (dget c k (VBool False)) = Inr True)"
  by (induction T cs c rule: run_checks.induct) (auto simp: bind_sum_def Let_def split: sum.splits)

lemma new_config_ok: "new_config T K kw = Inr c \<Longrightarrow> config_ok K c"
  unfolding new_config_def config_ok_def
  by (auto simp: bind_sum_def comp_def Let_def split: if_splits sum.splits dest!: run_checks_ok [THEN iffD1])

text \<open>However a configuration is made, from the environment, from another one or by the administration, it
  is valid.\<close>

theorem configurations_are_valid:
  "(\<forall>c. config_from_env T flt K e = Inr c \<longrightarrow> config_ok K c) \<and>
   (\<forall>c'. with_overrides T K c kw = Inr c' \<longrightarrow> config_ok K c') \<and>
   (\<forall>c'. fst (config_from_llm_config T svc w) = Inr c' \<longrightarrow> config_ok development_config_class c')"
proof (intro conjI allI impI)
  show "config_ok K c" if "config_from_env T flt K e = Inr c" for c
    using that by (auto simp: config_from_env_def bind_sum_def split: sum.splits intro: new_config_ok)
  show "config_ok K c'" if "with_overrides T K c kw = Inr c'" for c'
    using that by (auto simp: with_overrides_def bind_sum_def split: sum.splits intro: new_config_ok)
  show "config_ok development_config_class c'" if "fst (config_from_llm_config T svc w) = Inr c'" for c'
    using that
    by (auto simp: config_from_llm_config_def bindE_def split: option.splits sum.splits intro: new_config_ok)
qed

text \<open>The defaults of every class are valid, and without variables they are what a class reads.\<close>

definition phase_classes :: "config_class list" where
  "phase_classes =
     [validation_config_class, deployment_config_class, design_config_class, discovery_config_class,
      development_config_class]"

lemmas class_tables =
  validation_config_class_def validation_config_defaults_def validation_config_checks_def validation_config_env_def
  deployment_config_class_def deployment_config_defaults_def deployment_config_checks_def deployment_config_env_def
  design_config_class_def design_config_defaults_def design_config_checks_def design_config_env_def
  discovery_config_class_def discovery_config_defaults_def discovery_config_checks_def discovery_config_env_def
  development_config_class_def development_config_defaults_def development_config_checks_def
  development_config_env_def

lemma defaults_pass: "K \<in> set phase_classes \<Longrightarrow> run_checks T (cc_checks K) (cc_defaults K) = Inr ()"
  by (auto simp: phase_classes_def class_tables dget_def at_least_def above_def between_def one_of_strings_def
      cfg_number_def float_less_def bind_sum_def)

lemma env_table:
  "K \<in> set phase_classes \<Longrightarrow> map fst (cc_env K) = map fst (cc_defaults K) \<and> distinct (map fst (cc_defaults K))"
  by (auto simp: phase_classes_def class_tables)

lemma dget_self: "distinct (map fst d) \<Longrightarrow> map (\<lambda>(k, x). (k, dget d k (f k x))) d = d"
  by (rule map_idI) (auto simp: dget_def)

lemma new_config_self:
  assumes "map fst c = map fst (cc_defaults K)" "distinct (map fst c)" "run_checks T (cc_checks K) c = Inr ()"
  shows "new_config T K c = Inr c"
proof -
  have "map (\<lambda>(k, d). (k, dget c k d)) (cc_defaults K) = map (\<lambda>k. (k, the (map_of c k))) (map fst (cc_defaults K))"
    using arg_cong [OF assms(1), of set]
    by (auto simp: dget_def map_of_eq_None_iff split: option.split) (metis imageI fst_conv)
  also have "\<dots> = c"
    unfolding assms(1) [symmetric] using assms(2) by (auto intro!: map_idI)
  finally show ?thesis
    using arg_cong [OF assms(1), of set] assms(3) by (simp add: new_config_def Let_def bind_sum_def)
qed

lemma map_result_pure: "(\<And>x. x \<in> set xs \<Longrightarrow> f x = Inr (g x)) \<Longrightarrow> map_result f xs = Inr (map g xs)"
  by (induction xs) auto

theorem defaults_without_environment:
  assumes "K \<in> set phase_classes"
  shows "config_from_env T flt K [] = Inr (cc_defaults K)"
proof -
  have "map_result (\<lambda>(k, var, kind).
      bind_sum (env_value flt [] var kind (dget (cc_defaults K) k (VBool False))) (\<lambda>v. Inr (k, v))) (cc_env K) =
    Inr (map (\<lambda>(k, var, kind). (k, dget (cc_defaults K) k (VBool False))) (cc_env K))"
    by (rule map_result_pure) (auto simp: env_value_def bind_sum_def)
  also have "map (\<lambda>(k, var, kind). (k, dget (cc_defaults K) k (VBool False))) (cc_env K) =
      map (\<lambda>k. (k, dget (cc_defaults K) k (VBool False))) (map fst (cc_env K))"
    by (simp add: comp_def case_prod_unfold)
  also have "\<dots> = cc_defaults K"
    using env_table [OF assms] dget_self [of "cc_defaults K" "\<lambda>k x. VBool False"] by (simp add: comp_def case_prod_unfold)
  finally show ?thesis
    using new_config_self [of "cc_defaults K" K T] env_table [OF assms] defaults_pass [OF assms]
    by (simp add: config_from_env_def bind_sum_def)
qed

text \<open>Overriding nothing gives the same configuration again.\<close>

definition settled_config :: "config \<Rightarrow> bool" where
  "settled_config c \<longleftrightarrow>
     (\<forall>(k, v) \<in> set c.
        (k = ''artifact_base_path'' \<longrightarrow> (\<exists>p. v = VPath p \<and> path_text p = p)) \<and>
        (k = ''deployment_strategy'' \<longrightarrow> (\<exists>s. v = VStrategy s)))"

lemma plain_typed:
  assumes "k = ''artifact_base_path'' \<longrightarrow> (\<exists>p. v = VPath p \<and> path_text p = p)"
    and "k = ''deployment_strategy'' \<longrightarrow> (\<exists>s. v = VStrategy s)"
  shows "\<exists>x. plain_value T k v = Inr x \<and> typed_value k x = Inr v"
  using assms by (auto simp: plain_value_def typed_value_def bind_sum_def codec split: cfg_value.splits)

lemma map_result_inverse:
  assumes "\<forall>x \<in> set xs. \<exists>y. f x = Inr y \<and> g y = Inr x"
  shows "\<exists>ys. map_result f xs = Inr ys \<and> map_result g ys = Inr xs"
  using assms by (induction xs) (auto simp: bind_sum_def)

theorem overriding_nothing:
  assumes "config_ok K c" "settled_config c" "distinct (map fst (cc_defaults K))"
  shows "with_overrides T K c [] = Inr c"
proof -
  have "\<exists>d. map_result (\<lambda>(k, v). bind_sum (plain_value T k v) (\<lambda>x. Inr (k, x))) c = Inr d \<and>
      map_result (\<lambda>(k, v). bind_sum (typed_value k v) (\<lambda>x. Inr (k, x))) d = Inr c"
  proof (rule map_result_inverse, rule ballI)
    fix x assume "x \<in> set c"
    then obtain y where "plain_value T (fst x) (snd x) = Inr y" "typed_value (fst x) y = Inr (snd x)"
      using assms(2) plain_typed [of "fst x" "snd x" T] by (fastforce simp: settled_config_def)
    then show "\<exists>y. (case x of (k, v) \<Rightarrow> bind_sum (plain_value T k v) (\<lambda>x. Inr (k, x))) = Inr y \<and>
        (case y of (k, v) \<Rightarrow> bind_sum (typed_value k v) (\<lambda>x. Inr (k, x))) = Inr x"
      by (cases x) (auto simp: bind_sum_def)
  qed
  moreover have "new_config T K c = Inr c"
    using assms by (intro new_config_self) (simp_all add: config_ok_def run_checks_ok)
  ultimately show ?thesis by (auto simp: with_overrides_def config_to_dict_def bind_sum_def)
qed

end
