(* ===== verification/Deploy_Agents.thy ===== *)
theory Deploy_Agents
  imports Llm_Answers Dev_Texts Deploy_Phase
begin

text \<open>
  The agents of the deployment phase (\<^verbatim>\<open>src/workers/agents/deployment/*_agent.py\<close>) around their
  language model: the release manifest, the deployment plan and the monitoring configuration, with
  the prompts that ask for them and the markdown they are written in.
\<close>

text \<open>The fields of the configuration the agents read.\<close>

record deploy_settings =
  dst_rollback_enabled :: bool
  dst_health_check_interval :: int
  dst_canary_percentage :: int
  dst_strategy :: deployment_strategy

section \<open>Markdown\<close>

definition artifact_lines :: "(json \<Rightarrow> string) \<Rightarrow> artifact_reference \<Rightarrow> string list" where
  "artifact_lines S a =
     [''### '' @ json_text S (af_name a),
      [],
      ''**Type:** '' @ artifact_type_value (af_artifact_type a),
      ''**Location:** '' @ json_text S (af_location a)] @
     (if json_truthy (af_checksum a) then [''**Checksum:** '' @ json_text S (af_checksum a)] else []) @ [[]]"

definition manifest_markdown :: "(json \<Rightarrow> string) \<Rightarrow> release_manifest \<Rightarrow> exn + string" where
  "manifest_markdown S m =
     bind_sum (bullet_section S ''## Features'' (rm_features m)) (\<lambda>features.
       join_lines
         ([JStr ''# Release Manifest'',
           JStr [],
           JStr (''**Version:** '' @ json_text S (rm_version m)),
           JStr []] @
          map JStr features @
          [JStr ''## Changelog'', JStr [], rm_changelog m, JStr []] @
          (if rm_artifacts m = [] then []
           else [JStr ''## Artifacts'', JStr []] @ map JStr (concat (map (artifact_lines S) (rm_artifacts m)))) @
          [JStr ''## Rollback Plan'', JStr [], rm_rollback_plan m, JStr []]))"

text \<open>\<^verbatim>\<open>sorted(steps, key=order)\<close>: numbers and texts are compared among themselves, several orders of
  mixed kinds raise; so do here orders that are lists.\<close>

definition order_number :: "json \<Rightarrow> int option" where
  "order_number v = (case v of JInt i \<Rightarrow> Some i | JBool b \<Rightarrow> Some (if b then 1 else 0) | _ \<Rightarrow> None)"

definition order_text :: "json \<Rightarrow> nat list option" where
  "order_text v = (case v of JStr s \<Rightarrow> Some (map code_point s) | _ \<Rightarrow> None)"

fun insert_by :: "('a \<Rightarrow> 'a \<Rightarrow> bool) \<Rightarrow> 'a \<Rightarrow> 'a list \<Rightarrow> 'a list" where
  "insert_by lt x [] = [x]"
| "insert_by lt x (y # ys) = (if lt y x then y # insert_by lt x ys else x # y # ys)"

definition sort_by :: "('a \<Rightarrow> 'a \<Rightarrow> bool) \<Rightarrow> 'a list \<Rightarrow> 'a list" where
  "sort_by lt xs = foldr (insert_by lt) xs []"

fun text_less :: "nat list \<Rightarrow> nat list \<Rightarrow> bool" where
  "text_less xs [] = False"
| "text_less [] (y # ys) = True"
| "text_less (x # xs) (y # ys) = (x < y \<or> x = y \<and> text_less xs ys)"

definition sorted_steps :: "deployment_step list \<Rightarrow> exn + deployment_step list" where
  "sorted_steps ss =
     (if length ss \<le> 1 then Inr ss
      else if \<forall>s \<in> set ss. order_number (ds_order s) \<noteq> None then
        Inr (sort_by (\<lambda>a b. the (order_number (ds_order a)) < the (order_number (ds_order b))) ss)
      else if \<forall>s \<in> set ss. order_text (ds_order s) \<noteq> None then
        Inr (sort_by (\<lambda>a b. text_less (the (order_text (ds_order a))) (the (order_text (ds_order b)))) ss)
      else Inl (Exn PyTypeError ''not supported between instances''))"

definition ticks :: "string \<Rightarrow> string" where
  "ticks s = CHR 0x60 # s @ [CHR 0x60]"

definition step_lines :: "(json \<Rightarrow> string) \<Rightarrow> deployment_step \<Rightarrow> string list" where
  "step_lines S s =
     [''### Step '' @ json_text S (ds_order s) @ '': '' @ json_text S (ds_name s),
      [],
      ''**Type:** '' @ step_type_value (ds_step_type s),
      ''**Command:** '' @ ticks (json_text S (ds_command s)),
      ''**Timeout:** '' @ json_text S (ds_timeout_seconds s) @ ''s''] @
     (if json_truthy (ds_rollback_command s) then [''**Rollback:** '' @ ticks (json_text S (ds_rollback_command s))]
      else []) @ [[]]"

definition health_lines :: "(json \<Rightarrow> string) \<Rightarrow> plan_health_check \<Rightarrow> string list" where
  "health_lines S h =
     [''### '' @ json_text S (hk_name h),
      [],
      ''**Type:** '' @ health_check_type_value (hk_check_type h),
      ''**Target:** '' @ json_text S (hk_target h),
      ''**Interval:** '' @ json_text S (hk_interval_seconds h) @ ''s'',
      ''**Success Threshold:** '' @ json_text S (hk_success_threshold h),
      ''**Failure Threshold:** '' @ json_text S (hk_failure_threshold h),
      []]"

definition titled :: "string \<Rightarrow> ('a \<Rightarrow> string list) \<Rightarrow> 'a list \<Rightarrow> string list" where
  "titled title f xs = (if xs = [] then [] else [title, []] @ concat (map f xs))"

definition plan_markdown :: "(json \<Rightarrow> string) \<Rightarrow> deployment_plan \<Rightarrow> exn + string" where
  "plan_markdown S p =
     bind_sum (sorted_steps (dp_steps p)) (\<lambda>steps.
     bind_sum (bullet_section S ''## Rollback Triggers'' (dp_rollback_triggers p)) (\<lambda>triggers.
       Inr (lines_of
         ([''# Deployment Plan'',
           [],
           ''**Release Version:** '' @ json_text S (dp_release_version p),
           ''**Target Environment:** '' @ json_text S (dp_target_environment p),
           ''**Strategy:** '' @ deployment_strategy_value (dp_strategy p),
           []] @
          titled ''## Steps'' (step_lines S) steps @
          titled ''## Health Checks'' (health_lines S) (dp_health_checks p) @
          triggers))))"

definition joined :: "json \<Rightarrow> exn + string" where
  "joined v = bind_sum (json_iter v) (join_values '', '')"

definition labelled :: "string \<Rightarrow> json \<Rightarrow> exn + string list" where
  "labelled label v = (if json_truthy v then bind_sum (joined v) (\<lambda>t. Inr [label @ t]) else Inr [])"

definition metric_lines :: "(json \<Rightarrow> string) \<Rightarrow> metric_definition \<Rightarrow> exn + string list" where
  "metric_lines S m =
     bind_sum (labelled ''**Labels:** '' (mx_labels m)) (\<lambda>labels.
       Inr ([''### '' @ json_text S (mx_name m),
             [],
             ''**Type:** '' @ metric_type_value (mx_metric_type m),
             ''**Description:** '' @ json_text S (mx_description m)] @ labels @ [[]]))"

definition alert_lines :: "(json \<Rightarrow> string) \<Rightarrow> alert_rule \<Rightarrow> string list" where
  "alert_lines S a =
     [''### '' @ json_text S (al_name a),
      [],
      ''**Severity:** '' @ alert_severity_value (al_severity a),
      ''**Condition:** '' @ ticks (json_text S (al_condition a)),
      ''**Description:** '' @ json_text S (al_description a)] @
     (if json_truthy (al_runbook_url a) then [''**Runbook:** '' @ json_text S (al_runbook_url a)] else []) @ [[]]"

definition dashboard_lines :: "(json \<Rightarrow> string) \<Rightarrow> dashboard_config \<Rightarrow> exn + string list" where
  "dashboard_lines S d =
     bind_sum (labelled ''**Panels:** '' (dc_panels d)) (\<lambda>panels.
       Inr ([''### '' @ json_text S (dc_title d),
             [],
             ''**Name:** '' @ json_text S (dc_name d),
             ''**Refresh Interval:** '' @ json_text S (dc_refresh_interval_seconds d) @ ''s''] @ panels @ [[]]))"

definition monitoring_markdown :: "(json \<Rightarrow> string) \<Rightarrow> monitoring_config \<Rightarrow> exn + string" where
  "monitoring_markdown S c =
     bind_sum (map_result (metric_lines S) (mo_metrics c)) (\<lambda>metrics.
     bind_sum (map_result (dashboard_lines S) (mo_dashboards c)) (\<lambda>dashboards.
       Inr (lines_of
         ([''# Monitoring Configuration'',
           [],
           ''**Deployment ID:** '' @ json_text S (mo_deployment_id c),
           []] @
          titled ''## Metrics'' (\<lambda>ls. ls) metrics @
          titled ''## Alerts'' (alert_lines S) (mo_alerts c) @
          titled ''## Dashboards'' (\<lambda>ls. ls) dashboards))))"

section \<open>The release agent\<close>

definition validation_summary :: "(json \<Rightarrow> string) \<Rightarrow> (json \<Rightarrow> string) \<Rightarrow> validation_report \<Rightarrow> string" where
  "validation_summary S F v = lines_of
      [[],
       ''Validation Status: '' @ status_text (vr_passed v),
       ''Feature: '' @ json_text S (vr_feature_id v),
       ''E2E Tests: '' @ json_text S (tn_passed (vr_e2e_results v)) @ '' passed, '' @ json_text S (tn_failed (vr_e2e_results v)) @ '' failed'',
       ''Coverage: '' @ F (tn_coverage (vr_e2e_results v)) @ ''%'',
       []]"

definition security_summary :: "(json \<Rightarrow> string) \<Rightarrow> (json \<Rightarrow> string) \<Rightarrow> security_report \<Rightarrow> string" where
  "security_summary S F s =
     (lines_of
      [[],
       ''Security Status: '' @ status_text (sr_passed s),
       ''Findings: '' @ nat_str (length (sr_findings s)) @ '' total'',
       ''Scan Coverage: '' @ F (sr_scan_coverage s) @ ''%'',
       []]) @
     concat (map (\<lambda>f. ''- '' @ ascii_upper (security_severity_value (sf_severity f)) @ '': '' @
         json_text S (sf_description f) @ [newline]) (take 5 (sr_findings s)))"

definition commit_text :: "(json \<Rightarrow> string) \<Rightarrow> json \<Rightarrow> exn + string" where
  "commit_text S v =
     bind_sum (as_dict v) (\<lambda>d.
     bind_sum (if json_truthy (dget d ''sha'' JNull) then json_take 7 (dget d ''sha'' (JStr [])) else Inr (JStr [])) (\<lambda>sha.
       Inr (''- ['' @ json_text S sha @ ''] '' @ json_text S (dget d ''message'' (JStr [])) @ [newline])))"

definition commits_text :: "(json \<Rightarrow> string) \<Rightarrow> json \<Rightarrow> exn + string" where
  "commits_text S v =
     (if \<not> json_truthy v then Inr ''No commit information provided.''
      else
        bind_sum (json_take 20 v) (\<lambda>first.
        bind_sum (json_iter first) (\<lambda>cs.
        bind_sum (map_result (commit_text S) cs) (\<lambda>ts.
          Inr (''Recent Commits:'' @ [newline] @ concat ts)))))"

definition release_prompt :: "string \<Rightarrow> string \<Rightarrow> string \<Rightarrow> string \<Rightarrow> string \<Rightarrow> string" where
  "release_prompt validation security commits version rollback = lines_of
      [''Generate a release manifest based on the following validation and security reports.'',
       [],
       ''## Validation Report'',
       validation,
       [],
       ''## Security Report'',
       security,
       [],
       ''## Commits'',
       commits,
       [],
       ''## Instructions'',
       version,
       [],
       ''Create a changelog from the commits, categorizing them into:'',
       ''- Features (feat)'',
       ''- Bug Fixes (fix)'',
       ''- Documentation (docs)'',
       ''- Tests (test)'',
       ''- Other'',
       [],
       rollback,
       [],
       ''## Output Format'',
       [],
       ''Respond with a JSON object containing:'',
       ''```json'',
       ''{'',
       dq ''    ^version^: ^semantic version string^,'',
       dq ''    ^features^: [^list of feature IDs included^],'',
       dq ''    ^changelog^: ^markdown formatted changelog^,'',
       dq ''    ^artifacts^: ['',
       ''        {'',
       dq ''            ^name^: ^artifact name^,'',
       dq ''            ^artifact_type^: ^docker_image|helm_chart|binary|config|documentation^,'',
       dq ''            ^location^: ^URI or path to artifact^,'',
       dq ''            ^checksum^: ^sha256 checksum or null^'',
       ''        }'',
       ''    ],'',
       dq ''    ^rollback_plan^: ^detailed rollback procedure in markdown^'',
       ''}'',
       ''```'',
       [],
       ''Include appropriate artifacts for a typical deployment (Docker images, Helm charts).'',
       []]"

definition format_release_prompt ::
  "('x, 'g) llm_services \<Rightarrow> deploy_settings \<Rightarrow> validation_report \<Rightarrow> security_report \<Rightarrow> json \<Rightarrow> json \<Rightarrow> exn + string" where
  "format_release_prompt L K v s commits version =
     bind_sum (commits_text (ll_text L) commits) (\<lambda>cs.
       Inr (release_prompt (validation_summary (ll_text L) (ll_number L) v) (security_summary (ll_text L) (ll_number L) s) cs
         (if json_truthy version then ''Use version: '' @ json_text (ll_text L) version
          else ''Generate an appropriate semantic version (e.g., 0.1.0)'')
         (if dst_rollback_enabled K then lines_of
      [[],
       ''Include a comprehensive rollback plan with:'',
       ''1. Steps to identify affected services'',
       ''2. Commands to rollback (e.g., kubectl rollout undo)'',
       ''3. Database migration considerations (if applicable)'',
       ''4. Health verification steps'',
       ''5. Stakeholder notification process'',
       []]
          else ''Note: Rollback is disabled in configuration. Include minimal rollback information.'')))"

text \<open>What an agent makes of an answer: nothing if there is no JSON in it, else a document.\<close>

definition document_of_answer ::
  "('x, 'g) llm_services \<Rightarrow> string \<Rightarrow> (json pydict \<Rightarrow> exn + 'd) \<Rightarrow> ('x, 'g, 'd option) act" where
  "document_of_answer L prompt build =
     bindE (ask_json L prompt) (\<lambda>a.
       case a of
         None \<Rightarrow> ret None
       | Some v \<Rightarrow>
           if \<not> json_truthy v then ret None
           else bindE (lift_result (bind_sum (as_dict v) build)) (\<lambda>d. ret (Some d)))"

text \<open>The document is written and returned under a key; there is nothing without one.\<close>

definition document_step ::
  "('x, 'g) llm_services \<Rightarrow> string \<Rightarrow> agent_context \<Rightarrow> string \<Rightarrow> ('d \<Rightarrow> ('x, 'g, string list) act) \<Rightarrow>
   ('d \<Rightarrow> json pydict) \<Rightarrow> 'd option \<Rightarrow> ('x, 'g, agent_result) act" where
  "document_step L ty ctx err write meta doc =
     (case doc of
        None \<Rightarrow> ret (agent_failed ty ctx err True)
      | Some d \<Rightarrow> bindE (write d) (\<lambda>paths. ret (agent_done ty ctx True paths (meta d))))"

definition manifest_of_answer :: "json \<Rightarrow> json pydict \<Rightarrow> exn + release_manifest" where
  "manifest_of_answer version d =
     bind_sum (model_items artifact_reference_of_dict (dget d ''artifacts'' (JList []))) (\<lambda>arts.
       Inr \<lparr>rm_version = dget d ''version'' (if json_truthy version then version else JStr ''0.1.0''),
            rm_features = dget d ''features'' (JList []), rm_changelog = dget d ''changelog'' (JStr []),
            rm_artifacts = arts, rm_rollback_plan = dget d ''rollback_plan'' (JStr [])\<rparr>)"

definition generate_release_manifest ::
  "('x, 'g) llm_services \<Rightarrow> deploy_settings \<Rightarrow> validation_report \<Rightarrow> security_report \<Rightarrow> json \<Rightarrow> json \<Rightarrow>
   ('x, 'g, release_manifest option) act" where
  "generate_release_manifest L K v s commits version =
     bindE (lift_result (format_release_prompt L K v s commits version)) (\<lambda>prompt.
       document_of_answer L prompt (manifest_of_answer version))"

definition write_manifest :: "('x, 'g) llm_services \<Rightarrow> agent_context \<Rightarrow> release_manifest \<Rightarrow> ('x, 'g, string list) act" where
  "write_manifest L ctx m =
     write_documents L ctx (release_manifest_to_json m) (manifest_markdown (ll_text L) m) ''_release_manifest''"

definition release_execute ::
  "('x, 'g) llm_services \<Rightarrow> deploy_settings \<Rightarrow> agent_context \<Rightarrow> json pydict \<Rightarrow> ('x, 'g, agent_result) act" where
  "release_execute L K ctx meta =
     guarded_agent ''release_agent'' ctx
       (if \<not> json_truthy (dget meta ''validation_report'' JNull) then
          ret (agent_failed ''release_agent'' ctx ''No validation_report provided in event_metadata'' False)
        else if \<not> json_truthy (dget meta ''security_report'' JNull) then
          ret (agent_failed ''release_agent'' ctx ''No security_report provided in event_metadata'' False)
        else
          bindE now_utc (\<lambda>now.
          bindE (lift_result (validation_report_of_dict now (dget meta ''validation_report'' JNull))) (\<lambda>v.
          bindE (lift_result (security_report_of_dict (dget meta ''security_report'' JNull))) (\<lambda>s.
          bindE (generate_release_manifest L K v s (dget meta ''commits'' (JList [])) (dget meta ''version'' JNull)) (\<lambda>m.
            document_step L ''release_agent'' ctx ''Failed to generate release manifest'' (write_manifest L ctx)
              (\<lambda>m. [(''release_manifest'', release_manifest_to_dict m), (''next_agent'', JStr ''deployment_agent'')]) m)))))"

section \<open>The deployment agent\<close>

definition strategy_instructions :: "deployment_strategy \<Rightarrow> string" where
  "strategy_instructions s =
     (case s of
        DS_ROLLING \<Rightarrow> lines_of
      [[],
       ''Rolling Update Strategy:'',
       ''- Gradually replace instances one by one'',
       ''- Maintain availability during deployment'',
       ''- Steps should include: prepare, deploy, verify'',
       ''- Use kubectl set image or helm upgrade for deployment'',
       ''- Verify rollout status before completion'',
       []]
      | DS_BLUE_GREEN \<Rightarrow> lines_of
      [[],
       ''Blue-Green Deployment Strategy:'',
       ''- Deploy to inactive environment (green)'',
       ''- Verify green environment is healthy'',
       ''- Switch traffic from blue to green'',
       ''- Keep blue environment for quick rollback'',
       ''- Steps should include: prepare, deploy green, verify green, switch traffic, cleanup blue (optional)'',
       []]
      | DS_CANARY \<Rightarrow> lines_of
      [[],
       ''Canary Deployment Strategy:'',
       ''- Deploy new version to small percentage of traffic'',
       ''- Monitor canary metrics against baseline'',
       ''- Gradually increase traffic if metrics are acceptable'',
       ''- Steps should include: deploy canary, monitor, promote (or rollback)'',
       ''- Include comparison of canary vs baseline in rollback triggers'',
       []])"

definition release_summary :: "(json \<Rightarrow> string) \<Rightarrow> release_manifest \<Rightarrow> string \<Rightarrow> string" where
  "release_summary S m features =
     (lines_of
      [[],
       ''Release Version: '' @ json_text S (rm_version m),
       ''Features: '' @ features,
       ''Artifacts: '' @ nat_str (length (rm_artifacts m)) @ '' artifacts'',
       []]) @
     (if rm_artifacts m = [] then []
      else [newline] @ ''Artifact Details:'' @ [newline] @
        concat (map (\<lambda>a. ''- '' @ json_text S (af_name a) @ '' ('' @ artifact_type_value (af_artifact_type a) @ ''): '' @
            json_text S (af_location a) @ [newline]) (rm_artifacts m)))"

definition deployment_prompt ::
  "string \<Rightarrow> string \<Rightarrow> string \<Rightarrow> string \<Rightarrow> string \<Rightarrow> string \<Rightarrow> string \<Rightarrow> int \<Rightarrow> string" where
  "deployment_prompt release target strategy instructions checks rollback canary interval = lines_of
      [''Generate a deployment plan for the following release.'',
       [],
       ''## Release Information'',
       release,
       [],
       ''## Target Environment'',
       target,
       [],
       ''## Deployment Strategy'',
       strategy,
       [],
       instructions,
       [],
       ''## Health Checks'',
       checks,
       [],
       ''## Rollback Configuration'',
       rollback,
       canary,
       [],
       ''## Output Format'',
       [],
       ''Respond with a JSON object containing:'',
       ''```json'',
       ''{'',
       dq ''    ^release_version^: ^version string from release manifest^,'',
       dq ''    ^target_environment^: ^target environment name^,'',
       dq ''    ^strategy^: ^'' @ strategy @ dq ''^,'',
       dq ''    ^steps^: ['',
       ''        {'',
       dq ''            ^order^: 1,'',
       dq ''            ^name^: ^step name^,'',
       dq ''            ^step_type^: ^prepare|deploy|verify|promote|cleanup^,'',
       dq ''            ^command^: ^command to execute^,'',
       dq ''            ^timeout_seconds^: 300,'',
       dq ''            ^rollback_command^: ^command to rollback (or null)^'',
       ''        }'',
       ''    ],'',
       dq ''    ^rollback_triggers^: ['',
       dq ''        ^condition that triggers automatic rollback^'',
       ''    ],'',
       dq ''    ^health_checks^: ['',
       ''        {'',
       dq ''            ^name^: ^check name^,'',
       dq ''            ^check_type^: ^http|tcp|command|grpc^,'',
       dq ''            ^target^: ^endpoint or target^,'',
       dq ''            ^interval_seconds^: '' @ int_str interval @ '','',
       dq ''            ^timeout_seconds^: 5,'',
       dq ''            ^success_threshold^: 1,'',
       dq ''            ^failure_threshold^: 3'',
       ''        }'',
       ''    ]'',
       ''}'',
       ''```'',
       [],
       ''Generate appropriate steps for the '' @ strategy @ '' deployment strategy with proper ordering.'',
       ''Include health checks and rollback triggers suitable for '' @ target @ '' environment.'',
       []]"

definition format_deployment_prompt ::
  "('x, 'g) llm_services \<Rightarrow> deploy_settings \<Rightarrow> release_manifest \<Rightarrow> json \<Rightarrow> deployment_strategy \<Rightarrow> exn + string" where
  "format_deployment_prompt L K m target strategy =
     bind_sum (if json_truthy (rm_features m) then joined (rm_features m) else Inr ''None'') (\<lambda>features.
     (let interval = dst_health_check_interval K
      in Inr (deployment_prompt (release_summary (ll_text L) m features) (json_text (ll_text L) target)
        (deployment_strategy_value strategy) (strategy_instructions strategy)
        (lines_of
      [[],
       ''Configure health checks with:'',
       ''- Default interval: '' @ int_str interval @ '' seconds'',
       ''- Include HTTP health check for /health endpoint'',
       ''- Include readiness and liveness probes as appropriate'',
       []])
        (if dst_rollback_enabled K then lines_of
      [[],
       ''Define rollback triggers for automatic rollback:'',
       ''- Error rate thresholds'',
       ''- Latency thresholds (P99)'',
       ''- Health check failure counts'',
       ''- Memory/CPU utilization thresholds'',
       [],
       ''Include rollback commands for each deployment step where applicable.'',
       []]
         else lines_of
      [[],
       ''Note: Rollback is disabled in configuration.'',
       ''Include minimal rollback triggers for manual intervention only.'',
       ''Do not include rollback commands in steps.'',
       []])
        (if strategy = DS_CANARY then lines_of
      [[],
       ''Canary deployment configuration:'',
       ''- Initial canary percentage: '' @ int_str (dst_canary_percentage K) @ ''%'',
       ''- Include monitoring step before promoting to full deployment'',
       []]
         else [])
        interval)))"

text \<open>A health check without an interval gets that of the configuration.\<close>

definition health_check_of_answer :: "deploy_settings \<Rightarrow> json \<Rightarrow> exn + plan_health_check" where
  "health_check_of_answer K v =
     bind_sum (as_dict v) (\<lambda>d.
     bind_sum (plan_health_check_of_dict v) (\<lambda>h.
       Inr (h\<lparr>hk_interval_seconds := dget d ''interval_seconds'' (JInt (dst_health_check_interval K))\<rparr>)))"

definition plan_of_answer ::
  "deploy_settings \<Rightarrow> release_manifest \<Rightarrow> json \<Rightarrow> deployment_strategy \<Rightarrow> json pydict \<Rightarrow> exn + deployment_plan" where
  "plan_of_answer K m target strategy d =
     bind_sum (model_items deployment_step_of_dict (dget d ''steps'' (JList []))) (\<lambda>steps.
     bind_sum (model_items (health_check_of_answer K) (dget d ''health_checks'' (JList []))) (\<lambda>checks.
     bind_sum (deployment_strategy_of (dget d ''strategy'' (JStr (deployment_strategy_value strategy)))) (\<lambda>st.
       Inr \<lparr>dp_release_version = dget d ''release_version'' (rm_version m),
            dp_target_environment = dget d ''target_environment'' target, dp_strategy = st, dp_steps = steps,
            dp_rollback_triggers = dget d ''rollback_triggers'' (JList []), dp_health_checks = checks\<rparr>)))"

definition generate_deployment_plan ::
  "('x, 'g) llm_services \<Rightarrow> deploy_settings \<Rightarrow> release_manifest \<Rightarrow> json \<Rightarrow> deployment_strategy \<Rightarrow>
   ('x, 'g, deployment_plan option) act" where
  "generate_deployment_plan L K m target strategy =
     bindE (lift_result (format_deployment_prompt L K m target strategy)) (\<lambda>prompt.
       document_of_answer L prompt (plan_of_answer K m target strategy))"

definition write_plan :: "('x, 'g) llm_services \<Rightarrow> agent_context \<Rightarrow> deployment_plan \<Rightarrow> ('x, 'g, string list) act" where
  "write_plan L ctx p =
     write_documents L ctx (deployment_plan_to_json p) (plan_markdown (ll_text L) p) ''_deployment_plan''"

text \<open>A strategy that is not known is that of the configuration.\<close>

definition chosen_strategy :: "deploy_settings \<Rightarrow> json \<Rightarrow> deployment_strategy" where
  "chosen_strategy K v =
     (if json_truthy v then (case deployment_strategy_of v of Inr s \<Rightarrow> s | Inl _ \<Rightarrow> dst_strategy K) else dst_strategy K)"

definition deployment_execute ::
  "('x, 'g) llm_services \<Rightarrow> deploy_settings \<Rightarrow> agent_context \<Rightarrow> json pydict \<Rightarrow> ('x, 'g, agent_result) act" where
  "deployment_execute L K ctx meta =
     guarded_agent ''deployment_agent'' ctx
       (if \<not> json_truthy (dget meta ''release_manifest'' JNull) then
          ret (agent_failed ''deployment_agent'' ctx ''No release_manifest provided in event_metadata'' False)
        else
          bindE (lift_result (release_manifest_of_dict (dget meta ''release_manifest'' JNull))) (\<lambda>m.
          bindE (generate_deployment_plan L K m (dget meta ''target_environment'' (JStr ''staging''))
              (chosen_strategy K (dget meta ''deployment_strategy'' JNull))) (\<lambda>p.
            document_step L ''deployment_agent'' ctx ''Failed to generate deployment plan'' (write_plan L ctx)
              (\<lambda>p. [(''deployment_plan'', deployment_plan_to_dict p), (''hitl_gate'', JStr ''HITL-6'')]) p)))"

section \<open>The monitor agent\<close>

definition deployment_summary :: "(json \<Rightarrow> string) \<Rightarrow> deployment_plan \<Rightarrow> string" where
  "deployment_summary S p = lines_of
      [[],
       ''Release Version: '' @ json_text S (dp_release_version p),
       ''Target Environment: '' @ json_text S (dp_target_environment p),
       ''Deployment Strategy: '' @ deployment_strategy_value (dp_strategy p),
       []]"

definition existing_checks :: "(json \<Rightarrow> string) \<Rightarrow> deployment_plan \<Rightarrow> string" where
  "existing_checks S p =
     (if dp_health_checks p = [] then []
      else [newline] @ ''## Existing Health Checks'' @ [newline] @
        concat (map (\<lambda>h. ''- '' @ json_text S (hk_name h) @ '' ('' @ health_check_type_value (hk_check_type h) @ ''): '' @
            json_text S (hk_target h) @ [newline]) (dp_health_checks p)))"

definition existing_triggers :: "(json \<Rightarrow> string) \<Rightarrow> deployment_plan \<Rightarrow> exn + string" where
  "existing_triggers S p =
     (if \<not> json_truthy (dp_rollback_triggers p) then Inr []
      else bind_sum (json_iter (dp_rollback_triggers p)) (\<lambda>ts.
        Inr ([newline] @ ''## Rollback Triggers'' @ [newline] @
             concat (map (\<lambda>t. ''- '' @ json_text S t @ [newline]) ts))))"

definition monitoring_prompt :: "string \<Rightarrow> string \<Rightarrow> string \<Rightarrow> string \<Rightarrow> string \<Rightarrow> string" where
  "monitoring_prompt summary checks triggers tid target = lines_of
      [''Generate a monitoring configuration for the following deployment.'',
       [],
       ''## Deployment Information'',
       summary,
       checks,
       triggers,
       [],
       ''## Requirements'',
       [],
       ''### Metrics'',
       ''Define Prometheus-style metrics covering:'',
       ''1. **CPU Usage**: Process CPU time metrics'',
       ''2. **Memory Usage**: Resident memory metrics'',
       ''3. **Request Rate**: HTTP request counters with method, path, status labels'',
       ''4. **Latency**: Request duration histograms for percentile tracking'',
       ''5. **Errors**: Track via status label on request metrics (5xx responses)'',
       [],
       ''### Alerts'',
       ''Define alert rules for:'',
       ''1. **High Error Rate**: Alert when error rate exceeds 5% (critical severity)'',
       ''2. **High Latency**: Alert when P99 latency exceeds 500ms (warning severity)'',
       [],
       ''Include PromQL conditions and descriptions for each alert.'',
       [],
       ''### Dashboards'',
       ''Generate at least one dashboard configuration with panels for:'',
       ''- Request rate'',
       ''- Error rate'',
       ''- Latency percentiles'',
       ''- CPU usage'',
       ''- Memory usage'',
       [],
       ''## Output Format'',
       [],
       ''Respond with a JSON object:'',
       ''```json'',
       ''{'',
       dq ''    ^deployment_id^: ^'' @ tid @ dq ''^,'',
       dq ''    ^metrics^: ['',
       ''        {'',
       dq ''            ^name^: ^metric_name^,'',
       dq ''            ^metric_type^: ^counter|gauge|histogram|summary^,'',
       dq ''            ^description^: ^Metric description^,'',
       dq ''            ^labels^: [^label1^, ^label2^]'',
       ''        }'',
       ''    ],'',
       dq ''    ^alerts^: ['',
       ''        {'',
       dq ''            ^name^: ^AlertName^,'',
       dq ''            ^condition^: ^PromQL condition^,'',
       dq ''            ^severity^: ^critical|warning|info^,'',
       dq ''            ^description^: ^Alert description^,'',
       dq ''            ^runbook_url^: ^optional URL or null^'',
       ''        }'',
       ''    ],'',
       dq ''    ^dashboards^: ['',
       ''        {'',
       dq ''            ^name^: ^dashboard-name^,'',
       dq ''            ^title^: ^Dashboard Title^,'',
       dq ''            ^panels^: [^panel_id1^, ^panel_id2^],'',
       dq ''            ^refresh_interval_seconds^: 30'',
       ''        }'',
       ''    ]'',
       ''}'',
       ''```'',
       [],
       ''Generate appropriate metrics, alerts, and dashboards for monitoring a '' @ target @ '' deployment.'',
       []]"

definition format_monitoring_prompt :: "(json \<Rightarrow> string) \<Rightarrow> deployment_plan \<Rightarrow> string \<Rightarrow> exn + string" where
  "format_monitoring_prompt S p tid =
     bind_sum (existing_triggers S p) (\<lambda>triggers.
       Inr (monitoring_prompt (deployment_summary S p) (existing_checks S p) triggers tid
         (json_text S (dp_target_environment p))))"

definition monitoring_of_answer :: "string \<Rightarrow> json pydict \<Rightarrow> exn + monitoring_config" where
  "monitoring_of_answer tid d =
     bind_sum (model_items metric_definition_of_dict (dget d ''metrics'' (JList []))) (\<lambda>ms.
     bind_sum (model_items alert_rule_of_dict (dget d ''alerts'' (JList []))) (\<lambda>as.
     bind_sum (model_items dashboard_config_of_dict (dget d ''dashboards'' (JList []))) (\<lambda>ds.
       Inr \<lparr>mo_deployment_id = dget d ''deployment_id'' (JStr tid), mo_metrics = ms, mo_alerts = as,
            mo_dashboards = ds\<rparr>)))"

definition generate_monitoring_config ::
  "('x, 'g) llm_services \<Rightarrow> deployment_plan \<Rightarrow> string \<Rightarrow> ('x, 'g, monitoring_config option) act" where
  "generate_monitoring_config L p tid =
     bindE (lift_result (format_monitoring_prompt (ll_text L) p tid)) (\<lambda>prompt.
       document_of_answer L prompt (monitoring_of_answer tid))"

definition write_monitoring ::
  "('x, 'g) llm_services \<Rightarrow> agent_context \<Rightarrow> monitoring_config \<Rightarrow> ('x, 'g, string list) act" where
  "write_monitoring L ctx c =
     write_documents L ctx (monitoring_config_to_json c) (monitoring_markdown (ll_text L) c) ''_monitoring_config''"

definition monitor_execute ::
  "('x, 'g) llm_services \<Rightarrow> agent_context \<Rightarrow> json pydict \<Rightarrow> ('x, 'g, agent_result) act" where
  "monitor_execute L ctx meta =
     guarded_agent ''monitor_agent'' ctx
       (if \<not> json_truthy (dget meta ''deployment_plan'' JNull) then
          ret (agent_failed ''monitor_agent'' ctx ''No deployment_plan provided in event_metadata'' False)
        else
          bindE (lift_result (deployment_plan_of_dict (dget meta ''deployment_plan'' JNull))) (\<lambda>p.
          bindE (generate_monitoring_config L p (ac_task_id ctx)) (\<lambda>c.
            document_step L ''monitor_agent'' ctx ''Failed to generate monitoring configuration'' (write_monitoring L ctx)
              (\<lambda>c. [(''monitoring_config'', monitoring_config_to_dict c)]) c)))"

section \<open>Where the documents come from\<close>

text \<open>The model answers a prompt, at some time, with a text in which an object is found.\<close>

definition answers :: "('x, 'g) llm_services \<Rightarrow> string \<Rightarrow> json pydict \<Rightarrow> bool" where
  "answers L q d \<longleftrightarrow>
     (\<exists>w t. fst (ll_generate L q w) = Inr t \<and> parse_json_from_response (ll_loads L) t = Some (JObj d))"

text \<open>A document an agent returns under a key has a source.\<close>

definition built :: "string \<Rightarrow> ('d \<Rightarrow> bool) \<Rightarrow> ('d \<Rightarrow> json) \<Rightarrow> agent_result \<Rightarrow> bool" where
  "built k source enc a \<longleftrightarrow>
     (ar_success a \<longrightarrow> (\<exists>x. source x \<and> dget (ar_metadata a) k JNull = enc x))"

definition manifest_source :: "('x, 'g) llm_services \<Rightarrow> json \<Rightarrow> release_manifest \<Rightarrow> bool" where
  "manifest_source L version m \<longleftrightarrow> (\<exists>q d. answers L q d \<and> manifest_of_answer version d = Inr m)"

definition plan_source ::
  "('x, 'g) llm_services \<Rightarrow> deploy_settings \<Rightarrow> release_manifest \<Rightarrow> json \<Rightarrow> deployment_strategy \<Rightarrow> deployment_plan \<Rightarrow> bool" where
  "plan_source L K m target strategy p \<longleftrightarrow>
     (\<exists>q d. format_deployment_prompt L K m target strategy = Inr q \<and> answers L q d \<and>
        plan_of_answer K m target strategy d = Inr p)"

definition monitoring_source :: "('x, 'g) llm_services \<Rightarrow> deployment_plan \<Rightarrow> string \<Rightarrow> monitoring_config \<Rightarrow> bool" where
  "monitoring_source L p tid c \<longleftrightarrow>
     (\<exists>q d. format_monitoring_prompt (ll_text L) p tid = Inr q \<and> answers L q d \<and> monitoring_of_answer tid d = Inr c)"

lemma built_failed [simp]: "built k source enc (agent_failed ty ctx err retry)"
  by (simp add: built_def)

lemma asked: "returns (\<lambda>a. \<forall>d. a = Some (JObj d) \<longrightarrow> answers L q d) (ask_json L q)"
  by (auto simp: returns_def ask_json_def bindE_def ret_def answers_def split: sum.splits)

lemma document_of_answer_built:
  "returns (\<lambda>o'. \<forall>x. o' = Some x \<longrightarrow> (\<exists>d. answers L q d \<and> build d = Inr x)) (document_of_answer L q build)"
  unfolding document_of_answer_def
  by (rule returns_bindE_value [OF asked], intro returns_match_option returns_if returns_lift returns_ret)
    (auto simp: bind_sum_def as_dict_def split: sum.splits json.splits)

lemma document_step_built:
  assumes "\<forall>x. doc = Some x \<longrightarrow> source x" "\<And>x. dget (meta x) k JNull = enc x"
  shows "returns (built k source enc) (document_step L ty ctx err write meta doc)"
  unfolding document_step_def
  using assms by (intro returns_match_option returns_bindE returns_ret) (auto simp: built_def)

lemma guarded_built:
  assumes "returns (built k source enc) m"
  shows "returns (built k source enc) (guarded_agent ty ctx m)"
  unfolding returns_def
  using guarded_agent_returns [OF assms built_failed] by (metis Inr_inject fst_conv)

lemma generated_manifest:
  "returns (\<lambda>o'. \<forall>m. o' = Some m \<longrightarrow> manifest_source L version m) (generate_release_manifest L K v s commits version)"
  unfolding generate_release_manifest_def manifest_source_def
  by (rule returns_bindE) (auto simp: returns_def dest!: document_of_answer_built [unfolded returns_def, rule_format])

lemma generated_plan:
  "returns (\<lambda>o'. \<forall>p. o' = Some p \<longrightarrow> plan_source L K m target st p) (generate_deployment_plan L K m target st)"
  unfolding generate_deployment_plan_def plan_source_def
  by (rule returns_lift) (auto simp: returns_def dest!: document_of_answer_built [unfolded returns_def, rule_format])

lemma generated_monitoring:
  "returns (\<lambda>o'. \<forall>c. o' = Some c \<longrightarrow> monitoring_source L p tid c) (generate_monitoring_config L p tid)"
  unfolding generate_monitoring_config_def monitoring_source_def
  by (rule returns_lift) (auto simp: returns_def dest!: document_of_answer_built [unfolded returns_def, rule_format])

lemma release_built:
  "returns (built ''release_manifest'' (manifest_source L (dget meta ''version'' JNull)) release_manifest_to_dict)
     (release_execute L K ctx meta)"
  unfolding release_execute_def
  by (intro guarded_built returns_if returns_ret built_failed returns_bindE
      returns_bindE_value [OF generated_manifest] document_step_built)
    (auto simp: dget_def)

lemma deployment_built:
  assumes "dget meta ''release_manifest'' JNull = release_manifest_to_dict m"
  shows "returns (built ''deployment_plan''
      (plan_source L K m (dget meta ''target_environment'' (JStr ''staging''))
        (chosen_strategy K (dget meta ''deployment_strategy'' JNull))) deployment_plan_to_dict)
     (deployment_execute L K ctx meta)"
  unfolding deployment_execute_def assms
  by (intro guarded_built returns_if returns_ret built_failed returns_lift)
    (auto simp: release_manifest_reads_back dget_def
      intro!: returns_bindE_value [OF generated_plan] document_step_built)

lemma monitoring_built:
  assumes "dget meta ''deployment_plan'' JNull = deployment_plan_to_dict p"
  shows "returns (built ''monitoring_config'' (monitoring_source L p (ac_task_id ctx)) monitoring_config_to_dict)
     (monitor_execute L ctx meta)"
  unfolding monitor_execute_def assms
  by (intro guarded_built returns_if returns_ret built_failed returns_lift)
    (auto simp: deployment_plan_reads_back dget_def
      intro!: returns_bindE_value [OF generated_monitoring] document_step_built)

section \<open>The deployment phase with its own agents\<close>

definition own_deployers ::
  "('x, 'g) llm_services \<Rightarrow> deploy_settings \<Rightarrow> ('x, 'g) deploy_coordinator \<Rightarrow> ('x, 'g) deploy_coordinator" where
  "own_deployers L K C =
     C\<lparr>dco_release_agent := llm_agent ''release_agent'' (release_execute L K),
       dco_deployment_agent := llm_agent ''deployment_agent'' (deployment_execute L K),
       dco_monitor_agent := llm_agent ''monitor_agent'' (monitor_execute L)\<rparr>"

text \<open>The monitor agent, run for a plan at some time, did not succeed.\<close>

definition monitor_failed :: "('x, 'g) llm_services \<Rightarrow> agent_context \<Rightarrow> deployment_plan \<Rightarrow> bool" where
  "monitor_failed L ctx p \<longleftrightarrow>
     (\<exists>w a. fst (monitor_execute L ctx [(''deployment_plan'', deployment_plan_to_dict p)] w) = Inr a \<and> \<not> ar_success a)"

definition answered_deployment ::
  "('x, 'g) llm_services \<Rightarrow> deploy_settings \<Rightarrow> string \<Rightarrow> agent_context \<Rightarrow> deployment_result \<Rightarrow> bool" where
  "answered_deployment L K target ctx r \<longleftrightarrow>
     (dd_success r \<longrightarrow>
       (\<exists>m p. dd_release_manifest r = Some m \<and> manifest_source L JNull m \<and>
          dd_deployment_plan r = Some p \<and> plan_source L K m (JStr target) (dst_strategy K) p \<and>
          (case dd_monitoring_config r of
             Some c \<Rightarrow> \<not> dd_pending_hitl6 r \<and> monitoring_source L p (ac_task_id ctx) c
           | None \<Rightarrow> dd_pending_hitl6 r \<or> monitor_failed L ctx p)))"

lemma answered_failed [simp]: "answered_deployment L K target ctx (deployment_failed step err)"
  by (simp add: answered_deployment_def deployment_failed_def)

lemma built_extracted:
  assumes "built k source enc a" "ar_success a" "extract_document dec k a = Some x" "\<And>y. dec (enc y) = Inr y"
  shows "source x"
  using assms by (auto simp: built_def extract_document_def Let_def split: if_splits sum.splits)

lemma monitoring_extracts:
  assumes "built ''monitoring_config'' source monitoring_config_to_dict a" "ar_success a"
  shows "\<exists>c. extract_document monitoring_config_of_dict ''monitoring_config'' a = Some c \<and> source c"
proof -
  from assms obtain c where c: "source c" "dget (ar_metadata a) ''monitoring_config'' JNull = monitoring_config_to_dict c"
    by (auto simp: built_def)
  have "extract_document monitoring_config_of_dict ''monitoring_config'' a = Some c"
    by (intro extract_document_dict [OF c(2)] monitoring_config_reads_back) (simp add: monitoring_config_to_dict_def)
  with c(1) show ?thesis by blast
qed

lemma monitor_step_answered:
  assumes "manifest_source L JNull m" "plan_source L K m (JStr target) (dst_strategy K) p"
  shows "returns (answered_deployment L K target ctx) (monitor_step (own_deployers L K C) ctx m p)"
proof -
  let ?meta = "[(''deployment_plan'', deployment_plan_to_dict p)]"
  let ?built = "built ''monitoring_config'' (monitoring_source L p (ac_task_id ctx)) monitoring_config_to_dict"
  have run: "run_monitor_agent (own_deployers L K C) ctx p = monitor_execute L ctx ?meta"
    by (simp add: run_monitor_agent_def own_deployers_def llm_agent_def)
  have "returns ?built (monitor_execute L ctx ?meta)"
    by (rule monitoring_built) (simp add: dget_def)
  then have "returns (\<lambda>a. ?built a \<and> (\<not> ar_success a \<longrightarrow> monitor_failed L ctx p)) (monitor_execute L ctx ?meta)"
    by (auto simp: returns_def monitor_failed_def)
  then show ?thesis
    unfolding monitor_step_def run
    by (rule returns_bindE_value)
      (use assms in \<open>auto intro!: returns_ret simp: answered_deployment_def deployment_succeeded_def
        dest!: monitoring_extracts\<close>)
qed

lemma deployment_gate_answered:
  assumes "manifest_source L JNull m" "plan_source L K m (JStr target) (dst_strategy K) p"
  shows "returns (answered_deployment L K target ctx)
    (deployment_gate E (own_deployers L K C) ctx skip m p paths)"
  unfolding deployment_gate_def
  by (intro returns_if returns_bindE returns_ret monitor_step_answered [OF assms])
    (use assms in \<open>auto simp: answered_deployment_def deployment_pending_def\<close>)

lemma deployment_step_answered:
  assumes "manifest_source L JNull m"
  shows "returns (answered_deployment L K target ctx)
    (deployment_step_of E (own_deployers L K C) ctx target skip r1 m)"
proof -
  let ?meta = "[(''release_manifest'', release_manifest_to_dict m), (''target_environment'', JStr target)]"
  have "dget ?meta ''target_environment'' (JStr ''staging'') = JStr target"
    "dget ?meta ''deployment_strategy'' JNull = JNull" "dget ?meta ''release_manifest'' JNull = release_manifest_to_dict m"
    by (simp_all add: dget_def)
  then have "returns (built ''deployment_plan'' (plan_source L K m (JStr target) (dst_strategy K)) deployment_plan_to_dict)
      (run_deployment_agent (own_deployers L K C) ctx m target)"
    using deployment_built [of ?meta m L K ctx]
    by (simp add: run_deployment_agent_def own_deployers_def llm_agent_def chosen_strategy_def)
  then show ?thesis
    unfolding deployment_step_of_def
    by (rule returns_bindE_value)
      (auto intro!: returns_ret intro: deployment_gate_answered [OF assms] split: option.split
        dest!: built_extracted [OF _ _ _ deployment_plan_reads_back])
qed

lemma deployment_steps_answered:
  "returns (answered_deployment L K target ctx)
     (deployment_steps E (own_deployers L K C) ctx v s target skip)"
proof -
  have "returns (built ''release_manifest'' (manifest_source L JNull) release_manifest_to_dict)
      (run_release_agent (own_deployers L K C) ctx v s)"
    using release_built [of L "[(''validation_report'', validation_report_to_dict v),
        (''security_report'', security_report_to_dict s)]" K ctx]
    by (simp add: run_release_agent_def own_deployers_def llm_agent_def dget_def)
  then show ?thesis
    unfolding deployment_steps_def
    by (rule returns_bindE_value)
      (auto intro!: returns_ret intro: deployment_step_answered split: option.split
        dest!: built_extracted [OF _ _ _ release_manifest_reads_back])
qed

text \<open>C32: With the program's own agents the deployment phase never raises, and if it succeeds, its manifest
  was built from an answer of the model, and its plan from an answer to the prompt for just that
  manifest, the requested target and the configured strategy.  A monitoring configuration is built
  from an answer to the prompt for that plan; it is missing only while HITL-6 is pending or when
  the monitor agent failed for that plan, which does not block the deployment.\<close>

theorem deployment_is_answered:
  "\<exists>r w'. run_deployment E (own_deployers L K C) ctx h5 v s target skip w = (Inr r, w') \<and>
     answered_deployment L K target ctx r"
  unfolding run_deployment_def by (rule guarded_returns [OF deployment_steps_answered]) simp

text \<open>Any object that is not empty is an answer: one without any of the keys becomes a manifest and a plan
  without steps, checks and triggers, and the phase succeeds.\<close>

definition irrelevant_answer :: string where
  "irrelevant_answer = dq ''{^error^: 1}''"

lemma irrelevant_parsed:
  "parse_json_from_response loads_opt irrelevant_answer = Some (JObj [(''error'', JInt 1)])"
  by code_simp

theorem irrelevant_answer_deploys:
  fixes w :: "('x, 'g) world"
  assumes "validation_report_times v"
  shows "\<exists>r p. run_deployment E (own_deployers (demo_llm irrelevant_answer) K C) (demo_ctx []) h5 v s target True w =
      (Inr r, w) \<and> dd_success r \<and> dd_deployment_plan r = Some p \<and> dp_steps p = [] \<and> dp_health_checks p = [] \<and>
      dp_rollback_triggers p = JList [] \<and> dd_monitoring_config r \<noteq> None"
proof -
  let ?L = "demo_llm irrelevant_answer :: ('x, 'g) llm_services"
  let ?C = "own_deployers ?L K C"
  let ?ctx = "demo_ctx []"
  let ?a = "[(''error'', JInt 1)]"
  have L: "ll_text ?L = dumps" "ll_loads ?L = loads_opt" "ll_generate ?L q = ret irrelevant_answer" for q
    by (simp_all add: demo_llm_def)
  have answered: "document_of_answer ?L q build w = (Inr (Some d), w)" if "build ?a = Inr d" for q build and d :: 'd
    using that by (simp add: document_of_answer_def ask_json_def L irrelevant_parsed as_dict_def bind_sum_def lift_result_def
        bindE_def ret_def)
  have empty: "model_items f (dget ?a k (JList [])) = Inr []" if "k \<noteq> ''error''" for f :: "json \<Rightarrow> exn + 'e" and k
    using that by (simp add: model_items_def dget_def json_iter_def bind_sum_def)
  have written: "write_documents ?L ?ctx js (Inr md) base w =
      (Inr [path_as_str (path_div (path_div (path_div (path_of ''/w'') ''artifacts'') ''s1'') (''t1'' @ base @ ''.json'')),
            path_as_str (path_div (path_div (path_div (path_of ''/w'') ''artifacts'') ''s1'') (''t1'' @ base @ ''.md''))], w)" for js md base
    by (simp add: write_documents_def demo_write lift_result_def bindE_def ret_def)
  let ?m = "\<lparr>rm_version = JStr ''0.1.0'', rm_features = JList [], rm_changelog = JStr [], rm_artifacts = [],
      rm_rollback_plan = JStr []\<rparr>"
  let ?p = "\<lparr>dp_release_version = JStr ''0.1.0'', dp_target_environment = JStr target, dp_strategy = dst_strategy K,
      dp_steps = [], dp_rollback_triggers = JList [], dp_health_checks = []\<rparr>"
  let ?c = "\<lparr>mo_deployment_id = JStr ''t1'', mo_metrics = [], mo_alerts = [], mo_dashboards = []\<rparr>"
  have m: "manifest_of_answer JNull ?a = Inr ?m"
    by (simp add: manifest_of_answer_def empty bind_sum_def) (simp add: dget_def)
  have p: "plan_of_answer K ?m (JStr target) (dst_strategy K) ?a = Inr ?p"
    by (simp add: plan_of_answer_def empty bind_sum_def) (simp add: dget_def codec)
  have c: "monitoring_of_answer ''t1'' ?a = Inr ?c"
    by (simp add: monitoring_of_answer_def empty bind_sum_def) (simp add: dget_def)
  have wm: "\<exists>paths. write_manifest ?L ?ctx ?m w = (Inr paths, w)"
    by (simp add: write_manifest_def L manifest_markdown_def bullet_section_def join_lines_def join_values_def
        bind_sum_def written)
  have wp: "\<exists>paths. write_plan ?L ?ctx ?p w = (Inr paths, w)"
    by (simp add: write_plan_def L plan_markdown_def sorted_steps_def bullet_section_def titled_def bind_sum_def written)
  have wc: "\<exists>paths. write_monitoring ?L ?ctx ?c w = (Inr paths, w)"
    by (simp add: write_monitoring_def L monitoring_markdown_def titled_def bind_sum_def written)
  have gm: "generate_release_manifest ?L K v s (JList []) JNull w = (Inr (Some ?m), w)"
    by (simp add: generate_release_manifest_def format_release_prompt_def commits_text_def bind_sum_def lift_result_def
        bindE_def ret_def answered [of "manifest_of_answer JNull", OF m])
  have gp: "generate_deployment_plan ?L K ?m (JStr target) (dst_strategy K) w = (Inr (Some ?p), w)"
    by (simp add: generate_deployment_plan_def format_deployment_prompt_def bind_sum_def lift_result_def bindE_def ret_def
        Let_def answered [of "plan_of_answer K ?m (JStr target) (dst_strategy K)", OF p])
  have gc: "generate_monitoring_config ?L ?p ''t1'' w = (Inr (Some ?c), w)"
    by (simp add: generate_monitoring_config_def format_monitoring_prompt_def existing_triggers_def bind_sum_def
        lift_result_def bindE_def ret_def answered [of "monitoring_of_answer ''t1''", OF c])
  have docs_nonempty: "json_truthy (validation_report_to_dict v)" "json_truthy (security_report_to_dict s)"
    "json_truthy (release_manifest_to_dict ?m)" "json_truthy (deployment_plan_to_dict ?p)"
    by (simp_all add: validation_report_to_dict_def security_report_to_dict_def release_manifest_to_dict_def
        deployment_plan_to_dict_def)
  obtain a where a: "run_release_agent ?C ?ctx v s w = (Inr a, w)" "ar_success a"
      "dget (ar_metadata a) ''release_manifest'' JNull = release_manifest_to_dict ?m"
    using wm docs_nonempty assms
    by (auto simp: run_release_agent_def own_deployers_def llm_agent_def release_execute_def guarded_agent_def try_except_def
        dget_def now_utc_def lift_result_def bindE_def ret_def gm document_step_def validation_report_reads_back
        security_report_reads_back)
  obtain b where b: "run_deployment_agent ?C ?ctx ?m target w = (Inr b, w)" "ar_success b"
      "dget (ar_metadata b) ''deployment_plan'' JNull = deployment_plan_to_dict ?p"
    using wp docs_nonempty
    by (auto simp: run_deployment_agent_def own_deployers_def llm_agent_def deployment_execute_def guarded_agent_def
        try_except_def dget_def lift_result_def bindE_def ret_def gp document_step_def release_manifest_reads_back
        chosen_strategy_def)
  obtain d where d: "run_monitor_agent ?C ?ctx ?p w = (Inr d, w)" "ar_success d"
      "dget (ar_metadata d) ''monitoring_config'' JNull = monitoring_config_to_dict ?c"
    using wc docs_nonempty gc
    by (auto simp: run_monitor_agent_def own_deployers_def llm_agent_def monitor_execute_def guarded_agent_def try_except_def
        dget_def lift_result_def bindE_def ret_def document_step_def deployment_plan_reads_back demo_ctx_def)
  have docs: "extract_document release_manifest_of_dict ''release_manifest'' a = Some ?m"
    "extract_document deployment_plan_of_dict ''deployment_plan'' b = Some ?p"
    "extract_document monitoring_config_of_dict ''monitoring_config'' d = Some ?c"
    by (intro extract_document_dict [OF a(3)] extract_document_dict [OF b(3)] extract_document_dict [OF d(3)]
        release_manifest_reads_back deployment_plan_reads_back monitoring_config_reads_back;
        simp add: release_manifest_to_dict_def deployment_plan_to_dict_def monitoring_config_to_dict_def)+
  show ?thesis
    by (simp add: run_deployment_def try_except_def deployment_steps_def deployment_step_of_def deployment_gate_def
        monitor_step_def a(1, 2) b(1, 2) d(1, 2) docs deployment_succeeded_def bindE_def ret_def)
qed

end
