(* ===== verification/Spec2Isabelle.thy ===== *)
theory Spec2Isabelle
  imports Clock Json Redis_Api World Events Task_State Task_Store Streams Evidence Hitl
    Git_Gateway Manager Consumer Worker_Pool Rlm_Explore Review_Swarm Coord_Mcp Swarm_Session Json_Indent Codecs
    Deploy_Phase Tdd_Loop Design_Phase Discovery_Phase
    Validation_Flow Phase_Configs Deploy_Agents
begin

text \<open>
  The orchestration core of the agent platform (\<^verbatim>\<open>src/core\<close>, \<^verbatim>\<open>src/infrastructure\<close>,
  \<^verbatim>\<open>src/orchestrator\<close>, \<^verbatim>\<open>src/workers\<close>).

  \<^bold>\<open>The program.\<close>  Agents develop software in tasks.  Everything they do is an event on a Redis
  stream.  A consumer (\<^verbatim>\<open>consumer_group.py\<close>) hands events to the manager
  (\<^verbatim>\<open>manager_agent.py\<close>), which keeps tasks and sessions in Redis hashes (\<^verbatim>\<open>task_manager.py\<close>,
  \<^verbatim>\<open>state_machine.py\<close>), commits patches through a guarded Git gateway (\<^verbatim>\<open>git_gateway.py\<close>) and
  starts agents by publishing \<^verbatim>\<open>AGENT_STARTED\<close> events.  A worker pool (\<^verbatim>\<open>workers/pool\<close>) takes
  those, runs the agent registered for them and publishes its result.  People decide at gates
  (\<^verbatim>\<open>hitl_dispatcher.py\<close>, \<^verbatim>\<open>evidence_bundle.py\<close>), and their decisions come back as events.
  Within a phase a coordinator (\<^verbatim>\<open>workers/agents/*/coordinator.py\<close>, \<^verbatim>\<open>tdd_orchestrator.py\<close>) runs several
  agents in turn and submits what they leave to a gate.

  \<^bold>\<open>The theories.\<close>
  \<^item> \<open>Prelude\<close>: exception classes with their bases (\<^verbatim>\<open>core/exceptions.py\<close>), the monad of methods
    that change a state and may raise, and Python's strings, integers and dictionaries.
  \<^item> \<open>Clock\<close>, \<open>Json\<close>: \<^verbatim>\<open>datetime.isoformat\<close> and \<^verbatim>\<open>json.dumps\<close> with their parsers, as far as the
    program uses them, and the round trips.
  \<^item> \<open>Redis_Api\<close>: the client's commands as a record of functions on an unknown server state, the
    contract of each command group as a locale over an abstract key space, and a reference
    server that satisfies them.
  \<^item> \<open>World\<close>: the state of the program (server, repository, clock, fresh identifiers, bound
    tenant), its environment, the tenant context (\<^verbatim>\<open>core/tenant.py\<close>, \<^verbatim>\<open>core/config.py\<close>), and the
    judgements \<open>runs\<close>, \<open>yields\<close> and \<open>keeps\<close> in which effects are stated on key spaces.
  \<^item> \<open>Events\<close>: the event model, its stream format and idempotency keys (\<^verbatim>\<open>core/events.py\<close>).
  \<^item> \<open>Task_State\<close>, \<open>Task_Store\<close>: the state machine, and tasks and sessions in Redis.
  \<^item> \<open>Streams\<close>, \<open>Consumer\<close>: publishing, reading, claiming and acknowledging
    (\<^verbatim>\<open>redis_streams.py\<close>), and the consumer with its recovery.
  \<^item> \<open>Evidence\<close>, \<open>Hitl\<close>: evidence bundles, gate requests, decisions and the expiry sweep.
  \<^item> \<open>Git_Gateway\<close>, \<open>Manager\<close>: the gateway, and the manager's handlers.
  \<^item> \<open>Worker_Pool\<close>: the pool's configuration, consumer, tracker, dispatcher, processing and life
    cycle.
  \<^item> \<open>Rlm_Budget\<close>, \<open>Rlm_Tools\<close>, \<open>Rlm_Explore\<close>: recursive exploration (\<^verbatim>\<open>workers/rlm\<close>): the budget of
    sub-calls and the cache with their interfaces, the tools with the registry, and trigger, agent
    and orchestrator.  The model, its clock, the files and the searching tools are parameters.
  \<^item> \<open>Review_Swarm\<close>: the aggregation of reviews (\<^verbatim>\<open>workers/swarm\<close>), with the similarity ratio of
    \<^verbatim>\<open>difflib\<close> as a recursive function that is proved to terminate.
  \<^item> \<open>Redis_Cmds\<close>: a second view of the client, as the coordination and the review swarm use it:
    commands and pipelines as data, their effects on a data base, the contract \<open>redis_exec\<close> with a
    reference server, and weakest preconditions for methods on a connection.
  \<^item> \<open>Coord_Types\<close>, \<open>Coordination\<close>, \<open>Coord_Effects\<close>, \<open>Coord_Mcp\<close>: the messages between instances
    (\<^verbatim>\<open>infrastructure/coordination\<close>): data and configuration, the client, the effects of its methods
    with the properties that follow, and the tool server with its request loop.
  \<^item> \<open>Swarm_Session\<close>: the sessions of the review swarm: configuration, store, waiting loop and the
    flow from dispatch to report, with sleeps that may be late (\<^verbatim>\<open>workers/swarm/dispatcher.py\<close>, \<^verbatim>\<open>redis_store.py\<close>, \<^verbatim>\<open>session.py\<close>).
  \<^item> \<open>Json_Indent\<close>, \<open>Codecs\<close>: the indented JSON text with its round trip and its recursion limit, and the pattern of all
    dictionaries of data classes; the collection \<open>codec\<close> holds that decoders undo encoders.
  \<^item> \<open>Dev_Models\<close>, \<open>Validation_Models\<close>, \<open>Deploy_Models\<close>, \<open>Design_Models\<close>, \<open>Discovery_Models\<close>: the data of
    the five phases (\<^verbatim>\<open>workers/agents/*/models.py\<close>).
  \<^item> \<open>Phases\<close>: what the coordinators share: documents in results, submission of evidence to a gate,
    and the judgements \<open>returns\<close> (of values) and \<open>costs\<close> (of counts).
  \<^item> \<open>Deploy_Phase\<close>, \<open>Design_Phase\<close>, \<open>Discovery_Phase\<close>: the coordinators of those phases.
  \<^item> \<open>Test_Runner\<close>, \<open>Dev_Texts\<close>, \<open>Tdd_Loop\<close>: reading the output of pytest, the texts and results of
    the development phase with the test-writing agent, and the loop
    (\<^verbatim>\<open>workers/agents/development\<close>).
  \<^item> \<open>Regex\<close>: the part of Python's \<^verbatim>\<open>re\<close> the agents use, a backtracking matcher; a pattern is found
    exactly when it matches somewhere.
  \<^item> \<open>Llm_Answers\<close>: what agents around a language model share: the artifact writer
    (\<^verbatim>\<open>workers/artifacts/writer.py\<close>), the JSON in an answer, guarded execution.
  \<^item> \<open>Security_Agent\<close>, \<open>Validation_Agent\<close>, \<open>Deploy_Agents\<close>: the agents of validation and deployment with
    their patterns, prompts, documents and markdown; \<open>Validation_Flow\<close> and the end of \<open>Deploy_Agents\<close>
    put them into their phases (\<^verbatim>\<open>workers/agents/validation\<close>, \<^verbatim>\<open>workers/agents/deployment\<close>).
  \<^item> \<open>Phase_Configs\<close>: the configurations of the five groups of agents (\<^verbatim>\<open>workers/agents/*/config.py\<close>).

  \<^bold>\<open>Parameters.\<close>  Redis, Git, \<^verbatim>\<open>uuid4\<close> and \<^verbatim>\<open>sha256\<close> are not code of the repository: they are fields
  of the environment \<open>E\<close>.  What a property relies on is a hypothesis that names a contract
  (\<open>redis_hashes\<close>, \<open>redis_strings\<close>, \<open>redis_streams\<close>, \<open>redis_server\<close>, \<open>cmd_world\<close>), which a reference server
  satisfies; each witness runs on that server.  The agents of the phases, pytest and the files they
  leave are parameters of the coordinators.  A contract describes commands that succeed; a
  lost connection is an exception of the client and is covered by the properties that have no
  such hypothesis.  An expiry that is not positive deletes its key at once, as Redis does, and a value
  that is no text and no number is refused by the client before anything is sent.

  \<^bold>\<open>State and time.\<close>  A method is a function from the world to a result, a value or an exception,
  and a new world.  The clock stands still within a method: all its readings are equal; only a sleep
  moves it, and may last longer than was asked.  Steps
  of other processes between two methods are explicit where they matter: \<open>update_state\<close> is
  split at its read and its write, the manager and the pool are step relations.  Time stamps
  are microseconds, integers are unbounded as in Python, strings are lists of characters below
  256.  Logging has no effect.

  \<^bold>\<open>Bounds.\<close>  The parsers recurse on fuel; the round trips show that the length of the text is
  enough.  An exploration runs over the list of its iteration numbers, and is shown to stay
  within them and within its budget.  The development loop recurses on the failures left before
  its limit; the swarm's waiting loop on the seconds it has not yet counted.  The JSON of nested
  documents is written and read within a recursion limit, a parameter, beyond which both raise.  \<open>consume_loop\<close> takes the number of polls made before \<^verbatim>\<open>stop\<close>; every other loop runs
  over a list.

  \<^bold>\<open>What is shown.\<close>  The properties say which transitions each event can cause and that the
  manager alone never completes a task; what becomes of an event for every outcome of its
  handler, and that a key is handled once; that a gate is decided once, that the pending set
  and the statuses agree unless a request had no commit, and that an approval reaches the task; that tenants and the
  repository are left alone by those who must not touch them; that records read back; that an
  exploration does not raise, ends within its bounds and pays for its requests; that merging reviews loses no
  issue; that messages between instances read back while they live, are acknowledged once and found by
  their receiver; that the tool server answers every request; that a review swarm always ends, complete
  or failed, after a bounded number of sleeps; that the phases never raise, when their gates open and when they are passed over, that
  a development is only successful with tests that passed and asks for a bounded number of
  implementations, that documents read back and coverage is exact;
  that with the program's own agents a validated implementation has no recognised test that did not
  pass and, safe lines aside, matches no pattern of the scan, and a deployment is built from answers for what was asked; and where the code loses an update or a note, drops a retry or answers from the wrong
  entry.

  \<^bold>\<open>Not modelled.\<close>  The HTTP interface and its services, the LLM clients, the agents
  of discovery, design and development around their model but for the test-writing one (an agent is a
  value of the worker pool's record), the markdown of the design and discovery documents, the stores behind the HTTP interface, the Slack
  bridge, secrets, metrics and health probes: they call services that are not code of the
  repository.  Details of exceptions other than class and message are left out.
\<close>

section \<open>From a decision to the task\<close>

lemma wf_decided_event:
  assumes "\<not> is_blank (gq_session_id q)" "gq_task_id q \<noteq> []" "valid_datetime (gd_decided_at d)"
    and "utc_offset (gd_decided_at d) \<noteq> None" "gd_conditions d = conditions_json conds"
  shows "wf_event (decided_event q rid d)"
  using assms
  by (simp add: wf_event_def decided_event_def blank_event_def valid_opt_def valid_paths_def conditions_json_def)

lemma approval_stores_complete:
  assumes "redis_hashes (redis_of E) kv" "redis_streams (redis_of E) kv"
    and "ev_type ev = GATE_APPROVED" "ev_task_id ev = Some tid" "tid \<noteq> []" "\<not> is_blank (ev_session_id ev)"
    and "holds_task E (absw kv w) tid t" "t_state t = BLOCKED_HITL" "valid_datetime (utc_datetime (clock_us w))"
  defines "w' \<equiv> snd (handle E (stream_publisher E) ev w)"
  shows "fst (handle E (stream_publisher E) ev w) = Inr handled_ok \<and>
    (\<exists>t'. holds_task E (absw kv w') tid t' \<and> t_state t' = COMPLETE)"
proof -
  let ?t = "t\<lparr>t_state := COMPLETE, t_updated_at := utc_datetime (clock_us w)\<rparr>"
  have "fst (handle E (stream_publisher E) ev w) = Inr handled_ok" and
    em: "emitted (event_channel E) (complete_event E) (complete_task_event ev tid (utc_datetime (clock_us w)))
      (put_task E tid ?t (absw kv w)) (absw kv w')"
    using manager_world.gate_approved_completes [OF manager_world_of [OF assms(1,2)] assms(3-8)]
    by (simp_all add: yields_def w'_def)
  moreover have "wf_task ?t"
    using holds_task_wf [OF assms(7)] assms(9) by (simp add: wf_task_def)
  from holds_put_task [OF this, of E tid "absw kv w"]
  have "holds_task E (put_task E tid ?t (absw kv w)) tid (written_over (task_hash E (absw kv w) tid) ?t)" .
  with emitted_frame(1) [OF em] have "holds_task E (absw kv w') tid (written_over (task_hash E (absw kv w) tid) ?t)"
    by (simp add: holds_task_def task_hash_def same_gates_def)
  ultimately show ?thesis by (auto simp: written_over_def)
qed

text \<open>C3: an approval reaches the task.  Approving a pending request puts an entry on the stream
  which decodes to an event that, whenever a manager handles it while the task of the request
  is blocked at the gate, leaves the task COMPLETE.\<close>

theorem approved_request_completes_task:
  fixes E :: "('x, 'g) env" and w :: "('x, 'g) world" and q :: gate_request
    and rid who why :: string and conds :: "string list option"
  assumes "redis_server (redis_of E) kv" "holds_request E (absw kv w) rid q" "gq_status q = GS_PENDING"
    and "\<not> is_blank (gq_session_id q)" "gq_task_id q \<noteq> []" "valid_datetime (utc_datetime (clock_us w))"
    and "\<And>s. sha256_hex E s \<noteq> []" "ctx_tenant w \<noteq> Some []" "default_tenant (tenant_cfg E) \<noteq> []"
  defines "w1 \<equiv> snd (record_decision E (stream_publisher E) rid True who why conds w)"
  shows "\<exists>i d ev. (i, d) \<in> set (streams (srv (absw kv w1)) (event_channel E (ctx_tenant w))) \<and>
    (\<forall>now. event_of_dict now i d = Inr ev) \<and>
    (\<forall>w2 t. holds_task E (absw kv w2) (gq_task_id q) t \<and> t_state t = BLOCKED_HITL \<and>
        valid_datetime (utc_datetime (clock_us w2)) \<longrightarrow>
      fst (handle E (stream_publisher E) ev w2) = Inr handled_ok \<and>
      (\<exists>t'. holds_task E (absw kv (snd (handle E (stream_publisher E) ev w2))) (gq_task_id q) t' \<and>
            t_state t' = COMPLETE))"
proof -
  define d where "d = \<lparr>gd_decision_id = uuid_at E (Suc (uuid_no w)), gd_request_id = rid, gd_approved = True,
      gd_reviewer = who, gd_reason = why, gd_decided_at = utc_datetime (clock_us w),
      gd_conditions = conditions_json conds\<rparr>"
  define e where "e = complete_event E (ctx_tenant w) (decided_event q rid d)"
  obtain i where i: "(i, to_stream_dict e) \<in> set (streams (srv (absw kv w1)) (event_channel E (ctx_tenant w)))"
    using decision_effect [OF assms(1-4), of True who why conds]
    by (auto simp: yields_def w1_def e_def d_def)
  have "wf_event (decided_event q rid d)"
    by (rule wf_decided_event [OF assms(4,5)])
      (use assms(6) in \<open>simp_all add: d_def\<close>)
  from wf_complete_event [OF this assms(7-9)] have wf: "wf_event e" by (simp add: e_def)
  have c: "redis_hashes (redis_of E) kv" "redis_streams (redis_of E) kv"
    using assms(1) by (simp_all add: redis_server_def)
  let ?ev = "e\<lparr>ev_id := Some i\<rparr>"
  have f: "ev_type ?ev = GATE_APPROVED" "ev_task_id ?ev = Some (gq_task_id q)" "ev_session_id ?ev = gq_session_id q"
    by (simp_all add: e_def decided_event_def d_def blank_event_def)
  then have ns: "\<not> is_blank (ev_session_id ?ev)" using assms(4) by simp
  have "\<forall>w2 t. holds_task E (absw kv w2) (gq_task_id q) t \<and> t_state t = BLOCKED_HITL \<and>
        valid_datetime (utc_datetime (clock_us w2)) \<longrightarrow>
      fst (handle E (stream_publisher E) ?ev w2) = Inr handled_ok \<and>
      (\<exists>t'. holds_task E (absw kv (snd (handle E (stream_publisher E) ?ev w2))) (gq_task_id q) t' \<and>
            t_state t' = COMPLETE)"
    using approval_stores_complete [OF c f(1,2) assms(5) ns] by blast
  with i event_of_dict_to_stream_dict [OF wf] show ?thesis by blast
qed

lemma demo_gates_frame: "clock_us demo_gates = 0 \<and> ctx_tenant demo_gates = None"
proof -
  let ?e = "requested_event ''s1'' ''t1'' HITL_4_CODE (uuid_at demo_env (uuid_no mem_world))
      (eb_bundle_id demo_bundle) (utc_datetime (clock_us mem_world))"
  have "post_init ?e = Inr ?e"
    by (simp add: post_init_def requested_event_def blank_event_def aware_utc_def utc_datetime_def is_blank_def)
  from mem_gates.request_gate [OF demo_evidence(1) this demo_evidence(2), of "''coding''" None]
  obtain a entry where "announced demo_env (event_channel demo_env) (complete_event demo_env) ''t1'' entry ?e a
      (absw mem_abs demo_gates)" "clock_us a = 0" "ctx_tenant a = None"
    by (simp add: yields_def demo_gates_def) (auto simp: mem_world_def)
  with announced_effects(2) [OF this(1)] same_gatesD(3) [OF announced_effects(1) [OF this(1)]]
  show ?thesis by simp
qed

lemma approved_request_completes_task_witness:
  "\<exists>i d. (i, d) \<in> set (streams (srv (absw mem_abs (snd (record_decision demo_env (stream_publisher demo_env)
     ''0'' True ''ann'' ''fine'' None demo_gates)))) (event_channel demo_env (ctx_tenant demo_gates)))"
proof -
  have "clock_us demo_gates = 0" "ctx_tenant demo_gates = None"
    using demo_gates_frame by simp_all
  then show ?thesis
    using approved_request_completes_task [of demo_env mem_abs demo_gates "''0''" demo_request "''ann''" "''fine''" None]
      mem.redis_server_axioms demo_gate
    by (fastforce simp: demo_request_def is_blank_def mem_env_def single_tenant_def)
qed

section \<open>Starting an agent twice\<close>

lemma event_key_complete:
  "ev_idempotency_key e = None \<Longrightarrow> event_key E ((complete_event E tn e)\<lparr>ev_id := i\<rparr>) =
     generate_idempotency_key E (event_type_value (ev_type e)) (ev_session_id e) (ev_task_id e) (ev_epic_id e) None"
  by (cases "generate_idempotency_key E (event_type_value (ev_type e)) (ev_session_id e) (ev_task_id e)
      (ev_epic_id e) None = []")
    (simp_all add: event_key_def complete_event_def inject_key_def stamp_tenant_def truthy_def or_else_def)

text \<open>C11: a task is started once.  The event of a retry after a rejection has the same key as the
  event that dispatched the task, as long as session, task and epic agree; so when a worker
  has claimed the dispatch, the retry is acknowledged and no agent runs.\<close>

theorem retry_after_dispatch_dropped:
  assumes "redis_strings (redis_of E) kv" "redis_streams (redis_of E) kv"
    and "claimed E W (absw kv w) (complete_event E tn (worker_event t agent mode now))"
    and "ev_session_id ev = t_session_id t" "t_task_id t = tid" "t_epic_id t' = t_epic_id t"
  shows "\<exists>w'. process_event E W ags ((complete_event E tn' (retry_event ev tid t' n fb now'))\<lparr>ev_id := Some i\<rparr>)
      (w, p) = (Inr (), (w', p)) \<and> absw kv w' = wk_acked E W i (absw kv w)"
proof -
  let ?r = "(complete_event E tn' (retry_event ev tid t' n fb now'))\<lparr>ev_id := Some i\<rparr>"
  have id: "complete_event E tn (worker_event t agent mode now) =
      (complete_event E tn (worker_event t agent mode now))\<lparr>ev_id := None\<rparr>"
    by (simp add: complete_event_def inject_key_def stamp_tenant_def worker_event_def blank_event_def)
  have "event_key E ?r = event_key E (complete_event E tn (worker_event t agent mode now))"
    using assms(4-6)
    by (subst id) (simp add: event_key_complete retry_event_def worker_event_def blank_event_def)
  with assms(3) have "claimed E W (absw kv w) ?r" by (simp add: claimed_def)
  from worker_world.duplicate_skipped [OF worker_world_of [OF assms(1,2)] this] show ?thesis by simp
qed

lemma retry_after_dispatch_dropped_witness:
  "\<exists>w'. process_event demo_env demo_worker demo_agents
     ((complete_event demo_env None (retry_event (demo_event GATE_REJECTED) ''t1'' (demo_task IN_PROGRESS) 1
        (JStr ''no'') (utc_datetime 9)))\<lparr>ev_id := Some ''2''\<rparr>)
     (snd (check_and_mark_if_new demo_env demo_worker (complete_event demo_env None
        (worker_event (demo_task PENDING) ''coding'' ''normal'' (utc_datetime 0))) mem_world),
      \<lparr>events_processed = 0, events_succeeded = 0, events_failed = 0\<rparr>) =
    (Inr (), (w', \<lparr>events_processed = 0, events_succeeded = 0, events_failed = 0\<rparr>))"
proof -
  let ?e = "complete_event demo_env None (worker_event (demo_task PENDING) ''coding'' ''normal'' (utc_datetime 0))"
  have "\<not> claimed demo_env demo_worker (absw mem_abs mem_world) ?e"
    by (simp add: claimed_def mem_world_def empty_memstore_def mem_abs_def)
  from mem_worker.check_new [OF this]
  have "claimed demo_env demo_worker (absw mem_abs (snd (check_and_mark_if_new demo_env demo_worker ?e mem_world))) ?e"
    by (simp add: runs_def)
  from retry_after_dispatch_dropped [of demo_env mem_abs, OF _ _ this, where ev = "demo_event GATE_REJECTED" and tid = "''t1''"
      and t' = "demo_task IN_PROGRESS" and ags = demo_agents and tn' = None and n = 1 and fb = "JStr ''no''"
      and now' = "utc_datetime 9" and i = "''2''" 
      and p = "\<lparr>events_processed = 0, events_succeeded = 0, events_failed = 0\<rparr>"]
  show ?thesis
    using mem.redis_strings_axioms mem.redis_streams_axioms by (auto simp: demo_task_def)
qed

end
